(* ===== verification/Prelude.thy ===== *)
theory Prelude
  imports "HOL-Library.Word" "HOL-Library.Monad_Syntax"
begin

unbundle bit_operations_syntax

text \<open>
  Shared vocabulary of the development: the machine integers of the C++ code, the
  checked array accesses, the loop combinator and the total-correctness predicate in
  which the component lemmas are stated.

  A C++ operation that mutates objects is a function from the state before to
  \<open>('value \<times> 'state) option\<close> or \<open>'state option\<close>. The value \<open>None\<close> stands for
  an execution that has no meaning in C++ (an access outside an array, a null
  pointer dereference, a division by zero) or that does not return. A lemma
  \<open>ok m Q\<close> therefore says that the execution \<open>m\<close> is free of undefined behaviour,
  returns, and that \<open>Q\<close> holds of what it returns.
\<close>

section \<open>Machine integers\<close>

type_synonym u8 = "8 word"
type_synonym u16 = "16 word"
type_synonym u32 = "32 word"
type_synonym u64 = "64 word"

text \<open>\<open>b ? 1 : 0\<close>, the implicit conversion of a C++ bool.\<close>

definition of_flag :: "bool \<Rightarrow> 'a::len word" where
  "of_flag b = (if b then 1 else 0)"

lemma of_flag_simps [simp]: "of_flag True = 1" "of_flag False = 0"
  by (simp_all add: of_flag_def)

text \<open>\<open>(hi << 8) | lo\<close> on two bytes, and the two bytes of a 16-bit value.\<close>

definition make_word :: "u8 \<Rightarrow> u8 \<Rightarrow> u16" where
  "make_word hi lo = push_bit 8 (ucast hi) OR ucast lo"

definition hi_byte :: "u16 \<Rightarrow> u8" where
  "hi_byte w = ucast (drop_bit 8 w)"

definition lo_byte :: "u16 \<Rightarrow> u8" where
  "lo_byte w = ucast w"

lemma bit_make_word:
  "bit (make_word hi lo) n \<longleftrightarrow> (if n < 8 then bit lo n else n < 16 \<and> bit hi (n - 8))"
  by (auto simp: make_word_def bit_or_iff bit_push_bit_iff bit_ucast_iff
      dest: bit_imp_le_length)

lemma make_word_bytes [simp]: "make_word (hi_byte w) (lo_byte w) = w"
  by (rule bit_word_eqI)
    (auto simp: bit_make_word hi_byte_def lo_byte_def bit_ucast_iff bit_drop_bit_eq)

lemma hi_byte_make_word [simp]: "hi_byte (make_word hi lo) = hi"
  by (rule bit_word_eqI)
    (auto simp: hi_byte_def bit_ucast_iff bit_drop_bit_eq bit_make_word)

lemma lo_byte_make_word [simp]: "lo_byte (make_word hi lo) = lo"
  by (rule bit_word_eqI)
    (auto simp: lo_byte_def bit_ucast_iff bit_make_word)

section \<open>Computations that may have no defined result\<close>

definition ok :: "'a option \<Rightarrow> ('a \<Rightarrow> bool) \<Rightarrow> bool" where
  "ok m Q = (case m of None \<Rightarrow> False | Some a \<Rightarrow> Q a)"

named_theorems ok_spec \<open>total-correctness facts of the operations\<close>

lemma ok_None [simp]: "ok None Q \<longleftrightarrow> False"
  and ok_Some [simp]: "ok (Some a) Q \<longleftrightarrow> Q a"
  by (simp_all add: ok_def)

lemma ok_bind [simp]: "ok (Option.bind m f) Q \<longleftrightarrow> ok m (\<lambda>a. ok (f a) Q)"
  by (cases m) simp_all

lemma ok_if [simp]: "ok (if b then m else n) Q \<longleftrightarrow> (if b then ok m Q else ok n Q)"
  by simp

lemma ok_ifI: "(b \<Longrightarrow> ok m Q) \<Longrightarrow> (\<not> b \<Longrightarrow> ok n Q) \<Longrightarrow> ok (if b then m else n) Q"
  by simp

lemma ok_bindI: "ok m P \<Longrightarrow> (\<And>a. P a \<Longrightarrow> ok (f a) Q) \<Longrightarrow> ok (Option.bind m f) Q"
  by (cases m) simp_all

lemma ok_iff: "ok m Q \<longleftrightarrow> (\<exists>a. m = Some a \<and> Q a)"
  by (cases m) simp_all

lemma ok_map_option [simp]: "ok (map_option f m) Q \<longleftrightarrow> ok m (\<lambda>a. Q (f a))"
  by (cases m) simp_all

lemma ok_mono: "ok m P \<Longrightarrow> (\<And>a. P a \<Longrightarrow> Q a) \<Longrightarrow> ok m Q"
  by (cases m) simp_all

lemma ok_conj: "ok m P \<Longrightarrow> ok m Q \<Longrightarrow> ok m (\<lambda>a. P a \<and> Q a)"
  by (cases m) simp_all

lemma ok_SomeD: "ok m Q \<Longrightarrow> m = Some a \<Longrightarrow> Q a"
  by simp

section \<open>Arrays\<close>

text \<open>Reading and writing an element of a fixed array or of a vector's storage.\<close>

definition rd :: "'a list \<Rightarrow> nat \<Rightarrow> 'a option" where
  "rd xs i = (if i < length xs then Some (xs ! i) else None)"

definition wr :: "'a list \<Rightarrow> nat \<Rightarrow> 'a \<Rightarrow> 'a list option" where
  "wr xs i v = (if i < length xs then Some (xs[i := v]) else None)"

lemma ok_rd [simp]: "ok (rd xs i) Q \<longleftrightarrow> i < length xs \<and> Q (xs ! i)"
  by (simp add: rd_def)

lemma ok_wr [simp]: "ok (wr xs i v) Q \<longleftrightarrow> i < length xs \<and> Q (xs[i := v])"
  by (simp add: wr_def)

lemma rd_in [simp]: "i < length xs \<Longrightarrow> rd xs i = Some (xs ! i)"
  by (simp add: rd_def)

lemma wr_in [simp]: "i < length xs \<Longrightarrow> wr xs i v = Some (xs[i := v])"
  by (simp add: wr_def)

lemma rd_out [simp]: "length xs \<le> i \<Longrightarrow> rd xs i = None"
  by (simp add: rd_def)

lemma wr_out [simp]: "length xs \<le> i \<Longrightarrow> wr xs i v = None"
  by (simp add: wr_def)

text \<open>\<open>memcpy\<close> of \<open>data\<close> to position \<open>pos\<close> of an array.\<close>

definition copy_at :: "nat \<Rightarrow> 'a list \<Rightarrow> 'a list \<Rightarrow> 'a list option" where
  "copy_at pos data xs =
     (if pos + length data \<le> length xs
      then Some (take pos xs @ data @ drop (pos + length data) xs) else None)"

lemma ok_copy_at [simp]:
  "ok (copy_at pos data xs) Q \<longleftrightarrow> pos + length data \<le> length xs \<and>
     Q (take pos xs @ data @ drop (pos + length data) xs)"
  by (simp add: copy_at_def)

section \<open>Loops\<close>

text \<open>\<open>while (b) c\<close>: \<open>None\<close> when an iteration has no result or the loop does not end.\<close>

partial_function (option) while_loop ::
  "('s \<Rightarrow> bool) \<Rightarrow> ('s \<Rightarrow> 's option) \<Rightarrow> 's \<Rightarrow> 's option" where
  "while_loop b c s = (if b s then Option.bind (c s) (while_loop b c) else Some s)"

lemma while_loop_exit: "\<not> b s \<Longrightarrow> while_loop b c s = Some s"
  by (subst while_loop.simps) simp

lemma while_loop_step: "b s \<Longrightarrow> while_loop b c s = Option.bind (c s) (while_loop b c)"
  by (subst while_loop.simps) simp

text \<open>The total-correctness rule: an invariant and a measure into the naturals.\<close>

lemma while_loop_ok:
  fixes m :: "'s \<Rightarrow> nat"
  assumes inv: "I s"
    and body: "\<And>s. I s \<Longrightarrow> b s \<Longrightarrow> ok (c s) (\<lambda>s'. I s' \<and> m s' < m s)"
    and post: "\<And>s. I s \<Longrightarrow> \<not> b s \<Longrightarrow> Q s"
  shows "ok (while_loop b c s) Q"
  using inv
proof (induction "m s" arbitrary: s rule: less_induct)
  case less
  show ?case
  proof (cases "b s")
    case False
    then show ?thesis using post less.prems by (simp add: while_loop_exit)
  next
    case True
    from body [OF less.prems True] obtain s' where
      s': "c s = Some s'" "I s'" "m s' < m s" by (auto simp: ok_iff)
    then have "ok (while_loop b c s') Q" by (intro less.hyps)
    with True s'(1) show ?thesis by (simp add: while_loop_step)
  qed
qed

text \<open>
  \<open>while (f()) body\<close> where the test itself changes the state: a round gives true when
  the test held (and the body has run), false when the loop is over.
\<close>

partial_function (option) run_while :: "('s \<Rightarrow> (bool \<times> 's) option) \<Rightarrow> 's \<Rightarrow> 's option" where
  "run_while f s = Option.bind (f s) (\<lambda>(again, s'). if again then run_while f s' else Some s')"

lemma run_while_ok:
  fixes m :: "'s \<Rightarrow> nat"
  assumes inv: "I s"
    and body: "\<And>s. I s \<Longrightarrow> ok (f s) (\<lambda>(again, s'). if again then I s' \<and> m s' < m s else Q s')"
  shows "ok (run_while f s) Q"
  using inv
proof (induction "m s" arbitrary: s rule: less_induct)
  case less
  from body [OF less.prems] obtain b s' where
    s': "f s = Some (b, s')" "if b then I s' \<and> m s' < m s else Q s'" by (auto simp: ok_iff)
  show ?case
  proof (cases b)
    case True
    then have "ok (run_while f s') Q" using s'(2) by (intro less.hyps) simp_all
    with True s'(1) show ?thesis by (subst run_while.simps) simp
  next
    case False
    with s' show ?thesis by (subst run_while.simps) simp
  qed
qed

text \<open>What every iteration keeps, the loop keeps; nothing is said of termination here.\<close>

lemma while_loop_inv:
  assumes "while_loop b c s = Some t" "I s"
    and step: "\<And>s s'. I s \<Longrightarrow> b s \<Longrightarrow> c s = Some s' \<Longrightarrow> I s'"
  shows "I t"
proof -
  have "(\<forall>s s'. I s \<longrightarrow> b s \<longrightarrow> c s = Some s' \<longrightarrow> I s') \<longrightarrow> I s \<longrightarrow> I t"
  proof (rule while_loop.raw_induct [OF _ assms(1)], intro impI)
    fix rec b c s t
    assume IH: "\<And>b c s t. rec b c s = Some t \<Longrightarrow>
        (\<forall>s s'. I s \<longrightarrow> b s \<longrightarrow> c s = Some s' \<longrightarrow> I s') \<longrightarrow> I s \<longrightarrow> I t"
      and r: "(if b s then Option.bind (c s) (rec b c) else Some s) = Some t"
      and c: "\<forall>s s'. I s \<longrightarrow> b s \<longrightarrow> c s = Some s' \<longrightarrow> I s'" and "I s"
    show "I t"
    proof (cases "b s")
      case True
      with r obtain s' where s': "c s = Some s'" "rec b c s' = Some t" by (auto simp: bind_eq_Some_conv)
      then have "I s'" using c True \<open>I s\<close> by blast
      with IH [OF s'(2)] c show ?thesis by blast
    qed (use r \<open>I s\<close> in simp)
  qed
  then show ?thesis using assms(2) step by blast
qed

lemma while_loop_end:
  assumes "while_loop b c s = Some t"
  shows "\<not> b t"
proof (rule while_loop.raw_induct [OF _ assms])
  fix rec b c s t
  assume "\<And>b c s t. rec b c s = Some t \<Longrightarrow> \<not> b t"
    and "(if b s then Option.bind (c s) (rec b c) else Some s) = Some t"
  then show "\<not> b t" by (auto simp: bind_eq_Some_conv split: if_splits)
qed

lemma run_while_inv:
  assumes "run_while f s = Some t" "I s"
    and step: "\<And>s s' b. I s \<Longrightarrow> f s = Some (b, s') \<Longrightarrow> I s'"
  shows "I t"
proof -
  have "(\<forall>s b s'. I s \<longrightarrow> f s = Some (b, s') \<longrightarrow> I s') \<longrightarrow> I s \<longrightarrow> I t"
  proof (rule run_while.raw_induct [OF _ assms(1)], intro impI)
    fix rec f s t
    assume IH: "\<And>f s t. rec f s = Some t \<Longrightarrow> (\<forall>s b s'. I s \<longrightarrow> f s = Some (b, s') \<longrightarrow> I s') \<longrightarrow> I s \<longrightarrow> I t"
      and r: "Option.bind (f s) (\<lambda>(again, s'). if again then rec f s' else Some s') = Some t"
      and f: "\<forall>s b s'. I s \<longrightarrow> f s = Some (b, s') \<longrightarrow> I s'" and "I s"
    from r obtain again s' where s': "f s = Some (again, s')"
      "(if again then rec f s' else Some s') = Some t" by (auto simp: bind_eq_Some_conv)
    then have "I s'" using f \<open>I s\<close> by blast
    show "I t"
    proof (cases again)
      case True
      with s'(2) have "rec f s' = Some t" by simp
      with IH [OF this] f \<open>I s'\<close> show ?thesis by blast
    qed (use s'(2) \<open>I s'\<close> in simp)
  qed
  then show ?thesis using assms(2) step by blast
qed

text \<open>\<open>for\<close> over a list of indices.\<close>

fun for_each :: "('i \<Rightarrow> 's \<Rightarrow> 's option) \<Rightarrow> 'i list \<Rightarrow> 's \<Rightarrow> 's option" where
  "for_each f [] s = Some s"
| "for_each f (i # is) s = Option.bind (f i s) (for_each f is)"

lemma for_each_Nil [simp]: "for_each f [] = Some"
  by (rule ext) simp

lemma for_each_append: "for_each f (xs @ ys) s = Option.bind (for_each f xs s) (for_each f ys)"
  by (induction xs arbitrary: s) (auto simp: bind_eq_None_conv split: bind_splits)

lemma for_each_ok:
  assumes "I s"
    and "\<And>i s. i \<in> set is \<Longrightarrow> I s \<Longrightarrow> ok (f i s) I"
  shows "ok (for_each f is s) I"
  using assms
proof (induction "is" arbitrary: s)
  case Nil
  then show ?case by simp
next
  case (Cons i "is")
  obtain s' where s': "f i s = Some s'" "I s'"
    using Cons.prems(2) [of i s] Cons.prems(1) by (auto simp: ok_iff)
  have "ok (for_each f is s') I"
    by (rule Cons.IH [OF s'(2)]) (simp add: Cons.prems(2))
  with s'(1) show ?case by simp
qed

section \<open>Words\<close>

lemma word_and_le_mask: "x AND m \<le> (m :: 'a::len word)"
  by (rule word_and_le1)

lemma unat_and_le: "unat (x AND m :: 'a::len word) \<le> unat m"
  by (simp add: word_le_nat_alt [symmetric] word_and_le1)

lemma unat_and_less: "unat m < n \<Longrightarrow> unat (x AND m :: 'a::len word) < n"
  using unat_and_le [of x m] by simp

lemma unat_shift_right: "unat (drop_bit n w) = unat (w :: 'a::len word) div 2 ^ n"
  unfolding unsigned_drop_bit_eq by (simp add: drop_bit_eq_div take_bit_nat_eq_self)

end
