(* ===== verification/Nes_Types.thy ===== *)
theory Nes_Types
  imports Prelude
begin

text \<open>
  The plain data types of \<^verbatim>\<open>src/systems/nes/nes_types.h\<close> and the address ranges a memory
  handler registers (\<^verbatim>\<open>MemoryRanges\<close> of \<^verbatim>\<open>ines_memory_handler.h\<close>). C++ enums are
  datatypes, structs are records whose fields carry the struct's short name as prefix.
\<close>

section \<open>Enumerations\<close>

datatype audio_channel =
  SQUARE1 | SQUARE2 | TRIANGLE | NOISE | DMC_CHANNEL | FDS | MMC5 | VRC6 | VRC7
| NAMCO163 | SUNSOFT5B

fun channel_index :: "audio_channel \<Rightarrow> nat" where
  "channel_index SQUARE1 = 0"
| "channel_index SQUARE2 = 1"
| "channel_index TRIANGLE = 2"
| "channel_index NOISE = 3"
| "channel_index DMC_CHANNEL = 4"
| "channel_index FDS = 5"
| "channel_index MMC5 = 6"
| "channel_index VRC6 = 7"
| "channel_index VRC7 = 8"
| "channel_index NAMCO163 = 9"
| "channel_index SUNSOFT5B = 10"

lemma channel_index_less [simp]: "channel_index c < 11"
  by (cases c) simp_all

text \<open>The bits of \<^verbatim>\<open>NesCpuState::irq_flag\<close>.\<close>

definition irq_EXTERNAL :: u8 where "irq_EXTERNAL = 0x01"
definition irq_FRAME_COUNTER :: u8 where "irq_FRAME_COUNTER = 0x02"
definition irq_DMC :: u8 where "irq_DMC = 0x04"

lemmas irq_source_defs = irq_EXTERNAL_def irq_FRAME_COUNTER_def irq_DMC_def

datatype memory_operation = OP_READ | OP_WRITE | OP_ANY

definition op_reads :: "memory_operation \<Rightarrow> bool" where
  "op_reads o1 \<longleftrightarrow> o1 = OP_READ \<or> o1 = OP_ANY"

definition op_writes :: "memory_operation \<Rightarrow> bool" where
  "op_writes o1 \<longleftrightarrow> o1 = OP_WRITE \<or> o1 = OP_ANY"

datatype mirroring_type = HORIZONTAL | VERTICAL | SCREEN_A_ONLY | SCREEN_B_ONLY | FOUR_SCREENS

text \<open>The access rights of a 256-byte page; the C++ enum is the two-bit set of them.\<close>

datatype memory_access = NO_ACCESS | READ | WRITE | READ_WRITE

fun can_read :: "memory_access \<Rightarrow> bool" where
  "can_read READ = True"
| "can_read READ_WRITE = True"
| "can_read _ = False"

fun can_write :: "memory_access \<Rightarrow> bool" where
  "can_write WRITE = True"
| "can_write READ_WRITE = True"
| "can_write _ = False"

datatype chr_memory_type = CHR_DEFAULT | CHR_ROM | CHR_RAM | NAMETABLE_RAM | CHR_MAPPER_RAM

datatype bus_conflict_type = BUS_DEFAULT | BUS_YES | BUS_NO

datatype game_input_type = UNSPECIFIED | STANDARD_CONTROLLERS | VS_ZAPPER | ZAPPER

datatype vs_ppu_model =
  PPU_2C02 | PPU_2C03 | PPU_2C04A | PPU_2C04B | PPU_2C04C | PPU_2C04D
| PPU_2C05A | PPU_2C05B | PPU_2C05C | PPU_2C05D | PPU_2C05E

section \<open>Structs\<close>

record ppu_status =
  st_sprite_overflow :: bool
  st_sprite_zero_hit :: bool
  st_vertical_blank :: bool

record ppu_control =
  ct_background_pattern_addr :: u16
  ct_sprite_pattern_addr :: u16
  ct_vertical_write :: bool
  ct_large_sprites :: bool
  ct_nmi_on_vertical_blank :: bool

record ppu_mask =
  mk_grayscale :: bool
  mk_background_mask :: bool
  mk_sprite_mask :: bool
  mk_background_enabled :: bool
  mk_sprites_enabled :: bool
  mk_intensify_red :: bool
  mk_intensify_green :: bool
  mk_intensify_blue :: bool

record tile_info =
  ti_tile_addr :: u16
  ti_low_byte :: u8
  ti_high_byte :: u8
  ti_palette_offset :: u8

record sprite_info =
  sp_sprite_x :: u8
  sp_low_byte :: u8
  sp_high_byte :: u8
  sp_palette_offset :: u8
  sp_horizontal_mirror :: bool
  sp_background_priority :: bool

text \<open>The default member initialisers.\<close>

definition status0 :: ppu_status where
  "status0 = \<lparr>st_sprite_overflow = False, st_sprite_zero_hit = False, st_vertical_blank = False\<rparr>"

definition control0 :: ppu_control where
  "control0 = \<lparr>ct_background_pattern_addr = 0, ct_sprite_pattern_addr = 0,
     ct_vertical_write = False, ct_large_sprites = False, ct_nmi_on_vertical_blank = False\<rparr>"

definition mask0 :: ppu_mask where
  "mask0 = \<lparr>mk_grayscale = False, mk_background_mask = False, mk_sprite_mask = False,
     mk_background_enabled = False, mk_sprites_enabled = False, mk_intensify_red = False,
     mk_intensify_green = False, mk_intensify_blue = False\<rparr>"

definition tile0 :: tile_info where
  "tile0 = \<lparr>ti_tile_addr = 0, ti_low_byte = 0, ti_high_byte = 0, ti_palette_offset = 0\<rparr>"

definition sprite0 :: sprite_info where
  "sprite0 = \<lparr>sp_sprite_x = 0, sp_low_byte = 0, sp_high_byte = 0, sp_palette_offset = 0,
     sp_horizontal_mirror = False, sp_background_priority = False\<rparr>"

text \<open>The bits of the processor status register.\<close>

definition ps_CARRY :: u8 where "ps_CARRY = 0x01"
definition ps_ZERO :: u8 where "ps_ZERO = 0x02"
definition ps_INTERRUPT :: u8 where "ps_INTERRUPT = 0x04"
definition ps_DECIMAL :: u8 where "ps_DECIMAL = 0x08"
definition ps_BREAK :: u8 where "ps_BREAK = 0x10"
definition ps_RESERVED :: u8 where "ps_RESERVED = 0x20"
definition ps_OVERFLOW :: u8 where "ps_OVERFLOW = 0x40"
definition ps_NEGATIVE :: u8 where "ps_NEGATIVE = 0x80"

lemmas ps_defs = ps_CARRY_def ps_ZERO_def ps_INTERRUPT_def ps_DECIMAL_def ps_BREAK_def
  ps_RESERVED_def ps_OVERFLOW_def ps_NEGATIVE_def

text \<open>The header of a ROM image; the \<open>int\<close> members hold small non-negative values.\<close>

record rom_info =
  ri_bus_conflicts :: bus_conflict_type
  ri_input_type :: game_input_type
  ri_mapper_number :: nat
  ri_prg_banks :: nat
  ri_chr_banks :: nat
  ri_has_battery :: bool
  ri_mirroring :: mirroring_type
  ri_has_trainer :: bool
  ri_submapper_id :: int
  ri_work_ram_size :: int
  ri_chip :: string
  ri_is_vs_system :: bool
  ri_use_vs_palette :: bool
  ri_vs_ppu_model :: vs_ppu_model

definition rom_info0 :: rom_info where
  "rom_info0 = \<lparr>ri_bus_conflicts = BUS_DEFAULT, ri_input_type = UNSPECIFIED,
     ri_mapper_number = 0, ri_prg_banks = 0, ri_chr_banks = 0, ri_has_battery = False,
     ri_mirroring = HORIZONTAL, ri_has_trainer = False, ri_submapper_id = 0,
     ri_work_ram_size = 0, ri_chip = '''', ri_is_vs_system = False,
     ri_use_vs_palette = False, ri_vs_ppu_model = PPU_2C02\<rparr>"

section \<open>Address ranges of a memory handler\<close>

record memory_ranges =
  mr_read :: "u16 list"
  mr_write :: "u16 list"
  mr_allow_override :: bool

definition ranges0 :: memory_ranges where
  "ranges0 = \<lparr>mr_read = [], mr_write = [], mr_allow_override = False\<rparr>"

text \<open>The addresses from \<open>start\<close> to \<open>end\<close>, in order (the body of both loops).\<close>

definition addr_range :: "u16 \<Rightarrow> u16 \<Rightarrow> u16 list" where
  "addr_range start end = map of_nat [unat start..<Suc (unat end)]"

definition add_handler :: "memory_operation \<Rightarrow> u16 \<Rightarrow> u16 \<Rightarrow> memory_ranges \<Rightarrow> memory_ranges" where
  "add_handler operation start end0 r =
     (let end1 = (if end0 = 0 then start else end0);
          r1 = (if op_reads operation
                then r\<lparr>mr_read := mr_read r @ addr_range start end1\<rparr> else r)
      in if op_writes operation
         then r1\<lparr>mr_write := mr_write r1 @ addr_range start end1\<rparr> else r1)"

lemma set_addr_range: "set (addr_range start end1) = {a. start \<le> a \<and> a \<le> end1}"
proof (intro set_eqI iffI)
  fix a
  assume "a \<in> set (addr_range start end1)"
  then obtain n where n: "unat start \<le> n" "n \<le> unat end1" "a = of_nat n"
    by (auto simp: addr_range_def less_Suc_eq_le)
  moreover have "n < 2 ^ 16" using n(2) unsigned_less [where 'a = nat, of end1] by simp
  ultimately show "a \<in> {a. start \<le> a \<and> a \<le> end1}"
    by (simp add: word_le_nat_alt unat_of_nat)
next
  fix a
  assume "a \<in> {a. start \<le> a \<and> a \<le> end1}"
  then have "unat a \<in> set [unat start..<Suc (unat end1)]"
    by (auto simp: word_le_nat_alt)
  then have "of_nat (unat a) \<in> set (addr_range start end1)"
    unfolding addr_range_def set_map by (rule imageI)
  then show "a \<in> set (addr_range start end1)" by simp
qed

lemma mr_add_handler [simp]:
  "set (mr_read (add_handler op0 s e r)) =
     set (mr_read r) \<union> (if op_reads op0 then {a. s \<le> a \<and> a \<le> (if e = 0 then s else e)} else {})"
  "set (mr_write (add_handler op0 s e r)) =
     set (mr_write r) \<union> (if op_writes op0 then {a. s \<le> a \<and> a \<le> (if e = 0 then s else e)} else {})"
  "mr_allow_override (add_handler op0 s e r) = mr_allow_override r"
  by (simp_all add: add_handler_def Let_def set_addr_range)

lemma op_simps [simp]:
  "op_reads OP_READ" "\<not> op_reads OP_WRITE" "op_reads OP_ANY"
  "\<not> op_writes OP_READ" "op_writes OP_WRITE" "op_writes OP_ANY"
  by (simp_all add: op_reads_def op_writes_def)

end
