(* ===== verification/Cpu_State.thy ===== *)
theory Cpu_State
  imports Nes_Types
begin

text \<open>
  The state of \<^verbatim>\<open>NesCpu\<close> (\<^verbatim>\<open>src/systems/nes/nes_cpu.h\<close>) and the part of it that the
  other components reach: the interrupt lines and the DMA requests. The master clock is
  a natural number: \<^verbatim>\<open>uint64_t\<close> would wrap only after 27,000 years of emulated time.
  The cycle counter keeps its width, because \<^verbatim>\<open>reset\<close> starts it at \<^verbatim>\<open>(uint64_t)-1\<close>.
\<close>

datatype addr_mode =
  AM_NONE | AM_ACC | AM_IMP | AM_IMM | AM_REL
| AM_ZERO | AM_ABS | AM_ZERO_X | AM_ZERO_Y
| AM_IND | AM_IND_X | AM_IND_Y | AM_IND_YW
| AM_ABS_X | AM_ABS_XW | AM_ABS_Y | AM_ABS_YW
| AM_OTHER

record cpu =
  cpu_cycle_count :: u64
  cpu_pc :: u16
  cpu_sp :: u8
  cpu_a :: u8
  cpu_x :: u8
  cpu_y :: u8
  cpu_ps :: u8
  cpu_irq_flag :: u8
  cpu_nmi_flag :: bool
  cpu_master_clock :: nat
  cpu_ppu_offset :: u8
  cpu_start_clock_count :: u8
  cpu_end_clock_count :: u8
  cpu_operand :: u16
  cpu_inst_addr_mode :: addr_mode
  cpu_need_halt :: bool
  cpu_sprite_dma_transfer :: bool
  cpu_dmc_dma_running :: bool
  cpu_abort_dmc_dma :: bool
  cpu_need_dummy_read :: bool
  cpu_sprite_dma_offset :: u8
  cpu_write_cycle :: bool
  cpu_irq_mask :: u8
  cpu_prev_run_irq :: bool
  cpu_run_irq :: bool
  cpu_prev_nmi_flag :: bool
  cpu_prev_need_nmi :: bool
  cpu_need_nmi :: bool
  cpu_is_dmc_dma_read :: bool

text \<open>The member initialisers of \<^verbatim>\<open>NesCpu\<close> and \<^verbatim>\<open>NesCpuState\<close>.\<close>

definition cpu0 :: cpu where
  "cpu0 = \<lparr>cpu_cycle_count = 0, cpu_pc = 0, cpu_sp = 0, cpu_a = 0, cpu_x = 0, cpu_y = 0,
     cpu_ps = 0, cpu_irq_flag = 0, cpu_nmi_flag = False, cpu_master_clock = 0,
     cpu_ppu_offset = 1, cpu_start_clock_count = 6, cpu_end_clock_count = 6,
     cpu_operand = 0, cpu_inst_addr_mode = AM_NONE, cpu_need_halt = False,
     cpu_sprite_dma_transfer = False, cpu_dmc_dma_running = False,
     cpu_abort_dmc_dma = False, cpu_need_dummy_read = False, cpu_sprite_dma_offset = 0,
     cpu_write_cycle = False, cpu_irq_mask = 0xFF, cpu_prev_run_irq = False,
     cpu_run_irq = False, cpu_prev_nmi_flag = False, cpu_prev_need_nmi = False,
     cpu_need_nmi = False, cpu_is_dmc_dma_read = False\<rparr>"

section \<open>Interrupt lines\<close>

definition set_nmi_flag :: "cpu \<Rightarrow> cpu" where
  "set_nmi_flag c = c\<lparr>cpu_nmi_flag := True\<rparr>"

definition clear_nmi_flag :: "cpu \<Rightarrow> cpu" where
  "clear_nmi_flag c = c\<lparr>cpu_nmi_flag := False\<rparr>"

definition set_irq_source :: "u8 \<Rightarrow> cpu \<Rightarrow> cpu" where
  "set_irq_source source c = c\<lparr>cpu_irq_flag := cpu_irq_flag c OR source\<rparr>"

definition clear_irq_source :: "u8 \<Rightarrow> cpu \<Rightarrow> cpu" where
  "clear_irq_source source c = c\<lparr>cpu_irq_flag := cpu_irq_flag c AND NOT source\<rparr>"

definition has_irq_source :: "u8 \<Rightarrow> cpu \<Rightarrow> bool" where
  "has_irq_source source c \<longleftrightarrow> cpu_irq_flag c AND source \<noteq> 0"

section \<open>DMA requests\<close>

definition run_dma_transfer :: "u8 \<Rightarrow> cpu \<Rightarrow> cpu" where
  "run_dma_transfer offset_value c =
     c\<lparr>cpu_sprite_dma_transfer := True, cpu_sprite_dma_offset := offset_value,
       cpu_need_halt := True\<rparr>"

definition start_dmc_transfer :: "cpu \<Rightarrow> cpu" where
  "start_dmc_transfer c =
     c\<lparr>cpu_dmc_dma_running := True, cpu_need_dummy_read := True, cpu_need_halt := True\<rparr>"

definition stop_dmc_transfer :: "cpu \<Rightarrow> cpu" where
  "stop_dmc_transfer c =
     (if cpu_dmc_dma_running c then
        if cpu_need_halt c then
          c\<lparr>cpu_dmc_dma_running := False, cpu_need_dummy_read := False, cpu_need_halt := False\<rparr>
        else c\<lparr>cpu_abort_dmc_dma := True\<rparr>
      else c)"

lemmas cpu_line_defs = set_nmi_flag_def clear_nmi_flag_def set_irq_source_def
  clear_irq_source_def has_irq_source_def run_dma_transfer_def start_dmc_transfer_def
  stop_dmc_transfer_def

section \<open>Lemmas on the lines\<close>

text \<open>The sources are bits of one register: setting or clearing one leaves the others.\<close>

lemma has_irq_bit: "has_irq_source s c \<longleftrightarrow> (\<exists>n < 8. bit (cpu_irq_flag c) n \<and> bit s n)"
  by (auto simp: has_irq_source_def bit_eq_iff bit_and_iff)

lemma disjoint_lines: "s AND r = (0 :: u8) \<longleftrightarrow> (\<forall>n < 8. bit s n \<longrightarrow> \<not> bit r n)"
  by (auto simp: bit_eq_iff bit_and_iff)

lemma has_set_irq_source:
  "has_irq_source s (set_irq_source r c) \<longleftrightarrow> has_irq_source s c \<or> r AND s \<noteq> 0"
  by (auto simp: has_irq_bit set_irq_source_def bit_or_iff disjoint_lines)

lemma has_clear_irq_source:
  "s AND r = 0 \<Longrightarrow> has_irq_source s (clear_irq_source r c) \<longleftrightarrow> has_irq_source s c"
  "\<not> has_irq_source r (clear_irq_source r c)"
  by (auto simp: has_irq_bit clear_irq_source_def bit_and_iff bit_not_iff disjoint_lines)

text \<open>The frame of the line operations: no register changes.\<close>

lemma line_frame [simp]:
  "cpu_pc (set_irq_source s c) = cpu_pc c" "cpu_pc (clear_irq_source s c) = cpu_pc c"
  "cpu_cycle_count (set_irq_source s c) = cpu_cycle_count c"
  "cpu_cycle_count (clear_irq_source s c) = cpu_cycle_count c"
  "cpu_cycle_count (set_nmi_flag c) = cpu_cycle_count c"
  "cpu_cycle_count (clear_nmi_flag c) = cpu_cycle_count c"
  "cpu_cycle_count (start_dmc_transfer c) = cpu_cycle_count c"
  "cpu_cycle_count (stop_dmc_transfer c) = cpu_cycle_count c"
  "cpu_cycle_count (run_dma_transfer v c) = cpu_cycle_count c"
  "cpu_master_clock (set_irq_source s c) = cpu_master_clock c"
  "cpu_master_clock (clear_irq_source s c) = cpu_master_clock c"
  "cpu_master_clock (set_nmi_flag c) = cpu_master_clock c"
  "cpu_master_clock (clear_nmi_flag c) = cpu_master_clock c"
  "cpu_master_clock (start_dmc_transfer c) = cpu_master_clock c"
  "cpu_master_clock (stop_dmc_transfer c) = cpu_master_clock c"
  "cpu_master_clock (run_dma_transfer v c) = cpu_master_clock c"
  by (simp_all add: cpu_line_defs)

text \<open>
  What the line operations leave alone, as one value: the CPU with its lines and
  requests blanked out.
\<close>

definition cpu_core :: "cpu \<Rightarrow> cpu" where
  "cpu_core c = c\<lparr>cpu_irq_flag := 0, cpu_nmi_flag := False, cpu_need_halt := False,
     cpu_sprite_dma_transfer := False, cpu_dmc_dma_running := False, cpu_abort_dmc_dma := False,
     cpu_need_dummy_read := False, cpu_sprite_dma_offset := 0\<rparr>"

lemma cpu_core_lines [simp]:
  "cpu_core (set_irq_source s c) = cpu_core c" "cpu_core (clear_irq_source s c) = cpu_core c"
  "cpu_core (set_nmi_flag c) = cpu_core c" "cpu_core (clear_nmi_flag c) = cpu_core c"
  "cpu_core (start_dmc_transfer c) = cpu_core c" "cpu_core (stop_dmc_transfer c) = cpu_core c"
  "cpu_core (run_dma_transfer v c) = cpu_core c"
  by (simp_all add: cpu_line_defs cpu_core_def)

lemma cpu_coreD:
  assumes "cpu_core c = cpu_core d"
  shows "cpu_cycle_count c = cpu_cycle_count d" "cpu_pc c = cpu_pc d" "cpu_sp c = cpu_sp d"
    "cpu_a c = cpu_a d" "cpu_x c = cpu_x d" "cpu_y c = cpu_y d" "cpu_ps c = cpu_ps d"
    "cpu_master_clock c = cpu_master_clock d" "cpu_ppu_offset c = cpu_ppu_offset d"
    "cpu_start_clock_count c = cpu_start_clock_count d" "cpu_end_clock_count c = cpu_end_clock_count d"
    "cpu_operand c = cpu_operand d" "cpu_inst_addr_mode c = cpu_inst_addr_mode d"
  using assms by (cases c; cases d; simp add: cpu_core_def)+

text \<open>What the interrupt lines alone leave: the DMA requests are kept as well.\<close>

definition cpu_quiet :: "cpu \<Rightarrow> cpu" where
  "cpu_quiet c = c\<lparr>cpu_irq_flag := 0, cpu_nmi_flag := False\<rparr>"

lemma cpu_quiet_lines [simp]:
  "cpu_quiet (set_irq_source s c) = cpu_quiet c" "cpu_quiet (clear_irq_source s c) = cpu_quiet c"
  "cpu_quiet (set_nmi_flag c) = cpu_quiet c" "cpu_quiet (clear_nmi_flag c) = cpu_quiet c"
  by (simp_all add: cpu_line_defs cpu_quiet_def)

lemma cpu_quietD:
  assumes "cpu_quiet c = cpu_quiet d"
  shows "cpu_core c = cpu_core d" "cpu_sprite_dma_transfer c = cpu_sprite_dma_transfer d"
    "cpu_sprite_dma_offset c = cpu_sprite_dma_offset d" "cpu_dmc_dma_running c = cpu_dmc_dma_running d"
    "cpu_need_halt c = cpu_need_halt d" "cpu_need_dummy_read c = cpu_need_dummy_read d"
    "cpu_abort_dmc_dma c = cpu_abort_dmc_dma d"
  using assms by (cases c; cases d; simp add: cpu_quiet_def cpu_core_def)+

end
