(* ===== verification/Mapper_State.thy ===== *)
theory Mapper_State
  imports Cpu_State "HOL-Library.Signed_Division"
begin

text \<open>
  The state of a cartridge: the members of \<^verbatim>\<open>BaseMapper\<close>
  (\<^verbatim>\<open>src/systems/nes/mappers/base_mapper.h\<close>) and, in \<open>m_chip\<close>, the members that the
  subclass of each board adds. The constructor of \<open>m_chip\<close> plays the part of the
  virtual table: the virtual constants of a board are functions on it.

  A \<^verbatim>\<open>uint8_t*\<close> into one of the cartridge's buffers is a region and an offset into it;
  the null pointer is \<open>None\<close>. Dereferencing reads the buffer, so that a pointer past the
  end of a buffer can be formed but not used, as in C++.
\<close>

section \<open>The boards' own members\<close>

record mmc1 =
  m1_write_buffer :: u8
  m1_shift_count :: u8
  m1_wram_disable :: bool
  m1_chr_mode :: bool
  m1_prg_mode :: bool
  m1_slot_select :: bool
  m1_chr_reg0 :: u8
  m1_chr_reg1 :: u8
  m1_prg_reg :: u8
  m1_last_write_cycle :: u64
  m1_last_chr_reg :: u16

record mmc3 =
  m3_irq_reload_value :: u8
  m3_irq_counter :: u8
  m3_irq_reload :: bool
  m3_irq_enabled :: bool
  m3_force_mmc3_rev_a_irqs :: bool
  m3_prg_mode :: u8
  m3_chr_mode :: u8
  m3_current_register :: u8
  m3_registers :: "u8 list"
  m3_wram_enabled :: bool
  m3_wram_write_protected :: bool
  m3_reg_a000 :: u8
  m3_a12_low_clock :: u64

definition mmc1_0 :: mmc1 where
  "mmc1_0 = \<lparr>m1_write_buffer = 0, m1_shift_count = 0, m1_wram_disable = False,
     m1_chr_mode = False, m1_prg_mode = False, m1_slot_select = False, m1_chr_reg0 = 0,
     m1_chr_reg1 = 0, m1_prg_reg = 0, m1_last_write_cycle = 0, m1_last_chr_reg = 0\<rparr>"

definition mmc3_0 :: mmc3 where
  "mmc3_0 = \<lparr>m3_irq_reload_value = 0, m3_irq_counter = 0, m3_irq_reload = False,
     m3_irq_enabled = False, m3_force_mmc3_rev_a_irqs = False, m3_prg_mode = 0,
     m3_chr_mode = 0, m3_current_register = 0, m3_registers = replicate 8 0,
     m3_wram_enabled = False, m3_wram_write_protected = False, m3_reg_a000 = 0,
     m3_a12_low_clock = 0\<rparr>"

datatype mapper_chip =
  Mapper000 (chr_is_ram: bool)
| Mapper001 mmc1
| Mapper002
| Mapper003
| Mapper004 mmc3
| Mapper007
| Mapper011
| Mapper013
| Mapper034
| Mapper066

section \<open>Virtual constants\<close>

fun get_prg_page_size :: "mapper_chip \<Rightarrow> u16" where
  "get_prg_page_size (Mapper000 _) = 0x4000"
| "get_prg_page_size (Mapper001 _) = 0x4000"
| "get_prg_page_size Mapper002 = 0x4000"
| "get_prg_page_size Mapper003 = 0x8000"
| "get_prg_page_size (Mapper004 _) = 0x2000"
| "get_prg_page_size Mapper007 = 0x8000"
| "get_prg_page_size Mapper011 = 0x8000"
| "get_prg_page_size Mapper013 = 0x8000"
| "get_prg_page_size Mapper034 = 0x8000"
| "get_prg_page_size Mapper066 = 0x8000"

fun get_chr_page_size :: "mapper_chip \<Rightarrow> u16" where
  "get_chr_page_size (Mapper000 _) = 0x2000"
| "get_chr_page_size (Mapper001 _) = 0x1000"
| "get_chr_page_size Mapper002 = 0x2000"
| "get_chr_page_size Mapper003 = 0x2000"
| "get_chr_page_size (Mapper004 _) = 0x0400"
| "get_chr_page_size Mapper007 = 0x2000"
| "get_chr_page_size Mapper011 = 0x2000"
| "get_chr_page_size Mapper013 = 0x1000"
| "get_chr_page_size Mapper034 = 0x2000"
| "get_chr_page_size Mapper066 = 0x2000"

text \<open>None of the boards below overrides the page size of the CHR RAM, or the RAM sizes.\<close>

definition get_chr_ram_size :: "mapper_chip \<Rightarrow> u32" where
  "get_chr_ram_size k = (if k = Mapper013 then 0x4000 else 0x2000)"

definition get_chr_ram_page_size :: "mapper_chip \<Rightarrow> u16" where
  "get_chr_ram_page_size k = get_chr_page_size k"

definition get_work_ram_size :: "mapper_chip \<Rightarrow> u32" where
  "get_work_ram_size k = 0x2000"

definition get_save_ram_size :: "mapper_chip \<Rightarrow> u32" where
  "get_save_ram_size k = 0x2000"

definition allow_register_read :: "mapper_chip \<Rightarrow> bool" where
  "allow_register_read k = False"

definition has_cpu_clock_hook :: "mapper_chip \<Rightarrow> bool" where
  "has_cpu_clock_hook k = False"

fun has_vram_address_hook :: "mapper_chip \<Rightarrow> bool" where
  "has_vram_address_hook (Mapper004 _) = True"
| "has_vram_address_hook _ = False"

definition has_custom_vram_read :: "mapper_chip \<Rightarrow> bool" where
  "has_custom_vram_read k = False"

lemmas virtual_defs = get_chr_ram_size_def get_chr_ram_page_size_def get_work_ram_size_def
  get_save_ram_size_def allow_register_read_def has_cpu_clock_hook_def
  has_custom_vram_read_def

lemma page_size_nonzero [simp]: "get_prg_page_size k \<noteq> 0" "get_chr_page_size k \<noteq> 0"
  by (cases k; simp)+

section \<open>The base class\<close>

text \<open>
  \<open>OwnRam\<close> is the \<^verbatim>\<open>work_ram_\<close> that Mapper001, Mapper002 and Mapper004 declare
  themselves; it hides, and is distinct from, \<^verbatim>\<open>BaseMapper::work_ram_\<close> (\<open>WorkRam\<close>).
\<close>

datatype mem_region = PrgRom | ChrRom | ChrRam | WorkRam | SaveRam | NtRam | OwnRam

type_synonym ptr = "(mem_region \<times> nat) option"

record mapper =
  m_chip :: mapper_chip
  m_rom_info :: rom_info
  m_mirroring_type :: mirroring_type
  m_prg_rom :: "u8 list"
  m_chr_rom :: "u8 list"
  m_chr_ram :: "u8 list"
  m_work_ram :: "u8 list"
  m_save_ram :: "u8 list"
  m_nametable_ram :: "u8 list"
  m_own_ram :: "u8 list"
  m_prg_size :: u32
  m_chr_rom_size :: u32
  m_chr_ram_size :: u32
  m_work_ram_size :: u32
  m_save_ram_size :: u32
  m_has_default_work_ram :: bool
  m_prg_pages :: "u8 \<Rightarrow> ptr"
  m_chr_pages :: "u8 \<Rightarrow> ptr"
  m_chr_memory_access :: "u8 \<Rightarrow> memory_access"
  m_prg_memory_access :: "u8 \<Rightarrow> memory_access"
  m_chr_memory_type :: "u8 \<Rightarrow> chr_memory_type"
  m_is_write_register_addr :: "u16 \<Rightarrow> bool"
  m_is_read_register_addr :: "u16 \<Rightarrow> bool"
  m_has_bus_conflicts :: bool

definition NAMETABLE_SIZE :: u32 where "NAMETABLE_SIZE = 0x400"

text \<open>\<^verbatim>\<open>BaseMapper::BaseMapper\<close> and the member initialisers, for a board \<open>k\<close>.\<close>

definition new_mapper :: "mapper_chip \<Rightarrow> mapper" where
  "new_mapper k = \<lparr>m_chip = k, m_rom_info = rom_info0, m_mirroring_type = HORIZONTAL,
     m_prg_rom = [], m_chr_rom = [], m_chr_ram = [], m_work_ram = [], m_save_ram = [],
     m_nametable_ram = replicate 0x1000 0, m_own_ram = [],
     m_prg_size = 0, m_chr_rom_size = 0, m_chr_ram_size = 0, m_work_ram_size = 0,
     m_save_ram_size = 0, m_has_default_work_ram = False,
     m_prg_pages = (\<lambda>_. None), m_chr_pages = (\<lambda>_. None),
     m_chr_memory_access = (\<lambda>_. NO_ACCESS), m_prg_memory_access = (\<lambda>_. NO_ACCESS),
     m_chr_memory_type = (\<lambda>_. CHR_DEFAULT),
     m_is_write_register_addr = (\<lambda>_. False), m_is_read_register_addr = (\<lambda>_. False),
     m_has_bus_conflicts = False\<rparr>"

section \<open>Buffers and pointers\<close>

fun region :: "mem_region \<Rightarrow> mapper \<Rightarrow> u8 list" where
  "region PrgRom m = m_prg_rom m"
| "region ChrRom m = m_chr_rom m"
| "region ChrRam m = m_chr_ram m"
| "region WorkRam m = m_work_ram m"
| "region SaveRam m = m_save_ram m"
| "region NtRam m = m_nametable_ram m"
| "region OwnRam m = m_own_ram m"

fun set_region :: "mem_region \<Rightarrow> u8 list \<Rightarrow> mapper \<Rightarrow> mapper" where
  "set_region PrgRom xs m = m\<lparr>m_prg_rom := xs\<rparr>"
| "set_region ChrRom xs m = m\<lparr>m_chr_rom := xs\<rparr>"
| "set_region ChrRam xs m = m\<lparr>m_chr_ram := xs\<rparr>"
| "set_region WorkRam xs m = m\<lparr>m_work_ram := xs\<rparr>"
| "set_region SaveRam xs m = m\<lparr>m_save_ram := xs\<rparr>"
| "set_region NtRam xs m = m\<lparr>m_nametable_ram := xs\<rparr>"
| "set_region OwnRam xs m = m\<lparr>m_own_ram := xs\<rparr>"

text \<open>\<^verbatim>\<open>vec.data()\<close>, \<^verbatim>\<open>p + n\<close>, \<^verbatim>\<open>p[i]\<close> and \<^verbatim>\<open>p[i] = v\<close>.\<close>

definition vec_data :: "mem_region \<Rightarrow> mapper \<Rightarrow> ptr" where
  "vec_data r m = (if region r m = [] then None else Some (r, 0))"

definition ptr_add :: "ptr \<Rightarrow> u32 \<Rightarrow> ptr" where
  "ptr_add p n = map_option (\<lambda>(r, b). (r, b + unat n)) p"

definition load_ptr :: "ptr \<Rightarrow> u8 \<Rightarrow> mapper \<Rightarrow> u8 option" where
  "load_ptr p i m = (case p of None \<Rightarrow> None | Some (r, b) \<Rightarrow> rd (region r m) (b + unat i))"

definition store_ptr :: "ptr \<Rightarrow> u8 \<Rightarrow> u8 \<Rightarrow> mapper \<Rightarrow> mapper option" where
  "store_ptr p i v m = (case p of None \<Rightarrow> None
     | Some (r, b) \<Rightarrow> map_option (\<lambda>xs. set_region r xs m) (wr (region r m) (b + unat i) v))"

text \<open>\<^verbatim>\<open>std::vector<uint8_t>::resize(n, 0)\<close>.\<close>

definition vec_resize :: "nat \<Rightarrow> u8 list \<Rightarrow> u8 list" where
  "vec_resize n xs = take n xs @ replicate (n - length xs) 0"

lemma length_vec_resize [simp]: "length (vec_resize n xs) = n"
  by (simp add: vec_resize_def)

lemma region_set_region [simp]:
  "region r (set_region r' xs m) = (if r = r' then xs else region r m)"
  by (cases r; cases r'; simp)

text \<open>Changing a buffer changes no other member.\<close>

lemma set_region_frame [simp]:
  "m_chip (set_region r xs m) = m_chip m"
  "m_prg_size (set_region r xs m) = m_prg_size m"
  "m_chr_rom_size (set_region r xs m) = m_chr_rom_size m"
  "m_chr_ram_size (set_region r xs m) = m_chr_ram_size m"
  "m_prg_pages (set_region r xs m) = m_prg_pages m"
  "m_chr_pages (set_region r xs m) = m_chr_pages m"
  "m_prg_memory_access (set_region r xs m) = m_prg_memory_access m"
  "m_chr_memory_access (set_region r xs m) = m_chr_memory_access m"
  "m_chr_memory_type (set_region r xs m) = m_chr_memory_type m"
  "m_is_write_register_addr (set_region r xs m) = m_is_write_register_addr m"
  "m_is_read_register_addr (set_region r xs m) = m_is_read_register_addr m"
  "m_has_bus_conflicts (set_region r xs m) = m_has_bus_conflicts m"
  "m_mirroring_type (set_region r xs m) = m_mirroring_type m"
  by (cases r; simp)+

lemma load_store_ptr:
  "store_ptr (Some (r, b)) i v m = Some m' \<Longrightarrow>
   load_ptr (Some (r', b')) j m' =
     (if r' = r \<and> b' + unat j = b + unat i then Some v else load_ptr (Some (r', b')) j m)"
  by (auto simp: store_ptr_def load_ptr_def rd_def wr_def split: if_splits)

end
