(* ===== verification/Mapper_Base.thy ===== *)
theory Mapper_Base
  imports Mapper_State
begin

text \<open>
  The operations of \<^verbatim>\<open>BaseMapper\<close>
  (\<^verbatim>\<open>src/systems/nes/mappers/base_mapper.cpp\<close>): page tables, RAM set-up, nametable
  mirroring and the accesses of the CPU and the PPU. The loops over a range of page
  slots are written in closed form, as an update of the page table at those slots.
\<close>

section \<open>Register ranges\<close>

definition add_register_range :: "u16 \<Rightarrow> u16 \<Rightarrow> memory_operation \<Rightarrow> mapper \<Rightarrow> mapper" where
  "add_register_range start end0 operation m =
     (let m1 = (if op_reads operation
                then m\<lparr>m_is_read_register_addr := (\<lambda>i.
                  start \<le> i \<and> i \<le> end0 \<or> m_is_read_register_addr m i)\<rparr> else m)
      in if op_writes operation
         then m1\<lparr>m_is_write_register_addr := (\<lambda>i.
           start \<le> i \<and> i \<le> end0 \<or> m_is_write_register_addr m i)\<rparr> else m1)"

definition remove_register_range :: "u16 \<Rightarrow> u16 \<Rightarrow> memory_operation \<Rightarrow> mapper \<Rightarrow> mapper" where
  "remove_register_range start end0 operation m =
     (let m1 = (if op_reads operation
                then m\<lparr>m_is_read_register_addr := (\<lambda>i.
                  \<not> (start \<le> i \<and> i \<le> end0) \<and> m_is_read_register_addr m i)\<rparr> else m)
      in if op_writes operation
         then m1\<lparr>m_is_write_register_addr := (\<lambda>i.
           \<not> (start \<le> i \<and> i \<le> end0) \<and> m_is_write_register_addr m i)\<rparr> else m1)"

section \<open>CPU memory mapping\<close>

text \<open>\<open>access_type < 0 ? READ_WRITE : access_type\<close>; the default argument is \<open>None\<close>.\<close>

definition resolve_access :: "memory_access option \<Rightarrow> memory_access" where
  "resolve_access access_type = (case access_type of None \<Rightarrow> READ_WRITE | Some a \<Rightarrow> a)"

text \<open>
  \<^verbatim>\<open>set_cpu_memory_mapping\<close> with a source pointer. \<open>source_offset\<close> is a \<^verbatim>\<open>uint32_t\<close> that
  the loop advances by one page per slot.
\<close>

definition map_cpu_source ::
  "u16 \<Rightarrow> u16 \<Rightarrow> ptr \<Rightarrow> u32 \<Rightarrow> memory_access option \<Rightarrow> mapper \<Rightarrow> mapper" where
  "map_cpu_source start end0 source source_offset access_type m =
     (let s = hi_byte start; e = hi_byte end0 in
      m\<lparr>m_prg_pages := (\<lambda>i. if s \<le> i \<and> i \<le> e
            then ptr_add source (source_offset + 0x100 * ucast (i - s))
            else m_prg_pages m i),
        m_prg_memory_access := (\<lambda>i. if s \<le> i \<and> i \<le> e
            then resolve_access access_type else m_prg_memory_access m i)\<rparr>)"

text \<open>
  \<^verbatim>\<open>set_cpu_memory_mapping\<close> with a page number of type \<^verbatim>\<open>int16_t\<close>: a negative one counts
  from the end. The remainder by a page count of zero, or of zero after its conversion
  to \<^verbatim>\<open>int16_t\<close>, is undefined.
\<close>

definition map_cpu_page ::
  "u16 \<Rightarrow> u16 \<Rightarrow> u16 \<Rightarrow> memory_access option \<Rightarrow> mapper \<Rightarrow> mapper option" where
  "map_cpu_page start end0 page_number access_type m = do {
     let page_size = (ucast (get_prg_page_size (m_chip m)) :: u32);
     let max_page = m_prg_size m div page_size;
     p \<leftarrow> (if m_prg_size m > 0
          then if sint page_number < 0 then Some (ucast max_page + page_number)
               else if (ucast max_page :: u16) = 0 then None
               else Some (word_of_int (sint page_number smod sint (ucast max_page :: u16)))
          else Some page_number);
     Some (map_cpu_source start end0 (vec_data PrgRom m)
             (scast (p :: u16) * page_size) access_type m) }"

definition remove_cpu_memory_mapping :: "u16 \<Rightarrow> u16 \<Rightarrow> mapper \<Rightarrow> mapper" where
  "remove_cpu_memory_mapping start end0 m =
     (let s = hi_byte start; e = hi_byte end0 in
      m\<lparr>m_prg_pages := (\<lambda>i. if s \<le> i \<and> i \<le> e then None else m_prg_pages m i),
        m_prg_memory_access := (\<lambda>i. if s \<le> i \<and> i \<le> e then NO_ACCESS
                                     else m_prg_memory_access m i)\<rparr>)"

definition select_prg_page :: "u16 \<Rightarrow> u16 \<Rightarrow> mapper \<Rightarrow> mapper option" where
  "select_prg_page slot page m = do {
     let page_size = get_prg_page_size (m_chip m);
     let max_page = (ucast (m_prg_size m div ucast page_size) :: u16);
     p \<leftarrow> (if m_prg_size m > 0
          then if max_page = 0 then None else Some (page mod max_page)
          else Some page);
     let start = 0x8000 + slot * page_size;
     map_cpu_page start (start + page_size - 1) p None m }"

definition select_prg_page_2x :: "u16 \<Rightarrow> u16 \<Rightarrow> mapper \<Rightarrow> mapper option" where
  "select_prg_page_2x slot page m = do {
     m \<leftarrow> select_prg_page slot page m;
     select_prg_page (slot + 1) (page + 1) m }"

definition select_prg_page_4x :: "u16 \<Rightarrow> u16 \<Rightarrow> mapper \<Rightarrow> mapper option" where
  "select_prg_page_4x slot page m = do {
     m \<leftarrow> select_prg_page_2x slot page m;
     select_prg_page_2x (slot + 2) (page + 2) m }"

section \<open>RAM set-up\<close>

text \<open>\<open>size\<close> is the \<^verbatim>\<open>int32_t\<close> argument; its default, -1, asks for the board's size.\<close>

definition initialize_chr_ram :: "int \<Rightarrow> mapper \<Rightarrow> mapper" where
  "initialize_chr_ram size0 m =
     (let n = (if size0 \<ge> 0 then word_of_int size0 else get_chr_ram_size (m_chip m));
          m1 = m\<lparr>m_chr_ram_size := n\<rparr>
      in if n > 0 then m1\<lparr>m_chr_ram := vec_resize (unat n) (m_chr_ram m)\<rparr> else m1)"

definition setup_default_work_ram :: "mapper \<Rightarrow> mapper" where
  "setup_default_work_ram m =
     (if ri_has_battery (m_rom_info m) \<and> m_save_ram_size m > 0
      then map_cpu_source 0x6000 0x7FFF (vec_data SaveRam m) 0 (Some READ_WRITE) m
      else if m_work_ram_size m > 0
      then map_cpu_source 0x6000 0x7FFF (vec_data WorkRam m) 0 (Some READ_WRITE) m
      else m)"

definition apply_trainer_data :: "u8 list \<Rightarrow> mapper \<Rightarrow> mapper option" where
  "apply_trainer_data trainer_data m =
     (if length trainer_data \<noteq> 512 then Some m
      else if m_work_ram_size m \<ge> 0x2000
      then map_option (\<lambda>xs. m\<lparr>m_work_ram := xs\<rparr>) (copy_at 0x1000 trainer_data (m_work_ram m))
      else if m_save_ram_size m \<ge> 0x2000
      then map_option (\<lambda>xs. m\<lparr>m_save_ram := xs\<rparr>) (copy_at 0x1000 trainer_data (m_save_ram m))
      else Some m)"

definition init_work_ram :: "rom_info \<Rightarrow> mapper \<Rightarrow> mapper" where
  "init_work_ram info m =
     (let ws = get_work_ram_size (m_chip m); ss = get_save_ram_size (m_chip m);
          m1 = (if ri_has_battery info
                then m\<lparr>m_save_ram_size := ss, m_save_ram := vec_resize (unat ss) (m_save_ram m),
                       m_has_default_work_ram := ss > 0\<rparr>
                else m\<lparr>m_work_ram_size := ws, m_work_ram := vec_resize (unat ws) (m_work_ram m),
                       m_has_default_work_ram := ws > 0\<rparr>)
      in if ri_work_ram_size info > 0
         then let n = (word_of_int (ri_work_ram_size info * 1024) :: u32) in
              m1\<lparr>m_work_ram_size := n, m_work_ram := vec_resize (unat n) (m_work_ram m1),
                 m_has_default_work_ram := True\<rparr>
         else m1)"

section \<open>PPU memory mapping\<close>

text \<open>\<^verbatim>\<open>set_ppu_memory_mapping\<close> with a memory type and an offset.\<close>

definition map_ppu_offset ::
  "u16 \<Rightarrow> u16 \<Rightarrow> chr_memory_type \<Rightarrow> u32 \<Rightarrow> memory_access option \<Rightarrow> mapper \<Rightarrow> mapper" where
  "map_ppu_offset start end0 type source_offset access_type m =
     (let (source, src_size) =
            (case type of CHR_ROM \<Rightarrow> (vec_data ChrRom m, m_chr_rom_size m)
                        | CHR_RAM \<Rightarrow> (vec_data ChrRam m, m_chr_ram_size m)
                        | _ \<Rightarrow> (None, 0));
          first_slot = hi_byte start;
          slot_count = (int (unat end0) - int (unat start) + 1) div 0x100;
          here = (\<lambda>i :: u8. first_slot \<le> i \<and> int (unat i) - int (unat first_slot) < slot_count);
          offset = (\<lambda>i :: u8. source_offset + 0x100 * ucast (i - first_slot));
          mapped = (\<lambda>i. source \<noteq> None \<and> src_size > 0 \<and> offset i < src_size)
      in m\<lparr>m_chr_pages := (\<lambda>i. if here i then
               if mapped i then ptr_add source (offset i) else None else m_chr_pages m i),
           m_chr_memory_access := (\<lambda>i. if here i then
               if mapped i then resolve_access access_type else NO_ACCESS
               else m_chr_memory_access m i),
           m_chr_memory_type := (\<lambda>i. if here i \<and> mapped i then type
               else m_chr_memory_type m i)\<rparr>)"

text \<open>\<^verbatim>\<open>set_ppu_memory_mapping\<close> with a page number.\<close>

definition map_ppu_page ::
  "u16 \<Rightarrow> u16 \<Rightarrow> u16 \<Rightarrow> chr_memory_type \<Rightarrow> memory_access option \<Rightarrow> mapper \<Rightarrow> mapper" where
  "map_ppu_page start end0 page_number type0 access_type m =
     (let type = (if type0 = CHR_DEFAULT
                  then if m_chr_rom_size m > 0 then CHR_ROM else CHR_RAM else type0);
          place = (\<lambda>m (page_size :: u32) (total :: u32).
            let page_count = (if total > 0 then total div page_size else 0);
                page = (if page_count > 0 then ucast page_number mod page_count
                        else ucast page_number)
            in map_ppu_offset start end0 type (page * page_size) access_type m)
      in case type of
           CHR_ROM \<Rightarrow> place m (ucast (get_chr_page_size (m_chip m))) (m_chr_rom_size m)
         | CHR_RAM \<Rightarrow>
             (let m1 = (if m_chr_ram_size m = 0 then initialize_chr_ram (- 1) m else m)
              in place m1 (ucast (get_chr_ram_page_size (m_chip m))) (m_chr_ram_size m1))
         | _ \<Rightarrow> m)"

text \<open>\<^verbatim>\<open>set_ppu_memory_mapping\<close> with a source pointer.\<close>

definition map_ppu_source ::
  "u16 \<Rightarrow> u16 \<Rightarrow> ptr \<Rightarrow> u32 \<Rightarrow> u32 \<Rightarrow> memory_access option \<Rightarrow> mapper \<Rightarrow> mapper" where
  "map_ppu_source start end0 source source_offset src_size access_type m =
     (let s = hi_byte (start AND 0x3FFF); e = hi_byte (end0 AND 0x3FFF);
          here = (\<lambda>i. s \<le> i \<and> i \<le> e);
          offset = (\<lambda>i :: u8. source_offset + 0x100 * ucast (i - s));
          mapped = (\<lambda>i. source \<noteq> None \<and> offset i < src_size)
      in m\<lparr>m_chr_pages := (\<lambda>i. if here i then
               if mapped i then ptr_add source (offset i) else None else m_chr_pages m i),
           m_chr_memory_access := (\<lambda>i. if here i then
               if mapped i then resolve_access access_type else NO_ACCESS
               else m_chr_memory_access m i)\<rparr>)"

definition select_chr_page :: "u16 \<Rightarrow> u16 \<Rightarrow> chr_memory_type \<Rightarrow> mapper \<Rightarrow> mapper" where
  "select_chr_page slot page type m =
     (let page_size = get_chr_page_size (m_chip m);
          max_page = (ucast (m_chr_rom_size m div ucast page_size) :: u16);
          p = (if m_chr_rom_size m > 0 \<and> max_page > 0 then page mod max_page else page);
          start = slot * page_size
      in map_ppu_page start (start + page_size - 1) p type None m)"

definition select_chr_page_2x :: "u16 \<Rightarrow> u16 \<Rightarrow> chr_memory_type \<Rightarrow> mapper \<Rightarrow> mapper" where
  "select_chr_page_2x slot page type m =
     (let m1 = select_chr_page slot page type m
      in if get_chr_page_size (m_chip m1) < 0x800
         then select_chr_page (slot + 1) (page + 1) type m1 else m1)"

definition select_chr_page_4x :: "u16 \<Rightarrow> u16 \<Rightarrow> chr_memory_type \<Rightarrow> mapper \<Rightarrow> mapper" where
  "select_chr_page_4x slot page type m =
     select_chr_page_2x (slot + 2) (page + 2) type (select_chr_page_2x slot page type m)"

definition select_chr_page_8x :: "u16 \<Rightarrow> u16 \<Rightarrow> chr_memory_type \<Rightarrow> mapper \<Rightarrow> mapper" where
  "select_chr_page_8x slot page type m =
     select_chr_page_4x (slot + 4) (page + 4) type (select_chr_page_4x slot page type m)"

section \<open>Nametables\<close>

definition get_nametable :: "u8 \<Rightarrow> ptr" where
  "get_nametable index =
     (if index < 4 then Some (NtRam, unat index * unat NAMETABLE_SIZE) else Some (NtRam, 0))"

definition set_nametable :: "u8 \<Rightarrow> u8 \<Rightarrow> mapper \<Rightarrow> mapper" where
  "set_nametable index nametable_index m =
     (let lo = (\<lambda>base. base + ucast index * 0x400 :: u16);
          src = get_nametable nametable_index
      in map_ppu_source (lo 0x3000) (lo 0x3000 + 0x3FF) src 0 NAMETABLE_SIZE None
           (map_ppu_source (lo 0x2000) (lo 0x2000 + 0x3FF) src 0 NAMETABLE_SIZE None m))"

definition set_mirroring_type :: "mirroring_type \<Rightarrow> mapper \<Rightarrow> mapper" where
  "set_mirroring_type type m =
     (let m = m\<lparr>m_mirroring_type := type\<rparr>;
          four = (\<lambda>a b c d. set_nametable 3 d (set_nametable 2 c
                    (set_nametable 1 b (set_nametable 0 a m))))
      in case type of
           VERTICAL \<Rightarrow> four 0 1 0 1
         | HORIZONTAL \<Rightarrow> four 0 0 1 1
         | SCREEN_A_ONLY \<Rightarrow> four 0 0 0 0
         | SCREEN_B_ONLY \<Rightarrow> four 1 1 1 1
         | FOUR_SCREENS \<Rightarrow> four 0 1 2 3)"

section \<open>Accesses\<close>

definition read_vram :: "u16 \<Rightarrow> mapper \<Rightarrow> u8 option" where
  "read_vram addr0 m =
     (let addr = addr0 AND 0x3FFF in
      if can_read (m_chr_memory_access m (hi_byte addr))
      then load_ptr (m_chr_pages m (hi_byte addr)) (lo_byte addr) m
      else Some (lo_byte addr))"

definition write_vram :: "u16 \<Rightarrow> u8 \<Rightarrow> mapper \<Rightarrow> mapper option" where
  "write_vram addr0 val m =
     (let addr = addr0 AND 0x3FFF in
      if can_write (m_chr_memory_access m (hi_byte addr))
      then store_ptr (m_chr_pages m (hi_byte addr)) (lo_byte addr) val m
      else Some m)"

text \<open>
  \<^verbatim>\<open>BaseMapper::read_ram\<close>. No board modelled here allows register reads, so that
  \<^verbatim>\<open>read_register\<close> is the default of the base class, \<^verbatim>\<open>addr >> 8\<close>.
\<close>

definition base_read_ram :: "u8 \<Rightarrow> u16 \<Rightarrow> mapper \<Rightarrow> u8 option" where
  "base_read_ram open_bus addr m =
     (if allow_register_read (m_chip m) \<and> m_is_read_register_addr m addr
      then Some (hi_byte addr)
      else if can_read (m_prg_memory_access m (hi_byte addr))
      then load_ptr (m_prg_pages m (hi_byte addr)) (lo_byte addr) m
      else Some open_bus)"

text \<open>\<^verbatim>\<open>BaseMapper::write_ram\<close>; \<open>write_register\<close> is the virtual function of the board.\<close>

definition base_write_ram ::
  "(u16 \<Rightarrow> u8 \<Rightarrow> mapper \<times> cpu \<Rightarrow> (mapper \<times> cpu) option) \<Rightarrow>
   u16 \<Rightarrow> u8 \<Rightarrow> mapper \<times> cpu \<Rightarrow> (mapper \<times> cpu) option" where
  "base_write_ram write_register addr val s =
     (if m_is_write_register_addr (fst s) addr
      then do {
        v \<leftarrow> (if m_has_bus_conflicts (fst s)
             then map_option (\<lambda>b. val AND b)
               (load_ptr (m_prg_pages (fst s) (hi_byte addr)) (lo_byte addr) (fst s))
             else Some val);
        write_register addr v s }
      else if can_write (m_prg_memory_access (fst s) (hi_byte addr))
      then map_option (\<lambda>m. (m, snd s))
             (store_ptr (m_prg_pages (fst s) (hi_byte addr)) (lo_byte addr) val (fst s))
      else Some s)"

text \<open>\<^verbatim>\<open>BaseMapper::get_memory_ranges\<close>; the board 000 overrides it with the first two lines.\<close>

definition mapper_memory_ranges :: "mapper \<Rightarrow> memory_ranges" where
  "mapper_memory_ranges m =
     (let r = add_handler OP_WRITE 0x4020 0xFFFF (add_handler OP_READ 0x4020 0xFFFF ranges0)
      in case m_chip m of
           Mapper000 _ \<Rightarrow> r
         | _ \<Rightarrow> add_handler OP_WRITE 0x6000 0x7FFF (add_handler OP_READ 0x6000 0x7FFF r))"

end
