(* ===== verification/Mapper_Paging.thy ===== *)
theory Mapper_Paging
  imports Mapper_Base
begin

text \<open>
  The invariant of the page tables, its preservation by the operations of the base
  class, and what a bank selection and a mirroring mode make the CPU and the PPU see.
\<close>

section \<open>Arithmetic of page offsets\<close>

lemma byte_of_addr: "unat (hi_byte a) * 256 + unat (lo_byte a) = unat a"
proof -
  have "unat (hi_byte a) = unat a div 256"
    using unsigned_less [where 'a = nat, of a]
    by (simp add: hi_byte_def unsigned_ucast_eq unsigned_drop_bit_eq drop_bit_eq_div
        take_bit_eq_mod unat_div)
  moreover have "unat (lo_byte a) = unat a mod 256"
    by (simp add: lo_byte_def unsigned_ucast_eq take_bit_eq_mod)
  ultimately show ?thesis by simp
qed

lemma unat_hi_byte: "unat (hi_byte a) = unat a div 256"
  using byte_of_addr [of a] unsigned_less [where 'a = nat, of "lo_byte a"] by simp

lemma unat_lo_byte: "unat (lo_byte a) = unat a mod 256"
  using byte_of_addr [of a] div_mult_mod_eq [of "unat a" 256]
  unfolding unat_hi_byte by linarith

lemma unat_page_offset:
  fixes k :: u8
  assumes "unat (w :: u32) + 256 * unat k < 2 ^ 32"
  shows "unat (w + 0x100 * ucast k) = unat w + 256 * unat k"
  using assms by (simp add: unat_word_ariths unsigned_ucast_eq take_bit_eq_mod)

lemma page_offset_dvd:
  fixes k :: u8
  assumes "256 dvd unat (w :: u32)"
  shows "256 dvd unat (w + 0x100 * ucast k)"
  using assms by (simp add: unat_word_ariths dvd_mod dvd_add)

lemma dvd_page_below:
  fixes x :: nat
  assumes "256 dvd x" "256 dvd y" "x < y"
  shows "x + 256 \<le> y"
proof -
  from assms(1,2) obtain a b where "x = 256 * a" "y = 256 * b" by (auto elim!: dvdE)
  with assms(3) show ?thesis by simp
qed

lemma page_fit:
  fixes i :: nat
  assumes "256 * i \<le> 256 * k + 256 * n - Suc 0" "0 < n"
  shows "256 * (i - k) + 256 \<le> 256 * n"
proof -
  have "i < k + n" using assms by linarith
  then show ?thesis using assms(2) by linarith
qed

section \<open>The invariant\<close>

text \<open>A pointer under which all 256 bytes of a page exist.\<close>

definition page_ok :: "mapper \<Rightarrow> ptr \<Rightarrow> bool" where
  "page_ok m p = (case p of None \<Rightarrow> False | Some (r, b) \<Rightarrow> b + 256 \<le> length (region r m))"

definition mapper_wf :: "mapper \<Rightarrow> bool" where
  "mapper_wf m \<longleftrightarrow>
     length (m_prg_rom m) = unat (m_prg_size m) \<and>
     length (m_chr_rom m) = unat (m_chr_rom_size m) \<and>
     length (m_chr_ram m) = unat (m_chr_ram_size m) \<and>
     length (m_nametable_ram m) = 0x1000 \<and>
     256 dvd unat (m_chr_rom_size m) \<and> 256 dvd unat (m_chr_ram_size m) \<and>
     (\<forall>i. m_prg_memory_access m i \<noteq> NO_ACCESS \<longrightarrow> page_ok m (m_prg_pages m i)) \<and>
     (\<forall>i. m_chr_memory_access m i \<noteq> NO_ACCESS \<longrightarrow> page_ok m (m_chr_pages m i))"

text \<open>The invariant without the page tables.\<close>

definition buffers_ok :: "mapper \<Rightarrow> bool" where
  "buffers_ok m \<longleftrightarrow>
     length (m_prg_rom m) = unat (m_prg_size m) \<and>
     length (m_chr_rom m) = unat (m_chr_rom_size m) \<and>
     length (m_chr_ram m) = unat (m_chr_ram_size m) \<and>
     length (m_nametable_ram m) = 0x1000 \<and>
     256 dvd unat (m_chr_rom_size m) \<and> 256 dvd unat (m_chr_ram_size m)"

definition prg_ok :: "mapper \<Rightarrow> bool" where
  "prg_ok m \<longleftrightarrow> (\<forall>i. m_prg_memory_access m i \<noteq> NO_ACCESS \<longrightarrow> page_ok m (m_prg_pages m i))"

definition chr_ok :: "mapper \<Rightarrow> bool" where
  "chr_ok m \<longleftrightarrow> (\<forall>i. m_chr_memory_access m i \<noteq> NO_ACCESS \<longrightarrow> page_ok m (m_chr_pages m i))"

lemma mapper_wf_parts: "mapper_wf m \<longleftrightarrow> buffers_ok m \<and> prg_ok m \<and> chr_ok m"
  by (auto simp: mapper_wf_def buffers_ok_def prg_ok_def chr_ok_def)

lemma can_access:
  "can_read a \<Longrightarrow> a \<noteq> NO_ACCESS" "can_write a \<Longrightarrow> a \<noteq> NO_ACCESS"
  by auto

lemma load_ptr_ok:
  assumes "page_ok m p"
  shows "\<exists>v. load_ptr p i m = Some v"
  using assms unsigned_less [where 'a = nat, of i]
  by (auto simp: page_ok_def load_ptr_def rd_def split: option.splits)

lemma page_ok_set_region:
  "length xs = length (region r m) \<Longrightarrow> page_ok (set_region r xs m) p = page_ok m p"
  by (auto simp: page_ok_def split: option.splits)

lemma mapper_wf_set_region:
  assumes "mapper_wf m" "length xs = length (region r m)"
  shows "mapper_wf (set_region r xs m)"
proof -
  have "\<forall>p. page_ok (set_region r xs m) p = page_ok m p"
    using assms(2) by (simp add: page_ok_set_region)
  with assms show ?thesis by (cases r; simp add: mapper_wf_def)
qed

lemma store_ptr_ok:
  assumes "mapper_wf m" "page_ok m p"
  shows "ok (store_ptr p i v m) mapper_wf"
proof -
  obtain r b where p: "p = Some (r, b)" "b + 256 \<le> length (region r m)"
    using assms(2) by (auto simp: page_ok_def split: option.splits)
  with unsigned_less [where 'a = nat, of i] have "b + unat i < length (region r m)" by simp
  with p assms(1) show ?thesis
    by (simp add: store_ptr_def mapper_wf_set_region)
qed

section \<open>Accesses never leave a buffer\<close>

lemma read_vram_ok: "mapper_wf m \<Longrightarrow> \<exists>v. read_vram addr m = Some v"
  by (auto simp: read_vram_def Let_def mapper_wf_def can_access intro: load_ptr_ok)

lemma write_vram_ok: "mapper_wf m \<Longrightarrow> ok (write_vram addr v m) mapper_wf"
  by (auto simp: write_vram_def Let_def intro!: store_ptr_ok)
    (auto simp: mapper_wf_def can_access)

lemma base_read_ram_ok: "mapper_wf m \<Longrightarrow> \<exists>v. base_read_ram ob addr m = Some v"
  by (auto simp: base_read_ram_def mapper_wf_def can_access intro: load_ptr_ok)

section \<open>Preservation by the mapping operations\<close>

lemma ptr_add_ok:
  assumes "unat n + 256 \<le> k" "b + k \<le> length (region r m)"
  shows "page_ok m (ptr_add (Some (r, b)) n)"
  using assms by (simp add: ptr_add_def page_ok_def)

lemma page_ok_upd [simp]:
  "page_ok (m\<lparr>m_prg_pages := x\<rparr>) p = page_ok m p"
  "page_ok (m\<lparr>m_prg_memory_access := y\<rparr>) p = page_ok m p"
  "page_ok (m\<lparr>m_chr_pages := x\<rparr>) p = page_ok m p"
  "page_ok (m\<lparr>m_chr_memory_access := y\<rparr>) p = page_ok m p"
  "page_ok (m\<lparr>m_chr_memory_type := z\<rparr>) p = page_ok m p"
  "page_ok (m\<lparr>m_mirroring_type := t\<rparr>) p = page_ok m p"
  "page_ok (m\<lparr>m_chip := k\<rparr>) p = page_ok m p"
proof -
  have "region r (m\<lparr>m_prg_pages := x\<rparr>) = region r m"
    "region r (m\<lparr>m_prg_memory_access := y\<rparr>) = region r m"
    "region r (m\<lparr>m_chr_pages := x\<rparr>) = region r m"
    "region r (m\<lparr>m_chr_memory_access := y\<rparr>) = region r m"
    "region r (m\<lparr>m_chr_memory_type := z\<rparr>) = region r m"
    "region r (m\<lparr>m_mirroring_type := t\<rparr>) = region r m"
    "region r (m\<lparr>m_chip := k\<rparr>) = region r m" for r
    by (cases r; simp)+
  then show
    "page_ok (m\<lparr>m_prg_pages := x\<rparr>) p = page_ok m p"
    "page_ok (m\<lparr>m_prg_memory_access := y\<rparr>) p = page_ok m p"
    "page_ok (m\<lparr>m_chr_pages := x\<rparr>) p = page_ok m p"
    "page_ok (m\<lparr>m_chr_memory_access := y\<rparr>) p = page_ok m p"
    "page_ok (m\<lparr>m_chr_memory_type := z\<rparr>) p = page_ok m p"
    "page_ok (m\<lparr>m_mirroring_type := t\<rparr>) p = page_ok m p"
    "page_ok (m\<lparr>m_chip := k\<rparr>) p = page_ok m p"
    by (auto simp: page_ok_def split: option.splits)
qed

text \<open>
  Mapping a window of the CPU space onto a source: each 256-byte page of the window has
  to exist in the source.
\<close>

lemma map_cpu_source_wf:
  assumes wf: "mapper_wf m"
    and page: "resolve_access acc \<noteq> NO_ACCESS \<Longrightarrow>
      (\<And>i. hi_byte start \<le> i \<Longrightarrow> i \<le> hi_byte end0 \<Longrightarrow>
         page_ok m (ptr_add src (off + 0x100 * ucast (i - hi_byte start))))"
  shows "mapper_wf (map_cpu_source start end0 src off acc m)"
  using assms by (simp add: mapper_wf_def map_cpu_source_def Let_def)

lemma map_ppu_source_wf:
  assumes wf: "mapper_wf m"
    and src: "src = Some (r, b)" "b + unat size0 \<le> length (region r m)"
    and dvd: "256 dvd unat off" "256 dvd unat size0"
  shows "mapper_wf (map_ppu_source start end0 src off size0 acc m)"
proof -
  have "page_ok m (ptr_add src (off + 0x100 * ucast k))"
    if "off + 0x100 * ucast k < size0" for k :: u8
  proof -
    have "unat (off + 0x100 * ucast k) + 256 \<le> unat size0"
      using that by (intro dvd_page_below page_offset_dvd dvd) (simp add: word_less_nat_alt)
    with src show ?thesis by (auto intro: ptr_add_ok)
  qed
  with wf show ?thesis by (simp add: mapper_wf_def map_ppu_source_def Let_def)
qed

lemma map_ppu_offset_wf:
  assumes wf: "mapper_wf m" and dvd: "256 dvd unat off"
  shows "mapper_wf (map_ppu_offset start end0 type off acc m)"
proof -
  have rom: "page_ok m (ptr_add (vec_data ChrRom m) (off + 0x100 * ucast k))"
    if "off + 0x100 * ucast k < m_chr_rom_size m" for k :: u8
  proof -
    have b: "unat (off + 0x100 * ucast k) + 256 \<le> unat (m_chr_rom_size m)"
      using that wf by (intro dvd_page_below page_offset_dvd dvd)
        (simp_all add: word_less_nat_alt mapper_wf_def)
    then have "m_chr_rom m \<noteq> []" using wf by (auto simp: mapper_wf_def)
    with b wf show ?thesis by (auto simp: vec_data_def mapper_wf_def intro: ptr_add_ok)
  qed
  have ram: "page_ok m (ptr_add (vec_data ChrRam m) (off + 0x100 * ucast k))"
    if "off + 0x100 * ucast k < m_chr_ram_size m" for k :: u8
  proof -
    have b: "unat (off + 0x100 * ucast k) + 256 \<le> unat (m_chr_ram_size m)"
      using that wf by (intro dvd_page_below page_offset_dvd dvd)
        (simp_all add: word_less_nat_alt mapper_wf_def)
    then have "m_chr_ram m \<noteq> []" using wf by (auto simp: mapper_wf_def)
    with b wf show ?thesis by (auto simp: vec_data_def mapper_wf_def intro: ptr_add_ok)
  qed
  show ?thesis using wf rom ram
    by (cases type) (auto simp: mapper_wf_def map_ppu_offset_def Let_def split: if_splits)
qed

lemma page_ok_grow:
  assumes "page_ok m p" "length (m_chr_ram m) \<le> length xs"
  shows "page_ok (m\<lparr>m_chr_ram := xs\<rparr>) p"
proof -
  obtain r b where p: "p = Some (r, b)" "b + 256 \<le> length (region r m)"
    using assms(1) by (auto simp: page_ok_def split: option.splits)
  with assms(2) show ?thesis by (cases r) (simp_all add: page_ok_def)
qed

lemma page_ok_size [simp]: "page_ok (m\<lparr>m_chr_ram_size := n\<rparr>) p = page_ok m p"
proof -
  have "region r (m\<lparr>m_chr_ram_size := n\<rparr>) = region r m" for r by (cases r) simp_all
  then show ?thesis by (simp add: page_ok_def split: option.split)
qed

lemma initialize_chr_ram_eq:
  assumes "n = (if s \<ge> 0 then word_of_int s else get_chr_ram_size (m_chip m))"
  shows "initialize_chr_ram s m =
    (if n > 0 then m\<lparr>m_chr_ram_size := n, m_chr_ram := vec_resize (unat n) (m_chr_ram m)\<rparr>
     else m\<lparr>m_chr_ram_size := n\<rparr>)"
  unfolding assms initialize_chr_ram_def Let_def by (rule if_cong) simp_all

lemma initialize_chr_ram_wf:
  assumes wf: "mapper_wf m"
    and n: "n = (if s \<ge> 0 then word_of_int s else get_chr_ram_size (m_chip m))"
    and len: "length (m_chr_ram m) \<le> unat n" and dvd: "256 dvd unat n"
  shows "mapper_wf (initialize_chr_ram s m)"
proof (cases "n > 0")
  case True
  have "page_ok (m\<lparr>m_chr_ram_size := n, m_chr_ram := vec_resize (unat n) (m_chr_ram m)\<rparr>) p"
    if "page_ok m p" for p using that len by (intro page_ok_grow) simp_all
  with True wf dvd show ?thesis
    unfolding initialize_chr_ram_eq [OF n] by (simp add: mapper_wf_def)
next
  case False
  with wf len dvd show ?thesis
    unfolding initialize_chr_ram_eq [OF n] by (simp add: mapper_wf_def word_gt_0)
qed

lemma chip_ram_dvd: "256 dvd unat (get_chr_ram_size k)"
  by (simp add: get_chr_ram_size_def)

lemma chip_page_dvd: "256 dvd unat (get_chr_page_size k)" "256 dvd unat (get_prg_page_size k)"
  by (cases k; simp)+

lemma page_start_dvd:
  fixes s :: u16 and x :: u32
  assumes "256 dvd unat s"
  shows "256 dvd unat (x * ucast s)"
proof -
  have "unat (ucast s :: u32) = unat s"
    using unsigned_less [where 'a = nat, of s]
    by (simp add: unsigned_ucast_eq take_bit_nat_eq_self)
  with assms show ?thesis by (simp add: unat_word_ariths dvd_mod dvd_mult)
qed

lemma map_ppu_page_wf:
  assumes "mapper_wf m"
  shows "mapper_wf (map_ppu_page start end0 page type acc m)"
proof -
  have init: "mapper_wf (initialize_chr_ram (- 1) m)" if "m_chr_ram_size m = 0"
    using assms that
    by (intro initialize_chr_ram_wf [where n = "get_chr_ram_size (m_chip m)"])
      (auto simp: chip_ram_dvd mapper_wf_def)
  show ?thesis using assms init chip_page_dvd
    by (auto simp: map_ppu_page_def Let_def get_chr_ram_page_size_def
        intro!: map_ppu_offset_wf page_start_dvd split: chr_memory_type.split)
qed

lemma select_chr_page_wf: "mapper_wf m \<Longrightarrow> mapper_wf (select_chr_page slot page type m)"
  by (simp add: select_chr_page_def Let_def map_ppu_page_wf)

lemma set_nametable_wf: "mapper_wf m \<Longrightarrow> mapper_wf (set_nametable j n m)"
proof -
  assume wf: "mapper_wf m"
  have src: "\<exists>b. get_nametable n = Some (NtRam, b) \<and> b + 0x400 \<le> 0x1000"
    by (auto simp: get_nametable_def NAMETABLE_SIZE_def word_less_nat_alt)
  then obtain b where b: "get_nametable n = Some (NtRam, b)" "b + 0x400 \<le> 0x1000" by blast
  have "mapper_wf (map_ppu_source s e (get_nametable n) 0 NAMETABLE_SIZE None m')"
    if "mapper_wf m'" for s e m'
    using that b
    by (intro map_ppu_source_wf [OF that b(1)]) (simp_all add: NAMETABLE_SIZE_def mapper_wf_def)
  with wf show ?thesis by (simp add: set_nametable_def Let_def)
qed

lemma mapper_wf_upd [simp]:
  "mapper_wf (m\<lparr>m_mirroring_type := t\<rparr>) = mapper_wf m"
  "mapper_wf (m\<lparr>m_chip := k\<rparr>) = mapper_wf m"
  by (simp_all add: mapper_wf_def)

lemma set_mirroring_type_wf: "mapper_wf m \<Longrightarrow> mapper_wf (set_mirroring_type t m)"
  by (cases t) (simp_all add: set_mirroring_type_def Let_def set_nametable_wf)

section \<open>Bank selection\<close>

lemma sint_small: "unat (w :: u16) < 2 ^ 15 \<Longrightarrow> sint w = int (unat w)"
proof -
  assume "unat w < 2 ^ 15"
  then have "int (unat w) < int (2 ^ 15)" by (simp only: of_nat_less_iff)
  then have "uint w < 2 ^ 15" by simp
  then have "signed_take_bit 15 (uint w) = uint w"
    by (intro signed_take_bit_int_eq_self) (simp_all add: order_trans [OF _ uint_ge_0])
  then show ?thesis by (simp add: sint_uint)
qed

lemma scast_small: "unat (w :: u16) < 2 ^ 15 \<Longrightarrow> (scast w :: u32) = ucast w"
  by (simp add: scast_eq sint_small)

lemma smod_small: "0 \<le> a \<Longrightarrow> a < b \<Longrightarrow> (a :: int) smod b = a"
  by (simp add: smod_int_alt_def sgn_if)

lemma unat_ucast_up: "unat (ucast (w :: u16) :: u32) = unat w"
  using unsigned_less [where 'a = nat, of w]
  by (simp add: unsigned_ucast_eq take_bit_nat_eq_self)

text \<open>The number of pages of the board's PRG ROM.\<close>

definition prg_page_count :: "mapper \<Rightarrow> nat" where
  "prg_page_count m = unat (m_prg_size m) div unat (get_prg_page_size (m_chip m))"

lemma map_cpu_page_in:
  assumes page: "unat page < prg_page_count m" and few: "prg_page_count m < 2 ^ 15"
    and rom: "length (m_prg_rom m) = unat (m_prg_size m)"
  shows "map_cpu_page start end0 page acc m = Some (map_cpu_source start end0 (Some (PrgRom, 0))
           (ucast page * ucast (get_prg_page_size (m_chip m))) acc m)"
proof -
  let ?n = "m_prg_size m div ucast (get_prg_page_size (m_chip m))"
  have n: "unat ?n = prg_page_count m"
    by (simp add: prg_page_count_def unat_div unat_ucast_up)
  have n16: "unat (ucast ?n :: u16) = prg_page_count m"
    using few by (simp add: unsigned_ucast_eq n take_bit_nat_eq_self)
  have pos: "m_prg_size m > 0" "m_prg_rom m \<noteq> []"
    using page rom by (auto simp: prg_page_count_def word_gt_0)
  have nz: "(ucast ?n :: u16) \<noteq> 0" using n16 page by auto
  have p: "sint page = int (unat page)" and q: "sint (ucast ?n :: u16) = int (prg_page_count m)"
    using page few n16 by (simp_all add: sint_small)
  have "sint page smod sint (ucast ?n :: u16) = int (unat page)"
    unfolding p q using page by (intro smod_small) (simp_all only: of_nat_less_iff of_nat_0_le_iff)
  then have sm: "word_of_int (sint page smod sint (ucast ?n :: u16)) = page" by simp
  have sc: "(scast page :: u32) = ucast page" using page few by (simp add: scast_small)
  have "\<not> sint page < 0" using p by simp
  with pos nz sc sm show ?thesis
    by (simp add: map_cpu_page_def Let_def vec_data_def)
qed

lemma select_prg_page_eq:
  assumes n: "0 < prg_page_count m" and few: "prg_page_count m < 2 ^ 15"
    and rom: "length (m_prg_rom m) = unat (m_prg_size m)"
  shows "select_prg_page slot page m =
    (let ps = get_prg_page_size (m_chip m); start = 0x8000 + slot * ps
     in Some (map_cpu_source start (start + ps - 1) (Some (PrgRom, 0))
          (of_nat (unat page mod prg_page_count m) * ucast ps) None m))"
proof -
  let ?n = "m_prg_size m div ucast (get_prg_page_size (m_chip m))"
  have "unat ?n = prg_page_count m"
    by (simp add: prg_page_count_def unat_div unat_ucast_up)
  then have n16: "unat (ucast ?n :: u16) = prg_page_count m"
    using few by (simp add: unsigned_ucast_eq take_bit_nat_eq_self)
  then have nz: "(ucast ?n :: u16) \<noteq> 0" using n by auto
  have m: "unat (page mod ucast ?n) = unat page mod prg_page_count m"
    by (simp add: unat_mod n16)
  then have lt: "unat (page mod ucast ?n) < prg_page_count m" using n by simp
  have u: "(ucast (page mod ucast ?n) :: u32) = of_nat (unat page mod prg_page_count m)"
    by (simp add: m [symmetric])
  have pos: "m_prg_size m > 0" using n by (auto simp: prg_page_count_def word_gt_0)
  show ?thesis using nz pos
    by (simp add: select_prg_page_def Let_def map_cpu_page_in [OF lt few rom] u del: of_nat_mod)
qed

text \<open>A bank window: aligned on its size, so that it never wraps around the address space.\<close>

lemma prg_page_size_dvd: "unat (get_prg_page_size k) dvd 0x8000"
  by (cases k; simp)

definition prg_slot_start :: "u16 \<Rightarrow> mapper \<Rightarrow> u16" where
  "prg_slot_start slot m = 0x8000 + slot * get_prg_page_size (m_chip m)"

lemma slot_window:
  fixes m :: mapper and slot :: u16
  defines "ps \<equiv> get_prg_page_size (m_chip m)" and "start \<equiv> prg_slot_start slot m"
  shows "256 dvd unat start" "unat start + unat ps \<le> 0x10000"
    "unat (start + ps - 1) = unat start + (unat ps - 1)" "256 dvd unat ps" "0 < unat ps"
proof -
  have d: "unat ps dvd 0x8000" by (simp add: ps_def prg_page_size_dvd)
  have d10: "unat ps dvd 0x10000" by (rule dvd_trans [OF d]) simp
  show pd: "256 dvd unat ps" by (simp add: ps_def chip_page_dvd)
  show pos: "0 < unat ps" by (simp add: ps_def word_gt_0 unat_gt_0)
  have "unat start = (0x8000 + unat slot * unat ps) mod 0x10000"
    by (simp add: start_def prg_slot_start_def ps_def unat_word_ariths mod_add_right_eq)
  moreover have "unat ps dvd 0x10000" using d10 .
  ultimately have sd: "unat ps dvd unat start" using d by (simp add: dvd_mod)
  with pd show "256 dvd unat start" by (rule dvd_trans)
  obtain a where a: "unat start = unat ps * a" using sd by (rule dvdE)
  obtain b where b: "0x10000 = unat ps * b" using d10 by (rule dvdE)
  have "unat start < 0x10000" using unsigned_less [where 'a = nat, of start] by simp
  then have "unat ps * a < unat ps * b" by (simp only: a [symmetric] b [symmetric])
  then have "a + 1 \<le> b" using pos by simp
  then have "unat ps * (a + 1) \<le> unat ps * b" by (rule mult_le_mono2)
  then show le: "unat start + unat ps \<le> 0x10000" using a b by (simp add: algebra_simps)
  have p1: "unat (ps - 1) = unat ps - 1"
    using pos by (intro unat_minus_one) auto
  have "unat start + unat (ps - 1) < 2 ^ LENGTH(16)" using le pos unfolding p1 by simp
  then have "unat (start + (ps - 1)) = unat start + unat (ps - 1)"
    by (simp only: unat_add_lem [symmetric])
  then show "unat (start + ps - 1) = unat start + (unat ps - 1)"
    by (simp only: p1 add_diff_eq)
qed

text \<open>What an operation on the page tables leaves alone.\<close>

definition same_board :: "mapper \<Rightarrow> mapper \<Rightarrow> bool" where
  "same_board m m' \<longleftrightarrow> m_chip m' = m_chip m \<and> m_prg_rom m' = m_prg_rom m \<and>
     m_prg_size m' = m_prg_size m \<and> m_chr_rom m' = m_chr_rom m \<and>
     m_chr_rom_size m' = m_chr_rom_size m \<and> m_rom_info m' = m_rom_info m \<and>
     m_own_ram m' = m_own_ram m \<and> m_is_write_register_addr m' = m_is_write_register_addr m \<and>
     m_has_bus_conflicts m' = m_has_bus_conflicts m"

lemma same_board_refl [simp]: "same_board m m"
  and same_board_trans: "same_board a b \<Longrightarrow> same_board b c \<Longrightarrow> same_board a c"
  by (simp_all add: same_board_def)

lemma map_source_same [simp]:
  "same_board m (map_cpu_source s e p off acc m)"
  "same_board m (map_ppu_source s e p off n acc m)"
  "same_board m (map_ppu_offset s e t off acc m)"
  by (cases t; simp add: same_board_def map_cpu_source_def map_ppu_source_def
      map_ppu_offset_def Let_def)+

lemma select_chr_page_same [simp]: "same_board m (select_chr_page slot page t m)"
proof -
  have "same_board m (initialize_chr_ram s m)" for s
    by (simp add: initialize_chr_ram_def same_board_def Let_def)
  then show ?thesis
    by (auto simp: select_chr_page_def map_ppu_page_def Let_def
        intro: same_board_trans [OF _ map_source_same(3)] split: chr_memory_type.split)
qed

lemma same_board_mirroring_upd [simp]: "same_board m (m\<lparr>m_mirroring_type := t\<rparr>)"
  by (simp add: same_board_def)

lemma set_mirroring_type_same [simp]: "same_board m (set_mirroring_type t m)"
proof -
  have "same_board m (set_nametable j n m)" for j n m
    by (auto simp: set_nametable_def Let_def intro: same_board_trans [OF _ map_source_same(2)])
  then have "same_board m (set_nametable j n m')" if "same_board m m'" for j n m m'
    using that same_board_trans by blast
  then show ?thesis
    by (cases t) (simp_all add: set_mirroring_type_def Let_def)
qed

text \<open>A board whose PRG ROM has at least one page, and few enough for \<^verbatim>\<open>int16_t\<close>.\<close>

definition has_banks :: "mapper \<Rightarrow> bool" where
  "has_banks m \<longleftrightarrow> 0 < prg_page_count m \<and> prg_page_count m < 2 ^ 15"

lemma same_board_banks: "same_board m m' \<Longrightarrow> has_banks m' = has_banks m"
  by (simp add: same_board_def has_banks_def prg_page_count_def)

lemma bank_offset:
  fixes q k :: nat
  assumes "q < prg_page_count m" "k < unat (get_prg_page_size (m_chip m))"
  shows "q * unat (get_prg_page_size (m_chip m)) + k < unat (m_prg_size m)"
proof -
  let ?ps = "unat (get_prg_page_size (m_chip m))"
  have "q * ?ps + k < (q + 1) * ?ps" using assms(2) by simp
  also have "\<dots> \<le> prg_page_count m * ?ps" using assms(1) by (intro mult_le_mono1) simp
  also have "\<dots> \<le> unat (m_prg_size m)" by (simp add: prg_page_count_def)
  finally show ?thesis .
qed

lemma bank_base:
  assumes "q < prg_page_count m"
  shows "unat (of_nat q * ucast (get_prg_page_size (m_chip m)) :: u32) =
    q * unat (get_prg_page_size (m_chip m))"
proof -
  have "q * unat (get_prg_page_size (m_chip m)) + 0 < unat (m_prg_size m)"
    using assms by (intro bank_offset) (simp_all add: unat_gt_0)
  moreover have "unat (m_prg_size m) < 2 ^ 32" using unsigned_less [where 'a = nat, of "m_prg_size m"] by simp
  ultimately have le: "q * unat (get_prg_page_size (m_chip m)) < 2 ^ 32" by linarith
  have "q * 1 \<le> q * unat (get_prg_page_size (m_chip m))"
    by (intro mult_le_mono2) (simp add: Suc_le_eq unat_gt_0)
  with le have "q < 2 ^ 32" by linarith
  with le show ?thesis
    by (simp add: unat_word_ariths unat_ucast_up unat_of_nat)
qed

lemma select_prg_page_wf:
  assumes wf: "mapper_wf m" and banks: "has_banks m"
  shows "ok (select_prg_page slot page m) (\<lambda>m'. mapper_wf m' \<and> same_board m m')"
proof -
  let ?ps = "get_prg_page_size (m_chip m)" and ?q = "unat page mod prg_page_count m"
  let ?start = "prg_slot_start slot m"
  note w = slot_window(1-3) [where slot = slot and m = m] slot_window(4,5) [where m = m]
  have q: "?q < prg_page_count m" using banks by (simp add: has_banks_def)
  have "page_ok m (ptr_add (Some (PrgRom, 0)) (of_nat ?q * ucast ?ps + 0x100 * ucast (i - hi_byte ?start)))"
    if i: "hi_byte ?start \<le> i" "i \<le> hi_byte (?start + ?ps - 1)" for i
  proof -
    have "unat (i - hi_byte ?start) = unat i - unat ?start div 256"
      using i(1) by (simp add: unat_sub_if' word_le_nat_alt unat_hi_byte)
    moreover have "unat i \<le> (unat ?start + (unat ?ps - 1)) div 256"
      using i(2) by (simp add: word_le_nat_alt unat_hi_byte w(3))
    then have "256 * unat i \<le> unat ?start + (unat ?ps - 1)" by simp
    ultimately have k: "256 * unat (i - hi_byte ?start) + 256 \<le> unat ?ps"
      using w(1,4,5) by (auto elim!: dvdE intro: page_fit)
    have "?q * unat ?ps + (256 * unat (i - hi_byte ?start) + 255) < unat (m_prg_size m)"
      using q k by (intro bank_offset) linarith+
    moreover from this have "unat (of_nat ?q * ucast ?ps :: u32) + 256 * unat (i - hi_byte ?start) < 2 ^ 32"
      using unsigned_less [where 'a = nat, of "m_prg_size m"] unfolding bank_base [OF q] by simp
    ultimately have "unat (of_nat ?q * ucast ?ps + 0x100 * ucast (i - hi_byte ?start) :: u32) + 256
        \<le> unat (m_prg_size m)"
      by (simp only: unat_page_offset bank_base [OF q])
    then show ?thesis using wf by (intro ptr_add_ok) (auto simp: mapper_wf_def)
  qed
  then have "mapper_wf (map_cpu_source ?start (?start + ?ps - 1) (Some (PrgRom, 0))
      (of_nat ?q * ucast ?ps) None m)"
    using wf by (intro map_cpu_source_wf)
  with wf banks show ?thesis
    by (simp add: select_prg_page_eq has_banks_def mapper_wf_def Let_def prg_slot_start_def)
qed

text \<open>The access rights after a bank selection: the window becomes readable and writable.\<close>

lemma select_prg_page_access:
  assumes "select_prg_page slot page m = Some m'" "mapper_wf m" "has_banks m"
  shows "m_prg_memory_access m' i =
    (if hi_byte (prg_slot_start slot m) \<le> i \<and>
        i \<le> hi_byte (prg_slot_start slot m + get_prg_page_size (m_chip m) - 1)
     then READ_WRITE else m_prg_memory_access m i)"
  using assms
  by (auto simp: select_prg_page_eq has_banks_def mapper_wf_def Let_def prg_slot_start_def
      map_cpu_source_def resolve_access_def)

text \<open>
  What the CPU reads in a bank window after \<^verbatim>\<open>select_prg_page\<close>: the bank \<open>page\<close>, modulo
  the number of banks, in the ROM.
\<close>

lemma read_selected_bank:
  assumes rom: "length (m_prg_rom m) = unat (m_prg_size m)" and banks: "has_banks m"
    and chip: "\<not> allow_register_read (m_chip m)"
    and k: "k < unat (get_prg_page_size (m_chip m))"
    and a: "unat a = unat (prg_slot_start slot m) + k"
  shows "\<exists>m'. select_prg_page slot page m = Some m' \<and>
    base_read_ram ob a m' = Some (m_prg_rom m !
      (unat page mod prg_page_count m * unat (get_prg_page_size (m_chip m)) + k))"
proof -
  let ?ps = "get_prg_page_size (m_chip m)" and ?q = "unat page mod prg_page_count m"
  let ?start = "prg_slot_start slot m"
  let ?m = "map_cpu_source ?start (?start + ?ps - 1) (Some (PrgRom, 0)) (of_nat ?q * ucast ?ps) None m"
  note w = slot_window(1-3) [where slot = slot and m = m] slot_window(4,5) [where m = m]
  have q: "?q < prg_page_count m" using banks by (simp add: has_banks_def)
  have sel: "select_prg_page slot page m = Some ?m"
    using rom banks by (simp add: select_prg_page_eq has_banks_def Let_def prg_slot_start_def)
  obtain s where s: "unat ?start = 256 * s" using w(1) by (rule dvdE)
  have hi: "unat (hi_byte a) = s + k div 256" and lo: "unat (lo_byte a) = k mod 256"
    by (simp_all add: unat_hi_byte unat_lo_byte a s)
  have s8: "unat (hi_byte ?start) = s" by (simp add: unat_hi_byte s)
  have "unat (hi_byte (?start + ?ps - 1)) = (256 * s + (unat ?ps - 1)) div 256"
    by (simp only: unat_hi_byte w(3) s)
  moreover have "(256 * s + k) div 256 \<le> (256 * s + (unat ?ps - 1)) div 256"
    using k by (intro div_le_mono) simp
  ultimately have in_window: "hi_byte ?start \<le> hi_byte a" "hi_byte a \<le> hi_byte (?start + ?ps - 1)"
    unfolding word_le_nat_alt hi s8 by simp_all
  have d: "unat (hi_byte a - hi_byte ?start) = k div 256"
    using in_window(1) by (simp add: unat_sub_if' word_le_nat_alt s8 hi)
  have off: "?q * unat ?ps + k < unat (m_prg_size m)" using q k by (rule bank_offset)
  have "k div 256 * 256 \<le> k" by simp
  then have "unat (of_nat ?q * ucast ?ps :: u32) + 256 * unat (hi_byte a - hi_byte ?start) < 2 ^ 32"
    using off unsigned_less [where 'a = nat, of "m_prg_size m"]
    unfolding bank_base [OF q] d by simp
  then have "unat (of_nat ?q * ucast ?ps + 0x100 * ucast (hi_byte a - hi_byte ?start) :: u32) + unat (lo_byte a)
      = ?q * unat ?ps + (256 * (k div 256) + k mod 256)"
    by (simp only: unat_page_offset bank_base [OF q] d lo add.assoc)
  then have "unat (of_nat ?q * ucast ?ps + 0x100 * ucast (hi_byte a - hi_byte ?start) :: u32) + unat (lo_byte a)
      = ?q * unat ?ps + k" by (simp only: mult_div_mod_eq)
  with in_window off rom chip have "base_read_ram ob a ?m = Some (m_prg_rom m ! (?q * unat ?ps + k))"
    by (simp add: base_read_ram_def map_cpu_source_def Let_def resolve_access_def load_ptr_def
        ptr_add_def)
  with sel show ?thesis by blast
qed

section \<open>Mirroring\<close>

text \<open>The nametable that the PPU sees in quadrant \<open>j\<close> of $2000-$2FFF.\<close>

fun nametable_of :: "mirroring_type \<Rightarrow> nat \<Rightarrow> nat" where
  "nametable_of VERTICAL j = j mod 2"
| "nametable_of HORIZONTAL j = j div 2"
| "nametable_of SCREEN_A_ONLY j = 0"
| "nametable_of SCREEN_B_ONLY j = 1"
| "nametable_of FOUR_SCREENS j = j"

lemma nametable_of_less: "j < 4 \<Longrightarrow> nametable_of t j < 4"
  by (cases t) auto

lemma map_nametable:
  fixes m :: mapper and b :: nat
  assumes s: "hi_byte (start AND 0x3FFF) = s" and e: "unat (hi_byte (end0 AND 0x3FFF)) = unat s + 3"
  defines "m' \<equiv> map_ppu_source start end0 (Some (NtRam, b)) 0 NAMETABLE_SIZE None m"
  shows "m_chr_pages m' i = (if unat s \<le> unat i \<and> unat i \<le> unat s + 3
      then Some (NtRam, b + 256 * (unat i - unat s)) else m_chr_pages m i)"
    "m_chr_memory_access m' i = (if unat s \<le> unat i \<and> unat i \<le> unat s + 3
      then READ_WRITE else m_chr_memory_access m i)"
proof -
  have d: "unat (i - s) = unat i - unat s" if "unat s \<le> unat i"
    using that by (simp add: unat_sub_if')
  have o1: "unat (0 + 0x100 * ucast (i - s) :: u32) = 256 * unat (i - s)"
    using unsigned_less [where 'a = nat, of "i - s"] by (subst unat_page_offset) simp_all
  have o2: "(0x100 * ucast (i - s) :: u32) < 0x400 \<longleftrightarrow> unat i - unat s < 4"
    if "unat s \<le> unat i"
    using o1 d [OF that] by (simp add: word_less_nat_alt)
  have hr: "s \<le> i \<and> i \<le> hi_byte (end0 AND 0x3FFF) \<longleftrightarrow> unat s \<le> unat i \<and> unat i \<le> unat s + 3"
    by (simp add: word_le_nat_alt e)
  show "m_chr_pages m' i = (if unat s \<le> unat i \<and> unat i \<le> unat s + 3
      then Some (NtRam, b + 256 * (unat i - unat s)) else m_chr_pages m i)"
    "m_chr_memory_access m' i = (if unat s \<le> unat i \<and> unat i \<le> unat s + 3
      then READ_WRITE else m_chr_memory_access m i)"
    using o1 o2 d unfolding m'_def map_ppu_source_def Let_def s
    by (auto simp: hr NAMETABLE_SIZE_def ptr_add_def resolve_access_def)
qed

definition in_quadrant :: "nat \<Rightarrow> nat \<Rightarrow> u8 \<Rightarrow> bool" where
  "in_quadrant base j i \<longleftrightarrow> base + 4 * j \<le> unat i \<and> unat i \<le> base + 4 * j + 3"

lemma set_nametable_pages:
  fixes j n :: u8
  assumes j: "j \<in> {0, 1, 2, 3}" and n: "n \<in> {0, 1, 2, 3}"
  shows "m_chr_pages (set_nametable j n m) i =
      (if in_quadrant 0x30 (unat j) i
       then Some (NtRam, unat n * 0x400 + 256 * (unat i - (0x30 + 4 * unat j)))
       else if in_quadrant 0x20 (unat j) i
       then Some (NtRam, unat n * 0x400 + 256 * (unat i - (0x20 + 4 * unat j)))
       else m_chr_pages m i)" (is ?pages)
    "m_chr_memory_access (set_nametable j n m) i =
      (if in_quadrant 0x30 (unat j) i \<or> in_quadrant 0x20 (unat j) i
       then READ_WRITE else m_chr_memory_access m i)" (is ?access)
    "m_nametable_ram (set_nametable j n m) = m_nametable_ram m" (is ?ram)
proof -
  have gn: "get_nametable n = Some (NtRam, unat n * 0x400)"
    using n by (auto simp: get_nametable_def NAMETABLE_SIZE_def)
  have s: "hi_byte ((0x2000 + ucast j * 0x400) AND 0x3FFF) = 0x20 + 4 * j"
    "hi_byte ((0x3000 + ucast j * 0x400) AND 0x3FFF) = 0x30 + 4 * j"
    using j by (auto simp: hi_byte_def)
  have u: "unat (0x20 + 4 * j) = 0x20 + 4 * unat j" "unat (0x30 + 4 * j) = 0x30 + 4 * unat j"
    using j by auto
  have e: "unat (hi_byte ((0x2000 + ucast j * 0x400 + 0x3FF) AND 0x3FFF)) = unat (0x20 + 4 * j) + 3"
    "unat (hi_byte ((0x3000 + ucast j * 0x400 + 0x3FF) AND 0x3FFF)) = unat (0x30 + 4 * j) + 3"
    using j by (auto simp: hi_byte_def)
  show ?pages ?access
    unfolding set_nametable_def Let_def gn
    by (simp_all only: map_nametable [OF s(2) e(2)] map_nametable [OF s(1) e(1)] u in_quadrant_def)
      simp_all
  show ?ram by (simp add: set_nametable_def map_ppu_source_def Let_def)
qed

text \<open>Quadrant \<open>j\<close> of $2000-$2FFF together with its image in $3000-$3FFF.\<close>

definition quadrant :: "nat \<Rightarrow> u8 \<Rightarrow> bool" where
  "quadrant j i \<longleftrightarrow> in_quadrant 0x20 j i \<or> in_quadrant 0x30 j i"

lemma quadrant_unique: "quadrant j i \<Longrightarrow> k < 4 \<Longrightarrow> j < 4 \<Longrightarrow> k \<noteq> j \<Longrightarrow> \<not> quadrant k i"
  by (auto simp: quadrant_def in_quadrant_def)

lemma set_nametable_miss:
  fixes j n :: u8
  assumes "j \<in> {0, 1, 2, 3}" "n \<in> {0, 1, 2, 3}" "\<not> quadrant (unat j) i"
  shows "m_chr_pages (set_nametable j n m) i = m_chr_pages m i"
    "m_chr_memory_access (set_nametable j n m) i = m_chr_memory_access m i"
  using assms(3) by (simp_all add: quadrant_def set_nametable_pages [OF assms(1,2)])

lemma set_nametable_hit:
  fixes j n :: u8
  assumes "j \<in> {0, 1, 2, 3}" "n \<in> {0, 1, 2, 3}" "quadrant (unat j) i"
  shows "m_chr_pages (set_nametable j n m) i = Some (NtRam, unat n * 0x400 + 256 * (unat i mod 4))"
    "m_chr_memory_access (set_nametable j n m) i = READ_WRITE"
proof -
  have "unat i - (0x20 + 4 * unat j) = unat i mod 4" if "in_quadrant 0x20 (unat j) i"
  proof -
    have "unat i = 4 * (8 + unat j) + (unat i - (0x20 + 4 * unat j))"
      "unat i - (0x20 + 4 * unat j) < 4"
      using that by (auto simp: in_quadrant_def)
    then show ?thesis by (metis mod_less mod_mult_self4)
  qed
  moreover have "unat i - (0x30 + 4 * unat j) = unat i mod 4" if "in_quadrant 0x30 (unat j) i"
  proof -
    have "unat i = 4 * (12 + unat j) + (unat i - (0x30 + 4 * unat j))"
      "unat i - (0x30 + 4 * unat j) < 4"
      using that by (auto simp: in_quadrant_def)
    then show ?thesis by (metis mod_less mod_mult_self4)
  qed
  ultimately show "m_chr_pages (set_nametable j n m) i =
      Some (NtRam, unat n * 0x400 + 256 * (unat i mod 4))"
    "m_chr_memory_access (set_nametable j n m) i = READ_WRITE"
    using assms(3) by (auto simp: quadrant_def set_nametable_pages [OF assms(1,2)])
qed

lemma four_nametables:
  fixes a b c d :: u8 and m :: mapper
  assumes n: "a \<in> {0, 1, 2, 3}" "b \<in> {0, 1, 2, 3}" "c \<in> {0, 1, 2, 3}" "d \<in> {0, 1, 2, 3}"
    and j: "j < 4" "quadrant j i"
  defines "m' \<equiv> set_nametable 3 d (set_nametable 2 c (set_nametable 1 b (set_nametable 0 a m)))"
  shows "m_chr_pages m' i = Some (NtRam, unat ([a, b, c, d] ! j) * 0x400 + 256 * (unat i mod 4)) \<and>
    m_chr_memory_access m' i = READ_WRITE"
proof -
  have o: "k < 4 \<Longrightarrow> k \<noteq> j \<Longrightarrow> \<not> quadrant k i" for k using quadrant_unique j by blast
  consider "j = 0" | "j = 1" | "j = 2" | "j = 3" using j(1) by linarith
  then show ?thesis
    using j(2) o [of 0] o [of 1] o [of 2] o [of 3] n unfolding m'_def
    by cases (simp_all add: set_nametable_miss set_nametable_hit)
qed

lemma mirroring_page:
  assumes j: "j < 4" and i: "quadrant j i"
  shows "m_chr_pages (set_mirroring_type t m) i =
      Some (NtRam, nametable_of t j * 0x400 + 256 * (unat i mod 4))"
    "m_chr_memory_access (set_mirroring_type t m) i = READ_WRITE"
    "m_nametable_ram (set_mirroring_type t m) = m_nametable_ram m"
proof -
  show "m_nametable_ram (set_mirroring_type t m) = m_nametable_ram m"
    by (cases t) (simp_all add: set_mirroring_type_def set_nametable_pages)
  consider "j = 0" | "j = 1" | "j = 2" | "j = 3" using j by linarith
  then have nth: "unat ([0, 1, 0, 1 :: u8] ! j) = j mod 2 \<and> unat ([0, 0, 1, 1 :: u8] ! j) = j div 2 \<and>
    unat ([0, 0, 0, 0 :: u8] ! j) = 0 \<and> unat ([1, 1, 1, 1 :: u8] ! j) = 1 \<and>
    unat ([0, 1, 2, 3 :: u8] ! j) = j"
    by cases simp_all
  show "m_chr_pages (set_mirroring_type t m) i =
      Some (NtRam, nametable_of t j * 0x400 + 256 * (unat i mod 4))"
    "m_chr_memory_access (set_mirroring_type t m) i = READ_WRITE"
    by (cases t; simp add: set_mirroring_type_def Let_def nth four_nametables [OF _ _ _ _ j i]
        del: nth_Cons_0 nth_Cons_Suc nth_Cons_numeral)+
qed

text \<open>The address of byte \<open>off\<close> of quadrant \<open>j\<close>, in the window at $2000 or at $3000.\<close>

lemma quadrant_addr:
  assumes "base \<in> {0x2000, 0x3000}" "j < 4" "off < 0x400"
    and a: "unat (a :: u16) = base + j * 0x400 + off"
  shows "a AND 0x3FFF = a" "quadrant j (hi_byte a)"
    "256 * (unat (hi_byte a) mod 4) + unat (lo_byte a) = off"
proof -
  have "unat a < 2 ^ 14" using assms by auto
  moreover have "a AND 0x3FFF = take_bit 14 a"
    by (simp add: take_bit_eq_mask mask_eq_exp_minus_1)
  ultimately show "a AND 0x3FFF = a"
    by (simp add: word_unat_eq_iff unsigned_take_bit_eq take_bit_nat_eq_self)
  define x y where "x = off div 256" and "y = off mod 256"
  then have xy: "off = 256 * x + y" "x < 4" "y < 256" using assms(3) by auto
  show "quadrant j (hi_byte a)"
    using assms(1) xy by (auto simp: quadrant_def in_quadrant_def unat_hi_byte a)
  have "\<exists>c. unat a = 256 * (4 * c + x) + y"
    using assms(1) by (auto simp: a xy intro: exI [of _ "8 + j"] exI [of _ "12 + j"])
  then obtain c where "unat a = y + (4 * c + x) * 256" by (auto simp: algebra_simps)
  then have "unat (hi_byte a) = x + c * 4" "unat (lo_byte a) = y"
    using xy(3) by (simp_all only: unat_hi_byte unat_lo_byte div_mult_self3 div_less mod_mult_self1
        mod_less zero_neq_numeral not_False_eq_True add_0_right) simp_all
  then show "256 * (unat (hi_byte a) mod 4) + unat (lo_byte a) = off"
    using xy by (simp only: mod_mult_self1 mod_less)
qed

lemma read_nametable:
  assumes nt: "length (m_nametable_ram m) = 0x1000"
    and addr: "base \<in> {0x2000, 0x3000}" "j < 4" "off < 0x400"
      "unat (a :: u16) = base + j * 0x400 + off"
  shows "read_vram a (set_mirroring_type t m) =
    Some (m_nametable_ram m ! (nametable_of t j * 0x400 + off))"
proof -
  note q = quadrant_addr [OF addr]
  have "nametable_of t j < 4" using addr(2) by (rule nametable_of_less)
  then have "nametable_of t j * 0x400 + off < 0x1000" using addr(3) by simp
  with q nt addr(2) show ?thesis
    by (simp add: read_vram_def Let_def mirroring_page load_ptr_def add.assoc)
qed

text \<open>A write through one address is read back at every address of the same cell.\<close>

lemma write_nametable:
  assumes nt: "length (m_nametable_ram m) = 0x1000"
    and addr: "base \<in> {0x2000, 0x3000}" "j < 4" "off < 0x400"
      "unat (a :: u16) = base + j * 0x400 + off"
  shows "write_vram a v (set_mirroring_type t m) =
    Some (m_nametable_ram_update
      (\<lambda>xs. xs[nametable_of t j * 0x400 + off := v]) (set_mirroring_type t m))"
proof -
  note q = quadrant_addr [OF addr]
  have "nametable_of t j < 4" using addr(2) by (rule nametable_of_less)
  then have "nametable_of t j * 0x400 + off < 0x1000" using addr(3) by simp
  with q nt addr(2) show ?thesis
    by (simp add: write_vram_def Let_def mirroring_page store_ptr_def add.assoc)
qed

end
