(* ===== verification/Mapper_Boards.thy ===== *)
theory Mapper_Boards
  imports Mapper_Paging
begin

text \<open>
  The boards: \<^verbatim>\<open>mapper_000.cpp\<close>, \<^verbatim>\<open>mapper_001.cpp\<close> (MMC1), \<^verbatim>\<open>mapper_002.cpp\<close>,
  \<^verbatim>\<open>mapper_003.cpp\<close>, \<^verbatim>\<open>mapper_004.cpp\<close> (MMC3), \<^verbatim>\<open>mapper_007.cpp\<close>, \<^verbatim>\<open>mapper_011.cpp\<close>,
  \<^verbatim>\<open>mapper_013.cpp\<close>, \<^verbatim>\<open>mapper_034.cpp\<close> and \<^verbatim>\<open>mapper_066.cpp\<close> under
  \<^verbatim>\<open>src/systems/nes/mappers/\<close>. A board's state is the mapper together with the CPU, whose
  interrupt line it drives and whose cycle counter it reads.
\<close>

section \<open>Loading the ROM\<close>

text \<open>The assignments that open the \<^verbatim>\<open>init\<close> of every board.\<close>

definition set_rom :: "rom_info \<Rightarrow> u8 list \<Rightarrow> u8 list \<Rightarrow> mapper \<Rightarrow> mapper" where
  "set_rom info prg_rom chr_rom m =
     m\<lparr>m_rom_info := info, m_prg_rom := prg_rom, m_chr_rom := chr_rom,
       m_prg_size := of_nat (length prg_rom), m_chr_rom_size := of_nat (length chr_rom)\<rparr>"

definition set_has_bus_conflicts :: "bool \<Rightarrow> mapper \<Rightarrow> mapper" where
  "set_has_bus_conflicts enabled m = m\<lparr>m_has_bus_conflicts := enabled\<rparr>"

section \<open>MMC1\<close>

text \<open>
  The two halves of a board's state are passed separately, the members of the subclass
  and the base class; \<open>m_chip\<close> is written back by the entry points.
\<close>

definition mmc1_process_register_write :: "u16 \<Rightarrow> u8 \<Rightarrow> mmc1 \<times> mapper \<Rightarrow> mmc1 \<times> mapper" where
  "mmc1_process_register_write addr val s = (case s of (c, m) \<Rightarrow>
     if addr AND 0xE000 = 0x8000 then
       (c\<lparr>m1_slot_select := val AND 0x04 \<noteq> 0, m1_prg_mode := val AND 0x08 \<noteq> 0,
          m1_chr_mode := val AND 0x10 \<noteq> 0\<rparr>,
        set_mirroring_type
          (if val AND 3 = 0 then SCREEN_A_ONLY else if val AND 3 = 1 then SCREEN_B_ONLY
           else if val AND 3 = 2 then VERTICAL else HORIZONTAL) m)
     else if addr AND 0xE000 = 0xA000 then
       (c\<lparr>m1_last_chr_reg := addr, m1_chr_reg0 := val AND 0x1F\<rparr>, m)
     else if addr AND 0xE000 = 0xC000 then
       (c\<lparr>m1_last_chr_reg := addr, m1_chr_reg1 := val AND 0x1F\<rparr>, m)
     else if addr AND 0xE000 = 0xE000 then
       (c\<lparr>m1_prg_reg := val AND 0x0F, m1_wram_disable := val AND 0x10 \<noteq> 0\<rparr>, m)
     else (c, m))"

definition mmc1_update_state :: "mmc1 \<Rightarrow> mapper \<Rightarrow> mapper option" where
  "mmc1_update_state c m0 = do {
     let extra_reg = (if m1_last_chr_reg c = 0xC000 \<and> m1_chr_mode c
                      then m1_chr_reg1 c else m1_chr_reg0 c);
     let prg_bank_select = (if m_prg_size m0 = 0x80000 then extra_reg AND 0x10 else 0);
     let wram_enabled = (\<not> m1_wram_disable c);
     let m = map_cpu_source 0x6000 0x7FFF (vec_data OwnRam m0) 0
               (Some (if wram_enabled then READ_WRITE else NO_ACCESS)) m0;
     let m = (if wram_enabled then m
              else m\<lparr>m_prg_pages := (\<lambda>i. if 0x60 \<le> i \<and> i \<le> 0x7F then None else m_prg_pages m i)\<rparr>);
     m \<leftarrow> (if m1_prg_mode c then
            if m1_slot_select c then do {
              m \<leftarrow> select_prg_page 0 (ucast (m1_prg_reg c OR prg_bank_select)) m;
              select_prg_page 1 (ucast (0x0F OR prg_bank_select)) m }
            else do {
              m \<leftarrow> select_prg_page 0 (ucast (0 OR prg_bank_select)) m;
              select_prg_page 1 (ucast (m1_prg_reg c OR prg_bank_select)) m }
          else do {
            m \<leftarrow> select_prg_page 0 (ucast (m1_prg_reg c AND 0xFE OR prg_bank_select)) m;
            select_prg_page 1 (ucast (m1_prg_reg c AND 0xFE OR prg_bank_select) + 1) m });
     Some (if m1_chr_mode c
           then select_chr_page 1 (ucast (m1_chr_reg1 c)) CHR_DEFAULT
                  (select_chr_page 0 (ucast (m1_chr_reg0 c)) CHR_DEFAULT m)
           else select_chr_page 1 (ucast (m1_chr_reg0 c AND 0x1E) + 1) CHR_DEFAULT
                  (select_chr_page 0 (ucast (m1_chr_reg0 c AND 0x1E)) CHR_DEFAULT m)) }"

definition mmc1_reset_buffer :: "mmc1 \<Rightarrow> mmc1" where
  "mmc1_reset_buffer c = c\<lparr>m1_shift_count := 0, m1_write_buffer := 0\<rparr>"

definition mmc1_process_bit_write :: "u16 \<Rightarrow> u8 \<Rightarrow> mmc1 \<times> mapper \<Rightarrow> (mmc1 \<times> mapper) option" where
  "mmc1_process_bit_write addr val s = (case s of (c, m) \<Rightarrow>
     if val AND 0x80 \<noteq> 0 then
       let c = (mmc1_reset_buffer c)\<lparr>m1_prg_mode := True, m1_slot_select := True\<rparr>
       in map_option (Pair c) (mmc1_update_state c m)
     else
       let c = c\<lparr>m1_write_buffer := drop_bit 1 (m1_write_buffer c) OR (push_bit 4 val AND 0x10),
                 m1_shift_count := m1_shift_count c + 1\<rparr>
       in if m1_shift_count c = 5 then
            let (c, m) = mmc1_process_register_write addr (m1_write_buffer c) (c, m)
            in map_option (Pair (mmc1_reset_buffer c)) (mmc1_update_state c m)
          else Some (c, m))"

definition mmc1_write_register :: "u64 \<Rightarrow> u16 \<Rightarrow> u8 \<Rightarrow> mmc1 \<times> mapper \<Rightarrow> (mmc1 \<times> mapper) option" where
  "mmc1_write_register current_cycle addr val s = do {
     (c, m) \<leftarrow> (if val AND 0x80 \<noteq> 0 \<or> current_cycle - m1_last_write_cycle (fst s) \<ge> 2
               then mmc1_process_bit_write addr val s else Some s);
     Some (c\<lparr>m1_last_write_cycle := current_cycle\<rparr>, m) }"

definition mmc1_init :: "mmc1 \<times> mapper \<Rightarrow> (mmc1 \<times> mapper) option" where
  "mmc1_init s = do {
     let (c, m) = s;
     let m = add_register_range 0x8000 0xFFFF OP_WRITE (m\<lparr>m_own_ram := vec_resize 0x2000 (m_own_ram m)\<rparr>);
     let (c, m) = mmc1_process_register_write 0x8000 0x0C (c, m);
     let (c, m) = mmc1_process_register_write 0xA000 0x00 (c, m);
     let (c, m) = mmc1_process_register_write 0xC000 0x00 (c, m);
     let (c, m) = mmc1_process_register_write 0xE000 0x00 (c, m);
     let c = c\<lparr>m1_last_chr_reg := 0xA000\<rparr>;
     map_option (Pair c) (mmc1_update_state c m) }"

section \<open>MMC3\<close>

definition mmc3_is_a12_rising_edge :: "u64 \<Rightarrow> u16 \<Rightarrow> mmc3 \<Rightarrow> bool \<times> mmc3" where
  "mmc3_is_a12_rising_edge cycle addr c =
     (if addr AND 0x1000 \<noteq> 0 then
        (m3_a12_low_clock c > 0 \<and> cycle - m3_a12_low_clock c \<ge> 3, c\<lparr>m3_a12_low_clock := 0\<rparr>)
      else (False, if m3_a12_low_clock c = 0 then c\<lparr>m3_a12_low_clock := cycle\<rparr> else c))"

text \<open>The body of \<^verbatim>\<open>notify_vram_address_change\<close> on a rising edge; true when it raises the IRQ.\<close>

definition mmc3_clock_counter :: "mmc3 \<Rightarrow> bool \<times> mmc3" where
  "mmc3_clock_counter c =
     (let prev_counter = m3_irq_counter c;
          c1 = c\<lparr>m3_irq_counter := (if m3_irq_counter c = 0 \<or> m3_irq_reload c
                  then m3_irq_reload_value c else m3_irq_counter c - 1)\<rparr>;
          fire = (if m3_force_mmc3_rev_a_irqs c1
                  then (prev_counter > 0 \<or> m3_irq_reload c1) \<and> m3_irq_counter c1 = 0 \<and> m3_irq_enabled c1
                  else m3_irq_counter c1 = 0 \<and> m3_irq_enabled c1)
      in (fire, c1\<lparr>m3_irq_reload := False\<rparr>))"

definition mmc3_notify_vram_address_change :: "u16 \<Rightarrow> mmc3 \<times> cpu \<Rightarrow> mmc3 \<times> cpu" where
  "mmc3_notify_vram_address_change addr s =
     (let (c, cpu) = s;
          (edge, c) = mmc3_is_a12_rising_edge (cpu_cycle_count cpu) addr c
      in if edge then
           let (fire, c) = mmc3_clock_counter c
           in (c, if fire then set_irq_source irq_EXTERNAL cpu else cpu)
         else (c, cpu))"

definition mmc3_update_mirroring :: "mmc3 \<Rightarrow> mapper \<Rightarrow> mapper" where
  "mmc3_update_mirroring c m =
     (if m_mirroring_type m \<noteq> FOUR_SCREENS
      then set_mirroring_type (if m3_reg_a000 c AND 0x01 \<noteq> 0 then HORIZONTAL else VERTICAL) m
      else m)"

definition mmc3_update_prg_mapping :: "mmc3 \<Rightarrow> mapper \<Rightarrow> mapper option" where
  "mmc3_update_prg_mapping c m = do {
     r6 \<leftarrow> rd (m3_registers c) 6;
     r7 \<leftarrow> rd (m3_registers c) 7;
     if m3_prg_mode c = 0 then do {
       m \<leftarrow> select_prg_page 0 (ucast r6) m;
       m \<leftarrow> select_prg_page 1 (ucast r7) m;
       m \<leftarrow> select_prg_page 2 (- 2) m;
       select_prg_page 3 (- 1) m }
     else do {
       m \<leftarrow> select_prg_page 0 (- 2) m;
       m \<leftarrow> select_prg_page 1 (ucast r7) m;
       m \<leftarrow> select_prg_page 2 (ucast r6) m;
       select_prg_page 3 (- 1) m } }"

definition select_chr_pages :: "u8 list \<Rightarrow> mapper \<Rightarrow> mapper" where
  "select_chr_pages pages m =
     foldl (\<lambda>m (slot, page). select_chr_page slot (ucast page) CHR_DEFAULT m) m
       (zip [0, 1, 2, 3, 4, 5, 6, 7] pages)"

definition mmc3_update_chr_mapping :: "mmc3 \<Rightarrow> mapper \<Rightarrow> mapper option" where
  "mmc3_update_chr_mapping c m = do {
     r0 \<leftarrow> rd (m3_registers c) 0;
     r1 \<leftarrow> rd (m3_registers c) 1;
     r2 \<leftarrow> rd (m3_registers c) 2;
     r3 \<leftarrow> rd (m3_registers c) 3;
     r4 \<leftarrow> rd (m3_registers c) 4;
     r5 \<leftarrow> rd (m3_registers c) 5;
     Some (if m3_chr_mode c = 0
           then select_chr_pages [r0 AND 0xFE, r0 OR 1, r1 AND 0xFE, r1 OR 1, r2, r3, r4, r5] m
           else select_chr_pages [r2, r3, r4, r5, r0 AND 0xFE, r0 OR 1, r1 AND 0xFE, r1 OR 1] m) }"

definition mmc3_update_state :: "mmc3 \<Rightarrow> mapper \<Rightarrow> mapper option" where
  "mmc3_update_state c m = do {
     let access = (if m3_wram_enabled c
                   then if \<not> m3_wram_write_protected c then READ_WRITE else READ
                   else NO_ACCESS);
     m \<leftarrow> mmc3_update_prg_mapping c
           (map_cpu_source 0x6000 0x7FFF (vec_data OwnRam m) 0 (Some access) m);
     mmc3_update_chr_mapping c m }"

definition mmc3_write_register :: "u16 \<Rightarrow> u8 \<Rightarrow> mmc3 \<times> mapper \<times> cpu \<Rightarrow> (mmc3 \<times> mapper \<times> cpu) option" where
  "mmc3_write_register addr val s =
     (let (c, m, cpu) = s;
          r = addr AND 0xE001;
          update = (\<lambda>c. map_option (\<lambda>m. (c, m, cpu)) (mmc3_update_state c m))
      in if r = 0x8000 then
           update (c\<lparr>m3_current_register := val AND 0x07,
                     m3_chr_mode := drop_bit 7 val AND 1, m3_prg_mode := drop_bit 6 val AND 1\<rparr>)
         else if r = 0x8001 then do {
           let v = (if m3_current_register c \<le> 1 then val AND NOT 0x01 else val);
           regs \<leftarrow> wr (m3_registers c) (unat (m3_current_register c)) v;
           update (c\<lparr>m3_registers := regs\<rparr>) }
         else if r = 0xA000 then
           let c = c\<lparr>m3_reg_a000 := val\<rparr> in Some (c, mmc3_update_mirroring c m, cpu)
         else if r = 0xA001 then
           update (c\<lparr>m3_wram_enabled := val AND 0x80 \<noteq> 0, m3_wram_write_protected := val AND 0x40 \<noteq> 0\<rparr>)
         else if r = 0xC000 then Some (c\<lparr>m3_irq_reload_value := val\<rparr>, m, cpu)
         else if r = 0xC001 then Some (c\<lparr>m3_irq_counter := 0, m3_irq_reload := True\<rparr>, m, cpu)
         else if r = 0xE000 then Some (c\<lparr>m3_irq_enabled := False\<rparr>, m, clear_irq_source irq_EXTERNAL cpu)
         else if r = 0xE001 then Some (c\<lparr>m3_irq_enabled := True\<rparr>, m, cpu)
         else Some (c, m, cpu))"

definition mmc3_init :: "rom_info \<Rightarrow> mmc3 \<times> mapper \<Rightarrow> (mmc3 \<times> mapper) option" where
  "mmc3_init info s = do {
     let (c, m) = s;
     let m = add_register_range 0x8000 0xFFFF OP_WRITE m;
     let m = m\<lparr>m_own_ram := vec_resize 0x2000 (m_own_ram m)\<rparr>;
     let c = c\<lparr>m3_registers := [0, 2, 4, 5, 6, 7, 0, 1],
               m3_force_mmc3_rev_a_irqs := take 5 (ri_chip info) = ''MMC3A'',
               m3_irq_reload_value := 0, m3_irq_counter := 0, m3_irq_reload := False,
               m3_irq_enabled := False, m3_wram_enabled := False,
               m3_wram_write_protected := False, m3_reg_a000 := 0\<rparr>;
     m \<leftarrow> mmc3_update_state c m;
     Some (c, mmc3_update_mirroring c m) }"

section \<open>The discrete boards\<close>

definition mapper000_init :: "rom_info \<Rightarrow> mapper \<Rightarrow> mapper option" where
  "mapper000_init info m = do {
     let is_ram = (m_chr_rom_size m = 0);
     let m = set_mirroring_type (ri_mirroring info) (m\<lparr>m_chip := Mapper000 is_ram\<rparr>);
     m \<leftarrow> map_cpu_page 0x8000 0xBFFF 0 None m;
     m \<leftarrow> map_cpu_page 0xC000 0xFFFF (if m_prg_size m \<ge> 0x8000 then 1 else 0) None m;
     Some (if is_ram
           then map_ppu_page 0x0000 0x1FFF 0 CHR_RAM (Some READ_WRITE) (initialize_chr_ram 0x2000 m)
           else map_ppu_page 0x0000 0x1FFF 0 CHR_ROM (Some READ) m) }"

definition mapper002_init :: "rom_info \<Rightarrow> mapper \<Rightarrow> mapper option" where
  "mapper002_init info m = do {
     let m = m\<lparr>m_own_ram := vec_resize 0x2000 (m_own_ram m)\<rparr>;
     let m = set_mirroring_type (ri_mirroring info) m;
     let m = map_cpu_source 0x6000 0x7FFF (vec_data OwnRam m) 0 None m;
     let m = add_register_range 0x8000 0xFFFF OP_WRITE m;
     let last_bank = (ucast (m_prg_size m div 0x4000 - 1) :: u16);
     m \<leftarrow> select_prg_page 0 0 m;
     m \<leftarrow> select_prg_page 1 last_bank m;
     Some (select_chr_page 0 0 CHR_DEFAULT m) }"

definition mapper002_write_register :: "u16 \<Rightarrow> u8 \<Rightarrow> mapper \<Rightarrow> mapper option" where
  "mapper002_write_register addr val m = select_prg_page 0 (ucast val) m"

text \<open>\<^verbatim>\<open>init\<close> of the boards 003, 034 and 066, which are the same text.\<close>

definition latch_board_init :: "rom_info \<Rightarrow> mapper \<Rightarrow> mapper option" where
  "latch_board_init info m = do {
     let m = set_mirroring_type (ri_mirroring info) m;
     let m = add_register_range 0x8000 0xFFFF OP_WRITE m;
     m \<leftarrow> select_prg_page 0 0 m;
     Some (select_chr_page 0 0 CHR_DEFAULT m) }"

definition mapper003_write_register :: "u16 \<Rightarrow> u8 \<Rightarrow> mapper \<Rightarrow> mapper option" where
  "mapper003_write_register addr val m = Some (select_chr_page 0 (ucast val) CHR_DEFAULT m)"

definition mapper034_write_register :: "u16 \<Rightarrow> u8 \<Rightarrow> mapper \<Rightarrow> mapper option" where
  "mapper034_write_register addr val m = select_prg_page 0 (ucast val) m"

definition mapper066_write_register :: "u16 \<Rightarrow> u8 \<Rightarrow> mapper \<Rightarrow> mapper option" where
  "mapper066_write_register addr val m = do {
     m \<leftarrow> select_prg_page 0 (ucast (drop_bit 4 val AND 0x03)) m;
     Some (select_chr_page 0 (ucast (val AND 0x03)) CHR_DEFAULT m) }"

definition mapper007_write_register :: "u16 \<Rightarrow> u8 \<Rightarrow> mapper \<Rightarrow> mapper option" where
  "mapper007_write_register addr val m = do {
     m \<leftarrow> select_prg_page 0 (ucast (val AND 0x0F)) m;
     Some (set_mirroring_type (if val AND 0x10 \<noteq> 0 then SCREEN_B_ONLY else SCREEN_A_ONLY) m) }"

definition mapper007_init :: "rom_info \<Rightarrow> mapper \<Rightarrow> mapper option" where
  "mapper007_init info m =
     mapper007_write_register 0 0
       (select_chr_page 0 0 CHR_DEFAULT (add_register_range 0x8000 0xFFFF OP_WRITE m))"

definition mapper011_init :: "rom_info \<Rightarrow> mapper \<Rightarrow> mapper option" where
  "mapper011_init info m = do {
     let m = add_register_range 0x8000 0xFFFF OP_WRITE (set_has_bus_conflicts True m);
     m \<leftarrow> select_prg_page 0 0 m;
     Some (select_chr_page 0 0 CHR_DEFAULT m) }"

definition mapper011_write_register :: "u8 \<Rightarrow> u16 \<Rightarrow> u8 \<Rightarrow> mapper \<Rightarrow> mapper option" where
  "mapper011_write_register open_bus addr val m = do {
     v \<leftarrow> (if ri_mapper_number (m_rom_info m) = 144
          then map_option (\<lambda>b. val OR (b AND 0x01)) (base_read_ram open_bus addr m)
          else Some val);
     m \<leftarrow> select_prg_page 0 (ucast (v AND 0x0F)) m;
     Some (select_chr_page 0 (ucast (drop_bit 4 v AND 0x0F)) CHR_DEFAULT m) }"

definition mapper013_init :: "rom_info \<Rightarrow> mapper \<Rightarrow> mapper option" where
  "mapper013_init info m = do {
     let m = add_register_range 0x8000 0xFFFF OP_WRITE m;
     m \<leftarrow> select_prg_page 0 0 m;
     Some (set_mirroring_type VERTICAL (select_chr_page 0 0 CHR_DEFAULT m)) }"

definition mapper013_write_register :: "u16 \<Rightarrow> u8 \<Rightarrow> mapper \<Rightarrow> mapper option" where
  "mapper013_write_register addr val m =
     (if addr \<ge> 0x8000 then Some (select_chr_page 1 (ucast (val AND 0x03)) CHR_DEFAULT m)
      else Some m)"

section \<open>The virtual functions\<close>

text \<open>\<^verbatim>\<open>init\<close>: the ROM is stored, then the board sets up its pages.\<close>

definition mapper_init :: "rom_info \<Rightarrow> u8 list \<Rightarrow> u8 list \<Rightarrow> mapper \<Rightarrow> mapper option" where
  "mapper_init info prg_rom chr_rom m0 =
     (let m = set_rom info prg_rom chr_rom m0
      in case m_chip m of
           Mapper000 _ \<Rightarrow> mapper000_init info m
         | Mapper001 c \<Rightarrow> map_option (\<lambda>(c, m). m\<lparr>m_chip := Mapper001 c\<rparr>) (mmc1_init (c, m))
         | Mapper002 \<Rightarrow> mapper002_init info m
         | Mapper003 \<Rightarrow> latch_board_init info m
         | Mapper004 c \<Rightarrow> map_option (\<lambda>(c, m). m\<lparr>m_chip := Mapper004 c\<rparr>) (mmc3_init info (c, m))
         | Mapper007 \<Rightarrow> mapper007_init info m
         | Mapper011 \<Rightarrow> mapper011_init info m
         | Mapper013 \<Rightarrow> mapper013_init info m
         | Mapper034 \<Rightarrow> latch_board_init info m
         | Mapper066 \<Rightarrow> latch_board_init info m)"

definition write_register :: "u8 \<Rightarrow> u16 \<Rightarrow> u8 \<Rightarrow> mapper \<times> cpu \<Rightarrow> (mapper \<times> cpu) option" where
  "write_register open_bus addr val s =
     (let (m, cpu) = s; plain = map_option (\<lambda>m. (m, cpu))
      in case m_chip m of
           Mapper000 _ \<Rightarrow> Some s
         | Mapper001 c \<Rightarrow> map_option (\<lambda>(c, m). (m\<lparr>m_chip := Mapper001 c\<rparr>, cpu))
             (mmc1_write_register (cpu_cycle_count cpu) addr val (c, m))
         | Mapper002 \<Rightarrow> plain (mapper002_write_register addr val m)
         | Mapper003 \<Rightarrow> plain (mapper003_write_register addr val m)
         | Mapper004 c \<Rightarrow> map_option (\<lambda>(c, m, cpu). (m\<lparr>m_chip := Mapper004 c\<rparr>, cpu))
             (mmc3_write_register addr val (c, m, cpu))
         | Mapper007 \<Rightarrow> plain (mapper007_write_register addr val m)
         | Mapper011 \<Rightarrow> plain (mapper011_write_register open_bus addr val m)
         | Mapper013 \<Rightarrow> plain (mapper013_write_register addr val m)
         | Mapper034 \<Rightarrow> plain (mapper034_write_register addr val m)
         | Mapper066 \<Rightarrow> plain (mapper066_write_register addr val m))"

text \<open>\<^verbatim>\<open>read_ram\<close> and \<^verbatim>\<open>write_ram\<close>; the board 000 reads without the register check.\<close>

definition mapper_read_ram :: "u8 \<Rightarrow> u16 \<Rightarrow> mapper \<Rightarrow> u8 option" where
  "mapper_read_ram open_bus addr m =
     (case m_chip m of
        Mapper000 _ \<Rightarrow>
          if can_read (m_prg_memory_access m (hi_byte addr))
          then load_ptr (m_prg_pages m (hi_byte addr)) (lo_byte addr) m
          else Some open_bus
      | _ \<Rightarrow> base_read_ram open_bus addr m)"

definition mapper_write_ram :: "u8 \<Rightarrow> u16 \<Rightarrow> u8 \<Rightarrow> mapper \<times> cpu \<Rightarrow> (mapper \<times> cpu) option" where
  "mapper_write_ram open_bus addr val s = base_write_ram (write_register open_bus) addr val s"

definition notify_vram_address_change :: "u16 \<Rightarrow> mapper \<times> cpu \<Rightarrow> mapper \<times> cpu" where
  "notify_vram_address_change addr s =
     (case m_chip (fst s) of
        Mapper004 c \<Rightarrow>
          (let (c, cpu) = mmc3_notify_vram_address_change addr (c, snd s)
           in ((fst s)\<lparr>m_chip := Mapper004 c\<rparr>, cpu))
      | _ \<Rightarrow> s)"

text \<open>The CPU clock hook and the custom VRAM read of a board; none here overrides them.\<close>

definition mapper_process_cpu_clock :: "mapper \<times> cpu \<Rightarrow> mapper \<times> cpu" where
  "mapper_process_cpu_clock s = s"

definition read_vram_custom :: "u16 \<Rightarrow> mapper \<Rightarrow> u8 option" where
  "read_vram_custom addr m = read_vram addr m"

end
