(* ===== verification/Mapper_Safety.thy ===== *)
theory Mapper_Safety
  imports Mapper_Boards
begin

text \<open>
  The invariant of a loaded cartridge: every operation of every board keeps it, and under
  it no access of the CPU or the PPU leaves a buffer or follows a null pointer.
\<close>

section \<open>The invariant during a page operation\<close>

text \<open>
  \<open>paged k n m\<close>: the page tables are well formed, the board \<open>k\<close> has banks and a private
  RAM of \<open>n\<close> bytes, and the registers lie in the ROM window.
\<close>

definition paged :: "mapper_chip \<Rightarrow> nat \<Rightarrow> mapper \<Rightarrow> bool" where
  "paged k n m \<longleftrightarrow> mapper_wf m \<and> has_banks m \<and> m_chip m = k \<and> length (m_own_ram m) = n \<and>
     (\<forall>a. m_is_write_register_addr m a \<longrightarrow> 0x8000 \<le> a)"

text \<open>The ROM window $8000-$FFFF is mapped.\<close>

definition rom_window :: "mapper \<Rightarrow> bool" where
  "rom_window m \<longleftrightarrow> (\<forall>i. 0x80 \<le> i \<longrightarrow> m_prg_memory_access m i = READ_WRITE)"

lemma paged_same_board:
  "paged k n m \<Longrightarrow> same_board m m' \<Longrightarrow> mapper_wf m' \<Longrightarrow> paged k n m'"
  by (auto simp: paged_def same_board_banks) (simp_all add: same_board_def)

named_theorems paged_intros \<open>preservation of \<open>paged\<close> and \<open>rom_window\<close>\<close>

lemma paged_chr [paged_intros]: "paged k n m \<Longrightarrow> paged k n (select_chr_page slot page t m)"
  by (rule paged_same_board [of k n m]) (auto simp: paged_def intro: select_chr_page_wf)

lemma paged_mirroring [paged_intros]: "paged k n m \<Longrightarrow> paged k n (set_mirroring_type t m)"
  by (rule paged_same_board [of k n m]) (auto simp: paged_def intro: set_mirroring_type_wf)

lemma paged_prg: "paged k n m \<Longrightarrow> ok (select_prg_page slot page m) (paged k n)"
  by (rule ok_mono [OF select_prg_page_wf]) (auto simp: paged_def same_board_banks, auto simp: same_board_def)

lemma own_ram_page:
  assumes "length (m_own_ram m) = 0x2000" "0x60 \<le> i" "i \<le> (0x7F :: u8)"
  shows "page_ok m (ptr_add (vec_data OwnRam m) (0 + 0x100 * ucast (i - 0x60)))"
proof -
  have d: "unat (i - 0x60) = unat i - 0x60" "unat i \<le> 0x7F"
    using assms(2,3) by (simp_all add: unat_sub_if' word_le_nat_alt)
  then have "unat (0 + 0x100 * ucast (i - 0x60) :: u32) = 256 * unat (i - 0x60)"
    by (subst unat_page_offset) simp_all
  with assms(1) d show ?thesis
    by (auto simp: vec_data_def ptr_add_def page_ok_def)
qed

lemma paged_own [paged_intros]:
  assumes "paged k 0x2000 m"
  shows "paged k 0x2000 (map_cpu_source 0x6000 0x7FFF (vec_data OwnRam m) 0 acc m)"
proof (rule paged_same_board [OF assms])
  show "same_board m (map_cpu_source 0x6000 0x7FFF (vec_data OwnRam m) 0 acc m)" by simp
  have hb: "hi_byte 0x6000 = 0x60" "hi_byte 0x7FFF = 0x7F" by (simp_all add: hi_byte_def)
  show "mapper_wf (map_cpu_source 0x6000 0x7FFF (vec_data OwnRam m) 0 acc m)"
    using assms unfolding paged_def
    by (intro map_cpu_source_wf) (auto simp: hb intro!: own_ram_page [unfolded add_0])
qed

lemma rom_window_chr [paged_intros]: "rom_window m \<Longrightarrow> rom_window (select_chr_page slot page t m)"
proof -
  have "m_prg_memory_access (map_ppu_offset s e t off acc m) = m_prg_memory_access m" for s e t off acc m
    by (cases t) (simp_all add: map_ppu_offset_def Let_def)
  moreover have "m_prg_memory_access (initialize_chr_ram s m) = m_prg_memory_access m" for s
    by (simp add: initialize_chr_ram_def Let_def)
  ultimately show "rom_window m \<Longrightarrow> ?thesis"
    by (auto simp: rom_window_def select_chr_page_def map_ppu_page_def Let_def split: chr_memory_type.split)
qed

lemma rom_window_mirroring [paged_intros]: "rom_window m \<Longrightarrow> rom_window (set_mirroring_type t m)"
  by (cases t) (simp_all add: rom_window_def set_mirroring_type_def set_nametable_def Let_def map_ppu_source_def)

lemma rom_window_own [paged_intros]:
  "rom_window m \<Longrightarrow> rom_window (map_cpu_source 0x6000 0x7FFF p off acc m)"
  by (auto simp: rom_window_def map_cpu_source_def Let_def hi_byte_def word_le_nat_alt)

lemma rom_window_prg:
  assumes "paged k n m" "rom_window m"
  shows "ok (select_prg_page slot page m) rom_window"
proof -
  obtain m' where m': "select_prg_page slot page m = Some m'"
    using paged_prg [OF assms(1)] by (auto simp: ok_iff)
  with assms show ?thesis
    by (auto simp: rom_window_def paged_def select_prg_page_access [OF m'])
qed

lemma loaded_prg:
  "paged k n m \<Longrightarrow> rom_window m \<Longrightarrow> (\<And>m'. paged k n m' \<Longrightarrow> rom_window m' \<Longrightarrow> Q m') \<Longrightarrow>
   ok (select_prg_page slot page m) Q"
  by (rule ok_mono [OF ok_conj [OF paged_prg rom_window_prg]]) auto

lemmas [paged_intros] = loaded_prg

section \<open>The boards keep the invariant\<close>

lemma ok_map_pair: "ok m (\<lambda>a. Q (f a)) \<Longrightarrow> ok (map_option f m) Q"
  by simp

lemma mmc1_update_state_ok:
  assumes "paged k 0x2000 m" "rom_window m"
  shows "ok (mmc1_update_state c m) (\<lambda>m'. paged k 0x2000 m' \<and> rom_window m')"
proof -
  let ?a = "map_cpu_source 0x6000 0x7FFF (vec_data OwnRam m) 0"
  have on: "paged k 0x2000 (?a acc m)" "rom_window (?a acc m)" for acc
    using assms by (auto intro: paged_intros)
  let ?off = "\<lambda>m. m\<lparr>m_prg_pages := (\<lambda>i. if 0x60 \<le> i \<and> i \<le> 0x7F then None else m_prg_pages m i)\<rparr>"
  have acc: "m_prg_memory_access (?a (Some NO_ACCESS) m) i = NO_ACCESS" if "0x60 \<le> i" "i \<le> 0x7F" for i
    using that by (simp add: map_cpu_source_def Let_def hi_byte_def resolve_access_def)
  have off: "paged k 0x2000 (?off (?a (Some NO_ACCESS) m))" "rom_window (?off (?a (Some NO_ACCESS) m))"
    using on [of "Some NO_ACCESS"] acc
    by (auto simp: paged_def mapper_wf_def rom_window_def has_banks_def prg_page_count_def)
  show ?thesis
    unfolding mmc1_update_state_def Let_def using assms on off
    by (auto intro!: paged_intros)
qed

definition chip_ok :: "mapper \<Rightarrow> bool" where
  "chip_ok m = (case m_chip m of
       Mapper001 _ \<Rightarrow> length (m_own_ram m) = 0x2000
     | Mapper002 \<Rightarrow> length (m_own_ram m) = 0x2000
     | Mapper004 c \<Rightarrow> length (m_own_ram m) = 0x2000 \<and> length (m3_registers c) = 8 \<and>
         m3_current_register c < 8
     | _ \<Rightarrow> True)"

definition loaded :: "mapper \<Rightarrow> bool" where
  "loaded m \<longleftrightarrow> paged (m_chip m) (length (m_own_ram m)) m \<and> rom_window m \<and> chip_ok m"

lemma paged_chip:
  "paged (Mapper001 c) n m \<Longrightarrow> paged (Mapper001 c') n (m\<lparr>m_chip := Mapper001 c'\<rparr>)"
  "paged (Mapper004 d) n m \<Longrightarrow> paged (Mapper004 d') n (m\<lparr>m_chip := Mapper004 d'\<rparr>)"
  by (auto simp: paged_def has_banks_def prg_page_count_def)

lemma rom_window_upd [simp]: "rom_window (m\<lparr>m_chip := k\<rparr>) = rom_window m"
  by (simp add: rom_window_def)

lemma mmc1_process_register_write_ok:
  assumes "paged k n m" "rom_window m" "mmc1_process_register_write addr v (c, m) = (c', m')"
  shows "paged k n m' \<and> rom_window m'"
  using assms by (auto simp: mmc1_process_register_write_def split: if_splits intro: paged_intros)

lemma mmc1_write_register_ok:
  assumes "paged k 0x2000 m" "rom_window m"
  shows "ok (mmc1_write_register cyc addr v (c, m)) (\<lambda>(c', m'). paged k 0x2000 m' \<and> rom_window m')"
proof -
  have "ok (mmc1_process_bit_write addr v (c, m)) (\<lambda>(c', m'). paged k 0x2000 m' \<and> rom_window m')"
    using assms
    by (auto simp: mmc1_process_bit_write_def Let_def split: prod.splits
        dest!: mmc1_process_register_write_ok [rotated 2] intro!: mmc1_update_state_ok)
  then show ?thesis
    using assms by (auto simp: mmc1_write_register_def elim!: ok_mono)
qed

lemma select_chr_pages_ok:
  "paged k n m \<Longrightarrow> rom_window m \<Longrightarrow> paged k n (select_chr_pages ps m) \<and> rom_window (select_chr_pages ps m)"
proof -
  have "paged k n m \<Longrightarrow> rom_window m \<Longrightarrow>
    paged k n (foldl (\<lambda>m (slot, page). select_chr_page slot (ucast (page :: u8)) CHR_DEFAULT m) m xs) \<and>
    rom_window (foldl (\<lambda>m (slot, page). select_chr_page slot (ucast page) CHR_DEFAULT m) m xs)" for xs
    by (induction xs arbitrary: m) (auto intro: paged_intros)
  then show "paged k n m \<Longrightarrow> rom_window m \<Longrightarrow> ?thesis" by (simp add: select_chr_pages_def)
qed

lemma mmc3_update_state_ok:
  assumes "paged k 0x2000 m" "rom_window m" "length (m3_registers c) = 8"
  shows "ok (mmc3_update_state c m) (\<lambda>m'. paged k 0x2000 m' \<and> rom_window m')"
  unfolding mmc3_update_state_def mmc3_update_prg_mapping_def mmc3_update_chr_mapping_def Let_def
  using assms by (auto intro!: paged_intros dest: select_chr_pages_ok)

lemma mmc3_update_mirroring_ok [paged_intros]:
  "paged k n m \<Longrightarrow> paged k n (mmc3_update_mirroring c m)"
  "rom_window m \<Longrightarrow> rom_window (mmc3_update_mirroring c m)"
  by (auto simp: mmc3_update_mirroring_def intro: paged_intros)

lemma mmc3_write_register_ok:
  assumes "paged k 0x2000 m" "rom_window m" "length (m3_registers c) = 8" "m3_current_register c < 8"
  shows "ok (mmc3_write_register addr v (c, m, cpu)) (\<lambda>(c', m', cpu').
    paged k 0x2000 m' \<and> rom_window m' \<and> length (m3_registers c') = 8 \<and> m3_current_register c' < 8)"
proof -
  have upd: "ok (mmc3_update_state c' m) (\<lambda>m'. paged k 0x2000 m' \<and> rom_window m')"
    if "length (m3_registers c') = 8" for c' using assms that by (intro mmc3_update_state_ok)
  have lt: "v AND 0x07 < (8 :: u8)"
    using word_and_le_mask [of v 7] by (simp add: word_le_nat_alt word_less_nat_alt)
  have cur: "unat (m3_current_register c) < 8" using assms(4) by (simp add: word_less_nat_alt)
  show ?thesis
    unfolding mmc3_write_register_def Let_def
    using assms lt cur by (auto intro!: paged_intros ok_mono [OF upd])
qed

lemma loaded_own:
  "loaded m \<Longrightarrow> m_chip m = Mapper001 c \<or> m_chip m = Mapper002 \<or> m_chip m = Mapper004 d \<Longrightarrow>
   paged (m_chip m) 0x2000 m \<and> rom_window m"
  by (auto simp: loaded_def chip_ok_def)

lemma loadedI:
  "paged k n m \<Longrightarrow> rom_window m \<Longrightarrow> (k = m_chip m \<Longrightarrow> n = length (m_own_ram m) \<Longrightarrow> chip_ok m) \<Longrightarrow> loaded m"
  by (auto simp: loaded_def paged_def)

lemma loaded_wf: "loaded m \<Longrightarrow> mapper_wf m"
  by (simp add: loaded_def paged_def)

lemma base_read_loaded: "loaded m \<Longrightarrow> \<exists>v. base_read_ram ob a m = Some v"
  by (intro base_read_ram_ok loaded_wf)

text \<open>Boards whose invariant has nothing of their own, or only the size of their RAM.\<close>

lemma plain_loaded:
  assumes "loaded m" "\<forall>c d. m_chip m \<noteq> Mapper001 c \<and> m_chip m \<noteq> Mapper004 d"
    and "paged (m_chip m) (length (m_own_ram m)) m'" "rom_window m'"
  shows "loaded m'"
  using assms by (auto simp: loaded_def chip_ok_def paged_def split: mapper_chip.splits)

theorem write_register_ok:
  assumes l: "loaded m"
  shows "ok (write_register ob addr v (m, cpu)) (\<lambda>(m', cpu'). loaded m')"
proof -
  have p: "paged (m_chip m) (length (m_own_ram m)) m" "rom_window m"
    using l by (simp_all add: loaded_def)
  show ?thesis
  proof (cases "m_chip m")
    case (Mapper001 c)
    then have "ok (mmc1_write_register (cpu_cycle_count cpu) addr v (c, m))
      (\<lambda>(c', m'). paged (Mapper001 c) 0x2000 m' \<and> rom_window m')"
      using loaded_own [OF l] by (intro mmc1_write_register_ok) auto
    then show ?thesis
      using Mapper001
      by (auto simp: write_register_def Let_def elim!: ok_mono
          intro!: loadedI [OF paged_chip(1)]) (auto simp: chip_ok_def paged_def)
  next
    case (Mapper004 c)
    with l have "length (m3_registers c) = 8" "m3_current_register c < 8"
      by (simp_all add: loaded_def chip_ok_def)
    with Mapper004 have "ok (mmc3_write_register addr v (c, m, cpu)) (\<lambda>(c', m', cpu').
        paged (Mapper004 c) 0x2000 m' \<and> rom_window m' \<and> length (m3_registers c') = 8 \<and>
        m3_current_register c' < 8)"
      using loaded_own [OF l] by (intro mmc3_write_register_ok) auto
    then show ?thesis
      using Mapper004
      by (auto simp: write_register_def Let_def elim!: ok_mono
          intro!: loadedI [OF paged_chip(2)]) (auto simp: chip_ok_def paged_def)
  next
    case Mapper011
    obtain b where "base_read_ram ob addr m = Some b" using base_read_loaded [OF l] by blast
    with p l Mapper011 show ?thesis
      by (auto simp: write_register_def Let_def mapper011_write_register_def
          intro!: paged_intros intro: plain_loaded [OF l] paged_intros)
  qed (use p l in \<open>auto simp: write_register_def Let_def mapper002_write_register_def
      mapper003_write_register_def mapper007_write_register_def mapper013_write_register_def
      mapper034_write_register_def mapper066_write_register_def
      intro!: paged_intros intro: plain_loaded [OF l] paged_intros\<close>)
qed

lemma has_page:
  "loaded m \<Longrightarrow> m_is_write_register_addr m a \<Longrightarrow> page_ok m (m_prg_pages m (hi_byte a))"
proof -
  assume l: "loaded m" and "m_is_write_register_addr m a"
  then have "0x8000 \<le> a" by (simp add: loaded_def paged_def)
  then have "0x8000 div 256 \<le> unat a div 256"
    by (intro div_le_mono) (simp add: word_le_nat_alt)
  then have "0x80 \<le> hi_byte a" by (simp add: word_le_nat_alt unat_hi_byte)
  with l show ?thesis by (auto simp: loaded_def paged_def rom_window_def mapper_wf_def)
qed

lemma loaded_set_region:
  assumes "loaded m" "length xs = length (region r m)"
  shows "loaded (set_region r xs m)"
proof -
  have "mapper_wf (set_region r xs m)"
    using assms by (intro mapper_wf_set_region loaded_wf)
  moreover have "length (m_own_ram (set_region r xs m)) = length (m_own_ram m)"
    using assms(2) by (cases r) simp_all
  ultimately show ?thesis using assms(1)
    by (simp add: loaded_def paged_def has_banks_def prg_page_count_def rom_window_def chip_ok_def
        split: mapper_chip.splits)
qed

lemma loaded_store:
  assumes "loaded m" "page_ok m p"
  shows "ok (store_ptr p i v m) loaded"
proof -
  obtain r b where p: "p = Some (r, b)" "b + 256 \<le> length (region r m)"
    using assms(2) by (auto simp: page_ok_def split: option.splits)
  with unsigned_less [where 'a = nat, of i] have "b + unat i < length (region r m)" by simp
  with p assms(1) show ?thesis by (simp add: store_ptr_def loaded_set_region)
qed

lemma mapper_write_ram_ok:
  assumes "loaded m"
  shows "ok (mapper_write_ram ob addr v (m, cpu)) (\<lambda>(m', cpu'). loaded m')"
proof -
  note wf = loaded_wf [OF assms]
  have "page_ok m (m_prg_pages m (hi_byte addr))" if "can_write (m_prg_memory_access m (hi_byte addr))"
    using that wf by (auto simp: mapper_wf_def can_access)
  moreover have "\<exists>b. load_ptr (m_prg_pages m (hi_byte addr)) (lo_byte addr) m = Some b"
    if "m_is_write_register_addr m addr"
    using has_page [OF assms that] by (rule load_ptr_ok)
  ultimately show ?thesis
    using assms write_register_ok [OF assms]
    by (auto simp: mapper_write_ram_def base_write_ram_def intro!: ok_mono [OF loaded_store])
qed

lemma mapper_read_ram_ok: "loaded m \<Longrightarrow> \<exists>v. mapper_read_ram ob addr m = Some v"
proof -
  assume "loaded m"
  then have "mapper_wf m" by (rule loaded_wf)
  then show ?thesis
    by (cases "m_chip m")
      (auto simp: mapper_read_ram_def mapper_wf_def can_access intro!: load_ptr_ok base_read_ram_ok)
qed

lemma write_vram_loaded: "loaded m \<Longrightarrow> ok (write_vram addr v m) loaded"
  by (auto simp: write_vram_def Let_def intro!: loaded_store)
    (auto dest!: loaded_wf simp: mapper_wf_def can_access)

lemma notify_loaded:
  assumes "loaded m" "notify_vram_address_change addr (m, cpu) = (m', cpu')"
  shows "loaded m'"
proof (cases "m_chip m")
  case (Mapper004 c)
  have "length (m3_registers c') = length (m3_registers c) \<and>
      m3_current_register c' = m3_current_register c"
    if "mmc3_notify_vram_address_change addr (c, cpu) = (c', cpu')" for c' cpu'
    using that
    by (auto simp: mmc3_notify_vram_address_change_def mmc3_is_a12_rising_edge_def
        mmc3_clock_counter_def Let_def split: if_splits)
  with Mapper004 assms show ?thesis
    by (auto simp: notify_vram_address_change_def loaded_def chip_ok_def split: prod.splits
        intro: paged_chip)
qed (use assms in \<open>simp_all add: notify_vram_address_change_def\<close>)

section \<open>\<^verbatim>\<open>init\<close> establishes the invariant\<close>

text \<open>
  A cartridge on which \<^verbatim>\<open>init_work_ram\<close> has run, and the ROM sizes under which a board can
  be set up: a PRG ROM of at least one page, CHR ROM in pages of 256 bytes.
\<close>

definition fresh :: "mapper \<Rightarrow> bool" where
  "fresh m \<longleftrightarrow> (\<forall>i. m_prg_memory_access m i = NO_ACCESS) \<and> (\<forall>i. m_chr_memory_access m i = NO_ACCESS) \<and>
     (\<forall>a. \<not> m_is_write_register_addr m a) \<and> m_chr_ram m = [] \<and> m_chr_ram_size m = 0 \<and>
     length (m_nametable_ram m) = 0x1000"

definition rom_fits :: "mapper_chip \<Rightarrow> u8 list \<Rightarrow> u8 list \<Rightarrow> bool" where
  "rom_fits k prg chr \<longleftrightarrow>
     unat (get_prg_page_size k) \<le> length prg \<and> length prg < 2 ^ 27 \<and>
     256 dvd length chr \<and> length chr < 2 ^ 32"

lemma fresh_new: "fresh (init_work_ram info (new_mapper k))"
  by (auto simp: fresh_def init_work_ram_def new_mapper_def Let_def)

lemma paged_set_rom:
  assumes "fresh m0" "rom_fits (m_chip m0) prg chr"
  shows "paged (m_chip m0) (length (m_own_ram m0)) (set_rom info prg chr m0)"
proof -
  have n: "unat (of_nat (length prg) :: u32) = length prg" "unat (of_nat (length chr) :: u32) = length chr"
    using assms(2) by (simp_all add: rom_fits_def unat_of_nat)
  have ps: "0 < unat (get_prg_page_size (m_chip m0))" by (simp add: unat_gt_0)
  have "0x1000 * (length prg div unat (get_prg_page_size (m_chip m0))) \<le> length prg"
  proof -
    have "0x1000 \<le> unat (get_prg_page_size (m_chip m0))" by (cases "m_chip m0") simp_all
    then have "0x1000 * (length prg div unat (get_prg_page_size (m_chip m0))) \<le>
        unat (get_prg_page_size (m_chip m0)) * (length prg div unat (get_prg_page_size (m_chip m0)))"
      by (intro mult_le_mono1)
    also have "\<dots> \<le> length prg" by simp
    finally show ?thesis .
  qed
  then have "length prg div unat (get_prg_page_size (m_chip m0)) < 2 ^ 15"
    using assms(2) by (simp add: rom_fits_def)
  moreover have "0 < length prg div unat (get_prg_page_size (m_chip m0))"
    using assms(2) ps by (simp add: rom_fits_def div_greater_zero_iff)
  ultimately show ?thesis
    using assms n by (simp add: fresh_def rom_fits_def paged_def mapper_wf_def has_banks_def
        prg_page_count_def set_rom_def)
qed

lemma page_ok_upd2 [simp]:
  "page_ok (m\<lparr>m_is_write_register_addr := f\<rparr>) p = page_ok m p"
  "page_ok (m\<lparr>m_has_bus_conflicts := b\<rparr>) p = page_ok m p"
  by (auto simp: page_ok_def split: option.splits)
    (case_tac a; simp)+

lemma paged_registers [paged_intros]:
  "paged k n m \<Longrightarrow> 0x8000 \<le> s \<Longrightarrow> paged k n (add_register_range s e OP_WRITE m)"
  by (auto simp: paged_def add_register_range_def mapper_wf_def has_banks_def prg_page_count_def)

lemma paged_conflicts [paged_intros]:
  "paged k n m \<Longrightarrow> paged k n (set_has_bus_conflicts b m)"
  by (auto simp: paged_def set_has_bus_conflicts_def mapper_wf_def has_banks_def prg_page_count_def)

lemma paged_own_ram:
  assumes "paged k 0 m"
  shows "paged k 0x2000 (m\<lparr>m_own_ram := vec_resize 0x2000 (m_own_ram m)\<rparr>)"
proof -
  have "page_ok m p \<Longrightarrow> page_ok (m\<lparr>m_own_ram := xs\<rparr>) p" for p and xs :: "u8 list"
  proof -
    assume "page_ok m p"
    then obtain r b where p: "p = Some (r, b)" "b + 256 \<le> length (region r m)"
      by (auto simp: page_ok_def split: option.splits)
    with assms have "r \<noteq> OwnRam" by (auto simp: paged_def)
    with p show "page_ok (m\<lparr>m_own_ram := xs\<rparr>) p" by (cases r) (simp_all add: page_ok_def)
  qed
  with assms show ?thesis
    by (auto simp: paged_def mapper_wf_def has_banks_def prg_page_count_def)
qed

text \<open>The windows of consecutive slots cover the ROM window.\<close>

lemma one_slot:
  assumes "paged k n m" "get_prg_page_size k = 0x8000"
    and "\<And>m'. paged k n m' \<Longrightarrow> rom_window m' \<Longrightarrow> Q m'"
  shows "ok (select_prg_page 0 p m) Q"
proof -
  obtain m' where m': "select_prg_page 0 p m = Some m'" "paged k n m'"
    using paged_prg [OF assms(1)] by (auto simp: ok_iff)
  have h: "hi_byte 0x8000 = 0x80" "hi_byte 0xFFFF = 0xFF" by (simp_all add: hi_byte_def)
  have "rom_window m'" unfolding rom_window_def
  proof (intro allI impI)
    fix i :: u8
    assume "0x80 \<le> i"
    moreover have "unat i < 256" using unsigned_less [where 'a = nat, of i] by simp
    ultimately show "m_prg_memory_access m' i = READ_WRITE"
      using assms(1,2) select_prg_page_access [OF m'(1)]
      by (auto simp: paged_def prg_slot_start_def h word_le_nat_alt)
  qed
  with m' assms(3) show ?thesis by simp
qed

lemma two_slots:
  assumes p: "paged k n m" and ps: "get_prg_page_size k = 0x4000"
    and Q: "\<And>m'. paged k n m' \<Longrightarrow> rom_window m' \<Longrightarrow> Q m'"
  shows "ok (select_prg_page 0 x m) (\<lambda>m. ok (select_prg_page 1 y m) Q)"
proof -
  obtain m1 where m1: "select_prg_page 0 x m = Some m1" "paged k n m1"
    using paged_prg [OF p] by (auto simp: ok_iff)
  obtain m2 where m2: "select_prg_page 1 y m1 = Some m2" "paged k n m2"
    using paged_prg [OF m1(2)] by (auto simp: ok_iff)
  have h: "hi_byte 0x8000 = 0x80" "hi_byte 0xBFFF = 0xBF" "hi_byte 0xC000 = 0xC0" "hi_byte 0xFFFF = 0xFF"
    by (simp_all add: hi_byte_def)
  have "rom_window m2" unfolding rom_window_def
  proof (intro allI impI)
    fix i :: u8
    assume "0x80 \<le> i"
    moreover have "unat i < 256" using unsigned_less [where 'a = nat, of i] by simp
    ultimately show "m_prg_memory_access m2 i = READ_WRITE"
      using p ps m1(2) select_prg_page_access [OF m1(1)] select_prg_page_access [OF m2(1)]
      by (auto simp: paged_def prg_slot_start_def h word_le_nat_alt)
  qed
  with m1 m2 Q show ?thesis by simp
qed

lemma four_slots:
  assumes p: "paged k n m" and ps: "get_prg_page_size k = 0x2000"
    and Q: "\<And>m'. paged k n m' \<Longrightarrow> rom_window m' \<Longrightarrow> Q m'"
  shows "ok (select_prg_page 0 a m) (\<lambda>m. ok (select_prg_page 1 b m)
    (\<lambda>m. ok (select_prg_page 2 c m) (\<lambda>m. ok (select_prg_page 3 d m) Q)))"
proof -
  obtain m1 where m1: "select_prg_page 0 a m = Some m1" "paged k n m1"
    using paged_prg [OF p] by (auto simp: ok_iff)
  obtain m2 where m2: "select_prg_page 1 b m1 = Some m2" "paged k n m2"
    using paged_prg [OF m1(2)] by (auto simp: ok_iff)
  obtain m3 where m3: "select_prg_page 2 c m2 = Some m3" "paged k n m3"
    using paged_prg [OF m2(2)] by (auto simp: ok_iff)
  obtain m4 where m4: "select_prg_page 3 d m3 = Some m4" "paged k n m4"
    using paged_prg [OF m3(2)] by (auto simp: ok_iff)
  have h: "hi_byte 0x8000 = 0x80" "hi_byte 0x9FFF = 0x9F" "hi_byte 0xA000 = 0xA0" "hi_byte 0xBFFF = 0xBF"
    "hi_byte 0xC000 = 0xC0" "hi_byte 0xDFFF = 0xDF" "hi_byte 0xE000 = 0xE0" "hi_byte 0xFFFF = 0xFF"
    by (simp_all add: hi_byte_def)
  have "rom_window m4" unfolding rom_window_def
  proof (intro allI impI)
    fix i :: u8
    assume "0x80 \<le> i"
    moreover have "unat i < 256" using unsigned_less [where 'a = nat, of i] by simp
    ultimately show "m_prg_memory_access m4 i = READ_WRITE"
      using p ps m1(2) m2(2) m3(2) select_prg_page_access [OF m1(1)] select_prg_page_access [OF m2(1)]
        select_prg_page_access [OF m3(1)] select_prg_page_access [OF m4(1)]
      by (auto simp: paged_def prg_slot_start_def h word_le_nat_alt)
  qed
  with m1 m2 m3 m4 Q show ?thesis by simp
qed

lemma chr_ram_frame:
  "select_prg_page slot page m = Some m' \<Longrightarrow> m_chr_ram m' = m_chr_ram m \<and> m_chr_ram_size m' = m_chr_ram_size m"
  "m_chr_ram (set_mirroring_type t m) = m_chr_ram m"
  "m_chr_ram_size (set_mirroring_type t m) = m_chr_ram_size m"
  by (auto simp: select_prg_page_def map_cpu_page_def map_cpu_source_def Let_def bind_eq_Some_conv)
    (cases t; simp add: set_mirroring_type_def set_nametable_def Let_def map_ppu_source_def)+

lemma paged_ppu_page:
  "paged k n m \<Longrightarrow> rom_window m \<Longrightarrow> paged k n (map_ppu_page s e p t acc m) \<and> rom_window (map_ppu_page s e p t acc m)"
proof (intro conjI)
  assume p: "paged k n m" and r: "rom_window m"
  have "same_board m (initialize_chr_ram x m)" for x
    by (simp add: initialize_chr_ram_def same_board_def Let_def)
  then have "same_board m (map_ppu_page s e p t acc m)"
    by (auto simp: map_ppu_page_def Let_def intro: same_board_trans [OF _ map_source_same(3)]
        split: chr_memory_type.split)
  with p show "paged k n (map_ppu_page s e p t acc m)"
    by (rule paged_same_board) (use p in \<open>simp add: paged_def map_ppu_page_wf\<close>)
  have "m_prg_memory_access (map_ppu_offset s e t off acc m) = m_prg_memory_access m" for s e t off acc m
    by (cases t) (simp_all add: map_ppu_offset_def Let_def)
  moreover have "m_prg_memory_access (initialize_chr_ram x m) = m_prg_memory_access m" for x
    by (simp add: initialize_chr_ram_def Let_def)
  ultimately show "rom_window (map_ppu_page s e p t acc m)"
    using r by (auto simp: rom_window_def map_ppu_page_def Let_def split: chr_memory_type.split)
qed

lemma paged_chr_ram:
  assumes "paged k n m" "m_chr_ram m = []"
  shows "paged k n (initialize_chr_ram 0x2000 m)"
proof (rule paged_same_board [OF assms(1)])
  show "same_board m (initialize_chr_ram 0x2000 m)"
    by (simp add: initialize_chr_ram_def same_board_def Let_def)
  show "mapper_wf (initialize_chr_ram 0x2000 m)"
    using assms by (intro initialize_chr_ram_wf [of m "0x2000"]) (simp_all add: paged_def)
qed

text \<open>On a 16 KB bank that exists, \<^verbatim>\<open>set_cpu_memory_mapping\<close> is a bank selection.\<close>

lemma map_page_is_select:
  assumes "paged (Mapper000 b) n m" "unat q < prg_page_count m"
  shows "map_cpu_page 0x8000 0xBFFF q None m = select_prg_page 0 q m"
    "map_cpu_page 0xC000 0xFFFF q None m = select_prg_page 1 q m"
proof -
  have "get_prg_page_size (m_chip m) = 0x4000" using assms(1) by (simp add: paged_def)
  then show "map_cpu_page 0x8000 0xBFFF q None m = select_prg_page 0 q m"
    "map_cpu_page 0xC000 0xFFFF q None m = select_prg_page 1 q m"
    using assms map_cpu_page_in [OF assms(2)]
    by (simp_all add: select_prg_page_eq paged_def has_banks_def mapper_wf_def Let_def)
qed

lemma mapper000_init_ok:
  assumes "paged (Mapper000 b) n m" "m_chr_ram m = []"
  shows "ok (mapper000_init info m) loaded"
proof -
  let ?k = "Mapper000 (m_chr_rom_size m = 0)"
  let ?m0 = "set_mirroring_type (ri_mirroring info) (m\<lparr>m_chip := ?k\<rparr>)"
  let ?q = "if m_prg_size m \<ge> 0x8000 then 1 else 0 :: u16"
  have "paged ?k n (m\<lparr>m_chip := ?k\<rparr>)"
    using assms(1) by (auto simp: paged_def has_banks_def prg_page_count_def)
  then have p0: "paged ?k n ?m0" by (rule paged_mirroring)
  have "same_board (m\<lparr>m_chip := ?k\<rparr>) ?m0" by (rule set_mirroring_type_same)
  then have sz0: "m_prg_size ?m0 = m_prg_size m" "m_chr_rom_size ?m0 = m_chr_rom_size m"
    by (simp_all add: same_board_def)
  have cnt: "prg_page_count ?m0 = unat (m_prg_size m) div 0x4000"
    using p0 unfolding prg_page_count_def sz0 paged_def by simp
  have pos: "0 < prg_page_count ?m0" using p0 by (simp only: paged_def has_banks_def)
  have "2 \<le> unat (m_prg_size m) div 0x4000" if "m_prg_size m \<ge> 0x8000"
    using that div_le_mono [of "0x8000" "unat (m_prg_size m)" "0x4000"] by (simp add: word_le_nat_alt)
  then have q0: "unat (0 :: u16) < prg_page_count ?m0" "unat ?q < prg_page_count ?m0"
    using pos unfolding cnt by auto
  obtain m1 where m1: "select_prg_page 0 0 ?m0 = Some m1" "paged ?k n m1"
    using paged_prg [OF p0] by (auto simp: ok_iff)
  have "same_board ?m0 m1"
    using select_prg_page_wf [of ?m0 0 0] p0 m1(1) by (simp add: paged_def)
  then have sz: "m_prg_size m1 = m_prg_size m" and q1: "unat ?q < prg_page_count m1"
    and cs: "m_chr_rom_size m1 = m_chr_rom_size m"
    using q0(2) by (simp_all only: same_board_def prg_page_count_def sz0)
  obtain m2 where m2: "select_prg_page 1 ?q m1 = Some m2" "paged ?k n m2" "rom_window m2"
    using two_slots [OF p0, of "\<lambda>m. paged ?k n m \<and> rom_window m" 0 ?q] m1(1)
    by (auto simp: ok_iff)
  have cr: "m_chr_ram m2 = []"
    using chr_ram_frame(1) [OF m2(1)] chr_ram_frame(1) [OF m1(1)] assms(2) by (simp add: chr_ram_frame)
  have run: "mapper000_init info m = Some (if m_chr_rom_size m = 0
      then map_ppu_page 0x0000 0x1FFF 0 CHR_RAM (Some READ_WRITE) (initialize_chr_ram 0x2000 m2)
      else map_ppu_page 0x0000 0x1FFF 0 CHR_ROM (Some READ) m2)"
    using m1(1) m2(1) map_page_is_select(1) [OF p0 q0(1)] map_page_is_select(2) [OF m1(2) q1]
    by (simp add: mapper000_init_def Let_def sz)
  have rw: "rom_window (initialize_chr_ram 0x2000 m2)"
    using m2(3) by (simp add: rom_window_def initialize_chr_ram_def Let_def)
  have l: "loaded x" if "paged ?k n x \<and> rom_window x" for x
    using that by (auto simp: loaded_def chip_ok_def paged_def)
  show ?thesis unfolding run
    using l [OF paged_ppu_page [OF m2(2,3)]] l [OF paged_ppu_page [OF paged_chr_ram [OF m2(2) cr] rw]]
    by simp
qed

text \<open>The other boards.\<close>

lemma plain_chip:
  assumes "paged k n m" "rom_window m" "k \<in> {Mapper003, Mapper007, Mapper011, Mapper013, Mapper034, Mapper066}"
  shows "loaded m"
  using assms by (auto simp: loaded_def chip_ok_def paged_def)

lemma latch_board_init_ok:
  "paged k n m \<Longrightarrow> k \<in> {Mapper003, Mapper034, Mapper066} \<Longrightarrow> ok (latch_board_init info m) loaded"
  unfolding latch_board_init_def Let_def
  by (simp, intro one_slot [of k n]) (auto intro!: paged_intros intro: plain_chip paged_intros)

lemma mapper007_init_ok: "paged Mapper007 n m \<Longrightarrow> ok (mapper007_init info m) loaded"
  unfolding mapper007_init_def mapper007_write_register_def Let_def
  by (simp, intro one_slot [of Mapper007 n]) (auto intro!: paged_intros intro: plain_chip paged_intros)

lemma mapper011_init_ok: "paged Mapper011 n m \<Longrightarrow> ok (mapper011_init info m) loaded"
  unfolding mapper011_init_def Let_def
  by (simp, intro one_slot [of Mapper011 n]) (auto intro!: paged_intros intro: plain_chip paged_intros)

lemma mapper013_init_ok: "paged Mapper013 n m \<Longrightarrow> ok (mapper013_init info m) loaded"
  unfolding mapper013_init_def Let_def
  by (simp, intro one_slot [of Mapper013 n]) (auto intro!: paged_intros intro: plain_chip paged_intros)

lemma mapper002_init_ok:
  assumes "paged Mapper002 0 m"
  shows "ok (mapper002_init info m) loaded"
proof -
  have own: "paged Mapper002 0x2000 m \<Longrightarrow> rom_window m \<Longrightarrow> loaded m" for m
    by (auto simp: loaded_def chip_ok_def paged_def)
  show ?thesis
    unfolding mapper002_init_def Let_def
    by (simp, intro two_slots [of Mapper002 "0x2000"])
      (auto intro!: paged_intros paged_own_ram assms intro: own paged_intros)
qed

lemma mmc1_init_ok:
  assumes "paged (Mapper001 c) 0 m"
  shows "ok (map_option (\<lambda>(c, m). m\<lparr>m_chip := Mapper001 c\<rparr>) (mmc1_init (c, m))) loaded"
proof -
  have own: "loaded (m\<lparr>m_chip := Mapper001 c'\<rparr>)" if "paged (Mapper001 c) 0x2000 m \<and> rom_window m" for m c'
    using paged_chip(1) [OF conjunct1 [OF that], of c'] that
    by (auto simp: loaded_def chip_ok_def paged_def)
  have reg: "paged k n m' \<Longrightarrow> paged k n (snd (mmc1_process_register_write a v (c', m')))" for k n m' a v c'
    by (auto simp: mmc1_process_register_write_def intro: paged_intros)
  have upd: "ok (mmc1_update_state c' m) (\<lambda>m'. paged (Mapper001 c) 0x2000 m' \<and> rom_window m')"
    if p: "paged (Mapper001 c) 0x2000 m" and d: "\<not> m1_wram_disable c'" for c' m
  proof -
    have "paged (Mapper001 c) 0x2000 (map_cpu_source 0x6000 0x7FFF (vec_data OwnRam m) 0 acc m)" for acc
      using p by (rule paged_own)
    note two = two_slots [OF this, simplified]
    show ?thesis
      unfolding mmc1_update_state_def Let_def using d
      by (auto intro!: two intro: paged_intros)
  qed
  have "paged (Mapper001 c) 0x2000
      (add_register_range 0x8000 0xFFFF OP_WRITE (m\<lparr>m_own_ram := vec_resize 0x2000 (m_own_ram m)\<rparr>))"
    using assms by (intro paged_registers paged_own_ram) simp_all
  note p = paged_mirroring [OF this]
  show ?thesis
    by (simp add: mmc1_init_def Let_def mmc1_process_register_write_def)
      (rule ok_mono [OF upd], rule p, simp, erule own)
qed

lemma mmc3_init_ok:
  assumes "paged (Mapper004 c) 0 m" "m3_current_register c < 8"
  shows "ok (map_option (\<lambda>(c, m). m\<lparr>m_chip := Mapper004 c\<rparr>) (mmc3_init info (c, m))) loaded"
proof -
  have own: "loaded (m\<lparr>m_chip := Mapper004 c'\<rparr>)"
    if "paged (Mapper004 c) 0x2000 m \<and> rom_window m" "length (m3_registers c') = 8"
      "m3_current_register c' < 8" for m c'
    using paged_chip(2) [OF conjunct1 [OF that(1)], of c'] that
    by (auto simp: loaded_def chip_ok_def paged_def)
  have upd: "ok (mmc3_update_state c' m) (\<lambda>m'. paged (Mapper004 c) 0x2000 m' \<and> rom_window m')"
    if p: "paged (Mapper004 c) 0x2000 m" and d: "length (m3_registers c') = 8" for c' m
  proof -
    have "paged (Mapper004 c) 0x2000 (map_cpu_source 0x6000 0x7FFF (vec_data OwnRam m) 0 acc m)" for acc
      using p by (rule paged_own)
    note four = four_slots [OF this, simplified]
    show ?thesis
      unfolding mmc3_update_state_def mmc3_update_prg_mapping_def mmc3_update_chr_mapping_def Let_def
      using d by (auto intro!: four dest: select_chr_pages_ok)
  qed
  have p: "paged (Mapper004 c) 0x2000
      ((add_register_range 0x8000 0xFFFF OP_WRITE m)\<lparr>m_own_ram := vec_resize 0x2000
        (m_own_ram (add_register_range 0x8000 0xFFFF OP_WRITE m))\<rparr>)"
    using assms by (intro paged_registers paged_own_ram) simp_all
  have mir: "paged (Mapper004 c) 0x2000 m \<and> rom_window m \<Longrightarrow>
      paged (Mapper004 c) 0x2000 (mmc3_update_mirroring c' m) \<and> rom_window (mmc3_update_mirroring c' m)"
    for c' m by (auto intro: paged_intros)
  show ?thesis
    using assms(2)
    by (auto simp: mmc3_init_def Let_def intro!: ok_mono [OF upd [OF p]] own [OF mir])
qed

text \<open>The whole of \<^verbatim>\<open>init\<close>, on a cartridge whose private RAM is not allocated yet.\<close>

theorem mapper_init_ok:
  assumes "fresh m0" "rom_fits (m_chip m0) prg chr" "m_own_ram m0 = []"
    and "\<And>c. m_chip m0 = Mapper004 c \<Longrightarrow> m3_current_register c < 8"
  shows "ok (mapper_init info prg chr m0) loaded"
proof -
  have p: "paged (m_chip m0) 0 (set_rom info prg chr m0)"
    using paged_set_rom [OF assms(1,2), of info] assms(3) by simp
  have ram: "m_chr_ram (set_rom info prg chr m0) = []"
    using assms(1) by (simp add: fresh_def set_rom_def)
  have chip: "m_chip (set_rom info prg chr m0) = m_chip m0" by (simp add: set_rom_def)
  show ?thesis
    using p ram assms(4) mapper000_init_ok mmc1_init_ok mmc3_init_ok mapper002_init_ok
      latch_board_init_ok mapper007_init_ok mapper011_init_ok mapper013_init_ok
    unfolding mapper_init_def Let_def chip
    by (cases "m_chip m0") (simp_all del: ok_map_option)
qed

end
