(* ===== verification/Sample_Cartridge.thy ===== *)
theory Sample_Cartridge
  imports Mapper_Safety
begin

text \<open>
  A concrete cartridge for the witnesses: the board 003 with 32 KB of PRG ROM and 8 KB of
  CHR ROM, set up by the code's own sequence of calls.
\<close>

definition sample_prg :: "u8 list" where
  "sample_prg = replicate 0x8000 0xEA"

definition sample_chr :: "u8 list" where
  "sample_chr = replicate 0x2000 0x00"

definition sample_board :: mapper where
  "sample_board = init_work_ram rom_info0 (new_mapper Mapper003)"

definition sample_mapper :: mapper where
  "sample_mapper = the (mapper_init rom_info0 sample_prg sample_chr sample_board)"

lemma sample_fits: "rom_fits Mapper003 sample_prg sample_chr"
  by (simp add: rom_fits_def sample_prg_def sample_chr_def dvd_def)

lemma sample_fresh [simp]:
  "fresh sample_board" "m_chip sample_board = Mapper003" "m_own_ram sample_board = []"
  unfolding sample_board_def
  by (rule fresh_new, simp_all add: init_work_ram_def new_mapper_def Let_def)

lemma sample_init: "mapper_init rom_info0 sample_prg sample_chr sample_board = Some sample_mapper \<and> loaded sample_mapper"
proof -
  have "ok (mapper_init rom_info0 sample_prg sample_chr sample_board) loaded"
    by (rule mapper_init_ok) (simp_all add: sample_fits)
  then show ?thesis by (auto simp: ok_iff sample_mapper_def)
qed

lemmas sample_loaded [simp] = sample_init [THEN conjunct2]

end
