(* ===== verification/Mmc1_Facts.thy ===== *)
theory Mmc1_Facts
  imports Sample_Cartridge
begin

text \<open>
  The MMC1 in numbers: which register an address selects, what five serial bits are worth, and
  which ROM banks the registers put into the two windows of the CPU.
\<close>

section \<open>Bits and numbers\<close>

text \<open>The number that five serial writes shift in, least significant bit first.\<close>

definition serial_number :: "u8 list \<Rightarrow> nat" where
  "serial_number vs = foldr (\<lambda>v n. of_bool (bit v 0) + 2 * n) vs 0"

lemma serial_number_less: "serial_number vs < 2 ^ length vs"
  unfolding serial_number_def by (induction vs) auto

lemma address_region:
  fixes a :: u16
  assumes "k < 8"
  shows "a AND 0xE000 = of_nat (0x2000 * k) \<longleftrightarrow> unat a div 0x2000 = k"
proof -
  have "(0xE000 :: u16) = NOT (mask 13)" by (simp add: mask_eq_exp_minus_1)
  then have "a AND 0xE000 = push_bit 13 (drop_bit 13 a)"
    by (simp add: bit_eq_iff bit_simps) auto
  moreover have "unat (drop_bit 13 a) = unat a div 0x2000" by (simp add: unat_drop_bit_eq drop_bit_eq_div unat_div)
  moreover have "unat a < 0x10000" using unsigned_less [where 'a = nat, of a] by simp
  ultimately have "unat (a AND 0xE000) = unat a div 0x2000 * 0x2000"
    by (simp add: push_bit_eq_mult unat_word_ariths)
  moreover have "unat (of_nat (0x2000 * k) :: u16) = 0x2000 * k" using assms by (simp add: unat_of_nat del: of_nat_mult)
  ultimately show ?thesis by (simp only: word_unat_eq_iff) auto
qed

lemma serial_bits:
  assumes "n < 32"
  shows "((of_nat n :: u8) AND 0x04 \<noteq> 0 \<longleftrightarrow> odd (n div 4)) \<and> ((of_nat n :: u8) AND 0x08 \<noteq> 0 \<longleftrightarrow> odd (n div 8)) \<and>
    ((of_nat n :: u8) AND 0x10 \<noteq> 0 \<longleftrightarrow> 16 \<le> n) \<and> unat ((of_nat n :: u8) AND 0x1F) = n \<and>
    unat ((of_nat n :: u8) AND 0x0F) = n mod 16 \<and> unat ((of_nat n :: u8) AND 3) = n mod 4"
proof -
  have "list_all (\<lambda>n. ((of_nat n :: u8) AND 0x04 \<noteq> 0 \<longleftrightarrow> odd (n div 4)) \<and> ((of_nat n :: u8) AND 0x08 \<noteq> 0 \<longleftrightarrow> odd (n div 8)) \<and>
    ((of_nat n :: u8) AND 0x10 \<noteq> 0 \<longleftrightarrow> 16 \<le> n) \<and> unat ((of_nat n :: u8) AND 0x1F) = n \<and>
    unat ((of_nat n :: u8) AND 0x0F) = n mod 16 \<and> unat ((of_nat n :: u8) AND 3) = n mod 4) [0..<32]"
    by (simp add: upt_conv_Cons)
  with assms show ?thesis by (simp add: list_all_iff)
qed

lemma bank_numbers:
  fixes r :: u8
  assumes "r < 16" "up = 0 \<or> up = 0x10"
  shows "unat (ucast (r OR up) :: u16) = unat r + unat up" "unat (ucast (0x0F OR up) :: u16) = 15 + unat up"
    "unat (ucast (0 OR up) :: u16) = unat up" "unat (ucast (r AND 0xFE OR up) :: u16) = unat r div 2 * 2 + unat up"
    "unat (ucast (r AND 0xFE OR up) + 1 :: u16) = unat r div 2 * 2 + unat up + 1"
proof -
  define n where "n = unat r"
  have n: "r = of_nat n" "n < 16" using assms(1) by (simp_all add: n_def word_less_nat_alt)
  have "list_all (\<lambda>n. \<forall>up \<in> {0, 0x10}. unat (ucast ((of_nat n :: u8) OR up) :: u16) = n + unat up \<and>
      unat (ucast ((of_nat n :: u8) AND 0xFE OR up) :: u16) = n div 2 * 2 + unat up \<and>
      unat (ucast ((of_nat n :: u8) AND 0xFE OR up) + 1 :: u16) = n div 2 * 2 + unat up + 1) [0..<16]"
    by (simp add: upt_conv_Cons)
  with n assms(2) show "unat (ucast (r OR up) :: u16) = unat r + unat up"
    "unat (ucast (r AND 0xFE OR up) :: u16) = unat r div 2 * 2 + unat up"
    "unat (ucast (r AND 0xFE OR up) + 1 :: u16) = unat r div 2 * 2 + unat up + 1"
    by (auto simp: list_all_iff unat_of_nat)
  show "unat (ucast (0x0F OR up) :: u16) = 15 + unat up" "unat (ucast (0 OR up) :: u16) = unat up"
    using assms(2) by auto
qed

lemma serial_word:
  assumes "\<forall>v \<in> {v0, v1, v2, v3, v4}. v AND 0x80 = (0 :: u8)"
  shows "(v0 AND 1) OR push_bit 1 (v1 AND 1) OR push_bit 2 (v2 AND 1) OR push_bit 3 (v3 AND 1) OR push_bit 4 (v4 AND 1) =
    (of_nat (serial_number [v0, v1, v2, v3, v4]) :: u8)"
proof -
  have "v AND 1 = of_bool (bit v 0)" for v :: u8
    by (simp add: and_one_eq mod_2_eq_odd bit_0)
  then show ?thesis
    by (cases "bit v0 0"; cases "bit v1 0"; cases "bit v2 0"; cases "bit v3 0"; cases "bit v4 0")
      (simp_all only: serial_number_def foldr.simps o_apply id_apply of_bool_eq, simp_all)
qed

section \<open>ROM behind the windows\<close>

text \<open>What a read of the ROM depends on.\<close>

definition same_prg :: "mapper \<Rightarrow> mapper \<Rightarrow> bool" where
  "same_prg m m' \<longleftrightarrow> m_prg_pages m' = m_prg_pages m \<and> m_prg_memory_access m' = m_prg_memory_access m \<and>
     m_prg_rom m' = m_prg_rom m \<and> m_mirroring_type m' = m_mirroring_type m"

lemma select_chr_prg [simp]: "same_prg m (select_chr_page slot page t m)"
  by (auto simp: same_prg_def select_chr_page_def map_ppu_page_def map_ppu_offset_def initialize_chr_ram_def Let_def
      split: chr_memory_type.split)

lemma same_prg_trans: "same_prg a b \<Longrightarrow> same_prg b c \<Longrightarrow> same_prg a c"
  by (simp add: same_prg_def)

lemma read_same_prg:
  assumes "same_prg m m'" "m_prg_pages m (hi_byte a) = Some (PrgRom, b)"
  shows "base_read_ram ob a m' = base_read_ram ob a m"
  using assms by (simp add: base_read_ram_def same_prg_def allow_register_read_def load_ptr_def)

lemma map_source_elsewhere:
  assumes "\<not> (hi_byte s \<le> hi_byte a \<and> hi_byte a \<le> hi_byte e)"
  shows "base_read_ram ob a (map_cpu_source s e p off acc m) = base_read_ram ob a m"
proof -
  let ?m = "map_cpu_source s e p off acc m"
  have r: "region r ?m = region r m" for r by (cases r) (simp_all add: map_cpu_source_def Let_def)
  have "m_prg_pages ?m (hi_byte a) = m_prg_pages m (hi_byte a)"
    "m_prg_memory_access ?m (hi_byte a) = m_prg_memory_access m (hi_byte a)"
    using assms by (auto simp: map_cpu_source_def Let_def)
  then show ?thesis by (simp only: base_read_ram_def allow_register_read_def load_ptr_def r if_False simp_thms)
qed

lemma unat_window_address:
  "k < 0x4000 \<Longrightarrow> unat (0x8000 + of_nat k :: u16) = 0x8000 + k" "k < 0x4000 \<Longrightarrow> unat (0xC000 + of_nat k :: u16) = 0xC000 + k"
  by (simp_all add: unat_word_ariths unat_of_nat)

text \<open>Two banks of 16 KB, selected one after the other.\<close>

lemma two_windows:
  assumes wf: "mapper_wf m" "has_banks m" "get_prg_page_size (m_chip m) = 0x4000"
  shows "\<exists>m1 m2. select_prg_page 0 x m = Some m1 \<and> select_prg_page 1 y m1 = Some m2 \<and>
    m_mirroring_type m2 = m_mirroring_type m \<and> same_board m m2 \<and> mapper_wf m2 \<and>
    (\<forall>m3 ob k. same_prg m2 m3 \<and> k < 0x4000 \<longrightarrow>
      base_read_ram ob (0x8000 + of_nat k) m3 = Some (m_prg_rom m ! (unat x mod prg_page_count m * 0x4000 + k)) \<and>
      base_read_ram ob (0xC000 + of_nat k) m3 = Some (m_prg_rom m ! (unat y mod prg_page_count m * 0x4000 + k)))"
proof -
  have len: "length (m_prg_rom m) = unat (m_prg_size m)" using wf(1) by (simp add: mapper_wf_def)
  obtain m1 where m1: "select_prg_page 0 x m = Some m1" "mapper_wf m1" "same_board m m1"
    using select_prg_page_wf [OF wf(1,2), of 0 x] by (auto simp: ok_iff)
  have b1: "has_banks m1" "get_prg_page_size (m_chip m1) = 0x4000" "prg_page_count m1 = prg_page_count m"
    "m_prg_rom m1 = m_prg_rom m" "length (m_prg_rom m1) = unat (m_prg_size m1)"
    using same_board_banks [OF m1(3)] m1(2,3) wf(2,3) by (simp_all add: same_board_def prg_page_count_def mapper_wf_def)
  obtain m2 where m2: "select_prg_page 1 y m1 = Some m2" "mapper_wf m2" "same_board m1 m2"
    using select_prg_page_wf [OF m1(2) b1(1), of 1 y] by (auto simp: ok_iff)
  have e1: "m1 = map_cpu_source 0x8000 0xBFFF (Some (PrgRom, 0)) (of_nat (unat x mod prg_page_count m) * 0x4000) None m"
    using m1(1) wf(2,3) len by (simp add: select_prg_page_eq has_banks_def Let_def del: of_nat_mod)
  have e2: "m2 = map_cpu_source 0xC000 0xFFFF (Some (PrgRom, 0)) (of_nat (unat y mod prg_page_count m1) * 0x4000) None m1"
    using m2(1) b1 by (simp add: select_prg_page_eq has_banks_def Let_def del: of_nat_mod)
  have reads: "base_read_ram ob (0x8000 + of_nat k) m3 = Some (m_prg_rom m ! (unat x mod prg_page_count m * 0x4000 + k)) \<and>
      base_read_ram ob (0xC000 + of_nat k) m3 = Some (m_prg_rom m ! (unat y mod prg_page_count m * 0x4000 + k))"
    if m3: "same_prg m2 m3" and k: "k < 0x4000" for m3 ob k
  proof -
    let ?a = "0x8000 + of_nat k :: u16" and ?b = "0xC000 + of_nat k :: u16"
    note u = unat_window_address [OF k]
    have ha: "unat (hi_byte ?a) = 0x80 + k div 256" "unat (hi_byte ?b) = 0xC0 + k div 256"
      by (simp_all add: unat_hi_byte u)
    have kd: "k div 256 < 0x40" using k by simp
    have h: "unat (hi_byte (0x8000 :: u16)) = 0x80" "unat (hi_byte (0xBFFF :: u16)) = 0xBF"
      "unat (hi_byte (0xC000 :: u16)) = 0xC0" "unat (hi_byte (0xFFFF :: u16)) = 0xFF"
      by (simp_all add: unat_hi_byte)
    have in1: "hi_byte 0x8000 \<le> hi_byte ?a" "hi_byte ?a \<le> hi_byte 0xBFFF" "\<not> hi_byte 0xC000 \<le> hi_byte ?a"
      and in2: "hi_byte 0xC000 \<le> hi_byte ?b" "hi_byte ?b \<le> hi_byte 0xFFFF"
      using kd unfolding word_le_nat_alt h ha by simp_all
    have pa: "\<exists>b. m_prg_pages m2 (hi_byte ?a) = Some (PrgRom, b)"
      using in1 by (simp add: e2) (simp add: e1 map_cpu_source_def Let_def ptr_add_def)
    have pb: "\<exists>b. m_prg_pages m2 (hi_byte ?b) = Some (PrgRom, b)"
      using in2 by (simp add: e2 map_cpu_source_def Let_def ptr_add_def)
    have ks: "k < unat (get_prg_page_size (m_chip m))" "k < unat (get_prg_page_size (m_chip m1))"
      using k wf(3) b1(2) by simp_all
    have "base_read_ram ob ?a m1 = Some (m_prg_rom m ! (unat x mod prg_page_count m * 0x4000 + k))"
      using read_selected_bank [OF len wf(2) _ ks(1), of ?a 0 x ob] m1(1) wf(3) u(1)
      by (simp add: allow_register_read_def prg_slot_start_def)
    moreover have "base_read_ram ob ?a m2 = base_read_ram ob ?a m1"
      unfolding e2 by (rule map_source_elsewhere) (use in1 in simp)
    moreover have "base_read_ram ob ?b m2 = Some (m_prg_rom m ! (unat y mod prg_page_count m * 0x4000 + k))"
      using read_selected_bank [OF b1(5,1) _ ks(2), of ?b 1 y ob] m2(1) b1 u(2)
      by (simp add: allow_register_read_def prg_slot_start_def)
    ultimately show ?thesis using read_same_prg [OF m3] pa pb by metis
  qed
  have "m_mirroring_type m2 = m_mirroring_type m" by (simp add: e1 e2 map_cpu_source_def Let_def)
  with m1(1) m2(1) reads same_board_trans [OF m1(3) m2(3)] m2(2) show ?thesis by blast
qed

section \<open>The registers and the windows\<close>

text \<open>
  The banks of 16 KB in the windows $8000-$BFFF and $C000-$FFFF. A ROM of 512 KB takes a fifth bit from a CHR
  register: from register 1 when it was written last, at $C000 exactly, in the mode of two CHR banks.
\<close>

definition mmc1_banks :: "mmc1 \<Rightarrow> mapper \<Rightarrow> nat \<times> nat" where
  "mmc1_banks c m =
     (let extra = (if m1_last_chr_reg c = 0xC000 \<and> m1_chr_mode c then m1_chr_reg1 c else m1_chr_reg0 c);
          upper = (if unat (m_prg_size m) = 512 * 1024 \<and> bit extra 4 then 16 else 0);
          reg = unat (m1_prg_reg c)
      in if \<not> m1_prg_mode c then (reg div 2 * 2 + upper, reg div 2 * 2 + upper + 1)
         else if m1_slot_select c then (reg + upper, 15 + upper) else (upper, reg + upper))"

text \<open>The work RAM window, the first part of \<^verbatim>\<open>update_state\<close>.\<close>

definition mmc1_wram :: "mmc1 \<Rightarrow> mapper \<Rightarrow> mapper" where
  "mmc1_wram c m =
     (let a = (\<lambda>acc. map_cpu_source 0x6000 0x7FFF (vec_data OwnRam m) 0 (Some acc) m)
      in if m1_wram_disable c
         then (a NO_ACCESS)\<lparr>m_prg_pages := (\<lambda>i. if 0x60 \<le> i \<and> i \<le> 0x7F then None else m_prg_pages (a NO_ACCESS) i)\<rparr>
         else a READ_WRITE)"

lemma mmc1_wram_ok:
  assumes "paged k 0x2000 m"
  shows "paged k 0x2000 (mmc1_wram c m)" "m_prg_rom (mmc1_wram c m) = m_prg_rom m" "m_prg_size (mmc1_wram c m) = m_prg_size m"
    "m_mirroring_type (mmc1_wram c m) = m_mirroring_type m" "m_chip (mmc1_wram c m) = m_chip m"
proof -
  let ?a = "\<lambda>acc. map_cpu_source 0x6000 0x7FFF (vec_data OwnRam m) 0 (Some acc) m"
  have on: "paged k 0x2000 (?a acc)" for acc using assms by (rule paged_own)
  have acc: "m_prg_memory_access (?a NO_ACCESS) i = NO_ACCESS" if "0x60 \<le> i" "i \<le> 0x7F" for i
    using that by (simp add: map_cpu_source_def Let_def hi_byte_def resolve_access_def)
  have "paged k 0x2000 ((?a NO_ACCESS)\<lparr>m_prg_pages := (\<lambda>i. if 0x60 \<le> i \<and> i \<le> 0x7F then None
      else m_prg_pages (?a NO_ACCESS) i)\<rparr>)"
    using on [of NO_ACCESS] acc by (auto simp: paged_def mapper_wf_def has_banks_def prg_page_count_def)
  with on show "paged k 0x2000 (mmc1_wram c m)" by (simp add: mmc1_wram_def Let_def)
qed (simp_all add: mmc1_wram_def map_cpu_source_def Let_def)

lemma bit_0x10: "bit (0x10 :: u8) n \<longleftrightarrow> n = 4"
proof -
  have e: "(0x10 :: u8) = push_bit 4 1" by simp
  show ?thesis unfolding e bit_push_bit_iff bit_1_iff by auto
qed

lemma upper_bit: "(x :: u8) AND 0x10 = (if bit x 4 then 0x10 else 0)"
proof (rule bit_word_eqI)
  fix n
  have "bit (0 :: u8) n \<longleftrightarrow> False" by simp
  then show "bit (x AND 0x10) n = bit (if bit x 4 then 0x10 else 0 :: u8) n"
    by (cases "bit x 4") (simp_all only: bit_and_iff bit_0x10 if_True if_False, auto)
qed

lemma mmc1_update_banks:
  assumes "m1_prg_reg c < 16"
  shows "\<exists>x y f. mmc1_update_state c m = Option.bind (select_prg_page 0 x (mmc1_wram c m)) (\<lambda>m. Option.bind
      (select_prg_page 1 y m) (\<lambda>m. Some (f m))) \<and> (unat x, unat y) = mmc1_banks c m \<and> (\<forall>m. same_prg m (f m))"
proof -
  let ?extra = "if m1_last_chr_reg c = 0xC000 \<and> m1_chr_mode c then m1_chr_reg1 c else m1_chr_reg0 c"
  define up where "up = (if m_prg_size m = 0x80000 then ?extra AND 0x10 else 0)"
  let ?x = "ucast (if m1_prg_mode c then if m1_slot_select c then m1_prg_reg c OR up else 0 OR up else m1_prg_reg c AND 0xFE OR up) :: u16"
  let ?y = "if m1_prg_mode c then if m1_slot_select c then ucast (0x0F OR up) else ucast (m1_prg_reg c OR up)
      else ucast (m1_prg_reg c AND 0xFE OR up) + 1 :: u16"
  let ?f = "\<lambda>m. if m1_chr_mode c
      then select_chr_page 1 (ucast (m1_chr_reg1 c)) CHR_DEFAULT (select_chr_page 0 (ucast (m1_chr_reg0 c)) CHR_DEFAULT m)
      else select_chr_page 1 (ucast (m1_chr_reg0 c AND 0x1E) + 1) CHR_DEFAULT
        (select_chr_page 0 (ucast (m1_chr_reg0 c AND 0x1E)) CHR_DEFAULT m)"
  have prg: "same_prg m (?f m)" for m
    using same_prg_trans [OF select_chr_prg select_chr_prg] by simp
  have size: "m_prg_size m = 0x80000 \<longleftrightarrow> unat (m_prg_size m) = 512 * 1024"
    by (simp add: word_unat_eq_iff)
  have upn: "up = 0 \<or> up = 0x10" "unat up = (if unat (m_prg_size m) = 512 * 1024 \<and> bit ?extra 4 then 16 else 0)"
    unfolding up_def size upper_bit by simp_all
  note n = bank_numbers [OF assms upn(1)]
  have banks: "(unat ?x, unat ?y) = mmc1_banks c m"
    unfolding mmc1_banks_def Let_def upn(2) [symmetric] using n by simp
  have "mmc1_update_state c m = Option.bind (select_prg_page 0 ?x (mmc1_wram c m)) (\<lambda>m. Option.bind
      (select_prg_page 1 ?y m) (\<lambda>m. Some (?f m)))"
    unfolding mmc1_update_state_def Let_def mmc1_wram_def up_def
    by (cases "m1_prg_mode c"; cases "m1_slot_select c"; cases "m1_wram_disable c") (simp_all add: Option.bind_assoc)
  with banks prg show ?thesis
    by - (rule exI [of _ ?x], rule exI [of _ ?y], rule exI [of _ ?f], intro conjI allI)
qed

text \<open>What the CPU reads after \<^verbatim>\<open>update_state\<close>.\<close>

definition mmc1_reads :: "nat \<times> nat \<Rightarrow> mapper \<Rightarrow> mapper \<Rightarrow> bool" where
  "mmc1_reads banks m n \<longleftrightarrow> (\<forall>ob k. k < 0x4000 \<longrightarrow>
     base_read_ram ob (0x8000 + of_nat k) n =
       Some (m_prg_rom m ! (fst banks mod (length (m_prg_rom m) div 0x4000) * 0x4000 + k)) \<and>
     base_read_ram ob (0xC000 + of_nat k) n =
       Some (m_prg_rom m ! (snd banks mod (length (m_prg_rom m) div 0x4000) * 0x4000 + k)))"

lemma mmc1_update_view:
  assumes p: "paged (Mapper001 k) 0x2000 m" and r: "m1_prg_reg c < 16"
  shows "\<exists>n. mmc1_update_state c m = Some n \<and> m_mirroring_type n = m_mirroring_type m \<and> mmc1_reads (mmc1_banks c m) m n"
proof -
  let ?w = "mmc1_wram c m"
  note w = mmc1_wram_ok [OF p, of c]
  have wf: "mapper_wf ?w" "has_banks ?w" "get_prg_page_size (m_chip ?w) = 0x4000"
    using w(1) by (simp_all add: paged_def)
  have count: "prg_page_count ?w = length (m_prg_rom m) div 0x4000"
    using w(1-3) wf(3) by (simp add: prg_page_count_def paged_def mapper_wf_def)
  obtain x y f where u: "mmc1_update_state c m = Option.bind (select_prg_page 0 x ?w) (\<lambda>m. Option.bind
      (select_prg_page 1 y m) (\<lambda>m. Some (f m)))" "(unat x, unat y) = mmc1_banks c m" "\<And>m. same_prg m (f m)"
    using mmc1_update_banks [OF r, of m] by blast
  from two_windows [OF wf, of x y] obtain m1 m2 where t: "select_prg_page 0 x ?w = Some m1" "select_prg_page 1 y m1 = Some m2"
    "m_mirroring_type m2 = m_mirroring_type ?w"
    "\<And>m3 ob k. same_prg m2 m3 \<Longrightarrow> k < 0x4000 \<Longrightarrow>
      base_read_ram ob (0x8000 + of_nat k) m3 = Some (m_prg_rom ?w ! (unat x mod prg_page_count ?w * 0x4000 + k)) \<and>
      base_read_ram ob (0xC000 + of_nat k) m3 = Some (m_prg_rom ?w ! (unat y mod prg_page_count ?w * 0x4000 + k))"
    by blast
  have "m_mirroring_type (f m2) = m_mirroring_type m" using u(3) [of m2] t(3) w(4) by (simp add: same_prg_def)
  moreover have "mmc1_reads (mmc1_banks c m) m (f m2)"
    using t(4) [OF u(3)] by (simp add: mmc1_reads_def count w(2) u(2) [symmetric])
  ultimately show ?thesis by (simp add: u(1) t(1,2))
qed

text \<open>The register that an address selects takes the number written; the others stay.\<close>

definition mmc1_written :: "u16 \<Rightarrow> nat \<Rightarrow> mmc1 \<Rightarrow> mmc1 \<Rightarrow> bool" where
  "mmc1_written addr n c d \<longleftrightarrow>
     (let r = unat addr div 0x2000 in
      (m1_slot_select d, m1_prg_mode d, m1_chr_mode d) =
        (if r = 4 then (odd (n div 4), odd (n div 8), 16 \<le> n) else (m1_slot_select c, m1_prg_mode c, m1_chr_mode c)) \<and>
      unat (m1_chr_reg0 d) = (if r = 5 then n else unat (m1_chr_reg0 c)) \<and>
      unat (m1_chr_reg1 d) = (if r = 6 then n else unat (m1_chr_reg1 c)) \<and>
      m1_last_chr_reg d = (if r = 5 \<or> r = 6 then addr else m1_last_chr_reg c) \<and>
      (unat (m1_prg_reg d), m1_wram_disable d) =
        (if r = 7 then (n mod 16, 16 \<le> n) else (unat (m1_prg_reg c), m1_wram_disable c)))"

text \<open>The mirroring, which the control register sets.\<close>

definition mmc1_mirroring :: "u16 \<Rightarrow> nat \<Rightarrow> mirroring_type \<Rightarrow> mirroring_type" where
  "mmc1_mirroring addr n t =
     (if unat addr div 0x2000 = 4 then [SCREEN_A_ONLY, SCREEN_B_ONLY, VERTICAL, HORIZONTAL] ! (n mod 4) else t)"

lemma mirroring_set [simp]: "m_mirroring_type (set_mirroring_type t m) = t"
proof -
  have "m_mirroring_type (set_nametable i j m) = m_mirroring_type m" for i j m
    by (simp add: set_nametable_def map_ppu_source_def Let_def)
  then show ?thesis by (cases t) (simp_all add: set_mirroring_type_def Let_def)
qed

lemma mmc1_register_view:
  assumes "n < 32" and run: "mmc1_process_register_write addr (of_nat n) (c, m) = (d, m')"
  shows "mmc1_written addr n c d \<and>
    m1_shift_count d = m1_shift_count c \<and>
    m_mirroring_type m' = mmc1_mirroring addr n (m_mirroring_type m) \<and>
    (m' = m \<or> (\<exists>t. m' = set_mirroring_type t m))"
proof -
  note b = serial_bits [OF assms(1)]
  have r: "addr AND 0xE000 = 0x8000 \<longleftrightarrow> unat addr div 0x2000 = 4" "addr AND 0xE000 = 0xA000 \<longleftrightarrow> unat addr div 0x2000 = 5"
    "addr AND 0xE000 = 0xC000 \<longleftrightarrow> unat addr div 0x2000 = 6" "addr AND 0xE000 = 0xE000 \<longleftrightarrow> unat addr div 0x2000 = 7"
    using address_region [of 4 addr] address_region [of 5 addr] address_region [of 6 addr] address_region [of 7 addr]
    by simp_all
  have three: "(of_nat n :: u8) AND 3 = 0 \<longleftrightarrow> n mod 4 = 0" "(of_nat n :: u8) AND 3 = 1 \<longleftrightarrow> n mod 4 = 1"
    "(of_nat n :: u8) AND 3 = 2 \<longleftrightarrow> n mod 4 = 2"
    using b by (simp_all add: word_unat_eq_iff [of "of_nat n AND 3"])
  have "n mod 4 = 0 \<or> n mod 4 = 1 \<or> n mod 4 = 2 \<or> n mod 4 = 3" by linarith
  then have m4: "(if n mod 4 = 0 then SCREEN_A_ONLY else if n mod 4 = 1 then SCREEN_B_ONLY else if n mod 4 = 2 then VERTICAL
      else HORIZONTAL) = [SCREEN_A_ONLY, SCREEN_B_ONLY, VERTICAL, HORIZONTAL] ! (n mod 4)" by (elim disjE) simp_all
  define R where "R = unat addr div 0x2000"
  note run' = run [unfolded mmc1_process_register_write_def r three m4 prod.case, folded R_def]
  note goal = mmc1_written_def mmc1_mirroring_def Let_def R_def [symmetric]
  consider "R = 4" | "R = 5" | "R = 6" | "R = 7" | "R \<notin> {4, 5, 6, 7}" by blast
  then show ?thesis
  proof cases
    case 1
    have "d = c\<lparr>m1_slot_select := odd (n div 4), m1_prg_mode := odd (n div 8), m1_chr_mode := 16 \<le> n\<rparr>"
      "m' = set_mirroring_type ([SCREEN_A_ONLY, SCREEN_B_ONLY, VERTICAL, HORIZONTAL] ! (n mod 4)) m"
      using run' 1 b by simp_all
    then show ?thesis unfolding goal using 1 by (simp only: mmc1.simps mirroring_set) auto
  next
    case 2
    have "d = c\<lparr>m1_last_chr_reg := addr, m1_chr_reg0 := of_nat n AND 0x1F\<rparr>" "m' = m" using run' 2 by simp_all
    then show ?thesis unfolding goal using 2 b by simp
  next
    case 3
    have "d = c\<lparr>m1_last_chr_reg := addr, m1_chr_reg1 := of_nat n AND 0x1F\<rparr>" "m' = m" using run' 3 by simp_all
    then show ?thesis unfolding goal using 3 b by simp
  next
    case 4
    have "d = c\<lparr>m1_prg_reg := of_nat n AND 0x0F, m1_wram_disable := 16 \<le> n\<rparr>" "m' = m"
      using run' 4 b by simp_all
    then show ?thesis unfolding goal using 4 b by simp
  next
    case 5
    then have "d = c" "m' = m" using run' by simp_all
    then show ?thesis unfolding goal using 5 by simp
  qed
qed

end
