(* ===== verification/Mapper_Properties.thy ===== *)
theory Mapper_Properties
  imports Mmc1_Facts
begin

text \<open>
  What the cartridge promises: bank windows, nametable mirroring, the serial port of the
  MMC1 and the scanline counter of the MMC3.
\<close>

section \<open>Banks\<close>

text \<open>
  C5: after \<^verbatim>\<open>select_prg_page(slot, page)\<close> the CPU reads at offset \<open>k\<close> of the slot's window
  the byte \<open>k\<close> of the ROM bank \<open>page\<close> modulo the number of banks, on every board whose
  registers are not readable.
\<close>

theorem bank_window:
  assumes "loaded m" "k < unat (get_prg_page_size (m_chip m))"
    and "unat a = unat (prg_slot_start slot m) + k"
  shows "\<exists>m'. select_prg_page slot page m = Some m' \<and>
    base_read_ram ob a m' = Some (m_prg_rom m !
      (unat page mod prg_page_count m * unat (get_prg_page_size (m_chip m)) + k))"
  using assms
  by (intro read_selected_bank) (auto simp: loaded_def paged_def mapper_wf_def allow_register_read_def)

lemma bank_window_witness:
  "\<exists>m'. select_prg_page 0 7 sample_mapper = Some m' \<and>
    base_read_ram 0 0x8123 m' = Some (m_prg_rom sample_mapper !
      (unat (7 :: u16) mod prg_page_count sample_mapper * unat (get_prg_page_size (m_chip sample_mapper)) + 0x123))"
proof (rule bank_window)
  show "0x123 < unat (get_prg_page_size (m_chip sample_mapper))"
    "unat (0x8123 :: u16) = unat (prg_slot_start 0 sample_mapper) + 0x123"
    by (cases "m_chip sample_mapper"; simp add: prg_slot_start_def)+
qed simp

section \<open>Nametables\<close>

lemma cell_eq: "x < (n :: nat) \<Longrightarrow> y < n \<Longrightarrow> i * n + x = j * n + y \<longleftrightarrow> i = j \<and> x = y"
  by (metis add.commute add_right_cancel div_less div_mult_self1 less_nat_zero_code plus_nat.add_0)

text \<open>
  C6: a byte the PPU writes to a nametable address is the byte it reads at every address of
  the same cell, under each mirroring and in both windows ($2000 and $3000); a cell of
  another nametable is not changed.
\<close>

theorem nametable_mirroring:
  assumes nt: "length (m_nametable_ram m) = 0x1000"
    and a: "base \<in> {0x2000, 0x3000}" "j < 4" "off < 0x400" "unat (a :: u16) = base + j * 0x400 + off"
    and b: "base' \<in> {0x2000, 0x3000}" "j' < 4" "off' < 0x400" "unat (b :: u16) = base' + j' * 0x400 + off'"
  shows "Option.bind (write_vram a v (set_mirroring_type t m)) (read_vram b) =
    (if nametable_of t j = nametable_of t j' \<and> off = off' then Some v
     else read_vram b (set_mirroring_type t m))"
proof -
  note q = quadrant_addr [OF b]
  have "nametable_of t j' < 4" using b(2) by (rule nametable_of_less)
  then have "nametable_of t j' * 0x400 + off' < 0x1000" using b(3) by simp
  then have read: "read_vram b (m_nametable_ram_update f (set_mirroring_type t m)) =
      Some (f (m_nametable_ram m) ! (nametable_of t j' * 0x400 + off'))"
    if "length (f (m_nametable_ram m)) = 0x1000" for f
    using q b(2) that by (simp add: read_vram_def Let_def mirroring_page load_ptr_def add.assoc)
  have "nametable_of t j < 4" using a(2) by (rule nametable_of_less)
  then have "nametable_of t j * 0x400 + off < 0x1000" using a(3) by simp
  moreover have "nametable_of t j * 0x400 + off = nametable_of t j' * 0x400 + off' \<longleftrightarrow>
      nametable_of t j = nametable_of t j' \<and> off = off'"
    using cell_eq [OF a(3) b(3)] .
  ultimately show ?thesis
    using nt by (simp add: write_nametable [OF nt a] read read_nametable [OF nt b] nth_list_update)
qed

lemma nametable_mirroring_witness:
  "Option.bind (write_vram 0x2005 0x77 (set_mirroring_type VERTICAL sample_board)) (read_vram 0x3805) = Some 0x77"
  using nametable_mirroring [of sample_board "0x2000" 0 5 "0x2005" "0x3000" 2 5 "0x3805" "0x77" VERTICAL]
    sample_fresh(1) by (simp add: fresh_def)

section \<open>A ROM that is too small\<close>

text \<open>
  C8: a PRG ROM smaller than one bank of the board, 16 KB on a board with 32 KB banks,
  makes \<^verbatim>\<open>init\<close> divide by zero (\<^verbatim>\<open>page %= max_page\<close> in \<^verbatim>\<open>select_prg_page\<close>).
\<close>

theorem small_rom_divides_by_zero:
  assumes "k \<in> {Mapper003, Mapper007, Mapper011, Mapper013, Mapper034, Mapper066}"
    and "0 < length prg" "length prg < 0x8000"
  shows "mapper_init info prg chr (new_mapper k) = None"
proof -
  have n: "unat (of_nat (length prg) :: u32) = length prg" using assms(3) by (simp add: unat_of_nat)
  have sz: "(of_nat (length prg) :: u32) > 0" using assms(2) n by (simp add: word_gt_0 unat_gt_0 [symmetric] del: unat_gt_0)
  have "unat ((of_nat (length prg) :: u32) div 0x8000) = 0"
    using assms(3) n by (simp add: unat_div)
  then have d: "(of_nat (length prg) :: u32) div 0x8000 = 0" by (simp add: unat_eq_0)
  have sel: "select_prg_page slot page m = None"
    if "m_prg_size m = of_nat (length prg)" "get_prg_page_size (m_chip m) = 0x8000" for slot page m
    using that sz by (simp add: select_prg_page_def Let_def d)
  have mir: "m_prg_size (set_mirroring_type t m) = m_prg_size m" "m_chip (set_mirroring_type t m) = m_chip m" for t m
    using set_mirroring_type_same [of m t] by (simp_all add: same_board_def)
  have chr: "m_prg_size (select_chr_page a b t m) = m_prg_size m" "m_chip (select_chr_page a b t m) = m_chip m" for a b t m
    using select_chr_page_same [of m a b t] by (simp_all add: same_board_def)
  show ?thesis
    using assms(1)
    by (auto simp: mapper_init_def latch_board_init_def mapper007_init_def mapper007_write_register_def
        mapper011_init_def mapper013_init_def Let_def set_rom_def new_mapper_def add_register_range_def
        set_has_bus_conflicts_def sel mir chr)
qed

lemma small_rom_divides_by_zero_witness:
  "mapper_init rom_info0 (replicate 0x4000 0) [] (new_mapper Mapper003) = None"
  by (rule small_rom_divides_by_zero) simp_all

section \<open>The serial port of the MMC1\<close>

text \<open>The serial buffer after a write.\<close>

definition shift_in :: "u8 \<Rightarrow> u8 \<Rightarrow> u8" where
  "shift_in val buf = drop_bit 1 buf OR (push_bit 4 val AND 0x10)"

lemma bit_shift_in: "bit (shift_in v b) n \<longleftrightarrow> bit b (Suc n) \<or> n = 4 \<and> bit v 0"
  by (auto simp: shift_in_def bit_or_iff bit_and_iff bit_drop_bit_eq bit_push_bit_iff bit_0x10
      simp del: bit_numeral_word_iff)

lemma bit_of_bit: "k < 8 \<Longrightarrow> bit (push_bit k (v AND 1 :: u8)) n \<longleftrightarrow> n = k \<and> bit v 0"
  by (simp only: bit_push_bit_iff bit_and_iff bit_1_iff) (auto dest: bit_imp_le_length)

lemma shift_in_five:
  assumes "\<forall>v \<in> {v0, v1, v2, v3, v4}. v AND 0x80 = 0"
  shows "shift_in v4 (shift_in v3 (shift_in v2 (shift_in v1 (shift_in v0 0)))) = of_nat (serial_number [v0, v1, v2, v3, v4])"
  unfolding serial_word [OF assms, symmetric]
proof (rule bit_word_eqI)
  fix n
  have lo: "bit (v0 AND 1) n \<longleftrightarrow> n = 0 \<and> bit v0 0" by (auto simp: bit_and_iff bit_1_iff)
  have hi: "bit (push_bit 1 (v1 AND 1)) n \<longleftrightarrow> n = 1 \<and> bit v1 0"
    "bit (push_bit 2 (v2 AND 1)) n \<longleftrightarrow> n = 2 \<and> bit v2 0"
    "bit (push_bit 3 (v3 AND 1)) n \<longleftrightarrow> n = 3 \<and> bit v3 0"
    "bit (push_bit 4 (v4 AND 1)) n \<longleftrightarrow> n = 4 \<and> bit v4 0"
    by (rule bit_of_bit, simp)+
  show "bit (shift_in v4 (shift_in v3 (shift_in v2 (shift_in v1 (shift_in v0 0))))) n =
      bit (v0 AND 1 OR push_bit 1 (v1 AND 1) OR push_bit 2 (v2 AND 1) OR push_bit 3 (v3 AND 1) OR push_bit 4 (v4 AND 1)) n"
    unfolding bit_or_iff lo hi by (simp only: bit_shift_in bit_0_eq bot_apply) auto
qed

text \<open>A serial write: the buffer shifts, the fifth write acts on the register it addresses.\<close>

lemma mmc1_serial_write:
  assumes "val AND 0x80 = 0" "t - m1_last_write_cycle c \<ge> 2" "m1_shift_count c < 4"
  shows "mmc1_write_register t addr val (c, m) = Some (c\<lparr>m1_write_buffer := shift_in val (m1_write_buffer c),
    m1_shift_count := m1_shift_count c + 1, m1_last_write_cycle := t\<rparr>, m)"
proof -
  have "m1_shift_count c + 1 \<noteq> 5" using assms(3) by auto
  then show ?thesis
    using assms(1,2) by (simp add: mmc1_write_register_def mmc1_process_bit_write_def shift_in_def Let_def)
qed

lemma mmc1_last_write:
  assumes "val AND 0x80 = 0" "t - m1_last_write_cycle c \<ge> 2" "m1_shift_count c = 4"
  shows "mmc1_write_register t addr val (c, m) =
    (let c' = c\<lparr>m1_write_buffer := shift_in val (m1_write_buffer c), m1_shift_count := 5\<rparr>;
         (d, n) = mmc1_process_register_write addr (shift_in val (m1_write_buffer c)) (c', m)
     in map_option (\<lambda>n'. ((mmc1_reset_buffer d)\<lparr>m1_last_write_cycle := t\<rparr>, n')) (mmc1_update_state d n))"
  using assms
  by (simp add: mmc1_write_register_def mmc1_process_bit_write_def shift_in_def Let_def split: prod.split)
    (auto split: option.split simp: option.map_comp comp_def bind_eq_None_conv map_option_case)

text \<open>The fifth write: the register takes the number, the windows its banks, and the port is empty.\<close>

lemma mmc1_fifth_write:
  assumes board: "loaded m" "m_chip m = Mapper001 k"
    and port: "m1_shift_count c = 4" "shift_in v (m1_write_buffer c) = of_nat n" "n < 32" and reg: "m1_prg_reg c < 16"
    and gap: "v AND 0x80 = 0" "t - m1_last_write_cycle c \<ge> 2"
  shows "\<exists>d m'. mmc1_write_register t addr v (c, m) = Some (d, m') \<and> mmc1_written addr n c d \<and>
    m_mirroring_type m' = mmc1_mirroring addr n (m_mirroring_type m) \<and> mmc1_reads (mmc1_banks d m) m m' \<and>
    m1_shift_count d = 0 \<and> m1_write_buffer d = 0 \<and> m1_last_write_cycle d = t"
proof -
  let ?c5 = "c\<lparr>m1_write_buffer := of_nat n, m1_shift_count := 5\<rparr>"
  obtain e m1 where e: "mmc1_process_register_write addr (of_nat n) (?c5, m) = (e, m1)" by fastforce
  note view = mmc1_register_view [OF port(3) e]
  have "mmc1_written addr n ?c5 e = mmc1_written addr n c e" by (simp add: mmc1_written_def)
  then have w: "mmc1_written addr n c e" using view by blast
  have "paged (Mapper001 k) 0x2000 m" using loaded_own [OF board(1)] board(2) by auto
  then have p1: "paged (Mapper001 k) 0x2000 m1" using view by (auto intro: paged_intros)
  have "unat (m1_prg_reg e) < 16"
    using conjunct2 [OF conjunct2 [OF conjunct2 [OF conjunct2 [OF w [unfolded mmc1_written_def Let_def]]]]] reg
    by (auto simp: word_less_nat_alt split: if_splits)
  then have "m1_prg_reg e < 16" by (simp add: word_less_nat_alt)
  from mmc1_update_view [OF p1 this] obtain m2 where u: "mmc1_update_state e m1 = Some m2"
    "m_mirroring_type m2 = m_mirroring_type m1" "mmc1_reads (mmc1_banks e m1) m1 m2" by blast
  let ?d = "(mmc1_reset_buffer e)\<lparr>m1_last_write_cycle := t\<rparr>"
  have last: "mmc1_write_register t addr v (c, m) = Some (?d, m2)"
    by (subst mmc1_last_write [OF gap port(1)]) (simp add: port(2) e Let_def u(1))
  have same: "m_prg_rom m1 = m_prg_rom m" "m_prg_size m1 = m_prg_size m"
    using view set_mirroring_type_same by (auto simp: same_board_def)
  have "mmc1_banks ?d m = mmc1_banks e m1" unfolding mmc1_banks_def Let_def same mmc1_reset_buffer_def by simp
  moreover have "mmc1_reads b m m2 = mmc1_reads b m1 m2" for b by (simp add: mmc1_reads_def same)
  moreover have "mmc1_written addr n c ?d" using w by (simp add: mmc1_written_def mmc1_reset_buffer_def)
  ultimately show ?thesis
    using last view u(2,3) by - (rule exI [of _ ?d], rule exI [of _ m2], simp add: mmc1_reset_buffer_def)
qed

text \<open>
  C9: five writes to an MMC1 whose serial port is empty, as it is at power on, after a write with bit 7 set and after
  a fifth write, at least two CPU cycles apart and with bit 7 clear, write one register. The first four
  change neither the registers nor the mapping. The fifth writes the number of the five low bits, in the order of the
  writes, to the register that its address selects: $8000 control (mirroring, PRG and CHR mode), $A000 and $C000 the CHR banks,
  $E000 the PRG bank and the work RAM switch; the other registers stay. The two ROM windows of the CPU then show the banks that the
  registers mean, and the port is empty again. (The cartridge satisfies the invariant of set-up cartridges, and its PRG register, which
  every write masks to four bits, is below 16.)
\<close>

theorem mmc1_five_writes:
  assumes board: "loaded m" "m_chip m = Mapper001 c"
    and port: "m1_shift_count c = 0" "m1_write_buffer c = 0" and reg: "m1_prg_reg c < 16"
    and bits: "\<forall>v \<in> {v0, v1, v2, v3, v4}. v AND 0x80 = 0"
    and gaps: "t0 - m1_last_write_cycle c \<ge> 2" "t1 - t0 \<ge> 2" "t2 - t1 \<ge> 2" "t3 - t2 \<ge> 2" "t4 - t3 \<ge> 2"
    and n: "n = of_bool (bit v0 0) + 2 * of_bool (bit v1 0) + 4 * of_bool (bit v2 0) + 8 * of_bool (bit v3 0) + 16 * of_bool (bit v4 0)"
  shows "\<exists>b d m'. for_each (\<lambda>(t, a, v). mmc1_write_register t a v)
      [(t0, a0, v0), (t1, a1, v1), (t2, a2, v2), (t3, a3, v3)] (c, m) =
        Some (c\<lparr>m1_write_buffer := b, m1_shift_count := 4, m1_last_write_cycle := t3\<rparr>, m) \<and>
    for_each (\<lambda>(t, a, v). mmc1_write_register t a v)
      [(t0, a0, v0), (t1, a1, v1), (t2, a2, v2), (t3, a3, v3), (t4, a4, v4)] (c, m) = Some (d, m') \<and>
    mmc1_written a4 n c d \<and> m_mirroring_type m' = mmc1_mirroring a4 n (m_mirroring_type m) \<and>
    mmc1_reads (mmc1_banks d m) m m' \<and>
    m1_shift_count d = 0 \<and> m1_write_buffer d = 0 \<and> m1_last_write_cycle d = t4"
proof -
  let ?b = "shift_in v3 (shift_in v2 (shift_in v1 (shift_in v0 0)))"
  let ?c4 = "c\<lparr>m1_write_buffer := ?b, m1_shift_count := 4, m1_last_write_cycle := t3\<rparr>"
  have four: "for_each (\<lambda>(t, a, v). mmc1_write_register t a v)
      [(t0, a0, v0), (t1, a1, v1), (t2, a2, v2), (t3, a3, v3)] (c, m) = Some (?c4, m)"
    using port bits gaps by (simp add: mmc1_serial_write)
  have N: "serial_number [v0, v1, v2, v3, v4] = n" by (simp add: serial_number_def n)
  have n32: "n < 32" using serial_number_less [of "[v0, v1, v2, v3, v4]"] by (simp add: N)
  have buf: "shift_in v4 ?b = of_nat n" using shift_in_five [OF bits] by (simp only: N)
  have "v4 AND 0x80 = 0" "t4 - m1_last_write_cycle ?c4 \<ge> 2" "m1_shift_count ?c4 = 4" "m1_prg_reg ?c4 < 16"
    "shift_in v4 (m1_write_buffer ?c4) = of_nat n"
    using bits gaps reg buf by simp_all
  from mmc1_fifth_write [OF board this(3,5) n32 this(4,1,2), of a4] obtain d m' where
    d: "mmc1_write_register t4 a4 v4 (?c4, m) = Some (d, m')" "mmc1_written a4 n ?c4 d"
      "m_mirroring_type m' = mmc1_mirroring a4 n (m_mirroring_type m)" "mmc1_reads (mmc1_banks d m) m m'"
      "m1_shift_count d = 0" "m1_write_buffer d = 0" "m1_last_write_cycle d = t4" by blast
  have "mmc1_written a4 n ?c4 d = mmc1_written a4 n c d" by (simp add: mmc1_written_def)
  then have "mmc1_written a4 n c d" using d(2) by blast
  moreover have "for_each (\<lambda>(t, a, v). mmc1_write_register t a v)
      ([(t0, a0, v0), (t1, a1, v1), (t2, a2, v2), (t3, a3, v3)] @ [(t4, a4, v4)]) (c, m) = Some (d, m')"
    unfolding for_each_append four by (simp add: d(1))
  ultimately show ?thesis
    using four d(3-7) by - (rule exI [of _ ?b], rule exI [of _ d], rule exI [of _ m'], simp)
qed

text \<open>A cartridge with the MMC1 and 32 KB of PRG ROM.\<close>

definition mmc1_board :: mapper where
  "mmc1_board = the (mapper_init rom_info0 sample_prg sample_chr (init_work_ram rom_info0 (new_mapper (Mapper001 mmc1_0))))"

lemma mmc1_board_facts:
  "\<exists>c. m_chip mmc1_board = Mapper001 c \<and> loaded mmc1_board \<and> m1_shift_count c = 0 \<and> m1_write_buffer c = 0 \<and>
    m1_prg_reg c < 16 \<and> m1_last_write_cycle c = 0"
proof -
  let ?m0 = "init_work_ram rom_info0 (new_mapper (Mapper001 mmc1_0))"
  have chip: "m_chip ?m0 = Mapper001 mmc1_0" "m_own_ram ?m0 = []"
    by (simp_all add: init_work_ram_def new_mapper_def Let_def)
  have fits: "rom_fits (m_chip ?m0) sample_prg sample_chr"
    unfolding chip by (simp add: rom_fits_def sample_prg_def sample_chr_def dvd_def)
  have "ok (mapper_init rom_info0 sample_prg sample_chr ?m0) loaded"
    by (rule mapper_init_ok [OF fresh_new fits chip(2)]) (simp add: chip)
  then obtain m where m: "mapper_init rom_info0 sample_prg sample_chr ?m0 = Some m" "loaded m" by (auto simp: ok_iff)
  from m(1) chip have "\<exists>c. m_chip m = Mapper001 c \<and> m1_shift_count c = 0 \<and> m1_write_buffer c = 0 \<and>
      m1_prg_reg c < 16 \<and> m1_last_write_cycle c = 0"
    by (auto simp: mapper_init_def Let_def set_rom_def mmc1_init_def mmc1_process_register_write_def mmc1_0_def)
  moreover have "mmc1_board = m" using m(1) by (simp add: mmc1_board_def)
  ultimately show ?thesis using m(2) by simp
qed

lemma mmc1_five_writes_witness:
  "\<exists>c d m'. m_chip mmc1_board = Mapper001 c \<and> for_each (\<lambda>(t, a, v). mmc1_write_register t a v)
      [(10, 0xE000, 1), (20, 0xE000, 0), (30, 0xE000, 1), (40, 0xE000, 0), (50, 0xE000, 0)] (c, mmc1_board) = Some (d, m') \<and>
    mmc1_written 0xE000 5 c d \<and> mmc1_reads (mmc1_banks d mmc1_board) mmc1_board m' \<and> m1_shift_count d = 0"
proof -
  obtain c where c: "m_chip mmc1_board = Mapper001 c" "loaded mmc1_board" "m1_shift_count c = 0" "m1_write_buffer c = 0"
    "m1_prg_reg c < 16" "m1_last_write_cycle c = 0" using mmc1_board_facts by blast
  from mmc1_five_writes [OF c(2,1,3,4,5), of 1 0 1 0 0 10 20 30 40 50 5 "0xE000" "0xE000" "0xE000" "0xE000" "0xE000"] c(1,6)
  show ?thesis by (auto simp: bit_0)
qed

section \<open>The scanline counter of the MMC3\<close>

text \<open>The IRQ requests of \<open>n\<close> rising edges of the address line A12.\<close>

fun irq_edges :: "nat \<Rightarrow> mmc3 \<Rightarrow> bool list \<times> mmc3" where
  "irq_edges 0 c = ([], c)"
| "irq_edges (Suc n) c =
     (let (fire, c) = mmc3_clock_counter c; (fires, c) = irq_edges n c in (fire # fires, c))"

lemma irq_countdown:
  assumes "m3_irq_enabled c" "\<not> m3_irq_reload c" "0 < unat (m3_irq_counter c)"
  shows "irq_edges (unat (m3_irq_counter c)) c =
    (replicate (unat (m3_irq_counter c) - 1) False @ [True], c\<lparr>m3_irq_counter := 0, m3_irq_reload := False\<rparr>)"
  using assms
proof (induction "unat (m3_irq_counter c)" arbitrary: c)
  case 0
  then show ?case by simp
next
  case (Suc n)
  have nz: "m3_irq_counter c \<noteq> 0" using Suc.prems(3) by auto
  then have dec: "unat (m3_irq_counter c - 1) = n" using Suc.hyps(2) by (simp add: unat_minus_one)
  let ?d = "c\<lparr>m3_irq_counter := m3_irq_counter c - 1, m3_irq_reload := False\<rparr>"
  have step: "mmc3_clock_counter c = (n = 0, ?d)"
    using Suc.prems nz dec by (auto simp: mmc3_clock_counter_def Let_def unat_eq_0)
  show ?case
  proof (cases "n = 0")
    case True
    then have "m3_irq_counter c - 1 = 0" using dec by (simp add: unat_eq_0)
    then show ?thesis using True Suc.hyps(2) [symmetric] step by simp
  next
    case False
    have "irq_edges n ?d = (replicate (n - 1) False @ [True], ?d\<lparr>m3_irq_counter := 0, m3_irq_reload := False\<rparr>)"
      using Suc.hyps(1) [of ?d] Suc.prems dec False by simp
    then show ?thesis
      using False step Suc.hyps(2) [symmetric] by (cases n) simp_all
  qed
qed

text \<open>
  C10: with the IRQ enabled and a reload pending (or the counter at zero), the MMC3 requests an IRQ at
  the edge number \<open>N + 1\<close> and at no edge before, \<open>N\<close> the reload value; the counter is zero again, so that the
  period is \<open>N + 1\<close> edges. The one exception is the revision A of the chip: with \<open>N = 0\<close> it requests an IRQ only when a reload is
  pending.
\<close>

theorem mmc3_irq_period:
  assumes "m3_irq_enabled c" "m3_irq_reload c \<or> m3_irq_counter c = 0"
  shows "irq_edges (Suc (unat (m3_irq_reload_value c))) c =
    (replicate (unat (m3_irq_reload_value c)) False @
       [\<not> m3_force_mmc3_rev_a_irqs c \<or> 0 < m3_irq_reload_value c \<or> m3_irq_reload c],
     c\<lparr>m3_irq_counter := 0, m3_irq_reload := False\<rparr>)"
proof -
  let ?d = "c\<lparr>m3_irq_counter := m3_irq_reload_value c, m3_irq_reload := False\<rparr>"
  have step: "mmc3_clock_counter c = (m3_irq_reload_value c = 0 \<and> (\<not> m3_force_mmc3_rev_a_irqs c \<or> m3_irq_reload c), ?d)"
    using assms by (auto simp: mmc3_clock_counter_def Let_def)
  show ?thesis
  proof (cases "m3_irq_reload_value c = 0")
    case True
    then show ?thesis using step by simp
  next
    case False
    then have pos: "0 < unat (m3_irq_reload_value c)" "0 < m3_irq_reload_value c" by (simp_all add: unat_gt_0 word_gt_0)
    from irq_countdown [of ?d] assms pos
    have "irq_edges (unat (m3_irq_reload_value c)) ?d =
        (replicate (unat (m3_irq_reload_value c) - 1) False @ [True], ?d\<lparr>m3_irq_counter := 0, m3_irq_reload := False\<rparr>)"
      by simp
    with False step pos show ?thesis
      by (cases "unat (m3_irq_reload_value c)") simp_all
  qed
qed

lemma mmc3_irq_period_witness:
  "irq_edges 3 (mmc3_0\<lparr>m3_irq_enabled := True, m3_irq_reload := True, m3_irq_reload_value := 2\<rparr>) =
    ([False, False, True], mmc3_0\<lparr>m3_irq_enabled := True, m3_irq_reload_value := 2, m3_irq_counter := 0, m3_irq_reload := False\<rparr>)"
  using mmc3_irq_period [of "mmc3_0\<lparr>m3_irq_enabled := True, m3_irq_reload := True, m3_irq_reload_value := 2\<rparr>"]
  by (simp add: mmc3_0_def del: irq_edges.simps) (simp add: numeral_2_eq_2)

end
