(* ===== verification/Blip_Buf.thy ===== *)
theory Blip_Buf
  imports Prelude
begin

text \<open>
  The resampler \<^verbatim>\<open>blip_buf\<close> (\<^verbatim>\<open>third_party/blip_buf/blip_buf.c\<close>) that the sound mixer feeds:
  the operations the mixer and the saved states use, and the bounds that keep the mixer's
  calls inside its buffer.

  \<open>fixed_t\<close> has 64 bits, with 52 of them after the point. The C type \<^verbatim>\<open>int\<close> of the samples
  is a 32-bit word whose arithmetic wraps, as the machine's does; an \<^verbatim>\<open>assert\<close> that fails
  is \<open>None\<close>. \<open>avail\<close> is never negative.
\<close>

type_synonym i32 = "32 word"
type_synonym i16 = "16 word"

record blip =
  bl_factor :: u64
  bl_offset :: u64
  bl_avail :: nat
  bl_size :: nat
  bl_integrator :: i32
  bl_buffer :: "i32 list"

definition BUF_EXTRA :: nat where "BUF_EXTRA = 18"

definition bl_step :: "int list list" where
  "bl_step = [
     [43, -115, 350, -488, 1136, -914, 5861, 21022],
     [44, -118, 348, -473, 1076, -799, 5274, 21001],
     [45, -121, 344, -454, 1011, -677, 4706, 20936],
     [46, -122, 336, -431, 942, -549, 4156, 20829],
     [47, -123, 327, -404, 868, -418, 3629, 20679],
     [47, -122, 316, -375, 792, -285, 3124, 20488],
     [47, -120, 303, -344, 714, -151, 2644, 20256],
     [46, -117, 289, -310, 634, -17, 2188, 19985],
     [46, -114, 273, -275, 553, 117, 1758, 19675],
     [44, -108, 255, -237, 471, 247, 1356, 19327],
     [43, -103, 237, -199, 390, 373, 981, 18944],
     [42, -98, 218, -160, 310, 495, 633, 18527],
     [40, -91, 198, -121, 231, 611, 314, 18078],
     [38, -84, 178, -81, 153, 722, 22, 17599],
     [36, -76, 157, -43, 80, 824, -241, 17092],
     [34, -68, 135, -3, 8, 919, -476, 16558],
     [32, -61, 115, 34, -60, 1006, -683, 16001],
     [29, -52, 94, 70, -123, 1083, -862, 15422],
     [27, -44, 73, 106, -184, 1152, -1015, 14824],
     [25, -36, 53, 139, -239, 1211, -1142, 14210],
     [22, -27, 34, 170, -290, 1261, -1244, 13582],
     [20, -20, 16, 199, -335, 1301, -1322, 12942],
     [18, -12, -3, 226, -375, 1331, -1376, 12293],
     [15, -4, -19, 250, -410, 1351, -1408, 11638],
     [13, 3, -35, 272, -439, 1361, -1419, 10979],
     [11, 9, -49, 292, -464, 1362, -1410, 10319],
     [9, 16, -63, 309, -483, 1354, -1383, 9660],
     [7, 22, -75, 322, -496, 1337, -1339, 9005],
     [6, 26, -85, 333, -504, 1312, -1280, 8355],
     [4, 31, -94, 341, -507, 1278, -1205, 7713],
     [3, 35, -102, 347, -506, 1238, -1119, 7082],
     [1, 40, -110, 350, -499, 1190, -1021, 6464],
     [0, 43, -115, 350, -488, 1136, -914, 5861]]"

section \<open>Operations\<close>

definition blip_clear :: "blip \<Rightarrow> blip" where
  "blip_clear b = b\<lparr>bl_offset := drop_bit 1 (bl_factor b), bl_avail := 0, bl_integrator := 0,
     bl_buffer := replicate (bl_size b + BUF_EXTRA) 0\<rparr>"

definition blip_new :: "nat \<Rightarrow> blip" where
  "blip_new size_value = blip_clear \<lparr>bl_factor = push_bit 52 1 div 2 ^ 20, bl_offset = 0, bl_avail = 0,
     bl_size = size_value, bl_integrator = 0, bl_buffer = []\<rparr>"

text \<open>
  The quotient is computed in \<^verbatim>\<open>double\<close> and rounded up. For the two rates of the mixer the
  quotient is 0.055 above an integer and has a spacing of 1/32, so that the rounding of the
  division does not change the result.
\<close>

definition blip_set_rates :: "nat \<Rightarrow> nat \<Rightarrow> blip \<Rightarrow> blip" where
  "blip_set_rates clock_rate sample_rate b =
     b\<lparr>bl_factor := word_of_nat ((2 ^ 52 * sample_rate + clock_rate - 1) div clock_rate)\<rparr>"

definition blip_time :: "u32 \<Rightarrow> blip \<Rightarrow> u64" where
  "blip_time t b = ucast t * bl_factor b + bl_offset b"

definition blip_end_frame :: "u32 \<Rightarrow> blip \<Rightarrow> blip option" where
  "blip_end_frame t b =
     (let off = blip_time t b; avail = bl_avail b + unat (drop_bit 52 off) in
      if avail \<le> bl_size b
      then Some (b\<lparr>bl_avail := avail, bl_offset := off AND mask 52\<rparr>) else None)"

text \<open>
  The step table is one array: the eight entries after a row are the next row, the eight
  before it the previous one.
\<close>

definition bl_tap :: "nat \<Rightarrow> nat \<Rightarrow> i32" where
  "bl_tap row col = word_of_int (bl_step ! row ! col)"

definition delta_kernel :: "nat \<Rightarrow> i32 \<Rightarrow> i32 \<Rightarrow> i32 list" where
  "delta_kernel phase delta delta2 =
     map (\<lambda>k. bl_tap phase k * delta + bl_tap (phase + 1) k * delta2) [0 ..< 8] @
     map (\<lambda>k. bl_tap (32 - phase) k * delta + bl_tap (32 - phase - 1) k * delta2) (rev [0 ..< 8])"

definition add_kernel :: "nat \<Rightarrow> i32 list \<Rightarrow> i32 list \<Rightarrow> i32 list option" where
  "add_kernel at taps xs =
     copy_at at (map2 (+) (take (length taps) (drop at xs)) taps) xs"

definition blip_add_delta :: "u32 \<Rightarrow> int \<Rightarrow> blip \<Rightarrow> blip option" where
  "blip_add_delta time delta b =
     (let fixed = (ucast (drop_bit 32 (blip_time time b)) :: u32);
          out = bl_avail b + unat (drop_bit 20 fixed);
          phase = unat (drop_bit 15 fixed AND 31);
          interp = fixed AND 0x7FFF;
          delta2 = signed_drop_bit 15 (word_of_int delta * interp);
          rest = word_of_int delta - delta2
      in if out \<le> bl_size b + 2
         then map_option (\<lambda>xs. b\<lparr>bl_buffer := xs\<rparr>) (add_kernel out (delta_kernel phase rest delta2) (bl_buffer b))
         else None)"

text \<open>The loop over the samples: a high-pass filter around the running sum.\<close>

definition clamp_sample :: "i32 \<Rightarrow> i32" where
  "clamp_sample n = (if scast (ucast n :: i16) \<noteq> n then signed_drop_bit 16 n XOR 32767 else n)"

fun integrate :: "i32 list \<Rightarrow> i32 \<Rightarrow> i16 list \<times> i32" where
  "integrate [] sum_value = ([], sum_value)"
| "integrate (x # xs) sum_value =
     (let s = clamp_sample (signed_drop_bit 15 sum_value);
          (out, rest) = integrate xs (sum_value + x - push_bit 6 s)
      in (ucast s # out, rest))"

definition remove_samples :: "nat \<Rightarrow> blip \<Rightarrow> blip" where
  "remove_samples count b =
     (let remain = bl_avail b + BUF_EXTRA - count; buf = bl_buffer b in
      b\<lparr>bl_avail := bl_avail b - count,
        bl_buffer := take remain (drop count buf) @ replicate count 0 @ drop (remain + count) buf\<rparr>)"

definition blip_read_samples :: "nat \<Rightarrow> blip \<Rightarrow> i16 list \<times> blip" where
  "blip_read_samples count b =
     (let n = min count (bl_avail b);
          (out, s) = integrate (take n (bl_buffer b)) (bl_integrator b)
      in if n = 0 then ([], b) else (out, remove_samples n (b\<lparr>bl_integrator := s\<rparr>)))"

definition blip_restore_state :: "u64 \<Rightarrow> u64 \<Rightarrow> int \<Rightarrow> i32 \<Rightarrow> i32 list \<Rightarrow> int \<Rightarrow> blip \<Rightarrow> blip option" where
  "blip_restore_state factor offset avail integrator buffer buffer_count b =
     (if factor = 0 \<or> avail < 0 \<or> avail > int (bl_size b) \<or> buffer_count \<noteq> int (bl_size b + BUF_EXTRA)
      then None
      else Some (b\<lparr>bl_factor := factor, bl_offset := offset, bl_avail := nat avail,
                   bl_integrator := integrator, bl_buffer := buffer\<rparr>))"

section \<open>Bounds\<close>

text \<open>The factor for the clock of the CPU and 96 kHz; the mixer's buffer between two frames.\<close>

definition BLIP_FACTOR :: nat where "BLIP_FACTOR = 241564468917326"

definition blip_ok :: "blip \<Rightarrow> bool" where
  "blip_ok b \<longleftrightarrow> bl_factor b = word_of_nat BLIP_FACTOR \<and> unat (bl_offset b) < 2 ^ 52 \<and>
     length (bl_buffer b) = bl_size b + BUF_EXTRA"

lemma set_rates_factor: "bl_factor (blip_set_rates 1789773 96000 b) = word_of_nat BLIP_FACTOR"
  by (simp add: blip_set_rates_def BLIP_FACTOR_def)

lemma unat_blip_time:
  assumes "blip_ok b" "unat t < 10000"
  shows "unat (blip_time t b) = unat t * BLIP_FACTOR + unat (bl_offset b)"
    and "unat (blip_time t b) div 2 ^ 52 \<le> 537"
proof -
  have m: "unat t * BLIP_FACTOR \<le> 9999 * BLIP_FACTOR" using assms(2) by simp
  then have s: "unat t * BLIP_FACTOR + unat (bl_offset b) < 538 * 2 ^ 52"
    using assms(1) by (simp add: blip_ok_def BLIP_FACTOR_def)
  have u: "unat (ucast t :: u64) = unat t"
    using assms(2) by (simp add: unsigned_ucast_eq take_bit_nat_eq_self)
  have "unat (ucast t * bl_factor b :: u64) = unat t * BLIP_FACTOR"
    using m assms(1) by (simp add: blip_ok_def BLIP_FACTOR_def unat_word_ariths u)
  then show e: "unat (blip_time t b) = unat t * BLIP_FACTOR + unat (bl_offset b)"
    using s by (simp add: blip_time_def unat_word_ariths)
  show "unat (blip_time t b) div 2 ^ 52 \<le> 537"
    using less_mult_imp_div_less [OF s] by (simp only: e)
qed

lemma blip_clear_ok: "bl_factor b = word_of_nat BLIP_FACTOR \<Longrightarrow> blip_ok (blip_clear b)"
  by (simp add: blip_ok_def blip_clear_def BLIP_FACTOR_def)

lemma blip_end_frame_ok:
  assumes "blip_ok b" "unat t < 10000" "bl_avail b + 537 \<le> bl_size b"
  shows "ok (blip_end_frame t b) (\<lambda>b'. blip_ok b' \<and> bl_size b' = bl_size b \<and>
    bl_avail b' = bl_avail b + (unat t * BLIP_FACTOR + unat (bl_offset b)) div 2 ^ 52 \<and>
    unat (bl_offset b') = (unat t * BLIP_FACTOR + unat (bl_offset b)) mod 2 ^ 52)"
proof -
  note t = unat_blip_time [OF assms(1,2)]
  have d: "unat (drop_bit 52 (blip_time t b)) = (unat t * BLIP_FACTOR + unat (bl_offset b)) div 2 ^ 52"
    by (simp only: unat_shift_right t(1))
  have o: "unat (blip_time t b AND mask 52) = (unat t * BLIP_FACTOR + unat (bl_offset b)) mod 2 ^ 52"
    by (simp only: take_bit_eq_mask [symmetric] unsigned_take_bit_eq t(1)) (simp only: take_bit_nat_def)
  have "(unat t * BLIP_FACTOR + unat (bl_offset b)) div 2 ^ 52 \<le> 537" using t by simp
  with assms(1,3) show ?thesis
    by (simp add: blip_end_frame_def Let_def d o blip_ok_def)
qed

lemma length_delta_kernel [simp]: "length (delta_kernel phase delta delta2) = 16"
  by (simp add: delta_kernel_def)

lemma blip_add_delta_ok:
  assumes "blip_ok b" "unat t < 10000" "bl_avail b + 537 \<le> bl_size b"
  shows "ok (blip_add_delta t delta b) (\<lambda>b'. blip_ok b' \<and> bl_size b' = bl_size b \<and>
    bl_avail b' = bl_avail b \<and> bl_offset b' = bl_offset b)"
proof -
  let ?fixed = "ucast (drop_bit 32 (blip_time t b)) :: u32"
  have "unat ?fixed \<le> unat (blip_time t b) div 2 ^ 32"
    by (simp only: unsigned_ucast_eq take_bit_nat_less_eq_self unat_shift_right)
  then have "unat (drop_bit 20 ?fixed) \<le> unat (blip_time t b) div 2 ^ 32 div 2 ^ 20"
    unfolding unat_shift_right by (rule div_le_mono)
  also have "\<dots> \<le> 537" using unat_blip_time(2) [OF assms(1,2)] by (simp add: div_mult2_eq [symmetric])
  finally have "bl_avail b + unat (drop_bit 20 ?fixed) \<le> bl_size b" using assms(3) by linarith
  with assms(1) show ?thesis
    by (auto simp: blip_add_delta_def Let_def add_kernel_def blip_ok_def BUF_EXTRA_def)
qed

lemma length_integrate: "length (fst (integrate xs s)) = length xs"
  by (induction xs s rule: integrate.induct) (auto simp: Let_def split: prod.splits)

lemma blip_read_samples_ok:
  assumes "blip_read_samples n b = (out, b')" "blip_ok b" "bl_avail b \<le> bl_size b"
  shows "length out = min n (bl_avail b)" "blip_ok b'" "bl_size b' = bl_size b"
    "bl_avail b' = bl_avail b - n" "bl_offset b' = bl_offset b"
  using assms length_integrate [of "take (min n (bl_avail b)) (bl_buffer b)" "bl_integrator b"]
  by (auto simp: blip_read_samples_def Let_def remove_samples_def blip_ok_def BUF_EXTRA_def
      split: prod.splits if_splits)

end
