(* ===== verification/Sound_Mixer.thy ===== *)
theory Sound_Mixer
  imports Nes_Types Blip_Buf
begin

text \<open>
  \<^verbatim>\<open>NesSoundMixer\<close> (\<^verbatim>\<open>src/systems/nes/audio/nes_sound_mixer.cpp\<close>). One thing is a
  parameter, the member of \<open>audio_env\<close>: the floating-point mixing formula of
  \<^verbatim>\<open>get_output_volume\<close>, up to the conversion to \<open>int\<close>. The resampler is that of the
  theory \<open>Blip_Buf\<close>.
\<close>

record audio_env =
  env_mix :: "i16 list \<Rightarrow> int"

definition CYCLE_LENGTH :: nat where "CYCLE_LENGTH = 10000"
definition MAX_SAMPLES_PER_FRAME :: nat where "MAX_SAMPLES_PER_FRAME = 96000 div 60 * 4"

record mixer =
  mx_previous_output_left :: int
  mx_timestamps :: "u32 list"
  mx_channel_output :: "nat \<Rightarrow> nat \<Rightarrow> i16"
  mx_current_output :: "i16 list"
  mx_initialized :: bool
  mx_clock_rate :: u32
  mx_blip :: blip
  mx_output_buffer :: "i16 list"
  mx_sample_count :: nat

definition mixer_reset :: "mixer \<Rightarrow> mixer" where
  "mixer_reset mx = mx\<lparr>mx_sample_count := 0, mx_previous_output_left := 0, mx_initialized := False,
     mx_blip := blip_set_rates 1789773 96000 (blip_clear (mx_blip mx)), mx_timestamps := [],
     mx_channel_output := (\<lambda>_ _. 0), mx_current_output := replicate 11 0, mx_clock_rate := 1789773\<rparr>"

text \<open>The constructor. The output buffer is uninitialised in C++; here it holds zeros.\<close>

definition new_mixer :: mixer where
  "new_mixer = mixer_reset \<lparr>mx_previous_output_left = 0, mx_timestamps = [],
     mx_channel_output = (\<lambda>_ _. 0), mx_current_output = replicate 11 0, mx_initialized = False, mx_clock_rate = 0,
     mx_blip = blip_new MAX_SAMPLES_PER_FRAME, mx_output_buffer = replicate (MAX_SAMPLES_PER_FRAME * 2) 0, mx_sample_count = 0\<rparr>"

text \<open>\<^verbatim>\<open>channel_output_[channel][time] += delta\<close> is undefined past the end of the row.\<close>

definition add_delta :: "audio_channel \<Rightarrow> u32 \<Rightarrow> i16 \<Rightarrow> mixer \<Rightarrow> mixer option" where
  "add_delta channel time delta mx =
     (if delta = 0 then Some mx
      else if unat time < CYCLE_LENGTH then
        let j = channel_index channel; t = unat time; out = mx_channel_output mx in
        Some (mx\<lparr>mx_timestamps := mx_timestamps mx @ [time],
                 mx_channel_output := out(j := (out j)(t := out j t + delta))\<rparr>)
      else None)"

text \<open>The clamping of \<^verbatim>\<open>get_output_volume\<close>.\<close>

definition get_output_volume :: "audio_env \<Rightarrow> mixer \<Rightarrow> int" where
  "get_output_volume E mx =
     (let result = env_mix E (mx_current_output mx)
      in if result > 32767 then 32767 else if result < - 32768 then - 32768 else result)"

text \<open>\<^verbatim>\<open>current_output_[j] += channel_output_[j][stamp]\<close> for every channel.\<close>

definition accumulate :: "u32 \<Rightarrow> mixer \<Rightarrow> mixer option" where
  "accumulate stamp mx =
     (if unat stamp < CYCLE_LENGTH then
        Some (mx\<lparr>mx_current_output := map (\<lambda>(j, c). c + mx_channel_output mx j (unat stamp))
                 (enumerate 0 (mx_current_output mx))\<rparr>)
      else None)"

definition clear_frame :: "mixer \<Rightarrow> mixer" where
  "clear_frame mx = mx\<lparr>mx_timestamps := [], mx_channel_output := (\<lambda>_ _. 0)\<rparr>"

definition on_blip :: "(blip \<Rightarrow> blip option) \<Rightarrow> mixer \<Rightarrow> mixer option" where
  "on_blip f mx = map_option (\<lambda>b. mx\<lparr>mx_blip := b\<rparr>) (f (mx_blip mx))"

definition emit_stamp :: "audio_env \<Rightarrow> u32 \<Rightarrow> mixer \<Rightarrow> mixer option" where
  "emit_stamp E stamp mx = do {
     mx \<leftarrow> accumulate stamp mx;
     let current_output = get_output_volume E mx * 4;
     let delta = current_output - mx_previous_output_left mx;
     mx \<leftarrow> (if delta \<noteq> 0 then on_blip (blip_add_delta stamp delta) mx else Some mx);
     Some (mx\<lparr>mx_previous_output_left := current_output\<rparr>) }"

definition mixer_end_frame :: "audio_env \<Rightarrow> u32 \<Rightarrow> mixer \<Rightarrow> mixer option" where
  "mixer_end_frame E time mx =
     (if mx_timestamps mx = [] then on_blip (blip_end_frame time) mx
      else
        let stamps = remdups_adj (sort (mx_timestamps mx));
            mx = mx\<lparr>mx_timestamps := stamps\<rparr>
        in if \<not> mx_initialized mx then do {
             mx \<leftarrow> for_each accumulate stamps mx;
             let mx = mx\<lparr>mx_previous_output_left := get_output_volume E mx * 4,
                         mx_initialized := True\<rparr>;
             on_blip (blip_end_frame time) (clear_frame mx) }
           else do {
             mx \<leftarrow> for_each (emit_stamp E) stamps mx;
             map_option clear_frame (on_blip (blip_end_frame time) mx) })"

fun stereo :: "i16 list \<Rightarrow> i16 list" where
  "stereo [] = []"
| "stereo (x # xs) = x # x # stereo xs"

definition play_audio_buffer :: "audio_env \<Rightarrow> u32 \<Rightarrow> mixer \<Rightarrow> mixer option" where
  "play_audio_buffer E time mx = do {
     mx \<leftarrow> mixer_end_frame E time mx;
     let remaining = min ((length (mx_output_buffer mx) - mx_sample_count mx * 2) div 2)
                         MAX_SAMPLES_PER_FRAME;
     let (samples, b) = blip_read_samples remaining (mx_blip mx);
     out \<leftarrow> copy_at (mx_sample_count mx * 2) (stereo samples) (mx_output_buffer mx);
     Some (mx\<lparr>mx_blip := b, mx_output_buffer := out,
              mx_sample_count := mx_sample_count mx + length samples\<rparr>) }"

definition consume_samples :: "nat \<Rightarrow> mixer \<Rightarrow> mixer option" where
  "consume_samples count mx =
     (if count \<ge> mx_sample_count mx then Some (mx\<lparr>mx_sample_count := 0\<rparr>)
      else let remaining = mx_sample_count mx - count in
        map_option (\<lambda>out. mx\<lparr>mx_output_buffer := out, mx_sample_count := remaining\<rparr>)
          (copy_at 0 (take (remaining * 2) (drop (count * 2) (mx_output_buffer mx)))
             (mx_output_buffer mx)))"

section \<open>The invariant\<close>

text \<open>
  At most \<open>a\<close> samples wait in the resampler and at most \<open>n\<close> in the output buffer. Both are
  empty except while an audio frame ends.
\<close>

definition mixer_at :: "nat \<Rightarrow> nat \<Rightarrow> mixer \<Rightarrow> bool" where
  "mixer_at a n mx \<longleftrightarrow> (\<forall>t \<in> set (mx_timestamps mx). unat t < CYCLE_LENGTH) \<and>
     length (mx_current_output mx) = 11 \<and>
     length (mx_output_buffer mx) = MAX_SAMPLES_PER_FRAME * 2 \<and>
     mx_sample_count mx \<le> n \<and> blip_ok (mx_blip mx) \<and>
     bl_size (mx_blip mx) = MAX_SAMPLES_PER_FRAME \<and> bl_avail (mx_blip mx) \<le> a"

definition mixer_ok :: "mixer \<Rightarrow> bool" where
  "mixer_ok mx \<longleftrightarrow> mixer_at 0 0 mx"

lemma mixer_reset_ok:
  assumes "length (mx_output_buffer mx) = MAX_SAMPLES_PER_FRAME * 2"
    "bl_size (mx_blip mx) = MAX_SAMPLES_PER_FRAME" "unat (bl_factor (mx_blip mx)) < 2 ^ 52"
  shows "mixer_ok (mixer_reset mx)"
proof -
  have "unat (drop_bit 1 (bl_factor (mx_blip mx))) < 2 ^ 52"
    unfolding unat_shift_right by (rule le_less_trans [OF div_le_dividend assms(3)])
  with assms show ?thesis
    using set_rates_factor [of "blip_clear (mx_blip mx)"]
    by (simp add: mixer_ok_def mixer_at_def mixer_reset_def blip_ok_def blip_clear_def
        blip_set_rates_def del: of_nat_numeral)
qed

lemma mixer_reset_again: "mixer_ok mx \<Longrightarrow> mixer_ok (mixer_reset mx)"
  by (rule mixer_reset_ok) (simp_all add: mixer_ok_def mixer_at_def blip_ok_def BLIP_FACTOR_def)

lemma new_mixer_ok: "mixer_ok new_mixer"
  unfolding new_mixer_def by (rule mixer_reset_ok) (simp_all add: blip_new_def blip_clear_def)

lemma mixer_at_upd [simp]:
  "mixer_at a n (mx\<lparr>mx_previous_output_left := v\<rparr>) = mixer_at a n mx"
  "mixer_at a n (mx\<lparr>mx_initialized := i\<rparr>) = mixer_at a n mx"
  "mixer_at a n (mx\<lparr>mx_channel_output := c\<rparr>) = mixer_at a n mx"
  by (simp_all add: mixer_at_def)

lemma add_delta_ok:
  "mixer_ok mx \<Longrightarrow> delta = 0 \<or> unat time < CYCLE_LENGTH \<Longrightarrow> ok (add_delta channel time delta mx) mixer_ok"
  by (auto simp: add_delta_def mixer_ok_def mixer_at_def Let_def)

lemma length_stereo [simp]: "length (stereo xs) = 2 * length xs"
  by (induction xs rule: stereo.induct) simp_all

lemma accumulate_ok: "mixer_at a n mx \<Longrightarrow> unat stamp < CYCLE_LENGTH \<Longrightarrow> ok (accumulate stamp mx) (mixer_at a n)"
  by (simp add: accumulate_def mixer_at_def)

text \<open>Room for one frame's samples: the buffer of the resampler takes 6400.\<close>

lemma on_blip_add:
  assumes "mixer_at 0 n mx" "unat t < CYCLE_LENGTH"
  shows "ok (on_blip (blip_add_delta t d) mx) (mixer_at 0 n)"
  unfolding on_blip_def ok_map_option
  using assms by (intro ok_mono [OF blip_add_delta_ok])
    (auto simp: mixer_at_def CYCLE_LENGTH_def MAX_SAMPLES_PER_FRAME_def)

lemma on_blip_end:
  assumes "mixer_at 0 n mx" "unat t < CYCLE_LENGTH"
  shows "ok (on_blip (blip_end_frame t) mx) (mixer_at 537 n)"
  unfolding on_blip_def ok_map_option
proof (rule ok_mono [OF blip_end_frame_ok])
  fix b assume "blip_ok b \<and> bl_size b = bl_size (mx_blip mx) \<and>
    bl_avail b = bl_avail (mx_blip mx) + (unat t * BLIP_FACTOR + unat (bl_offset (mx_blip mx))) div 2 ^ 52 \<and>
    unat (bl_offset b) = (unat t * BLIP_FACTOR + unat (bl_offset (mx_blip mx))) mod 2 ^ 52"
  moreover have "(unat t * BLIP_FACTOR + unat (bl_offset (mx_blip mx))) div 2 ^ 52 \<le> 537"
    using assms unat_blip_time [of "mx_blip mx" t] by (simp add: mixer_at_def CYCLE_LENGTH_def)
  ultimately show "mixer_at 537 n (mx\<lparr>mx_blip := b\<rparr>)" using assms(1) by (simp add: mixer_at_def)
qed (use assms in \<open>auto simp: mixer_at_def CYCLE_LENGTH_def MAX_SAMPLES_PER_FRAME_def\<close>)

lemma clear_frame_ok: "mixer_at a n mx \<Longrightarrow> mixer_at a n (clear_frame mx)"
  by (simp add: clear_frame_def mixer_at_def)

lemma emit_stamp_ok:
  assumes "mixer_at 0 n mx" "unat t < CYCLE_LENGTH"
  shows "ok (emit_stamp E t mx) (mixer_at 0 n)"
  unfolding emit_stamp_def Let_def ok_bind
  by (rule ok_mono [OF accumulate_ok [OF assms]])
    (auto intro: ok_mono [OF on_blip_add [OF _ assms(2)]])

lemma mixer_end_frame_ok:
  assumes "mixer_at 0 n mx" "unat time < CYCLE_LENGTH"
  shows "ok (mixer_end_frame E time mx) (mixer_at 537 n)"
proof -
  let ?stamps = "remdups_adj (sort (mx_timestamps mx))"
  let ?m0 = "mx\<lparr>mx_timestamps := ?stamps\<rparr>"
  have inr: "unat t < CYCLE_LENGTH" if "t \<in> set ?stamps" for t
    using assms that by (simp add: mixer_at_def)
  have m0: "mixer_at 0 n ?m0" using assms by (simp add: mixer_at_def)
  have acc: "ok (for_each accumulate ?stamps ?m0) (mixer_at 0 n)"
    by (intro for_each_ok m0 accumulate_ok inr)
  have emit: "ok (for_each (emit_stamp E) ?stamps ?m0) (mixer_at 0 n)"
    by (intro for_each_ok m0 emit_stamp_ok inr)
  show ?thesis
    unfolding mixer_end_frame_def Let_def
    using assms by (auto intro!: on_blip_end clear_frame_ok ok_mono [OF acc] ok_mono [OF emit]
        ok_mono [OF on_blip_end])
qed

text \<open>Playing a frame drains the resampler.\<close>

lemma play_audio_buffer_ok:
  assumes "mixer_ok mx" "unat time < CYCLE_LENGTH"
  shows "ok (play_audio_buffer E time mx) (mixer_at 0 537)"
  unfolding play_audio_buffer_def Let_def ok_bind
proof (rule ok_mono [OF mixer_end_frame_ok])
  fix m :: mixer
  let ?n = "min ((length (mx_output_buffer m) - mx_sample_count m * 2) div 2) MAX_SAMPLES_PER_FRAME"
  assume m: "mixer_at 537 0 m"
  then have n: "?n = MAX_SAMPLES_PER_FRAME" "bl_avail (mx_blip m) \<le> 537" by (simp_all add: mixer_at_def)
  obtain out b where r: "blip_read_samples ?n (mx_blip m) = (out, b)"
    by (cases "blip_read_samples ?n (mx_blip m)")
  from m have "blip_ok (mx_blip m)" "bl_avail (mx_blip m) \<le> bl_size (mx_blip m)"
    by (simp_all add: mixer_at_def MAX_SAMPLES_PER_FRAME_def)
  note rs = blip_read_samples_ok [OF r this]
  with n have "length out \<le> 537" "bl_avail b = 0" by (simp_all add: MAX_SAMPLES_PER_FRAME_def)
  with m rs r show "ok (case blip_read_samples ?n (mx_blip m) of (samples, b) \<Rightarrow>
      copy_at (mx_sample_count m * 2) (stereo samples) (mx_output_buffer m) \<bind> (\<lambda>out. Some (m\<lparr>mx_blip := b,
        mx_output_buffer := out, mx_sample_count := mx_sample_count m + length samples\<rparr>))) (mixer_at 0 537)"
    by (simp add: mixer_at_def MAX_SAMPLES_PER_FRAME_def)
qed (use assms in \<open>simp_all add: mixer_ok_def\<close>)

lemma consume_samples_ok: "mixer_at a n mx \<Longrightarrow> ok (consume_samples c mx) (mixer_at a n)"
  by (auto simp: consume_samples_def mixer_at_def Let_def)

lemma consume_all_ok: "mixer_at 0 n mx \<Longrightarrow> ok (consume_samples (mx_sample_count mx) mx) mixer_ok"
  by (simp add: consume_samples_def mixer_ok_def mixer_at_def)

end
