(* ===== verification/Apu_Units.thy ===== *)
theory Apu_Units
  imports Sound_Mixer
begin

text \<open>
  The units the sound channels are made of: \<^verbatim>\<open>ApuTimer\<close>, \<^verbatim>\<open>ApuLengthCounter\<close> and
  \<^verbatim>\<open>ApuEnvelope\<close> (\<^verbatim>\<open>src/systems/nes/audio/apu_timer.h\<close>, \<^verbatim>\<open>apu_length_counter.h\<close> and
  \<^verbatim>\<open>apu_envelope.h\<close>). The mixer pointer of a timer is always set in the program, so that
  outputs go to the mixer passed along. \<^verbatim>\<open>apu_->set_need_to_run()\<close> is reported to the
  caller as a bool.
\<close>

section \<open>Timer\<close>

record apu_timer =
  tm_previous_cycle :: u32
  tm_timer :: u16
  tm_period :: u16
  tm_last_output :: u8
  tm_channel :: audio_channel

definition timer_reset :: "apu_timer \<Rightarrow> apu_timer" where
  "timer_reset t = t\<lparr>tm_timer := 0, tm_period := 0, tm_previous_cycle := 0, tm_last_output := 0\<rparr>"

definition new_timer :: "audio_channel \<Rightarrow> apu_timer" where
  "new_timer channel = \<lparr>tm_previous_cycle = 0, tm_timer = 0, tm_period = 0, tm_last_output = 0,
     tm_channel = channel\<rparr>"

text \<open>\<open>output\<close> and \<open>last_output_\<close> are \<^verbatim>\<open>int8_t\<close>; their difference is sign-extended.\<close>

definition add_output :: "u8 \<Rightarrow> apu_timer \<times> mixer \<Rightarrow> (apu_timer \<times> mixer) option" where
  "add_output output s = (case s of (t, mx) \<Rightarrow>
     if output \<noteq> tm_last_output t then do {
       mx \<leftarrow> add_delta (tm_channel t) (tm_previous_cycle t)
              (scast output - scast (tm_last_output t)) mx;
       Some (t\<lparr>tm_last_output := output\<rparr>, mx) }
     else Some (t, mx))"

definition timer_run :: "u32 \<Rightarrow> apu_timer \<Rightarrow> bool \<times> apu_timer" where
  "timer_run target_cycle t =
     (let cycles_to_run = target_cycle - tm_previous_cycle t
      in if sint cycles_to_run > int (unat (tm_timer t))
         then (True, t\<lparr>tm_previous_cycle := tm_previous_cycle t + ucast (tm_timer t) + 1,
                       tm_timer := tm_period t\<rparr>)
         else (False, t\<lparr>tm_timer := tm_timer t - ucast cycles_to_run,
                        tm_previous_cycle := target_cycle\<rparr>))"

definition timer_end_frame :: "apu_timer \<Rightarrow> apu_timer" where
  "timer_end_frame t = t\<lparr>tm_previous_cycle := 0\<rparr>"

section \<open>Length counter\<close>

definition LENGTH_TABLE :: "u8 list" where
  "LENGTH_TABLE = [
     10, 254, 20, 2, 40, 4, 80, 6, 160, 8, 60, 10, 14, 12, 26, 14,
     12, 16, 24, 18, 48, 20, 96, 22, 192, 24, 72, 26, 16, 28, 32, 30]"

record length_counter =
  lc_channel :: audio_channel
  lc_new_halt_value :: bool
  lc_enabled :: bool
  lc_halt :: bool
  lc_counter :: u8
  lc_reload_value :: u8
  lc_previous_value :: u8

definition new_length_counter :: "audio_channel \<Rightarrow> length_counter" where
  "new_length_counter channel = \<lparr>lc_channel = channel, lc_new_halt_value = False, lc_enabled = False,
     lc_halt = False, lc_counter = 0, lc_reload_value = 0, lc_previous_value = 0\<rparr>"

definition initialize_length_counter :: "bool \<Rightarrow> length_counter \<Rightarrow> length_counter" where
  "initialize_length_counter halt_flag l = l\<lparr>lc_new_halt_value := halt_flag\<rparr>"

text \<open>The bool is true when the APU is asked to run.\<close>

definition load_length_counter :: "u8 \<Rightarrow> length_counter \<Rightarrow> (bool \<times> length_counter) option" where
  "load_length_counter val l =
     (if lc_enabled l then do {
        r \<leftarrow> rd LENGTH_TABLE (unat val);
        Some (True, l\<lparr>lc_reload_value := r, lc_previous_value := lc_counter l\<rparr>) }
      else Some (False, l))"

definition lc_is_active :: "length_counter \<Rightarrow> bool" where
  "lc_is_active l \<longleftrightarrow> lc_counter l > 0"

definition reload_counter :: "length_counter \<Rightarrow> length_counter" where
  "reload_counter l =
     (let l1 = (if lc_reload_value l \<noteq> 0
                then (if lc_counter l = lc_previous_value l
                      then l\<lparr>lc_counter := lc_reload_value l\<rparr> else l)\<lparr>lc_reload_value := 0\<rparr>
                else l)
      in l1\<lparr>lc_halt := lc_new_halt_value l1\<rparr>)"

definition tick_length_counter :: "length_counter \<Rightarrow> length_counter" where
  "tick_length_counter l =
     (if lc_counter l > 0 \<and> \<not> lc_halt l then l\<lparr>lc_counter := lc_counter l - 1\<rparr> else l)"

definition lc_set_enabled :: "bool \<Rightarrow> length_counter \<Rightarrow> length_counter" where
  "lc_set_enabled enabled l =
     (if enabled then l else l\<lparr>lc_counter := 0\<rparr>)\<lparr>lc_enabled := enabled\<rparr>"

definition lc_reset :: "bool \<Rightarrow> length_counter \<Rightarrow> length_counter" where
  "lc_reset soft_reset l =
     (if soft_reset \<and> lc_channel l = TRIANGLE then l\<lparr>lc_enabled := False\<rparr>
      else l\<lparr>lc_enabled := False, lc_halt := False, lc_counter := 0, lc_new_halt_value := False,
             lc_reload_value := 0, lc_previous_value := 0\<rparr>)"

section \<open>Envelope\<close>

text \<open>\<open>divider_\<close> is an \<^verbatim>\<open>int8_t\<close>.\<close>

record envelope =
  en_length_counter :: length_counter
  en_constant_volume :: bool
  en_volume :: u8
  en_start :: bool
  en_divider :: u8
  en_counter :: u8

definition new_envelope :: "audio_channel \<Rightarrow> envelope" where
  "new_envelope channel = \<lparr>en_length_counter = new_length_counter channel, en_constant_volume = False,
     en_volume = 0, en_start = False, en_divider = 0, en_counter = 0\<rparr>"

definition initialize_envelope :: "u8 \<Rightarrow> envelope \<Rightarrow> envelope" where
  "initialize_envelope reg_value e =
     e\<lparr>en_length_counter := initialize_length_counter (reg_value AND 0x20 = 0x20) (en_length_counter e),
       en_constant_volume := reg_value AND 0x10 = 0x10,
       en_volume := reg_value AND 0x0F\<rparr>"

definition reset_envelope :: "envelope \<Rightarrow> envelope" where
  "reset_envelope e = e\<lparr>en_start := True\<rparr>"

definition get_volume :: "envelope \<Rightarrow> u32" where
  "get_volume e =
     (if lc_is_active (en_length_counter e)
      then if en_constant_volume e then ucast (en_volume e) else ucast (en_counter e)
      else 0)"

definition env_reset :: "bool \<Rightarrow> envelope \<Rightarrow> envelope" where
  "env_reset soft_reset e =
     e\<lparr>en_length_counter := lc_reset soft_reset (en_length_counter e), en_constant_volume := False,
       en_volume := 0, en_start := False, en_divider := 0, en_counter := 0\<rparr>"

definition tick_envelope :: "envelope \<Rightarrow> envelope" where
  "tick_envelope e =
     (if \<not> en_start e then
        let e1 = e\<lparr>en_divider := en_divider e - 1\<rparr> in
        if sint (en_divider e1) < 0 then
          let e2 = e1\<lparr>en_divider := en_volume e1\<rparr> in
          if en_counter e2 > 0 then e2\<lparr>en_counter := en_counter e2 - 1\<rparr>
          else if lc_halt (en_length_counter e2) then e2\<lparr>en_counter := 15\<rparr>
          else e2
        else e1
      else e\<lparr>en_start := False, en_counter := 15, en_divider := en_volume e\<rparr>)"

section \<open>The timer advances to its target\<close>

lemma unat_diff_le: "a \<le> b \<Longrightarrow> unat (b - a) = unat b - unat (a :: 'a::len word)"
  by (simp add: unat_sub word_le_nat_alt)

text \<open>
  On targets below \<^verbatim>\<open>CYCLE_LENGTH\<close> (any bound below \<open>2 ^ 31\<close> would do) a call either
  fires and moves towards the target, or reaches it.
\<close>

lemma sint_small32: "unat (w :: u32) < 2 ^ 31 \<Longrightarrow> sint w = int (unat w)"
proof -
  assume "unat w < 2 ^ 31"
  then have "int (unat w) < int (2 ^ 31)" by (simp only: of_nat_less_iff)
  then have "uint w < 2 ^ 31" by simp
  then have "signed_take_bit 31 (uint w) = uint w"
    by (intro signed_take_bit_int_eq_self) (simp_all add: order_trans [OF _ uint_ge_0])
  then show ?thesis by (simp add: sint_uint)
qed

lemma timer_run_nat:
  assumes "tm_previous_cycle t \<le> target" "unat target < 2 ^ 31"
  shows "timer_run target t =
    (if unat (tm_timer t) < unat target - unat (tm_previous_cycle t)
     then (True, t\<lparr>tm_previous_cycle := tm_previous_cycle t + ucast (tm_timer t) + 1,
                   tm_timer := tm_period t\<rparr>)
     else (False, t\<lparr>tm_timer := tm_timer t - ucast (target - tm_previous_cycle t),
                    tm_previous_cycle := target\<rparr>))"
proof -
  have "unat (target - tm_previous_cycle t) = unat target - unat (tm_previous_cycle t)"
    using assms(1) by (rule unat_diff_le)
  moreover from this have "unat (target - tm_previous_cycle t) < 2 ^ 31" using assms(2) by simp
  ultimately have "sint (target - tm_previous_cycle t) = int (unat target - unat (tm_previous_cycle t))"
    by (simp only: sint_small32)
  then show ?thesis
    unfolding timer_run_def Let_def by (simp only: of_nat_less_iff)
qed

lemma timer_run_fires:
  assumes "timer_run target t = (True, t')" "tm_previous_cycle t \<le> target" "unat target < 2 ^ 31"
  shows "tm_previous_cycle t < tm_previous_cycle t'" "tm_previous_cycle t' \<le> target"
    "tm_timer t' = tm_period t" "tm_period t' = tm_period t" "tm_last_output t' = tm_last_output t"
    "tm_channel t' = tm_channel t"
    "unat (tm_previous_cycle t') = unat (tm_previous_cycle t) + unat (tm_timer t) + 1"
proof -
  have lt: "unat (tm_timer t) < unat target - unat (tm_previous_cycle t)"
    and t': "t' = t\<lparr>tm_previous_cycle := tm_previous_cycle t + ucast (tm_timer t) + 1, tm_timer := tm_period t\<rparr>"
    using assms(1) unfolding timer_run_nat [OF assms(2,3)] by (auto split: if_splits)
  have u: "unat (ucast (tm_timer t) :: u32) = unat (tm_timer t)"
    using unsigned_less [where 'a = nat, of "tm_timer t"]
    by (simp add: unsigned_ucast_eq take_bit_nat_eq_self)
  show eq: "unat (tm_previous_cycle t') = unat (tm_previous_cycle t) + unat (tm_timer t) + 1"
    using lt assms(3) by (simp add: t' unat_word_ariths u)
  from eq lt show "tm_previous_cycle t < tm_previous_cycle t'" "tm_previous_cycle t' \<le> target"
    by (simp_all add: word_less_nat_alt word_le_nat_alt)
qed (use assms in \<open>auto simp: timer_run_def Let_def split: if_splits\<close>)

lemma timer_run_stops:
  assumes "timer_run target t = (False, t')"
  shows "tm_previous_cycle t' = target" "tm_period t' = tm_period t"
    "tm_last_output t' = tm_last_output t" "tm_channel t' = tm_channel t"
  using assms by (auto simp: timer_run_def Let_def split: if_splits)

lemma add_output_ok:
  assumes "mixer_ok mx" "unat (tm_previous_cycle t) < CYCLE_LENGTH"
  shows "ok (add_output v (t, mx)) (\<lambda>(t', mx'). mixer_ok mx' \<and> t' = t\<lparr>tm_last_output := v\<rparr>)"
  using assms by (auto simp: add_output_def intro!: ok_mono [OF add_delta_ok])

section \<open>Bounds\<close>

lemma LENGTH_TABLE_length [simp]: "length LENGTH_TABLE = 32"
  by (simp add: LENGTH_TABLE_def)

lemma load_length_counter_ok: "unat v < 32 \<Longrightarrow> ok (load_length_counter v l) (\<lambda>_. True)"
  by (simp add: load_length_counter_def)

text \<open>The volume register and the counter of an envelope stay below 16.\<close>

definition env_ok :: "envelope \<Rightarrow> bool" where
  "env_ok e \<longleftrightarrow> en_volume e \<le> 15 \<and> en_counter e \<le> 15"

lemma env_ok_ops [simp]:
  "env_ok (new_envelope ch)"
  "env_ok e \<Longrightarrow> env_ok (initialize_envelope v e)"
  "env_ok e \<Longrightarrow> env_ok (reset_envelope e)"
  "env_ok (env_reset s e)"
  "env_ok e \<Longrightarrow> env_ok (en_length_counter_update f e)"
  using word_and_le_mask [of v 15]
  by (simp_all add: env_ok_def new_envelope_def initialize_envelope_def reset_envelope_def env_reset_def)

lemma tick_envelope_ok: "env_ok e \<Longrightarrow> env_ok (tick_envelope e)"
proof -
  assume e: "env_ok e"
  have "c - 1 \<le> 15" if "c \<le> 15" "c > 0" for c :: u8
    using that by (simp add: word_le_nat_alt unat_minus_one word_gt_0)
  with e show ?thesis by (auto simp: env_ok_def tick_envelope_def Let_def)
qed

lemma get_volume_le: "env_ok e \<Longrightarrow> get_volume e \<le> 15"
  by (auto simp: env_ok_def get_volume_def word_le_nat_alt unsigned_ucast_eq take_bit_nat_eq_self
      unsigned_less [where 'a = nat])

end
