(* ===== verification/Apu_Channels.thy ===== *)
theory Apu_Channels
  imports Apu_Units Cpu_State
begin

text \<open>
  The five sound channels (\<^verbatim>\<open>square_channel\<close>, \<^verbatim>\<open>triangle_channel\<close>, \<^verbatim>\<open>noise_channel\<close> and
  \<^verbatim>\<open>delta_modulation_channel\<close> under \<^verbatim>\<open>src/systems/nes/audio/\<close>). \<^verbatim>\<open>run\<close> of a channel works
  on the channel and the mixer; the register writes are stated without the leading
  \<^verbatim>\<open>console_->get_apu()->run()\<close>, which the theory \<open>Apu\<close> puts in front of them, and report
  whether they ask the APU to run.
\<close>

section \<open>Square channels\<close>

definition DUTY_SEQUENCES :: "u8 list list" where
  "DUTY_SEQUENCES = [
     [0, 0, 0, 0, 0, 0, 0, 1],
     [0, 0, 0, 0, 0, 0, 1, 1],
     [0, 0, 0, 0, 1, 1, 1, 1],
     [1, 1, 1, 1, 1, 1, 0, 0]]"

record square =
  sq_envelope :: envelope
  sq_timer :: apu_timer
  sq_channel :: audio_channel
  sq_is_channel1 :: bool
  sq_duty :: u8
  sq_duty_pos :: u8
  sq_sweep_enabled :: bool
  sq_sweep_period :: u8
  sq_sweep_negate :: bool
  sq_sweep_shift :: u8
  sq_reload_sweep :: bool
  sq_sweep_divider :: u8
  sq_sweep_target_period :: u32
  sq_real_period :: u16

definition new_square :: "audio_channel \<Rightarrow> bool \<Rightarrow> square" where
  "new_square channel is_channel1 = \<lparr>sq_envelope = new_envelope channel, sq_timer = new_timer channel,
     sq_channel = channel, sq_is_channel1 = is_channel1, sq_duty = 0, sq_duty_pos = 0, sq_sweep_enabled = False,
     sq_sweep_period = 0, sq_sweep_negate = False, sq_sweep_shift = 0, sq_reload_sweep = False,
     sq_sweep_divider = 0, sq_sweep_target_period = 0, sq_real_period = 0\<rparr>"

definition square_is_muted :: "square \<Rightarrow> bool" where
  "square_is_muted c \<longleftrightarrow>
     sq_real_period c < 8 \<or> \<not> sq_sweep_negate c \<and> sq_sweep_target_period c > 0x7FF"

definition update_target_period :: "square \<Rightarrow> square" where
  "update_target_period c =
     (let shift_result = drop_bit (unat (sq_sweep_shift c)) (sq_real_period c);
          r = (ucast (sq_real_period c) :: u32)
      in c\<lparr>sq_sweep_target_period :=
             (if sq_sweep_negate c
              then if sq_is_channel1 c then r - ucast shift_result - 1 else r - ucast shift_result
              else r + ucast shift_result)\<rparr>)"

definition initialize_sweep :: "u8 \<Rightarrow> square \<Rightarrow> square" where
  "initialize_sweep reg_value c =
     (update_target_period
        (c\<lparr>sq_sweep_enabled := reg_value AND 0x80 = 0x80,
           sq_sweep_negate := reg_value AND 0x08 = 0x08,
           sq_sweep_period := drop_bit 4 (reg_value AND 0x70) + 1,
           sq_sweep_shift := reg_value AND 0x07\<rparr>))\<lparr>sq_reload_sweep := True\<rparr>"

definition square_set_period :: "u16 \<Rightarrow> square \<Rightarrow> square" where
  "square_set_period new_period c =
     update_target_period
       (c\<lparr>sq_real_period := new_period,
          sq_timer := (sq_timer c)\<lparr>tm_period := new_period * 2 + 1\<rparr>\<rparr>)"

definition square_output :: "u8 \<Rightarrow> square \<times> mixer \<Rightarrow> (square \<times> mixer) option" where
  "square_output v s = do {
     (t, mx) \<leftarrow> add_output v (sq_timer (fst s), snd s);
     Some ((fst s)\<lparr>sq_timer := t\<rparr>, mx) }"

definition square_update_output :: "square \<times> mixer \<Rightarrow> (square \<times> mixer) option" where
  "square_update_output s =
     (if square_is_muted (fst s) then square_output 0 s
      else do {
        row \<leftarrow> rd DUTY_SEQUENCES (unat (sq_duty (fst s)));
        d \<leftarrow> rd row (unat (sq_duty_pos (fst s)));
        square_output (d * ucast (get_volume (sq_envelope (fst s)))) s })"

definition square_step :: "u32 \<Rightarrow> square \<times> mixer \<Rightarrow> (bool \<times> square \<times> mixer) option" where
  "square_step target_cycle s =
     (let (again, t) = timer_run target_cycle (sq_timer (fst s));
          c = (fst s)\<lparr>sq_timer := t\<rparr>
      in if again then
           map_option (Pair True)
             (square_update_output (c\<lparr>sq_duty_pos := (sq_duty_pos c - 1) AND 0x07\<rparr>, snd s))
         else Some (False, c, snd s))"

definition square_run :: "u32 \<Rightarrow> square \<times> mixer \<Rightarrow> (square \<times> mixer) option" where
  "square_run target_cycle = run_while (square_step target_cycle)"

definition square_reset :: "bool \<Rightarrow> square \<Rightarrow> square" where
  "square_reset soft_reset c =
     update_target_period
       (c\<lparr>sq_envelope := env_reset soft_reset (sq_envelope c), sq_timer := timer_reset (sq_timer c),
          sq_duty := 0, sq_duty_pos := 0, sq_real_period := 0, sq_sweep_enabled := False,
          sq_sweep_period := 0, sq_sweep_negate := False, sq_sweep_shift := 0,
          sq_reload_sweep := False, sq_sweep_divider := 0, sq_sweep_target_period := 0\<rparr>)"

definition square_write_ram ::
  "u16 \<Rightarrow> u8 \<Rightarrow> square \<times> mixer \<Rightarrow> (bool \<times> square \<times> mixer) option" where
  "square_write_ram addr val s = do {
     let (c, mx) = s;
     let r = addr AND 3;
     (need, c) \<leftarrow>
       (if r = 0 then
          Some (True, c\<lparr>sq_envelope := initialize_envelope val (sq_envelope c),
                        sq_duty := drop_bit 6 (val AND 0xC0)\<rparr>)
        else if r = 1 then Some (False, initialize_sweep val c)
        else if r = 2 then
          Some (False, square_set_period (sq_real_period c AND 0x0700 OR ucast val) c)
        else do {
          (need, l) \<leftarrow> load_length_counter (drop_bit 3 val) (en_length_counter (sq_envelope c));
          let c = c\<lparr>sq_envelope := (sq_envelope c)\<lparr>en_length_counter := l\<rparr>\<rparr>;
          let c = square_set_period (sq_real_period c AND 0xFF OR push_bit 8 (ucast (val AND 0x07))) c;
          Some (need, c\<lparr>sq_duty_pos := 0, sq_envelope := reset_envelope (sq_envelope c)\<rparr>) });
     (c, mx) \<leftarrow> square_update_output (c, mx);
     Some (need, c, mx) }"

definition tick_sweep :: "square \<Rightarrow> square" where
  "tick_sweep c =
     (let c = c\<lparr>sq_sweep_divider := sq_sweep_divider c - 1\<rparr>;
          c = (if sq_sweep_divider c = 0 then
                 (if sq_sweep_shift c > 0 \<and> sq_sweep_enabled c \<and> sq_real_period c \<ge> 8 \<and>
                     sq_sweep_target_period c \<le> 0x7FF
                  then square_set_period (ucast (sq_sweep_target_period c)) c else c)
                   \<lparr>sq_sweep_divider := sq_sweep_period c\<rparr>
               else c)
      in if sq_reload_sweep c
         then c\<lparr>sq_sweep_divider := sq_sweep_period c, sq_reload_sweep := False\<rparr> else c)"

definition square_upd_length :: "(length_counter \<Rightarrow> length_counter) \<Rightarrow> square \<Rightarrow> square" where
  "square_upd_length f c =
     c\<lparr>sq_envelope := (sq_envelope c)\<lparr>en_length_counter := f (en_length_counter (sq_envelope c))\<rparr>\<rparr>"

definition square_is_active :: "square \<Rightarrow> bool" where
  "square_is_active c = lc_is_active (en_length_counter (sq_envelope c))"

section \<open>Triangle channel\<close>

definition SEQUENCE :: "u8 list" where
  "SEQUENCE = [
     15, 14, 13, 12, 11, 10, 9, 8, 7, 6, 5, 4, 3, 2, 1, 0,
     0, 1, 2, 3, 4, 5, 6, 7, 8, 9, 10, 11, 12, 13, 14, 15]"

record triangle =
  tr_length_counter :: length_counter
  tr_timer :: apu_timer
  tr_linear_counter :: u8
  tr_linear_counter_reload :: u8
  tr_linear_reload_flag :: bool
  tr_linear_control_flag :: bool
  tr_sequence_position :: u8

definition new_triangle :: triangle where
  "new_triangle = \<lparr>tr_length_counter = new_length_counter TRIANGLE, tr_timer = new_timer TRIANGLE,
     tr_linear_counter = 0, tr_linear_counter_reload = 0, tr_linear_reload_flag = False,
     tr_linear_control_flag = False, tr_sequence_position = 0\<rparr>"

definition triangle_step :: "u32 \<Rightarrow> triangle \<times> mixer \<Rightarrow> (bool \<times> triangle \<times> mixer) option" where
  "triangle_step target_cycle s =
     (let (again, t) = timer_run target_cycle (tr_timer (fst s));
          c = (fst s)\<lparr>tr_timer := t\<rparr>
      in if again then
           if lc_is_active (tr_length_counter c) \<and> tr_linear_counter c > 0 then do {
             let c = c\<lparr>tr_sequence_position := (tr_sequence_position c + 1) AND 0x1F\<rparr>;
             v \<leftarrow> rd SEQUENCE (unat (tr_sequence_position c));
             (t, mx) \<leftarrow> add_output v (tr_timer c, snd s);
             Some (True, c\<lparr>tr_timer := t\<rparr>, mx) }
           else Some (True, c, snd s)
         else Some (False, c, snd s))"

definition triangle_run :: "u32 \<Rightarrow> triangle \<times> mixer \<Rightarrow> (triangle \<times> mixer) option" where
  "triangle_run target_cycle = run_while (triangle_step target_cycle)"

definition triangle_reset :: "bool \<Rightarrow> triangle \<Rightarrow> triangle" where
  "triangle_reset soft_reset c =
     c\<lparr>tr_timer := timer_reset (tr_timer c),
       tr_length_counter := lc_reset soft_reset (tr_length_counter c),
       tr_linear_counter := 0, tr_linear_counter_reload := 0, tr_linear_reload_flag := False,
       tr_linear_control_flag := False, tr_sequence_position := 0\<rparr>"

definition triangle_write_ram :: "u16 \<Rightarrow> u8 \<Rightarrow> triangle \<Rightarrow> (bool \<times> triangle) option" where
  "triangle_write_ram addr val c =
     (let r = addr AND 3 in
      if r = 0 then
        Some (True, c\<lparr>tr_linear_control_flag := val AND 0x80 = 0x80,
                      tr_linear_counter_reload := val AND 0x7F,
                      tr_length_counter :=
                        initialize_length_counter (val AND 0x80 = 0x80) (tr_length_counter c)\<rparr>)
      else if r = 2 then
        Some (False, c\<lparr>tr_timer := (tr_timer c)
          \<lparr>tm_period := tm_period (tr_timer c) AND 0xFF00 OR ucast val\<rparr>\<rparr>)
      else if r = 3 then do {
        (need, l) \<leftarrow> load_length_counter (drop_bit 3 val) (tr_length_counter c);
        Some (need, c\<lparr>tr_length_counter := l,
          tr_timer := (tr_timer c)\<lparr>tm_period :=
            tm_period (tr_timer c) AND 0xFF OR push_bit 8 (ucast (val AND 0x07))\<rparr>,
          tr_linear_reload_flag := True\<rparr>) }
      else Some (False, c))"

definition tick_linear_counter :: "triangle \<Rightarrow> triangle" where
  "tick_linear_counter c =
     (let c = (if tr_linear_reload_flag c then c\<lparr>tr_linear_counter := tr_linear_counter_reload c\<rparr>
               else if tr_linear_counter c > 0
               then c\<lparr>tr_linear_counter := tr_linear_counter c - 1\<rparr> else c)
      in if \<not> tr_linear_control_flag c then c\<lparr>tr_linear_reload_flag := False\<rparr> else c)"

section \<open>Noise channel\<close>

definition NOISE_PERIOD_TABLE :: "u16 list" where
  "NOISE_PERIOD_TABLE =
     [4, 8, 16, 32, 64, 96, 128, 160, 202, 254, 380, 508, 762, 1016, 2034, 4068]"

record noise =
  ns_envelope :: envelope
  ns_timer :: apu_timer
  ns_shift_register :: u16
  ns_mode_flag :: bool

definition new_noise :: noise where
  "new_noise = \<lparr>ns_envelope = new_envelope NOISE, ns_timer = new_timer NOISE,
     ns_shift_register = 1, ns_mode_flag = False\<rparr>"

text \<open>One step of the shift register.\<close>

definition noise_shift :: "bool \<Rightarrow> u16 \<Rightarrow> u16" where
  "noise_shift mode_flag r =
     (let feedback = (r AND 1) XOR (drop_bit (if mode_flag then 6 else 1) r AND 1)
      in drop_bit 1 r OR push_bit 14 feedback)"

definition noise_step :: "u32 \<Rightarrow> noise \<times> mixer \<Rightarrow> (bool \<times> noise \<times> mixer) option" where
  "noise_step target_cycle s =
     (let (again, t) = timer_run target_cycle (ns_timer (fst s));
          c = (fst s)\<lparr>ns_timer := t\<rparr>
      in if again then do {
           let c = c\<lparr>ns_shift_register := noise_shift (ns_mode_flag c) (ns_shift_register c)\<rparr>;
           (t, mx) \<leftarrow> add_output
             (if ns_shift_register c AND 1 = 1 then 0 else ucast (get_volume (ns_envelope c)))
             (ns_timer c, snd s);
           Some (True, c\<lparr>ns_timer := t\<rparr>, mx) }
         else Some (False, c, snd s))"

definition noise_run :: "u32 \<Rightarrow> noise \<times> mixer \<Rightarrow> (noise \<times> mixer) option" where
  "noise_run target_cycle = run_while (noise_step target_cycle)"

definition noise_reset :: "bool \<Rightarrow> noise \<Rightarrow> noise" where
  "noise_reset soft_reset c =
     c\<lparr>ns_envelope := env_reset soft_reset (ns_envelope c),
       ns_timer := (timer_reset (ns_timer c))\<lparr>tm_period := NOISE_PERIOD_TABLE ! 0 - 1\<rparr>,
       ns_shift_register := 1, ns_mode_flag := False\<rparr>"

definition noise_write_ram :: "u16 \<Rightarrow> u8 \<Rightarrow> noise \<Rightarrow> (bool \<times> noise) option" where
  "noise_write_ram addr val c =
     (let r = addr AND 3 in
      if r = 0 then Some (True, c\<lparr>ns_envelope := initialize_envelope val (ns_envelope c)\<rparr>)
      else if r = 2 then do {
        p \<leftarrow> rd NOISE_PERIOD_TABLE (unat (val AND 0x0F));
        Some (False, c\<lparr>ns_timer := (ns_timer c)\<lparr>tm_period := p - 1\<rparr>,
                       ns_mode_flag := val AND 0x80 = 0x80\<rparr>) }
      else if r = 3 then do {
        (need, l) \<leftarrow> load_length_counter (drop_bit 3 val) (en_length_counter (ns_envelope c));
        Some (need, c\<lparr>ns_envelope := reset_envelope ((ns_envelope c)\<lparr>en_length_counter := l\<rparr>)\<rparr>) }
      else Some (False, c))"

definition noise_upd_length :: "(length_counter \<Rightarrow> length_counter) \<Rightarrow> noise \<Rightarrow> noise" where
  "noise_upd_length f c =
     c\<lparr>ns_envelope := (ns_envelope c)\<lparr>en_length_counter := f (en_length_counter (ns_envelope c))\<rparr>\<rparr>"

section \<open>Delta modulation channel\<close>

definition DMC_PERIOD_TABLE :: "u16 list" where
  "DMC_PERIOD_TABLE =
     [428, 380, 340, 320, 286, 254, 226, 214, 190, 160, 142, 128, 106, 84, 72, 54]"

record dmc =
  dm_timer :: apu_timer
  dm_sample_addr :: u16
  dm_sample_length :: u16
  dm_output_level :: u8
  dm_irq_enabled :: bool
  dm_loop_flag :: bool
  dm_current_addr :: u16
  dm_bytes_remaining :: u16
  dm_read_buffer :: u8
  dm_buffer_empty :: bool
  dm_shift_register :: u8
  dm_bits_remaining :: u8
  dm_silence_flag :: bool
  dm_need_to_run_flag :: bool
  dm_disable_delay :: u8
  dm_transfer_start_delay :: u8

definition new_dmc :: dmc where
  "new_dmc = \<lparr>dm_timer = new_timer DMC_CHANNEL, dm_sample_addr = 0, dm_sample_length = 0,
     dm_output_level = 0, dm_irq_enabled = False, dm_loop_flag = False, dm_current_addr = 0,
     dm_bytes_remaining = 0, dm_read_buffer = 0, dm_buffer_empty = True, dm_shift_register = 0,
     dm_bits_remaining = 8, dm_silence_flag = True, dm_need_to_run_flag = False,
     dm_disable_delay = 0, dm_transfer_start_delay = 0\<rparr>"

definition dmc_reset :: "bool \<Rightarrow> dmc \<Rightarrow> dmc" where
  "dmc_reset soft_reset c0 =
     (let c = (if soft_reset then c0 else c0\<lparr>dm_sample_addr := 0xC000, dm_sample_length := 1\<rparr>);
          p = DMC_PERIOD_TABLE ! 0 - 1
      in c\<lparr>dm_output_level := 0, dm_irq_enabled := False, dm_loop_flag := False,
           dm_current_addr := 0, dm_bytes_remaining := 0, dm_read_buffer := 0,
           dm_buffer_empty := True, dm_shift_register := 0, dm_bits_remaining := 8,
           dm_silence_flag := True, dm_need_to_run_flag := False, dm_transfer_start_delay := 0,
           dm_disable_delay := 0,
           dm_timer := (timer_reset (dm_timer c))\<lparr>tm_period := p, tm_timer := p\<rparr>\<rparr>)"

definition init_sample :: "dmc \<Rightarrow> dmc" where
  "init_sample c = c\<lparr>dm_current_addr := dm_sample_addr c, dm_bytes_remaining := dm_sample_length c,
     dm_need_to_run_flag := dm_need_to_run_flag c \<or> dm_sample_length c > 0\<rparr>"

definition dmc_start_transfer :: "dmc \<times> cpu \<Rightarrow> dmc \<times> cpu" where
  "dmc_start_transfer s = (case s of (c, cpu) \<Rightarrow>
     (c, if dm_buffer_empty c \<and> dm_bytes_remaining c > 0 then start_dmc_transfer cpu else cpu))"

definition set_dmc_read_buffer :: "u8 \<Rightarrow> dmc \<times> cpu \<Rightarrow> dmc \<times> cpu" where
  "set_dmc_read_buffer val s = (case s of (c, cpu) \<Rightarrow>
     if dm_bytes_remaining c > 0 then
       let next0 = dm_current_addr c + 1;
           c = c\<lparr>dm_read_buffer := val, dm_buffer_empty := False,
                 dm_current_addr := (if next0 = 0 then 0x8000 else next0),
                 dm_bytes_remaining := dm_bytes_remaining c - 1\<rparr>
       in if dm_bytes_remaining c = 0 then
            if dm_loop_flag c then (init_sample c, cpu)
            else (c, if dm_irq_enabled c then set_irq_source irq_DMC cpu else cpu)
          else (c, cpu)
     else (c, cpu))"

text \<open>The output unit: one timer tick shifts a bit into the output level.\<close>

definition dmc_shift_bit :: "dmc \<Rightarrow> dmc" where
  "dmc_shift_bit c =
     (if \<not> dm_silence_flag c then
        let bit0 = dm_shift_register c AND 1; level = dm_output_level c in
        c\<lparr>dm_shift_register := drop_bit 1 (dm_shift_register c),
          dm_output_level :=
            (if bit0 \<noteq> 0 then if level \<le> 125 then level + 2 else level
             else if level \<ge> 2 then level - 2 else level)\<rparr>
      else c)"

definition dmc_next_byte :: "dmc \<times> cpu \<Rightarrow> dmc \<times> cpu" where
  "dmc_next_byte s =
     (let (c, cpu) = s; c = c\<lparr>dm_bits_remaining := dm_bits_remaining c - 1\<rparr> in
      if dm_bits_remaining c = 0 then
        let c = c\<lparr>dm_bits_remaining := 8\<rparr> in
        if dm_buffer_empty c then (c\<lparr>dm_silence_flag := True\<rparr>, cpu)
        else
          let c = c\<lparr>dm_silence_flag := False, dm_shift_register := dm_read_buffer c,
                    dm_buffer_empty := True, dm_need_to_run_flag := True\<rparr>
          in if dm_transfer_start_delay c = 0 then dmc_start_transfer (c, cpu) else (c, cpu)
      else (c, cpu))"

definition dmc_step :: "u32 \<Rightarrow> dmc \<times> mixer \<times> cpu \<Rightarrow> (bool \<times> dmc \<times> mixer \<times> cpu) option" where
  "dmc_step target_cycle s =
     (let (c, mx, cpu) = s;
          (again, t) = timer_run target_cycle (dm_timer c);
          c = c\<lparr>dm_timer := t\<rparr>
      in if again then
           let (c, cpu) = dmc_next_byte (dmc_shift_bit c, cpu) in
           do { (t, mx) \<leftarrow> add_output (dm_output_level c) (dm_timer c, mx);
                Some (True, c\<lparr>dm_timer := t\<rparr>, mx, cpu) }
         else Some (False, c, mx, cpu))"

definition dmc_run :: "u32 \<Rightarrow> dmc \<times> mixer \<times> cpu \<Rightarrow> (dmc \<times> mixer \<times> cpu) option" where
  "dmc_run target_cycle = run_while (dmc_step target_cycle)"

definition dmc_irq_pending :: "u32 \<Rightarrow> dmc \<Rightarrow> bool" where
  "dmc_irq_pending cycles_to_run c \<longleftrightarrow>
     dm_irq_enabled c \<and> dm_bytes_remaining c > 0 \<and>
     cycles_to_run \<ge> (ucast (dm_bits_remaining c) + (ucast (dm_bytes_remaining c) - 1) * 8) *
                     ucast (tm_period (dm_timer c))"

definition dmc_is_active :: "dmc \<Rightarrow> bool" where
  "dmc_is_active c \<longleftrightarrow> dm_bytes_remaining c > 0"

definition dmc_write_ram ::
  "u16 \<Rightarrow> u8 \<Rightarrow> dmc \<times> mixer \<times> cpu \<Rightarrow> (dmc \<times> mixer \<times> cpu) option" where
  "dmc_write_ram addr val s =
     (let (c, mx, cpu) = s; r = addr AND 3 in
      if r = 0 then do {
        p \<leftarrow> rd DMC_PERIOD_TABLE (unat (val AND 0x0F));
        let c = c\<lparr>dm_irq_enabled := val AND 0x80 = 0x80, dm_loop_flag := val AND 0x40 = 0x40,
                  dm_timer := (dm_timer c)\<lparr>tm_period := p - 1\<rparr>\<rparr>;
        Some (c, mx, if dm_irq_enabled c then cpu else clear_irq_source irq_DMC cpu) }
      else if r = 1 then do {
        let c = c\<lparr>dm_output_level := val AND 0x7F\<rparr>;
        (t, mx) \<leftarrow> add_output (dm_output_level c) (dm_timer c, mx);
        Some (c\<lparr>dm_timer := t\<rparr>, mx, cpu) }
      else if r = 2 then Some (c\<lparr>dm_sample_addr := 0xC000 OR push_bit 6 (ucast val)\<rparr>, mx, cpu)
      else Some (c\<lparr>dm_sample_length := push_bit 4 (ucast val) OR 1\<rparr>, mx, cpu))"

definition dmc_set_enabled :: "bool \<Rightarrow> dmc \<times> cpu \<Rightarrow> dmc" where
  "dmc_set_enabled enabled s =
     (let (c, cpu) = s;
          delay = (if cpu_cycle_count cpu AND 1 = 0 then 2 else 3)
      in if \<not> enabled then
           (if dm_disable_delay c = 0 then c\<lparr>dm_disable_delay := delay\<rparr> else c)
             \<lparr>dm_need_to_run_flag := True\<rparr>
         else if dm_bytes_remaining c = 0 then
           (init_sample c)\<lparr>dm_transfer_start_delay := delay, dm_need_to_run_flag := True\<rparr>
         else c)"

definition dmc_process_clock :: "dmc \<times> cpu \<Rightarrow> dmc \<times> cpu" where
  "dmc_process_clock s =
     (let (c, cpu) = s;
          (c, cpu) =
            (if dm_disable_delay c \<noteq> 0 then
               let c = c\<lparr>dm_disable_delay := dm_disable_delay c - 1\<rparr> in
               if dm_disable_delay c = 0 then (c\<lparr>dm_bytes_remaining := 0\<rparr>, stop_dmc_transfer cpu)
               else (c, cpu)
             else (c, cpu));
          (c, cpu) =
            (if dm_transfer_start_delay c \<noteq> 0 then
               let c = c\<lparr>dm_transfer_start_delay := dm_transfer_start_delay c - 1\<rparr> in
               if dm_transfer_start_delay c = 0 then dmc_start_transfer (c, cpu) else (c, cpu)
             else (c, cpu))
      in (c\<lparr>dm_need_to_run_flag := dm_disable_delay c \<noteq> 0 \<or> dm_transfer_start_delay c \<noteq> 0 \<or>
              dm_bytes_remaining c \<noteq> 0\<rparr>, cpu))"

definition dmc_need_to_run :: "dmc \<times> cpu \<Rightarrow> bool \<times> dmc \<times> cpu" where
  "dmc_need_to_run s =
     (let (c, cpu) = (if dm_need_to_run_flag (fst s) then dmc_process_clock s else s)
      in (dm_need_to_run_flag c, c, cpu))"

end
