(* ===== verification/Apu.thy ===== *)
theory Apu
  imports Apu_Channel_Facts
begin

text \<open>
  The frame counter and \<^verbatim>\<open>NesApu\<close> (\<^verbatim>\<open>src/systems/nes/audio/apu_frame_counter.cpp\<close> and
  \<^verbatim>\<open>nes_apu.cpp\<close>). The operations work on the APU, the mixer and the CPU: the frame
  counter and the DMC drive the CPU's interrupt and DMA lines.
\<close>

section \<open>State\<close>

datatype frame_type = FT_NONE | QUARTER_FRAME | HALF_FRAME

text \<open>
  \<open>new_value_\<close> is an \<^verbatim>\<open>int16_t\<close> that holds -1 or a byte; \<open>write_delay_counter_\<close> is an
  \<^verbatim>\<open>int8_t\<close>. \<open>step_cycles_\<close> holds the NTSC table that \<^verbatim>\<open>set_region\<close> always copies;
  only loading a saved state can put another table there.
\<close>

record frame_counter =
  fc_step_cycles :: "int list list"
  fc_previous_cycle :: int
  fc_current_step :: nat
  fc_step_mode :: nat
  fc_inhibit_irq :: bool
  fc_block_frame_counter_tick :: u8
  fc_new_value :: int
  fc_write_delay_counter :: u8
  fc_irq_flag :: bool
  fc_irq_flag_clear_clock :: u64

definition STEP_CYCLES :: "int list list" where
  "STEP_CYCLES = [
     [7457, 14913, 22371, 29828, 29829, 29830],
     [7457, 14913, 22371, 29829, 37281, 37282]]"

definition FRAME_TYPE :: "frame_type list list" where
  "FRAME_TYPE = [
     [QUARTER_FRAME, HALF_FRAME, QUARTER_FRAME, FT_NONE, HALF_FRAME, FT_NONE],
     [QUARTER_FRAME, HALF_FRAME, QUARTER_FRAME, FT_NONE, HALF_FRAME, FT_NONE]]"

record audio_frame =
  af_data :: "i16 list"
  af_samples :: nat

definition MAX_AUDIO_FRAMES :: nat where "MAX_AUDIO_FRAMES = 8"

record apu =
  ap_apu_enabled :: bool
  ap_need_to_run :: bool
  ap_previous_cycle :: u32
  ap_current_cycle :: u32
  ap_square1 :: square
  ap_square2 :: square
  ap_triangle :: triangle
  ap_noise :: noise
  ap_dmc :: dmc
  ap_frame_counter :: frame_counter
  ap_audio_ring :: "audio_frame list"
  ap_write_index :: nat
  ap_read_index :: nat
  ap_available_frames :: nat
  ap_frame_accumulator :: "i16 list"

definition fc_reset :: "bool \<Rightarrow> frame_counter \<Rightarrow> frame_counter" where
  "fc_reset soft_reset f =
     (let mode = (if soft_reset then fc_step_mode f else 0)
      in f\<lparr>fc_step_cycles := STEP_CYCLES, fc_previous_cycle := 0, fc_irq_flag := False,
           fc_irq_flag_clear_clock := 0, fc_step_mode := mode, fc_current_step := 0,
           fc_new_value := (if mode \<noteq> 0 then 0x80 else 0x00), fc_write_delay_counter := 3,
           fc_inhibit_irq := False, fc_block_frame_counter_tick := 0\<rparr>)"

definition new_frame_counter :: frame_counter where
  "new_frame_counter = fc_reset False \<lparr>fc_step_cycles = [], fc_previous_cycle = 0, fc_current_step = 0, fc_step_mode = 0,
     fc_inhibit_irq = False, fc_block_frame_counter_tick = 0, fc_new_value = 0,
     fc_write_delay_counter = 0, fc_irq_flag = False, fc_irq_flag_clear_clock = 0\<rparr>"

definition empty_frame :: audio_frame where
  "empty_frame = \<lparr>af_data = [], af_samples = 0\<rparr>"

definition apu_reset :: "bool \<Rightarrow> apu \<Rightarrow> apu" where
  "apu_reset soft_reset a =
     a\<lparr>ap_apu_enabled := True, ap_current_cycle := 0, ap_previous_cycle := 0,
       ap_square1 := square_reset soft_reset (ap_square1 a),
       ap_square2 := square_reset soft_reset (ap_square2 a),
       ap_triangle := triangle_reset soft_reset (ap_triangle a),
       ap_noise := noise_reset soft_reset (ap_noise a),
       ap_dmc := dmc_reset soft_reset (ap_dmc a),
       ap_frame_counter := fc_reset soft_reset (ap_frame_counter a),
       ap_audio_ring := map (\<lambda>_. empty_frame) (ap_audio_ring a),
       ap_frame_accumulator := [], ap_write_index := 0, ap_read_index := 0,
       ap_available_frames := 0\<rparr>"

definition new_apu :: apu where
  "new_apu = apu_reset False \<lparr>ap_apu_enabled = True, ap_need_to_run = False, ap_previous_cycle = 0,
     ap_current_cycle = 0, ap_square1 = new_square SQUARE1 True, ap_square2 = new_square SQUARE2 False,
     ap_triangle = new_triangle, ap_noise = new_noise, ap_dmc = new_dmc,
     ap_frame_counter = new_frame_counter, ap_audio_ring = replicate MAX_AUDIO_FRAMES empty_frame,
     ap_write_index = 0, ap_read_index = 0, ap_available_frames = 0, ap_frame_accumulator = []\<rparr>"

section \<open>Frame counter\<close>

definition frame_counter_tick :: "frame_type \<Rightarrow> apu \<Rightarrow> apu" where
  "frame_counter_tick type a =
     (let a = a\<lparr>ap_square1 := (ap_square1 a)\<lparr>sq_envelope := tick_envelope (sq_envelope (ap_square1 a))\<rparr>,
                ap_square2 := (ap_square2 a)\<lparr>sq_envelope := tick_envelope (sq_envelope (ap_square2 a))\<rparr>,
                ap_triangle := tick_linear_counter (ap_triangle a),
                ap_noise := (ap_noise a)\<lparr>ns_envelope := tick_envelope (ns_envelope (ap_noise a))\<rparr>\<rparr>
      in if type = HALF_FRAME then
           a\<lparr>ap_square1 := tick_sweep (square_upd_length tick_length_counter (ap_square1 a)),
             ap_square2 := tick_sweep (square_upd_length tick_length_counter (ap_square2 a)),
             ap_triangle := (ap_triangle a)
               \<lparr>tr_length_counter := tick_length_counter (tr_length_counter (ap_triangle a))\<rparr>,
             ap_noise := noise_upd_length tick_length_counter (ap_noise a)\<rparr>
         else a)"

definition upd_fc :: "(frame_counter \<Rightarrow> frame_counter) \<Rightarrow> apu \<Rightarrow> apu" where
  "upd_fc g a = a\<lparr>ap_frame_counter := g (ap_frame_counter a)\<rparr>"

text \<open>\<open>if (!block_frame_counter_tick_) { apu_->frame_counter_tick(type); block = 2; }\<close>\<close>

definition fc_tick_apu :: "frame_type \<Rightarrow> apu \<Rightarrow> apu" where
  "fc_tick_apu type a =
     (if fc_block_frame_counter_tick (ap_frame_counter a) = 0
      then upd_fc (\<lambda>f. f\<lparr>fc_block_frame_counter_tick := 2\<rparr>) (frame_counter_tick type a) else a)"

text \<open>The IRQ of the four-step sequence.\<close>

definition fc_irq :: "apu \<times> cpu \<Rightarrow> apu \<times> cpu" where
  "fc_irq s =
     (let (a, cpu) = s; f = ap_frame_counter a in
      if fc_step_mode f = 0 \<and> fc_current_step f \<ge> 3 then
        if \<not> fc_inhibit_irq f then
          (upd_fc (\<lambda>f. f\<lparr>fc_irq_flag := True, fc_irq_flag_clear_clock := 0\<rparr>) a, set_irq_source irq_FRAME_COUNTER cpu)
        else (upd_fc (\<lambda>f. f\<lparr>fc_irq_flag := fc_current_step f \<noteq> 5, fc_irq_flag_clear_clock := 0\<rparr>) a, cpu)
      else (a, cpu))"

text \<open>
  The three parts of \<^verbatim>\<open>ApuFrameCounter::run(cycles_to_run)\<close>. The first runs up to the next
  step of the sequence or to the end of the slice; its result holds the cycles that ran and
  what is left of the reference argument. The second applies a delayed write to $4017.
\<close>

definition fc_sequence :: "int \<Rightarrow> int \<Rightarrow> frame_type \<Rightarrow> apu \<times> cpu \<Rightarrow> (int \<times> int) \<times> apu \<times> cpu" where
  "fc_sequence cycles_to_run step type s =
     (let previous = fc_previous_cycle (ap_frame_counter (fst s)) in
      if previous + cycles_to_run \<ge> step then
        let (a, cpu) = fc_irq s;
            a = (if type \<noteq> FT_NONE then fc_tick_apu type a else a);
            ran = (if step < previous then 0 else step - previous)
        in ((ran, cycles_to_run - ran),
            upd_fc (\<lambda>f. if fc_current_step f + 1 = 6
                        then f\<lparr>fc_current_step := 0, fc_previous_cycle := 0\<rparr>
                        else f\<lparr>fc_current_step := fc_current_step f + 1,
                               fc_previous_cycle := fc_previous_cycle f + ran\<rparr>) a, cpu)
      else
        ((cycles_to_run, 0),
         upd_fc (\<lambda>f. f\<lparr>fc_previous_cycle := fc_previous_cycle f + cycles_to_run\<rparr>) (fst s), snd s))"

definition fc_apply_write :: "apu \<Rightarrow> apu" where
  "fc_apply_write a =
     (if fc_new_value (ap_frame_counter a) \<ge> 0 then
        let a = upd_fc (\<lambda>f. f\<lparr>fc_write_delay_counter := fc_write_delay_counter f - 1\<rparr>) a in
        if fc_write_delay_counter (ap_frame_counter a) = 0 then
          let a = upd_fc (\<lambda>f. f\<lparr>
                    fc_step_mode := (if fc_new_value f AND 0x80 = 0x80 then 1 else 0),
                    fc_write_delay_counter := - 1, fc_current_step := 0, fc_previous_cycle := 0,
                    fc_new_value := - 1\<rparr>) a
          in if fc_step_mode (ap_frame_counter a) \<noteq> 0 then fc_tick_apu HALF_FRAME a else a
        else a
      else a)"

definition fc_unblock :: "apu \<Rightarrow> apu" where
  "fc_unblock =
     upd_fc (\<lambda>f. if fc_block_frame_counter_tick f > 0
                 then f\<lparr>fc_block_frame_counter_tick := fc_block_frame_counter_tick f - 1\<rparr> else f)"

definition fc_run :: "int \<Rightarrow> apu \<times> cpu \<Rightarrow> ((int \<times> int) \<times> apu \<times> cpu) option" where
  "fc_run cycles_to_run s = do {
     let f0 = ap_frame_counter (fst s);
     row \<leftarrow> rd (fc_step_cycles f0) (fc_step_mode f0);
     step \<leftarrow> rd row (fc_current_step f0);
     types \<leftarrow> rd FRAME_TYPE (fc_step_mode f0);
     type \<leftarrow> rd types (fc_current_step f0);
     let (ran, a, cpu) = fc_sequence cycles_to_run step type s;
     Some (ran, fc_unblock (fc_apply_write a), cpu) }"

definition fc_need_to_run :: "u32 \<Rightarrow> frame_counter \<Rightarrow> bool option" where
  "fc_need_to_run cycles_to_run f = do {
     row \<leftarrow> rd (fc_step_cycles f) (fc_step_mode f);
     step \<leftarrow> rd row (fc_current_step f);
     Some (fc_new_value f \<ge> 0 \<or> fc_block_frame_counter_tick f > 0 \<or>
           fc_previous_cycle f + sint cycles_to_run \<ge> step - 1) }"

section \<open>Running the channels\<close>

text \<open>The five channels run up to \<open>previous_cycle_\<close>, after the length counters reload.\<close>

definition apu_reload_lengths :: "apu \<Rightarrow> apu" where
  "apu_reload_lengths a =
     a\<lparr>ap_square1 := square_upd_length reload_counter (ap_square1 a),
       ap_square2 := square_upd_length reload_counter (ap_square2 a),
       ap_noise := noise_upd_length reload_counter (ap_noise a),
       ap_triangle := (ap_triangle a)
         \<lparr>tr_length_counter := reload_counter (tr_length_counter (ap_triangle a))\<rparr>\<rparr>"

definition apu_run_channels :: "apu \<times> mixer \<times> cpu \<Rightarrow> (apu \<times> mixer \<times> cpu) option" where
  "apu_run_channels s = do {
     let (a, mx, cpu) = s;
     let target = ap_previous_cycle a;
     (s1, mx) \<leftarrow> square_run target (ap_square1 a, mx);
     (s2, mx) \<leftarrow> square_run target (ap_square2 a, mx);
     (ns, mx) \<leftarrow> noise_run target (ap_noise a, mx);
     (tr, mx) \<leftarrow> triangle_run target (ap_triangle a, mx);
     (dm, mx, cpu) \<leftarrow> dmc_run target (ap_dmc a, mx, cpu);
     Some (a\<lparr>ap_square1 := s1, ap_square2 := s2, ap_noise := ns, ap_triangle := tr,
             ap_dmc := dm\<rparr>, mx, cpu) }"

definition apu_round :: "int \<times> apu \<times> mixer \<times> cpu \<Rightarrow> (int \<times> apu \<times> mixer \<times> cpu) option" where
  "apu_round s = do {
     let (cycles_to_run, a, mx, cpu) = s;
     ((ran, left), a, cpu) \<leftarrow> fc_run cycles_to_run (a, cpu);
     let a = apu_reload_lengths (a\<lparr>ap_previous_cycle := ap_previous_cycle a + word_of_int ran\<rparr>);
     map_option (Pair left) (apu_run_channels (a, mx, cpu)) }"

definition apu_run :: "apu \<times> mixer \<times> cpu \<Rightarrow> (apu \<times> mixer \<times> cpu) option" where
  "apu_run s =
     map_option snd (while_loop (\<lambda>(cycles_to_run, _). cycles_to_run > 0) apu_round
       (sint (ap_current_cycle (fst s) - ap_previous_cycle (fst s)), s))"

definition apu_need_to_run :: "u32 \<Rightarrow> apu \<times> cpu \<Rightarrow> (bool \<times> apu \<times> cpu) option" where
  "apu_need_to_run current_cycle s = do {
     let (a, cpu) = s;
     let (need, dm, cpu) = dmc_need_to_run (ap_dmc a, cpu);
     let a = a\<lparr>ap_dmc := dm\<rparr>;
     if need \<or> ap_need_to_run a then Some (True, a\<lparr>ap_need_to_run := False\<rparr>, cpu)
     else do {
       let cycles_to_run = current_cycle - ap_previous_cycle a;
       fc \<leftarrow> fc_need_to_run cycles_to_run (ap_frame_counter a);
       Some (fc \<or> dmc_irq_pending cycles_to_run (ap_dmc a), a, cpu) } }"

section \<open>Frames\<close>

definition apu_timers_end_frame :: "apu \<Rightarrow> apu" where
  "apu_timers_end_frame a =
     a\<lparr>ap_square1 := (ap_square1 a)\<lparr>sq_timer := timer_end_frame (sq_timer (ap_square1 a))\<rparr>,
       ap_square2 := (ap_square2 a)\<lparr>sq_timer := timer_end_frame (sq_timer (ap_square2 a))\<rparr>,
       ap_triangle := (ap_triangle a)\<lparr>tr_timer := timer_end_frame (tr_timer (ap_triangle a))\<rparr>,
       ap_noise := (ap_noise a)\<lparr>ns_timer := timer_end_frame (ns_timer (ap_noise a))\<rparr>,
       ap_dmc := (ap_dmc a)\<lparr>dm_timer := timer_end_frame (dm_timer (ap_dmc a))\<rparr>\<rparr>"

definition apu_end_frame :: "audio_env \<Rightarrow> apu \<times> mixer \<times> cpu \<Rightarrow> (apu \<times> mixer \<times> cpu) option" where
  "apu_end_frame E s = do {
     let (a, mx, cpu) = s;
     let (dm, cpu) = dmc_process_clock (ap_dmc a, cpu);
     (a, mx, cpu) \<leftarrow> apu_run (a\<lparr>ap_dmc := dm\<rparr>, mx, cpu);
     let a = apu_timers_end_frame a;
     mx \<leftarrow> play_audio_buffer E (ap_current_cycle a) mx;
     let a = a\<lparr>ap_current_cycle := 0, ap_previous_cycle := 0\<rparr>;
     let count = mx_sample_count mx;
     if count > 0 then do {
       let a = a\<lparr>ap_frame_accumulator := ap_frame_accumulator a @ take (count * 2) (mx_output_buffer mx)\<rparr>;
       mx \<leftarrow> consume_samples count mx;
       Some (a, mx, cpu) }
     else Some (a, mx, cpu) }"

definition push_frame :: "apu \<Rightarrow> apu option" where
  "push_frame a =
     (if ap_frame_accumulator a = [] then Some a
      else do {
        let data = ap_frame_accumulator a;
        ring \<leftarrow> wr (ap_audio_ring a) (ap_write_index a)
                 \<lparr>af_data = data, af_samples = length data div 2\<rparr>;
        let a = a\<lparr>ap_audio_ring := ring, ap_frame_accumulator := [],
                  ap_write_index := (ap_write_index a + 1) mod MAX_AUDIO_FRAMES\<rparr>;
        Some (if ap_available_frames a < MAX_AUDIO_FRAMES
              then a\<lparr>ap_available_frames := ap_available_frames a + 1\<rparr>
              else a\<lparr>ap_read_index := (ap_read_index a + 1) mod MAX_AUDIO_FRAMES\<rparr>) })"

text \<open>\<^verbatim>\<open>get_buffer\<close> returns a null pointer when there is no frame; here \<open>Some None\<close>.\<close>

definition get_buffer :: "apu \<Rightarrow> i16 list option option" where
  "get_buffer a =
     (if ap_available_frames a > 0
      then map_option (\<lambda>f. Some (af_data f)) (rd (ap_audio_ring a) (ap_read_index a))
      else Some None)"

definition get_samples :: "apu \<Rightarrow> nat option" where
  "get_samples a =
     (if ap_available_frames a > 0
      then map_option af_samples (rd (ap_audio_ring a) (ap_read_index a)) else Some 0)"

definition consume_audio :: "apu \<Rightarrow> apu" where
  "consume_audio a =
     (if ap_available_frames a > 0
      then a\<lparr>ap_read_index := (ap_read_index a + 1) mod MAX_AUDIO_FRAMES,
             ap_available_frames := ap_available_frames a - 1\<rparr>
      else a)"

definition apu_process_cpu_clock ::
  "audio_env \<Rightarrow> apu \<times> mixer \<times> cpu \<Rightarrow> (apu \<times> mixer \<times> cpu) option" where
  "apu_process_cpu_clock E s =
     (let (a, mx, cpu) = s in
      if ap_apu_enabled a then
        let a = a\<lparr>ap_current_cycle := ap_current_cycle a + 1\<rparr> in
        if unat (ap_current_cycle a) = CYCLE_LENGTH - 1 then apu_end_frame E (a, mx, cpu)
        else do {
          (need, a, cpu) \<leftarrow> apu_need_to_run (ap_current_cycle a) (a, cpu);
          if need then apu_run (a, mx, cpu) else Some (a, mx, cpu) }
      else Some s)"

section \<open>Registers\<close>

definition apu_memory_ranges :: memory_ranges where
  "apu_memory_ranges =
     add_handler OP_READ 0x4018 0x401A
       (add_handler OP_WRITE 0x4017 0
         (add_handler OP_WRITE 0x4015 0
           (add_handler OP_READ 0x4015 0
             (add_handler OP_WRITE 0x4000 0x4013 ranges0))))"

text \<open>The status byte of $4015; \<open>open_bus\<close> is bit 5 of the open bus.\<close>

definition apu_status :: "u8 \<Rightarrow> apu \<Rightarrow> cpu \<Rightarrow> u8" where
  "apu_status open_bus a cpu =
     (if square_is_active (ap_square1 a) then 0x01 else 0) OR
     (if square_is_active (ap_square2 a) then 0x02 else 0) OR
     (if lc_is_active (tr_length_counter (ap_triangle a)) then 0x04 else 0) OR
     (if lc_is_active (en_length_counter (ns_envelope (ap_noise a))) then 0x08 else 0) OR
     (if dmc_is_active (ap_dmc a) then 0x10 else 0) OR
     (if fc_irq_flag (ap_frame_counter a) then 0x40 else 0) OR
     (if has_irq_source irq_DMC cpu then 0x80 else 0) OR
     (open_bus AND 0x20)"

definition apu_read_ram ::
  "u8 \<Rightarrow> u16 \<Rightarrow> apu \<times> mixer \<times> cpu \<Rightarrow> (u8 \<times> apu \<times> mixer \<times> cpu) option" where
  "apu_read_ram open_bus addr s = do {
     (a, mx, cpu) \<leftarrow> apu_run s;
     Some (
       if addr = 0x4015 then
         (apu_status open_bus a cpu, a, mx, clear_irq_source irq_FRAME_COUNTER cpu)
       else if addr = 0x4018 then
         (tm_last_output (sq_timer (ap_square1 a)) OR push_bit 4 (tm_last_output (sq_timer (ap_square2 a))),
          a, mx, cpu)
       else if addr = 0x4019 then
         (tm_last_output (tr_timer (ap_triangle a)) OR push_bit 4 (tm_last_output (ns_timer (ap_noise a))),
          a, mx, cpu)
       else if addr = 0x401A then (tm_last_output (dm_timer (ap_dmc a)), a, mx, cpu)
       else (0, a, mx, cpu)) }"

definition fc_write_ram :: "u8 \<Rightarrow> apu \<times> mixer \<times> cpu \<Rightarrow> (apu \<times> mixer \<times> cpu) option" where
  "fc_write_ram val s = do {
     (a, mx, cpu) \<leftarrow> apu_run s;
     let inhibit = (val AND 0x40 = 0x40);
     let a = upd_fc (\<lambda>f. f\<lparr>fc_new_value := uint val,
               fc_write_delay_counter := (if cpu_cycle_count cpu AND 1 \<noteq> 0 then 4 else 3),
               fc_inhibit_irq := inhibit,
               fc_irq_flag := (if inhibit then False else fc_irq_flag f),
               fc_irq_flag_clear_clock := (if inhibit then 0 else fc_irq_flag_clear_clock f)\<rparr>) a;
     Some (a, mx, if inhibit then clear_irq_source irq_FRAME_COUNTER cpu else cpu) }"

definition add_need :: "bool \<Rightarrow> apu \<Rightarrow> apu" where
  "add_need need a = a\<lparr>ap_need_to_run := ap_need_to_run a \<or> need\<rparr>"

text \<open>The channel enables of a write to $4015.\<close>

definition apu_set_enabled :: "u8 \<Rightarrow> cpu \<Rightarrow> apu \<Rightarrow> apu" where
  "apu_set_enabled val cpu a =
     a\<lparr>ap_square1 := square_upd_length (lc_set_enabled (val AND 0x01 = 0x01)) (ap_square1 a),
       ap_square2 := square_upd_length (lc_set_enabled (val AND 0x02 = 0x02)) (ap_square2 a),
       ap_triangle := (ap_triangle a)\<lparr>tr_length_counter :=
         lc_set_enabled (val AND 0x04 = 0x04) (tr_length_counter (ap_triangle a))\<rparr>,
       ap_noise := noise_upd_length (lc_set_enabled (val AND 0x08 = 0x08)) (ap_noise a),
       ap_dmc := dmc_set_enabled (val AND 0x10 = 0x10) (ap_dmc a, cpu)\<rparr>"

definition apu_write_ram ::
  "u16 \<Rightarrow> u8 \<Rightarrow> apu \<times> mixer \<times> cpu \<Rightarrow> (apu \<times> mixer \<times> cpu) option" where
  "apu_write_ram addr val s =
     (if addr = 0x4015 then do {
        (a, mx, cpu) \<leftarrow> apu_run s;
        let cpu = clear_irq_source irq_DMC cpu;
        let a = apu_set_enabled val cpu a;
        Some (a, mx, cpu) }
      else if addr = 0x4017 then fc_write_ram val s
      else if 0x4000 \<le> addr \<and> addr \<le> 0x4003 then do {
        (a, mx, cpu) \<leftarrow> apu_run s;
        (need, c, mx) \<leftarrow> square_write_ram addr val (ap_square1 a, mx);
        Some (add_need need (a\<lparr>ap_square1 := c\<rparr>), mx, cpu) }
      else if 0x4004 \<le> addr \<and> addr \<le> 0x4007 then do {
        (a, mx, cpu) \<leftarrow> apu_run s;
        (need, c, mx) \<leftarrow> square_write_ram addr val (ap_square2 a, mx);
        Some (add_need need (a\<lparr>ap_square2 := c\<rparr>), mx, cpu) }
      else if 0x4008 \<le> addr \<and> addr \<le> 0x400B then do {
        (a, mx, cpu) \<leftarrow> apu_run s;
        (need, c) \<leftarrow> triangle_write_ram addr val (ap_triangle a);
        Some (add_need need (a\<lparr>ap_triangle := c\<rparr>), mx, cpu) }
      else if 0x400C \<le> addr \<and> addr \<le> 0x400F then do {
        (a, mx, cpu) \<leftarrow> apu_run s;
        (need, c) \<leftarrow> noise_write_ram addr val (ap_noise a);
        Some (add_need need (a\<lparr>ap_noise := c\<rparr>), mx, cpu) }
      else if 0x4010 \<le> addr \<and> addr \<le> 0x4013 then do {
        (a, mx, cpu) \<leftarrow> apu_run s;
        (c, mx, cpu) \<leftarrow> dmc_write_ram addr val (ap_dmc a, mx, cpu);
        Some (a\<lparr>ap_dmc := c\<rparr>, mx, cpu) }
      else Some s)"

definition apu_get_dmc_read_address :: "apu \<Rightarrow> u16" where
  "apu_get_dmc_read_address a = dm_current_addr (ap_dmc a)"

definition apu_set_dmc_read_buffer :: "u8 \<Rightarrow> apu \<times> cpu \<Rightarrow> apu \<times> cpu" where
  "apu_set_dmc_read_buffer val s =
     (let (dm, cpu) = set_dmc_read_buffer val (ap_dmc (fst s), snd s)
      in ((fst s)\<lparr>ap_dmc := dm\<rparr>, cpu))"

end
