(* ===== verification/Apu_Facts.thy ===== *)
theory Apu_Facts
  imports Apu
begin

text \<open>
  The invariant of the APU and its preservation: running it always returns, its timers and
  the frame counter meet at the same cycle, and no output reaches the mixer outside the
  current audio frame.
\<close>

section \<open>Frame counter\<close>

text \<open>The frame counter is strictly before the step it waits for.\<close>

definition fc_ok :: "frame_counter \<Rightarrow> bool" where
  "fc_ok f \<longleftrightarrow> fc_step_mode f < 2 \<and> fc_current_step f < 6 \<and> 0 \<le> fc_previous_cycle f \<and>
     fc_previous_cycle f < STEP_CYCLES ! fc_step_mode f ! fc_current_step f \<and> fc_step_cycles f = STEP_CYCLES"

lemma step_rows:
  "length STEP_CYCLES = 2" "length FRAME_TYPE = 2"
  "m < 2 \<Longrightarrow> length (STEP_CYCLES ! m) = 6" "m < 2 \<Longrightarrow> length (FRAME_TYPE ! m) = 6"
  "m < 2 \<Longrightarrow> 0 < STEP_CYCLES ! m ! 0"
  by (auto simp: STEP_CYCLES_def FRAME_TYPE_def nth_Cons' split: if_splits)

lemma step_increasing:
  assumes "m < 2" "Suc k < 6"
  shows "STEP_CYCLES ! m ! k < STEP_CYCLES ! m ! Suc k"
proof -
  have "\<forall>m < 2. \<forall>k < 5. STEP_CYCLES ! m ! k < STEP_CYCLES ! m ! Suc k"
    by (simp add: STEP_CYCLES_def numeral_eq_Suc less_Suc_eq)
  with assms show ?thesis by simp
qed

text \<open>The invariant only reads the position in the sequence.\<close>

definition fc_pos :: "frame_counter \<Rightarrow> nat \<times> nat \<times> int \<times> int list list" where
  "fc_pos f = (fc_step_mode f, fc_current_step f, fc_previous_cycle f, fc_step_cycles f)"

lemma fc_ok_pos: "fc_pos f = fc_pos g \<Longrightarrow> fc_ok f = fc_ok g"
  by (simp add: fc_ok_def fc_pos_def)

section \<open>The parts of the APU\<close>

definition chans_ok :: "apu \<Rightarrow> bool" where
  "chans_ok a \<longleftrightarrow> square_ok (ap_square1 a) \<and> square_ok (ap_square2 a) \<and> noise_ok (ap_noise a) \<and>
     dmc_ok (ap_dmc a)"

definition timers_at :: "u32 \<Rightarrow> apu \<Rightarrow> bool" where
  "timers_at n a \<longleftrightarrow> tm_previous_cycle (sq_timer (ap_square1 a)) = n \<and>
     tm_previous_cycle (sq_timer (ap_square2 a)) = n \<and> tm_previous_cycle (tr_timer (ap_triangle a)) = n \<and>
     tm_previous_cycle (ns_timer (ap_noise a)) = n \<and> tm_previous_cycle (dm_timer (ap_dmc a)) = n"

text \<open>The members that running does not touch: the clock and the audio queue.\<close>

definition same_clock :: "apu \<Rightarrow> apu \<Rightarrow> bool" where
  "same_clock a a' \<longleftrightarrow> ap_current_cycle a' = ap_current_cycle a \<and>
     ap_apu_enabled a' = ap_apu_enabled a \<and> ap_audio_ring a' = ap_audio_ring a \<and>
     ap_write_index a' = ap_write_index a \<and> ap_read_index a' = ap_read_index a \<and>
     ap_available_frames a' = ap_available_frames a \<and> ap_frame_accumulator a' = ap_frame_accumulator a"

lemma same_clock_refl [simp]: "same_clock a a"
  and same_clock_trans: "same_clock a b \<Longrightarrow> same_clock b c \<Longrightarrow> same_clock a c"
  by (simp_all add: same_clock_def)

text \<open>What a step of the frame counter leaves alone.\<close>

definition fc_frame :: "apu \<Rightarrow> apu \<Rightarrow> bool" where
  "fc_frame a a' \<longleftrightarrow> same_clock a a' \<and> ap_previous_cycle a' = ap_previous_cycle a \<and>
     (\<forall>n. timers_at n a' = timers_at n a) \<and> (chans_ok a \<longrightarrow> chans_ok a')"

lemma fc_frame_refl [simp]: "fc_frame a a"
  and fc_frame_trans: "fc_frame a b \<Longrightarrow> fc_frame b c \<Longrightarrow> fc_frame a c"
  by (auto simp: fc_frame_def same_clock_def)

lemma square_ok_tick:
  "square_ok c \<Longrightarrow> square_ok (c\<lparr>sq_envelope := tick_envelope (sq_envelope c)\<rparr>)"
  by (simp add: square_ok_def tick_envelope_ok)

lemma noise_ok_ops [simp]:
  "noise_ok c \<Longrightarrow> noise_ok (c\<lparr>ns_envelope := tick_envelope (ns_envelope c)\<rparr>)"
  "noise_ok c \<Longrightarrow> noise_ok (noise_upd_length f c)"
  by (simp_all add: noise_ok_def tick_envelope_ok noise_upd_length_def)

lemma noise_upd_timer [simp]: "ns_timer (noise_upd_length f c) = ns_timer c"
  by (simp add: noise_upd_length_def)

lemma tick_linear_timer [simp]: "tr_timer (tick_linear_counter c) = tr_timer c"
  by (simp add: tick_linear_counter_def Let_def)

lemma fc_frame_ops [simp]:
  "fc_frame a (upd_fc g a)"
  "fc_frame a (frame_counter_tick type a)"
  "fc_frame a (apu_reload_lengths a)"
  by (auto simp: fc_frame_def upd_fc_def frame_counter_tick_def apu_reload_lengths_def Let_def
      timers_at_def chans_ok_def same_clock_def square_ok_tick)

lemma fc_frame_upd: "fc_frame a b \<Longrightarrow> fc_frame a (upd_fc g b)"
  by (erule fc_frame_trans) (rule fc_frame_ops)

lemma fc_frame_tick: "fc_frame a b \<Longrightarrow> fc_frame a (fc_tick_apu type b)"
  by (simp add: fc_tick_apu_def fc_frame_upd fc_frame_trans [OF _ fc_frame_ops(2)])

lemma fc_of_upd [simp]: "ap_frame_counter (upd_fc g a) = g (ap_frame_counter a)"
  by (simp add: upd_fc_def)

lemma fc_of_tick [simp]: "fc_pos (ap_frame_counter (fc_tick_apu type a)) = fc_pos (ap_frame_counter a)"
  by (simp add: fc_tick_apu_def frame_counter_tick_def Let_def fc_pos_def)

lemma fc_irq_frame:
  "fc_irq (a, cpu) = (a', cpu') \<Longrightarrow> fc_frame a a' \<and> fc_pos (ap_frame_counter a') = fc_pos (ap_frame_counter a)"
  by (auto simp: fc_irq_def Let_def fc_pos_def split: if_splits)

text \<open>
  \<^verbatim>\<open>run(cycles_to_run)\<close> makes progress, within what it was asked to run, and takes what it
  did off its argument.
\<close>

lemma fc_advance:
  assumes "fc_ok f"
  shows "fc_ok (if fc_current_step f + 1 = 6 then f\<lparr>fc_current_step := 0, fc_previous_cycle := 0\<rparr>
    else f\<lparr>fc_current_step := fc_current_step f + 1,
           fc_previous_cycle := fc_previous_cycle f +
             (STEP_CYCLES ! fc_step_mode f ! fc_current_step f - fc_previous_cycle f)\<rparr>)"
proof (cases "fc_current_step f + 1 = 6")
  case True
  with assms show ?thesis by (simp add: fc_ok_def step_rows)
next
  case False
  with assms have "Suc (fc_current_step f) < 6" by (simp add: fc_ok_def)
  with False assms step_increasing [of "fc_step_mode f" "fc_current_step f"] show ?thesis
    by (simp add: fc_ok_def)
qed

lemma fc_sequence_ok:
  assumes fc: "fc_ok (ap_frame_counter a)" and c: "0 < c"
    and step: "step = STEP_CYCLES ! fc_step_mode (ap_frame_counter a) ! fc_current_step (ap_frame_counter a)"
    and run: "fc_sequence c step type (a, cpu) = ((did, left), a', cpu')"
  shows "1 \<le> did \<and> did \<le> c \<and> left = c - did \<and> fc_ok (ap_frame_counter a') \<and> fc_frame a a'"
proof -
  let ?f = "ap_frame_counter a"
  have m: "fc_step_mode ?f < 2" "fc_current_step ?f < 6" "0 \<le> fc_previous_cycle ?f" "fc_previous_cycle ?f < step"
    using fc by (simp_all add: fc_ok_def step)
  show ?thesis
  proof (cases "fc_previous_cycle ?f + c \<ge> step")
    case True
    obtain b cpu2 where irq: "fc_irq (a, cpu) = (b, cpu2)" by (cases "fc_irq (a, cpu)")
    define b2 where "b2 = (if type \<noteq> FT_NONE then fc_tick_apu type b else b)"
    have b2: "fc_frame a b2" "fc_pos (ap_frame_counter b2) = fc_pos ?f"
      using fc_irq_frame [OF irq] by (simp_all add: b2_def fc_frame_tick)
    then have "fc_ok (ap_frame_counter b2)" using fc fc_ok_pos by blast
    note adv = fc_advance [OF this]
    show ?thesis
      using run True m irq b2 adv step
      by (auto simp: fc_sequence_def Let_def b2_def [symmetric] fc_pos_def intro: fc_frame_upd)
  next
    case False
    with run m fc c show ?thesis by (auto simp: fc_sequence_def fc_ok_def step)
  qed
qed

lemma fc_apply_write_ok:
  "fc_ok (ap_frame_counter a) \<Longrightarrow> fc_ok (ap_frame_counter (fc_apply_write a))"
  "fc_frame a (fc_apply_write a)"
proof -
  have tick: "fc_ok (ap_frame_counter (fc_tick_apu t b)) = fc_ok (ap_frame_counter b)" for t b
    by (rule fc_ok_pos) simp
  show "fc_ok (ap_frame_counter a) \<Longrightarrow> fc_ok (ap_frame_counter (fc_apply_write a))"
    by (simp add: fc_apply_write_def Let_def tick) (simp add: fc_ok_def step_rows)
  show "fc_frame a (fc_apply_write a)"
    by (simp add: fc_apply_write_def Let_def fc_frame_upd fc_frame_tick)
qed

lemma fc_unblock_ok:
  "fc_ok (ap_frame_counter a) \<Longrightarrow> fc_ok (ap_frame_counter (fc_unblock a))" "fc_frame a (fc_unblock a)"
  by (simp_all add: fc_unblock_def fc_ok_def)

lemma fc_run_ok:
  assumes "fc_ok (ap_frame_counter a)" "0 < c"
  shows "ok (fc_run c (a, cpu)) (\<lambda>((did, left), a', cpu'). 1 \<le> did \<and> did \<le> c \<and> left = c - did \<and>
    fc_ok (ap_frame_counter a') \<and> fc_frame a a')"
proof -
  let ?f = "ap_frame_counter a"
  let ?s = "fc_sequence c (STEP_CYCLES ! fc_step_mode ?f ! fc_current_step ?f)
      (FRAME_TYPE ! fc_step_mode ?f ! fc_current_step ?f) (a, cpu)"
  obtain did left a1 cpu1 where s: "?s = ((did, left), a1, cpu1)" by (cases ?s) auto
  note sq = fc_sequence_ok [OF assms refl s]
  have "fc_frame a (fc_unblock (fc_apply_write a1))"
    using sq fc_frame_trans fc_apply_write_ok(2) fc_unblock_ok(2) by blast
  moreover have "fc_step_mode ?f < 2" "fc_current_step ?f < 6" using assms(1) by (simp_all add: fc_ok_def)
  moreover have "fc_step_cycles ?f = STEP_CYCLES" using assms(1) by (simp add: fc_ok_def)
  ultimately show ?thesis
    using sq by (simp add: fc_run_def step_rows s fc_unblock_ok fc_apply_write_ok)
qed

section \<open>Running\<close>

text \<open>The state of the APU between two rounds.\<close>

definition running :: "apu \<Rightarrow> mixer \<Rightarrow> bool" where
  "running a mx \<longleftrightarrow> chans_ok a \<and> fc_ok (ap_frame_counter a) \<and> timers_at (ap_previous_cycle a) a \<and>
     ap_previous_cycle a \<le> ap_current_cycle a \<and> unat (ap_current_cycle a) < CYCLE_LENGTH \<and> mixer_ok mx"

lemma apu_run_channels_ok:
  assumes chans: "chans_ok a" and tm: "timers_at n a" and le: "n \<le> ap_previous_cycle a"
    and lt: "unat (ap_previous_cycle a) < CYCLE_LENGTH" and mx: "mixer_ok mx"
  shows "ok (apu_run_channels (a, mx, cpu)) (\<lambda>(a', mx', cpu'). chans_ok a' \<and>
    timers_at (ap_previous_cycle a') a' \<and> ap_previous_cycle a' = ap_previous_cycle a \<and>
    ap_frame_counter a' = ap_frame_counter a \<and> same_clock a a' \<and> mixer_ok mx')"
proof -
  let ?t = "ap_previous_cycle a"
  have c: "square_ok (ap_square1 a)" "square_ok (ap_square2 a)" "noise_ok (ap_noise a)" "dmc_ok (ap_dmc a)"
    using chans by (simp_all add: chans_ok_def)
  have t: "tm_previous_cycle (sq_timer (ap_square1 a)) \<le> ?t" "tm_previous_cycle (sq_timer (ap_square2 a)) \<le> ?t"
    "tm_previous_cycle (tr_timer (ap_triangle a)) \<le> ?t" "tm_previous_cycle (ns_timer (ap_noise a)) \<le> ?t"
    "tm_previous_cycle (dm_timer (ap_dmc a)) \<le> ?t"
    using tm le by (simp_all add: timers_at_def)
  obtain s1 mx1 where s1: "square_run ?t (ap_square1 a, mx) = Some (s1, mx1)"
    "square_ok s1" "mixer_ok mx1" "tm_previous_cycle (sq_timer s1) = ?t"
    using square_run_ok [OF c(1) mx t(1) lt] by (auto simp: ok_iff)
  obtain s2 mx2 where s2: "square_run ?t (ap_square2 a, mx1) = Some (s2, mx2)"
    "square_ok s2" "mixer_ok mx2" "tm_previous_cycle (sq_timer s2) = ?t"
    using square_run_ok [OF c(2) s1(3) t(2) lt] by (auto simp: ok_iff)
  obtain ns mx3 where ns: "noise_run ?t (ap_noise a, mx2) = Some (ns, mx3)"
    "noise_ok ns" "mixer_ok mx3" "tm_previous_cycle (ns_timer ns) = ?t"
    using noise_run_ok [OF c(3) s2(3) t(4) lt] by (auto simp: ok_iff)
  obtain tr mx4 where tr: "triangle_run ?t (ap_triangle a, mx3) = Some (tr, mx4)"
    "mixer_ok mx4" "tm_previous_cycle (tr_timer tr) = ?t"
    using triangle_run_ok [OF ns(3) t(3) lt] by (auto simp: ok_iff)
  obtain dm mx5 cpu5 where dm: "dmc_run ?t (ap_dmc a, mx4, cpu) = Some (dm, mx5, cpu5)"
    "dmc_ok dm" "mixer_ok mx5" "tm_previous_cycle (dm_timer dm) = ?t"
    using dmc_run_ok [OF c(4) tr(2) t(5) lt, of cpu] by (auto simp: ok_iff)
  show ?thesis
    using s1 s2 ns tr dm
    by (simp add: apu_run_channels_def Let_def chans_ok_def timers_at_def same_clock_def)
qed

lemma apu_round_ok:
  assumes r: "running a mx" and c: "0 < c" "c = int (unat (ap_current_cycle a)) - int (unat (ap_previous_cycle a))"
  shows "ok (apu_round (c, a, mx, cpu)) (\<lambda>(c', a', mx', cpu'). running a' mx' \<and> same_clock a a' \<and>
    c' = int (unat (ap_current_cycle a')) - int (unat (ap_previous_cycle a')) \<and> 0 \<le> c' \<and> c' < c)"
proof -
  obtain did left a1 cpu1 where run: "fc_run c (a, cpu) = Some ((did, left), a1, cpu1)"
    and did: "1 \<le> did" "did \<le> c" "left = c - did" and fc: "fc_ok (ap_frame_counter a1)" and fr: "fc_frame a a1"
    using fc_run_ok [of a c cpu] r c(1) by (auto simp: running_def ok_iff)
  let ?p = "ap_previous_cycle a" and ?a2 = "apu_reload_lengths (a1\<lparr>ap_previous_cycle := ap_previous_cycle a1 + word_of_int did\<rparr>)"
  have cur: "ap_current_cycle a1 = ap_current_cycle a" "ap_previous_cycle a1 = ?p" "timers_at ?p a1" "chans_ok a1"
    using fr r by (simp_all add: fc_frame_def same_clock_def running_def)
  have wd: "(word_of_int did :: u32) = of_nat (nat did)" using did(1) by (simp add: of_nat_nat)
  have "nat did \<le> unat (ap_current_cycle a) - unat ?p" using did(1,2) c(2) by linarith
  moreover have "unat ?p \<le> unat (ap_current_cycle a)" using r by (simp add: running_def word_le_nat_alt)
  ultimately have lec: "unat ?p + nat did \<le> unat (ap_current_cycle a)" by linarith
  moreover have "unat (ap_current_cycle a) < 2 ^ LENGTH(32)" by (rule unsigned_less)
  ultimately have lt: "unat ?p + nat did < 2 ^ LENGTH(32)" by (rule le_less_trans)
  then have "unat (of_nat (nat did) :: u32) = nat did"
    by (simp only: unat_of_nat take_bit_nat_eq_self_iff) simp
  with lt have p2: "unat (?p + word_of_int did) = unat ?p + nat did"
    unfolding wd by (metis unat_add_lem)
  then have "int (unat (?p + word_of_int did)) = int (unat ?p) + did" using did(1) by simp
  then have p2i: "uint (?p + word_of_int did) = uint ?p + did" by simp
  have a2: "chans_ok ?a2" "timers_at ?p ?a2" "ap_previous_cycle ?a2 = ?p + word_of_int did"
    "ap_frame_counter ?a2 = ap_frame_counter a1" "same_clock a1 ?a2"
    using cur by (simp_all add: apu_reload_lengths_def chans_ok_def timers_at_def same_clock_def)
  have "?p \<le> ap_previous_cycle ?a2" by (simp add: a2(3) word_le_nat_alt p2)
  moreover have "unat (ap_previous_cycle ?a2) < CYCLE_LENGTH"
    using lec r by (simp add: a2(3) p2 running_def)
  ultimately have "ok (apu_run_channels (?a2, mx, cpu1)) (\<lambda>(a', mx', cpu'). chans_ok a' \<and>
    timers_at (ap_previous_cycle a') a' \<and> ap_previous_cycle a' = ap_previous_cycle ?a2 \<and>
    ap_frame_counter a' = ap_frame_counter ?a2 \<and> same_clock ?a2 a' \<and> mixer_ok mx')"
    using r by (intro apu_run_channels_ok [OF a2(1,2)]) (simp_all add: running_def)
  moreover have "same_clock a a'" if "same_clock ?a2 a'" for a'
    using that a2(5) fr same_clock_trans by (meson fc_frame_def)
  moreover have "ap_current_cycle a' = ap_current_cycle a" if "same_clock ?a2 a'" for a'
    using that a2(5) cur by (simp add: same_clock_def)
  ultimately show ?thesis
    using run fc r lec did c(2)
    by (auto simp: apu_round_def Let_def running_def a2 p2 p2i word_le_nat_alt elim!: ok_mono)
qed

theorem apu_run_ok:
  assumes "running a mx"
  shows "ok (apu_run (a, mx, cpu)) (\<lambda>(a', mx', cpu'). running a' mx' \<and> same_clock a a' \<and>
    ap_previous_cycle a' = ap_current_cycle a)"
proof -
  let ?c = "\<lambda>a. int (unat (ap_current_cycle a)) - int (unat (ap_previous_cycle a))"
  have le: "ap_previous_cycle a \<le> ap_current_cycle a" "unat (ap_current_cycle a) < CYCLE_LENGTH"
    using assms by (simp_all add: running_def)
  have d: "unat (ap_current_cycle a - ap_previous_cycle a) = unat (ap_current_cycle a) - unat (ap_previous_cycle a)"
    using le(1) by (rule unat_diff_le)
  have "unat (ap_current_cycle a - ap_previous_cycle a) < 2 ^ 31"
    using le(2) by (simp add: d CYCLE_LENGTH_def)
  then have "sint (ap_current_cycle a - ap_previous_cycle a) = int (unat (ap_current_cycle a - ap_previous_cycle a))"
    by (rule sint_small32)
  then have s: "sint (ap_current_cycle a - ap_previous_cycle a) = ?c a"
    using le(1) unfolding d by (simp only: word_le_nat_alt of_nat_diff)
  have z: "0 \<le> ?c a" using le(1) unfolding word_le_nat_alt by linarith
  have "ok (while_loop (\<lambda>(cycles_to_run, _). cycles_to_run > 0) apu_round (?c a, a, mx, cpu))
    (\<lambda>(c', a', mx', cpu'). running a' mx' \<and> same_clock a a' \<and> ap_previous_cycle a' = ap_current_cycle a)"
  proof (rule while_loop_ok [where I = "\<lambda>(c', a', mx', cpu'). running a' mx' \<and> same_clock a a' \<and> c' = ?c a' \<and> 0 \<le> c'"
        and m = "\<lambda>s. nat (fst s)"])
    show "case (?c a, a, mx, cpu) of (c', a', mx', cpu') \<Rightarrow> running a' mx' \<and> same_clock a a' \<and> c' = ?c a' \<and> 0 \<le> c'"
      using assms z by simp
  next
    fix s :: "int \<times> apu \<times> mixer \<times> cpu"
    assume I: "case s of (c', a', mx', cpu') \<Rightarrow> running a' mx' \<and> same_clock a a' \<and> c' = ?c a' \<and> 0 \<le> c'"
      and b: "case s of (cycles_to_run, _) \<Rightarrow> cycles_to_run > 0"
    obtain c' a' mx' cpu' where s: "s = (c', a', mx', cpu')" by (cases s)
    have r: "running a' mx'" "same_clock a a'" "c' = ?c a'" "0 < c'" using I b by (simp_all add: s)
    show "ok (apu_round s) (\<lambda>s'. (case s' of (c', a', mx', cpu') \<Rightarrow> running a' mx' \<and> same_clock a a' \<and>
        c' = ?c a' \<and> 0 \<le> c') \<and> nat (fst s') < nat (fst s))"
      unfolding s
      by (rule ok_mono [OF apu_round_ok [OF r(1) r(4) r(3)]]) (use r same_clock_trans in \<open>auto\<close>)
  next
    fix s :: "int \<times> apu \<times> mixer \<times> cpu"
    assume I: "case s of (c', a', mx', cpu') \<Rightarrow> running a' mx' \<and> same_clock a a' \<and> c' = ?c a' \<and> 0 \<le> c'"
      and b: "\<not> (case s of (cycles_to_run, _) \<Rightarrow> cycles_to_run > 0)"
    then show "case s of (c', a', mx', cpu') \<Rightarrow> running a' mx' \<and> same_clock a a' \<and> ap_previous_cycle a' = ap_current_cycle a"
      by (auto simp: same_clock_def word_uint_eq_iff)
  qed
  then show ?thesis by (auto simp: apu_run_def s elim!: ok_mono)
qed

section \<open>The invariant between CPU cycles\<close>

text \<open>The audio queue: eight slots, \<open>available_frames_\<close> of them from \<open>read_index_\<close> on.\<close>

definition ring_ok :: "apu \<Rightarrow> bool" where
  "ring_ok a \<longleftrightarrow> length (ap_audio_ring a) = MAX_AUDIO_FRAMES \<and> ap_read_index a < MAX_AUDIO_FRAMES \<and>
     ap_available_frames a \<le> MAX_AUDIO_FRAMES \<and>
     ap_write_index a = (ap_read_index a + ap_available_frames a) mod MAX_AUDIO_FRAMES"

definition apu_ok :: "apu \<Rightarrow> mixer \<Rightarrow> bool" where
  "apu_ok a mx \<longleftrightarrow> running a mx \<and> unat (ap_current_cycle a) < CYCLE_LENGTH - 1 \<and> ring_ok a"

lemma apu_ok_run:
  assumes "apu_ok a mx"
  shows "ok (apu_run (a, mx, cpu)) (\<lambda>(a', mx', cpu'). apu_ok a' mx' \<and> same_clock a a' \<and>
    ap_previous_cycle a' = ap_current_cycle a')"
proof -
  have "running a mx" using assms by (simp add: apu_ok_def)
  from apu_run_ok [OF this, of cpu] assms show ?thesis
    by (auto simp: apu_ok_def ring_ok_def same_clock_def elim!: ok_mono)
qed

lemma running_upd:
  "running a mx \<Longrightarrow> dmc_ok d \<Longrightarrow> tm_previous_cycle (dm_timer d) = tm_previous_cycle (dm_timer (ap_dmc a)) \<Longrightarrow>
   running (a\<lparr>ap_dmc := d\<rparr>) mx"
  by (auto simp: running_def chans_ok_def timers_at_def)

lemma end_frame_timers:
  "running a mx \<Longrightarrow> running ((apu_timers_end_frame a)\<lparr>ap_current_cycle := 0, ap_previous_cycle := 0\<rparr>) mx"
  by (auto simp: running_def chans_ok_def timers_at_def apu_timers_end_frame_def timer_end_frame_def
      noise_ok_def dmc_ok_def CYCLE_LENGTH_def)

lemma end_frame_clock [simp]:
  "ap_current_cycle (apu_timers_end_frame a) = ap_current_cycle a"
  "ring_ok ((apu_timers_end_frame a)\<lparr>ap_current_cycle := x, ap_previous_cycle := y\<rparr>) = ring_ok a"
  by (simp_all add: apu_timers_end_frame_def ring_ok_def)

lemma running_mixer: "running a mx \<Longrightarrow> mixer_ok mx' \<Longrightarrow> running a mx'"
  by (simp add: running_def)

lemma running_accumulator [simp]:
  "running (a\<lparr>ap_frame_accumulator := x\<rparr>) mx = running a mx"
  by (simp add: running_def chans_ok_def timers_at_def)

theorem apu_end_frame_ok:
  assumes "running a mx" "ring_ok a"
  shows "ok (apu_end_frame E (a, mx, cpu)) (\<lambda>(a', mx', cpu'). apu_ok a' mx' \<and> ap_current_cycle a' = 0)"
proof -
  obtain dm cpu1 where dm: "dmc_process_clock (ap_dmc a, cpu) = (dm, cpu1)"
    by (cases "dmc_process_clock (ap_dmc a, cpu)")
  have d: "dmc_ok dm" "dm_timer dm = dm_timer (ap_dmc a)"
    using dmc_ops_ok(3) [OF _ dm] assms(1) by (simp_all add: running_def chans_ok_def)
  have "running (a\<lparr>ap_dmc := dm\<rparr>) mx" using assms(1) d by (intro running_upd) simp_all
  then obtain a1 mx1 cpu2 where run: "apu_run (a\<lparr>ap_dmc := dm\<rparr>, mx, cpu1) = Some (a1, mx1, cpu2)"
    "running a1 mx1" "same_clock (a\<lparr>ap_dmc := dm\<rparr>) a1"
    using apu_run_ok by (fastforce simp: ok_iff)
  have ring: "ring_ok a1" using assms(2) run(3) by (simp add: ring_ok_def same_clock_def)
  obtain mx2 where mx2: "play_audio_buffer E (ap_current_cycle a1) mx1 = Some mx2" "mixer_at 0 537 mx2"
    using play_audio_buffer_ok [of mx1 "ap_current_cycle a1" E] run(2) by (auto simp: running_def ok_iff)
  let ?a2 = "(apu_timers_end_frame a1)\<lparr>ap_current_cycle := 0, ap_previous_cycle := 0\<rparr>"
  obtain mx3 where mx3: "consume_samples (mx_sample_count mx2) mx2 = Some mx3" "mixer_ok mx3"
    using consume_all_ok [OF mx2(2)] by (auto simp: ok_iff)
  have a2: "running ?a2 mx3" "ring_ok ?a2"
    using running_mixer [OF end_frame_timers [OF run(2)] mx3(2)] ring by simp_all
  have idle: "mx_sample_count mx2 = 0 \<Longrightarrow> running ?a2 mx2"
    using running_mixer [OF a2(1), of mx2] mx2(2) by (simp add: mixer_ok_def mixer_at_def)
  have rw: "ring_ok (a\<lparr>ap_frame_accumulator := x\<rparr>) = ring_ok a" for a x by (simp add: ring_ok_def)
  show ?thesis
    using run mx2 mx3 a2 idle running_mixer [OF a2(1) mx3(2)]
    by (simp add: apu_end_frame_def Let_def dm apu_ok_def CYCLE_LENGTH_def rw)
qed

lemma fc_need_to_run_ok: "fc_ok f \<Longrightarrow> ok (fc_need_to_run n f) (\<lambda>_. True)"
  by (auto simp: fc_need_to_run_def fc_ok_def step_rows)

lemma apu_need_to_run_ok:
  assumes "apu_ok a mx"
  shows "ok (apu_need_to_run n (a, cpu)) (\<lambda>(need, a', cpu'). apu_ok a' mx \<and>
    ap_current_cycle a' = ap_current_cycle a)"
proof -
  obtain need dm cpu1 where d: "dmc_need_to_run (ap_dmc a, cpu) = (need, dm, cpu1)"
    by (cases "dmc_need_to_run (ap_dmc a, cpu)") auto
  obtain dm2 cpu2 where d2: "dmc_process_clock (ap_dmc a, cpu) = (dm2, cpu2)"
    by (cases "dmc_process_clock (ap_dmc a, cpu)")
  have od: "dmc_ok (ap_dmc a)" using assms by (simp add: apu_ok_def running_def chans_ok_def)
  have dm: "dmc_ok dm" "dm_timer dm = dm_timer (ap_dmc a)"
    using d od dmc_ops_ok(3) [OF od d2] by (auto simp: dmc_need_to_run_def d2 split: if_splits)
  have "running (a\<lparr>ap_dmc := dm\<rparr>) mx" using assms dm by (intro running_upd) (simp_all add: apu_ok_def)
  then have a1: "apu_ok (a\<lparr>ap_dmc := dm\<rparr>) mx" using assms by (simp add: apu_ok_def ring_ok_def)
  have "apu_ok (a\<lparr>ap_dmc := dm, ap_need_to_run := x\<rparr>) mx" for x
    using a1 by (simp add: apu_ok_def running_def ring_ok_def chans_ok_def timers_at_def)
  moreover have "fc_ok (ap_frame_counter a)" using assms by (simp add: apu_ok_def running_def)
  ultimately show ?thesis
    using a1 by (auto simp: apu_need_to_run_def Let_def d intro!: ok_mono [OF fc_need_to_run_ok])
qed

text \<open>One CPU cycle of the APU: it returns, and the audio frame never overflows.\<close>

theorem apu_process_cpu_clock_ok:
  assumes "apu_ok a mx"
  shows "ok (apu_process_cpu_clock E (a, mx, cpu)) (\<lambda>(a', mx', cpu'). apu_ok a' mx')"
proof (cases "ap_apu_enabled a")
  case False
  with assms show ?thesis by (simp add: apu_process_cpu_clock_def)
next
  case True
  let ?a = "a\<lparr>ap_current_cycle := ap_current_cycle a + 1\<rparr>"
  have u: "unat (ap_current_cycle a + 1) = unat (ap_current_cycle a) + 1"
    using assms(1) by (simp add: apu_ok_def CYCLE_LENGTH_def unat_word_ariths)
  have r: "running ?a mx"
    using assms(1) u by (simp add: apu_ok_def running_def chans_ok_def timers_at_def word_le_nat_alt CYCLE_LENGTH_def)
  have ring: "ring_ok ?a" using assms(1) by (simp add: apu_ok_def ring_ok_def)
  show ?thesis
  proof (cases "unat (ap_current_cycle a) + 1 = CYCLE_LENGTH - 1")
    case True
    with \<open>ap_apu_enabled a\<close> show ?thesis
      using apu_end_frame_ok [OF r ring, of E cpu]
      by (auto simp: apu_process_cpu_clock_def u elim!: ok_mono)
  next
    case False
    then have a: "apu_ok ?a mx" using assms(1) r ring u by (simp add: apu_ok_def)
    from False \<open>ap_apu_enabled a\<close> show ?thesis
      by (auto simp: apu_process_cpu_clock_def Let_def u
          intro!: ok_mono [OF apu_need_to_run_ok [OF a]] elim!: ok_mono [OF apu_ok_run])
  qed
qed

section \<open>Registers\<close>

lemma add_need_ok [simp]: "apu_ok (add_need n a) mx = apu_ok a mx"
  by (simp add: apu_ok_def add_need_def running_def chans_ok_def timers_at_def ring_ok_def)

theorem apu_read_ram_ok:
  "apu_ok a mx \<Longrightarrow> ok (apu_read_ram ob addr (a, mx, cpu)) (\<lambda>(v, a', mx', cpu'). apu_ok a' mx')"
  by (auto simp: apu_read_ram_def intro!: ok_mono [OF apu_ok_run])

lemma apu_ok_replace:
  assumes "apu_ok a mx" "mixer_ok mx'"
  shows "square_ok c \<Longrightarrow> tm_previous_cycle (sq_timer c) = tm_previous_cycle (sq_timer (ap_square1 a)) \<Longrightarrow>
      apu_ok (a\<lparr>ap_square1 := c\<rparr>) mx'"
    "square_ok c \<Longrightarrow> tm_previous_cycle (sq_timer c) = tm_previous_cycle (sq_timer (ap_square2 a)) \<Longrightarrow>
      apu_ok (a\<lparr>ap_square2 := c\<rparr>) mx'"
    "tm_previous_cycle (tr_timer t) = tm_previous_cycle (tr_timer (ap_triangle a)) \<Longrightarrow>
      apu_ok (a\<lparr>ap_triangle := t\<rparr>) mx'"
    "noise_ok n \<Longrightarrow> tm_previous_cycle (ns_timer n) = tm_previous_cycle (ns_timer (ap_noise a)) \<Longrightarrow>
      apu_ok (a\<lparr>ap_noise := n\<rparr>) mx'"
    "dmc_ok d \<Longrightarrow> tm_previous_cycle (dm_timer d) = tm_previous_cycle (dm_timer (ap_dmc a)) \<Longrightarrow>
      apu_ok (a\<lparr>ap_dmc := d\<rparr>) mx'"
  using assms by (simp_all add: apu_ok_def running_def chans_ok_def timers_at_def ring_ok_def)

lemma apu_ok_parts:
  assumes "apu_ok a mx"
  shows "square_ok (ap_square1 a)" "square_ok (ap_square2 a)" "noise_ok (ap_noise a)" "dmc_ok (ap_dmc a)"
    "mixer_ok mx" "unat (tm_previous_cycle (sq_timer (ap_square1 a))) < CYCLE_LENGTH"
    "unat (tm_previous_cycle (sq_timer (ap_square2 a))) < CYCLE_LENGTH"
    "unat (tm_previous_cycle (dm_timer (ap_dmc a))) < CYCLE_LENGTH"
  using assms by (auto simp: apu_ok_def running_def chans_ok_def timers_at_def word_le_nat_alt)

lemma apu_ok_fc:
  assumes "apu_ok a mx" "\<And>f. fc_pos (g f) = fc_pos f"
  shows "apu_ok (upd_fc g a) mx"
  using assms fc_ok_pos [of "g (ap_frame_counter a)" "ap_frame_counter a"]
  by (simp add: apu_ok_def running_def chans_ok_def timers_at_def ring_ok_def upd_fc_def)

lemma apu_enabled_sel:
  "ap_square1 (apu_set_enabled v cpu a) = square_upd_length (lc_set_enabled (v AND 0x01 = 0x01)) (ap_square1 a)"
  "ap_square2 (apu_set_enabled v cpu a) = square_upd_length (lc_set_enabled (v AND 0x02 = 0x02)) (ap_square2 a)"
  "tr_timer (ap_triangle (apu_set_enabled v cpu a)) = tr_timer (ap_triangle a)"
  "ap_noise (apu_set_enabled v cpu a) = noise_upd_length (lc_set_enabled (v AND 0x08 = 0x08)) (ap_noise a)"
  "ap_dmc (apu_set_enabled v cpu a) = dmc_set_enabled (v AND 0x10 = 0x10) (ap_dmc a, cpu)"
  "ap_frame_counter (apu_set_enabled v cpu a) = ap_frame_counter a"
  "ap_previous_cycle (apu_set_enabled v cpu a) = ap_previous_cycle a"
  "ap_current_cycle (apu_set_enabled v cpu a) = ap_current_cycle a"
  "ap_audio_ring (apu_set_enabled v cpu a) = ap_audio_ring a"
  "ap_write_index (apu_set_enabled v cpu a) = ap_write_index a"
  "ap_read_index (apu_set_enabled v cpu a) = ap_read_index a"
  "ap_available_frames (apu_set_enabled v cpu a) = ap_available_frames a"
  by (simp_all add: apu_set_enabled_def)

theorem apu_write_ram_ok:
  assumes a: "apu_ok a mx"
  shows "ok (apu_write_ram addr v (a, mx, cpu)) (\<lambda>(a', mx', cpu'). apu_ok a' mx')"
proof -
  have status: "apu_ok (apu_set_enabled v cpu' a') mx'" if "apu_ok a' mx'" for a' mx' cpu'
    using that unfolding apu_ok_def running_def chans_ok_def timers_at_def ring_ok_def apu_enabled_sel
    by (simp add: dmc_ops_ok(2))
  have fcw: "ok (fc_write_ram v (a, mx, cpu)) (\<lambda>(a', mx', cpu'). apu_ok a' mx')"
    unfolding fc_write_ram_def Let_def
    by (auto intro!: ok_mono [OF apu_ok_run [OF a]] apu_ok_fc simp: fc_pos_def)
  have sq1: "ok (square_write_ram addr v (ap_square1 a', mx')) (\<lambda>(need, c', mx''). apu_ok (a'\<lparr>ap_square1 := c'\<rparr>) mx'')"
    if "apu_ok a' mx'" for a' mx'
    by (rule ok_mono [OF square_write_ram_ok]) (use apu_ok_parts [OF that] apu_ok_replace(1) [OF that] in auto)
  have sq2: "ok (square_write_ram addr v (ap_square2 a', mx')) (\<lambda>(need, c', mx''). apu_ok (a'\<lparr>ap_square2 := c'\<rparr>) mx'')"
    if "apu_ok a' mx'" for a' mx'
    by (rule ok_mono [OF square_write_ram_ok]) (use apu_ok_parts [OF that] apu_ok_replace(2) [OF that] in auto)
  have tr: "ok (triangle_write_ram addr v (ap_triangle a')) (\<lambda>(need, c'). apu_ok (a'\<lparr>ap_triangle := c'\<rparr>) mx')"
    if "apu_ok a' mx'" for a' mx'
    by (rule ok_mono [OF triangle_write_ram_ok]) (use apu_ok_parts [OF that] apu_ok_replace(3) [OF that] in auto)
  have ns: "ok (noise_write_ram addr v (ap_noise a')) (\<lambda>(need, c'). apu_ok (a'\<lparr>ap_noise := c'\<rparr>) mx')"
    if "apu_ok a' mx'" for a' mx'
    by (rule ok_mono [OF noise_write_ram_ok]) (use apu_ok_parts [OF that] apu_ok_replace(4) [OF that] in auto)
  have dm: "ok (dmc_write_ram addr v (ap_dmc a', mx', cpu')) (\<lambda>(c', mx'', cpu''). apu_ok (a'\<lparr>ap_dmc := c'\<rparr>) mx'')"
    if "apu_ok a' mx'" for a' mx' cpu'
    by (rule ok_mono [OF dmc_write_ram_ok]) (use apu_ok_parts [OF that] apu_ok_replace(5) [OF that] in auto)
  have run: "(\<And>a' mx' cpu'. apu_ok a' mx' \<Longrightarrow> ok (k a' mx' cpu') Q) \<Longrightarrow>
      ok (Option.bind (apu_run (a, mx, cpu)) (\<lambda>(a', mx', cpu'). k a' mx' cpu')) Q" for k Q
    by (rule ok_bindI [OF apu_ok_run [OF a]]) auto
  show ?thesis
    unfolding apu_write_ram_def Let_def
    apply (intro ok_ifI run fcw)
    apply (simp add: status)
    apply (rule ok_bindI [OF sq1], assumption, clarsimp)
    apply (rule ok_bindI [OF sq2], assumption, clarsimp)
    apply (rule ok_bindI [OF tr], assumption, clarsimp)
    apply (rule ok_bindI [OF ns], assumption, clarsimp)
    apply (rule ok_bindI [OF dm], assumption, clarsimp)
    apply (simp add: a)
    done
qed

lemma apu_set_dmc_read_buffer_ok:
  assumes "apu_ok a mx" "apu_set_dmc_read_buffer v (a, cpu) = (a', cpu')"
  shows "apu_ok a' mx"
proof -
  obtain d c where d: "set_dmc_read_buffer v (ap_dmc a, cpu) = (d, c)" by (cases "set_dmc_read_buffer v (ap_dmc a, cpu)")
  have "dmc_ok d \<and> dm_timer d = dm_timer (ap_dmc a)"
    using dmc_ops_ok(4) [OF apu_ok_parts(4) [OF assms(1)] d] .
  then have "apu_ok (a\<lparr>ap_dmc := d\<rparr>) mx"
    by (intro apu_ok_replace(5) [OF assms(1) apu_ok_parts(5) [OF assms(1)]]) simp_all
  with assms(2) show ?thesis by (auto simp: apu_set_dmc_read_buffer_def d)
qed

lemma reset_parts:
  "square_ok (square_reset soft c)" "tm_previous_cycle (sq_timer (square_reset soft c)) = 0"
  "tm_previous_cycle (tr_timer (triangle_reset soft t)) = 0"
  "noise_ok (noise_reset soft n)" "tm_previous_cycle (ns_timer (noise_reset soft n)) = 0"
  "fc_step_mode f < 2 \<Longrightarrow> fc_ok (fc_reset soft f)"
proof -
  have "square_ok (c\<lparr>sq_envelope := env_reset soft e, sq_timer := t, sq_duty := 0, sq_duty_pos := 0,
      sq_real_period := p, sq_sweep_enabled := False, sq_sweep_period := 0, sq_sweep_negate := False,
      sq_sweep_shift := 0, sq_reload_sweep := False, sq_sweep_divider := 0,
      sq_sweep_target_period := 0\<rparr>)" for e t p
    unfolding square_ok_def by simp
  then show "square_ok (square_reset soft c)" by (simp add: square_reset_def)
  show "tm_previous_cycle (sq_timer (square_reset soft c)) = 0"
    "tm_previous_cycle (tr_timer (triangle_reset soft t)) = 0"
    "tm_previous_cycle (ns_timer (noise_reset soft n)) = 0"
    by (simp_all add: square_reset_def triangle_reset_def noise_reset_def timer_reset_def)
  have "lfsr_ok 1" by (auto simp: lfsr_ok_def bit_1_iff)
  then show "noise_ok (noise_reset soft n)" by (simp add: noise_reset_def noise_ok_def)
  show "fc_step_mode f < 2 \<Longrightarrow> fc_ok (fc_reset soft f)"
    by (simp add: fc_reset_def fc_ok_def step_rows Let_def)
qed

lemma apu_reset_sel:
  "ap_square1 (apu_reset soft a) = square_reset soft (ap_square1 a)"
  "ap_square2 (apu_reset soft a) = square_reset soft (ap_square2 a)"
  "ap_triangle (apu_reset soft a) = triangle_reset soft (ap_triangle a)"
  "ap_noise (apu_reset soft a) = noise_reset soft (ap_noise a)"
  "ap_dmc (apu_reset soft a) = dmc_reset soft (ap_dmc a)"
  "ap_frame_counter (apu_reset soft a) = fc_reset soft (ap_frame_counter a)"
  "ap_previous_cycle (apu_reset soft a) = 0" "ap_current_cycle (apu_reset soft a) = 0"
  "ap_audio_ring (apu_reset soft a) = map (\<lambda>_. empty_frame) (ap_audio_ring a)"
  "ap_write_index (apu_reset soft a) = 0" "ap_read_index (apu_reset soft a) = 0"
  "ap_available_frames (apu_reset soft a) = 0"
  by (simp_all add: apu_reset_def)

lemma apu_reset_running:
  assumes "fc_step_mode (ap_frame_counter a) < 2" "length (ap_audio_ring a) = MAX_AUDIO_FRAMES" "mixer_ok mx"
  shows "apu_ok (apu_reset soft a) mx"
proof -
  have "running (apu_reset soft a) mx"
    unfolding running_def chans_ok_def timers_at_def apu_reset_sel
    using assms reset_parts dmc_ops_ok(1) by (simp add: CYCLE_LENGTH_def)
  moreover have "ring_ok (apu_reset soft a)"
    using assms(2) by (simp add: ring_ok_def apu_reset_sel MAX_AUDIO_FRAMES_def)
  ultimately show ?thesis by (simp add: apu_ok_def apu_reset_sel CYCLE_LENGTH_def)
qed

lemma apu_reset_ok: "apu_ok a mx \<Longrightarrow> apu_ok (apu_reset soft a) mx"
  by (rule apu_reset_running) (auto simp: apu_ok_def running_def fc_ok_def ring_ok_def)

lemma new_apu_ok: "mixer_ok mx \<Longrightarrow> apu_ok new_apu mx"
  unfolding new_apu_def
  by (rule apu_reset_running) (simp_all add: new_frame_counter_def fc_reset_def)

end
