(* ===== verification/Apu_Sequencer.thy ===== *)
theory Apu_Sequencer
  imports Apu_Facts
begin

text \<open>
  The frame counter as a clock: an abstract sequencer that counts CPU cycles, delays the writes to $4017
  and raises the frame IRQ, and the proof that running the APU moves it. Also the part of the CPU
  that running the APU leaves alone.
\<close>

section \<open>The sequencer\<close>

text \<open>
  The position counts CPU cycles from the start of the sequence of the mode (0 for four steps, 1 for five). A pending write
  holds the mode it selects and the cycles until it takes effect. The flag is that of $4015, the line that of
  the CPU.
\<close>

record sequencer =
  fs_mode :: nat
  fs_position :: int
  fs_pending :: "(nat \<times> nat) option"
  fs_inhibit :: bool
  fs_flag :: bool
  fs_line :: bool

definition seq_length :: "nat \<Rightarrow> int" where
  "seq_length mode = (if mode = 0 then 29830 else 37282)"

text \<open>The move to position \<open>p\<close>: the last three cycles of the four-step sequence raise the IRQ.\<close>

definition seq_move :: "int \<Rightarrow> sequencer \<Rightarrow> sequencer" where
  "seq_move p s =
     (let late = (fs_mode s = 0 \<and> 29828 \<le> p)
      in s\<lparr>fs_position := p mod seq_length (fs_mode s),
           fs_flag := (if late then \<not> fs_inhibit s \<or> p < 29830 else fs_flag s),
           fs_line := (fs_line s \<or> late \<and> \<not> fs_inhibit s)\<rparr>)"

definition seq_apply :: "sequencer \<Rightarrow> sequencer" where
  "seq_apply s =
     (case fs_pending s of
        None \<Rightarrow> s
      | Some (m, d) \<Rightarrow> if d = 1 then s\<lparr>fs_mode := m, fs_position := 0, fs_pending := None\<rparr>
                      else s\<lparr>fs_pending := Some (m, d - 1)\<rparr>)"

definition seq_clock :: "sequencer \<Rightarrow> sequencer" where
  "seq_clock s = seq_apply (seq_move (fs_position s + 1) s)"

section \<open>The frame counter as a sequencer\<close>

text \<open>What a counter that lags behind its clock by some cycles stands for.\<close>

definition counter_view :: "frame_counter \<Rightarrow> cpu \<Rightarrow> int \<Rightarrow> sequencer" where
  "counter_view f cpu lag =
     \<lparr>fs_mode = fc_step_mode f, fs_position = fc_previous_cycle f + lag,
      fs_pending = (if fc_new_value f < 0 then None
        else Some (if fc_new_value f AND 0x80 = 0x80 then 1 else 0, unat (fc_write_delay_counter f))),
      fs_inhibit = fc_inhibit_irq f, fs_flag = fc_irq_flag f, fs_line = has_irq_source irq_FRAME_COUNTER cpu\<rparr>"

text \<open>The counter waits for the first step behind its position; a pending write has cycles to wait.\<close>

definition fc_at :: "frame_counter \<Rightarrow> bool" where
  "fc_at f \<longleftrightarrow> (fc_current_step f = 0 \<or> STEP_CYCLES ! fc_step_mode f ! (fc_current_step f - 1) \<le> fc_previous_cycle f) \<and>
     (0 \<le> fc_new_value f \<longrightarrow> fc_write_delay_counter f \<noteq> 0)"

abbreviation fc_step :: "frame_counter \<Rightarrow> int" where
  "fc_step f \<equiv> STEP_CYCLES ! fc_step_mode f ! fc_current_step f"

text \<open>The members that the ticks to the channels leave alone.\<close>

definition fc_key :: "frame_counter \<Rightarrow> nat \<times> nat \<times> int \<times> int \<times> u8 \<times> bool \<times> bool" where
  "fc_key f = (fc_step_mode f, fc_current_step f, fc_previous_cycle f, fc_new_value f, fc_write_delay_counter f,
     fc_inhibit_irq f, fc_irq_flag f)"

lemma fc_key_facts:
  "fc_key f = fc_key g \<Longrightarrow> fc_at f = fc_at g" "fc_key f = fc_key g \<Longrightarrow> counter_view f cpu n = counter_view g cpu n"
  by (simp_all add: fc_key_def fc_at_def counter_view_def)

lemma fc_key_tick [simp]: "fc_key (ap_frame_counter (fc_tick_apu type a)) = fc_key (ap_frame_counter a)"
  by (simp add: fc_tick_apu_def frame_counter_tick_def Let_def fc_key_def)

lemma fc_key_unblock [simp]: "fc_key (ap_frame_counter (fc_unblock a)) = fc_key (ap_frame_counter a)"
  by (simp add: fc_unblock_def fc_key_def)

lemma fc_key_reload [simp]: "ap_frame_counter (apu_reload_lengths a) = ap_frame_counter a"
  by (simp add: apu_reload_lengths_def)

lemma steps_within:
  assumes "m < 2" "k < 6"
  shows "STEP_CYCLES ! m ! k \<le> seq_length m" "k = 5 \<Longrightarrow> STEP_CYCLES ! m ! k = seq_length m"
    "k \<noteq> 5 \<Longrightarrow> STEP_CYCLES ! m ! k < seq_length m" "m = 0 \<Longrightarrow> 29828 \<le> STEP_CYCLES ! m ! k \<longleftrightarrow> 3 \<le> k"
    "m = 0 \<Longrightarrow> STEP_CYCLES ! m ! k < 29830 \<longleftrightarrow> k \<noteq> 5"
proof -
  have "\<forall>m < 2. \<forall>k < 6. STEP_CYCLES ! m ! k \<le> seq_length m \<and> (k = 5 \<longrightarrow> STEP_CYCLES ! m ! k = seq_length m) \<and>
      (k \<noteq> 5 \<longrightarrow> STEP_CYCLES ! m ! k < seq_length m) \<and> (m = 0 \<longrightarrow> (29828 \<le> STEP_CYCLES ! m ! k \<longleftrightarrow> 3 \<le> k)) \<and>
      (m = 0 \<longrightarrow> (STEP_CYCLES ! m ! k < 29830 \<longleftrightarrow> k \<noteq> 5))"
    by (simp add: seq_length_def STEP_CYCLES_def numeral_eq_Suc less_Suc_eq)
  with assms show "STEP_CYCLES ! m ! k \<le> seq_length m" "k = 5 \<Longrightarrow> STEP_CYCLES ! m ! k = seq_length m"
    "k \<noteq> 5 \<Longrightarrow> STEP_CYCLES ! m ! k < seq_length m" "m = 0 \<Longrightarrow> 29828 \<le> STEP_CYCLES ! m ! k \<longleftrightarrow> 3 \<le> k"
    "m = 0 \<Longrightarrow> STEP_CYCLES ! m ! k < 29830 \<longleftrightarrow> k \<noteq> 5" by blast+
qed

text \<open>The three last steps lie one cycle apart, so that no cycle between two of them is late.\<close>

lemma before_step_early:
  assumes "fc_ok f" "fc_at f" "fc_step_mode f = 0" "fc_previous_cycle f < p" "p < fc_step f"
  shows "p < 29828"
proof -
  have "\<forall>k < 6. k < 4 \<and> STEP_CYCLES ! 0 ! k \<le> 29828 \<or>
      k \<noteq> 0 \<and> STEP_CYCLES ! 0 ! k = STEP_CYCLES ! 0 ! (k - 1) + 1"
    by (simp add: STEP_CYCLES_def numeral_eq_Suc less_Suc_eq)
  moreover have "fc_current_step f < 6" using assms(1) by (simp add: fc_ok_def)
  ultimately consider "fc_step f \<le> 29828"
    | "fc_current_step f \<noteq> 0" "fc_step f = STEP_CYCLES ! 0 ! (fc_current_step f - 1) + 1"
    using assms(3) by auto
  then show ?thesis
  proof cases
    case 2
    then have "fc_step f \<le> fc_previous_cycle f + 1" using assms(2,3) by (simp add: fc_at_def)
    with assms(4,5) show ?thesis by simp
  qed (use assms(5) in simp)
qed

lemma fc_irq_view:
  assumes "fc_irq (a, cpu) = (b, cpu2)"
  shows "\<exists>c g. ap_frame_counter b = (ap_frame_counter a)\<lparr>fc_irq_flag_clear_clock := c, fc_irq_flag := g\<rparr> \<and>
    (let f = ap_frame_counter a; late = (fc_step_mode f = 0 \<and> 3 \<le> fc_current_step f) in
     g = (if late then \<not> fc_inhibit_irq f \<or> fc_current_step f \<noteq> 5 else fc_irq_flag f) \<and>
     (has_irq_source irq_FRAME_COUNTER cpu2 \<longleftrightarrow> has_irq_source irq_FRAME_COUNTER cpu \<or> late \<and> \<not> fc_inhibit_irq f))"
  using assms
  by (intro exI [of _ "fc_irq_flag_clear_clock (ap_frame_counter b)"] exI [of _ "fc_irq_flag (ap_frame_counter b)"])
    (auto simp: fc_irq_def Let_def has_set_irq_source irq_FRAME_COUNTER_def split: if_splits)

text \<open>The first part of a round that ends at the next step or before it.\<close>

lemma fc_sequence_view:
  fixes a :: apu
  assumes fc: "fc_ok (ap_frame_counter a)" "fc_at (ap_frame_counter a)"
    and c: "0 < c" "fc_previous_cycle (ap_frame_counter a) + c \<le> fc_step (ap_frame_counter a)"
    and run: "fc_sequence c (fc_step (ap_frame_counter a)) type (a, cpu) = (did, a1, cpu1)"
  shows "did = (c, 0) \<and> fc_at (ap_frame_counter a1) \<and>
    counter_view (ap_frame_counter a1) cpu1 0 =
      seq_move (fc_previous_cycle (ap_frame_counter a) + c) (counter_view (ap_frame_counter a) cpu 0)"
proof -
  let ?f = "ap_frame_counter a" and ?p = "fc_previous_cycle (ap_frame_counter a) + c"
  have m: "fc_step_mode ?f < 2" "fc_current_step ?f < 6" "0 \<le> fc_previous_cycle ?f"
    using fc(1) by (simp_all add: fc_ok_def)
  note st = steps_within [OF m(1,2)]
  show ?thesis
  proof (cases "?p = fc_step ?f")
    case False
    then have lt: "?p < fc_step ?f" using c(2) by simp
    then have "?p mod seq_length (fc_step_mode ?f) = ?p"
      using st(1) m(3) c(1) by (intro mod_pos_pos_trivial) simp_all
    moreover have "\<not> (fc_step_mode ?f = 0 \<and> 29828 \<le> ?p)" using before_step_early [OF fc _ _ lt] c(1) by auto
    moreover have "did = (c, 0)" "a1 = upd_fc (\<lambda>f. f\<lparr>fc_previous_cycle := fc_previous_cycle f + c\<rparr>) a" "cpu1 = cpu"
      using run lt by (simp_all add: fc_sequence_def)
    moreover have "fc_at (?f\<lparr>fc_previous_cycle := ?p\<rparr>)" using fc(2) c(1) unfolding fc_at_def by simp linarith
    ultimately show ?thesis by (simp add: counter_view_def seq_move_def Let_def del: de_Morgan_conj)
  next
    case True
    obtain b cpu2 where irq: "fc_irq (a, cpu) = (b, cpu2)" by (cases "fc_irq (a, cpu)")
    define b2 where "b2 = (if type \<noteq> FT_NONE then fc_tick_apu type b else b)"
    let ?next = "\<lambda>f. if fc_current_step f + 1 = 6 then f\<lparr>fc_current_step := 0, fc_previous_cycle := 0\<rparr>
      else f\<lparr>fc_current_step := fc_current_step f + 1, fc_previous_cycle := fc_previous_cycle f + c\<rparr>"
    have out: "did = (c, 0)" "a1 = upd_fc ?next b2" "cpu1 = cpu2"
    proof -
      have "fc_step ?f - fc_previous_cycle ?f = c" "\<not> fc_step ?f < fc_previous_cycle ?f" "fc_step ?f \<le> ?p"
        using True c(1) by simp_all
      then show "did = (c, 0)" "a1 = upd_fc ?next b2" "cpu1 = cpu2"
        using run irq by (simp_all add: fc_sequence_def Let_def b2_def)
    qed
    from fc_irq_view [OF irq] obtain cl g where b: "ap_frame_counter b = ?f\<lparr>fc_irq_flag_clear_clock := cl, fc_irq_flag := g\<rparr>"
      "g = (if fc_step_mode ?f = 0 \<and> 3 \<le> fc_current_step ?f then \<not> fc_inhibit_irq ?f \<or> fc_current_step ?f \<noteq> 5 else fc_irq_flag ?f)"
      "has_irq_source irq_FRAME_COUNTER cpu2 \<longleftrightarrow> has_irq_source irq_FRAME_COUNTER cpu \<or>
        (fc_step_mode ?f = 0 \<and> 3 \<le> fc_current_step ?f) \<and> \<not> fc_inhibit_irq ?f"
      by (auto simp: Let_def)
    have kb: "fc_key (ap_frame_counter b2) = fc_key (ap_frame_counter b)" by (simp add: b2_def)
    then have kn: "fc_key (?next (ap_frame_counter b2)) = fc_key (?next (ap_frame_counter b))"
      by (simp add: fc_key_def)
    have late: "fc_step_mode ?f = 0 \<Longrightarrow> 29828 \<le> ?p \<longleftrightarrow> 3 \<le> fc_current_step ?f"
      "fc_step_mode ?f = 0 \<Longrightarrow> ?p < 29830 \<longleftrightarrow> fc_current_step ?f \<noteq> 5"
      using st(4,5) True by simp_all
    have "?p mod seq_length (fc_step_mode ?f) = (if fc_current_step ?f = 5 then 0 else ?p)"
      using st(2,3) True m(3) c(1) by auto
    then have "counter_view (?next (ap_frame_counter b)) cpu2 0 = seq_move ?p (counter_view ?f cpu 0)"
      using late b by (auto simp: counter_view_def seq_move_def Let_def)
    moreover have "fc_at (?next (ap_frame_counter b))" using fc True b(1) by (auto simp: fc_at_def)
    ultimately show ?thesis
      unfolding out fc_of_upd using fc_key_facts [OF kn] by simp
  qed
qed

lemma fc_apply_view:
  assumes "fc_at (ap_frame_counter a)"
  shows "fc_at (ap_frame_counter (fc_apply_write a)) \<and>
    counter_view (ap_frame_counter (fc_apply_write a)) cpu 0 = seq_apply (counter_view (ap_frame_counter a) cpu 0)"
proof -
  let ?f = "ap_frame_counter a"
  define w where "w = upd_fc (\<lambda>f. f\<lparr>fc_write_delay_counter := fc_write_delay_counter f - 1\<rparr>) a"
  define z where "z = upd_fc (\<lambda>f. f\<lparr>fc_step_mode := (if fc_new_value f AND 0x80 = 0x80 then 1 else 0),
     fc_write_delay_counter := - 1, fc_current_step := 0, fc_previous_cycle := 0, fc_new_value := - 1\<rparr>) w"
  have run: "fc_apply_write a = (if 0 \<le> fc_new_value ?f then if fc_write_delay_counter ?f = 1
      then if fc_step_mode (ap_frame_counter z) \<noteq> 0 then fc_tick_apu HALF_FRAME z else z else w else a)"
    by (simp add: fc_apply_write_def Let_def w_def z_def)
  have z: "fc_at (ap_frame_counter z)" "0 \<le> fc_new_value ?f \<Longrightarrow> fc_write_delay_counter ?f = 1 \<Longrightarrow>
      counter_view (ap_frame_counter z) cpu 0 = seq_apply (counter_view ?f cpu 0)"
    by (simp_all add: z_def w_def fc_at_def counter_view_def seq_apply_def)
  have d: "unat d \<noteq> Suc 0" "unat (d - 1) = unat d - Suc 0" if "d \<noteq> 1" "d \<noteq> 0" for d :: u8
    using that by (simp_all add: unat_minus_one word_unat_eq_iff One_nat_def [symmetric] del: One_nat_def)
  have w: "0 \<le> fc_new_value ?f \<Longrightarrow> fc_write_delay_counter ?f \<noteq> 1 \<Longrightarrow> fc_at (ap_frame_counter w) \<and>
      counter_view (ap_frame_counter w) cpu 0 = seq_apply (counter_view ?f cpu 0)"
    using assms by (auto simp: w_def fc_at_def counter_view_def seq_apply_def d)
  have n: "\<not> 0 \<le> fc_new_value ?f \<Longrightarrow> seq_apply (counter_view ?f cpu 0) = counter_view ?f cpu 0"
    by (simp add: counter_view_def seq_apply_def)
  note t = fc_key_facts [OF fc_key_tick [of HALF_FRAME z]]
  show ?thesis unfolding run using z w n assms t by simp
qed

lemma fc_run_view:
  assumes fc: "fc_ok (ap_frame_counter a)" "fc_at (ap_frame_counter a)"
    and c: "0 < c" "fc_previous_cycle (ap_frame_counter a) + c \<le> fc_step (ap_frame_counter a)"
  shows "ok (fc_run c (a, cpu)) (\<lambda>(did, a', cpu'). did = (c, 0) \<and> fc_at (ap_frame_counter a') \<and>
    counter_view (ap_frame_counter a') cpu' 0 =
      seq_apply (seq_move (fc_previous_cycle (ap_frame_counter a) + c) (counter_view (ap_frame_counter a) cpu 0)))"
proof -
  let ?f = "ap_frame_counter a"
  have m: "fc_step_mode ?f < 2" "fc_current_step ?f < 6" "fc_step_cycles ?f = STEP_CYCLES"
    using fc(1) by (simp_all add: fc_ok_def)
  obtain did a1 cpu1 where s: "fc_sequence c (fc_step ?f) (FRAME_TYPE ! fc_step_mode ?f ! fc_current_step ?f) (a, cpu) =
      (did, a1, cpu1)" by (rule prod_cases3)
  note sq = fc_sequence_view [OF fc c s]
  note ap = fc_apply_view [OF conjunct1 [OF conjunct2 [OF sq]], of cpu1]
  note un = fc_key_facts [OF fc_key_unblock [of "fc_apply_write a1"]]
  show ?thesis
    using sq ap un m by (simp add: fc_run_def step_rows s)
qed

section \<open>The CPU while the channels run\<close>

text \<open>Running the channels can request a DMA transfer, and nothing else of the CPU.\<close>

lemma dmc_next_byte_cpu:
  "dmc_next_byte (c, cpu) = (c', cpu') \<Longrightarrow> cpu_irq_flag cpu' = cpu_irq_flag cpu \<and> cpu_core cpu' = cpu_core cpu"
  by (auto simp: dmc_next_byte_def dmc_start_transfer_def Let_def start_dmc_transfer_def cpu_core_def split: if_splits)

lemma dmc_run_cpu:
  assumes "dmc_run target (c, mx, cpu) = Some (c', mx', cpu')"
  shows "cpu_irq_flag cpu' = cpu_irq_flag cpu \<and> cpu_core cpu' = cpu_core cpu"
proof -
  have "(\<lambda>s. cpu_irq_flag (snd (snd s)) = cpu_irq_flag cpu \<and> cpu_core (snd (snd s)) = cpu_core cpu) (c', mx', cpu')"
  proof (rule run_while_inv [OF assms [unfolded dmc_run_def]])
    fix s s' b
    assume "cpu_irq_flag (snd (snd s)) = cpu_irq_flag cpu \<and> cpu_core (snd (snd s)) = cpu_core cpu"
      "dmc_step target s = Some (b, s')"
    then show "cpu_irq_flag (snd (snd s')) = cpu_irq_flag cpu \<and> cpu_core (snd (snd s')) = cpu_core cpu"
      by (auto simp: dmc_step_def Let_def bind_eq_Some_conv split: prod.splits if_splits dest: dmc_next_byte_cpu)
  qed simp
  then show ?thesis by simp
qed

lemma apu_run_channels_cpu:
  assumes "apu_run_channels (a, mx, cpu) = Some (a', mx', cpu')"
  shows "cpu_irq_flag cpu' = cpu_irq_flag cpu \<and> cpu_core cpu' = cpu_core cpu \<and>
    ap_frame_counter a' = ap_frame_counter a"
  using assms by (auto simp: apu_run_channels_def Let_def bind_eq_Some_conv dest: dmc_run_cpu)

section \<open>Catching up\<close>

text \<open>The cycles by which the APU lags behind the CPU.\<close>

definition apu_lag :: "apu \<Rightarrow> int" where
  "apu_lag a = int (unat (ap_current_cycle a)) - int (unat (ap_previous_cycle a))"

text \<open>The sequencer that the APU stands for: its counter, moved by the cycles it has not run yet.\<close>

definition sequencer_of :: "apu \<Rightarrow> cpu \<Rightarrow> sequencer" where
  "sequencer_of a cpu = counter_view (ap_frame_counter a) cpu (apu_lag a)"

lemma counter_view_irq: "cpu_irq_flag c' = cpu_irq_flag c \<Longrightarrow> counter_view f c' n = counter_view f c n"
  by (simp add: counter_view_def has_irq_source_def)

lemma running_lag:
  assumes "running a mx"
  shows "sint (ap_current_cycle a - ap_previous_cycle a) = apu_lag a" "0 \<le> apu_lag a" "apu_lag a < int CYCLE_LENGTH"
proof -
  have le: "ap_previous_cycle a \<le> ap_current_cycle a" "unat (ap_current_cycle a) < CYCLE_LENGTH"
    using assms by (simp_all add: running_def)
  have d: "unat (ap_current_cycle a - ap_previous_cycle a) = unat (ap_current_cycle a) - unat (ap_previous_cycle a)"
    using le(1) by (rule unat_diff_le)
  have "sint (ap_current_cycle a - ap_previous_cycle a) = int (unat (ap_current_cycle a - ap_previous_cycle a))"
    using le(2) by (intro sint_small32) (simp add: d CYCLE_LENGTH_def)
  then show "sint (ap_current_cycle a - ap_previous_cycle a) = apu_lag a" "0 \<le> apu_lag a" "apu_lag a < int CYCLE_LENGTH"
    using le unfolding d apu_lag_def by (simp_all only: word_le_nat_alt of_nat_diff of_nat_0_le_iff)
qed

lemma apu_run_idle: "ap_current_cycle a = ap_previous_cycle a \<Longrightarrow> apu_run (a, mx, cpu) = Some (a, mx, cpu)"
  by (simp add: apu_run_def while_loop_exit)

lemma lag_0: "apu_lag a = 0 \<longleftrightarrow> ap_current_cycle a = ap_previous_cycle a"
  by (simp add: apu_lag_def word_uint_eq_iff)

text \<open>A run that does not pass the next step is a single round.\<close>

lemma apu_run_view:
  assumes r: "running a mx" and at: "fc_at (ap_frame_counter a)" and lag: "0 < apu_lag a"
    and step: "fc_previous_cycle (ap_frame_counter a) + apu_lag a \<le> fc_step (ap_frame_counter a)"
    and run: "apu_run (a, mx, cpu) = Some (a', mx', cpu')"
  shows "fc_at (ap_frame_counter a') \<and> apu_lag a' = 0 \<and>
    sequencer_of a' cpu' = seq_apply (seq_move (fs_position (sequencer_of a cpu)) (sequencer_of a cpu))"
proof -
  let ?n = "apu_lag a"
  have "fc_ok (ap_frame_counter a)" using r by (simp add: running_def)
  from fc_run_view [OF this at lag step, of cpu] obtain a1 cpu1 where
    f: "fc_run ?n (a, cpu) = Some ((?n, 0), a1, cpu1)" "fc_at (ap_frame_counter a1)"
    "counter_view (ap_frame_counter a1) cpu1 0 = seq_apply (seq_move (fc_previous_cycle (ap_frame_counter a) + ?n)
      (counter_view (ap_frame_counter a) cpu 0))"
    by (auto simp: ok_iff)
  let ?a = "apu_reload_lengths (a1\<lparr>ap_previous_cycle := ap_previous_cycle a1 + word_of_int ?n\<rparr>)"
  have "Option.bind (map_option (Pair 0) (apu_run_channels (?a, mx, cpu1)))
      (while_loop (\<lambda>(c, _). c > 0) apu_round) = Some (0, a', mx', cpu')"
  proof -
    have w: "while_loop (\<lambda>(c, _). c > (0 :: int)) apu_round (?n, a, mx, cpu) =
        Option.bind (map_option (Pair 0) (apu_run_channels (?a, mx, cpu1))) (while_loop (\<lambda>(c, _). c > 0) apu_round)"
      using lag by (subst while_loop_step) (simp_all add: apu_round_def f(1) Let_def)
    have z: "while_loop (\<lambda>(c, _). c > (0 :: int)) apu_round (0, x) = Some (0, x)" for x
      by (cases x) (simp add: while_loop_exit)
    show ?thesis
      using run unfolding apu_run_def fst_conv running_lag(1) [OF r] w
      by (auto simp: bind_eq_Some_conv z)
  qed
  then have ch: "apu_run_channels (?a, mx, cpu1) = Some (a', mx', cpu')"
    by (auto simp: bind_eq_Some_conv while_loop_exit)
  from apu_run_channels_cpu [OF this] have c: "cpu_irq_flag cpu' = cpu_irq_flag cpu1"
    "ap_frame_counter a' = ap_frame_counter a1" by simp_all
  have "ok (apu_run (a, mx, cpu)) (\<lambda>(a', mx', cpu'). same_clock a a' \<and> ap_previous_cycle a' = ap_current_cycle a)"
    using apu_run_ok [OF r, of cpu] by (auto elim!: ok_mono)
  then have l: "apu_lag a' = 0" using run by (simp add: lag_0 same_clock_def)
  have mv: "seq_move p (counter_view g cpu 0) = seq_move p (counter_view g cpu k)" for p g k
    by (simp add: seq_move_def counter_view_def)
  have "fs_position (sequencer_of a cpu) = fc_previous_cycle (ap_frame_counter a) + ?n"
    by (simp add: sequencer_of_def counter_view_def)
  then show ?thesis
    using f(2,3) l by (simp add: sequencer_of_def c(2) counter_view_irq [OF c(1)] mv [of _ _ ?n])
qed

end
