(* ===== verification/Apu_Dma.thy ===== *)
theory Apu_Dma
  imports Apu_Sequencer
begin

text \<open>
  How the APU drives the DMA unit of the CPU. A request comes from the DMC channel only, and
  each request is paid for: the channel either empties its one-byte buffer or uses up the
  start delay that a write to $4015 has set. The end of a transfer rests on this.
\<close>

section \<open>Requests\<close>

definition dmc_pending :: "dmc \<Rightarrow> nat" where
  "dmc_pending d = of_bool (\<not> dm_buffer_empty d) + of_bool (dm_transfer_start_delay d \<noteq> 0)"

definition dma_flags :: "cpu \<Rightarrow> bool \<times> bool \<times> bool" where
  "dma_flags c = (cpu_dmc_dma_running c, cpu_need_halt c, cpu_need_dummy_read c)"

text \<open>
  The DMA unit before and after some activity of the APU: the flags are as before, or a
  request has set all three and has been paid for, or the transfer has been called off.
\<close>

definition dma_moves :: "dmc \<times> cpu \<Rightarrow> dmc \<times> cpu \<Rightarrow> bool" where
  "dma_moves s t \<longleftrightarrow>
     cpu_core (snd t) = cpu_core (snd s) \<and>
     cpu_sprite_dma_transfer (snd t) = cpu_sprite_dma_transfer (snd s) \<and>
     dmc_pending (fst t) \<le> dmc_pending (fst s) \<and>
     (dma_flags (snd t) = dma_flags (snd s) \<or>
      dma_flags (snd t) = (True, True, True) \<and> dmc_pending (fst t) < dmc_pending (fst s) \<or>
      \<not> cpu_dmc_dma_running (snd t))"

lemma dma_moves_refl [simp]: "dma_moves s s"
  by (simp add: dma_moves_def)

lemma dma_moves_trans: "dma_moves s t \<Longrightarrow> dma_moves t u \<Longrightarrow> dma_moves s u"
  by (auto simp: dma_moves_def dma_flags_def)

lemma dma_moves_same:
  assumes "cpu_quiet c' = cpu_quiet c" "dmc_pending d' \<le> dmc_pending d"
  shows "dma_moves (d, c) (d', c')"
  using assms(2) cpu_quietD [OF assms(1)] by (simp add: dma_moves_def dma_flags_def)

section \<open>The channel\<close>

lemma dmc_pending_frame [simp]:
  "dmc_pending (dmc_shift_bit c) = dmc_pending c"
  "dmc_pending (c\<lparr>dm_timer := t\<rparr>) = dmc_pending c"
  "dmc_pending (c\<lparr>dm_need_to_run_flag := b\<rparr>) = dmc_pending c"
  by (simp_all add: dmc_pending_def dmc_shift_bit_def Let_def)

lemma request_moves:
  assumes "dmc_pending d' < dmc_pending d"
  shows "dma_moves (d, c) (d', snd (dmc_start_transfer (d', c)))"
  using assms by (simp add: dma_moves_def dmc_start_transfer_def dma_flags_def start_dmc_transfer_def cpu_core_def)

lemma dmc_next_byte_moves:
  assumes "dmc_next_byte (c, cpu) = t"
  shows "dma_moves (c, cpu) t"
proof -
  let ?c = "c\<lparr>dm_bits_remaining := 8, dm_silence_flag := False, dm_shift_register := dm_read_buffer c,
    dm_buffer_empty := True, dm_need_to_run_flag := True\<rparr>"
  have "dma_moves (c, cpu) (?c, snd (dmc_start_transfer (?c, cpu)))" if "\<not> dm_buffer_empty c"
    by (rule request_moves) (use that in \<open>simp add: dmc_pending_def\<close>)
  then show ?thesis
    using assms by (auto simp: dmc_next_byte_def Let_def dmc_start_transfer_def dmc_pending_def
        intro!: dma_moves_same split: if_splits)
qed

lemma dmc_run_moves:
  assumes "dmc_run target (c, mx, cpu) = Some (c', mx', cpu')"
  shows "dma_moves (c, cpu) (c', cpu')"
proof -
  have "(\<lambda>s. dma_moves (c, cpu) (fst s, snd (snd s))) (c', mx', cpu')"
  proof (rule run_while_inv [OF assms [unfolded dmc_run_def]])
    fix s s' b
    assume m: "dma_moves (c, cpu) (fst s, snd (snd s))" and st: "dmc_step target s = Some (b, s')"
    obtain d my cp where s: "s = (d, my, cp)" by (cases s)
    have "dma_moves (d, cp) (fst s', snd (snd s'))"
    proof -
      have "dma_moves (d, cp) (c2\<lparr>dm_timer := t2\<rparr>, cp2)"
        if "dmc_next_byte (dmc_shift_bit (d\<lparr>dm_timer := t\<rparr>), cp) = (c2, cp2)" for t c2 cp2 t2
        using dmc_next_byte_moves [OF that] by (simp add: dma_moves_def)
      moreover have "dma_moves (d, cp) (d\<lparr>dm_timer := t\<rparr>, cp)" for t by (simp add: dma_moves_def)
      ultimately show ?thesis
        using st unfolding s dmc_step_def Let_def
        by (auto simp: bind_eq_Some_conv split: prod.splits if_splits)
    qed
    with m show "dma_moves (c, cpu) (fst s', snd (snd s'))" by (auto simp: s intro: dma_moves_trans)
  qed simp
  then show ?thesis by simp
qed

lemma dmc_process_clock_moves: "dma_moves s (dmc_process_clock s)"
proof -
  obtain c cpu where s: "s = (c, cpu)" by (cases s)
  define t where "t = (if dm_disable_delay c \<noteq> 0 then
      let c = c\<lparr>dm_disable_delay := dm_disable_delay c - 1\<rparr> in
      if dm_disable_delay c = 0 then (c\<lparr>dm_bytes_remaining := 0\<rparr>, stop_dmc_transfer cpu) else (c, cpu)
    else (c, cpu))"
  have t: "dma_moves s t"
    by (auto simp: s t_def Let_def dma_moves_def dmc_pending_def dma_flags_def stop_dmc_transfer_def cpu_core_def)
  let ?d = "(fst t)\<lparr>dm_transfer_start_delay := dm_transfer_start_delay (fst t) - 1\<rparr>"
  have r: "dma_moves t (?d, snd (dmc_start_transfer (?d, snd t)))"
    if "dm_transfer_start_delay (fst t) \<noteq> 0" "dm_transfer_start_delay (fst t) - 1 = 0"
    using request_moves [of ?d "fst t" "snd t"] that by (simp add: dmc_pending_def)
  have q: "dma_moves t (?d, snd t)" if "dm_transfer_start_delay (fst t) \<noteq> 0"
    using dma_moves_same [of "snd t" "snd t" ?d "fst t"] that by (simp add: dmc_pending_def)
  define u where "u = (if dm_transfer_start_delay (fst t) \<noteq> 0 then
      if dm_transfer_start_delay (fst t) - 1 = 0 then dmc_start_transfer (?d, snd t) else (?d, snd t)
    else t)"
  have u: "dma_moves t u" using r q by (simp add: u_def dmc_start_transfer_def)
  have "\<exists>b. dmc_process_clock s = ((fst u)\<lparr>dm_need_to_run_flag := b\<rparr>, snd u)"
    by (auto simp: dmc_process_clock_def s t_def [symmetric] u_def Let_def split: prod.split)
  then show ?thesis using dma_moves_trans [OF t u] by (auto simp: dma_moves_def)
qed

section \<open>The whole APU\<close>

abbreviation dma_of :: "apu \<times> mixer \<times> cpu \<Rightarrow> dmc \<times> cpu" where
  "dma_of s \<equiv> (ap_dmc (fst s), snd (snd s))"

lemma dmc_frame [simp]:
  "ap_dmc (upd_fc g a) = ap_dmc a" "ap_dmc (fc_tick_apu type a) = ap_dmc a"
  "ap_dmc (fc_unblock a) = ap_dmc a" "ap_dmc (fc_apply_write a) = ap_dmc a"
  "ap_dmc (apu_reload_lengths a) = ap_dmc a" "ap_dmc (fst (fc_irq (a, cpu))) = ap_dmc a"
proof -
  show u: "ap_dmc (upd_fc g a) = ap_dmc a" for g a by (simp add: upd_fc_def)
  have "ap_dmc (frame_counter_tick type a) = ap_dmc a" for type a
    by (simp add: frame_counter_tick_def Let_def)
  then show t: "ap_dmc (fc_tick_apu type a) = ap_dmc a" for type a by (simp add: fc_tick_apu_def u)
  show "ap_dmc (fc_unblock a) = ap_dmc a" by (simp add: fc_unblock_def u)
  show "ap_dmc (fc_apply_write a) = ap_dmc a" by (simp add: fc_apply_write_def Let_def u t)
  show "ap_dmc (apu_reload_lengths a) = ap_dmc a" by (simp add: apu_reload_lengths_def)
  show "ap_dmc (fst (fc_irq (a, cpu))) = ap_dmc a" by (simp add: fc_irq_def Let_def u)
qed

lemma fc_irq_quiet [simp]: "cpu_quiet (snd (fc_irq (a, cpu))) = cpu_quiet cpu"
  by (simp add: fc_irq_def Let_def)

lemma fc_sequence_dma:
  assumes "fc_sequence n step type (a, cpu) = (did, a', cpu')"
  shows "ap_dmc a' = ap_dmc a" "cpu_quiet cpu' = cpu_quiet cpu"
proof -
  obtain b c where q: "fc_irq (a, cpu) = (b, c)" by fastforce
  have "ap_dmc b = ap_dmc a" "cpu_quiet c = cpu_quiet cpu"
    using dmc_frame(6) [of a cpu] fc_irq_quiet [of a cpu] by (simp_all add: q)
  then show "ap_dmc a' = ap_dmc a" "cpu_quiet cpu' = cpu_quiet cpu"
    using assms by (auto simp: fc_sequence_def q Let_def split: if_splits)
qed

lemma fc_run_dma:
  assumes "fc_run n (a, cpu) = Some (did, a', cpu')"
  shows "ap_dmc a' = ap_dmc a" "cpu_quiet cpu' = cpu_quiet cpu"
proof -
  from assms obtain step type where q: "(case fc_sequence n step type (a, cpu) of
      (r, b, c) \<Rightarrow> Some (r, fc_unblock (fc_apply_write b), c)) = Some (did, a', cpu')"
    unfolding fc_run_def Let_def fst_conv bind_eq_Some_conv by blast
  obtain r b c where f: "fc_sequence n step type (a, cpu) = (r, b, c)" by (cases "fc_sequence n step type (a, cpu)")
  with q have "fc_sequence n step type (a, cpu) = (did, b, cpu')" "a' = fc_unblock (fc_apply_write b)" by auto
  then show "ap_dmc a' = ap_dmc a" "cpu_quiet cpu' = cpu_quiet cpu" using fc_sequence_dma by simp_all
qed

lemma apu_round_moves_dma:
  assumes "apu_round (n, s) = Some (n', s')"
  shows "dma_moves (dma_of s) (dma_of s')"
proof -
  obtain a mx cpu where s: "s = (a, mx, cpu)" by (cases s)
  obtain did left a1 cpu1 where fc: "fc_run n (a, cpu) = Some ((did, left), a1, cpu1)"
    and ch: "apu_run_channels (apu_reload_lengths (a1\<lparr>ap_previous_cycle := ap_previous_cycle a1 + word_of_int did\<rparr>), mx, cpu1) = Some s'"
    using assms by (auto simp: apu_round_def s Let_def bind_eq_Some_conv)
  have "ap_dmc (apu_reload_lengths (a1\<lparr>ap_previous_cycle := x\<rparr>)) = ap_dmc a" for x
    using fc_run_dma(1) [OF fc] by simp
  then have "dma_moves (ap_dmc a, cpu1) (dma_of s')"
    using ch by (auto simp: apu_run_channels_def Let_def bind_eq_Some_conv dest!: dmc_run_moves)
  with fc_run_dma(2) [OF fc] show ?thesis
    using dma_moves_same [of cpu1 cpu "ap_dmc a" "ap_dmc a"] by (auto simp: s intro: dma_moves_trans)
qed

lemma apu_run_dma:
  assumes "apu_run s = Some s'"
  shows "dma_moves (dma_of s) (dma_of s')"
proof -
  from assms obtain n where loop: "while_loop (\<lambda>(cycles_to_run, _). cycles_to_run > 0) apu_round
      (sint (ap_current_cycle (fst s) - ap_previous_cycle (fst s)), s) = Some (n, s')"
    by (auto simp: apu_run_def)
  have "(\<lambda>(n, t). dma_moves (dma_of s) (dma_of t)) (n, s')"
  proof (rule while_loop_inv [OF loop])
    fix t t' assume "(\<lambda>(n, t). dma_moves (dma_of s) (dma_of t)) t" "apu_round t = Some t'"
    then show "(\<lambda>(n, t). dma_moves (dma_of s) (dma_of t)) t'"
      using apu_round_moves_dma [of "fst t" "snd t" "fst t'" "snd t'"]
      by (simp add: split_beta) (rule dma_moves_trans)
  qed simp
  then show ?thesis by simp
qed

lemma apu_end_frame_dma:
  assumes "apu_end_frame E (a, mx, cpu) = Some s'"
  shows "dma_moves (ap_dmc a, cpu) (dma_of s')"
proof -
  obtain d c where pc: "dmc_process_clock (ap_dmc a, cpu) = (d, c)" by fastforce
  from assms obtain a2 mx2 c2 where t: "apu_run (a\<lparr>ap_dmc := d\<rparr>, mx, c) = Some (a2, mx2, c2)"
    by (cases "apu_run (a\<lparr>ap_dmc := d\<rparr>, mx, c)") (auto simp: apu_end_frame_def pc)
  let ?b = "(apu_timers_end_frame a2)\<lparr>ap_current_cycle := 0, ap_previous_cycle := 0\<rparr>"
  obtain acc mx3 where e: "s' = (?b\<lparr>ap_frame_accumulator := acc\<rparr>, mx3, c2)"
  proof (cases "play_audio_buffer E (ap_current_cycle (apu_timers_end_frame a2)) mx2")
    case None
    with assms t show ?thesis by (simp add: apu_end_frame_def pc)
  next
    case (Some m)
    show ?thesis
    proof (cases "mx_sample_count m > 0")
      case True
      with assms t Some show ?thesis
        by (cases "consume_samples (mx_sample_count m) m")
          (auto simp: apu_end_frame_def pc Let_def intro: that)
    next
      case False
      with assms t Some have "s' = (?b, m, c2)" by (simp add: apu_end_frame_def pc Let_def)
      then show ?thesis using that [of "ap_frame_accumulator ?b" m] by simp
    qed
  qed
  have "dma_moves (ap_dmc a, cpu) (d, c)" using dmc_process_clock_moves [of "(ap_dmc a, cpu)"] pc by simp
  moreover have "dma_moves (d, c) (ap_dmc a2, c2)" using apu_run_dma [OF t] by simp
  ultimately have "dma_moves (ap_dmc a, cpu) (ap_dmc a2, c2)" by (rule dma_moves_trans)
  then show ?thesis unfolding e by (simp add: dma_moves_def apu_timers_end_frame_def)
qed

lemma apu_need_to_run_dma:
  assumes "apu_need_to_run k (a, cpu) = Some (need, b, c)"
  shows "dma_moves (ap_dmc a, cpu) (ap_dmc b, c)"
proof -
  obtain n d c1 where q: "dmc_need_to_run (ap_dmc a, cpu) = (n, d, c1)" by (cases "dmc_need_to_run (ap_dmc a, cpu)")
  then have "dma_moves (ap_dmc a, cpu) (d, c1)"
    using dmc_process_clock_moves [of "(ap_dmc a, cpu)"]
    by (auto simp: dmc_need_to_run_def split: prod.splits if_splits)
  moreover have "ap_dmc b = d" "c = c1"
    using assms by (auto simp: apu_need_to_run_def q Let_def bind_eq_Some_conv split: if_splits)
  ultimately show ?thesis by simp
qed

lemma apu_process_cpu_clock_dma:
  assumes "apu_process_cpu_clock E s = Some s'"
  shows "dma_moves (dma_of s) (dma_of s')"
proof -
  obtain a mx cpu where s: "s = (a, mx, cpu)" by (cases s)
  let ?a = "a\<lparr>ap_current_cycle := ap_current_cycle a + 1\<rparr>"
  consider "\<not> ap_apu_enabled a" | "ap_apu_enabled a" "unat (ap_current_cycle ?a) = CYCLE_LENGTH - 1"
    | "ap_apu_enabled a" "unat (ap_current_cycle ?a) \<noteq> CYCLE_LENGTH - 1" by blast
  then show ?thesis
  proof cases
    case 1
    with assms show ?thesis by (simp add: s apu_process_cpu_clock_def)
  next
    case 2
    with assms have "apu_end_frame E (?a, mx, cpu) = Some s'" by (simp add: s apu_process_cpu_clock_def Let_def)
    from apu_end_frame_dma [OF this] show ?thesis by (simp add: s)
  next
    case 3
    with assms obtain need b c where n: "apu_need_to_run (ap_current_cycle ?a) (?a, cpu) = Some (need, b, c)"
      and r: "(if need then apu_run (b, mx, c) else Some (b, mx, c)) = Some s'"
      by (auto simp: s apu_process_cpu_clock_def Let_def bind_eq_Some_conv)
    have m: "dma_moves (dma_of s) (ap_dmc b, c)" using apu_need_to_run_dma [OF n] by (simp add: s)
    show ?thesis
    proof (cases need)
      case True
      with r have "dma_moves (ap_dmc b, c) (dma_of s')" by (auto dest!: apu_run_dma)
      with m show ?thesis by (rule dma_moves_trans)
    qed (use r m in auto)
  qed
qed

lemma apu_read_ram_dma:
  assumes "apu_read_ram ob addr s = Some (v, s')"
  shows "dma_moves (dma_of s) (dma_of s')"
proof -
  from assms obtain t where t: "apu_run s = Some t" and e: "ap_dmc (fst s') = ap_dmc (fst t)"
    "cpu_quiet (snd (snd s')) = cpu_quiet (snd (snd t))"
    by (auto simp: apu_read_ram_def bind_eq_Some_conv split: if_splits)
  have "dma_moves (dma_of t) (dma_of s')"
    using dma_moves_same [OF e(2)] e(1) by simp
  with apu_run_dma [OF t] show ?thesis by (rule dma_moves_trans)
qed

text \<open>A write to the APU outside $4015 leaves the DMA unit alone; all of them keep the registers.\<close>

lemma apu_write_ram_core:
  assumes "apu_write_ram addr v s = Some s'"
  shows "cpu_core (snd (snd s')) = cpu_core (snd (snd s))"
proof -
  have run: "cpu_core cpu = cpu_core (snd (snd s))" if "apu_run s = Some (a, mx, cpu)" for a mx cpu
    using apu_run_dma [OF that] by (simp add: dma_moves_def)
  have dmc: "cpu_core cpu' = cpu_core cpu" if "dmc_write_ram addr v (d, mx, cpu) = Some (d', mx', cpu')" for d mx cpu d' mx' cpu'
    using that by (auto simp: dmc_write_ram_def Let_def bind_eq_Some_conv split: if_splits)
  have fc: "cpu_core (snd (snd t)) = cpu_core (snd (snd s))" if "fc_write_ram v s = Some t" for t
    using that by (auto simp: fc_write_ram_def Let_def bind_eq_Some_conv dest!: run)
  show ?thesis
    using assms unfolding apu_write_ram_def
    by (auto simp del: bind_split simp: bind_eq_Some_conv Let_def split: if_splits dest!: run fc dmc)
qed

end
