(* ===== verification/Frame_Queue.thy ===== *)
theory Frame_Queue
  imports Prelude
begin

text \<open>
  The contract between the producer of audio frames and the application that drains them:
  a queue of bounded capacity that drops its oldest element when it is full.
\<close>

lemma drop_oldest:
  "drop (length (drop (length xs - n) xs @ ys) - n) (drop (length xs - n) xs @ ys) =
     drop (length (xs @ ys) - n) (xs @ ys)"
proof -
  let ?k = "length xs - n"
  have d: "drop ?k xs @ ys = drop ?k (xs @ ys)" by simp
  have "length (drop ?k (xs @ ys)) - n + ?k = length (xs @ ys) - n" by auto
  then show ?thesis unfolding d drop_drop by simp
qed

locale frame_queue =
  fixes capacity :: nat
    and inv :: "'s \<Rightarrow> bool"
    and valid :: "'f \<Rightarrow> bool"
    and content :: "'s \<Rightarrow> 'f list"
    and push :: "'f \<Rightarrow> 's \<Rightarrow> 's option"
    and pop :: "'s \<Rightarrow> 's"
    and front :: "'s \<Rightarrow> 'f option option"
  assumes bounded: "inv s \<Longrightarrow> length (content s) \<le> capacity"
    and push: "inv s \<Longrightarrow> valid f \<Longrightarrow> ok (push f s) (\<lambda>s'. inv s' \<and>
      content s' = drop (Suc (length (content s)) - capacity) (content s @ [f]))"
    and pop: "inv s \<Longrightarrow> inv (pop s) \<and> content (pop s) = tl (content s)"
    and front: "inv s \<Longrightarrow> front s = Some (case content s of [] \<Rightarrow> None | f # _ \<Rightarrow> Some f)"
begin

text \<open>Pushing a sequence of frames keeps the newest ones, in order.\<close>

lemma push_all:
  assumes "inv s" "\<forall>f \<in> set fs. valid f"
  shows "ok (for_each push fs s) (\<lambda>s'. inv s' \<and>
    content s' = drop (length (content s @ fs) - capacity) (content s @ fs))"
  using assms
proof (induction fs arbitrary: s)
  case Nil
  then show ?case using bounded [OF Nil(1)] by simp
next
  case (Cons f fs)
  obtain s1 where s1: "push f s = Some s1" "inv s1"
    "content s1 = drop (Suc (length (content s)) - capacity) (content s @ [f])"
    using push [OF Cons.prems(1), of f] Cons.prems(2) by (auto simp: ok_iff)
  have "ok (for_each push fs s1) (\<lambda>s'. inv s' \<and>
      content s' = drop (length (content s1 @ fs) - capacity) (content s1 @ fs))"
    using Cons.prems(2) by (intro Cons.IH s1(2)) simp
  moreover have "drop (length (content s1 @ fs) - capacity) (content s1 @ fs) =
      drop (length (content s @ f # fs) - capacity) (content s @ f # fs)"
    using drop_oldest [of "content s @ [f]" capacity fs] by (simp add: s1(3))
  ultimately show ?case by (simp add: s1(1))
qed

text \<open>
  Draining: the fronts of the successive queues are the content in order, then nothing.
\<close>

lemma front_sequence:
  assumes "inv s"
  shows "map (\<lambda>n. front ((pop ^^ n) s)) [0..<Suc (length (content s))] =
    map (\<lambda>f. Some (Some f)) (content s) @ [Some None]"
  using assms
proof (induction "content s" arbitrary: s)
  case Nil
  then show ?case using front [OF Nil.prems] by (simp add: Nil.hyps [symmetric])
next
  case (Cons f fs)
  have p: "inv (pop s)" "content (pop s) = fs"
    using pop [OF Cons.prems] by (simp_all add: Cons.hyps(2) [symmetric])
  have "map (\<lambda>n. front ((pop ^^ n) s)) [0..<Suc (length (content s))] =
      front s # map (\<lambda>n. front ((pop ^^ n) (pop s))) [0..<Suc (length fs)]"
    by (simp add: Cons.hyps(2) [symmetric] map_upt_Suc funpow_Suc_right del: upt_Suc funpow.simps(2))
  also have "\<dots> = Some (Some f) # map (\<lambda>f. Some (Some f)) fs @ [Some None]"
    using Cons.hyps(1) [OF p(2) [symmetric] p(1)] front [OF Cons.prems] p(2)
    by (simp add: Cons.hyps(2) [symmetric])
  finally show ?case by (simp add: Cons.hyps(2) [symmetric])
qed

end

end
