(* ===== verification/Apu_Queue.thy ===== *)
theory Apu_Queue
  imports Apu_Facts Frame_Queue
begin

text \<open>
  The ring of audio frames in \<^verbatim>\<open>NesApu\<close> implements the frame queue: its content is the
  \<open>available_frames_\<close> slots from \<open>read_index_\<close> on.
\<close>

definition audio_frames :: "apu \<Rightarrow> i16 list list" where
  "audio_frames a = map (\<lambda>i. af_data (ap_audio_ring a ! ((ap_read_index a + i) mod MAX_AUDIO_FRAMES)))
     [0..<ap_available_frames a]"

text \<open>\<^verbatim>\<open>push_frame\<close> on an accumulator that holds the samples \<open>d\<close>.\<close>

definition push_samples :: "i16 list \<Rightarrow> apu \<Rightarrow> apu option" where
  "push_samples d a = push_frame (a\<lparr>ap_frame_accumulator := d\<rparr>)"

lemma ring_index_eq:
  fixes r i k :: nat
  assumes "i < 8" "k < 8"
  shows "(r + i) mod 8 = (r + k) mod 8 \<longleftrightarrow> i = k"
proof -
  have *: "i = k" if "i \<le> k" "k < 8" "(r + i) mod 8 = (r + k) mod 8" for i k :: nat
  proof -
    have "8 dvd (r + k) - (r + i)"
      using mod_eq_dvd_iff_nat [of "r + i" "r + k" 8] that by simp
    then have "8 dvd k - i" by simp
    moreover have "k - i < 8" using that by simp
    ultimately show ?thesis using that(1) by (auto dest: dvd_imp_le)
  qed
  show ?thesis using *[of i k] *[of k i] assms by (cases "i \<le> k") auto
qed

lemma upto8: "[0..<8] = [0, 1, 2, 3, 4, 5, 6, 7]"
  by (simp add: upt_rec)

lemma push_samples_content:
  assumes "ring_ok a" "d \<noteq> []"
  shows "ok (push_samples d a) (\<lambda>a'. ring_ok a' \<and>
    audio_frames a' = drop (Suc (length (audio_frames a)) - MAX_AUDIO_FRAMES) (audio_frames a @ [d]))"
proof -
  let ?r = "ap_read_index a" and ?n = "ap_available_frames a" and ?ring = "ap_audio_ring a"
  have w: "ap_write_index a = (?r + ?n) mod 8" "?n \<le> 8" "?r < 8" "length ?ring = 8"
    using assms(1) by (simp_all add: ring_ok_def MAX_AUDIO_FRAMES_def)
  let ?f = "\<lparr>af_data = d, af_samples = length d div 2\<rparr>"
  show ?thesis
  proof (cases "?n < 8")
    case True
    have "(?ring[(?r + ?n) mod 8 := ?f]) ! ((?r + i) mod 8) = (if i = ?n then ?f else ?ring ! ((?r + i) mod 8))"
      if "i \<le> ?n" for i
      using that True w(4) ring_index_eq [of i ?n ?r] by (auto simp: nth_list_update)
    then have "map (\<lambda>i. af_data (?ring[(?r + ?n) mod 8 := ?f] ! ((?r + i) mod 8))) [0..<Suc ?n]
        = map (\<lambda>i. af_data (?ring ! ((?r + i) mod 8))) [0..<?n] @ [d]" by simp
    with True w assms(2) show ?thesis
      by (simp add: push_samples_def push_frame_def audio_frames_def ring_ok_def MAX_AUDIO_FRAMES_def mod_simps)
  next
    case False
    then have n: "?n = 8" using w(2) by simp
    have wr: "(?r + 8) mod 8 = ?r" using w(3) by simp
    have step: "((?r + 1) mod 8 + i) mod 8 = (?r + Suc i) mod 8" for i by (simp add: mod_simps)
    have "(?ring[?r := ?f]) ! ((?r + Suc i) mod 8) = (if i = 7 then ?f else ?ring ! ((?r + Suc i) mod 8))"
      if "i < 8" for i
    proof (cases "i = 7")
      case True
      then show ?thesis using w(3,4) by simp
    next
      case False
      then have "(?r + Suc i) mod 8 \<noteq> (?r + 0) mod 8" using that ring_index_eq [of "Suc i" 0 ?r] by simp
      then show ?thesis using False w(3) by simp
    qed
    then have "map (\<lambda>i. af_data (?ring[?r := ?f] ! (((?r + 1) mod 8 + i) mod 8))) [0..<8] =
        map (\<lambda>i. af_data (if i = 7 then ?f else ?ring ! ((?r + Suc i) mod 8))) [0..<8]"
      unfolding step by (intro map_cong) simp_all
    also have "\<dots> = drop 1 (map (\<lambda>i. af_data (?ring ! ((?r + i) mod 8))) [0..<8] @ [d])"
      by (simp add: upto8)
    finally show ?thesis
      using w n assms(2)
      by (simp add: push_samples_def push_frame_def audio_frames_def ring_ok_def MAX_AUDIO_FRAMES_def wr mod_simps)
  qed
qed

lemma consume_audio_content:
  assumes "ring_ok a"
  shows "ring_ok (consume_audio a) \<and> audio_frames (consume_audio a) = tl (audio_frames a)"
proof (cases "ap_available_frames a")
  case 0
  with assms show ?thesis by (simp add: consume_audio_def audio_frames_def)
next
  case (Suc n)
  have "map (\<lambda>i. af_data (ap_audio_ring a ! (((ap_read_index a + 1) mod 8 + i) mod 8))) [0..<n] =
      map (\<lambda>i. af_data (ap_audio_ring a ! ((ap_read_index a + i) mod 8))) [1..<Suc n]"
    by (simp add: mod_simps map_Suc_upt [symmetric] del: upt_Suc map_Suc_upt)
  moreover have "[0..<Suc n] = 0 # [1..<Suc n]" by (simp add: upt_rec)
  ultimately show ?thesis
    using assms Suc by (simp add: consume_audio_def audio_frames_def ring_ok_def MAX_AUDIO_FRAMES_def mod_simps)
qed

lemma get_buffer_content:
  assumes "ring_ok a"
  shows "get_buffer a = Some (case audio_frames a of [] \<Rightarrow> None | f # _ \<Rightarrow> Some f)"
proof (cases "ap_available_frames a")
  case 0
  then show ?thesis by (simp add: get_buffer_def audio_frames_def)
next
  case (Suc n)
  moreover have "[0..<Suc n] = 0 # [1..<Suc n]" by (simp add: upt_rec)
  ultimately show ?thesis
    using assms by (simp add: get_buffer_def audio_frames_def ring_ok_def MAX_AUDIO_FRAMES_def)
qed

interpretation audio: frame_queue MAX_AUDIO_FRAMES ring_ok "\<lambda>d. d \<noteq> []" audio_frames
  push_samples consume_audio get_buffer
proof unfold_locales
  fix a
  assume "ring_ok a"
  then show "length (audio_frames a) \<le> MAX_AUDIO_FRAMES" by (simp add: audio_frames_def ring_ok_def)
qed (use push_samples_content consume_audio_content get_buffer_content in blast)+

lemma consume_audio_ok:
  assumes "apu_ok a mx"
  shows "apu_ok (consume_audio a) mx"
proof -
  have "ring_ok (consume_audio a)" using consume_audio_content assms by (simp add: apu_ok_def)
  moreover have "running (consume_audio a) mx" "ap_current_cycle (consume_audio a) = ap_current_cycle a"
    using assms by (simp_all add: apu_ok_def consume_audio_def running_def chans_ok_def timers_at_def)
  ultimately show ?thesis using assms by (simp add: apu_ok_def)
qed

end
