(* ===== verification/Apu_Traffic.thy ===== *)
theory Apu_Traffic
  imports Apu_Dma Apu_Queue
begin

text \<open>
  The operations of the APU as steps, with the invariant they keep, and the simulation of the abstract
  sequencer by every one of them: the frame counter may run late, but never so late that it shows.
\<close>

section \<open>Traffic\<close>

text \<open>What the machine and the application do to the APU, as one step each.\<close>

datatype apu_op =
  ApuClock
| ApuRead u8 u16
| ApuWrite u16 u8
| ApuDmaByte u8
| ApuPushFrame
| ApuConsume
| ApuEndFrame
| ApuReset bool

fun apu_step :: "audio_env \<Rightarrow> apu_op \<Rightarrow> apu \<times> mixer \<times> cpu \<Rightarrow> (apu \<times> mixer \<times> cpu) option" where
  "apu_step E ApuClock s = apu_process_cpu_clock E s"
| "apu_step E (ApuRead ob addr) s = map_option snd (apu_read_ram ob addr s)"
| "apu_step E (ApuWrite addr v) s = apu_write_ram addr v s"
| "apu_step E (ApuDmaByte v) (a, mx, cpu) =
     (let (a, cpu) = apu_set_dmc_read_buffer v (a, cpu) in Some (a, mx, cpu))"
| "apu_step E ApuPushFrame (a, mx, cpu) = map_option (\<lambda>a. (a, mx, cpu)) (push_frame a)"
| "apu_step E ApuConsume (a, mx, cpu) = Some (consume_audio a, mx, cpu)"
| "apu_step E ApuEndFrame s = apu_end_frame E s"
| "apu_step E (ApuReset soft) (a, mx, cpu) = Some (apu_reset soft a, mx, cpu)"

lemma push_frame_ok:
  assumes "apu_ok a mx"
  shows "ok (push_frame a) (\<lambda>a'. apu_ok a' mx)"
proof (cases "ap_frame_accumulator a = []")
  case True
  then show ?thesis using assms by (simp add: push_frame_def)
next
  case False
  have eq: "push_samples (ap_frame_accumulator a) a = push_frame a" by (simp add: push_samples_def)
  have "ok (push_frame a) ring_ok"
    using push_samples_content [of a "ap_frame_accumulator a"] False assms
    by (auto simp: eq apu_ok_def elim: ok_mono)
  moreover have "ok (push_frame a) (\<lambda>a'. running a' mx \<and> ap_current_cycle a' = ap_current_cycle a)"
    if "ok (push_frame a) ring_ok"
    using that assms False
    by (auto simp: push_frame_def Let_def apu_ok_def running_def chans_ok_def timers_at_def)
  ultimately show ?thesis using assms by (auto simp: ok_iff apu_ok_def)
qed

lemma apu_step_ok:
  assumes "apu_ok (fst s) (fst (snd s))"
  shows "ok (apu_step E op0 s) (\<lambda>s. apu_ok (fst s) (fst (snd s)))"
proof -
  obtain a mx cpu where s: "s = (a, mx, cpu)" by (cases s)
  with assms have a: "apu_ok a mx" by simp
  show ?thesis
  proof (cases op0)
    case ApuClock
    then show ?thesis using apu_process_cpu_clock_ok [OF a, of E cpu] by (auto simp: s elim!: ok_mono)
  next
    case (ApuRead ob addr)
    then show ?thesis using apu_read_ram_ok [OF a, of ob addr cpu] by (auto simp: s elim!: ok_mono)
  next
    case (ApuWrite addr v)
    then show ?thesis using apu_write_ram_ok [OF a, of addr v cpu] by (auto simp: s elim!: ok_mono)
  next
    case (ApuDmaByte v)
    then show ?thesis using apu_set_dmc_read_buffer_ok [OF a] by (auto simp: s split: prod.split)
  next
    case ApuPushFrame
    then show ?thesis using push_frame_ok [OF a] by (auto simp: s elim!: ok_mono)
  next
    case ApuConsume
    then show ?thesis using consume_audio_ok [OF a] by (simp add: s)
  next
    case ApuEndFrame
    have "running a mx" "ring_ok a" using a by (simp_all add: apu_ok_def)
    from apu_end_frame_ok [OF this, of E cpu] show ?thesis by (auto simp: s ApuEndFrame elim!: ok_mono)
  next
    case (ApuReset soft)
    then show ?thesis using apu_reset_ok [OF a] by (simp add: s)
  qed
qed

section \<open>The sequencer under traffic\<close>

text \<open>
  What a step makes of the sequencer. A write to $4017 waits three cycles when it falls on an even CPU cycle and
  four on an odd one; bit 6 inhibits the IRQ and acknowledges it. Reading $4015 clears the line alone.
\<close>

definition seq_write :: "u64 \<Rightarrow> u8 \<Rightarrow> sequencer \<Rightarrow> sequencer" where
  "seq_write cycle v s = s\<lparr>fs_pending := Some (if bit v 7 then 1 else 0, if odd (unat cycle) then 4 else 3),
     fs_inhibit := bit v 6, fs_flag := (fs_flag s \<and> \<not> bit v 6), fs_line := (fs_line s \<and> \<not> bit v 6)\<rparr>"

definition seq_reset :: "bool \<Rightarrow> sequencer \<Rightarrow> sequencer" where
  "seq_reset soft s =
     (let mode = (if soft then fs_mode s else 0)
      in s\<lparr>fs_mode := mode, fs_position := 0, fs_pending := Some (if mode = 0 then 0 else 1, 3), fs_inhibit := False,
           fs_flag := False\<rparr>)"

fun seq_step :: "u64 \<Rightarrow> apu_op \<Rightarrow> sequencer \<Rightarrow> sequencer" where
  "seq_step cycle ApuClock s = seq_clock s"
| "seq_step cycle (ApuRead ob addr) s = (if addr = 0x4015 then s\<lparr>fs_line := False\<rparr> else s)"
| "seq_step cycle (ApuWrite addr v) s = (if addr = 0x4017 then seq_write cycle v s else s)"
| "seq_step cycle (ApuReset soft) s = seq_reset soft s"
| "seq_step cycle _ s = s"

text \<open>The APU lags only while no write is pending and its counter stays two cycles before the next step.\<close>

definition seq_inv :: "apu \<Rightarrow> mixer \<Rightarrow> bool" where
  "seq_inv a mx \<longleftrightarrow> apu_ok a mx \<and> ap_apu_enabled a \<and> fc_at (ap_frame_counter a) \<and>
     (apu_lag a = 0 \<or> fc_new_value (ap_frame_counter a) < 0 \<and>
       fc_previous_cycle (ap_frame_counter a) + apu_lag a < fc_step (ap_frame_counter a) - 1)"

lemma seq_still:
  assumes "fc_ok f" "fc_at f" "fc_new_value f < 0" "0 < n" "fc_previous_cycle f + n < fc_step f"
  shows "seq_apply (seq_move (fc_previous_cycle f + n) (counter_view f cpu k)) = counter_view f cpu n"
proof -
  have m: "fc_step_mode f < 2" "fc_current_step f < 6" "0 \<le> fc_previous_cycle f"
    using assms(1) by (simp_all add: fc_ok_def)
  have "\<not> (fc_step_mode f = 0 \<and> 29828 \<le> fc_previous_cycle f + n)"
    using before_step_early [OF assms(1,2) _ _ assms(5)] assms(4) by auto
  moreover have "(fc_previous_cycle f + n) mod seq_length (fc_step_mode f) = fc_previous_cycle f + n"
    using steps_within(1) [OF m(1,2)] assms(4,5) m(3) by (intro mod_pos_pos_trivial) simp_all
  ultimately show ?thesis
    using assms(3) by (simp add: counter_view_def seq_move_def seq_apply_def Let_def del: de_Morgan_conj)
qed

lemma seq_inv_running: "seq_inv a mx \<Longrightarrow> running a mx" "seq_inv a mx \<Longrightarrow> fc_ok (ap_frame_counter a)"
  by (simp_all add: seq_inv_def apu_ok_def running_def)

text \<open>Catching up does not move the sequencer.\<close>

lemma run_catches_up:
  assumes "seq_inv a mx"
  shows "ok (apu_run (a, mx, cpu)) (\<lambda>(a', mx', cpu'). seq_inv a' mx' \<and> apu_lag a' = 0 \<and>
    sequencer_of a' cpu' = sequencer_of a cpu \<and> cpu_cycle_count cpu' = cpu_cycle_count cpu)"
proof (cases "apu_lag a = 0")
  case True
  then show ?thesis using assms by (simp add: apu_run_idle lag_0)
next
  case False
  let ?f = "ap_frame_counter a"
  note r = seq_inv_running [OF assms]
  have f: "0 < apu_lag a" "fc_at ?f" "fc_new_value ?f < 0" "fc_previous_cycle ?f + apu_lag a < fc_step ?f"
    using assms False running_lag(2) [OF r(1)] by (auto simp: seq_inv_def)
  have "apu_ok a mx" using assms by (simp add: seq_inv_def)
  from apu_ok_run [OF this, of cpu] obtain a' mx' cpu' where run: "apu_run (a, mx, cpu) = Some (a', mx', cpu')"
    "apu_ok a' mx'" "same_clock a a'" by (auto simp: ok_iff)
  have "cpu_cycle_count cpu' = cpu_cycle_count cpu"
    using apu_run_dma [OF run(1)] cpu_coreD [of cpu' cpu] by (simp add: dma_moves_def)
  moreover note apu_run_view [OF r(1) f(2,1) less_imp_le [OF f(4)] run(1)]
  moreover have "seq_apply (seq_move (fs_position (sequencer_of a cpu)) (sequencer_of a cpu)) = sequencer_of a cpu"
    using seq_still [OF r(2) f(2,3,1,4)] by (simp add: sequencer_of_def) (simp add: counter_view_def)
  moreover have "ap_apu_enabled a'" using assms run(3) by (simp add: seq_inv_def same_clock_def)
  ultimately show ?thesis using run by (simp add: seq_inv_def)
qed

text \<open>Writes to the channels reach neither the frame counter nor its line.\<close>

lemma dmc_write_line:
  "dmc_write_ram addr v (d, mx, cpu) = Some (d', mx', cpu') \<Longrightarrow>
    has_irq_source irq_FRAME_COUNTER cpu' = has_irq_source irq_FRAME_COUNTER cpu"
  by (auto simp: dmc_write_ram_def Let_def bind_eq_Some_conv has_clear_irq_source irq_FRAME_COUNTER_def irq_DMC_def
      split: if_splits)

lemma dmc_buffer_line:
  "set_dmc_read_buffer v (d, cpu) = (d', cpu') \<Longrightarrow>
    has_irq_source irq_FRAME_COUNTER cpu' = has_irq_source irq_FRAME_COUNTER cpu"
  by (auto simp: set_dmc_read_buffer_def Let_def has_set_irq_source irq_FRAME_COUNTER_def irq_DMC_def split: if_splits)

lemma dmc_clock_line:
  "dmc_process_clock (d, cpu) = (d', cpu') \<Longrightarrow> cpu_irq_flag cpu' = cpu_irq_flag cpu"
  by (auto simp: dmc_process_clock_def Let_def dmc_start_transfer_def start_dmc_transfer_def stop_dmc_transfer_def
      split: if_splits)

definition same_sequencer :: "apu \<times> cpu \<Rightarrow> apu \<times> cpu \<Rightarrow> bool" where
  "same_sequencer s t \<longleftrightarrow> ap_frame_counter (fst t) = ap_frame_counter (fst s) \<and> apu_lag (fst t) = apu_lag (fst s) \<and>
     ap_apu_enabled (fst t) = ap_apu_enabled (fst s) \<and>
     has_irq_source irq_FRAME_COUNTER (snd t) = has_irq_source irq_FRAME_COUNTER (snd s)"

lemma same_sequencerD:
  assumes "same_sequencer (a, cpu) (b, cpu')" "seq_inv a mx" "apu_ok b mx'"
  shows "seq_inv b mx' \<and> sequencer_of b cpu' = sequencer_of a cpu"
  using assms by (simp add: same_sequencer_def seq_inv_def sequencer_of_def counter_view_def)

lemma same_sequencer_ops:
  "same_sequencer (a, cpu) (apu_set_enabled v c a, clear_irq_source irq_DMC cpu)"
  "same_sequencer (a, cpu) (add_need n (a\<lparr>ap_square1 := sq\<rparr>), cpu)"
  "same_sequencer (a, cpu) (add_need n (a\<lparr>ap_square2 := sq\<rparr>), cpu)"
  "same_sequencer (a, cpu) (add_need n (a\<lparr>ap_triangle := tr\<rparr>), cpu)"
  "same_sequencer (a, cpu) (add_need n (a\<lparr>ap_noise := ns\<rparr>), cpu)"
  by (simp_all add: same_sequencer_def apu_lag_def apu_set_enabled_def add_need_def has_clear_irq_source
      irq_FRAME_COUNTER_def irq_DMC_def)

lemma same_sequencer_dmc:
  "has_irq_source irq_FRAME_COUNTER cpu' = has_irq_source irq_FRAME_COUNTER cpu \<Longrightarrow>
    same_sequencer (a, cpu) (a\<lparr>ap_dmc := d\<rparr>, cpu')"
  by (simp add: same_sequencer_def apu_lag_def)

lemma same_sequencerI:
  "ap_frame_counter b = ap_frame_counter a \<Longrightarrow> apu_lag b = apu_lag a \<Longrightarrow> ap_apu_enabled b = ap_apu_enabled a \<Longrightarrow>
    has_irq_source irq_FRAME_COUNTER cpu' = has_irq_source irq_FRAME_COUNTER cpu \<Longrightarrow> same_sequencer (a, cpu) (b, cpu')"
  by (simp add: same_sequencer_def)

lemma write_same:
  assumes "apu_write_ram addr v (a, mx, cpu) = Some (a', mx', cpu')" "addr \<noteq> 0x4017"
    and "apu_run (a, mx, cpu) = Some (b, mx1, cpu1)"
  shows "same_sequencer (b, cpu1) (a', cpu') \<or> (a', mx', cpu') = (a, mx, cpu)"
  using assms(1,2) unfolding apu_write_ram_def assms(3)
  by (auto simp del: bind_split simp: bind_eq_Some_conv Let_def same_sequencer_ops split: if_splits
      dest!: dmc_write_line intro: same_sequencer_dmc)

text \<open>A CPU cycle: one more cycle to run, then perhaps a run.\<close>

lemma lag_clock:
  assumes "seq_inv a mx"
  shows "running (a\<lparr>ap_current_cycle := ap_current_cycle a + 1\<rparr>) mx"
    "ring_ok (a\<lparr>ap_current_cycle := ap_current_cycle a + 1\<rparr>)"
    "apu_lag (a\<lparr>ap_current_cycle := ap_current_cycle a + 1\<rparr>) = apu_lag a + 1"
    "unat (ap_current_cycle a + 1) = unat (ap_current_cycle a) + 1"
proof -
  have a: "running a mx" "ring_ok a" "unat (ap_current_cycle a) < CYCLE_LENGTH - 1"
    using assms by (simp_all add: seq_inv_def apu_ok_def)
  show u: "unat (ap_current_cycle a + 1) = unat (ap_current_cycle a) + 1"
    using a(3) by (simp add: CYCLE_LENGTH_def unat_word_ariths)
  then show "running (a\<lparr>ap_current_cycle := ap_current_cycle a + 1\<rparr>) mx"
    using a by (simp add: running_def chans_ok_def timers_at_def word_le_nat_alt CYCLE_LENGTH_def)
  show "ring_ok (a\<lparr>ap_current_cycle := ap_current_cycle a + 1\<rparr>)" using a(2) by (simp add: ring_ok_def)
  show "apu_lag (a\<lparr>ap_current_cycle := ap_current_cycle a + 1\<rparr>) = apu_lag a + 1"
    using u unfolding apu_lag_def by simp
qed

lemma clock_view:
  "seq_apply (seq_move (fs_position (counter_view f c (n + 1))) (counter_view f c (n + 1))) = seq_clock (counter_view f c n)"
  by (simp add: seq_clock_def seq_move_def counter_view_def Let_def add.assoc)

text \<open>The run of a cycle: \<open>b\<close> is the APU with the cycle added and, perhaps, its DMC stepped.\<close>

lemma clock_run:
  assumes inv: "seq_inv a mx" and b: "running b mx" "ap_frame_counter b = ap_frame_counter a"
      "apu_lag b = apu_lag a + 1" "cpu_irq_flag cpu1 = cpu_irq_flag cpu"
    and run: "apu_run (b, mx, cpu1) = Some (a', mx', cpu')"
  shows "fc_at (ap_frame_counter a') \<and> apu_lag a' = 0 \<and> sequencer_of a' cpu' = seq_clock (sequencer_of a cpu)"
proof -
  have r: "fc_ok (ap_frame_counter a)" "0 \<le> apu_lag a"
    using seq_inv_running [OF inv] running_lag(2) by blast+
  have "fc_previous_cycle (ap_frame_counter b) + apu_lag b \<le> fc_step (ap_frame_counter b)"
    using inv r(1) b by (auto simp: seq_inv_def fc_ok_def)
  moreover have "fc_at (ap_frame_counter b)" "0 < apu_lag b" using inv b r(2) by (simp_all add: seq_inv_def)
  ultimately have "fc_at (ap_frame_counter a') \<and> apu_lag a' = 0 \<and>
      sequencer_of a' cpu' = seq_apply (seq_move (fs_position (sequencer_of b cpu1)) (sequencer_of b cpu1))"
    using apu_run_view [OF b(1) _ _ _ run] by simp
  moreover have "sequencer_of b cpu1 = counter_view (ap_frame_counter a) cpu (apu_lag a + 1)"
    using counter_view_irq [OF b(4)] by (simp add: sequencer_of_def b)
  ultimately show ?thesis using clock_view [of "ap_frame_counter a" cpu "apu_lag a"]
    by (simp add: sequencer_of_def [of a])
qed

lemma end_frame_view:
  assumes "apu_end_frame E (b, mx, cpu) = Some (a', mx', cpu')"
  obtains dm cpu1 a1 mx1 where "dmc_process_clock (ap_dmc b, cpu) = (dm, cpu1)"
    "apu_run (b\<lparr>ap_dmc := dm\<rparr>, mx, cpu1) = Some (a1, mx1, cpu')" "ap_frame_counter a' = ap_frame_counter a1"
    "ap_apu_enabled a' = ap_apu_enabled a1" "apu_lag a' = 0"
proof -
  obtain dm cpu1 where d: "dmc_process_clock (ap_dmc b, cpu) = (dm, cpu1)"
    by (cases "dmc_process_clock (ap_dmc b, cpu)")
  let ?close = "\<lambda>(a, mx, cpu). do {
     let a = apu_timers_end_frame a;
     mx \<leftarrow> play_audio_buffer E (ap_current_cycle a) mx;
     let a = a\<lparr>ap_current_cycle := 0, ap_previous_cycle := 0\<rparr>;
     let count = mx_sample_count mx;
     if count > 0 then do {
       let a = a\<lparr>ap_frame_accumulator := ap_frame_accumulator a @ take (count * 2) (mx_output_buffer mx)\<rparr>;
       mx \<leftarrow> consume_samples count mx;
       Some (a, mx, cpu) }
     else Some (a, mx, cpu) }"
  have "Option.bind (apu_run (b\<lparr>ap_dmc := dm\<rparr>, mx, cpu1)) ?close = Some (a', mx', cpu')"
    using assms by (simp only: apu_end_frame_def d Let_def prod.case)
  then obtain a1 mx1 cpu2 where r: "apu_run (b\<lparr>ap_dmc := dm\<rparr>, mx, cpu1) = Some (a1, mx1, cpu2)"
    "?close (a1, mx1, cpu2) = Some (a', mx', cpu')" by (auto simp only: bind_eq_Some_conv split_paired_Ex)
  from r(2) have "cpu' = cpu2 \<and> ap_frame_counter a' = ap_frame_counter a1 \<and> ap_apu_enabled a' = ap_apu_enabled a1 \<and> apu_lag a' = 0"
  proof -
    let ?z = "(apu_timers_end_frame a1)\<lparr>ap_current_cycle := 0, ap_previous_cycle := 0\<rparr>"
    from r(2) obtain mx2 where m: "(if mx_sample_count mx2 > 0 then Option.bind (consume_samples (mx_sample_count mx2) mx2)
        (\<lambda>mx. Some (?z\<lparr>ap_frame_accumulator := ap_frame_accumulator ?z @ take (mx_sample_count mx2 * 2) (mx_output_buffer mx2)\<rparr>,
          mx, cpu2)) else Some (?z, mx2, cpu2)) = Some (a', mx', cpu')"
      by (simp only: prod.case Let_def bind_eq_Some_conv) blast
    have "cpu' = cpu2 \<and> (\<exists>xs. a' = ?z\<lparr>ap_frame_accumulator := xs\<rparr>)"
    proof (cases "mx_sample_count mx2 > 0")
      case True
      then show ?thesis using m by (simp only: if_True bind_eq_Some_conv) blast
    next
      case False
      have "?z = ?z\<lparr>ap_frame_accumulator := ap_frame_accumulator ?z\<rparr>" by simp
      then show ?thesis using m False by (simp only: if_False option.inject prod.inject) metis
    qed
    moreover have "ap_frame_counter ?z = ap_frame_counter a1" "ap_apu_enabled ?z = ap_apu_enabled a1"
      by (simp_all add: apu_timers_end_frame_def)
    ultimately show ?thesis by (auto simp: apu_lag_def)
  qed
  with that [OF d] r(1) show thesis by blast
qed

lemma end_frame_step:
  assumes inv: "seq_inv a mx" and b: "b = a \<or> b = a\<lparr>ap_current_cycle := ap_current_cycle a + 1\<rparr>"
  shows "ok (apu_end_frame E (b, mx, cpu)) (\<lambda>(a', mx', cpu'). seq_inv a' mx' \<and>
    sequencer_of a' cpu' = (if b = a then sequencer_of a cpu else seq_clock (sequencer_of a cpu)))"
proof -
  have rb: "running b mx" "ring_ok b" "ap_frame_counter b = ap_frame_counter a" "ap_apu_enabled b"
    using b lag_clock(1,2) [OF inv] seq_inv_running [OF inv] inv by (auto simp: seq_inv_def apu_ok_def)
  obtain a' mx' cpu' where run: "apu_end_frame E (b, mx, cpu) = Some (a', mx', cpu')" "apu_ok a' mx'"
    using apu_end_frame_ok [OF rb(1,2), of E cpu] by (auto simp: ok_iff)
  obtain dm cpu1 a1 mx1 where d: "dmc_process_clock (ap_dmc b, cpu) = (dm, cpu1)"
    "apu_run (b\<lparr>ap_dmc := dm\<rparr>, mx, cpu1) = Some (a1, mx1, cpu')" "ap_frame_counter a' = ap_frame_counter a1"
    "ap_apu_enabled a' = ap_apu_enabled a1" "apu_lag a' = 0"
    by (rule end_frame_view [OF run(1)])
  let ?b = "b\<lparr>ap_dmc := dm\<rparr>"
  have dm: "dmc_ok dm" "dm_timer dm = dm_timer (ap_dmc b)"
    using dmc_ops_ok(3) [OF _ d(1)] rb(1) by (simp_all add: running_def chans_ok_def)
  have r: "running ?b mx" using rb(1) dm by (intro running_upd) simp_all
  have l: "apu_lag ?b = apu_lag b" by (simp add: apu_lag_def)
  have line: "cpu_irq_flag cpu1 = cpu_irq_flag cpu" by (rule dmc_clock_line [OF d(1)])
  have en: "ap_apu_enabled a1" using apu_run_ok [OF r, of cpu1] d(2) rb(4) by (simp add: same_clock_def)
  have view: "sequencer_of a' cpu' = sequencer_of a1 cpu'" if "apu_lag a1 = 0"
    using d(3,5) that by (simp add: sequencer_of_def)
  show ?thesis
  proof (cases "b = a")
    case True
    have "apu_ok ?b mx" using inv r True by (simp add: seq_inv_def apu_ok_def ring_ok_def)
    moreover have "same_sequencer (a, cpu) (?b, cpu1)"
      using line True by (intro same_sequencerI) (simp_all add: apu_lag_def has_irq_source_def)
    ultimately have s: "seq_inv ?b mx \<and> sequencer_of ?b cpu1 = sequencer_of a cpu"
      using same_sequencerD inv by blast
    from run_catches_up [OF conjunct1 [OF s], of cpu1] d(2) s True view run d en show ?thesis
      by (simp add: seq_inv_def)
  next
    case False
    then have "apu_lag ?b = apu_lag a + 1" using b lag_clock(3) [OF inv] l by auto
    from clock_run [OF inv r _ this line d(2)] rb(3) False view run d en show ?thesis
      by (simp add: seq_inv_def)
  qed
qed

lemma need_view:
  assumes "apu_need_to_run n (b, cpu) = Some (need, b', cpu')"
  shows "ap_frame_counter b' = ap_frame_counter b \<and> apu_lag b' = apu_lag b \<and> ap_apu_enabled b' = ap_apu_enabled b \<and>
    cpu_irq_flag cpu' = cpu_irq_flag cpu \<and>
    (\<not> need \<longrightarrow> fc_need_to_run (n - ap_previous_cycle b) (ap_frame_counter b) = Some False)"
proof -
  obtain nd dm cpu1 where d: "dmc_need_to_run (ap_dmc b, cpu) = (nd, dm, cpu1)"
    by (cases "dmc_need_to_run (ap_dmc b, cpu)") auto
  have "cpu_irq_flag cpu1 = cpu_irq_flag cpu"
    using d dmc_clock_line [of "ap_dmc b" cpu] by (auto simp: dmc_need_to_run_def split: prod.splits if_splits)
  with assms show ?thesis
    by (auto simp del: bind_split simp: apu_need_to_run_def d Let_def bind_eq_Some_conv apu_lag_def split: if_splits)
qed

lemma clock_step:
  assumes inv: "seq_inv a mx"
  shows "ok (apu_process_cpu_clock E (a, mx, cpu)) (\<lambda>(a', mx', cpu'). seq_inv a' mx' \<and>
    sequencer_of a' cpu' = seq_clock (sequencer_of a cpu))"
proof -
  let ?b = "a\<lparr>ap_current_cycle := ap_current_cycle a + 1\<rparr>"
  have en: "ap_apu_enabled a" using inv by (simp add: seq_inv_def)
  note u = lag_clock [OF inv]
  have ne: "?b \<noteq> a" using u(3) by auto
  show ?thesis
  proof (cases "unat (ap_current_cycle a) + 1 = CYCLE_LENGTH - 1")
    case True
    with end_frame_step [OF inv, of ?b E cpu] ne en show ?thesis by (simp add: apu_process_cpu_clock_def u(4))
  next
    case False
    then have okb: "apu_ok ?b mx" using u inv by (simp add: apu_ok_def seq_inv_def)
    from apu_need_to_run_ok [OF this] obtain need b cpu1 where
      n: "apu_need_to_run (ap_current_cycle ?b) (?b, cpu) = Some (need, b, cpu1)" "apu_ok b mx" by (fastforce simp: ok_iff)
    note v = need_view [OF n(1)]
    have b: "ap_frame_counter b = ap_frame_counter a" "apu_lag b = apu_lag a + 1" "ap_apu_enabled b"
      "cpu_irq_flag cpu1 = cpu_irq_flag cpu" using v u(3) en by simp_all
    have rb: "running b mx" using n(2) by (simp add: apu_ok_def)
    show ?thesis
    proof (cases need)
      case True
      obtain a' mx' cpu' where run: "apu_run (b, mx, cpu1) = Some (a', mx', cpu')" "apu_ok a' mx'" "same_clock b a'"
        using apu_ok_run [OF n(2), of cpu1] by (auto simp: ok_iff)
      from clock_run [OF inv rb b(1,2,4) run(1)] True False n(1) run b(3) en show ?thesis
        by (simp add: apu_process_cpu_clock_def u(4) seq_inv_def same_clock_def)
    next
      case idle: False
      let ?f = "ap_frame_counter a"
      have m: "fc_step_mode ?f < 2" "fc_current_step ?f < 6" "fc_step_cycles ?f = STEP_CYCLES"
        using seq_inv_running(2) [OF inv] by (simp_all add: fc_ok_def)
      have "fc_need_to_run (ap_current_cycle ?b - ap_previous_cycle ?b) ?f = Some False"
        using v idle by simp
      moreover have "sint (ap_current_cycle ?b - ap_previous_cycle ?b) = apu_lag a + 1"
        using running_lag(1) [OF u(1)] u(3) by simp
      ultimately have q: "fc_new_value ?f < 0" "fc_previous_cycle ?f + (apu_lag a + 1) < fc_step ?f - 1"
        using m by (simp_all add: fc_need_to_run_def step_rows)
      have pos: "0 < apu_lag a + 1" using running_lag(2) [OF seq_inv_running(1) [OF inv]] by simp
      have at: "fc_at ?f" using inv by (simp add: seq_inv_def)
      have "sequencer_of b cpu1 = counter_view ?f cpu (apu_lag a + 1)"
        using counter_view_irq [OF b(4)] by (simp add: sequencer_of_def b)
      also have "\<dots> = seq_apply (seq_move (fc_previous_cycle ?f + (apu_lag a + 1)) (counter_view ?f cpu (apu_lag a + 1)))"
        using seq_still [OF seq_inv_running(2) [OF inv] at q(1) pos] q(2) by simp
      also have "\<dots> = seq_clock (sequencer_of a cpu)"
        using clock_view [of ?f cpu "apu_lag a"] by (simp add: sequencer_of_def) (simp add: counter_view_def add.assoc)
      finally have "sequencer_of b cpu1 = seq_clock (sequencer_of a cpu)" .
      then show ?thesis
        using idle False n en b q at by (simp add: apu_process_cpu_clock_def u(4) seq_inv_def)
    qed
  qed
qed

section \<open>The simulation\<close>

lemma write_bits:
  fixes v :: u8 and n :: u64
  shows "v AND 0x40 = 0x40 \<longleftrightarrow> bit v 6" "uint v AND 0x80 = 0x80 \<longleftrightarrow> bit v 7" "n AND 1 \<noteq> 0 \<longleftrightarrow> odd (unat n)"
proof -
  have one: "w AND push_bit k 1 = push_bit k 1 \<longleftrightarrow> bit w k" if "k < 8" for w :: u8 and k
    using that by (auto simp: bit_eq_iff [where a = "_ :: u8"] bit_and_iff bit_exp_iff possible_bit_word)
  have e: "(0x40 :: u8) = push_bit 6 1" "(0x80 :: u8) = push_bit 7 1" by simp_all
  show "v AND 0x40 = 0x40 \<longleftrightarrow> bit v 6" unfolding e by (rule one) simp
  have "uint v AND 0x80 = 0x80 \<longleftrightarrow> v AND 0x80 = 0x80"
    by (simp add: word_uint_eq_iff uint_and)
  then show "uint v AND 0x80 = 0x80 \<longleftrightarrow> bit v 7" unfolding e using one [of 7 v] by simp
  show "n AND 1 \<noteq> 0 \<longleftrightarrow> odd (unat n)"
    by (simp add: and_one_eq mod_2_eq_odd flip: bit_0) (simp add: bit_unsigned_iff del: bit_0)
qed

lemma write_4017:
  assumes inv: "seq_inv a mx"
  shows "ok (fc_write_ram v (a, mx, cpu)) (\<lambda>(a', mx', cpu'). seq_inv a' mx' \<and>
    sequencer_of a' cpu' = seq_write (cpu_cycle_count cpu) v (sequencer_of a cpu))"
proof -
  obtain b mx1 cpu1 where run: "apu_run (a, mx, cpu) = Some (b, mx1, cpu1)" "seq_inv b mx1" "apu_lag b = 0"
    "sequencer_of b cpu1 = sequencer_of a cpu" "cpu_cycle_count cpu1 = cpu_cycle_count cpu"
    using run_catches_up [OF inv, of cpu] by (auto simp: ok_iff)
  obtain a' cpu' where w: "fc_write_ram v (a, mx, cpu) = Some (a', mx1, cpu')"
    "a' = upd_fc (\<lambda>f. f\<lparr>fc_new_value := uint v, fc_write_delay_counter := (if odd (unat (cpu_cycle_count cpu)) then 4 else 3),
       fc_inhibit_irq := bit v 6, fc_irq_flag := (if bit v 6 then False else fc_irq_flag f),
       fc_irq_flag_clear_clock := (if bit v 6 then 0 else fc_irq_flag_clear_clock f)\<rparr>) b"
    "cpu' = (if bit v 6 then clear_irq_source irq_FRAME_COUNTER cpu1 else cpu1)"
    by (simp add: fc_write_ram_def run(1,5) Let_def write_bits)
  have "apu_ok a' mx1"
    unfolding w(2) using run(2) by (intro apu_ok_fc) (simp_all add: seq_inv_def fc_pos_def)
  moreover have "apu_lag a' = 0" "ap_apu_enabled a'"
    using run(2,3) by (simp_all add: w(2) apu_lag_def upd_fc_def seq_inv_def)
  moreover have "fc_at (ap_frame_counter a')" using run(2) by (auto simp: w(2) fc_at_def seq_inv_def)
  moreover have "sequencer_of a' cpu' = seq_write (cpu_cycle_count cpu) v (sequencer_of b cpu1)"
    using \<open>apu_lag a' = 0\<close> run(3)
    by (simp add: sequencer_of_def seq_write_def counter_view_def w(2,3) write_bits(2) has_clear_irq_source(2))
  ultimately show ?thesis using run(4) w(1) by (simp add: seq_inv_def)
qed

text \<open>Every step of the APU is a step of the sequencer.\<close>

lemma apu_step_view:
  assumes inv: "seq_inv a mx"
  shows "ok (apu_step E op0 (a, mx, cpu)) (\<lambda>(a', mx', cpu'). seq_inv a' mx' \<and>
    sequencer_of a' cpu' = seq_step (cpu_cycle_count cpu) op0 (sequencer_of a cpu))"
proof -
  have aok: "apu_ok a mx" using inv by (simp add: seq_inv_def)
  have ok': "ok (apu_step E op0 (a, mx, cpu)) (\<lambda>s. apu_ok (fst s) (fst (snd s)))"
    by (rule apu_step_ok) (simp add: aok)
  show ?thesis
  proof (cases op0)
    case ApuClock
    then show ?thesis using clock_step [OF inv, of E cpu] by simp
  next
    case (ApuRead ob addr)
    obtain b mx1 cpu1 where run: "apu_run (a, mx, cpu) = Some (b, mx1, cpu1)" "seq_inv b mx1"
      "sequencer_of b cpu1 = sequencer_of a cpu" using run_catches_up [OF inv, of cpu] by (auto simp: ok_iff)
    then show ?thesis
      by (simp add: ApuRead apu_read_ram_def) (simp add: sequencer_of_def counter_view_def has_clear_irq_source)
  next
    case (ApuWrite addr v)
    show ?thesis
    proof (cases "addr = 0x4017")
      case True
      then show ?thesis using write_4017 [OF inv, of v cpu] by (simp add: ApuWrite apu_write_ram_def)
    next
      case False
      obtain b mx1 cpu1 where run: "apu_run (a, mx, cpu) = Some (b, mx1, cpu1)" "seq_inv b mx1"
        "sequencer_of b cpu1 = sequencer_of a cpu" using run_catches_up [OF inv, of cpu] by (auto simp: ok_iff)
      obtain a' mx' cpu' where w: "apu_write_ram addr v (a, mx, cpu) = Some (a', mx', cpu')" "apu_ok a' mx'"
        using apu_write_ram_ok [OF aok, of addr v cpu] by (auto simp: ok_iff)
      have "seq_inv a' mx' \<and> sequencer_of a' cpu' = sequencer_of a cpu"
        using write_same [OF w(1) False run(1)] same_sequencerD [OF _ run(2) w(2)] run(3) inv by auto
      then show ?thesis using False by (simp add: ApuWrite w(1))
    qed
  next
    case (ApuDmaByte v)
    obtain d c where d: "set_dmc_read_buffer v (ap_dmc a, cpu) = (d, c)" by (cases "set_dmc_read_buffer v (ap_dmc a, cpu)")
    have "same_sequencer (a, cpu) (a\<lparr>ap_dmc := d\<rparr>, c)" by (rule same_sequencer_dmc [OF dmc_buffer_line [OF d]])
    moreover have "apu_ok (a\<lparr>ap_dmc := d\<rparr>) mx"
      using ok' by (simp add: ApuDmaByte apu_set_dmc_read_buffer_def d)
    ultimately show ?thesis
      using same_sequencerD inv by (simp add: ApuDmaByte apu_set_dmc_read_buffer_def d)
  next
    case ApuPushFrame
    obtain a' where p: "push_frame a = Some a'" "apu_ok a' mx" using push_frame_ok [OF aok] by (auto simp: ok_iff)
    have "ap_frame_counter a' = ap_frame_counter a \<and> ap_current_cycle a' = ap_current_cycle a \<and>
        ap_previous_cycle a' = ap_previous_cycle a \<and> ap_apu_enabled a' = ap_apu_enabled a"
    proof (cases "ap_frame_accumulator a = []")
      case True
      then show ?thesis using p(1) by (simp add: push_frame_def)
    next
      case False
      then obtain ring where "wr (ap_audio_ring a) (ap_write_index a) \<lparr>af_data = ap_frame_accumulator a,
          af_samples = length (ap_frame_accumulator a) div 2\<rparr> = Some ring"
        using p(1) by (simp only: push_frame_def if_False Let_def bind_eq_Some_conv) blast
      with False show ?thesis using p(1) by (cases "ap_available_frames a < MAX_AUDIO_FRAMES") (auto simp: push_frame_def Let_def)
    qed
    then have "same_sequencer (a, cpu) (a', cpu)" by (simp add: same_sequencer_def apu_lag_def)
    with p same_sequencerD inv show ?thesis by (simp add: ApuPushFrame)
  next
    case ApuConsume
    have "same_sequencer (a, cpu) (consume_audio a, cpu)" by (simp add: consume_audio_def same_sequencer_def apu_lag_def)
    with consume_audio_ok [OF aok] same_sequencerD inv show ?thesis by (simp add: ApuConsume)
  next
    case ApuEndFrame
    then show ?thesis using end_frame_step [OF inv, of a E cpu] by simp
  next
    case (ApuReset soft)
    have "apu_ok (apu_reset soft a) mx" by (rule apu_reset_ok [OF aok])
    moreover have "fc_at (ap_frame_counter (apu_reset soft a))" "ap_apu_enabled (apu_reset soft a)" "apu_lag (apu_reset soft a) = 0"
      by (simp_all add: apu_reset_def apu_lag_def) (simp add: fc_reset_def fc_at_def Let_def)
    ultimately show ?thesis
      by (simp add: ApuReset seq_inv_def sequencer_of_def)
        (simp add: apu_reset_sel counter_view_def seq_reset_def fc_reset_def Let_def)
  qed
qed

text \<open>Steps at given CPU cycles.\<close>

fun timed_step :: "audio_env \<Rightarrow> u64 \<times> apu_op \<Rightarrow> apu \<times> mixer \<times> cpu \<Rightarrow> (apu \<times> mixer \<times> cpu) option" where
  "timed_step E (cycle, op0) (a, mx, cpu) = apu_step E op0 (a, mx, cpu\<lparr>cpu_cycle_count := cycle\<rparr>)"

definition seq_steps :: "(u64 \<times> apu_op) list \<Rightarrow> sequencer \<Rightarrow> sequencer" where
  "seq_steps = fold (\<lambda>(cycle, op0). seq_step cycle op0)"

lemma seq_steps_simps [simp]:
  "seq_steps [] s = s" "seq_steps ((c, op0) # ops) s = seq_steps ops (seq_step c op0 s)"
  "seq_steps (xs @ ys) s = seq_steps ys (seq_steps xs s)"
  by (simp_all add: seq_steps_def)

lemma sequencer_cycle [simp]: "sequencer_of a (cpu\<lparr>cpu_cycle_count := n\<rparr>) = sequencer_of a cpu"
  by (simp add: sequencer_of_def counter_view_def has_irq_source_def)

lemma traffic_view:
  assumes "seq_inv a mx"
  shows "ok (for_each (timed_step E) ops (a, mx, cpu)) (\<lambda>(a', mx', cpu'). seq_inv a' mx' \<and>
    sequencer_of a' cpu' = seq_steps ops (sequencer_of a cpu))"
  using assms
proof (induction ops arbitrary: a mx cpu)
  case (Cons x ops)
  obtain c op0 where x: "x = (c, op0)" by (cases x)
  obtain a1 mx1 cpu1 where s: "apu_step E op0 (a, mx, cpu\<lparr>cpu_cycle_count := c\<rparr>) = Some (a1, mx1, cpu1)" "seq_inv a1 mx1"
    "sequencer_of a1 cpu1 = seq_step c op0 (sequencer_of a cpu)"
    using apu_step_view [OF Cons.prems, of E op0 "cpu\<lparr>cpu_cycle_count := c\<rparr>"] by (auto simp: ok_iff)
  from Cons.IH [OF s(2), of cpu1] s(1,3) show ?case by (simp add: x)
qed simp

text \<open>Power on: a write of zero to $4017 is pending.\<close>

definition sequencer0 :: "bool \<Rightarrow> sequencer" where
  "sequencer0 line = \<lparr>fs_mode = 0, fs_position = 0, fs_pending = Some (0, 3), fs_inhibit = False, fs_flag = False, fs_line = line\<rparr>"

lemma power_on_view:
  "seq_inv new_apu new_mixer" "sequencer_of new_apu cpu = sequencer0 (has_irq_source irq_FRAME_COUNTER cpu)"
proof -
  have f: "ap_frame_counter new_apu = new_frame_counter" "apu_lag new_apu = 0" "ap_apu_enabled new_apu"
    by (simp_all add: new_apu_def apu_reset_def apu_lag_def new_frame_counter_def fc_reset_def)
  have "fc_at new_frame_counter" by (simp add: fc_at_def new_frame_counter_def fc_reset_def)
  with f show "seq_inv new_apu new_mixer" by (simp add: seq_inv_def new_apu_ok new_mixer_ok)
  show "sequencer_of new_apu cpu = sequencer0 (has_irq_source irq_FRAME_COUNTER cpu)"
    by (simp add: sequencer_of_def f counter_view_def sequencer0_def new_frame_counter_def fc_reset_def)
qed

section \<open>The IRQ comes\<close>

definition seq_ok :: "sequencer \<Rightarrow> bool" where
  "seq_ok s \<longleftrightarrow> 0 \<le> fs_position s \<and> (case fs_pending s of None \<Rightarrow> True | Some (m, d) \<Rightarrow> 1 \<le> d \<and> d \<le> 4)"

lemma seq_ok_step: "seq_ok s \<Longrightarrow> seq_ok (seq_step c op0 s)"
  by (cases op0) (auto simp: seq_ok_def seq_clock_def seq_move_def seq_apply_def seq_write_def seq_reset_def seq_length_def
      Let_def split: option.splits if_splits)

lemma seq_ok_steps: "seq_ok s \<Longrightarrow> seq_ok (seq_steps ops s)"
  by (induction ops arbitrary: s) (auto simp: seq_ok_step)

text \<open>The mode that is or will be selected; the clocks until the IRQ of the four-step sequence at the latest.\<close>

definition seq_selected :: "sequencer \<Rightarrow> nat" where
  "seq_selected s = (case fs_pending s of None \<Rightarrow> fs_mode s | Some (m, d) \<Rightarrow> m)"

definition seq_wait :: "sequencer \<Rightarrow> int" where
  "seq_wait s = (case fs_pending s of None \<Rightarrow> max 1 (29828 - fs_position s) | Some (m, d) \<Rightarrow> int d + 29828)"

lemma seq_clock_waits:
  assumes "seq_ok s" "seq_selected s = 0" "\<not> fs_inhibit s"
  shows "seq_selected (seq_clock s) = 0" "\<not> fs_inhibit (seq_clock s)"
    "fs_flag (seq_clock s) \<and> fs_line (seq_clock s) \<or> seq_wait (seq_clock s) = seq_wait s - 1 \<and> 1 < seq_wait s"
    "fs_flag s \<and> fs_line s \<Longrightarrow> fs_flag (seq_clock s) \<and> fs_line (seq_clock s)"
  using assms
  by (auto simp: seq_ok_def seq_selected_def seq_clock_def seq_move_def seq_apply_def seq_wait_def seq_length_def Let_def
      split: option.splits if_splits)

lemma seq_irq:
  assumes "seq_ok s" "seq_selected s = 0" "\<not> fs_inhibit s" "fs_flag s \<and> fs_line s \<or> seq_wait s \<le> int n"
  shows "fs_flag ((seq_clock ^^ n) s) \<and> fs_line ((seq_clock ^^ n) s)"
  using assms
proof (induction n arbitrary: s)
  case 0
  then have "fs_flag s \<and> fs_line s" by (auto simp: seq_wait_def seq_ok_def split: option.splits)
  then show ?case by simp
next
  case (Suc n)
  have "seq_ok (seq_clock s)" using seq_ok_step [OF Suc.prems(1), of 0 ApuClock] by simp
  moreover note seq_clock_waits [OF Suc.prems(1-3)]
  ultimately have "fs_flag ((seq_clock ^^ n) (seq_clock s)) \<and> fs_line ((seq_clock ^^ n) (seq_clock s))"
    using Suc.prems(4) by (intro Suc.IH) auto
  then show ?case by (simp add: funpow_swap1)
qed

lemma seq_steps_clocks: "seq_steps (map (\<lambda>c. (c, ApuClock)) cs) s = (seq_clock ^^ length cs) s"
  by (induction cs arbitrary: s) (simp_all add: funpow_swap1)

end
