(* ===== verification/Timed_Channel.thy ===== *)
theory Timed_Channel
  imports Apu_Channel_Facts
begin

text \<open>
  The contract of a sound channel that is driven by a timer: its loop
  \<^verbatim>\<open>while (timer_.run(target)) ...\<close> can be run in slices. The APU relies on it to execute
  lazily, catching up with the CPU only when something is observable.
\<close>

section \<open>Slices of a timer\<close>

lemma timer_run_later:
  assumes "tm_previous_cycle t \<le> t1" "t1 \<le> t2" "unat t2 < 2 ^ 31" "timer_run t1 t = (True, t')"
  shows "timer_run t2 t = (True, t')"
proof -
  have le: "tm_previous_cycle t \<le> t2" "unat t1 \<le> unat t2"
    using assms(1,2) by (auto simp: word_le_nat_alt)
  then have "unat t1 < 2 ^ 31" using assms(3) by simp
  with assms(4) timer_run_nat [OF assms(1)] have
    "unat (tm_timer t) < unat t1 - unat (tm_previous_cycle t)"
    "t' = t\<lparr>tm_previous_cycle := tm_previous_cycle t + ucast (tm_timer t) + 1, tm_timer := tm_period t\<rparr>"
    by (auto split: if_splits)
  with timer_run_nat [OF le(1) assms(3)] le(2) show ?thesis by simp
qed

lemma ucast_diff:
  fixes w :: u16 and a :: u32
  assumes "unat a \<le> unat w"
  shows "unat (w - ucast a) = unat w - unat a" "(ucast (w - ucast a) :: u32) = ucast w - a"
proof -
  have w: "unat w < 65536" using unsigned_less [where 'a = nat, of w] by simp
  have u: "unat (ucast a :: u16) = unat a"
    using assms w by (simp add: unsigned_ucast_eq take_bit_nat_eq_self)
  then have "(ucast a :: u16) \<le> w" using assms by (simp add: word_le_nat_alt)
  from unat_diff_le [OF this] show d: "unat (w - ucast a) = unat w - unat a" by (simp add: u)
  have uw: "unat (ucast x :: u32) = unat x" for x :: u16
    using unsigned_less [where 'a = nat, of x] by (simp add: unsigned_ucast_eq take_bit_nat_eq_self)
  have "a \<le> (ucast w :: u32)" using assms by (simp add: word_le_nat_alt uw)
  from unat_diff_le [OF this] have "unat ((ucast w :: u32) - a) = unat w - unat a" by (simp add: uw)
  with d show "(ucast (w - ucast a) :: u32) = ucast w - a"
    by (simp add: word_unat_eq_iff uw)
qed

lemma timer_run_resume:
  assumes "tm_previous_cycle t \<le> t1" "t1 \<le> t2" "unat t2 < 2 ^ 31" "timer_run t1 t = (False, t')"
  shows "timer_run t2 t' = timer_run t2 t"
proof -
  let ?p = "tm_previous_cycle t"
  have le: "?p \<le> t2" "unat t1 \<le> unat t2" "unat ?p \<le> unat t1"
    using assms(1,2) by (auto simp: word_le_nat_alt)
  then have "unat t1 < 2 ^ 31" using assms(3) by simp
  with assms(4) timer_run_nat [OF assms(1)] have ge: "unat t1 - unat ?p \<le> unat (tm_timer t)"
    and t': "t' = t\<lparr>tm_timer := tm_timer t - ucast (t1 - ?p), tm_previous_cycle := t1\<rparr>"
    by (auto split: if_splits)
  have d1: "unat (t1 - ?p) = unat t1 - unat ?p" "unat (t2 - ?p) = unat t2 - unat ?p" "unat (t2 - t1) = unat t2 - unat t1"
    using assms(1,2) le(1) by (simp_all add: unat_diff_le)
  note c1 = ucast_diff [of "t1 - ?p" "tm_timer t", unfolded d1(1), OF ge]
  show ?thesis
  proof (cases "unat (tm_timer t) < unat t2 - unat ?p")
    case True
    then show ?thesis
      using timer_run_nat [of t' t2] timer_run_nat [OF le(1) assms(3)] assms(2,3) c1 le(2,3) ge
      by (simp add: t')
  next
    case False
    then have ge2: "unat (t2 - ?p) \<le> unat (tm_timer t)" by (simp add: d1)
    have ge3: "unat (t2 - t1) \<le> unat (tm_timer t - ucast (t1 - ?p))" using c1(1) ge2 le by (simp add: d1)
    have "unat (tm_timer t - ucast (t1 - ?p) - ucast (t2 - t1)) = unat (tm_timer t - ucast (t2 - ?p))"
      using ucast_diff(1) [OF ge2] ucast_diff(1) [OF ge3] c1(1) le by (simp add: d1)
    then have "tm_timer t - ucast (t1 - ?p) - ucast (t2 - t1) = tm_timer t - ucast (t2 - ?p)"
      by (simp only: word_unat_eq_iff)
    with False show ?thesis
      using timer_run_nat [of t' t2] timer_run_nat [OF le(1) assms(3)] assms(2,3) c1 le(2,3) ge
      by (simp add: t')
  qed
qed

section \<open>The channel\<close>

locale timed_channel =
  fixes tm :: "'s \<Rightarrow> apu_timer"
    and upd :: "apu_timer \<Rightarrow> 's \<Rightarrow> 's"
    and fire :: "'s \<Rightarrow> 's option"
    and step :: "u32 \<Rightarrow> 's \<Rightarrow> (bool \<times> 's) option"
  assumes tm_upd: "tm (upd t s) = t"
    and upd_upd: "upd t (upd t' s) = upd t s"
    and fire_keeps: "fire s = Some s' \<Longrightarrow> tm_previous_cycle (tm s') = tm_previous_cycle (tm s)"
    and step_eq: "step target s = (let (again, t) = timer_run target (tm s) in
      if again then map_option (Pair True) (fire (upd t s)) else Some (False, upd t s))"
begin

lemma step_resume:
  assumes "tm_previous_cycle (tm s) \<le> t1" "t1 \<le> t2" "unat t2 < 2 ^ 31" "timer_run t1 (tm s) = (False, t')"
  shows "step t2 (upd t' s) = step t2 s"
  using timer_run_resume [OF assms] by (simp add: step_eq tm_upd upd_upd split: prod.split)

text \<open>Running to \<open>t1\<close> and then to \<open>t2\<close> is running to \<open>t2\<close>.\<close>

lemma catch_up:
  assumes "tm_previous_cycle (tm s) \<le> t1" "t1 \<le> t2" "unat t2 < 2 ^ 31"
  shows "Option.bind (run_while (step t1) s) (run_while (step t2)) = run_while (step t2) s"
  using assms(1)
proof (induction "unat t1 - unat (tm_previous_cycle (tm s))" arbitrary: s rule: less_induct)
  case less
  have t1: "unat t1 < 2 ^ 31" using assms(2,3) by (simp add: word_le_nat_alt)
  obtain again t where run: "timer_run t1 (tm s) = (again, t)" by (cases "timer_run t1 (tm s)")
  show ?case
  proof (cases again)
    case False
    with run have r: "timer_run t1 (tm s) = (False, t)" by simp
    then have "step t1 s = Some (False, upd t s)" by (simp add: step_eq)
    then have "run_while (step t1) s = Some (upd t s)" by (subst run_while.simps) simp
    moreover have "run_while (step t2) (upd t s) = run_while (step t2) s"
      by (subst (1 2) run_while.simps) (simp only: step_resume [OF less.prems assms(2,3) r])
    ultimately show ?thesis by simp
  next
    case True
    with run have r: "timer_run t1 (tm s) = (True, t)" by simp
    note r2 = timer_run_later [OF less.prems assms(2,3) r]
    note f = timer_run_fires(1,2) [OF r less.prems t1]
    have s1: "step t1 s = map_option (Pair True) (fire (upd t s))"
      and s2: "step t2 s = map_option (Pair True) (fire (upd t s))"
      by (simp_all add: step_eq r r2)
    show ?thesis
    proof (cases "fire (upd t s)")
      case None
      then show ?thesis by (subst (1 2) run_while.simps) (simp add: s1 s2)
    next
      case (Some s')
      then have "tm_previous_cycle (tm s') = tm_previous_cycle t" using fire_keeps [OF Some] by (simp add: tm_upd)
      with f less.prems have "Option.bind (run_while (step t1) s') (run_while (step t2)) = run_while (step t2) s'"
        by (intro less.hyps) (auto simp: word_le_nat_alt word_less_nat_alt)
      then show ?thesis by (subst (1 2) run_while.simps) (simp add: s1 s2 Some)
    qed
  qed
qed

end

section \<open>The four kinds of channels\<close>

lemma add_output_keeps:
  "add_output v (t, mx) = Some (t', mx') \<Longrightarrow> tm_previous_cycle t' = tm_previous_cycle t"
  by (auto simp: add_output_def bind_eq_Some_conv split: if_splits)

definition square_fire :: "square \<times> mixer \<Rightarrow> (square \<times> mixer) option" where
  "square_fire s = square_update_output ((fst s)\<lparr>sq_duty_pos := (sq_duty_pos (fst s) - 1) AND 0x07\<rparr>, snd s)"

interpretation squares: timed_channel "\<lambda>s. sq_timer (fst s)" "\<lambda>t s. ((fst s)\<lparr>sq_timer := t\<rparr>, snd s)"
  square_fire square_step
proof unfold_locales
  fix s s' :: "square \<times> mixer"
  assume "square_fire s = Some s'"
  then show "tm_previous_cycle (sq_timer (fst s')) = tm_previous_cycle (sq_timer (fst s))"
    by (auto simp: square_fire_def square_update_output_def square_output_def bind_eq_Some_conv
        dest: add_output_keeps split: if_splits)
qed (auto simp: square_step_def square_fire_def split: prod.split)

definition triangle_fire :: "triangle \<times> mixer \<Rightarrow> (triangle \<times> mixer) option" where
  "triangle_fire s =
     (if lc_is_active (tr_length_counter (fst s)) \<and> tr_linear_counter (fst s) > 0 then do {
        let c = (fst s)\<lparr>tr_sequence_position := (tr_sequence_position (fst s) + 1) AND 0x1F\<rparr>;
        v \<leftarrow> rd SEQUENCE (unat (tr_sequence_position c));
        (t, mx) \<leftarrow> add_output v (tr_timer c, snd s);
        Some (c\<lparr>tr_timer := t\<rparr>, mx) }
      else Some s)"

interpretation triangles: timed_channel "\<lambda>s. tr_timer (fst s)" "\<lambda>t s. ((fst s)\<lparr>tr_timer := t\<rparr>, snd s)"
  triangle_fire triangle_step
proof unfold_locales
  fix s s' :: "triangle \<times> mixer"
  assume "triangle_fire s = Some s'"
  then show "tm_previous_cycle (tr_timer (fst s')) = tm_previous_cycle (tr_timer (fst s))"
    by (auto simp: triangle_fire_def bind_eq_Some_conv Let_def dest: add_output_keeps split: if_splits)
qed (auto simp: triangle_step_def triangle_fire_def Let_def split: prod.split option.split bind_splits)

definition noise_fire :: "noise \<times> mixer \<Rightarrow> (noise \<times> mixer) option" where
  "noise_fire s = do {
     let c = (fst s)\<lparr>ns_shift_register := noise_shift (ns_mode_flag (fst s)) (ns_shift_register (fst s))\<rparr>;
     (t, mx) \<leftarrow> add_output
       (if ns_shift_register c AND 1 = 1 then 0 else ucast (get_volume (ns_envelope c))) (ns_timer c, snd s);
     Some (c\<lparr>ns_timer := t\<rparr>, mx) }"

interpretation noises: timed_channel "\<lambda>s. ns_timer (fst s)" "\<lambda>t s. ((fst s)\<lparr>ns_timer := t\<rparr>, snd s)"
  noise_fire noise_step
proof unfold_locales
  fix s s' :: "noise \<times> mixer"
  assume "noise_fire s = Some s'"
  then show "tm_previous_cycle (ns_timer (fst s')) = tm_previous_cycle (ns_timer (fst s))"
    by (auto simp: noise_fire_def bind_eq_Some_conv Let_def dest: add_output_keeps)
qed (auto simp: noise_step_def noise_fire_def Let_def split: prod.split bind_splits)

definition dmc_fire :: "dmc \<times> mixer \<times> cpu \<Rightarrow> (dmc \<times> mixer \<times> cpu) option" where
  "dmc_fire s = do {
     let (c, mx, cpu) = s;
     let (c, cpu) = dmc_next_byte (dmc_shift_bit c, cpu);
     (t, mx) \<leftarrow> add_output (dm_output_level c) (dm_timer c, mx);
     Some (c\<lparr>dm_timer := t\<rparr>, mx, cpu) }"

interpretation dmcs: timed_channel "\<lambda>s. dm_timer (fst s)" "\<lambda>t s. ((fst s)\<lparr>dm_timer := t\<rparr>, snd s)"
  dmc_fire dmc_step
proof unfold_locales
  fix s s' :: "dmc \<times> mixer \<times> cpu"
  assume "dmc_fire s = Some s'"
  then show "tm_previous_cycle (dm_timer (fst s')) = tm_previous_cycle (dm_timer (fst s))"
    by (auto simp: dmc_fire_def bind_eq_Some_conv dmc_next_byte_def dmc_shift_bit_def Let_def
        dmc_start_transfer_def dest!: add_output_keeps split: if_splits prod.splits)
qed (auto simp: dmc_step_def dmc_fire_def Let_def split: prod.split bind_splits)

end
