(* ===== verification/Apu_Properties.thy ===== *)
theory Apu_Properties
  imports Apu_Traffic Timed_Channel
begin

text \<open>
  What the APU promises: it never faults, its lazy execution is not observable in the
  channels, its frame sequencer keeps time and raises its IRQ, and the audio frames come
  out in order.
\<close>

section \<open>Traffic\<close>

text \<open>
  C11: from power on, no sequence of CPU cycles, register accesses, DMA bytes, audio requests,
  ends of frames and resets reaches undefined behaviour in the APU or makes it loop: every table index is in
  range and every delta lands in the mixer's 10000 cycle buffer. The noise register never
  becomes zero, the DMC level stays a 7-bit value and the audio queue holds at most eight
  frames. The sums of the resampler are taken modulo \<open>2 ^ 32\<close>; see \<open>Blip_Buf\<close>.
\<close>

theorem apu_traffic_safe:
  "\<exists>a mx c. for_each (apu_step E) ops (new_apu, new_mixer, cpu) = Some (a, mx, c) \<and>
    unat (ap_current_cycle a) < CYCLE_LENGTH - 1 \<and> ns_shift_register (ap_noise a) \<noteq> 0 \<and>
    dm_output_level (ap_dmc a) \<le> 127 \<and> ap_available_frames a \<le> MAX_AUDIO_FRAMES"
proof -
  have "ok (for_each (apu_step E) ops (new_apu, new_mixer, cpu)) (\<lambda>s. apu_ok (fst s) (fst (snd s)))"
    by (rule for_each_ok [OF _ apu_step_ok]) (simp_all add: new_apu_ok new_mixer_ok)
  then show ?thesis
    by (auto simp: ok_iff apu_ok_def running_def chans_ok_def noise_ok_def lfsr_ok_def dmc_ok_def ring_ok_def)
qed

section \<open>The resampler\<close>

text \<open>
  The calls the mixer makes on the resampler during an audio frame, and the end of a frame
  with the read that follows it. The number counts the samples read.
\<close>

datatype resampler_call = AddDelta u32 int | EndFrame u32

fun resampler_step :: "resampler_call \<Rightarrow> nat \<times> blip \<Rightarrow> (nat \<times> blip) option" where
  "resampler_step (AddDelta t d) (n, b) = map_option (Pair n) (blip_add_delta t d b)"
| "resampler_step (EndFrame t) (n, b) = do {
     b \<leftarrow> blip_end_frame t b;
     let (out, b) = blip_read_samples MAX_SAMPLES_PER_FRAME b;
     Some (n + length out, b) }"

fun call_time :: "resampler_call \<Rightarrow> u32" where
  "call_time (AddDelta t d) = t"
| "call_time (EndFrame t) = t"

fun frame_time :: "resampler_call \<Rightarrow> nat" where
  "frame_time (AddDelta t d) = 0"
| "frame_time (EndFrame t) = unat t"

lemma resampler_step_count:
  assumes "blip_ok b" "bl_avail b = 0" "bl_size b = MAX_SAMPLES_PER_FRAME" "unat (call_time c) < CYCLE_LENGTH"
  shows "ok (resampler_step c (n, b)) (\<lambda>(n', b'). blip_ok b' \<and> bl_avail b' = 0 \<and>
    bl_size b' = MAX_SAMPLES_PER_FRAME \<and>
    (n' - n) * 2 ^ 52 + unat (bl_offset b') = frame_time c * BLIP_FACTOR + unat (bl_offset b) \<and> n \<le> n')"
proof (cases c)
  case (AddDelta t d)
  with assms show ?thesis
    using blip_add_delta_ok [of b t d] by (auto simp: CYCLE_LENGTH_def MAX_SAMPLES_PER_FRAME_def elim!: ok_mono)
next
  case (EndFrame t)
  let ?x = "unat t * BLIP_FACTOR + unat (bl_offset b)"
  obtain b1 where b1: "blip_end_frame t b = Some b1" "blip_ok b1" "bl_size b1 = bl_size b"
    "bl_avail b1 = ?x div 2 ^ 52" "unat (bl_offset b1) = ?x mod 2 ^ 52"
    using blip_end_frame_ok [of b t] assms EndFrame by (auto simp: ok_iff CYCLE_LENGTH_def MAX_SAMPLES_PER_FRAME_def)
  obtain out b2 where r: "blip_read_samples MAX_SAMPLES_PER_FRAME b1 = (out, b2)" by fastforce
  have av: "bl_avail b1 \<le> 537"
    using unat_blip_time [OF assms(1), of t] assms(4) b1(4) EndFrame by (simp add: CYCLE_LENGTH_def)
  then have "bl_avail b1 \<le> bl_size b1" using b1(3) assms(3) by (simp add: MAX_SAMPLES_PER_FRAME_def)
  note rs = blip_read_samples_ok [OF r b1(2) this]
  have "length out = ?x div 2 ^ 52" "bl_avail b2 = 0"
    using rs(1,4) av b1(4) by (simp_all add: MAX_SAMPLES_PER_FRAME_def)
  with EndFrame b1 rs r assms(3) show ?thesis by (simp add: div_mult_mod_eq)
qed

text \<open>
  C36: the resampler keeps time. Start with an empty buffer of the mixer's size at the rates that the mixer sets: whatever deltas
  arrive, as long as every call lies in the 10000 cycles of an audio frame, no call leaves the buffer, and the samples that come out
  are the elapsed cycles times the exact rate plus the fraction of a sample at the start, rounded down. No frame's fraction of a sample
  is lost.
\<close>

theorem resampler_keeps_time:
  assumes "blip_ok b" "bl_avail b = 0" "bl_size b = MAX_SAMPLES_PER_FRAME"
    and "\<forall>c \<in> set calls. unat (call_time c) < CYCLE_LENGTH"
  shows "\<exists>n b'. for_each resampler_step calls (0, b) = Some (n, b') \<and> bl_avail b' = 0 \<and>
    n = (sum_list (map frame_time calls) * BLIP_FACTOR + unat (bl_offset b)) div 2 ^ 52"
proof -
  have "ok (for_each resampler_step calls (m, b)) (\<lambda>(n, b'). blip_ok b' \<and> bl_avail b' = 0 \<and> m \<le> n \<and>
      (n - m) * 2 ^ 52 + unat (bl_offset b') = sum_list (map frame_time calls) * BLIP_FACTOR + unat (bl_offset b))"
    for m using assms
  proof (induction calls arbitrary: m b)
    case (Cons c calls)
    have c: "unat (call_time c) < CYCLE_LENGTH" using Cons.prems(4) by simp
    show ?case
      unfolding for_each.simps
    proof (rule ok_bindI [OF resampler_step_count [OF Cons.prems(1-3) c]], unfold split_paired_all prod.case, elim conjE)
      fix k b1 assume s: "blip_ok b1" "bl_avail b1 = 0" "bl_size b1 = MAX_SAMPLES_PER_FRAME" "m \<le> k"
        "(k - m) * 2 ^ 52 + unat (bl_offset b1) = frame_time c * BLIP_FACTOR + unat (bl_offset b)"
      have "\<forall>c \<in> set calls. unat (call_time c) < CYCLE_LENGTH" using Cons.prems(4) by simp
      from Cons.IH [OF s(1-3) this, of k] show "ok (for_each resampler_step calls (k, b1)) (\<lambda>(n, b'). blip_ok b' \<and>
          bl_avail b' = 0 \<and> m \<le> n \<and> (n - m) * 2 ^ 52 + unat (bl_offset b') =
            sum_list (map frame_time (c # calls)) * BLIP_FACTOR + unat (bl_offset b))"
      proof (rule ok_mono, unfold split_paired_all prod.case, elim conjE, intro conjI)
        fix n b' assume t: "k \<le> n" "(n - k) * 2 ^ 52 + unat (bl_offset b') =
          sum_list (map frame_time calls) * BLIP_FACTOR + unat (bl_offset b1)"
        have "n - m = (k - m) + (n - k)" using s(4) t(1) by simp
        then show "(n - m) * 2 ^ 52 + unat (bl_offset b') =
            sum_list (map frame_time (c # calls)) * BLIP_FACTOR + unat (bl_offset b)"
          using s(5) t(2) by (simp add: add_mult_distrib)
      qed (use s in auto)
    qed
  qed simp
  from this [of 0] obtain n b' where r: "for_each resampler_step calls (0, b) = Some (n, b')"
    "blip_ok b'" "bl_avail b' = 0"
    "n * 2 ^ 52 + unat (bl_offset b') = sum_list (map frame_time calls) * BLIP_FACTOR + unat (bl_offset b)"
    by (auto simp: ok_iff)
  have "(n * 2 ^ 52 + unat (bl_offset b')) div 2 ^ 52 = n" using r(2) by (simp add: blip_ok_def)
  with r show ?thesis by simp
qed

lemma resampler_keeps_time_witness:
  "\<exists>n b'. for_each resampler_step [AddDelta 17 4096, EndFrame 9999, AddDelta 3 (- 4096), EndFrame 9999] (0, mx_blip new_mixer) =
      Some (n, b') \<and> bl_avail b' = 0 \<and> n = 1072"
proof -
  have "mixer_ok new_mixer" by (rule new_mixer_ok)
  then have "blip_ok (mx_blip new_mixer)" "bl_avail (mx_blip new_mixer) = 0"
    "bl_size (mx_blip new_mixer) = MAX_SAMPLES_PER_FRAME" by (simp_all add: mixer_ok_def mixer_at_def)
  moreover have "unat (bl_offset (mx_blip new_mixer)) = 2 ^ 31"
    by (simp add: new_mixer_def mixer_reset_def blip_set_rates_def blip_clear_def blip_new_def)
  ultimately show ?thesis
    using resampler_keeps_time [of "mx_blip new_mixer" "[AddDelta 17 4096, EndFrame 9999, AddDelta 3 (- 4096), EndFrame 9999]"]
    by (simp add: CYCLE_LENGTH_def BLIP_FACTOR_def)
qed

section \<open>Catching up\<close>

text \<open>
  C12: a channel may be run in slices: running it to cycle \<open>t1\<close> and then to \<open>t2\<close> leaves it,
  the mixer and the CPU exactly as running it to \<open>t2\<close> at once. The APU can therefore run the
  channels lazily, only when a register access or an interrupt makes their state observable.
\<close>

theorem channels_catch_up:
  assumes "t1 \<le> t2" "unat t2 < 2 ^ 31"
    and "\<forall>p \<in> {tm_previous_cycle (sq_timer sq), tm_previous_cycle (tr_timer tr),
        tm_previous_cycle (ns_timer ns), tm_previous_cycle (dm_timer dm)}. p \<le> t1"
  shows "Option.bind (square_run t1 (sq, mx)) (square_run t2) = square_run t2 (sq, mx) \<and>
    Option.bind (triangle_run t1 (tr, mx)) (triangle_run t2) = triangle_run t2 (tr, mx) \<and>
    Option.bind (noise_run t1 (ns, mx)) (noise_run t2) = noise_run t2 (ns, mx) \<and>
    Option.bind (dmc_run t1 (dm, mx, cpu)) (dmc_run t2) = dmc_run t2 (dm, mx, cpu)"
  using assms squares.catch_up [of "(sq, mx)" t1 t2] triangles.catch_up [of "(tr, mx)" t1 t2]
    noises.catch_up [of "(ns, mx)" t1 t2] dmcs.catch_up [of "(dm, mx, cpu)" t1 t2]
  by (simp add: square_run_def triangle_run_def noise_run_def dmc_run_def)

lemma channels_catch_up_witness:
  "Option.bind (noise_run 100 (new_noise, new_mixer)) (noise_run 5000) = noise_run 5000 (new_noise, new_mixer)"
  using channels_catch_up [of 100 5000 "new_square SQUARE1 True" new_triangle new_noise new_dmc new_mixer cpu0]
  by (simp add: new_square_def new_triangle_def new_noise_def new_dmc_def new_timer_def square_reset_def
      triangle_reset_def noise_reset_def update_target_period_def timer_reset_def)

section \<open>The frame sequencer\<close>

text \<open>An application that mixes silence.\<close>

definition silent_mix :: audio_env where
  "silent_mix = \<lparr>env_mix = (\<lambda>_. 0)\<rparr>"

text \<open>
  C13: the frame counter keeps time. From power on and after any traffic, whose steps fall on any CPU cycles and which includes
  writes to $4017, register reads, ends of frames and resets, the APU stands for an abstract sequencer that
  has taken the same steps: each clock moves it by one cycle in a sequence of 29830 (mode 0) or 37282 cycles (mode 1),
  a write to $4017 takes effect 3 clocks later, or 4 when it falls on an odd CPU cycle, and restarts the sequence in its mode,
  and the cycles 29828 to 29830 of mode 0 set the flag of $4015 and the CPU's line, unless they are inhibited. Mode, position
  (with the cycles not run yet), pending write, inhibition, flag and line agree: how the APU cuts its runs is not
  observable.
\<close>

theorem frame_sequencer_keeps_time:
  "\<exists>a mx c. for_each (timed_step E) ops (new_apu, new_mixer, cpu) = Some (a, mx, c) \<and>
    sequencer_of a c = seq_steps ops (sequencer0 (has_irq_source irq_FRAME_COUNTER cpu))"
  using traffic_view [OF power_on_view(1), of E ops cpu] by (auto simp: ok_iff power_on_view(2))

text \<open>
  C14: the frame IRQ comes. After any traffic from power on, let the four-step mode be selected, by the last write to $4017 or
  before, whether that write has taken effect or is pending, and let the IRQ not be inhibited. Then after 29832 clocks both
  the flag of $4015 and the CPU's line are set; ends of audio frames may fall between them.
\<close>

theorem frame_irq_raised:
  assumes traffic: "for_each (timed_step E) ops (new_apu, new_mixer, cpu) = Some (a, mx, c)"
    and mode: "if fc_new_value (ap_frame_counter a) < 0 then fc_step_mode (ap_frame_counter a) = 0
      else fc_new_value (ap_frame_counter a) AND 0x80 \<noteq> 0x80"
    and enabled: "\<not> fc_inhibit_irq (ap_frame_counter a)" and clocks: "length cycles = 29832"
  shows "\<exists>a' mx' c'. for_each (timed_step E) (map (\<lambda>n. (n, ApuClock)) cycles) (a, mx, c) = Some (a', mx', c') \<and>
    fc_irq_flag (ap_frame_counter a') \<and> has_irq_source irq_FRAME_COUNTER c'"
proof -
  have s: "seq_inv a mx" "sequencer_of a c = seq_steps ops (sequencer0 (has_irq_source irq_FRAME_COUNTER cpu))"
    using traffic_view [OF power_on_view(1), of E ops cpu] traffic by (simp_all add: power_on_view(2))
  have "seq_ok (sequencer_of a c)" unfolding s(2) by (rule seq_ok_steps) (simp add: seq_ok_def sequencer0_def)
  moreover from this have "seq_wait (sequencer_of a c) \<le> int 29832"
    by (auto simp: seq_ok_def seq_wait_def split: option.splits)
  moreover have "seq_selected (sequencer_of a c) = 0" "\<not> fs_inhibit (sequencer_of a c)"
    using mode enabled by (simp_all add: seq_selected_def sequencer_of_def counter_view_def split: if_splits)
  ultimately have irq: "fs_flag ((seq_clock ^^ 29832) (sequencer_of a c))" "fs_line ((seq_clock ^^ 29832) (sequencer_of a c))"
    using seq_irq [of "sequencer_of a c" 29832] by blast+
  obtain a' mx' c' where run: "for_each (timed_step E) (map (\<lambda>n. (n, ApuClock)) cycles) (a, mx, c) = Some (a', mx', c')"
    "sequencer_of a' c' = (seq_clock ^^ 29832) (sequencer_of a c)"
    using traffic_view [OF s(1), of E "map (\<lambda>n. (n, ApuClock)) cycles" c] by (auto simp: ok_iff seq_steps_clocks clocks)
  have "fs_flag (sequencer_of a' c') = fc_irq_flag (ap_frame_counter a')"
    "fs_line (sequencer_of a' c') = has_irq_source irq_FRAME_COUNTER c'"
    by (simp_all add: sequencer_of_def counter_view_def)
  with run irq show ?thesis by simp
qed

lemma frame_irq_raised_witness:
  "\<exists>a mx c a' mx' c'. for_each (timed_step silent_mix) [(7, ApuWrite 0x4017 0x00)] (new_apu, new_mixer, cpu0) = Some (a, mx, c) \<and>
    0 \<le> fc_new_value (ap_frame_counter a) \<and>
    for_each (timed_step silent_mix) (map (\<lambda>n. (n, ApuClock)) (replicate 29832 8)) (a, mx, c) = Some (a', mx', c') \<and>
    fc_irq_flag (ap_frame_counter a') \<and> has_irq_source irq_FRAME_COUNTER c'"
proof -
  obtain a mx c where t: "for_each (timed_step silent_mix) [(7, ApuWrite 0x4017 0x00)] (new_apu, new_mixer, cpu0) = Some (a, mx, c)"
    and v: "sequencer_of a c = seq_steps [(7, ApuWrite 0x4017 0x00)] (sequencer0 (has_irq_source irq_FRAME_COUNTER cpu0))"
    using traffic_view [OF power_on_view(1), of silent_mix "[(7, ApuWrite 0x4017 0x00)]" cpu0]
    by (auto simp: ok_iff power_on_view(2))
  then have f: "0 \<le> fc_new_value (ap_frame_counter a)" "fc_new_value (ap_frame_counter a) AND 0x80 \<noteq> 0x80"
    "\<not> fc_inhibit_irq (ap_frame_counter a)"
    by (auto simp: sequencer_of_def counter_view_def seq_write_def sequencer0_def split: if_splits)
  have "\<exists>a' mx' c'. for_each (timed_step silent_mix) (map (\<lambda>n. (n, ApuClock)) (replicate 29832 8)) (a, mx, c) = Some (a', mx', c') \<and>
      fc_irq_flag (ap_frame_counter a') \<and> has_irq_source irq_FRAME_COUNTER c'"
    by (rule frame_irq_raised [OF t]) (use f in simp_all)
  with t f(1) show ?thesis by blast
qed

lemma bit_status: "bit (apu_status ob a cpu) 6 \<longleftrightarrow> fc_irq_flag (ap_frame_counter a)"
  by (simp add: apu_status_def bit_or_iff bit_and_iff)

text \<open>
  C15: reading $4015 acknowledges the frame IRQ on the CPU's line, but not in the frame
  counter: a second read in the same cycle still reports it in bit 6.
\<close>

theorem status_read_keeps_flag:
  assumes "running a mx"
  shows "\<exists>v a' mx' cpu' w cpu''. apu_read_ram ob 0x4015 (a, mx, cpu) = Some (v, a', mx', cpu') \<and>
    \<not> has_irq_source irq_FRAME_COUNTER cpu' \<and>
    apu_read_ram ob 0x4015 (a', mx', cpu') = Some (w, a', mx', cpu'') \<and> bit w 6 = bit v 6"
proof -
  obtain b mx1 cpu1 where run: "apu_run (a, mx, cpu) = Some (b, mx1, cpu1)"
    "same_clock a b" "ap_previous_cycle b = ap_current_cycle a"
    using apu_run_ok [OF assms, of cpu] by (auto simp: ok_iff)
  then have idle: "apu_run (b, mx1, c) = Some (b, mx1, c)" for c
    by (intro apu_run_idle) (simp add: same_clock_def)
  show ?thesis
    by (simp add: apu_read_ram_def run(1) idle bit_status has_clear_irq_source)
qed

lemma status_read_keeps_flag_witness:
  "\<exists>v a' mx' cpu' w cpu''. apu_read_ram 0 0x4015 (new_apu, new_mixer, cpu0) = Some (v, a', mx', cpu') \<and>
    \<not> has_irq_source irq_FRAME_COUNTER cpu' \<and>
    apu_read_ram 0 0x4015 (a', mx', cpu') = Some (w, a', mx', cpu'') \<and> bit w 6 = bit v 6"
  using status_read_keeps_flag [of new_apu new_mixer 0 cpu0] new_apu_ok [OF new_mixer_ok] by (simp add: apu_ok_def)

section \<open>The audio queue\<close>

text \<open>
  C16: the audio frames form a first-in first-out queue of capacity eight: after pushing any
  sequence of frames, an application that drains the queue with \<^verbatim>\<open>get_buffer\<close> and
  \<^verbatim>\<open>consume_audio\<close> receives the newest frames that fit, in order, and then no buffer.
\<close>

theorem audio_queue_newest:
  assumes "ring_ok a" "\<forall>d \<in> set ds. d \<noteq> []"
  shows "\<exists>a'. for_each push_samples ds a = Some a' \<and>
    (let fs = drop (length (audio_frames a @ ds) - MAX_AUDIO_FRAMES) (audio_frames a @ ds)
     in map (\<lambda>n. get_buffer ((consume_audio ^^ n) a')) [0..<Suc (length fs)] =
        map (\<lambda>f. Some (Some f)) fs @ [Some None])"
proof -
  obtain a' where a': "for_each push_samples ds a = Some a'" "ring_ok a'"
    "audio_frames a' = drop (length (audio_frames a @ ds) - MAX_AUDIO_FRAMES) (audio_frames a @ ds)"
    using audio.push_all [OF assms] by (auto simp: ok_iff)
  have "map (\<lambda>n. get_buffer ((consume_audio ^^ n) a')) [0..<Suc (length (audio_frames a'))] =
      map (\<lambda>f. Some (Some f)) (audio_frames a') @ [Some None]"
    using audio.front_sequence [OF a'(2)] .
  with a' show ?thesis by (simp only: Let_def) blast
qed

lemma audio_queue_newest_witness:
  "\<exists>a'. for_each push_samples [[1, 1], [2, 2]] new_apu = Some a' \<and>
    map (\<lambda>n. get_buffer ((consume_audio ^^ n) a')) [0..<3] =
      [Some (Some [1, 1]), Some (Some [2, 2]), Some None]"
proof -
  have "apu_ok new_apu new_mixer" by (rule new_apu_ok [OF new_mixer_ok])
  then have r: "ring_ok new_apu" by (simp add: apu_ok_def)
  have "audio_frames new_apu = []" by (simp add: audio_frames_def new_apu_def apu_reset_sel)
  with audio_queue_newest [OF r, of "[[1, 1], [2, 2]]"] show ?thesis
    by (simp add: MAX_AUDIO_FRAMES_def numeral_3_eq_3)
qed

end
