(* ===== verification/Ppu_State.thy ===== *)
theory Ppu_State
  imports Nes_Types
begin

text \<open>
  The state of \<^verbatim>\<open>NesPpu\<close> (\<^verbatim>\<open>src/systems/nes/nes_ppu.h\<close>), the mask register and the state
  after construction and reset.
  The pointers into the two frame buffers are their indices, a frame buffer is a function
  of the pixel index; \<open>cycle_\<close>, \<open>scanline_\<close> and \<open>sprite_index_\<close> are numbers, bounded by
  the invariant of the theory \<open>Ppu_Facts\<close>; registers keep their width.
\<close>

record ppu =
  ppu_master_clock :: nat
  ppu_master_clock_divider :: u8
  ppu_cycle :: nat
  ppu_scanline :: int
  ppu_frame_count :: u32
  ppu_nmi_scanline :: nat
  ppu_vblank_end :: nat
  ppu_no_odd_frame_skip :: bool
  ppu_output_buffers :: "nat \<Rightarrow> nat \<Rightarrow> u16"
  ppu_current_output_buffer :: nat
  ppu_framebuffer :: nat
  ppu_last_updated_pixel :: int
  ppu_video_ram_addr :: u16
  ppu_tmp_video_ram_addr :: u16
  ppu_high_bit_shift :: u16
  ppu_low_bit_shift :: u16
  ppu_sprite_ram_addr :: u8
  ppu_x_scroll :: u8
  ppu_open_bus :: u8
  ppu_open_bus_decay_stamp :: "u32 list"
  ppu_enable_oam_decay :: bool
  ppu_need_state_update :: bool
  ppu_rendering_enabled :: bool
  ppu_prev_rendering_enabled :: bool
  ppu_sprite0_visible :: bool
  ppu_sprite_count :: u8
  ppu_secondary_oam_addr :: u8
  ppu_oam_copy_buffer :: u8
  ppu_sprite_in_range :: bool
  ppu_sprite0_added :: bool
  ppu_sprite_addr_h :: u8
  ppu_sprite_addr_l :: u8
  ppu_overflow_bug_counter :: u8
  ppu_oam_copy_done :: bool
  ppu_minimum_draw_bg_cycle :: nat
  ppu_minimum_draw_sprite_cycle :: nat
  ppu_minimum_draw_sprite_standard_cycle :: nat
  ppu_palette_ram :: "u8 list"
  ppu_sprite_ram :: "u8 list"
  ppu_secondary_sprite_ram :: "u8 list"
  ppu_tile :: tile_info
  ppu_bus_address :: u16
  ppu_current_tile_palette :: u8
  ppu_previous_tile_palette :: u8
  ppu_intensify_color_bits :: u16
  ppu_palette_ram_mask :: u8
  ppu_update_vram_addr_delay :: u8
  ppu_sprite_index :: nat
  ppu_has_sprite :: "bool list"
  ppu_sprite_tiles :: "sprite_info list"
  ppu_control :: ppu_control
  ppu_mask :: ppu_mask
  ppu_status_flags :: ppu_status
  ppu_update_vram_addr :: u16
  ppu_prevent_vbl_flag :: bool
  ppu_write_toggle :: bool
  ppu_need_video_ram_increment :: bool
  ppu_allow_full_ppu_access :: bool
  ppu_memory_read_buffer :: u8
  ppu_ignore_vram_read :: nat
  ppu_oam_decay_cycles :: "u64 list"
  ppu_corrupt_oam_row :: "bool list"
  ppu_first_visible_sprite_addr :: u8
  ppu_last_visible_sprite_addr :: u8
  ppu_emulator_bg_enabled :: bool
  ppu_emulator_sprites_enabled :: bool

section \<open>Masks\<close>

definition update_minimum_draw_cycles :: "ppu \<Rightarrow> ppu" where
  "update_minimum_draw_cycles p =
     (let m = ppu_mask p;
          bg = (if mk_background_enabled m then if mk_background_mask m then 0 else 8 else 300);
          sp = (if mk_sprites_enabled m then if mk_sprite_mask m then 0 else 8 else 300)
      in p\<lparr>ppu_minimum_draw_bg_cycle := bg, ppu_minimum_draw_sprite_cycle := sp,
           ppu_minimum_draw_sprite_standard_cycle := sp,
           ppu_emulator_bg_enabled := True, ppu_emulator_sprites_enabled := True\<rparr>)"

definition update_color_bit_masks :: "ppu \<Rightarrow> ppu" where
  "update_color_bit_masks p =
     (let m = ppu_mask p in
      p\<lparr>ppu_palette_ram_mask := (if mk_grayscale m then 0x30 else 0x3F),
        ppu_intensify_color_bits := (if mk_intensify_red m then 0x40 else 0) OR
          (if mk_intensify_green m then 0x80 else 0) OR (if mk_intensify_blue m then 0x100 else 0)\<rparr>)"

definition rendering_requested :: "ppu \<Rightarrow> bool" where
  "rendering_requested p \<longleftrightarrow> mk_background_enabled (ppu_mask p) \<or> mk_sprites_enabled (ppu_mask p)"

definition set_mask_register :: "u8 \<Rightarrow> ppu \<Rightarrow> ppu" where
  "set_mask_register val p0 =
     (let p = p0\<lparr>ppu_mask := \<lparr>mk_grayscale = val AND 0x01 \<noteq> 0, mk_background_mask = val AND 0x02 \<noteq> 0,
            mk_sprite_mask = val AND 0x04 \<noteq> 0, mk_background_enabled = val AND 0x08 \<noteq> 0,
            mk_sprites_enabled = val AND 0x10 \<noteq> 0, mk_intensify_red = val AND 0x20 \<noteq> 0,
            mk_intensify_green = val AND 0x40 \<noteq> 0, mk_intensify_blue = val AND 0x80 \<noteq> 0\<rparr>\<rparr>;
          p = (if ppu_rendering_enabled p \<noteq> rendering_requested p
               then p\<lparr>ppu_need_state_update := True\<rparr> else p)
      in update_color_bit_masks (update_minimum_draw_cycles p))"

section \<open>Construction and reset\<close>

definition ppu_reset :: "bool \<Rightarrow> ppu \<Rightarrow> ppu" where
  "ppu_reset soft_reset p0 =
     (let p = p0\<lparr>ppu_master_clock := 0, ppu_oam_decay_cycles := replicate 0x40 0,
                 ppu_enable_oam_decay := False\<rparr>
      in if soft_reset then p
         else update_minimum_draw_cycles (p\<lparr>
           ppu_prevent_vbl_flag := False, ppu_need_state_update := False,
           ppu_prev_rendering_enabled := False, ppu_rendering_enabled := False,
           ppu_ignore_vram_read := 0, ppu_open_bus := 0, ppu_open_bus_decay_stamp := replicate 8 0,
           ppu_tmp_video_ram_addr := 0, ppu_high_bit_shift := 0, ppu_low_bit_shift := 0,
           ppu_sprite_ram_addr := 0, ppu_x_scroll := 0, ppu_write_toggle := False,
           ppu_control := control0, ppu_mask := mask0, ppu_status_flags := status0, ppu_tile := tile0,
           ppu_current_tile_palette := 0, ppu_previous_tile_palette := 0, ppu_bus_address := 0,
           ppu_intensify_color_bits := 0, ppu_palette_ram_mask := 0x3F, ppu_last_updated_pixel := - 1,
           ppu_oam_copy_buffer := 0, ppu_sprite_in_range := False, ppu_sprite0_added := False,
           ppu_sprite_addr_h := 0, ppu_sprite_addr_l := 0, ppu_oam_copy_done := False,
           ppu_has_sprite := replicate 257 False, ppu_sprite_tiles := replicate 64 sprite0,
           ppu_sprite_count := 0, ppu_secondary_oam_addr := 0, ppu_sprite0_visible := False,
           ppu_sprite_index := 0, ppu_scanline := - 1, ppu_cycle := 340, ppu_frame_count := 1,
           ppu_memory_read_buffer := 0, ppu_overflow_bug_counter := 0,
           ppu_update_vram_addr_delay := 0, ppu_update_vram_addr := 0,
           ppu_first_visible_sprite_addr := 0, ppu_last_visible_sprite_addr := 0,
           ppu_allow_full_ppu_access := False\<rparr>))"

definition palette_boot :: "u8 list" where
  "palette_boot = [
     0x09, 0x01, 0x00, 0x01, 0x00, 0x02, 0x02, 0x0D, 0x08, 0x10, 0x08, 0x24, 0x00, 0x00, 0x04, 0x2C,
     0x09, 0x01, 0x34, 0x03, 0x00, 0x04, 0x00, 0x14, 0x08, 0x3A, 0x00, 0x02, 0x00, 0x20, 0x2C, 0x08]"

definition new_ppu :: ppu where
  "new_ppu = ppu_reset False
     \<lparr>ppu_master_clock = 0, ppu_master_clock_divider = 4, ppu_cycle = 340, ppu_scanline = - 1,
      ppu_frame_count = 1, ppu_nmi_scanline = 241, ppu_vblank_end = 260, ppu_no_odd_frame_skip = False,
      ppu_output_buffers = (\<lambda>_ _. 0x0909), ppu_current_output_buffer = 0, ppu_framebuffer = 0,
      ppu_last_updated_pixel = - 1, ppu_video_ram_addr = 0, ppu_tmp_video_ram_addr = 0,
      ppu_high_bit_shift = 0, ppu_low_bit_shift = 0, ppu_sprite_ram_addr = 0, ppu_x_scroll = 0,
      ppu_open_bus = 0, ppu_open_bus_decay_stamp = replicate 8 0, ppu_enable_oam_decay = False,
      ppu_need_state_update = False, ppu_rendering_enabled = False, ppu_prev_rendering_enabled = False,
      ppu_sprite0_visible = False, ppu_sprite_count = 0, ppu_secondary_oam_addr = 0,
      ppu_oam_copy_buffer = 0, ppu_sprite_in_range = False, ppu_sprite0_added = False,
      ppu_sprite_addr_h = 0, ppu_sprite_addr_l = 0, ppu_overflow_bug_counter = 0,
      ppu_oam_copy_done = False, ppu_minimum_draw_bg_cycle = 0, ppu_minimum_draw_sprite_cycle = 0,
      ppu_minimum_draw_sprite_standard_cycle = 0, ppu_palette_ram = palette_boot,
      ppu_sprite_ram = replicate 0x100 0, ppu_secondary_sprite_ram = replicate 0x20 0,
      ppu_tile = tile0, ppu_bus_address = 0, ppu_current_tile_palette = 0,
      ppu_previous_tile_palette = 0, ppu_intensify_color_bits = 0, ppu_palette_ram_mask = 0x3F,
      ppu_update_vram_addr_delay = 0, ppu_sprite_index = 0, ppu_has_sprite = replicate 257 False,
      ppu_sprite_tiles = replicate 64 sprite0, ppu_control = control0, ppu_mask = mask0,
      ppu_status_flags = status0, ppu_update_vram_addr = 0, ppu_prevent_vbl_flag = False,
      ppu_write_toggle = False, ppu_need_video_ram_increment = False,
      ppu_allow_full_ppu_access = False, ppu_memory_read_buffer = 0, ppu_ignore_vram_read = 0,
      ppu_oam_decay_cycles = replicate 0x40 0, ppu_corrupt_oam_row = replicate 32 False,
      ppu_first_visible_sprite_addr = 0, ppu_last_visible_sprite_addr = 0,
      ppu_emulator_bg_enabled = True, ppu_emulator_sprites_enabled = True\<rparr>"

end
