(* ===== verification/Ppu_Scroll.thy ===== *)
theory Ppu_Scroll
  imports Ppu_State
begin

text \<open>
  The address arithmetic of \<^verbatim>\<open>NesPpu\<close> (scrolling, the nametable and attribute addresses)
  and its open bus with the decay of the undriven bits.
\<close>

section \<open>Addresses\<close>

definition get_nametable_addr :: "ppu \<Rightarrow> u16" where
  "get_nametable_addr p = 0x2000 OR (ppu_video_ram_addr p AND 0x0FFF)"

definition get_attribute_addr :: "ppu \<Rightarrow> u16" where
  "get_attribute_addr p =
     0x23C0 OR (ppu_video_ram_addr p AND 0x0C00) OR (drop_bit 4 (ppu_video_ram_addr p) AND 0x38) OR
     (drop_bit 2 (ppu_video_ram_addr p) AND 0x07)"

text \<open>The two scrolling steps as functions of the address register \<^verbatim>\<open>v\<close>.\<close>

definition horizontal_step :: "u16 \<Rightarrow> u16" where
  "horizontal_step addr =
     (if addr AND 0x001F = 31 then (addr AND NOT 0x001F) XOR 0x0400 else addr + 1)"

definition vertical_step :: "u16 \<Rightarrow> u16" where
  "vertical_step addr =
     (if addr AND 0x7000 \<noteq> 0x7000 then addr + 0x1000
      else
        let addr = addr AND NOT 0x7000;
            y = drop_bit 5 (addr AND 0x03E0);
            (y, addr) = (if y = 29 then (0, addr XOR 0x0800)
                         else if y = 31 then (0, addr) else (y + 1, addr))
        in (addr AND NOT 0x03E0) OR push_bit 5 y)"

definition inc_horizontal_scrolling :: "ppu \<Rightarrow> ppu" where
  "inc_horizontal_scrolling p = p\<lparr>ppu_video_ram_addr := horizontal_step (ppu_video_ram_addr p)\<rparr>"

definition inc_vertical_scrolling :: "ppu \<Rightarrow> ppu" where
  "inc_vertical_scrolling p = p\<lparr>ppu_video_ram_addr := vertical_step (ppu_video_ram_addr p)\<rparr>"

definition process_tmp_addr_scroll_glitch :: "u16 \<Rightarrow> u16 \<Rightarrow> u16 \<Rightarrow> ppu \<Rightarrow> ppu" where
  "process_tmp_addr_scroll_glitch normal_addr val msk p0 =
     (let p = p0\<lparr>ppu_tmp_video_ram_addr := normal_addr\<rparr>
      in if ppu_cycle p = 257 \<and> ppu_scanline p < 240 \<and> ppu_rendering_enabled p
         then p\<lparr>ppu_video_ram_addr := (ppu_video_ram_addr p AND NOT msk) OR (val AND msk)\<rparr> else p)"

section \<open>Open bus\<close>

text \<open>One round of the loop over the eight bits: \<^verbatim>\<open>ob\<close>, \<^verbatim>\<open>value\<close> and \<^verbatim>\<open>mask\<close> shift right.\<close>

definition set_open_bus_bit ::
  "u32 \<Rightarrow> nat \<Rightarrow> u16 \<times> u8 \<times> u8 \<times> u32 list \<Rightarrow> (u16 \<times> u8 \<times> u8 \<times> u32 list) option" where
  "set_open_bus_bit frame i s =
     (let (ob, val, msk, stamps) = s; ob = drop_bit 1 ob in do {
        stamp \<leftarrow> rd stamps i;
        (ob, stamps) \<leftarrow>
          (if msk AND 0x01 \<noteq> 0 then do {
             stamps \<leftarrow> wr stamps i frame;
             Some (if val AND 0x01 \<noteq> 0 then ob OR 0x80 else ob AND 0xFF7F, stamps) }
           else Some (if frame - stamp > 3 then ob AND 0xFF7F else ob, stamps));
        Some (ob, drop_bit 1 val, drop_bit 1 msk, stamps) })"

definition set_open_bus :: "u8 \<Rightarrow> u8 \<Rightarrow> ppu \<Rightarrow> ppu option" where
  "set_open_bus msk val p =
     (if msk = 0xFF
      then Some (p\<lparr>ppu_open_bus := val, ppu_open_bus_decay_stamp := replicate 8 (ppu_frame_count p)\<rparr>)
      else do {
        (ob, _, _, stamps) \<leftarrow> for_each (set_open_bus_bit (ppu_frame_count p)) [0..<8]
          (push_bit 8 (ucast (ppu_open_bus p)), val, msk, ppu_open_bus_decay_stamp p);
        Some (p\<lparr>ppu_open_bus := ucast ob, ppu_open_bus_decay_stamp := stamps\<rparr>) })"

definition apply_open_bus :: "u8 \<Rightarrow> u8 \<Rightarrow> ppu \<Rightarrow> (u8 \<times> ppu) option" where
  "apply_open_bus msk val p = do {
     p \<leftarrow> set_open_bus (NOT msk) val p;
     Some (val OR (ppu_open_bus p AND msk), p) }"

end
