(* ===== verification/Ppu_Sprites.thy ===== *)
theory Ppu_Sprites
  imports Ppu_Scroll Cpu_State
begin

text \<open>
  The sprite side of \<^verbatim>\<open>NesPpu\<close>: object attribute memory with its decay and its corruption,
  the evaluation of the sprites of the next line, and the pixel multiplexer. The argument
  \<open>now\<close> of the memory accesses is the CPU cycle count that dates them.
\<close>

section \<open>Object attribute memory\<close>

definition decay_byte :: "nat \<Rightarrow> u8" where
  "decay_byte sa = (if sa mod 4 = 2 then of_nat sa AND 0xE3 else of_nat sa)"

definition read_sprite_ram :: "u64 \<Rightarrow> u8 \<Rightarrow> ppu \<Rightarrow> (u8 \<times> ppu) option" where
  "read_sprite_ram now addr p =
     (if \<not> ppu_enable_oam_decay p then do { v \<leftarrow> rd (ppu_sprite_ram p) (unat addr); Some (v, p) }
      else do {
        stamp \<leftarrow> rd (ppu_oam_decay_cycles p) (unat (drop_bit 3 addr));
        p \<leftarrow> (if now - stamp \<le> 3000
              then do {
                stamps \<leftarrow> wr (ppu_oam_decay_cycles p) (unat (drop_bit 3 addr)) now;
                Some (p\<lparr>ppu_oam_decay_cycles := stamps\<rparr>) }
              else do {
                ram \<leftarrow> for_each (\<lambda>i ram. let sa = unat (addr AND 0xF8) + i in wr ram sa (decay_byte sa))
                  [0..<8] (ppu_sprite_ram p);
                Some (p\<lparr>ppu_sprite_ram := ram\<rparr>) });
        v \<leftarrow> rd (ppu_sprite_ram p) (unat addr);
        Some (v, p) })"

definition write_sprite_ram :: "u64 \<Rightarrow> u8 \<Rightarrow> u8 \<Rightarrow> ppu \<Rightarrow> ppu option" where
  "write_sprite_ram now addr val p = do {
     ram \<leftarrow> wr (ppu_sprite_ram p) (unat addr) val;
     let p = p\<lparr>ppu_sprite_ram := ram\<rparr>;
     if ppu_enable_oam_decay p then do {
       stamps \<leftarrow> wr (ppu_oam_decay_cycles p) (unat (drop_bit 3 addr)) now;
       Some (p\<lparr>ppu_oam_decay_cycles := stamps\<rparr>) }
     else Some p }"

definition set_oam_corruption_flags :: "ppu \<Rightarrow> ppu option" where
  "set_oam_corruption_flags p =
     (let cycle = ppu_cycle p;
          flag = (\<lambda>i. do { rows \<leftarrow> wr (ppu_corrupt_oam_row p) i True; Some (p\<lparr>ppu_corrupt_oam_row := rows\<rparr>) })
      in if cycle < 64 then flag (cycle div 2)
         else if 256 \<le> cycle \<and> cycle < 320
         then flag ((cycle - 256) div 8 * 4 + min 3 ((cycle - 256) mod 8))
         else Some p)"

definition corrupt_row :: "nat \<Rightarrow> u8 list \<times> bool list \<Rightarrow> (u8 list \<times> bool list) option" where
  "corrupt_row i s =
     (let (ram, rows) = s in do {
        flagged \<leftarrow> rd rows i;
        if flagged then do {
          ram \<leftarrow> (if i > 0 then copy_at (i * 8) (take 8 ram) ram else Some ram);
          rows \<leftarrow> wr rows i False;
          Some (ram, rows) }
        else Some (ram, rows) })"

definition process_oam_corruption :: "ppu \<Rightarrow> ppu option" where
  "process_oam_corruption p = do {
     (ram, rows) \<leftarrow> for_each corrupt_row [0..<32] (ppu_sprite_ram p, ppu_corrupt_oam_row p);
     Some (p\<lparr>ppu_sprite_ram := ram, ppu_corrupt_oam_row := rows\<rparr>) }"

section \<open>Sprite evaluation\<close>

definition process_sprite_evaluation_start :: "ppu \<Rightarrow> ppu" where
  "process_sprite_evaluation_start p =
     (let h = drop_bit 2 (ppu_sprite_ram_addr p) AND 0x3F
      in p\<lparr>ppu_sprite0_added := False, ppu_sprite_in_range := False, ppu_secondary_oam_addr := 0,
           ppu_overflow_bug_counter := 0, ppu_oam_copy_done := False, ppu_sprite_addr_h := h,
           ppu_sprite_addr_l := ppu_sprite_ram_addr p AND 0x03,
           ppu_first_visible_sprite_addr := h * 4, ppu_last_visible_sprite_addr := h * 4\<rparr>)"

definition process_sprite_evaluation_end :: "ppu \<Rightarrow> ppu" where
  "process_sprite_evaluation_end p =
     p\<lparr>ppu_sprite0_visible := ppu_sprite0_added p,
       ppu_sprite_count := of_nat ((unat (ppu_secondary_oam_addr p) + 3) div 4)\<rparr>"

text \<open>The line of the sprite whose Y coordinate is in the copy buffer.\<close>

definition in_range :: "ppu \<Rightarrow> bool" where
  "in_range p \<longleftrightarrow>
     ppu_scanline p \<ge> int (unat (ppu_oam_copy_buffer p)) \<and>
     ppu_scanline p < int (unat (ppu_oam_copy_buffer p)) +
       (if ct_large_sprites (ppu_control p) then 16 else 8)"

definition next_h :: "ppu \<Rightarrow> u8" where
  "next_h p = (ppu_sprite_addr_h p + 1) AND 0x3F"

text \<open>Copying to the secondary memory while it has room.\<close>

definition evaluate_copy :: "ppu \<Rightarrow> ppu option" where
  "evaluate_copy p = do {
     sec \<leftarrow> wr (ppu_secondary_sprite_ram p) (unat (ppu_secondary_oam_addr p)) (ppu_oam_copy_buffer p);
     let p = p\<lparr>ppu_secondary_sprite_ram := sec\<rparr>;
     Some
       (if ppu_sprite_in_range p then
          let p = (if ppu_cycle p = 66 then p\<lparr>ppu_sprite0_added := True\<rparr> else p);
              p = p\<lparr>ppu_sprite_addr_l := ppu_sprite_addr_l p + 1,
                    ppu_secondary_oam_addr := ppu_secondary_oam_addr p + 1\<rparr>;
              p = (if ppu_sprite_addr_l p \<ge> 4 then
                     let h = next_h p;
                         p = p\<lparr>ppu_sprite_addr_h := h, ppu_sprite_addr_l := 0\<rparr>
                     in if h = 0 then p\<lparr>ppu_oam_copy_done := True\<rparr> else p
                   else p)
          in if ppu_secondary_oam_addr p AND 0x03 = 0 then
               let p = p\<lparr>ppu_sprite_in_range := False,
                         ppu_last_visible_sprite_addr := (ppu_sprite_addr_h p - 1) * 4\<rparr>
               in if ppu_sprite_addr_l p \<noteq> 0 \<and> \<not> in_range p then p\<lparr>ppu_sprite_addr_l := 0\<rparr> else p
             else p
        else
          let h = next_h p;
              p = p\<lparr>ppu_sprite_addr_h := h, ppu_sprite_addr_l := 0\<rparr>
          in if h = 0 then p\<lparr>ppu_oam_copy_done := True\<rparr> else p) }"

text \<open>With eight sprites found: the overflow search with its hardware defect.\<close>

definition evaluate_overflow :: "ppu \<Rightarrow> ppu option" where
  "evaluate_overflow p = do {
     b \<leftarrow> rd (ppu_secondary_sprite_ram p) (unat (ppu_secondary_oam_addr p AND 0x1F));
     let p = p\<lparr>ppu_oam_copy_buffer := b\<rparr>;
     Some
       (if ppu_oam_copy_done p then p\<lparr>ppu_sprite_addr_h := next_h p, ppu_sprite_addr_l := 0\<rparr>
        else if ppu_sprite_in_range p then
          let p = p\<lparr>ppu_status_flags := (ppu_status_flags p)\<lparr>st_sprite_overflow := True\<rparr>,
                    ppu_sprite_addr_l := ppu_sprite_addr_l p + 1\<rparr>;
              p = (if ppu_sprite_addr_l p = 4
                   then p\<lparr>ppu_sprite_addr_h := next_h p, ppu_sprite_addr_l := 0\<rparr> else p)
          in if ppu_overflow_bug_counter p = 0 then p\<lparr>ppu_overflow_bug_counter := 3\<rparr>
             else
               let p = p\<lparr>ppu_overflow_bug_counter := ppu_overflow_bug_counter p - 1\<rparr>
               in if ppu_overflow_bug_counter p = 0
                  then p\<lparr>ppu_oam_copy_done := True, ppu_sprite_addr_l := 0\<rparr> else p
        else
          let h = next_h p;
              p = p\<lparr>ppu_sprite_addr_h := h, ppu_sprite_addr_l := (ppu_sprite_addr_l p + 1) AND 0x03\<rparr>
          in if h = 0 then p\<lparr>ppu_oam_copy_done := True\<rparr> else p) }"

text \<open>The even cycles: a write to the secondary memory, or a read once it is full.\<close>

definition evaluate_write :: "ppu \<Rightarrow> ppu option" where
  "evaluate_write p =
     (if ppu_oam_copy_done p then
        let p = p\<lparr>ppu_sprite_addr_h := next_h p\<rparr>
        in if ppu_secondary_oam_addr p \<ge> 0x20 then do {
             b \<leftarrow> rd (ppu_secondary_sprite_ram p) (unat (ppu_secondary_oam_addr p AND 0x1F));
             Some (p\<lparr>ppu_oam_copy_buffer := b\<rparr>) }
           else Some p
      else
        let p = (if \<not> ppu_sprite_in_range p \<and> in_range p
                 then p\<lparr>ppu_sprite_in_range := \<not> ppu_oam_copy_done p\<rparr> else p)
        in if ppu_secondary_oam_addr p < 0x20 then evaluate_copy p else evaluate_overflow p)"

definition process_sprite_evaluation :: "u64 \<Rightarrow> ppu \<Rightarrow> ppu option" where
  "process_sprite_evaluation now p =
     (if \<not> ppu_rendering_enabled p then Some p
      else if ppu_cycle p < 65 then do {
        sec \<leftarrow> wr (ppu_secondary_sprite_ram p) ((ppu_cycle p - 1) div 2) 0xFF;
        Some (p\<lparr>ppu_oam_copy_buffer := 0xFF, ppu_secondary_sprite_ram := sec\<rparr>) }
      else if odd (ppu_cycle p) then do {
        let p = (if ppu_cycle p = 65 then process_sprite_evaluation_start p else p);
        (v, p) \<leftarrow> read_sprite_ram now (ppu_sprite_ram_addr p) p;
        Some (p\<lparr>ppu_oam_copy_buffer := v\<rparr>) }
      else do {
        let p = (if ppu_cycle p = 256 then process_sprite_evaluation_end p else p);
        p \<leftarrow> evaluate_write p;
        Some (p\<lparr>ppu_sprite_ram_addr :=
          (ppu_sprite_addr_l p AND 0x03) OR push_bit 2 (ppu_sprite_addr_h p)\<rparr>) })"

section \<open>The pixel multiplexer\<close>

definition shift_tile_registers :: "ppu \<Rightarrow> ppu" where
  "shift_tile_registers p =
     p\<lparr>ppu_low_bit_shift := push_bit 1 (ppu_low_bit_shift p),
       ppu_high_bit_shift := push_bit 1 (ppu_high_bit_shift p)\<rparr>"

text \<open>The colour of a sprite \<open>shift\<close> pixels from its left edge.\<close>

definition sprite_color :: "sprite_info \<Rightarrow> nat \<Rightarrow> u8" where
  "sprite_color s shift =
     (if sp_horizontal_mirror s
      then (drop_bit shift (sp_low_byte s) AND 0x01) OR push_bit 1 (drop_bit shift (sp_high_byte s) AND 0x01)
      else drop_bit 7 (push_bit shift (sp_low_byte s) AND 0x80) OR
           drop_bit 6 (push_bit shift (sp_high_byte s) AND 0x80))"

text \<open>The loop over the sprites of the line: a colour when it returns, nothing on \<^verbatim>\<open>break\<close>.\<close>

fun sprite_pixel :: "nat list \<Rightarrow> u8 \<Rightarrow> u8 \<Rightarrow> ppu \<Rightarrow> (u8 option \<times> ppu) option" where
  "sprite_pixel [] bg_color sprite_bg_color p = Some (None, p)"
| "sprite_pixel (i # is) bg_color sprite_bg_color p = do {
     s \<leftarrow> rd (ppu_sprite_tiles p) i;
     let shift = int (ppu_cycle p) - int (unat (sp_sprite_x s)) - 1;
     if 0 \<le> shift \<and> shift < 8 \<and> sprite_color s (nat shift) \<noteq> 0 then
       let p = (if i = 0 \<and> sprite_bg_color \<noteq> 0 \<and> ppu_sprite0_visible p \<and> ppu_cycle p \<noteq> 256 \<and>
                   mk_background_enabled (ppu_mask p) \<and>
                   \<not> st_sprite_zero_hit (ppu_status_flags p) \<and>
                   ppu_cycle p > ppu_minimum_draw_sprite_standard_cycle p
                then p\<lparr>ppu_status_flags := (ppu_status_flags p)\<lparr>st_sprite_zero_hit := True\<rparr>\<rparr> else p)
       in Some (if ppu_emulator_sprites_enabled p \<and> (bg_color = 0 \<or> \<not> sp_background_priority s)
                then Some (sp_palette_offset s + sprite_color s (nat shift)) else None, p)
     else sprite_pixel is bg_color sprite_bg_color p }"

definition background_color :: "ppu \<Rightarrow> u8" where
  "background_color p =
     (if ppu_cycle p > ppu_minimum_draw_bg_cycle p
      then ucast (drop_bit 15 (push_bit (unat (ppu_x_scroll p)) (ppu_low_bit_shift p) AND 0x8000) OR
                  drop_bit 14 (push_bit (unat (ppu_x_scroll p)) (ppu_high_bit_shift p) AND 0x8000))
      else 0)"

definition get_pixel_color :: "ppu \<Rightarrow> (u8 \<times> ppu) option" where
  "get_pixel_color p = do {
     let sprite_bg_color = background_color p;
     let bg_color = (if ppu_emulator_bg_enabled p then sprite_bg_color else 0);
     has_sprite \<leftarrow> rd (ppu_has_sprite p) (ppu_cycle p);
     (c, p) \<leftarrow>
       (if has_sprite \<and> ppu_cycle p > ppu_minimum_draw_sprite_cycle p
        then sprite_pixel [0..<unat (ppu_sprite_count p)] bg_color sprite_bg_color p
        else Some (None, p));
     Some (case c of
         Some v \<Rightarrow> v
       | None \<Rightarrow> (if unat (ppu_x_scroll p) + (ppu_cycle p - 1) mod 8 < 8
                  then ppu_previous_tile_palette p else ppu_current_tile_palette p) + bg_color, p) }"

end
