(* ===== verification/Ppu.thy ===== *)
theory Ppu
  imports Ppu_Sprites Mapper_Boards
begin

text \<open>
  The operations of \<^verbatim>\<open>NesPpu\<close> (\<^verbatim>\<open>src/systems/nes/nes_ppu.cpp\<close>) that reach the cartridge or
  the processor: the bus, the fetches, the dots of a scanline, the deferred state update
  and the registers. They act on the PPU with the cartridge and the CPU it talks to. The
  open-bus value that some registers read from the memory manager is an argument. The
  environment-variable traces write to \<^verbatim>\<open>stderr\<close> only and are left out.
\<close>

type_synonym ppu_bus = "ppu \<times> mapper \<times> cpu"

definition on_ppu :: "(ppu \<Rightarrow> ppu) \<Rightarrow> ppu_bus \<Rightarrow> ppu_bus" where
  "on_ppu f s = (f (fst s), snd s)"

definition on_ppu_opt :: "(ppu \<Rightarrow> ppu option) \<Rightarrow> ppu_bus \<Rightarrow> ppu_bus option" where
  "on_ppu_opt f s = map_option (\<lambda>p. (p, snd s)) (f (fst s))"

definition on_cpu :: "(cpu \<Rightarrow> cpu) \<Rightarrow> ppu_bus \<Rightarrow> ppu_bus" where
  "on_cpu f s = (let (p, m, c) = s in (p, m, f c))"

section \<open>The video memory bus\<close>

definition set_bus_address :: "u16 \<Rightarrow> ppu_bus \<Rightarrow> ppu_bus" where
  "set_bus_address addr s =
     (let (p, m, c) = s;
          (m, c) = (if has_vram_address_hook (m_chip m)
                    then notify_vram_address_change (addr AND 0x3FFF) (m, c) else (m, c))
      in (p\<lparr>ppu_bus_address := addr\<rparr>, m, c))"

definition ppu_read_vram :: "u16 \<Rightarrow> ppu_bus \<Rightarrow> (u8 \<times> ppu_bus) option" where
  "ppu_read_vram addr s =
     (let (p, m, c) = set_bus_address addr s
      in map_option (\<lambda>v. (v, p, m, c))
           (if has_custom_vram_read (m_chip m) then read_vram_custom addr m else read_vram addr m))"

definition ppu_write_vram :: "u16 \<Rightarrow> u8 \<Rightarrow> ppu_bus \<Rightarrow> ppu_bus option" where
  "ppu_write_vram addr val s =
     (let (p, m, c) = set_bus_address addr s in map_option (\<lambda>m. (p, m, c)) (write_vram addr val m))"

definition update_video_ram_addr :: "ppu_bus \<Rightarrow> ppu_bus" where
  "update_video_ram_addr s =
     (let p = fst s in
      if ppu_scanline p \<ge> 240 \<or> \<not> ppu_rendering_enabled p
      then let v = (ppu_video_ram_addr p + (if ct_vertical_write (ppu_control p) then 32 else 1)) AND 0x7FFF
           in set_bus_address (v AND 0x3FFF) (on_ppu (ppu_video_ram_addr_update (\<lambda>_. v)) s)
      else on_ppu (inc_vertical_scrolling \<circ> inc_horizontal_scrolling) s)"

section \<open>Fetches\<close>

definition set_tile :: "(tile_info \<Rightarrow> tile_info) \<Rightarrow> ppu_bus \<Rightarrow> ppu_bus" where
  "set_tile f = on_ppu (\<lambda>p. p\<lparr>ppu_tile := f (ppu_tile p)\<rparr>)"

text \<open>\<^verbatim>\<open>(index << 4) | (v >> 12) | background_pattern_addr\<close>.\<close>

definition bg_tile_addr :: "u16 \<Rightarrow> ppu \<Rightarrow> u16" where
  "bg_tile_addr index p =
     push_bit 4 index OR drop_bit 12 (ppu_video_ram_addr p) OR ct_background_pattern_addr (ppu_control p)"

definition load_tile_info :: "ppu_bus \<Rightarrow> ppu_bus option" where
  "load_tile_info s =
     (let p = fst s in
      if \<not> ppu_rendering_enabled p then Some s
      else if ppu_cycle p mod 8 = 1 then do {
        let s = on_ppu (\<lambda>p. p\<lparr>ppu_previous_tile_palette := ppu_current_tile_palette p,
              ppu_current_tile_palette := ti_palette_offset (ppu_tile p),
              ppu_low_bit_shift := ppu_low_bit_shift p OR ucast (ti_low_byte (ppu_tile p)),
              ppu_high_bit_shift := ppu_high_bit_shift p OR ucast (ti_high_byte (ppu_tile p))\<rparr>) s;
        (tile_index, s) \<leftarrow> ppu_read_vram (get_nametable_addr (fst s)) s;
        Some (set_tile (\<lambda>t. t\<lparr>ti_tile_addr := bg_tile_addr (ucast tile_index) (fst s)\<rparr>) s) }
      else if ppu_cycle p mod 8 = 3 then do {
        let shift = unat ((drop_bit 4 (ppu_video_ram_addr p) AND 0x04) OR (ppu_video_ram_addr p AND 0x02));
        (v, s) \<leftarrow> ppu_read_vram (get_attribute_addr p) s;
        Some (set_tile (\<lambda>t. t\<lparr>ti_palette_offset := push_bit 2 (drop_bit shift v AND 0x03)\<rparr>) s) }
      else if ppu_cycle p mod 8 = 5 then do {
        (v, s) \<leftarrow> ppu_read_vram (ti_tile_addr (ppu_tile p)) s;
        Some (set_tile (\<lambda>t. t\<lparr>ti_low_byte := v\<rparr>) s) }
      else if ppu_cycle p mod 8 = 7 then do {
        (v, s) \<leftarrow> ppu_read_vram (ti_tile_addr (ppu_tile p) + 8) s;
        Some (set_tile (\<lambda>t. t\<lparr>ti_high_byte := v\<rparr>) s) }
      else Some s)"

text \<open>The pattern address of a sprite line, and the line of the sprite that is drawn.\<close>

definition sprite_line :: "u8 \<Rightarrow> u8 \<Rightarrow> ppu \<Rightarrow> u8" where
  "sprite_line sprite_y attributes p =
     (let line = ppu_scanline p - int (unat sprite_y) in
      if attributes AND 0x80 \<noteq> 0
      then of_int ((if ct_large_sprites (ppu_control p) then 15 else 7) - line) else of_int line)"

definition sprite_tile_addr :: "u8 \<Rightarrow> u8 \<Rightarrow> ppu \<Rightarrow> u16" where
  "sprite_tile_addr tile_index line_offset p =
     (if ct_large_sprites (ppu_control p)
      then ((if tile_index AND 0x01 \<noteq> 0 then 0x1000 else 0) OR push_bit 4 (ucast (tile_index AND NOT 0x01))) +
           (if line_offset \<ge> 8 then ucast line_offset + 8 else ucast line_offset)
      else push_bit 4 (ucast tile_index) OR ct_sprite_pattern_addr (ppu_control p) OR ucast line_offset)"

text \<open>\<^verbatim>\<open>has_sprite_\<close> of the eight pixels from \<open>sprite_x\<close> on, as far as the line goes.\<close>

definition mark_sprite :: "u8 \<Rightarrow> bool list \<Rightarrow> bool list option" where
  "mark_sprite sprite_x =
     for_each (\<lambda>i has. wr has (unat sprite_x + i + 1) True) (takeWhile (\<lambda>i. unat sprite_x + i + 1 < 257) [0..<8])"

text \<open>The fetch of a visible sprite, and the fetch of tile $FF that replaces it.\<close>

definition fetch_sprite :: "nat \<Rightarrow> u16 \<Rightarrow> u8 \<Rightarrow> u8 \<Rightarrow> ppu_bus \<Rightarrow> ppu_bus option" where
  "fetch_sprite index tile_addr attributes sprite_x s = do {
     info \<leftarrow> rd (ppu_sprite_tiles (fst s)) index;
     (low, s) \<leftarrow> ppu_read_vram tile_addr s;
     (high, s) \<leftarrow> ppu_read_vram (tile_addr + 8) s;
     let info = info\<lparr>sp_background_priority := attributes AND 0x20 \<noteq> 0,
       sp_horizontal_mirror := attributes AND 0x40 \<noteq> 0,
       sp_palette_offset := push_bit 2 (attributes AND 0x03) OR 0x10,
       sp_low_byte := low, sp_high_byte := high, sp_sprite_x := sprite_x\<rparr>;
     tiles \<leftarrow> wr (ppu_sprite_tiles (fst s)) index info;
     has \<leftarrow> (if ppu_scanline (fst s) \<ge> 0 then mark_sprite sprite_x (ppu_has_sprite (fst s))
             else Some (ppu_has_sprite (fst s)));
     Some (on_ppu (\<lambda>p. p\<lparr>ppu_sprite_tiles := tiles, ppu_has_sprite := has\<rparr>) s) }"

definition fetch_dummy :: "ppu_bus \<Rightarrow> ppu_bus option" where
  "fetch_dummy s = do {
     let tile_addr = sprite_tile_addr 0xFF 0 (fst s);
     (_, s) \<leftarrow> ppu_read_vram tile_addr s;
     (_, s) \<leftarrow> ppu_read_vram (tile_addr + 8) s;
     Some s }"

definition load_sprite :: "u8 \<Rightarrow> u8 \<Rightarrow> u8 \<Rightarrow> u8 \<Rightarrow> bool \<Rightarrow> ppu_bus \<Rightarrow> ppu_bus option" where
  "load_sprite sprite_y tile_index attributes sprite_x extra_sprite s = do {
     let p = fst s;
     let tile_addr = sprite_tile_addr tile_index (sprite_line sprite_y attributes p) p;
     let visible = (ppu_sprite_index p < unat (ppu_sprite_count p) \<or> extra_sprite) \<and> sprite_y < 240;
     s \<leftarrow> (if visible then fetch_sprite (ppu_sprite_index p) tile_addr attributes sprite_x s else Some s);
     s \<leftarrow> (if visible \<and> \<not> extra_sprite then Some s else fetch_dummy s);
     Some (on_ppu (\<lambda>p. p\<lparr>ppu_sprite_index := ppu_sprite_index p + 1\<rparr>) s) }"

definition load_sprite_tile_info :: "ppu_bus \<Rightarrow> ppu_bus option" where
  "load_sprite_tile_info s = do {
     let (sec, i) = (ppu_secondary_sprite_ram (fst s), ppu_sprite_index (fst s) * 4);
     y \<leftarrow> rd sec i;
     tile_index \<leftarrow> rd sec (i + 1);
     attributes \<leftarrow> rd sec (i + 2);
     x \<leftarrow> rd sec (i + 3);
     load_sprite y tile_index attributes x False s }"

section \<open>Vertical blank\<close>

definition trigger_nmi :: "ppu_bus \<Rightarrow> ppu_bus" where
  "trigger_nmi s = (if ct_nmi_on_vertical_blank (ppu_control (fst s)) then on_cpu set_nmi_flag s else s)"

definition begin_vblank :: "ppu_bus \<Rightarrow> ppu_bus" where
  "begin_vblank s = trigger_nmi s"

definition set_vblank :: "bool \<Rightarrow> ppu \<Rightarrow> ppu" where
  "set_vblank b p = p\<lparr>ppu_status_flags := (ppu_status_flags p)\<lparr>st_vertical_blank := b\<rparr>\<rparr>"

definition update_status_flag :: "ppu_bus \<Rightarrow> ppu_bus" where
  "update_status_flag s =
     on_ppu (\<lambda>p. if ppu_scanline p = int (ppu_nmi_scanline p) \<and> ppu_cycle p = 0
                 then p\<lparr>ppu_prevent_vbl_flag := True\<rparr> else p)
       (on_cpu clear_nmi_flag (on_ppu (set_vblank False) s))"

definition send_frame :: "ppu \<Rightarrow> ppu" where
  "send_frame p = update_color_bit_masks p"

section \<open>The dots of a scanline\<close>

text \<open>The next scanline, with the wrap after the last one, and its first cycle.\<close>

definition next_line :: "ppu \<Rightarrow> ppu option" where
  "next_line p =
     (let p = p\<lparr>ppu_cycle := 0, ppu_scanline := ppu_scanline p + 1\<rparr> in
      if ppu_scanline p > int (ppu_vblank_end p) then do {
        let p = p\<lparr>ppu_last_updated_pixel := - 1, ppu_scanline := - 1, ppu_sprite_count := 0\<rparr>;
        p \<leftarrow> (if ppu_rendering_enabled p then process_oam_corruption p else Some p);
        Some (update_minimum_draw_cycles p) }
      else Some p)"

definition start_line :: "ppu_bus \<Rightarrow> ppu_bus" where
  "start_line s =
     (let p = fst s in
      if ppu_scanline p < 240 then
        if ppu_scanline p = - 1 then
          let buf = (if ppu_current_output_buffer p = 0 then 1 else 0)
          in on_ppu (\<lambda>p. p\<lparr>ppu_status_flags := status0, ppu_allow_full_ppu_access := True,
               ppu_current_output_buffer := buf, ppu_framebuffer := buf\<rparr>) s
        else if ppu_prev_rendering_enabled p \<and>
                (ppu_scanline p > 0 \<or> ppu_frame_count p AND 0x01 = 0 \<or> ppu_no_odd_frame_skip p)
        then set_bus_address (bg_tile_addr (ti_tile_addr (ppu_tile p)) p) s
        else s
      else if ppu_scanline p = 240 then
        on_ppu (\<lambda>p. let p = send_frame p in p\<lparr>ppu_frame_count := ppu_frame_count p + 1\<rparr>)
          (set_bus_address (ppu_video_ram_addr p AND 0x3FFF) s)
      else s)"

definition process_scanline_first_cycle :: "ppu_bus \<Rightarrow> ppu_bus option" where
  "process_scanline_first_cycle s = do {
     s \<leftarrow> on_ppu_opt next_line s;
     Some (start_line s) }"

text \<open>The store into the output buffer of \<^verbatim>\<open>256 * 240\<close> pixels.\<close>

definition put_pixel :: "u8 \<Rightarrow> ppu \<Rightarrow> ppu option" where
  "put_pixel v p =
     (let index = ppu_scanline p * 256 + int (ppu_cycle p) - 1; buf = ppu_current_output_buffer p in
      if 0 \<le> index \<and> index < 61440 \<and> buf < 2
      then Some (p\<lparr>ppu_output_buffers := (ppu_output_buffers p)(buf :=
        (ppu_output_buffers p buf)(nat index := ucast v))\<rparr>)
      else None)"

definition draw_pixel :: "ppu \<Rightarrow> ppu option" where
  "draw_pixel p =
     (if ppu_rendering_enabled p \<or> ppu_video_ram_addr p AND 0x3F00 \<noteq> 0x3F00 then do {
        (color, p) \<leftarrow> get_pixel_color p;
        v \<leftarrow> rd (ppu_palette_ram p) (if color AND 0x03 \<noteq> 0 then unat color else 0);
        put_pixel v p }
      else do {
        v \<leftarrow> rd (ppu_palette_ram p) (unat (ppu_video_ram_addr p AND 0x1F));
        put_pixel v p })"

text \<open>Cycles 1 to 256: the fetches and the scrolling, then the pixel and the sprite evaluation.\<close>

definition dot_scrolling :: "ppu \<Rightarrow> ppu" where
  "dot_scrolling p =
     (if ppu_prev_rendering_enabled p \<and> ppu_cycle p mod 8 = 0 then
        let p = inc_horizontal_scrolling p
        in if ppu_cycle p = 256 then inc_vertical_scrolling p else p
      else p)"

definition dot_output :: "ppu_bus \<Rightarrow> ppu_bus option" where
  "dot_output s =
     (let now = cpu_cycle_count (snd (snd s)) in
      if ppu_scanline (fst s) \<ge> 0 then
        on_ppu_opt (\<lambda>p. do {
          p \<leftarrow> draw_pixel p;
          process_sprite_evaluation now (shift_tile_registers p) }) s
      else if ppu_cycle (fst s) < 9 then do {
        let s = (if ppu_cycle (fst s) = 1 then on_cpu clear_nmi_flag (on_ppu (set_vblank False) s) else s);
        if ppu_sprite_ram_addr (fst s) \<ge> 0x08 \<and> ppu_rendering_enabled (fst s) then
          on_ppu_opt (\<lambda>p. do {
            (v, p) \<leftarrow> read_sprite_ram now ((ppu_sprite_ram_addr p AND 0xF8) + of_nat (ppu_cycle p - 1)) p;
            write_sprite_ram now (of_nat (ppu_cycle p - 1)) v p }) s
        else Some s }
      else Some s)"

definition visible_dot :: "ppu_bus \<Rightarrow> ppu_bus option" where
  "visible_dot s = do {
     s \<leftarrow> load_tile_info s;
     dot_output (on_ppu dot_scrolling s) }"

text \<open>Cycles 257 to 320. The first of them resets the sprite counter.\<close>

definition start_sprite_fetch :: "ppu \<Rightarrow> ppu" where
  "start_sprite_fetch p =
     (if ppu_cycle p = 257 then
        let p = p\<lparr>ppu_sprite_index := 0, ppu_has_sprite := replicate 257 False\<rparr>
        in if ppu_prev_rendering_enabled p
           then p\<lparr>ppu_video_ram_addr := (ppu_video_ram_addr p AND NOT 0x041F) OR
                  (ppu_tmp_video_ram_addr p AND 0x041F)\<rparr>
           else p
      else p)"

definition sprite_dot :: "ppu_bus \<Rightarrow> ppu_bus option" where
  "sprite_dot s = do {
     let s = on_ppu start_sprite_fetch s;
     if ppu_rendering_enabled (fst s) then do {
       let s = on_ppu (\<lambda>p. p\<lparr>ppu_sprite_ram_addr := 0\<rparr>) s;
       let step = (ppu_cycle (fst s) - 257) mod 8;
       s \<leftarrow>
         (if step = 0 then map_option snd (ppu_read_vram (get_nametable_addr (fst s)) s)
          else if step = 2 then map_option snd (ppu_read_vram (get_attribute_addr (fst s)) s)
          else if step = 4 then load_sprite_tile_info s
          else Some s);
       Some
         (if ppu_scanline (fst s) = - 1 \<and> 280 \<le> ppu_cycle (fst s) \<and> ppu_cycle (fst s) \<le> 304
          then on_ppu (\<lambda>p. p\<lparr>ppu_video_ram_addr := (ppu_video_ram_addr p AND NOT 0x7BE0) OR
                 (ppu_tmp_video_ram_addr p AND 0x7BE0)\<rparr>) s
          else s) }
     else Some s }"

text \<open>Cycles 321 to 336.\<close>

definition prefetch_dot :: "ppu_bus \<Rightarrow> ppu_bus option" where
  "prefetch_dot s = do {
     s \<leftarrow> load_tile_info s;
     let p = fst s;
     if ppu_cycle p = 321 then
       if ppu_rendering_enabled p
       then on_ppu_opt (\<lambda>p. do {
         b \<leftarrow> rd (ppu_secondary_sprite_ram p) 0;
         Some (p\<lparr>ppu_oam_copy_buffer := b\<rparr>) }) s
       else Some s
     else if ppu_prev_rendering_enabled p \<and> (ppu_cycle p = 328 \<or> ppu_cycle p = 336)
     then Some (on_ppu (\<lambda>p. inc_horizontal_scrolling
       (p\<lparr>ppu_low_bit_shift := push_bit 8 (ppu_low_bit_shift p),
          ppu_high_bit_shift := push_bit 8 (ppu_high_bit_shift p)\<rparr>)) s)
     else Some s }"

text \<open>Cycles 337 and 339; an odd frame loses its last cycle.\<close>

definition last_fetch_dot :: "ppu_bus \<Rightarrow> ppu_bus option" where
  "last_fetch_dot s =
     (if ppu_rendering_enabled (fst s) then do {
        (v, s) \<leftarrow> ppu_read_vram (get_nametable_addr (fst s)) s;
        let s = set_tile (\<lambda>t. t\<lparr>ti_tile_addr := ucast v\<rparr>) s;
        let p = fst s;
        Some
          (if ppu_scanline p = - 1 \<and> ppu_cycle p = 339 \<and> ppu_frame_count p AND 0x01 \<noteq> 0 \<and>
              \<not> ppu_no_odd_frame_skip p
           then on_ppu (\<lambda>p. p\<lparr>ppu_cycle := 340\<rparr>) s else s) }
      else Some s)"

definition process_scanline_impl :: "ppu_bus \<Rightarrow> ppu_bus option" where
  "process_scanline_impl s =
     (let cycle = ppu_cycle (fst s) in
      if cycle \<le> 256 then visible_dot s
      else if 257 \<le> cycle \<and> cycle \<le> 320 then sprite_dot s
      else if 321 \<le> cycle \<and> cycle \<le> 336 then prefetch_dot s
      else if cycle = 337 \<or> cycle = 339 then last_fetch_dot s
      else Some s)"

section \<open>The deferred state update\<close>

text \<open>The first part: rendering has just been switched on or off.\<close>

definition update_prev_rendering :: "ppu_bus \<Rightarrow> ppu_bus option" where
  "update_prev_rendering s0 =
     (let p0 = fst s0 in
      if ppu_prev_rendering_enabled p0 = ppu_rendering_enabled p0 then Some s0
      else
        let s = on_ppu (\<lambda>p. p\<lparr>ppu_prev_rendering_enabled := ppu_rendering_enabled p\<rparr>) s0 in
        if ppu_scanline p0 < 240 then
          if ppu_rendering_enabled p0 then on_ppu_opt process_oam_corruption s
          else do {
            s \<leftarrow> on_ppu_opt set_oam_corruption_flags s;
            let s = set_bus_address (ppu_video_ram_addr (fst s) AND 0x3FFF) s;
            Some
              (if 65 \<le> ppu_cycle p0 \<and> ppu_cycle p0 \<le> 256 then
                 on_ppu (\<lambda>p. let a = ppu_sprite_ram_addr p + 1
                             in p\<lparr>ppu_sprite_ram_addr := a, ppu_sprite_addr_h := drop_bit 2 a AND 0x3F,
                                  ppu_sprite_addr_l := a AND 0x03\<rparr>) s
               else s) }
        else Some s)"

text \<open>The value that \<^verbatim>\<open>v\<close> takes when the delay of a write to \<^verbatim>\<open>$2006\<close> is over.\<close>

definition delayed_vram_addr :: "ppu \<Rightarrow> u16" where
  "delayed_vram_addr p =
     (let v = ppu_video_ram_addr p; u = ppu_update_vram_addr p; cycle = ppu_cycle p in
      if ppu_scanline p < 240 \<and> ppu_rendering_enabled p then
        if cycle = 257 then v AND u
        else if cycle > 0 \<and> cycle mod 8 = 0 \<and> (cycle \<le> 256 \<or> cycle > 320)
        then (u AND NOT 0x41F) OR (v AND u AND 0x41F)
        else u
      else u)"

definition update_delayed_addr :: "ppu_bus \<Rightarrow> ppu_bus" where
  "update_delayed_addr s =
     (if ppu_update_vram_addr_delay (fst s) > 0 then
        let s = on_ppu (\<lambda>p. p\<lparr>ppu_update_vram_addr_delay := ppu_update_vram_addr_delay p - 1\<rparr>) s in
        if ppu_update_vram_addr_delay (fst s) = 0 then
          let v = delayed_vram_addr (fst s);
              s = on_ppu (\<lambda>p. p\<lparr>ppu_video_ram_addr := v, ppu_tmp_video_ram_addr := v\<rparr>) s
          in if ppu_scanline (fst s) \<ge> 240 \<or> \<not> ppu_rendering_enabled (fst s)
             then set_bus_address (v AND 0x3FFF) s else s
        else on_ppu (\<lambda>p. p\<lparr>ppu_need_state_update := True\<rparr>) s
      else s)"

definition update_state :: "ppu_bus \<Rightarrow> ppu_bus option" where
  "update_state s = do {
     s \<leftarrow> update_prev_rendering (on_ppu (\<lambda>p. p\<lparr>ppu_need_state_update := False\<rparr>) s);
     let s = on_ppu (\<lambda>p. if ppu_rendering_enabled p \<noteq> rendering_requested p
                         then p\<lparr>ppu_rendering_enabled := rendering_requested p,
                                ppu_need_state_update := True\<rparr>
                         else p) s;
     let s = update_delayed_addr s;
     let s = on_ppu (\<lambda>p. if ppu_ignore_vram_read p > 0 then
                           let p = p\<lparr>ppu_ignore_vram_read := ppu_ignore_vram_read p - 1\<rparr>
                           in if ppu_ignore_vram_read p > 0 then p\<lparr>ppu_need_state_update := True\<rparr> else p
                         else p) s;
     Some
       (if ppu_need_video_ram_increment (fst s)
        then update_video_ram_addr (on_ppu (\<lambda>p. p\<lparr>ppu_need_video_ram_increment := False\<rparr>) s)
        else s) }"

section \<open>Running\<close>

text \<open>The start of the vertical blank, in cycle 1 of scanline 241.\<close>

definition vblank_dot :: "ppu_bus \<Rightarrow> ppu_bus" where
  "vblank_dot s =
     (let p = fst s in
      if ppu_cycle p = 1 \<and> ppu_scanline p = int (ppu_nmi_scanline p) then
        let s = (if ppu_prevent_vbl_flag p then s else begin_vblank (on_ppu (set_vblank True) s))
        in on_ppu (\<lambda>p. p\<lparr>ppu_prevent_vbl_flag := False\<rparr>) s
      else s)"

definition ppu_exec :: "ppu_bus \<Rightarrow> ppu_bus option" where
  "ppu_exec s = do {
     s \<leftarrow>
       (if ppu_cycle (fst s) < 340 then do {
          let s = vblank_dot (on_ppu (\<lambda>p. p\<lparr>ppu_cycle := ppu_cycle p + 1\<rparr>) s);
          if ppu_scanline (fst s) < 240 then process_scanline_impl s else Some s }
        else process_scanline_first_cycle s);
     if ppu_need_state_update (fst s) then update_state s else Some s }"

definition ppu_tick :: "ppu_bus \<Rightarrow> ppu_bus option" where
  "ppu_tick s = do {
     s \<leftarrow> ppu_exec s;
     Some (on_ppu (\<lambda>p. p\<lparr>ppu_master_clock := ppu_master_clock p + unat (ppu_master_clock_divider p)\<rparr>) s) }"

definition ppu_run :: "nat \<Rightarrow> ppu_bus \<Rightarrow> ppu_bus option" where
  "ppu_run run_to s = do {
     s \<leftarrow> ppu_tick s;
     while_loop (\<lambda>s. ppu_master_clock (fst s) + unat (ppu_master_clock_divider (fst s)) \<le> run_to) ppu_tick s }"

end
