(* ===== verification/Ppu_Registers.thy ===== *)
theory Ppu_Registers
  imports Ppu
begin

text \<open>
  The CPU side of \<^verbatim>\<open>NesPpu\<close>: the registers at $2000 to $3FFF and the sprite DMA port
  $4014. \<open>ob\<close> is the open-bus value of the memory manager.
\<close>

definition ppu_memory_ranges :: memory_ranges where
  "ppu_memory_ranges =
     add_handler OP_WRITE 0x4014 0
       (add_handler OP_WRITE 0x2000 0x3FFF (add_handler OP_READ 0x2000 0x3FFF ranges0))"

section \<open>Reading\<close>

definition status_byte :: "ppu_status \<Rightarrow> u8" where
  "status_byte st =
     push_bit 5 (of_flag (st_sprite_overflow st)) OR push_bit 6 (of_flag (st_sprite_zero_hit st)) OR
     push_bit 7 (of_flag (st_vertical_blank st))"

text \<open>The entry of the palette an address selects for reading: $3F10 mirrors $3F00 and so on.\<close>

definition palette_read_index :: "u16 \<Rightarrow> u8" where
  "palette_read_index addr =
     (let pa = ucast (addr AND 0x1F)
      in if pa = 0x10 \<or> pa = 0x14 \<or> pa = 0x18 \<or> pa = 0x1C then pa AND NOT 0x10 else pa)"

definition palette_read :: "u16 \<Rightarrow> ppu \<Rightarrow> u8 option" where
  "palette_read addr p = do {
     v \<leftarrow> rd (ppu_palette_ram p) (unat (palette_read_index addr));
     Some ((v AND ppu_palette_ram_mask p) OR (ppu_open_bus p AND 0xC0)) }"

text \<open>$2004 during rendering shows the copy buffer of the sprite unit.\<close>

definition read_oam_data :: "ppu_bus \<Rightarrow> (u8 \<times> ppu_bus) option" where
  "read_oam_data s =
     (let p = fst s; cycle = ppu_cycle p in
      if ppu_scanline p \<le> 239 \<and> ppu_rendering_enabled p then do {
        p \<leftarrow>
          (if 257 \<le> cycle \<and> cycle \<le> 320 then do {
             let a = (of_nat ((cycle - 257) div 8 * 4 + min 3 ((cycle - 257) mod 8)) :: u8);
             b \<leftarrow> rd (ppu_secondary_sprite_ram p) (unat a);
             Some (p\<lparr>ppu_secondary_oam_addr := a, ppu_oam_copy_buffer := b\<rparr>) }
           else Some p);
        Some (ppu_oam_copy_buffer p, p, snd s) }
      else do {
        (v, p) \<leftarrow> read_sprite_ram (cpu_cycle_count (snd (snd s))) (ppu_sprite_ram_addr p) p;
        Some (v, p, snd s) })"

text \<open>$2007: the value, the mask of the bits that the open bus provides, and the new state.\<close>

definition read_data :: "ppu_bus \<Rightarrow> (u8 \<times> u8 \<times> ppu_bus) option" where
  "read_data s =
     (if ppu_ignore_vram_read (fst s) \<noteq> 0 then Some (0, 0xFF, s)
      else do {
        let addr = ppu_bus_address (fst s) AND 0x3FFF;
        let buffered = ppu_memory_read_buffer (fst s);
        (v, s) \<leftarrow> ppu_read_vram addr s;
        let s = on_ppu (\<lambda>p. p\<lparr>ppu_memory_read_buffer := v\<rparr>) s;
        (ret, msk) \<leftarrow>
          (if ppu_bus_address (fst s) AND 0x3FFF \<ge> 0x3F00
           then map_option (\<lambda>r. (r, 0xC0)) (palette_read (ppu_bus_address (fst s)) (fst s))
           else Some (buffered, 0));
        Some (ret, msk, on_ppu (\<lambda>p. p\<lparr>ppu_ignore_vram_read := 6, ppu_need_state_update := True,
          ppu_need_video_ram_increment := True\<rparr>) s) })"

definition ppu_read_ram :: "u16 \<Rightarrow> ppu_bus \<Rightarrow> (u8 \<times> ppu_bus) option" where
  "ppu_read_ram addr s = do {
     (ret, msk, s) \<leftarrow>
       (if addr AND 0x7 = 0x02 then
          Some (status_byte (ppu_status_flags (fst s)), 0x1F,
            update_status_flag (on_ppu (\<lambda>p. p\<lparr>ppu_write_toggle := False\<rparr>) s))
        else if addr AND 0x7 = 0x04 then map_option (\<lambda>(v, s). (v, 0, s)) (read_oam_data s)
        else if addr AND 0x7 = 0x07 then read_data s
        else Some (0, 0xFF, s));
     (v, p) \<leftarrow> apply_open_bus msk ret (fst s);
     Some (v, p, snd s) }"

definition ppu_peek_ram :: "u16 \<Rightarrow> ppu \<Rightarrow> u8 option" where
  "ppu_peek_ram addr p = do {
     (ret, msk) \<leftarrow>
       (if addr AND 0x7 = 0x02 then Some (status_byte (ppu_status_flags p), 0x1F)
        else if addr AND 0x7 = 0x04 then
          map_option (\<lambda>v. (v, 0)) (rd (ppu_sprite_ram p) (unat (ppu_sprite_ram_addr p)))
        else if addr AND 0x7 = 0x07 then
          if ppu_video_ram_addr p AND 0x3FFF \<ge> 0x3F00
          then map_option (\<lambda>r. (r, 0xC0)) (palette_read (ppu_video_ram_addr p) p)
          else Some (ppu_memory_read_buffer p, 0)
        else Some (0, 0xFF));
     Some (ret OR (ppu_open_bus p AND msk)) }"

section \<open>Writing\<close>

definition set_control_register :: "u8 \<Rightarrow> u8 \<Rightarrow> ppu_bus \<Rightarrow> ppu_bus" where
  "set_control_register ob val s =
     (let s = on_ppu (\<lambda>p. process_tmp_addr_scroll_glitch
            ((ppu_tmp_video_ram_addr p AND NOT 0x0C00) OR push_bit 10 (ucast (val AND 0x03)))
            (push_bit 10 (ucast ob)) 0x0400 p) s;
          s = on_ppu (\<lambda>p. p\<lparr>ppu_control := \<lparr>
            ct_background_pattern_addr = (if val AND 0x10 \<noteq> 0 then 0x1000 else 0),
            ct_sprite_pattern_addr = (if val AND 0x08 \<noteq> 0 then 0x1000 else 0),
            ct_vertical_write = val AND 0x04 \<noteq> 0,
            ct_large_sprites = val AND 0x20 \<noteq> 0,
            ct_nmi_on_vertical_blank = val AND 0x80 \<noteq> 0\<rparr>\<rparr>) s
      in if \<not> ct_nmi_on_vertical_blank (ppu_control (fst s)) then on_cpu clear_nmi_flag s
         else if st_vertical_blank (ppu_status_flags (fst s)) then on_cpu set_nmi_flag s
         else s)"

definition write_scroll :: "u8 \<Rightarrow> u8 \<Rightarrow> ppu \<Rightarrow> ppu" where
  "write_scroll ob val p =
     (let t = ppu_tmp_video_ram_addr p;
          p = (if ppu_write_toggle p
               then p\<lparr>ppu_tmp_video_ram_addr := (t AND NOT 0x73E0) OR push_bit 2 (ucast (val AND 0xF8)) OR
                      push_bit 12 (ucast (val AND 0x07))\<rparr>
               else process_tmp_addr_scroll_glitch ((t AND NOT 0x001F) OR ucast (drop_bit 3 val))
                      (ucast (drop_bit 3 ob)) 0x001F (p\<lparr>ppu_x_scroll := val AND 0x07\<rparr>))
      in p\<lparr>ppu_write_toggle := \<not> ppu_write_toggle p\<rparr>)"

definition write_address :: "u8 \<Rightarrow> u8 \<Rightarrow> ppu \<Rightarrow> ppu" where
  "write_address ob val p =
     (let t = ppu_tmp_video_ram_addr p;
          p = (if ppu_write_toggle p
               then let t = (t AND NOT 0x00FF) OR ucast val
                    in p\<lparr>ppu_tmp_video_ram_addr := t, ppu_need_state_update := True,
                         ppu_update_vram_addr_delay := 3, ppu_update_vram_addr := t\<rparr>
               else process_tmp_addr_scroll_glitch
                      ((t AND NOT 0xFF00) OR push_bit 8 (ucast (val AND 0x3F)))
                      (push_bit 8 (ucast ob)) 0x0C00 p)
      in p\<lparr>ppu_write_toggle := \<not> ppu_write_toggle p\<rparr>)"

definition write_oam_data :: "u64 \<Rightarrow> u8 \<Rightarrow> ppu \<Rightarrow> ppu option" where
  "write_oam_data now val p =
     (if ppu_scanline p \<ge> 240 \<or> \<not> ppu_rendering_enabled p then do {
        let val = (if ppu_sprite_ram_addr p AND 0x03 = 0x02 then val AND 0xE3 else val);
        p \<leftarrow> write_sprite_ram now (ppu_sprite_ram_addr p) val p;
        Some (p\<lparr>ppu_sprite_ram_addr := (ppu_sprite_ram_addr p + 1) AND 0xFF\<rparr>) }
      else Some (p\<lparr>ppu_sprite_ram_addr := (ppu_sprite_ram_addr p + 4) AND 0xFF\<rparr>))"

text \<open>The backdrop entries of the background and of the sprites are one cell.\<close>

definition palette_write :: "u16 \<Rightarrow> u8 \<Rightarrow> ppu \<Rightarrow> ppu option" where
  "palette_write addr val p = do {
     let pa = unat (ucast (addr AND 0x1F) :: u8);
     ram \<leftarrow>
       (if pa = 0x00 \<or> pa = 0x10 then do {
          ram \<leftarrow> wr (ppu_palette_ram p) 0x00 (val AND 0x3F); wr ram 0x10 (val AND 0x3F) }
        else if pa = 0x04 \<or> pa = 0x14 then do {
          ram \<leftarrow> wr (ppu_palette_ram p) 0x04 (val AND 0x3F); wr ram 0x14 (val AND 0x3F) }
        else if pa = 0x08 \<or> pa = 0x18 then do {
          ram \<leftarrow> wr (ppu_palette_ram p) 0x08 (val AND 0x3F); wr ram 0x18 (val AND 0x3F) }
        else if pa = 0x0C \<or> pa = 0x1C then do {
          ram \<leftarrow> wr (ppu_palette_ram p) 0x0C (val AND 0x3F); wr ram 0x1C (val AND 0x3F) }
        else wr (ppu_palette_ram p) pa (val AND 0x3F));
     Some (p\<lparr>ppu_palette_ram := ram\<rparr>) }"

definition write_data :: "u8 \<Rightarrow> ppu_bus \<Rightarrow> ppu_bus option" where
  "write_data val s = do {
     let p = fst s;
     let addr = ppu_bus_address p AND 0x3FFF;
     s \<leftarrow>
       (if addr \<ge> 0x3F00 then on_ppu_opt (palette_write (ppu_bus_address p) val) s
        else if ppu_scanline p \<ge> 240 \<or> \<not> ppu_rendering_enabled p then ppu_write_vram addr val s
        else ppu_write_vram addr (ucast (ppu_bus_address p)) s);
     Some (on_ppu (\<lambda>p. p\<lparr>ppu_need_state_update := True, ppu_need_video_ram_increment := True\<rparr>) s) }"

definition ppu_write_ram :: "u8 \<Rightarrow> u16 \<Rightarrow> u8 \<Rightarrow> ppu_bus \<Rightarrow> ppu_bus option" where
  "ppu_write_ram ob addr val s = do {
     s \<leftarrow> on_ppu_opt (set_open_bus 0xFF val) s;
     if addr = 0x4014 then Some (on_cpu (run_dma_transfer val) s)
     else
       let reg = addr AND 0x7 in
       if reg = 0x00 then Some (set_control_register ob val s)
       else if reg = 0x01 then Some (on_ppu (set_mask_register val) s)
       else if reg = 0x03 then Some (on_ppu (\<lambda>p. p\<lparr>ppu_sprite_ram_addr := val\<rparr>) s)
       else if reg = 0x04 then on_ppu_opt (write_oam_data (cpu_cycle_count (snd (snd s))) val) s
       else if reg = 0x05 then Some (on_ppu (write_scroll ob val) s)
       else if reg = 0x06 then Some (on_ppu (write_address ob val) s)
       else if reg = 0x07 then write_data val s
       else Some s }"

end
