(* ===== verification/Ppu_Facts.thy ===== *)
theory Ppu_Facts
  imports Ppu_Registers Mapper_Safety
begin

text \<open>
  Correctness of the PPU. The first part is the invariant \<open>ppu_ok\<close>: no operation
  leaves an array or uses an undefined value, and \<^verbatim>\<open>run\<close> returns.
\<close>

section \<open>The invariant\<close>

text \<open>
  The sprite counter is reset in cycle 257 and advances once in eight cycles, so that it
  bounds the secondary memory when it is used as an index.
\<close>

definition dot_ok :: "nat \<Rightarrow> int \<Rightarrow> nat \<Rightarrow> bool" where
  "dot_ok cycle scanline index \<longleftrightarrow>
     cycle \<le> 340 \<and> - 1 \<le> scanline \<and> scanline \<le> 260 \<and> index \<le> 8 \<and>
     (257 \<le> cycle \<and> cycle \<le> 320 \<and> scanline < 240 \<longrightarrow> index \<le> (cycle - 253) div 8)"

definition ppu_lengths :: "ppu \<Rightarrow> bool" where
  "ppu_lengths p \<longleftrightarrow>
     length (ppu_open_bus_decay_stamp p) = 8 \<and> length (ppu_palette_ram p) = 0x20 \<and>
     length (ppu_sprite_ram p) = 0x100 \<and> length (ppu_secondary_sprite_ram p) = 0x20 \<and>
     length (ppu_has_sprite p) = 257 \<and> length (ppu_sprite_tiles p) = 64 \<and>
     length (ppu_oam_decay_cycles p) = 0x40 \<and> length (ppu_corrupt_oam_row p) = 32"

definition ppu_values :: "ppu \<Rightarrow> bool" where
  "ppu_values p \<longleftrightarrow>
     ppu_nmi_scanline p = 241 \<and> ppu_vblank_end p = 260 \<and> ppu_current_output_buffer p < 2 \<and>
     ppu_framebuffer p < 2 \<and>
     ppu_sprite_count p \<le> 8 \<and> ppu_secondary_oam_addr p \<le> 0x20 \<and> ppu_x_scroll p \<le> 7 \<and>
     ti_palette_offset (ppu_tile p) \<le> 0x0C \<and> ppu_current_tile_palette p \<le> 0x0C \<and>
     ppu_previous_tile_palette p \<le> 0x0C \<and> (\<forall>t \<in> set (ppu_sprite_tiles p). sp_palette_offset t \<le> 0x1C) \<and>
     ppu_palette_ram_mask p \<le> 0x3F"

definition ppu_ok :: "ppu \<Rightarrow> bool" where
  "ppu_ok p \<longleftrightarrow> ppu_lengths p \<and> ppu_values p \<and> dot_ok (ppu_cycle p) (ppu_scanline p) (ppu_sprite_index p)"

lemmas ppu_ok_defs = ppu_ok_def ppu_lengths_def ppu_values_def

lemma new_ppu_ok: "ppu_ok new_ppu"
  by (simp add: new_ppu_def ppu_reset_def Let_def update_minimum_draw_cycles_def ppu_ok_defs dot_ok_def
      palette_boot_def tile0_def sprite0_def)

lemma mask_ok: "ppu_ok p \<Longrightarrow> ppu_ok (set_mask_register v p)"
  by (simp add: set_mask_register_def Let_def update_minimum_draw_cycles_def update_color_bit_masks_def ppu_ok_defs)

text \<open>
  The frame of the invariant: most fields do not matter, and each of the others has a
  condition of its own.
\<close>

lemma ppu_ok_frame [simp]:
  "ppu_ok (ppu_master_clock_update f1 p) = ppu_ok p"
  "ppu_ok (ppu_master_clock_divider_update f2 p) = ppu_ok p"
  "ppu_ok (ppu_frame_count_update f3 p) = ppu_ok p"
  "ppu_ok (ppu_no_odd_frame_skip_update f4 p) = ppu_ok p"
  "ppu_ok (ppu_output_buffers_update f5 p) = ppu_ok p"
  "ppu_ok (ppu_last_updated_pixel_update f6 p) = ppu_ok p"
  "ppu_ok (ppu_video_ram_addr_update f7 p) = ppu_ok p"
  "ppu_ok (ppu_tmp_video_ram_addr_update f8 p) = ppu_ok p"
  "ppu_ok (ppu_high_bit_shift_update f9 p) = ppu_ok p"
  "ppu_ok (ppu_low_bit_shift_update f10 p) = ppu_ok p"
  "ppu_ok (ppu_sprite_ram_addr_update f11 p) = ppu_ok p"
  "ppu_ok (ppu_open_bus_update f12 p) = ppu_ok p"
  "ppu_ok (ppu_enable_oam_decay_update f13 p) = ppu_ok p"
  "ppu_ok (ppu_need_state_update_update f14 p) = ppu_ok p"
  "ppu_ok (ppu_rendering_enabled_update f15 p) = ppu_ok p"
  "ppu_ok (ppu_prev_rendering_enabled_update f16 p) = ppu_ok p"
  "ppu_ok (ppu_sprite0_visible_update f17 p) = ppu_ok p"
  "ppu_ok (ppu_oam_copy_buffer_update f18 p) = ppu_ok p"
  "ppu_ok (ppu_sprite_in_range_update f19 p) = ppu_ok p"
  "ppu_ok (ppu_sprite0_added_update f20 p) = ppu_ok p"
  "ppu_ok (ppu_sprite_addr_h_update f21 p) = ppu_ok p"
  "ppu_ok (ppu_sprite_addr_l_update f22 p) = ppu_ok p"
  "ppu_ok (ppu_overflow_bug_counter_update f23 p) = ppu_ok p"
  "ppu_ok (ppu_oam_copy_done_update f24 p) = ppu_ok p"
  "ppu_ok (ppu_minimum_draw_bg_cycle_update f25 p) = ppu_ok p"
  "ppu_ok (ppu_minimum_draw_sprite_cycle_update f26 p) = ppu_ok p"
  "ppu_ok (ppu_minimum_draw_sprite_standard_cycle_update f27 p) = ppu_ok p"
  "ppu_ok (ppu_bus_address_update f28 p) = ppu_ok p"
  "ppu_ok (ppu_intensify_color_bits_update f29 p) = ppu_ok p"
  "ppu_ok (ppu_update_vram_addr_delay_update f31 p) = ppu_ok p"
  "ppu_ok (ppu_control_update f32 p) = ppu_ok p"
  "ppu_ok (ppu_mask_update f33 p) = ppu_ok p"
  "ppu_ok (ppu_status_flags_update f34 p) = ppu_ok p"
  "ppu_ok (ppu_update_vram_addr_update f35 p) = ppu_ok p"
  "ppu_ok (ppu_prevent_vbl_flag_update f36 p) = ppu_ok p"
  "ppu_ok (ppu_write_toggle_update f37 p) = ppu_ok p"
  "ppu_ok (ppu_need_video_ram_increment_update f38 p) = ppu_ok p"
  "ppu_ok (ppu_allow_full_ppu_access_update f39 p) = ppu_ok p"
  "ppu_ok (ppu_memory_read_buffer_update f40 p) = ppu_ok p"
  "ppu_ok (ppu_ignore_vram_read_update f41 p) = ppu_ok p"
  "ppu_ok (ppu_first_visible_sprite_addr_update f42 p) = ppu_ok p"
  "ppu_ok (ppu_last_visible_sprite_addr_update f43 p) = ppu_ok p"
  "ppu_ok (ppu_emulator_bg_enabled_update f44 p) = ppu_ok p"
  "ppu_ok (ppu_emulator_sprites_enabled_update f45 p) = ppu_ok p"
  by (simp_all add: ppu_ok_defs)

lemma ppu_ok_upd:
  assumes "ppu_ok p"
  shows "ppu_ok (p\<lparr>ppu_open_bus_decay_stamp := l1\<rparr>) \<longleftrightarrow> length l1 = 8"
    "ppu_ok (p\<lparr>ppu_palette_ram := l2\<rparr>) \<longleftrightarrow> length l2 = 0x20"
    "ppu_ok (p\<lparr>ppu_sprite_ram := l2\<rparr>) \<longleftrightarrow> length l2 = 0x100"
    "ppu_ok (p\<lparr>ppu_secondary_sprite_ram := l2\<rparr>) \<longleftrightarrow> length l2 = 0x20"
    "ppu_ok (p\<lparr>ppu_has_sprite := l3\<rparr>) \<longleftrightarrow> length l3 = 257"
    "ppu_ok (p\<lparr>ppu_corrupt_oam_row := l3\<rparr>) \<longleftrightarrow> length l3 = 32"
    "ppu_ok (p\<lparr>ppu_oam_decay_cycles := l4\<rparr>) \<longleftrightarrow> length l4 = 0x40"
    "ppu_ok (p\<lparr>ppu_sprite_count := n\<rparr>) \<longleftrightarrow> n \<le> 8"
    "ppu_ok (p\<lparr>ppu_secondary_oam_addr := n\<rparr>) \<longleftrightarrow> n \<le> 0x20"
    "ppu_ok (p\<lparr>ppu_x_scroll := n\<rparr>) \<longleftrightarrow> n \<le> 7"
    "ppu_ok (p\<lparr>ppu_current_tile_palette := n\<rparr>) \<longleftrightarrow> n \<le> 0x0C"
    "ppu_ok (p\<lparr>ppu_previous_tile_palette := n\<rparr>) \<longleftrightarrow> n \<le> 0x0C"
    "ppu_ok (p\<lparr>ppu_tile := t\<rparr>) \<longleftrightarrow> ti_palette_offset t \<le> 0x0C"
    "ppu_ok (p\<lparr>ppu_current_output_buffer := k\<rparr>) \<longleftrightarrow> k < 2"
    "ppu_ok (p\<lparr>ppu_framebuffer := k\<rparr>) \<longleftrightarrow> k < 2"
  using assms by (simp_all add: ppu_ok_defs)

lemma ppu_okD:
  assumes "ppu_ok p"
  shows "length (ppu_open_bus_decay_stamp p) = 8" "length (ppu_palette_ram p) = 0x20"
    "length (ppu_sprite_ram p) = 0x100" "length (ppu_secondary_sprite_ram p) = 0x20"
    "length (ppu_has_sprite p) = 257" "length (ppu_sprite_tiles p) = 64"
    "length (ppu_oam_decay_cycles p) = 0x40" "length (ppu_corrupt_oam_row p) = 32"
    "ppu_current_output_buffer p < 2" "ppu_framebuffer p < 2" "ppu_sprite_count p \<le> 8"
    "ppu_secondary_oam_addr p \<le> 0x20" "ppu_x_scroll p \<le> 7" "ti_palette_offset (ppu_tile p) \<le> 0x0C"
    "ppu_current_tile_palette p \<le> 0x0C" "ppu_previous_tile_palette p \<le> 0x0C"
    "t \<in> set (ppu_sprite_tiles p) \<Longrightarrow> sp_palette_offset t \<le> 0x1C"
    "ppu_cycle p \<le> 340" "- 1 \<le> ppu_scanline p" "ppu_scanline p \<le> 260" "ppu_sprite_index p \<le> 8"
    "ppu_nmi_scanline p = 241" "ppu_vblank_end p = 260"
  using assms by (auto simp: ppu_ok_defs dot_ok_def)

text \<open>
  The position of the beam, the clocks and the sprite counter, which only \<^verbatim>\<open>exec\<close>, \<^verbatim>\<open>run\<close>
  and \<^verbatim>\<open>load_sprite\<close> advance.
\<close>

definition time_of :: "ppu \<Rightarrow> nat \<times> u8 \<times> nat \<times> int \<times> u32 \<times> bool" where
  "time_of p = (ppu_master_clock p, ppu_master_clock_divider p, ppu_cycle p, ppu_scanline p,
     ppu_frame_count p, ppu_no_odd_frame_skip p)"

definition clock_of :: "ppu \<Rightarrow> (nat \<times> u8 \<times> nat \<times> int \<times> u32 \<times> bool) \<times> nat" where
  "clock_of p = (time_of p, ppu_sprite_index p)"

lemma clock_of_frame [simp]:
  "clock_of (ppu_nmi_scanline_update f0 p) = clock_of p"
  "clock_of (ppu_vblank_end_update f1 p) = clock_of p"
  "clock_of (ppu_output_buffers_update f2 p) = clock_of p"
  "clock_of (ppu_current_output_buffer_update f3 p) = clock_of p"
  "clock_of (ppu_framebuffer_update f4 p) = clock_of p"
  "clock_of (ppu_last_updated_pixel_update f5 p) = clock_of p"
  "clock_of (ppu_video_ram_addr_update f6 p) = clock_of p"
  "clock_of (ppu_tmp_video_ram_addr_update f7 p) = clock_of p"
  "clock_of (ppu_high_bit_shift_update f8 p) = clock_of p"
  "clock_of (ppu_low_bit_shift_update f9 p) = clock_of p"
  "clock_of (ppu_sprite_ram_addr_update f10 p) = clock_of p"
  "clock_of (ppu_x_scroll_update f11 p) = clock_of p"
  "clock_of (ppu_open_bus_update f12 p) = clock_of p"
  "clock_of (ppu_open_bus_decay_stamp_update f13 p) = clock_of p"
  "clock_of (ppu_enable_oam_decay_update f14 p) = clock_of p"
  "clock_of (ppu_need_state_update_update f15 p) = clock_of p"
  "clock_of (ppu_rendering_enabled_update f16 p) = clock_of p"
  "clock_of (ppu_prev_rendering_enabled_update f17 p) = clock_of p"
  "clock_of (ppu_sprite0_visible_update f18 p) = clock_of p"
  "clock_of (ppu_sprite_count_update f19 p) = clock_of p"
  "clock_of (ppu_secondary_oam_addr_update f20 p) = clock_of p"
  "clock_of (ppu_oam_copy_buffer_update f21 p) = clock_of p"
  "clock_of (ppu_sprite_in_range_update f22 p) = clock_of p"
  "clock_of (ppu_sprite0_added_update f23 p) = clock_of p"
  "clock_of (ppu_sprite_addr_h_update f24 p) = clock_of p"
  "clock_of (ppu_sprite_addr_l_update f25 p) = clock_of p"
  "clock_of (ppu_overflow_bug_counter_update f26 p) = clock_of p"
  "clock_of (ppu_oam_copy_done_update f27 p) = clock_of p"
  "clock_of (ppu_minimum_draw_bg_cycle_update f28 p) = clock_of p"
  "clock_of (ppu_minimum_draw_sprite_cycle_update f29 p) = clock_of p"
  "clock_of (ppu_minimum_draw_sprite_standard_cycle_update f30 p) = clock_of p"
  "clock_of (ppu_palette_ram_update f31 p) = clock_of p"
  "clock_of (ppu_sprite_ram_update f32 p) = clock_of p"
  "clock_of (ppu_secondary_sprite_ram_update f33 p) = clock_of p"
  "clock_of (ppu_tile_update f34 p) = clock_of p"
  "clock_of (ppu_bus_address_update f35 p) = clock_of p"
  "clock_of (ppu_current_tile_palette_update f36 p) = clock_of p"
  "clock_of (ppu_previous_tile_palette_update f37 p) = clock_of p"
  "clock_of (ppu_intensify_color_bits_update f38 p) = clock_of p"
  "clock_of (ppu_palette_ram_mask_update f39 p) = clock_of p"
  "clock_of (ppu_update_vram_addr_delay_update f40 p) = clock_of p"
  "clock_of (ppu_has_sprite_update f42 p) = clock_of p"
  "clock_of (ppu_sprite_tiles_update f43 p) = clock_of p"
  "clock_of (ppu_control_update f44 p) = clock_of p"
  "clock_of (ppu_mask_update f45 p) = clock_of p"
  "clock_of (ppu_status_flags_update f46 p) = clock_of p"
  "clock_of (ppu_update_vram_addr_update f47 p) = clock_of p"
  "clock_of (ppu_prevent_vbl_flag_update f48 p) = clock_of p"
  "clock_of (ppu_write_toggle_update f49 p) = clock_of p"
  "clock_of (ppu_need_video_ram_increment_update f50 p) = clock_of p"
  "clock_of (ppu_allow_full_ppu_access_update f51 p) = clock_of p"
  "clock_of (ppu_memory_read_buffer_update f52 p) = clock_of p"
  "clock_of (ppu_ignore_vram_read_update f53 p) = clock_of p"
  "clock_of (ppu_oam_decay_cycles_update f54 p) = clock_of p"
  "clock_of (ppu_corrupt_oam_row_update f55 p) = clock_of p"
  "clock_of (ppu_first_visible_sprite_addr_update f56 p) = clock_of p"
  "clock_of (ppu_last_visible_sprite_addr_update f57 p) = clock_of p"
  "clock_of (ppu_emulator_bg_enabled_update f58 p) = clock_of p"
  "clock_of (ppu_emulator_sprites_enabled_update f59 p) = clock_of p"
  by (simp_all add: clock_of_def time_of_def)

definition keeps :: "ppu \<Rightarrow> ppu \<Rightarrow> bool" where
  "keeps p q \<longleftrightarrow> ppu_ok q \<and> clock_of q = clock_of p"

lemma keeps_refl [simp]: "keeps p p \<longleftrightarrow> ppu_ok p"
  by (simp add: keeps_def)

lemma keeps_trans: "keeps p q \<Longrightarrow> keeps q r \<Longrightarrow> keeps p r"
  by (simp add: keeps_def)

lemma ppu_ok_if: "ppu_ok (if b then x else y) \<longleftrightarrow> (if b then ppu_ok x else ppu_ok y)"
  by simp

lemma clock_of_if: "clock_of (if b then x else y) = (if b then clock_of x else clock_of y)"
  by simp

lemmas keeps_simps = keeps_def Let_def ppu_ok_if clock_of_if ppu_ok_upd ppu_okD

section \<open>Operations on the PPU alone\<close>

lemma ppu_ok_mask: "ppu_ok p \<Longrightarrow> v \<le> 0x3F \<Longrightarrow> ppu_ok (p\<lparr>ppu_palette_ram_mask := v\<rparr>)"
  by (simp add: ppu_ok_defs)

lemma scrolling_keeps [simp]:
  "keeps p (inc_horizontal_scrolling q) \<longleftrightarrow> keeps p q" "keeps p (inc_vertical_scrolling q) \<longleftrightarrow> keeps p q"
  "keeps p (shift_tile_registers q) \<longleftrightarrow> keeps p q" "keeps p (update_minimum_draw_cycles q) \<longleftrightarrow> keeps p q"
  "keeps p (set_vblank b q) \<longleftrightarrow> keeps p q"
  "keeps p (process_tmp_addr_scroll_glitch a x y q) \<longleftrightarrow> keeps p q"
  by (simp_all add: keeps_simps inc_horizontal_scrolling_def inc_vertical_scrolling_def shift_tile_registers_def
      update_minimum_draw_cycles_def set_vblank_def process_tmp_addr_scroll_glitch_def)

lemma set_mask_register_parts [simp]:
  "keeps p q \<Longrightarrow> keeps p (update_color_bit_masks q)" "keeps p q \<Longrightarrow> keeps p (set_mask_register v q)"
  "keeps p q \<Longrightarrow> keeps p (send_frame q)"
  by (simp_all add: keeps_simps send_frame_def update_minimum_draw_cycles_def update_color_bit_masks_def set_mask_register_def ppu_ok_mask)

lemma word_inc_le: "w < 0x20 \<Longrightarrow> w + 1 \<le> (0x20 :: u8)"
  by (simp add: word_less_nat_alt word_le_nat_alt unat_word_ariths)

lemma evaluate_copy_ok:
  "ppu_ok p \<Longrightarrow> ppu_secondary_oam_addr p < 0x20 \<Longrightarrow> ok (evaluate_copy p) (keeps p)"
  by (simp add: evaluate_copy_def keeps_simps word_inc_le word_less_nat_alt [where b = "0x20"])

lemma secondary_index [simp]: "unat ((w :: u8) AND 0x1F) < 32"
  by (rule unat_and_less) simp

lemma evaluate_overflow_ok: "ppu_ok p \<Longrightarrow> ok (evaluate_overflow p) (keeps p)"
  by (simp add: evaluate_overflow_def keeps_simps)

lemma sprite_index_shift [simp]: "unat (drop_bit 3 (w :: u8)) < 64"
  using unsigned_less [of w, where 'a = nat] by (simp add: unat_shift_right)

lemma u8_unat_less [simp]: "unat (w :: u8) < 256"
  using unsigned_less [of w, where 'a = nat] by simp

lemma decay_loop_ok:
  "length ram = 0x100 \<Longrightarrow> ok (for_each (\<lambda>i ram. let sa = unat ((addr :: u8) AND 0xF8) + i in wr ram sa (decay_byte sa))
     [0..<8] ram) (\<lambda>ram. length ram = 0x100)"
proof (rule for_each_ok)
  have "unat (addr AND 0xF8) \<le> 0xF8" using unat_and_le [of addr "0xF8"] by simp
  then show "i \<in> set [0..<8] \<Longrightarrow> length s = 0x100 \<Longrightarrow>
      ok (let sa = unat (addr AND 0xF8) + i in wr s sa (decay_byte sa)) (\<lambda>ram. length ram = 0x100)" for i s
    by (simp add: Let_def)
qed

lemma read_sprite_ram_ok: "ppu_ok p \<Longrightarrow> ok (read_sprite_ram now addr p) (\<lambda>(v, q). keeps p q)"
  unfolding read_sprite_ram_def
  by (auto simp: keeps_simps intro!: ok_mono [OF decay_loop_ok [unfolded Let_def]])

lemma write_sprite_ram_ok: "ppu_ok p \<Longrightarrow> ok (write_sprite_ram now addr v p) (keeps p)"
  by (simp add: write_sprite_ram_def keeps_simps)

lemma evaluation_start_keeps: "ppu_ok p \<Longrightarrow> keeps p (process_sprite_evaluation_start p)"
  by (simp add: process_sprite_evaluation_start_def keeps_simps)

lemma evaluation_end_keeps: "ppu_ok p \<Longrightarrow> keeps p (process_sprite_evaluation_end p)"
  using ppu_okD(12) [of p]
  by (auto simp: process_sprite_evaluation_end_def keeps_simps word_le_nat_alt unat_of_nat)

lemma ok_keeps_trans: "keeps p q \<Longrightarrow> ok m (keeps q) \<Longrightarrow> ok m (keeps p)"
  by (erule ok_mono) (rule keeps_trans)

lemma evaluate_write_ok:
  assumes "ppu_ok p"
  shows "ok (evaluate_write p) (keeps p)"
proof (cases "ppu_oam_copy_done p")
  case True
  with assms show ?thesis by (simp add: evaluate_write_def Let_def keeps_def ppu_okD)
next
  case False
  let ?q = "if \<not> ppu_sprite_in_range p \<and> in_range p then p\<lparr>ppu_sprite_in_range := \<not> ppu_oam_copy_done p\<rparr> else p"
  have v: "ok (if ppu_secondary_oam_addr q < 0x20 then evaluate_copy q else evaluate_overflow q) (keeps p)"
    if "keeps p q" for q
    using that evaluate_copy_ok [of q] evaluate_overflow_ok [of q]
    by (auto intro!: ok_keeps_trans [OF that] simp: keeps_def)
  have "keeps p ?q" using assms by (simp add: keeps_def)
  from v [OF this] show ?thesis using False by (simp only: evaluate_write_def Let_def if_False)
qed

lemma keeps_regs [simp]:
  "keeps p (q\<lparr>ppu_sprite_ram_addr := x\<rparr>) = keeps p q"
  "keeps p (q\<lparr>ppu_oam_copy_buffer := y\<rparr>) = keeps p q"
  "keeps p (q\<lparr>ppu_status_flags := st\<rparr>) = keeps p q"
  "keeps p (q\<lparr>ppu_bus_address := a\<rparr>) = keeps p q"
  "keeps p (q\<lparr>ppu_video_ram_addr := a\<rparr>) = keeps p q"
  "keeps p (q\<lparr>ppu_need_state_update := b\<rparr>) = keeps p q"
  by (simp_all add: keeps_def)

lemma process_sprite_evaluation_ok:
  assumes "ppu_ok p" "0 < ppu_cycle p"
  shows "ok (process_sprite_evaluation now p) (keeps p)"
proof -
  have r: "ok (read_sprite_ram now a q) (\<lambda>(v, r). keeps p r)" if "keeps p q" for a q
    using that by (auto intro!: ok_mono [OF read_sprite_ram_ok] simp: keeps_def)
  have w: "ok (evaluate_write q) (keeps p)" if "keeps p q" for q
    using that by (auto intro!: ok_mono [OF evaluate_write_ok] simp: keeps_def)
  have s: "keeps p (if ppu_cycle p = 65 then process_sprite_evaluation_start p else p)"
    "keeps p (if ppu_cycle p = 256 then process_sprite_evaluation_end p else p)"
    using assms(1) evaluation_start_keeps evaluation_end_keeps by simp_all
  have even: "ok (Option.bind (evaluate_write q) (\<lambda>r. Some (r\<lparr>ppu_sprite_ram_addr := f r\<rparr>))) (keeps p)"
    if "keeps p q" for q f
    using w [OF that] by (auto simp: ok_iff)
  have odd: "ok (Option.bind (read_sprite_ram now a q) (\<lambda>(v, r). Some (r\<lparr>ppu_oam_copy_buffer := v\<rparr>))) (keeps p)"
    if "keeps p q" for a q
    using r [OF that, of a] by (auto simp: ok_iff)
  show ?thesis
    unfolding process_sprite_evaluation_def Let_def
  proof (intro ok_ifI)
    show "ok (Some p) (keeps p)" using assms(1) by simp
    show "ok (wr (ppu_secondary_sprite_ram p) ((ppu_cycle p - 1) div 2) 0xFF \<bind>
        (\<lambda>sec. Some (p\<lparr>ppu_oam_copy_buffer := 0xFF, ppu_secondary_sprite_ram := sec\<rparr>))) (keeps p)"
      if "ppu_cycle p < 65" using that assms by (simp add: keeps_def ppu_ok_upd ppu_okD)
  qed (rule odd [OF s(1)], rule even [OF s(2)])
qed

lemma oam_row_index: "n < 64 \<Longrightarrow> n div 8 * 4 + min 3 (n mod 8) < (32 :: nat)"
  using div_le_mono [of n 63 8] by simp

lemma oam_corruption_flags_ok: "ppu_ok p \<Longrightarrow> ok (set_oam_corruption_flags p) (keeps p)"
  unfolding set_oam_corruption_flags_def Let_def
  by (auto simp: keeps_def ppu_ok_upd ppu_okD intro!: oam_row_index)

lemma corrupt_row_ok:
  assumes "i < 32" "length ram = 0x100" "length rows = 32"
  shows "ok (corrupt_row i (ram, rows)) (\<lambda>(ram, rows). length ram = 0x100 \<and> length rows = 32)"
  using assms by (simp add: corrupt_row_def)

lemma process_oam_corruption_ok: "ppu_ok p \<Longrightarrow> ok (process_oam_corruption p) (keeps p)"
proof -
  assume p: "ppu_ok p"
  have "ok (for_each corrupt_row [0..<32] (ppu_sprite_ram p, ppu_corrupt_oam_row p))
      (\<lambda>(ram, rows). length ram = 0x100 \<and> length rows = 32)"
    by (rule for_each_ok) (auto simp: ppu_okD [OF p] intro: corrupt_row_ok)
  then show ?thesis using p
    by (auto simp: process_oam_corruption_def keeps_def ppu_ok_upd ok_iff)
qed

text \<open>The open bus.\<close>

lemma open_bus_loop_ok:
  "length stamps = 8 \<Longrightarrow> ok (for_each (set_open_bus_bit frame) [0..<8] (ob, v, msk, stamps))
     (\<lambda>(_, _, _, stamps). length stamps = 8)"
  by (rule for_each_ok) (auto simp: set_open_bus_bit_def Let_def)

lemma set_open_bus_ok: "ppu_ok p \<Longrightarrow> ok (set_open_bus msk v p) (keeps p)"
  unfolding set_open_bus_def
  by (auto simp: keeps_def ppu_ok_upd ppu_okD intro!: ok_mono [OF open_bus_loop_ok])

lemma apply_open_bus_ok: "ppu_ok p \<Longrightarrow> ok (apply_open_bus msk v p) (\<lambda>(v, q). keeps p q)"
  unfolding apply_open_bus_def
  by (auto intro!: ok_mono [OF set_open_bus_ok])

section \<open>The pixel multiplexer\<close>

lemma single_bit:
  "(x :: u16) AND 0x8000 = (if bit x 15 then 0x8000 else 0)"
  "(y :: u8) AND 0x80 = (if bit y 7 then 0x80 else 0)"
  "y AND 1 = (if bit y 0 then 1 else 0)"
proof -
  have e: "(0x8000 :: u16) = push_bit 15 1" "(0x80 :: u8) = push_bit 7 1" by simp_all
  have b: "bit (0x8000 :: u16) n \<longleftrightarrow> n = 15" "bit (0x80 :: u8) n \<longleftrightarrow> n = 7" for n
    unfolding e bit_push_bit_iff bit_1_iff by auto
  show "x AND 0x8000 = (if bit x 15 then 0x8000 else 0)"
    by (rule bit_word_eqI, cases "bit x 15", simp_all only: bit_and_iff b(1) if_True if_False bit_0_eq bot_apply) auto
  show "y AND 0x80 = (if bit y 7 then 0x80 else 0)"
    by (rule bit_word_eqI, cases "bit y 7", simp_all only: bit_and_iff b(2) if_True if_False bit_0_eq bot_apply) auto
  show "y AND 1 = (if bit y 0 then 1 else 0)"
    by (rule bit_word_eqI) (auto simp: bit_and_iff bit_1_iff intro: gr0I)
qed

lemma sprite_color_less: "sprite_color s n < 4"
  by (simp add: sprite_color_def single_bit)

lemma background_color_less: "background_color p < 4"
  by (simp add: background_color_def single_bit)

lemma palette_sum: "x \<le> 0x1C \<Longrightarrow> y < 4 \<Longrightarrow> unat (x + y :: u8) < 0x20"
  by (simp add: word_less_nat_alt word_le_nat_alt unat_word_ariths)

lemma sprite_pixel_ok:
  assumes "ppu_ok p" "\<forall>i \<in> set is. i < 64"
  shows "ok (sprite_pixel is bg sbg p) (\<lambda>(c, q). keeps p q \<and> (\<forall>v. c = Some v \<longrightarrow> unat v < 0x20))"
  using assms(2)
proof (induction "is")
  case Nil
  then show ?case using assms(1) by simp
next
  case (Cons i "is")
  have "sp_palette_offset (ppu_sprite_tiles p ! i) \<le> 0x1C"
    using Cons.prems by (intro ppu_okD(17) [OF assms(1)]) (simp add: ppu_okD [OF assms(1)])
  then show ?case
    using Cons assms(1) palette_sum [OF _ sprite_color_less]
    by (auto simp: Let_def ppu_okD keeps_def)
qed

lemma get_pixel_color_ok:
  assumes "ppu_ok p" "ppu_cycle p \<le> 256"
  shows "ok (get_pixel_color p) (\<lambda>(c, q). keeps p q \<and> unat c < 0x20)"
proof -
  have "unat (ppu_sprite_count p) \<le> 8" using ppu_okD(11) [OF assms(1)] by (simp add: word_le_nat_alt)
  then have i: "\<forall>i \<in> set [0..<unat (ppu_sprite_count p)]. i < 64" by simp
  have sp: "ok (if b then sprite_pixel [0..<unat (ppu_sprite_count p)] bg sbg p else Some (None, p))
      (\<lambda>(c, q). keeps p q \<and> (\<forall>v. c = Some v \<longrightarrow> unat v < 0x20))" for b bg sbg
    using sprite_pixel_ok [OF assms(1) i] assms(1) by simp
  have bg: "(if e then background_color p else 0) < 4" for e using background_color_less by simp
  have le: "x \<le> 0x0C \<Longrightarrow> x \<le> (0x1C :: u8)" for x by (erule order_trans) simp
  have none: "unat ((if b then ppu_previous_tile_palette q else ppu_current_tile_palette q) +
      (if e then background_color p else 0)) < 0x20" if "ppu_ok q" for q b e
    by (rule palette_sum [OF _ bg]) (simp add: le ppu_okD [OF that])
  show ?thesis
    unfolding get_pixel_color_def Let_def ok_bind ok_rd
  proof (intro conjI ok_mono [OF sp])
    show "ppu_cycle p < length (ppu_has_sprite p)" using assms by (simp add: ppu_okD)
    fix r :: "u8 option \<times> ppu"
    assume r: "case r of (c, q) \<Rightarrow> keeps p q \<and> (\<forall>v. c = Some v \<longrightarrow> unat v < 0x20)"
    obtain c q where r': "r = (c, q)" by (cases r)
    show "ok (case r of (c, q) \<Rightarrow> Some (case c of None \<Rightarrow> (if unat (ppu_x_scroll q) + (ppu_cycle q - 1) mod 8 < 8
          then ppu_previous_tile_palette q else ppu_current_tile_palette q) +
            (if ppu_emulator_bg_enabled p then background_color p else 0) | Some v \<Rightarrow> v, q))
        (\<lambda>(c, q). keeps p q \<and> unat c < 0x20)"
      using r none [of q] unfolding r'
      by (cases c) (simp_all add: keeps_def split del: if_split)
  qed
qed

lemma put_pixel_ok:
  assumes "ppu_ok p" "0 < ppu_cycle p" "ppu_cycle p \<le> 256" "0 \<le> ppu_scanline p" "ppu_scanline p < 240"
  shows "ok (put_pixel v p) (keeps p)"
  using assms by (simp add: put_pixel_def Let_def keeps_def ppu_okD)

lemma clock_ofD:
  assumes "clock_of q = clock_of p"
  shows "ppu_cycle q = ppu_cycle p" "ppu_scanline q = ppu_scanline p" "ppu_master_clock q = ppu_master_clock p"
    "ppu_master_clock_divider q = ppu_master_clock_divider p" "ppu_frame_count q = ppu_frame_count p"
    "ppu_no_odd_frame_skip q = ppu_no_odd_frame_skip p" "ppu_sprite_index q = ppu_sprite_index p"
  using assms by (simp_all add: clock_of_def time_of_def)

lemma draw_pixel_ok:
  assumes p: "ppu_ok p" "0 < ppu_cycle p" "ppu_cycle p \<le> 256" "0 \<le> ppu_scanline p" "ppu_scanline p < 240"
  shows "ok (draw_pixel p) (keeps p)"
proof -
  have put: "ok (put_pixel v q) (keeps p)" if "keeps p q" for v q
    using that p
    by (intro ok_keeps_trans [OF that] put_pixel_ok) (auto simp: keeps_def dest: clock_ofD)
  have i: "unat ((a :: u16) AND 0x1F) < 32" for a by (rule unat_and_less) simp
  show ?thesis
    unfolding draw_pixel_def
    by (intro ok_ifI)
      (auto simp: i ppu_okD p keeps_def [of p p] intro!: put ok_mono [OF get_pixel_color_ok [OF p(1,3)]]
        dest: ppu_okD(2) simp: keeps_def)
qed

section \<open>The bus\<close>

definition bus_ok :: "ppu_bus \<Rightarrow> bool" where
  "bus_ok s \<longleftrightarrow> ppu_ok (fst s) \<and> loaded (fst (snd s))"

definition bus_keeps :: "ppu_bus \<Rightarrow> ppu_bus \<Rightarrow> bool" where
  "bus_keeps s t \<longleftrightarrow> keeps (fst s) (fst t) \<and> loaded (fst (snd t)) \<and>
     cpu_quiet (snd (snd t)) = cpu_quiet (snd (snd s))"

lemma bus_keeps_refl [simp]: "bus_keeps s s \<longleftrightarrow> bus_ok s"
  by (simp add: bus_keeps_def bus_ok_def)

lemma bus_keeps_ok: "bus_keeps s t \<Longrightarrow> bus_ok t"
  by (simp add: bus_keeps_def bus_ok_def keeps_def)

lemma bus_keeps_trans: "bus_keeps s t \<Longrightarrow> bus_keeps t u \<Longrightarrow> bus_keeps s u"
  by (auto simp: bus_keeps_def intro: keeps_trans)

lemma ok_bus_trans: "bus_keeps s t \<Longrightarrow> ok m (bus_keeps t) \<Longrightarrow> ok m (bus_keeps s)"
  by (erule ok_mono) (rule bus_keeps_trans)

lemma on_cpu_keeps [simp]:
  "(\<And>c. cpu_quiet (f c) = cpu_quiet c) \<Longrightarrow> bus_keeps s (on_cpu f t) \<longleftrightarrow> bus_keeps s t"
  by (auto simp: on_cpu_def bus_keeps_def split: prod.split)

lemma fst_on_cpu [simp]: "fst (on_cpu f s) = fst s"
  by (simp add: on_cpu_def split: prod.split)

lemma fst_on_ppu [simp]: "fst (on_ppu f s) = f (fst s)" "snd (on_ppu f s) = snd s"
  by (simp_all add: on_ppu_def)

lemma on_ppu_keeps: "bus_keeps s t \<Longrightarrow> (keeps (fst s) (fst t) \<Longrightarrow> keeps (fst s) (f (fst t))) \<Longrightarrow> bus_keeps s (on_ppu f t)"
  by (simp add: bus_keeps_def)

lemma on_ppu_opt_keeps:
  "bus_keeps s t \<Longrightarrow> (ppu_ok (fst t) \<Longrightarrow> ok (f (fst t)) (keeps (fst t))) \<Longrightarrow> ok (on_ppu_opt f t) (bus_keeps s)"
  by (auto simp: on_ppu_opt_def bus_keeps_def keeps_def elim!: ok_mono)

lemma notify_keeps [simp]:
  "cpu_quiet (snd (notify_vram_address_change addr (m, cpu))) = cpu_quiet cpu"
  "loaded m \<Longrightarrow> loaded (fst (notify_vram_address_change addr (m, cpu)))"
proof -
  show "cpu_quiet (snd (notify_vram_address_change addr (m, cpu))) = cpu_quiet cpu"
    by (auto simp: notify_vram_address_change_def mmc3_notify_vram_address_change_def
        split: mapper_chip.splits prod.splits if_splits)
  show "loaded m \<Longrightarrow> loaded (fst (notify_vram_address_change addr (m, cpu)))"
    by (rule notify_loaded [where cpu' = "snd (notify_vram_address_change addr (m, cpu))"]) simp_all
qed

lemma set_bus_address_keeps: "bus_keeps s t \<Longrightarrow> bus_keeps s (set_bus_address a t)"
  unfolding set_bus_address_def Let_def
  by (auto simp: bus_keeps_def split: prod.split if_splits)

lemma read_vram_loaded: "loaded m \<Longrightarrow> ok (read_vram a m) (\<lambda>_. True)"
  using loaded_wf [of m]
  by (auto simp: read_vram_def Let_def ok_iff mapper_wf_def can_access intro!: load_ptr_ok)

lemma read_vram_keeps: "bus_keeps s t \<Longrightarrow> ok (ppu_read_vram a t) (\<lambda>(v, u). bus_keeps s u)"
  using set_bus_address_keeps [of s t a]
  by (auto simp: ppu_read_vram_def read_vram_custom_def bus_keeps_def split: prod.split
      intro!: ok_mono [OF read_vram_loaded])

lemma write_vram_keeps: "bus_keeps s t \<Longrightarrow> ok (ppu_write_vram a v t) (bus_keeps s)"
  using set_bus_address_keeps [of s t a]
  by (auto simp: ppu_write_vram_def bus_keeps_def split: prod.split intro!: ok_mono [OF write_vram_loaded])

lemma update_video_ram_addr_keeps: "bus_keeps s t \<Longrightarrow> bus_keeps s (update_video_ram_addr t)"
  unfolding update_video_ram_addr_def Let_def
  by (auto intro!: set_bus_address_keeps on_ppu_keeps)

section \<open>Fetches\<close>

lemma set_tile_keeps:
  "bus_keeps s t \<Longrightarrow> (\<And>i. ti_palette_offset i \<le> 0x0C \<Longrightarrow> ti_palette_offset (f i) \<le> 0x0C) \<Longrightarrow> bus_keeps s (set_tile f t)"
  unfolding set_tile_def
  by (rule on_ppu_keeps) (auto simp: keeps_def ppu_ok_upd ppu_okD)

lemma ok_fetch:
  assumes "bus_keeps s t" "\<And>v u. bus_keeps s u \<Longrightarrow> ok (f v u) Q"
  shows "ok (Option.bind (ppu_read_vram a t) (\<lambda>(v, u). f v u)) Q"
  using read_vram_keeps [OF assms(1), of a] assms(2) by (auto simp: ok_iff)

lemma load_tile_info_keeps:
  assumes "bus_ok s"
  shows "ok (load_tile_info s) (bus_keeps s)"
proof -
  have s: "bus_keeps s s" using assms by simp
  show ?thesis
    unfolding load_tile_info_def Let_def
    by (intro ok_ifI ok_fetch)
      (auto intro!: set_tile_keeps on_ppu_keeps s simp: keeps_def ppu_ok_upd ppu_okD assms word_and_le1)
qed

lemma mark_sprite_ok: "length has = 257 \<Longrightarrow> ok (mark_sprite x has) (\<lambda>has. length has = 257)"
  unfolding mark_sprite_def
  by (rule for_each_ok) (auto dest: set_takeWhileD)

lemma sprite_palette_le [simp]: "push_bit 2 v AND 12 OR 16 \<le> (28 :: u8)"
proof -
  have "(push_bit 2 v AND 12 OR 16) AND 28 = push_bit 2 v AND 12 OR (16 :: u8)"
    by (simp add: word_ao_dist and.assoc)
  then show ?thesis using word_and_le1 [of "push_bit 2 v AND 12 OR 16" "28"] by simp
qed

text \<open>What \<^verbatim>\<open>load_sprite\<close> does but for its last step, the increment of the sprite counter.\<close>

lemma fetch_dummy_keeps: "bus_keeps s t \<Longrightarrow> ok (fetch_dummy t) (bus_keeps s)"
  unfolding fetch_dummy_def Let_def by (intro ok_fetch) auto

lemma keeps_sprites:
  assumes "keeps p q" "length has = 257" "sp_palette_offset t \<le> 0x1C" "i < 64"
  shows "keeps p (q\<lparr>ppu_sprite_tiles := (ppu_sprite_tiles q)[i := t], ppu_has_sprite := has\<rparr>)"
proof -
  have "ppu_ok q" using assms(1) by (simp add: keeps_def)
  then have "ppu_ok (q\<lparr>ppu_sprite_tiles := (ppu_sprite_tiles q)[i := t]\<rparr>)"
    using assms(3) set_update_subset_insert [of "ppu_sprite_tiles q" i t]
    by (auto simp: ppu_ok_defs)
  with assms show ?thesis by (simp add: keeps_def ppu_ok_upd)
qed

lemma fetch_sprite_keeps:
  assumes s: "bus_keeps s t" and i: "i < 64"
  shows "ok (fetch_sprite i a att x t) (bus_keeps s)"
proof -
  have rdi: "rd (ppu_sprite_tiles (fst u)) i = Some (ppu_sprite_tiles (fst u) ! i)" if "bus_keeps s u" for u
    using bus_keeps_ok [OF that] i by (simp add: bus_ok_def ppu_okD)
  have wri: "wr (ppu_sprite_tiles (fst u)) i v = Some ((ppu_sprite_tiles (fst u))[i := v])" if "bus_keeps s u" for u v
    using bus_keeps_ok [OF that] i by (simp add: bus_ok_def ppu_okD)
  have has: "ok (if b then mark_sprite x (ppu_has_sprite (fst u)) else Some (ppu_has_sprite (fst u)))
      (\<lambda>has. length has = 257)" if "bus_keeps s u" for u b
    using bus_keeps_ok [OF that] by (simp add: bus_ok_def ppu_okD mark_sprite_ok)
  have fin: "ok (do { tiles \<leftarrow> wr (ppu_sprite_tiles (fst u)) i v;
      has \<leftarrow> (if ppu_scanline (fst u) \<ge> 0 then mark_sprite x (ppu_has_sprite (fst u)) else Some (ppu_has_sprite (fst u)));
      Some (on_ppu (\<lambda>p. p\<lparr>ppu_sprite_tiles := tiles, ppu_has_sprite := has\<rparr>) u) }) (bus_keeps s)"
    if "bus_keeps s u" "sp_palette_offset v \<le> 0x1C" for u v
    unfolding wri [OF that(1)] bind.bind_lunit ok_bind
    by (rule ok_mono [OF has [OF that(1)]])
      (auto intro!: on_ppu_keeps that keeps_sprites i)
  show ?thesis
    unfolding fetch_sprite_def rdi [OF s] Let_def bind.bind_lunit
    by (intro ok_fetch [where s = s] s fin) simp_all
qed

lemma load_sprite_ok:
  assumes s: "bus_ok s" and i: "ppu_sprite_index (fst s) < 8"
  shows "ok (load_sprite y ti att x ex s) (\<lambda>t. \<exists>u. bus_keeps s u \<and>
     t = on_ppu (\<lambda>p. p\<lparr>ppu_sprite_index := ppu_sprite_index p + 1\<rparr>) u)"
proof -
  have s': "bus_keeps s s" and i': "ppu_sprite_index (fst s) < 64" using s i by simp_all
  have a: "ok (if v then fetch_sprite (ppu_sprite_index (fst s)) a att x s else Some s) (bus_keeps s)" for v a
    using fetch_sprite_keeps [OF s' i'] s' by simp
  have b: "ok (if v then Some t else fetch_dummy t) (bus_keeps s)" if "bus_keeps s t" for v t
    using that fetch_dummy_keeps by simp
  show ?thesis
    unfolding load_sprite_def Let_def ok_bind
    by (rule ok_mono [OF a], rule ok_mono [OF b]) auto
qed

lemma load_sprite_tile_info_ok:
  assumes s: "bus_ok s" and i: "ppu_sprite_index (fst s) < 8"
  shows "ok (load_sprite_tile_info s) (\<lambda>t. \<exists>u. bus_keeps s u \<and>
     t = on_ppu (\<lambda>p. p\<lparr>ppu_sprite_index := ppu_sprite_index p + 1\<rparr>) u)"
  using assms load_sprite_ok [OF assms]
  by (simp add: load_sprite_tile_info_def Let_def bus_ok_def ppu_okD)

section \<open>The dots of a scanline\<close>

lemma bus_keepsD:
  assumes "bus_keeps s t"
  shows "ppu_ok (fst t)" "keeps (fst s) (fst t)" "clock_of (fst t) = clock_of (fst s)"
    "ppu_cycle (fst t) = ppu_cycle (fst s)" "ppu_scanline (fst t) = ppu_scanline (fst s)"
    "ppu_sprite_index (fst t) = ppu_sprite_index (fst s)" "ppu_frame_count (fst t) = ppu_frame_count (fst s)"
    "ppu_no_odd_frame_skip (fst t) = ppu_no_odd_frame_skip (fst s)"
    "cpu_quiet (snd (snd t)) = cpu_quiet (snd (snd s))" "loaded (fst (snd t))"
  using assms by (auto simp: bus_keeps_def keeps_def dest: clock_ofD)

text \<open>The pixel and the evaluation of a dot on a visible line.\<close>

lemma visible_line_ok:
  assumes "ppu_ok p" "0 < ppu_cycle p" "ppu_cycle p \<le> 256" "0 \<le> ppu_scanline p" "ppu_scanline p < 240"
  shows "ok (do { p \<leftarrow> draw_pixel p; process_sprite_evaluation now (shift_tile_registers p) }) (keeps p)"
proof -
  have "ok (process_sprite_evaluation now (shift_tile_registers q)) (keeps p)" if "keeps p q" for q
  proof (rule ok_keeps_trans)
    show k: "keeps p (shift_tile_registers q)" using that by simp
    then show "ok (process_sprite_evaluation now (shift_tile_registers q)) (keeps (shift_tile_registers q))"
      using assms(2) by (intro process_sprite_evaluation_ok) (auto simp: keeps_def dest: clock_ofD)
  qed
  then show ?thesis using draw_pixel_ok [OF assms] by (auto elim: ok_mono)
qed

text \<open>The copy of eight bytes of the OAM at the start of the pre-render line.\<close>

lemma oam_copy_ok:
  assumes "ppu_ok p"
  shows "ok (do { (v, p) \<leftarrow> read_sprite_ram now (f p) p; write_sprite_ram now (g p) v p }) (keeps p)"
proof -
  have "ok (write_sprite_ram now (g q) v q) (keeps p)" if "keeps p q" for q v
    using that by (intro ok_keeps_trans [OF that] write_sprite_ram_ok) (simp add: keeps_def)
  then show ?thesis using read_sprite_ram_ok [OF assms, of now "f p"] by (auto elim: ok_mono)
qed

lemma dot_output_ok:
  assumes s: "bus_keeps s t" and c: "0 < ppu_cycle (fst s)" "ppu_cycle (fst s) \<le> 256" "ppu_scanline (fst s) < 240"
  shows "ok (dot_output t) (bus_keeps s)"
proof -
  have draw: "ok (on_ppu_opt (\<lambda>p. do { p \<leftarrow> draw_pixel p;
      process_sprite_evaluation now (shift_tile_registers p) }) t) (bus_keeps s)"
    if t: "ppu_scanline (fst t) \<ge> 0" for now
    using c t by (intro on_ppu_opt_keeps [OF s] visible_line_ok) (simp_all add: bus_keepsD [OF s])
  have copy: "ok (on_ppu_opt (\<lambda>p. do { (v, p) \<leftarrow> read_sprite_ram now (f p) p; write_sprite_ram now (g p) v p }) u)
      (bus_keeps s)" if u: "bus_keeps s u" for u now f g
    by (intro on_ppu_opt_keeps [OF u] oam_copy_ok)
  have vbl: "bus_keeps s (if b then on_cpu clear_nmi_flag (on_ppu (set_vblank False) t) else t)" for b
    using s by (auto intro!: on_ppu_keeps)
  show ?thesis
    unfolding dot_output_def Let_def
    by (intro ok_ifI draw copy vbl) (simp_all only: ok_Some vbl s)
qed

lemma visible_dot_ok:
  assumes "bus_ok s" "0 < ppu_cycle (fst s)" "ppu_cycle (fst s) \<le> 256" "ppu_scanline (fst s) < 240"
  shows "ok (visible_dot s) (bus_keeps s)"
proof -
  have "bus_keeps s (on_ppu dot_scrolling t)" if "bus_keeps s t" for t
    using that by (intro on_ppu_keeps) (simp_all add: dot_scrolling_def Let_def)
  then show ?thesis
    unfolding visible_dot_def ok_bind
    by (intro ok_mono [OF load_tile_info_keeps [OF assms(1)]] dot_output_ok assms)
qed

lemma prefetch_dot_ok:
  assumes s: "bus_ok s"
  shows "ok (prefetch_dot s) (bus_keeps s)"
proof -
  have copy: "ok (on_ppu_opt (\<lambda>p. do { b \<leftarrow> rd (ppu_secondary_sprite_ram p) 0;
      Some (p\<lparr>ppu_oam_copy_buffer := b\<rparr>) }) t) (bus_keeps s)" if t: "bus_keeps s t" for t
    by (intro on_ppu_opt_keeps [OF t]) (simp add: ppu_okD)
  have shift: "bus_keeps s (on_ppu (\<lambda>p. inc_horizontal_scrolling
      (p\<lparr>ppu_low_bit_shift := f p, ppu_high_bit_shift := g p\<rparr>)) t)" if t: "bus_keeps s t" for t f g
    by (rule on_ppu_keeps [OF t], unfold scrolling_keeps) (simp add: keeps_def)
  show ?thesis
    unfolding prefetch_dot_def ok_bind
    by (rule ok_mono [OF load_tile_info_keeps [OF s]], unfold Let_def)
      (intro ok_ifI copy, simp_all only: ok_Some shift)
qed

text \<open>The last fetch: what is left of the time when an odd frame drops a cycle.\<close>

definition odd_skip :: "ppu \<Rightarrow> bool" where
  "odd_skip p \<longleftrightarrow> ppu_rendering_enabled p \<and> ppu_scanline p = - 1 \<and> ppu_cycle p = 339 \<and>
     ppu_frame_count p AND 0x01 \<noteq> 0 \<and> \<not> ppu_no_odd_frame_skip p"

text \<open>A result that keeps the bus usable, and where the clock stands.\<close>

definition bus_at :: "ppu_bus \<Rightarrow> nat \<times> u8 \<times> nat \<times> int \<times> u32 \<times> bool \<Rightarrow> ppu_bus \<Rightarrow> bool" where
  "bus_at s tm t \<longleftrightarrow> bus_ok t \<and> cpu_quiet (snd (snd t)) = cpu_quiet (snd (snd s)) \<and> time_of (fst t) = tm"

lemma keeps_at: "bus_keeps s t \<Longrightarrow> bus_at s (time_of (fst s)) t"
  by (simp add: bus_at_def bus_keeps_def bus_ok_def keeps_def clock_of_def)

lemma ppu_ok_cycle: "ppu_ok p \<Longrightarrow> n \<le> 340 \<Longrightarrow> n < 257 \<or> 320 < n \<Longrightarrow> ppu_ok (p\<lparr>ppu_cycle := n\<rparr>)"
  by (auto simp: ppu_ok_defs dot_ok_def)

lemma time_of_cycle: "time_of q = time_of p \<Longrightarrow> time_of (q\<lparr>ppu_cycle := n\<rparr>) = time_of (p\<lparr>ppu_cycle := n\<rparr>)"
  by (simp add: time_of_def)

lemma last_fetch_dot_ok:
  assumes s: "bus_ok s"
  shows "ok (last_fetch_dot s) (bus_at s (if odd_skip (fst s)
     then time_of (fst s\<lparr>ppu_cycle := 340\<rparr>) else time_of (fst s)))"
proof (cases "ppu_rendering_enabled (fst s)")
  case False
  with s show ?thesis by (simp add: last_fetch_dot_def odd_skip_def bus_at_def)
next
  case True
  let ?skip = "\<lambda>u. ppu_scanline (fst u) = - 1 \<and> ppu_cycle (fst u) = 339 \<and> ppu_frame_count (fst u) AND 0x01 \<noteq> 0 \<and>
      \<not> ppu_no_odd_frame_skip (fst u)"
  have fin: "bus_at s (if odd_skip (fst s) then time_of (fst s\<lparr>ppu_cycle := 340\<rparr>) else time_of (fst s))
      (if ?skip u then on_ppu (\<lambda>p. p\<lparr>ppu_cycle := 340\<rparr>) u else u)" if u: "bus_keeps s u" for u
  proof -
    have "?skip u \<longleftrightarrow> odd_skip (fst s)" using True by (simp add: odd_skip_def bus_keepsD [OF u])
    then show ?thesis
      using u keeps_at [OF u]
      by (auto simp: bus_at_def bus_ok_def ppu_ok_cycle intro!: time_of_cycle)
  qed
  have tile: "bus_keeps s (set_tile (\<lambda>t. t\<lparr>ti_tile_addr := a\<rparr>) u)" if "bus_keeps s u" for u a
    using that by (rule set_tile_keeps) simp
  show ?thesis
    unfolding last_fetch_dot_def if_P [OF True] Let_def
    by (intro ok_fetch [of s s]) (use s in simp, simp only: ok_Some fin tile)
qed

text \<open>
  The sprite fetches. The counter counts the groups of eight cycles, and the invariant
  holds again after each of them.
\<close>

lemma bus_at_ppu:
  "bus_at s tm t \<Longrightarrow> keeps (fst t) (f (fst t)) \<Longrightarrow> bus_at s tm (on_ppu f t)"
  by (auto simp: bus_at_def bus_ok_def keeps_def clock_of_def)

lemma start_sprite_fetch_time [simp]:
  "time_of (start_sprite_fetch p) = time_of p" "time_of (p\<lparr>ppu_sprite_ram_addr := a\<rparr>) = time_of p"
  by (simp_all add: start_sprite_fetch_def time_of_def Let_def)

lemma time_ofD:
  assumes "time_of q = time_of p"
  shows "ppu_cycle q = ppu_cycle p" "ppu_scanline q = ppu_scanline p" "ppu_master_clock q = ppu_master_clock p"
    "ppu_master_clock_divider q = ppu_master_clock_divider p" "ppu_frame_count q = ppu_frame_count p"
  using assms by (simp_all add: time_of_def)

lemma next_sprite:
  assumes "257 \<le> c" "c \<le> (320 :: nat)" "(c - 257) mod 8 = 4" "i \<le> (c - 254) div 8"
  shows "i < 8" "i + 1 \<le> (c - 253) div 8"
proof -
  let ?k = "(c - 257) div 8"
  have "c - 257 = 8 * ?k + 4" using div_mult_mod_eq [of "c - 257" 8] assms(3) by simp
  then have "c - 254 = 7 + 8 * ?k" "c - 253 = 8 * (?k + 1)" using assms(1) by simp_all
  then have e: "(c - 254) div 8 = ?k" "(c - 253) div 8 = ?k + 1"
    by (simp_all only: div_mult_self2 nonzero_mult_div_cancel_left) simp
  have "?k \<le> 7" using assms(2) div_le_mono [of "c - 257" 63 8] by simp
  then show "i < 8" "i + 1 \<le> (c - 253) div 8" using assms(4) unfolding e by simp_all
qed

lemma sprite_counter_ok:
  assumes "ppu_ok p" "257 \<le> ppu_cycle p" "ppu_cycle p \<le> 320" "(ppu_cycle p - 257) mod 8 = 4"
    "ppu_sprite_index p \<le> (ppu_cycle p - 254) div 8"
  shows "ppu_ok (p\<lparr>ppu_sprite_index := ppu_sprite_index p + 1\<rparr>)"
  using assms next_sprite [OF assms(2-5)] by (simp add: ppu_ok_defs dot_ok_def)

lemma sprite_step_ok:
  assumes s: "bus_ok s" and c: "257 \<le> ppu_cycle (fst s)" "ppu_cycle (fst s) \<le> 320"
    and i: "ppu_sprite_index (fst s) \<le> (ppu_cycle (fst s) - 254) div 8"
    and m: "(ppu_cycle (fst s) - 257) mod 8 = 4"
  shows "ok (load_sprite_tile_info s) (bus_at s (time_of (fst s)))"
proof (rule ok_mono [OF load_sprite_tile_info_ok [OF s]])
  show "ppu_sprite_index (fst s) < 8" using next_sprite(1) [OF c m i] .
  fix t assume "\<exists>u. bus_keeps s u \<and> t = on_ppu (\<lambda>p. p\<lparr>ppu_sprite_index := ppu_sprite_index p + 1\<rparr>) u"
  then obtain u where u: "bus_keeps s u" "t = on_ppu (\<lambda>p. p\<lparr>ppu_sprite_index := ppu_sprite_index p + 1\<rparr>) u"
    by blast
  have "ppu_ok ((fst u)\<lparr>ppu_sprite_index := ppu_sprite_index (fst u) + 1\<rparr>)"
    using c i m by (intro sprite_counter_ok) (simp_all add: bus_keepsD [OF u(1)])
  then show "bus_at s (time_of (fst s)) t"
    using keeps_at [OF u(1)] by (simp add: u(2) bus_at_def bus_ok_def time_of_def)
qed

lemma sprite_dot_ok:
  assumes s: "bus_ok (on_ppu start_sprite_fetch s)"
    and c: "257 \<le> ppu_cycle (fst s)" "ppu_cycle (fst s) \<le> 320"
    and i: "ppu_sprite_index (start_sprite_fetch (fst s)) \<le> (ppu_cycle (fst s) - 254) div 8"
  shows "ok (sprite_dot s) (bus_at s (time_of (fst s)))"
proof -
  let ?s = "on_ppu start_sprite_fetch s"
  let ?z = "on_ppu (\<lambda>p. p\<lparr>ppu_sprite_ram_addr := 0\<rparr>) ?s"
  have at: "bus_at ?s (time_of (fst ?s)) t \<Longrightarrow> bus_at s (time_of (fst s)) t" for t
    by (simp add: bus_at_def)
  have z: "bus_keeps ?s ?z" using s by (intro on_ppu_keeps [of ?s ?s]) simp_all
  have read: "ok (map_option snd (ppu_read_vram a ?z)) (bus_at s (time_of (fst s)))" for a
    using read_vram_keeps [OF z, of a] by (auto simp: ok_iff intro!: at [OF keeps_at])
  have cz: "ppu_cycle (fst ?z) = ppu_cycle (fst s)" "ppu_sprite_index (fst ?z) = ppu_sprite_index (start_sprite_fetch (fst s))"
    using time_ofD(1) [OF start_sprite_fetch_time(1) [of "fst s"]] by simp_all
  have sp: "ok (load_sprite_tile_info ?z) (bus_at s (time_of (fst s)))" if "(ppu_cycle (fst ?z) - 257) mod 8 = 4"
    using c i that unfolding cz [symmetric]
    by (auto intro!: ok_mono [OF sprite_step_ok [OF bus_keeps_ok [OF z]]] at
        simp: bus_at_def bus_keepsD [OF z] keeps_at [OF z, unfolded bus_at_def])
  show ?thesis
    unfolding sprite_dot_def Let_def
  proof (rule ok_ifI)
    show "ok (Some ?s) (bus_at s (time_of (fst s)))" using s by (auto intro!: at simp: bus_at_def)
    have v: "bus_at s (time_of (fst s)) (if b then on_ppu (\<lambda>p. p\<lparr>ppu_video_ram_addr := f p\<rparr>) t else t)"
      if "bus_at s (time_of (fst s)) t" for b f t
      using that by (simp add: bus_at_def bus_ok_def time_of_def)
    have "ok (if (ppu_cycle (fst ?z) - 257) mod 8 = 0 then map_option snd (ppu_read_vram (get_nametable_addr (fst ?z)) ?z)
        else if (ppu_cycle (fst ?z) - 257) mod 8 = 2 then map_option snd (ppu_read_vram (get_attribute_addr (fst ?z)) ?z)
        else if (ppu_cycle (fst ?z) - 257) mod 8 = 4 then load_sprite_tile_info ?z else Some ?z)
      (bus_at s (time_of (fst s)))"
      by (intro ok_ifI read sp) (simp_all add: at keeps_at [OF z] del: fst_on_ppu)
    then show "ok (do {
        t \<leftarrow> if (ppu_cycle (fst ?z) - 257) mod 8 = 0 then map_option snd (ppu_read_vram (get_nametable_addr (fst ?z)) ?z)
          else if (ppu_cycle (fst ?z) - 257) mod 8 = 2 then map_option snd (ppu_read_vram (get_attribute_addr (fst ?z)) ?z)
          else if (ppu_cycle (fst ?z) - 257) mod 8 = 4 then load_sprite_tile_info ?z else Some ?z;
        Some (if ppu_scanline (fst t) = - 1 \<and> 280 \<le> ppu_cycle (fst t) \<and> ppu_cycle (fst t) \<le> 304
          then on_ppu (\<lambda>p. p\<lparr>ppu_video_ram_addr := (ppu_video_ram_addr p AND NOT 0x7BE0) OR
            (ppu_tmp_video_ram_addr p AND 0x7BE0)\<rparr>) t else t) }) (bus_at s (time_of (fst s)))"
      unfolding ok_bind by (rule ok_mono) (simp only: ok_Some v)
  qed
qed

lemma process_scanline_impl_ok:
  assumes l: "loaded (fst (snd s))" and p: "ppu_ok (start_sprite_fetch (fst s))"
    and c: "0 < ppu_cycle (fst s)" "ppu_scanline (fst s) < 240"
    and i: "257 \<le> ppu_cycle (fst s) \<Longrightarrow> ppu_cycle (fst s) \<le> 320 \<Longrightarrow>
      ppu_sprite_index (start_sprite_fetch (fst s)) \<le> (ppu_cycle (fst s) - 254) div 8"
  shows "ok (process_scanline_impl s) (bus_at s (if odd_skip (fst s)
     then time_of (fst s\<lparr>ppu_cycle := 340\<rparr>) else time_of (fst s)))"
proof -
  have s: "bus_ok s" if "ppu_cycle (fst s) \<noteq> 257"
    using that l p by (simp add: bus_ok_def start_sprite_fetch_def)
  have at: "ok m (bus_keeps s) \<Longrightarrow> ok m (bus_at s (if odd_skip (fst s)
     then time_of (fst s\<lparr>ppu_cycle := 340\<rparr>) else time_of (fst s)))" if "ppu_cycle (fst s) \<noteq> 339" for m
  proof -
    have "\<not> odd_skip (fst s)" using that by (simp add: odd_skip_def)
    then show "ok m (bus_keeps s) \<Longrightarrow> ?thesis" by (simp, elim ok_mono keeps_at)
  qed
  show ?thesis
  proof -
    consider "ppu_cycle (fst s) \<le> 256" | "257 \<le> ppu_cycle (fst s)" "ppu_cycle (fst s) \<le> 320"
      | "321 \<le> ppu_cycle (fst s)" "ppu_cycle (fst s) \<le> 336" | "ppu_cycle (fst s) = 337 \<or> ppu_cycle (fst s) = 339"
      | "ppu_cycle (fst s) = 338 \<or> 340 \<le> ppu_cycle (fst s)" by linarith
    then show ?thesis
    proof cases
      case 1
      then have "process_scanline_impl s = visible_dot s" by (simp add: process_scanline_impl_def)
      with 1 show ?thesis using s c at [OF _ visible_dot_ok] by simp
    next
      case 2
      then have "process_scanline_impl s = sprite_dot s" "\<not> odd_skip (fst s)"
        by (simp_all add: process_scanline_impl_def odd_skip_def)
      with 2 show ?thesis using sprite_dot_ok [of s] l p i by (simp add: bus_ok_def)
    next
      case 3
      then have "process_scanline_impl s = prefetch_dot s" by (simp add: process_scanline_impl_def)
      with 3 show ?thesis using s at [OF _ prefetch_dot_ok] by simp
    next
      case 4
      then have "process_scanline_impl s = last_fetch_dot s" by (auto simp: process_scanline_impl_def)
      moreover have "ppu_cycle (fst s) \<noteq> 257" using 4 by auto
      ultimately show ?thesis using last_fetch_dot_ok [OF s] by simp
    next
      case 5
      then have "process_scanline_impl s = Some s" by (auto simp: process_scanline_impl_def)
      with 5 show ?thesis using s at [of "Some s"] by auto
    qed
  qed
qed

section \<open>The deferred state update\<close>

lemma on_ppu_keeps' [intro]:
  "bus_keeps s t \<Longrightarrow> (\<And>p. ppu_ok p \<Longrightarrow> keeps p (f p)) \<Longrightarrow> bus_keeps s (on_ppu f t)"
  by (auto simp: bus_keeps_def keeps_def)

lemma bus_keeps_if: "bus_keeps s t \<Longrightarrow> bus_keeps s u \<Longrightarrow> bus_keeps s (if b then t else u)"
  by simp

lemma update_prev_rendering_ok:
  assumes s: "bus_keeps s t"
  shows "ok (update_prev_rendering t) (bus_keeps s)"
proof -
  let ?t = "on_ppu (\<lambda>p. p\<lparr>ppu_prev_rendering_enabled := ppu_rendering_enabled p\<rparr>) t"
  have t: "bus_keeps s ?t" using s by (rule on_ppu_keeps') (simp add: keeps_def)
  have on: "ok (on_ppu_opt process_oam_corruption ?t) (bus_keeps s)"
    using t by (rule on_ppu_opt_keeps) (rule process_oam_corruption_ok)
  have flags: "ok (on_ppu_opt set_oam_corruption_flags ?t) (bus_keeps s)"
    using t by (rule on_ppu_opt_keeps) (rule oam_corruption_flags_ok)
  have addr: "bus_keeps s (on_ppu (\<lambda>p. let a = ppu_sprite_ram_addr p + 1
      in p\<lparr>ppu_sprite_ram_addr := a, ppu_sprite_addr_h := drop_bit 2 a AND 0x3F, ppu_sprite_addr_l := a AND 0x03\<rparr>) u)"
    if "bus_keeps s u" for u
    using that by (rule on_ppu_keeps') (simp add: keeps_def Let_def)
  show ?thesis
    unfolding update_prev_rendering_def Let_def
  proof (intro ok_ifI on)
    show "ok (Some ?t) (bus_keeps s)" using t by simp
    show "ok (do {
        u \<leftarrow> on_ppu_opt set_oam_corruption_flags ?t;
        Some (if 65 \<le> ppu_cycle (fst t) \<and> ppu_cycle (fst t) \<le> 256
          then on_ppu (\<lambda>p. p\<lparr>ppu_sprite_ram_addr := ppu_sprite_ram_addr p + 1,
              ppu_sprite_addr_h := drop_bit 2 (ppu_sprite_ram_addr p + 1) AND 0x3F,
              ppu_sprite_addr_l := (ppu_sprite_ram_addr p + 1) AND 0x03\<rparr>)
            (set_bus_address (ppu_video_ram_addr (fst u) AND 0x3FFF) u)
          else set_bus_address (ppu_video_ram_addr (fst u) AND 0x3FFF) u) }) (bus_keeps s)"
      unfolding ok_bind
      by (rule ok_mono [OF flags])
        (simp_all only: ok_Some addr [unfolded Let_def] set_bus_address_keeps bus_keeps_if)
  qed (use s in simp)
qed

lemma update_delayed_addr_keeps:
  assumes s: "bus_keeps s t"
  shows "bus_keeps s (update_delayed_addr t)"
proof -
  have d: "bus_keeps s (on_ppu (\<lambda>p. p\<lparr>ppu_update_vram_addr_delay := f p\<rparr>) t)" for f
    using s by (rule on_ppu_keeps') (simp add: keeps_def)
  have a: "bus_keeps s (on_ppu (\<lambda>p. p\<lparr>ppu_video_ram_addr := v, ppu_tmp_video_ram_addr := v\<rparr>) u)"
    if "bus_keeps s u" for u v
    using that by (rule on_ppu_keeps') (simp add: keeps_def)
  have n: "bus_keeps s (on_ppu (\<lambda>p. p\<lparr>ppu_need_state_update := True\<rparr>) u)" if "bus_keeps s u" for u
    using that by (rule on_ppu_keeps') (simp add: keeps_def)
  show ?thesis
    unfolding update_delayed_addr_def Let_def
    by (intro bus_keeps_if s n d set_bus_address_keeps a)
qed

lemma update_state_ok:
  assumes s: "bus_ok s"
  shows "ok (update_state s) (bus_keeps s)"
proof -
  have "bus_keeps s (on_ppu (\<lambda>p. p\<lparr>ppu_need_state_update := False\<rparr>) s)"
    using s by (intro on_ppu_keeps' [of s s]) (simp_all add: keeps_def)
  note u = update_prev_rendering_ok [OF this]
  have r: "bus_keeps s (on_ppu (\<lambda>p. if ppu_rendering_enabled p \<noteq> rendering_requested p
      then p\<lparr>ppu_rendering_enabled := rendering_requested p, ppu_need_state_update := True\<rparr> else p) t)"
    if "bus_keeps s t" for t
    using that by (rule on_ppu_keeps') (simp add: keeps_def)
  have i: "bus_keeps s (on_ppu (\<lambda>p. if ppu_ignore_vram_read p > 0 then
      let p = p\<lparr>ppu_ignore_vram_read := ppu_ignore_vram_read p - 1\<rparr>
      in if ppu_ignore_vram_read p > 0 then p\<lparr>ppu_need_state_update := True\<rparr> else p else p) t)"
    if "bus_keeps s t" for t
    using that by (rule on_ppu_keeps') (simp add: keeps_def Let_def)
  have n: "bus_keeps s (on_ppu (\<lambda>p. p\<lparr>ppu_need_video_ram_increment := False\<rparr>) t)" if "bus_keeps s t" for t
    using that by (rule on_ppu_keeps') (simp add: keeps_def)
  show ?thesis
    unfolding update_state_def ok_bind
    by (rule ok_mono [OF u], unfold Let_def ok_Some)
      (intro bus_keeps_if update_video_ram_addr_keeps n i [unfolded Let_def] update_delayed_addr_keeps r)
qed

section \<open>Running\<close>

text \<open>The clock after one call of \<^verbatim>\<open>exec\<close>.\<close>

definition next_dot :: "ppu \<Rightarrow> ppu" where
  "next_dot p =
     (if ppu_cycle p < 340 then
        p\<lparr>ppu_cycle := (if odd_skip (p\<lparr>ppu_cycle := ppu_cycle p + 1\<rparr>) then 340 else ppu_cycle p + 1)\<rparr>
      else
        p\<lparr>ppu_cycle := 0, ppu_scanline := (if ppu_scanline p + 1 > 260 then - 1 else ppu_scanline p + 1),
          ppu_frame_count := (if ppu_scanline p + 1 = 240 then ppu_frame_count p + 1 else ppu_frame_count p)\<rparr>)"

lemma bump_ok:
  fixes p defines "q \<equiv> p\<lparr>ppu_cycle := ppu_cycle p + 1\<rparr>"
  assumes p: "ppu_ok p" "ppu_cycle p < 340"
  shows "ppu_scanline p < 240 \<Longrightarrow> ppu_ok (start_sprite_fetch q)"
    "240 \<le> ppu_scanline p \<Longrightarrow> ppu_ok q"
    "ppu_scanline p < 240 \<Longrightarrow> 257 \<le> ppu_cycle q \<Longrightarrow> ppu_cycle q \<le> 320 \<Longrightarrow>
      ppu_sprite_index (start_sprite_fetch q) \<le> (ppu_cycle q - 254) div 8"
proof -
  have c: "ppu_cycle q = ppu_cycle p + 1" by (simp add: q_def)
  have d: "dot_ok (ppu_cycle p) (ppu_scanline p) (ppu_sprite_index p)" using p(1) by (simp add: ppu_ok_def)
  have nx: "dot_ok (ppu_cycle p + 1) (ppu_scanline p) (ppu_sprite_index p)"
    if "ppu_cycle p \<noteq> 256 \<or> 240 \<le> ppu_scanline p"
    using d p(2) that unfolding dot_ok_def by (auto intro: order_trans [OF _ div_le_mono])
  then show "240 \<le> ppu_scanline p \<Longrightarrow> ppu_ok q"
    using p(1) by (simp add: ppu_ok_defs q_def)
  have "dot_ok 257 (ppu_scanline p) 0" using d by (simp add: dot_ok_def)
  then show "ppu_scanline p < 240 \<Longrightarrow> ppu_ok (start_sprite_fetch q)"
    using p(1) nx by (simp add: start_sprite_fetch_def ppu_ok_defs q_def Let_def)
  show "ppu_scanline p < 240 \<Longrightarrow> 257 \<le> ppu_cycle q \<Longrightarrow> ppu_cycle q \<le> 320 \<Longrightarrow>
      ppu_sprite_index (start_sprite_fetch q) \<le> (ppu_cycle q - 254) div 8"
    using d unfolding c by (auto simp: start_sprite_fetch_def q_def Let_def dot_ok_def)
qed

lemma vblank_dot_core [simp]: "cpu_quiet (snd (snd (vblank_dot s))) = cpu_quiet (snd (snd s))"
  by (simp add: vblank_dot_def Let_def begin_vblank_def trigger_nmi_def on_cpu_def on_ppu_def split: prod.split)

lemma vblank_dot_bus:
  "ppu_ok (fst s) \<Longrightarrow> ppu_ok (fst (vblank_dot s))" "fst (snd (vblank_dot s)) = fst (snd s)"
  "time_of (fst (vblank_dot s)) = time_of (fst s)"
  by (simp_all add: vblank_dot_def Let_def begin_vblank_def trigger_nmi_def on_cpu_def on_ppu_def set_vblank_def
      time_of_def split: prod.split)

lemma vblank_dot_visible: "ppu_ok p \<Longrightarrow> ppu_scanline p < 240 \<Longrightarrow>
    vblank_dot (on_ppu (\<lambda>p. p\<lparr>ppu_cycle := f p\<rparr>) (p, r)) = on_ppu (\<lambda>p. p\<lparr>ppu_cycle := f p\<rparr>) (p, r)"
  by (simp add: vblank_dot_def Let_def ppu_okD)

text \<open>A dot within a scanline.\<close>

lemma dot_step_ok:
  assumes s: "bus_ok s" and c: "ppu_cycle (fst s) < 340"
  shows "ok (let t = vblank_dot (on_ppu (\<lambda>p. p\<lparr>ppu_cycle := ppu_cycle p + 1\<rparr>) s)
       in if ppu_scanline (fst t) < 240 then process_scanline_impl t else Some t)
     (bus_at s (time_of (next_dot (fst s))))"
proof -
  let ?b = "on_ppu (\<lambda>p. p\<lparr>ppu_cycle := ppu_cycle p + 1\<rparr>) s"
  have p: "ppu_ok (fst s)" "loaded (fst (snd s))" using s by (simp_all add: bus_ok_def)
  have nxt: "next_dot (fst s) = (fst s)\<lparr>ppu_cycle := (if odd_skip (fst ?b) then 340 else ppu_cycle (fst s) + 1)\<rparr>"
    using c by (simp add: next_dot_def)
  show ?thesis
  proof (cases "ppu_scanline (fst s) < 240")
    case True
    have v: "vblank_dot ?b = ?b"
      using vblank_dot_visible [OF p(1) True, of "\<lambda>p. ppu_cycle p + 1" "snd s"] by simp
    have "ok (process_scanline_impl ?b) (bus_at ?b (if odd_skip (fst ?b)
        then time_of (fst ?b\<lparr>ppu_cycle := 340\<rparr>) else time_of (fst ?b)))"
      by (intro process_scanline_impl_ok) (use p c True bump_ok in simp_all)
    moreover have "bus_at ?b (if odd_skip (fst ?b) then time_of (fst ?b\<lparr>ppu_cycle := 340\<rparr>) else time_of (fst ?b)) =
        bus_at s (time_of (next_dot (fst s)))"
      by (rule ext) (simp add: bus_at_def nxt time_of_def)
    ultimately have "ok (process_scanline_impl ?b) (bus_at s (time_of (next_dot (fst s))))"
      by (simp only:)
    then show ?thesis using True by (simp only: Let_def v) simp
  next
    case False
    have "\<not> odd_skip (fst ?b)" using False by (simp add: odd_skip_def)
    then have t: "time_of (next_dot (fst s)) = time_of (fst ?b)" by (simp add: nxt)
    have "ppu_ok (fst ?b)" using bump_ok(2) [OF p(1) c] False by simp
    then have "bus_at s (time_of (fst ?b)) (vblank_dot ?b)"
      using p(2) by (simp add: bus_at_def bus_ok_def vblank_dot_bus)
    moreover have "ppu_scanline (fst (vblank_dot ?b)) = ppu_scanline (fst s)"
      using vblank_dot_bus(3) [of ?b] by (simp add: time_of_def)
    ultimately show ?thesis using False by (simp add: t)
  qed
qed

text \<open>The first dot of the next scanline.\<close>

lemma ppu_ok_scanline:
  "ppu_ok p \<Longrightarrow> - 1 \<le> l \<Longrightarrow> l \<le> 260 \<Longrightarrow> ppu_ok (p\<lparr>ppu_cycle := 0, ppu_scanline := l\<rparr>)"
  by (simp add: ppu_ok_defs dot_ok_def)

lemma next_line_ok:
  assumes p: "ppu_ok p"
  shows "ok (next_line p) (\<lambda>q. ppu_ok q \<and> time_of q = time_of (p\<lparr>ppu_cycle := 0,
      ppu_scanline := (if ppu_scanline p + 1 > 260 then - 1 else ppu_scanline p + 1)\<rparr>))"
proof (cases "ppu_scanline p + 1 > 260")
  case True
  let ?w = "p\<lparr>ppu_cycle := 0, ppu_last_updated_pixel := - 1, ppu_scanline := - 1, ppu_sprite_count := 0\<rparr>"
  have w: "ppu_ok ?w" using p by (simp add: ppu_ok_defs dot_ok_def)
  have t: "time_of ?w = time_of (p\<lparr>ppu_cycle := 0, ppu_scanline := - 1\<rparr>)" by (simp add: time_of_def)
  have m: "ppu_ok (update_minimum_draw_cycles q) \<and> time_of (update_minimum_draw_cycles q) = time_of ?w"
    if "keeps ?w q" for q
    using that by (simp add: scrolling_keeps(4) [of ?w q, symmetric] del: scrolling_keeps)
      (simp add: keeps_def clock_of_def)
  have "ok (if ppu_rendering_enabled ?w then process_oam_corruption ?w else Some ?w) (keeps ?w)"
    using process_oam_corruption_ok [OF w] w by simp
  then have "ok (do { q \<leftarrow> (if ppu_rendering_enabled ?w then process_oam_corruption ?w else Some ?w);
      Some (update_minimum_draw_cycles q) }) (\<lambda>q. ppu_ok q \<and> time_of q = time_of ?w)"
    unfolding ok_bind ok_Some by (rule ok_mono) (rule m)
  with True show ?thesis
    unfolding t by (simp add: next_line_def Let_def ppu_okD [OF p])
next
  case False
  then show ?thesis
    using ppu_ok_scanline [OF p, of "ppu_scanline p + 1"] ppu_okD(19) [OF p]
    by (simp add: next_line_def Let_def ppu_okD [OF p])
qed

lemma start_line_ok:
  assumes s: "bus_ok s"
  shows "bus_ok (start_line s) \<and> cpu_quiet (snd (snd (start_line s))) = cpu_quiet (snd (snd s)) \<and>
    time_of (fst (start_line s)) = time_of (fst s\<lparr>ppu_frame_count :=
      (if ppu_scanline (fst s) = 240 then ppu_frame_count (fst s) + 1 else ppu_frame_count (fst s))\<rparr>)"
proof -
  have k: "bus_keeps s (set_bus_address a s)" for a using s by (intro set_bus_address_keeps) simp
  have swap: "bus_keeps s (on_ppu (\<lambda>p. p\<lparr>ppu_status_flags := status0, ppu_allow_full_ppu_access := True,
      ppu_current_output_buffer := buf, ppu_framebuffer := buf\<rparr>) s)" if "buf < 2" for buf
    using s that by (intro on_ppu_keeps' [of s s]) (simp_all add: keeps_def ppu_ok_upd)
  have plain: ?thesis if "ppu_scanline (fst s) \<noteq> 240" "bus_keeps s (start_line s)"
    using that keeps_at [OF that(2)] by (simp add: bus_at_def time_of_def)
  show ?thesis
  proof (cases "ppu_scanline (fst s) = 240")
    case False
    have "bus_keeps s (start_line s)"
      unfolding start_line_def Let_def if_not_P [OF False]
      by (intro bus_keeps_if k swap) (use s in simp_all)
    with False show ?thesis by (rule plain)
  next
    case True
    let ?t = "set_bus_address (ppu_video_ram_addr (fst s) AND 0x3FFF) s"
    note k [of "ppu_video_ram_addr (fst s) AND 0x3FFF"]
    note t = bus_keepsD [OF this] keeps_at [OF this, unfolded bus_at_def]
    have "ppu_ok ((fst ?t)\<lparr>ppu_frame_count := n\<rparr>)" for n using t(1) by simp
    with True t show ?thesis
      by (simp add: start_line_def Let_def bus_ok_def send_frame_def update_color_bit_masks_def time_of_def ppu_ok_mask)
  qed
qed

lemma first_cycle_ok:
  assumes s: "bus_ok s" and c: "\<not> ppu_cycle (fst s) < 340"
  shows "ok (process_scanline_first_cycle s) (bus_at s (time_of (next_dot (fst s))))"
proof -
  have p: "ppu_ok (fst s)" "loaded (fst (snd s))" using s by (simp_all add: bus_ok_def)
  obtain q where q: "next_line (fst s) = Some q" "ppu_ok q"
    "time_of q = time_of (fst s\<lparr>ppu_cycle := 0,
      ppu_scanline := (if ppu_scanline (fst s) + 1 > 260 then - 1 else ppu_scanline (fst s) + 1)\<rparr>)"
    using next_line_ok [OF p(1)] by (auto simp: ok_iff)
  have "bus_ok (q, snd s)" using q(2) p(2) by (simp add: bus_ok_def)
  from start_line_ok [OF this] c q(3) show ?thesis
    by (simp add: process_scanline_first_cycle_def on_ppu_opt_def q(1) bus_at_def next_dot_def time_of_def
        split: if_splits)
qed

theorem ppu_exec_ok:
  assumes s: "bus_ok s"
  shows "ok (ppu_exec s) (bus_at s (time_of (next_dot (fst s))))"
proof -
  have fin: "ok (if ppu_need_state_update (fst t) then update_state t else Some t) (bus_at s tm)"
    if "bus_at s tm t" for t tm
    using that update_state_ok [of t]
    by (auto simp: bus_at_def bus_keeps_def bus_ok_def keeps_def clock_of_def elim!: ok_mono)
  show ?thesis
    unfolding ppu_exec_def ok_bind
    by (rule ok_mono [where P = "bus_at s (time_of (next_dot (fst s)))"])
      (intro ok_ifI dot_step_ok [OF s] first_cycle_ok [OF s] fin; assumption)+
qed

lemma bus_at_ok: "bus_at s tm t \<Longrightarrow> bus_ok t"
  by (simp add: bus_at_def)

text \<open>
  \<^verbatim>\<open>run\<close>: with a positive clock divider the loop ends, past the requested time, in a
  state that satisfies the invariant.
\<close>

lemma ppu_tick_ok:
  assumes s: "bus_ok s"
  shows "ok (ppu_tick s) (bus_at s (time_of ((next_dot (fst s))\<lparr>ppu_master_clock :=
    ppu_master_clock (fst s) + unat (ppu_master_clock_divider (fst s))\<rparr>)))"
proof -
  have n: "ppu_master_clock (next_dot p) = ppu_master_clock p"
    "ppu_master_clock_divider (next_dot p) = ppu_master_clock_divider p" for p
    by (simp_all add: next_dot_def)
  have "ppu_ok p \<Longrightarrow> ppu_ok (p\<lparr>ppu_master_clock := k\<rparr>)" for p k by simp
  then show ?thesis
    unfolding ppu_tick_def ok_bind
    by (intro ok_mono [OF ppu_exec_ok [OF s]]) (auto simp: bus_at_def bus_ok_def time_of_def n)
qed

theorem ppu_run_ok:
  assumes s: "bus_ok s" and d: "ppu_master_clock_divider (fst s) \<noteq> 0"
  shows "ok (ppu_run run_to s) (\<lambda>t. bus_ok t \<and> cpu_quiet (snd (snd t)) = cpu_quiet (snd (snd s)) \<and>
    ppu_master_clock_divider (fst t) = ppu_master_clock_divider (fst s) \<and>
    ppu_master_clock (fst s) < ppu_master_clock (fst t) \<and>
    run_to < ppu_master_clock (fst t) + unat (ppu_master_clock_divider (fst t)))"
proof -
  let ?d = "unat (ppu_master_clock_divider (fst s))"
  have d': "0 < ?d" using d by (simp add: unat_gt_0)
  define I where "I t \<longleftrightarrow> bus_ok t \<and> cpu_quiet (snd (snd t)) = cpu_quiet (snd (snd s)) \<and>
      ppu_master_clock_divider (fst t) = ppu_master_clock_divider (fst s) \<and>
      ppu_master_clock (fst s) < ppu_master_clock (fst t)" for t
  have tick: "ok (ppu_tick t) (\<lambda>u. I u \<and> ppu_master_clock (fst u) = ppu_master_clock (fst t) + ?d)"
    if "bus_ok t" "cpu_quiet (snd (snd t)) = cpu_quiet (snd (snd s))"
      "ppu_master_clock_divider (fst t) = ppu_master_clock_divider (fst s)"
      "ppu_master_clock (fst s) \<le> ppu_master_clock (fst t)" for t
    using that d' by (intro ok_mono [OF ppu_tick_ok [OF that(1)]])
      (simp add: I_def bus_at_def time_of_def next_dot_def split: if_splits)
  show ?thesis
    unfolding ppu_run_def ok_bind
  proof (rule ok_mono [OF tick [of s]])
    fix t assume t: "I t \<and> ppu_master_clock (fst t) = ppu_master_clock (fst s) + ?d"
    show "ok (while_loop (\<lambda>s. ppu_master_clock (fst s) + unat (ppu_master_clock_divider (fst s)) \<le> run_to) ppu_tick t)
        (\<lambda>t. bus_ok t \<and> cpu_quiet (snd (snd t)) = cpu_quiet (snd (snd s)) \<and>
          ppu_master_clock_divider (fst t) = ppu_master_clock_divider (fst s) \<and>
          ppu_master_clock (fst s) < ppu_master_clock (fst t) \<and>
          run_to < ppu_master_clock (fst t) + unat (ppu_master_clock_divider (fst t)))"
    proof (rule while_loop_ok [where I = I and m = "\<lambda>t. run_to - ppu_master_clock (fst t)"])
      fix u assume "I u" "ppu_master_clock (fst u) + unat (ppu_master_clock_divider (fst u)) \<le> run_to"
      then show "ok (ppu_tick u) (\<lambda>v. I v \<and> run_to - ppu_master_clock (fst v) < run_to - ppu_master_clock (fst u))"
        using d' by (intro ok_mono [OF tick [of u]]) (auto simp: I_def)
    qed (use t in \<open>auto simp: I_def\<close>)
  qed (use s in simp_all)
qed

end
