(* ===== verification/Ppu_Register_Facts.thy ===== *)
theory Ppu_Register_Facts
  imports Ppu_Facts Ppu_Registers
begin

text \<open>
  The register accesses preserve the invariant of the PPU, its clocks and the core of the
  CPU: they never fault, whatever the CPU does.
\<close>

lemma word_le_of_and: "(w :: u8) AND m \<le> m"
  by (rule word_and_le1)

lemma status_flag_keeps: "bus_keeps s t \<Longrightarrow> bus_keeps s (update_status_flag t)"
  unfolding update_status_flag_def set_vblank_def
  by (auto intro!: on_ppu_keeps simp: keeps_simps)

lemma oam_window: "257 \<le> n \<Longrightarrow> n \<le> 320 \<Longrightarrow> (n - 257) div 8 * 4 + min 3 ((n - 257) mod 8) < (32 :: nat)"
  by (rule oam_row_index) simp

lemma read_oam_data_ok:
  assumes "bus_ok s"
  shows "ok (read_oam_data s) (\<lambda>(v, t). bus_keeps s t)"
proof -
  have p: "ppu_ok (fst s)" and s: "bus_keeps s s" using assms by (simp_all add: bus_ok_def)
  have a: "ok (rd (ppu_secondary_sprite_ram (fst s)) (unat (of_nat i :: u8)))
      (\<lambda>b. bus_keeps s ((fst s)\<lparr>ppu_secondary_oam_addr := of_nat i, ppu_oam_copy_buffer := b\<rparr>, snd s))"
    if "i < 32" for i
  proof -
    have "unat (of_nat i :: u8) = i" using that by (simp add: unat_of_nat)
    moreover from this have "(of_nat i :: u8) \<le> 0x20" using that by (simp add: word_le_nat_alt)
    ultimately show ?thesis
      using that p s by (simp add: ppu_okD bus_keeps_def keeps_simps bus_ok_def)
  qed
  note w = a [OF oam_window [of "ppu_cycle (fst s)"]]
  show ?thesis
  proof (cases "ppu_scanline (fst s) \<le> 239 \<and> ppu_rendering_enabled (fst s)")
    case True
    then show ?thesis
      using w s by (auto simp: read_oam_data_def Let_def elim!: ok_mono)
  next
    case False
    then show ?thesis
      using s by (auto simp: read_oam_data_def Let_def bus_keeps_def keeps_def bus_ok_def
          intro!: ok_mono [OF read_sprite_ram_ok [OF p]])
  qed
qed

lemma palette_index_less: "unat (palette_read_index a) < 32"
proof -
  have b: "unat ((ucast (a AND 0x1F) :: u8)) < 32"
  proof -
    have "unat (a AND 0x1F) < 32" by (rule unat_and_less) simp
    then show ?thesis by (simp add: unsigned_ucast_eq take_bit_nat_eq_self)
  qed
  have "unat ((ucast (a AND 0x1F) :: u8) AND NOT 0x10) < 32"
    by (rule le_less_trans [OF _ b]) (simp add: word_le_nat_alt [symmetric] word_and_le2)
  with b show ?thesis by (simp add: palette_read_index_def Let_def)
qed

lemma palette_read_ok: "ppu_ok p \<Longrightarrow> ok (palette_read a p) (\<lambda>_. True)"
  using palette_index_less [of a] by (simp add: palette_read_def ppu_okD)

lemma read_data_ok:
  assumes "bus_ok s"
  shows "ok (read_data s) (\<lambda>(v, msk, t). bus_keeps s t)"
proof (cases "ppu_ignore_vram_read (fst s) = 0")
  case False
  with assms show ?thesis by (simp add: read_data_def)
next
  case True
  have s: "bus_keeps s s" using assms by simp
  have fin: "ok (if ppu_bus_address (fst u) AND 0x3FFF \<ge> 0x3F00
           then map_option (\<lambda>r. (r, 0xC0 :: u8)) (palette_read (ppu_bus_address (fst u)) (fst u))
           else Some (b, 0))
      (\<lambda>(ret, msk). bus_keeps s (on_ppu (\<lambda>p. p\<lparr>ppu_ignore_vram_read := 6, ppu_need_state_update := True,
          ppu_need_video_ram_increment := True\<rparr>) u))"
    if "bus_keeps s u" for u b
  proof -
    have "bus_keeps s (on_ppu (\<lambda>p. p\<lparr>ppu_ignore_vram_read := 6, ppu_need_state_update := True,
          ppu_need_video_ram_increment := True\<rparr>) u)"
      using that by (auto intro!: on_ppu_keeps simp: keeps_simps)
    moreover have "ppu_ok (fst u)" using bus_keeps_ok [OF that] by (simp add: bus_ok_def)
    ultimately show ?thesis using palette_read_ok by (auto elim!: ok_mono)
  qed
  have buf: "bus_keeps s (on_ppu (\<lambda>p. p\<lparr>ppu_memory_read_buffer := v\<rparr>) u)" if "bus_keeps s u" for v u
    using that by (auto intro!: on_ppu_keeps simp: keeps_simps)
  let ?a = "ppu_bus_address (fst s) AND 0x3FFF"
  obtain v t where t: "ppu_read_vram ?a s = Some (v, t)" "bus_keeps s t"
    using read_vram_keeps [OF s, of ?a] by (auto simp: ok_iff)
  from fin [OF buf [OF t(2), of v], of "ppu_memory_read_buffer (fst s)"] True show ?thesis
    by (simp add: read_data_def Let_def t(1)) (auto simp: ok_iff)
qed

lemma bus_keeps_apply:
  assumes "bus_keeps s t"
  shows "ok (apply_open_bus msk v (fst t)) (\<lambda>(w, p). bus_keeps s (p, snd t))"
proof -
  have "ppu_ok (fst t)" using bus_keeps_ok [OF assms] by (simp add: bus_ok_def)
  from assms show ?thesis
    by (intro ok_mono [OF apply_open_bus_ok [OF \<open>ppu_ok (fst t)\<close>]]) (auto simp: bus_keeps_def intro: keeps_trans)
qed

theorem ppu_read_ram_ok:
  assumes "bus_ok s"
  shows "ok (ppu_read_ram addr s) (\<lambda>(v, t). bus_keeps s t)"
proof -
  have s: "bus_keeps s s" using assms by simp
  have st: "bus_keeps s (update_status_flag (on_ppu (\<lambda>p. p\<lparr>ppu_write_toggle := False\<rparr>) s))"
    using s by (auto intro!: status_flag_keeps on_ppu_keeps simp: keeps_simps)
  have fin: "ok (Option.bind (apply_open_bus msk v (fst t)) (\<lambda>(v, p). Some (v, p, snd t))) (\<lambda>(v, t). bus_keeps s t)"
    if "bus_keeps s t" for t msk v
    using bus_keeps_apply [OF that, of msk v] by (cases "snd t") (auto simp: ok_iff)
  obtain v4 t4 where t4: "read_oam_data s = Some (v4, t4)" "bus_keeps s t4"
    using read_oam_data_ok [OF assms] by (auto simp: ok_iff)
  obtain v7 m7 t7 where t7: "read_data s = Some (v7, m7, t7)" "bus_keeps s t7"
    using read_data_ok [OF assms] by (auto simp: ok_iff)
  show ?thesis
    using fin [OF st] fin [OF t4(2)] fin [OF t7(2)] fin [OF s] by (simp add: ppu_read_ram_def t4(1) t7(1))
qed

text \<open>A peek never faults and changes nothing, by its type.\<close>

lemma ppu_peek_ram_ok: "ppu_ok p \<Longrightarrow> ok (ppu_peek_ram addr p) (\<lambda>_. True)"
  by (auto simp: ppu_peek_ram_def ppu_okD intro: palette_read_ok)

section \<open>Writes\<close>

lemma glitch_frame [simp]:
  "ppu_ok (process_tmp_addr_scroll_glitch a v m p) = ppu_ok p"
  "clock_of (process_tmp_addr_scroll_glitch a v m p) = clock_of p"
  by (simp_all add: process_tmp_addr_scroll_glitch_def Let_def)

lemma set_control_keeps: "bus_keeps s t \<Longrightarrow> bus_keeps s (set_control_register ob v t)"
  unfolding set_control_register_def Let_def
  by (auto intro!: on_ppu_keeps bus_keeps_if simp: keeps_simps)

lemma mask_keeps: "keeps q p \<Longrightarrow> keeps q (set_mask_register v p)"
  using mask_ok [of p v]
  by (simp add: keeps_def clock_of_def time_of_def set_mask_register_def Let_def
      update_minimum_draw_cycles_def update_color_bit_masks_def)

lemma write_scroll_keeps: "keeps q p \<Longrightarrow> keeps q (write_scroll ob v p)"
  unfolding write_scroll_def Let_def
  by (auto simp: keeps_simps word_and_le1)

lemma write_address_keeps: "keeps q p \<Longrightarrow> keeps q (write_address ob v p)"
  unfolding write_address_def Let_def
  by (auto simp: keeps_simps)

lemma write_oam_data_ok: "ppu_ok p \<Longrightarrow> ok (write_oam_data now v p) (keeps p)"
  unfolding write_oam_data_def Let_def
  by (auto intro!: ok_mono [OF write_sprite_ram_ok] simp: keeps_simps)

lemma palette_write_ok:
  assumes "ppu_ok p"
  shows "ok (palette_write a v p) (keeps p)"
proof -
  have "unat (a AND 0x1F) < 32" by (rule unat_and_less) simp
  then have "unat (ucast (a AND 0x1F) :: u8) < 32" by (simp add: unsigned_ucast_eq take_bit_nat_eq_self)
  with assms show ?thesis by (auto simp: palette_write_def Let_def keeps_simps ppu_okD)
qed

lemma write_data_ok:
  assumes "bus_ok s"
  shows "ok (write_data v s) (bus_keeps s)"
proof -
  have s: "bus_keeps s s" using assms by simp
  have fin: "bus_keeps s (on_ppu (\<lambda>p. p\<lparr>ppu_need_state_update := True, ppu_need_video_ram_increment := True\<rparr>) t)"
    if "bus_keeps s t" for t
    using that by (auto intro!: on_ppu_keeps simp: keeps_simps)
  show ?thesis
    unfolding write_data_def Let_def ok_bind
    by (rule ok_mono [where P = "bus_keeps s"], intro ok_ifI on_ppu_opt_keeps write_vram_keeps s palette_write_ok)
      (simp_all add: fin)
qed

lemma quiet_dma: "cpu_quiet c = cpu_quiet d \<Longrightarrow> cpu_quiet (run_dma_transfer v c) = cpu_quiet (run_dma_transfer v d)"
  by (cases c; cases d) (simp add: cpu_quiet_def run_dma_transfer_def)

theorem ppu_write_ram_ok:
  assumes "bus_ok s"
  shows "ok (ppu_write_ram ob addr v s)
    (bus_keeps (if addr = 0x4014 then on_cpu (run_dma_transfer v) s else s))"
proof -
  have s: "bus_keeps s s" using assms by simp
  obtain t where t: "on_ppu_opt (set_open_bus 0xFF v) s = Some t" "bus_keeps s t"
    using on_ppu_opt_keeps [OF s, of "set_open_bus 0xFF v"] set_open_bus_ok by (auto simp: ok_iff)
  have tok: "bus_ok t" using bus_keeps_ok [OF t(2)] .
  have dma: "bus_keeps (on_cpu (run_dma_transfer v) s) (on_cpu (run_dma_transfer v) t)"
    using t(2) by (auto simp: bus_keeps_def on_cpu_def intro: quiet_dma split: prod.split)
  have "ok (write_data v t) (bus_keeps s)" by (rule ok_bus_trans [OF t(2) write_data_ok [OF tok]])
  moreover have "ok (on_ppu_opt (write_oam_data now v) t) (bus_keeps s)" for now
    by (rule on_ppu_opt_keeps [OF t(2)]) (rule write_oam_data_ok)
  ultimately show ?thesis
    using t(2) dma unfolding ppu_write_ram_def t(1) Let_def
    by (auto intro!: set_control_keeps on_ppu_keeps mask_keeps write_scroll_keeps write_address_keeps simp: keeps_simps)
qed

end
