(* ===== verification/Ppu_Timing.thy ===== *)
theory Ppu_Timing
  imports Ppu_Register_Facts
begin

text \<open>
  The beam of the PPU as one number, and what the deferred state update leaves alone.
\<close>

section \<open>The beam\<close>

text \<open>The dots since the start of the pre-render line; a frame has 262 lines of 341 dots.\<close>

definition beam :: "ppu \<Rightarrow> nat" where
  "beam p = nat (ppu_scanline p + 1) * 341 + ppu_cycle p"

definition FRAME_DOTS :: nat where "FRAME_DOTS = 89342"

text \<open>The dots since the start of line 240, where a frame is delivered.\<close>

definition frame_phase :: "ppu \<Rightarrow> nat" where
  "frame_phase p = (beam p + 7161) mod FRAME_DOTS"

lemma beam_less: "ppu_ok p \<Longrightarrow> beam p < FRAME_DOTS"
proof -
  assume p: "ppu_ok p"
  then have "nat (ppu_scanline p + 1) \<le> 261" "ppu_cycle p \<le> 340" using ppu_okD [OF p] by simp_all
  then have "nat (ppu_scanline p + 1) * 341 \<le> 261 * 341" by (intro mult_right_mono) simp_all
  then show ?thesis using \<open>ppu_cycle p \<le> 340\<close> by (simp add: beam_def FRAME_DOTS_def)
qed

text \<open>The dot that an odd frame drops when it is being rendered.\<close>

definition drops_dot :: "ppu \<Rightarrow> bool" where
  "drops_dot p \<longleftrightarrow> ppu_cycle p = 338 \<and> odd_skip (p\<lparr>ppu_cycle := 339\<rparr>)"

lemma beam_next:
  assumes "ppu_ok p"
  shows "beam (next_dot p) = (beam p + (if drops_dot p then 2 else 1)) mod FRAME_DOTS"
proof -
  note b = ppu_okD [OF assms]
  have skip: "odd_skip (p\<lparr>ppu_cycle := Suc (ppu_cycle p)\<rparr>) \<longleftrightarrow> drops_dot p"
    by (auto simp: odd_skip_def drops_dot_def)
  show ?thesis
  proof (cases "ppu_cycle p < 340")
    case True
    then have "beam (next_dot p) = beam p + (if drops_dot p then 2 else 1)"
      by (auto simp: next_dot_def skip beam_def) (auto simp: drops_dot_def)
    moreover have "nat (ppu_scanline p + 1) * 341 \<le> 261 * 341"
      using b by (intro mult_right_mono) simp_all
    then have "beam p + (if drops_dot p then 2 else 1) < FRAME_DOTS"
      using True by (auto simp: beam_def FRAME_DOTS_def drops_dot_def)
    ultimately show ?thesis by simp
  next
    case False
    then have c: "ppu_cycle p = 340" using b by simp
    then have d: "\<not> drops_dot p" by (simp add: drops_dot_def)
    show ?thesis
    proof (cases "ppu_scanline p = 260")
      case True
      then show ?thesis using c d by (simp add: next_dot_def beam_def FRAME_DOTS_def)
    next
      case False
      then have "nat (ppu_scanline p + 1 + 1) = nat (ppu_scanline p + 1) + 1" "nat (ppu_scanline p + 1) \<le> 260"
        using b by simp_all
      moreover from this(2) have "nat (ppu_scanline p + 1) * 341 \<le> 260 * 341" by (intro mult_right_mono) simp_all
      ultimately show ?thesis
        using False b c d by (simp add: next_dot_def beam_def FRAME_DOTS_def)
    qed
  qed
qed

lemma frame_count_next:
  assumes "ppu_ok p" "\<not> drops_dot p"
  shows "ppu_frame_count (next_dot p) =
      ppu_frame_count p + (if frame_phase p + 1 = FRAME_DOTS then 1 else 0)"
    "frame_phase (next_dot p) = (frame_phase p + 1) mod FRAME_DOTS"
proof -
  note b = ppu_okD [OF assms(1)]
  have "frame_phase p + 1 = FRAME_DOTS \<longleftrightarrow> beam p = 82180"
    using beam_less [OF assms(1)] by (auto simp: frame_phase_def FRAME_DOTS_def mod_if)
  also have "\<dots> \<longleftrightarrow> ppu_cycle p = 340 \<and> ppu_scanline p = 239"
  proof
    assume h: "beam p = 82180"
    have "beam p div 341 = nat (ppu_scanline p + 1)" "beam p mod 341 = ppu_cycle p"
      using b by (simp_all add: beam_def)
    then show "ppu_cycle p = 340 \<and> ppu_scanline p = 239" using b h by simp
  qed (simp add: beam_def)
  finally show "ppu_frame_count (next_dot p) =
      ppu_frame_count p + (if frame_phase p + 1 = FRAME_DOTS then 1 else 0)"
    using b by (auto simp: next_dot_def)
  show "frame_phase (next_dot p) = (frame_phase p + 1) mod FRAME_DOTS"
    using assms by (simp add: frame_phase_def beam_next mod_simps)
qed

lemma time_of_beam: "time_of p = time_of q \<Longrightarrow> beam p = beam q \<and> ppu_frame_count p = ppu_frame_count q \<and>
    ppu_no_odd_frame_skip p = ppu_no_odd_frame_skip q"
  by (simp add: time_of_def beam_def)

lemma exec_beam:
  assumes "bus_ok s"
  shows "ok (ppu_exec s) (\<lambda>t. bus_ok t \<and> beam (fst t) = beam (next_dot (fst s)) \<and>
    ppu_frame_count (fst t) = ppu_frame_count (next_dot (fst s)) \<and>
    ppu_no_odd_frame_skip (fst t) = ppu_no_odd_frame_skip (fst s))"
  by (rule ok_mono [OF ppu_exec_ok [OF assms]])
    (auto simp: bus_at_def dest!: time_of_beam simp: next_dot_def)

section \<open>Travel of the beam\<close>

text \<open>
  The beam has gone \<open>d\<close> dots forward from \<open>p\<close> to \<open>q\<close>, counting a dropped dot, and the frame
  counter has counted how often it came by the start of line 240.
\<close>

definition travelled :: "nat \<Rightarrow> ppu \<Rightarrow> ppu \<Rightarrow> bool" where
  "travelled d p q \<longleftrightarrow> frame_phase q = (frame_phase p + d) mod FRAME_DOTS \<and>
     ppu_frame_count q = ppu_frame_count p + of_nat ((frame_phase p + d) div FRAME_DOTS)"

lemma frame_phase_less: "frame_phase p < FRAME_DOTS"
  by (simp add: frame_phase_def FRAME_DOTS_def)

lemma travelled_0 [simp]: "travelled 0 p p"
  using frame_phase_less [of p] by (simp add: travelled_def)

lemma travelled_trans:
  assumes "travelled d p q" "travelled e q r"
  shows "travelled (d + e) p r"
proof -
  have "(m + e) div n = m div n + (m mod n + e) div n" if "0 < n" for m n :: nat
  proof -
    have "((m mod n + e) + (m div n) * n) div n = m div n + (m mod n + e) div n"
      by (rule div_mult_self1) (use that in simp)
    moreover have "(m mod n + e) + (m div n) * n = m + e" by simp
    ultimately show ?thesis by simp
  qed
  from this [of FRAME_DOTS "frame_phase p + d"] have "(frame_phase p + (d + e)) div FRAME_DOTS =
      (frame_phase p + d) div FRAME_DOTS + ((frame_phase p + d) mod FRAME_DOTS + e) div FRAME_DOTS"
    by (simp add: FRAME_DOTS_def add.assoc)
  then show ?thesis
    using assms by (simp add: travelled_def mod_simps add.assoc)
qed

lemma travelled_next:
  assumes p: "ppu_ok p"
  shows "travelled (if drops_dot p then 2 else 1) p (next_dot p)"
proof (cases "drops_dot p")
  case False
  let ?n = "frame_phase p"
  have "(?n + 1) div FRAME_DOTS = (if ?n + 1 = FRAME_DOTS then 1 else 0)"
    using frame_phase_less [of p] by (auto simp: FRAME_DOTS_def)
  then show ?thesis using frame_count_next [OF p False] False by (simp add: travelled_def)
next
  case True
  then have d: "ppu_cycle p = 338" "ppu_scanline p = - 1" by (auto simp: drops_dot_def odd_skip_def)
  then have b: "beam p = 338" by (simp add: beam_def)
  have "beam (next_dot p) = 340" using beam_next [OF p] True b by (simp add: FRAME_DOTS_def)
  moreover have "ppu_frame_count (next_dot p) = ppu_frame_count p" using d by (simp add: next_dot_def)
  ultimately show ?thesis using True b by (simp add: travelled_def frame_phase_def FRAME_DOTS_def)
qed

lemma travelled_time:
  assumes "time_of q = time_of (p'\<lparr>ppu_master_clock := k\<rparr>)" "travelled d p p'"
  shows "travelled d p q"
  using assms time_of_beam [OF assms(1)] by (simp add: travelled_def frame_phase_def beam_def)

text \<open>A run takes the beam at least one dot forward, and the clock to the time asked for.\<close>

lemma ppu_run_travels:
  assumes s: "bus_ok s" and d: "ppu_master_clock_divider (fst s) \<noteq> 0" and run: "ppu_run run_to s = Some t"
  shows "ppu_master_clock (fst t) \<le> max run_to (ppu_master_clock (fst s) + unat (ppu_master_clock_divider (fst s)))"
    "\<exists>n \<ge> 1. n \<le> 2 * (ppu_master_clock (fst t) - ppu_master_clock (fst s)) \<and> travelled n (fst s) (fst t)"
proof -
  let ?d = "unat (ppu_master_clock_divider (fst s))"
  have d': "0 < ?d" using d by (simp add: unat_gt_0)
  define J where "J u \<longleftrightarrow> bus_ok u \<and> ppu_master_clock_divider (fst u) = ppu_master_clock_divider (fst s) \<and>
      ppu_master_clock (fst s) \<le> ppu_master_clock (fst u) \<and>
      (\<exists>n. n \<le> 2 * (ppu_master_clock (fst u) - ppu_master_clock (fst s)) \<and> travelled n (fst s) (fst u))" for u
  have tick: "J v \<and> ppu_master_clock (fst v) = ppu_master_clock (fst u) + ?d \<and>
      (\<exists>n \<ge> 1. n \<le> 2 * (ppu_master_clock (fst v) - ppu_master_clock (fst s)) \<and> travelled n (fst s) (fst v))"
    if "J u" "ppu_tick u = Some v" for u v
  proof -
    have u: "bus_ok u" "ppu_ok (fst u)" using that(1) by (simp_all add: J_def bus_ok_def)
    have "bus_at u (time_of ((next_dot (fst u))\<lparr>ppu_master_clock :=
        ppu_master_clock (fst u) + unat (ppu_master_clock_divider (fst u))\<rparr>)) v"
      using ppu_tick_ok [OF u(1)] that(2) by simp
    then have v: "bus_ok v" "time_of (fst v) = time_of ((next_dot (fst u))\<lparr>ppu_master_clock := ppu_master_clock (fst u) + ?d\<rparr>)"
      using that(1) by (auto simp: bus_at_def J_def)
    then have m: "ppu_master_clock (fst v) = ppu_master_clock (fst u) + ?d"
      "ppu_master_clock_divider (fst v) = ppu_master_clock_divider (fst u)"
      by (simp_all add: time_of_def next_dot_def split: if_splits)
    let ?k = "if drops_dot (fst u) then 2 else 1 :: nat"
    have k: "travelled ?k (fst u) (fst v)" by (rule travelled_time [OF v(2) travelled_next [OF u(2)]])
    from that(1) obtain n where n: "n \<le> 2 * (ppu_master_clock (fst u) - ppu_master_clock (fst s))"
      "travelled n (fst s) (fst u)" "ppu_master_clock (fst s) \<le> ppu_master_clock (fst u)" by (auto simp: J_def)
    have "travelled (n + ?k) (fst s) (fst v)" by (rule travelled_trans [OF n(2) k])
    moreover have "1 \<le> n + ?k" "n + ?k \<le> 2 * (ppu_master_clock (fst v) - ppu_master_clock (fst s))"
      using n m d' by auto
    ultimately show ?thesis using that(1) v(1) m n(3) unfolding J_def by fastforce
  qed
  from run obtain u where u: "ppu_tick s = Some u"
    and loop: "while_loop (\<lambda>s. ppu_master_clock (fst s) + unat (ppu_master_clock_divider (fst s)) \<le> run_to) ppu_tick u = Some t"
    by (auto simp: ppu_run_def bind_eq_Some_conv)
  define I where "I u \<longleftrightarrow> J u \<and> ppu_master_clock (fst u) \<le> max run_to (ppu_master_clock (fst s) + ?d) \<and>
      (\<exists>n \<ge> 1. n \<le> 2 * (ppu_master_clock (fst u) - ppu_master_clock (fst s)) \<and> travelled n (fst s) (fst u))" for u
  have "J s" using s by (auto simp: J_def intro: exI [of _ 0])
  from tick [OF this u] have "I u"
    unfolding I_def by (elim conjE) (intro conjI, assumption, simp, assumption)
  have "I t"
  proof (rule while_loop_inv [where I = I, OF loop \<open>I u\<close>])
    fix v w assume "I v" "ppu_master_clock (fst v) + unat (ppu_master_clock_divider (fst v)) \<le> run_to" "ppu_tick v = Some w"
    with tick [of v w] show "I w" by (auto simp: I_def J_def)
  qed
  then show "ppu_master_clock (fst t) \<le> max run_to (ppu_master_clock (fst s) + unat (ppu_master_clock_divider (fst s)))"
    "\<exists>n \<ge> 1. n \<le> 2 * (ppu_master_clock (fst t) - ppu_master_clock (fst s)) \<and> travelled n (fst s) (fst t)"
    by (auto simp: I_def)
qed

section \<open>Vertical blank\<close>

text \<open>The status flags, the suppression of the next one, and the CPU's NMI line.\<close>

definition nmi_view :: "ppu_bus \<Rightarrow> ppu_status \<times> bool \<times> bool" where
  "nmi_view s = (ppu_status_flags (fst s), ppu_prevent_vbl_flag (fst s), cpu_nmi_flag (snd (snd s)))"

definition flags_of :: "ppu \<Rightarrow> ppu_status \<times> bool" where
  "flags_of p = (ppu_status_flags p, ppu_prevent_vbl_flag p)"

lemma nmi_view_on_ppu: "flags_of (f (fst s)) = flags_of (fst s) \<Longrightarrow> nmi_view (on_ppu f s) = nmi_view s"
  by (simp add: nmi_view_def on_ppu_def flags_of_def)

lemma nmi_view_opt:
  "on_ppu_opt f s = Some t \<Longrightarrow> (\<And>p. f (fst s) = Some p \<Longrightarrow> flags_of p = flags_of (fst s)) \<Longrightarrow> nmi_view t = nmi_view s"
  by (auto simp: on_ppu_opt_def nmi_view_def flags_of_def)

lemma notify_nmi [simp]: "cpu_nmi_flag (snd (notify_vram_address_change a (m, c))) = cpu_nmi_flag c"
  by (auto simp: notify_vram_address_change_def mmc3_notify_vram_address_change_def Let_def
      set_irq_source_def split: mapper_chip.split prod.split)

lemma nmi_view_bus [simp]: "nmi_view (set_bus_address a s) = nmi_view s"
  by (cases s) (auto simp: set_bus_address_def nmi_view_def split: prod.split dest: arg_cong [where f = snd]
      intro: notify_nmi [THEN subst])

lemma process_oam_corruption_flags: "process_oam_corruption p = Some q \<Longrightarrow> flags_of q = flags_of p"
  by (auto simp: process_oam_corruption_def bind_eq_Some_conv flags_of_def)

lemma set_oam_corruption_flags_flags: "set_oam_corruption_flags p = Some q \<Longrightarrow> flags_of q = flags_of p"
  by (auto simp: set_oam_corruption_flags_def Let_def bind_eq_Some_conv flags_of_def split: if_splits)

lemma update_prev_rendering_nmi: "update_prev_rendering s = Some t \<Longrightarrow> nmi_view t = nmi_view s"
  unfolding update_prev_rendering_def Let_def
  by (auto simp: bind_eq_Some_conv nmi_view_on_ppu flags_of_def split: if_splits
      dest!: nmi_view_opt process_oam_corruption_flags set_oam_corruption_flags_flags)

lemma update_delayed_addr_nmi: "nmi_view (update_delayed_addr s) = nmi_view s"
  unfolding update_delayed_addr_def Let_def by (simp add: nmi_view_on_ppu flags_of_def)

lemma scrolling_flags [simp]:
  "flags_of (inc_horizontal_scrolling p) = flags_of p" "flags_of (inc_vertical_scrolling p) = flags_of p"
  by (simp_all add: flags_of_def inc_horizontal_scrolling_def inc_vertical_scrolling_def)

lemma update_video_ram_addr_nmi: "nmi_view (update_video_ram_addr s) = nmi_view s"
  unfolding update_video_ram_addr_def Let_def by (simp add: nmi_view_on_ppu) (simp add: nmi_view_on_ppu flags_of_def)

lemma update_state_nmi: "update_state s = Some t \<Longrightarrow> nmi_view t = nmi_view s"
  unfolding update_state_def Let_def bind_eq_Some_conv
  by (auto dest!: update_prev_rendering_nmi simp: update_video_ram_addr_nmi update_delayed_addr_nmi nmi_view_on_ppu
      flags_of_def split: if_splits)

text \<open>A dot of the lines after the picture: only the start of the vertical blank and the deferred update.\<close>

lemma exec_line_241:
  assumes "bus_ok s" "ppu_scanline (fst s) = 241" "ppu_cycle (fst s) = 0"
  shows "ok (ppu_exec s) (\<lambda>t. nmi_view t = nmi_view (vblank_dot (on_ppu (\<lambda>p. p\<lparr>ppu_cycle := 1\<rparr>) s)))"
proof -
  let ?v = "vblank_dot (on_ppu (\<lambda>p. p\<lparr>ppu_cycle := 1\<rparr>) s)"
  have sc: "ppu_scanline (fst ?v) = 241"
    using assms(2) by (simp add: vblank_dot_def Let_def begin_vblank_def trigger_nmi_def set_vblank_def)
  obtain t where t: "ppu_exec s = Some t" using ppu_exec_ok [OF assms(1)] by (auto simp: ok_iff)
  have e: "on_ppu (\<lambda>p. p\<lparr>ppu_cycle := ppu_cycle p + 1\<rparr>) s = on_ppu (\<lambda>p. p\<lparr>ppu_cycle := 1\<rparr>) s"
    by (simp add: on_ppu_def assms(3))
  have "ppu_exec s = (if ppu_need_state_update (fst ?v) then update_state ?v else Some ?v)"
    unfolding ppu_exec_def e using assms(3) sc by (simp add: Let_def)
  with t show ?thesis by (auto split: if_splits dest: update_state_nmi)
qed

end
