(* ===== verification/Ppu_Scroll_Facts.thy ===== *)
theory Ppu_Scroll_Facts
  imports Ppu_Scroll
begin

text \<open>
  The scrolling steps as counters, and the open bus bit by bit.
\<close>

section \<open>Fields of a word\<close>

text \<open>The field of \<open>n\<close> bits from bit \<open>k\<close> on, and its replacement.\<close>

definition field :: "nat \<Rightarrow> nat \<Rightarrow> u16 \<Rightarrow> u16" where
  "field k n v = take_bit n (drop_bit k v)"

definition with_field :: "nat \<Rightarrow> nat \<Rightarrow> u16 \<Rightarrow> u16 \<Rightarrow> u16" where
  "with_field k n w v = (v AND NOT (push_bit k (mask n))) OR push_bit k (take_bit n w)"

lemma bit_field: "bit (field k n v) i \<longleftrightarrow> i < n \<and> bit v (k + i)"
  by (auto simp: field_def bit_take_bit_iff bit_drop_bit_eq)

lemma bit_with_field:
  "bit (with_field k n w v) i \<longleftrightarrow>
     (if k \<le> i \<and> i < k + n then i < 16 \<and> bit w (i - k) else bit v i)"
  by (auto simp: with_field_def bit_or_iff bit_and_iff bit_not_iff bit_push_bit_iff bit_mask_iff bit_take_bit_iff
      dest: bit_imp_le_length)

lemma field_with_field:
  "k + n \<le> 16 \<Longrightarrow> field k n (with_field k n w v) = take_bit n w"
  "k' + n' \<le> k \<or> k + n \<le> k' \<Longrightarrow> field k' n' (with_field k n w v) = field k' n' v"
  by (rule bit_word_eqI; auto simp: bit_field bit_with_field bit_take_bit_iff)+

text \<open>Adding one to a field that is not full.\<close>

lemma add_in_field:
  assumes "k + n \<le> 16" "field k n v \<noteq> mask n"
  shows "v + push_bit k 1 = with_field k n (field k n v + 1) v"
proof -
  let ?M = "push_bit k (mask n) :: u16" and ?f = "field k n v"
  have M: "v AND ?M = push_bit k ?f"
    by (rule bit_word_eqI) (use assms(1) in \<open>auto simp: bit_and_iff bit_push_bit_iff bit_mask_iff bit_field\<close>)
  have split: "v = (v AND NOT ?M) + (v AND ?M)"
    by (subst disjunctive_add) (auto simp: bit_and_iff bit_or_iff bit_not_iff intro!: bit_word_eqI dest: bit_imp_le_length)
  have tb: "take_bit n ?f = ?f" by (simp add: field_def)
  have "take_bit n (?f + 1) = ?f + 1"
  proof (cases "n = 16")
    case True
    then show ?thesis by (simp add: take_bit_word_eq_self)
  next
    case False
    with assms(1) have n: "n < 16" by simp
    have "unat ?f = take_bit n (unat ?f)" using tb by (metis unsigned_take_bit_eq)
    then have f: "unat ?f < 2 ^ n" by (metis take_bit_nat_less_exp)
    have "unat (mask n :: u16) = unat (take_bit n (- 1 :: u16))" by (simp add: take_bit_minus_one_eq_mask)
    also have "\<dots> = take_bit n (mask LENGTH(16))" by (simp only: unsigned_take_bit_eq unsigned_minus_1_eq_mask)
    also have "\<dots> = 2 ^ n - 1" unfolding take_bit_of_mask using n by (simp add: mask_eq_exp_minus_1 min_def)
    finally have "unat ?f \<noteq> 2 ^ n - 1" using assms(2) by (metis word_unat_eq_iff)
    with f have lt: "unat ?f + 1 < 2 ^ n" by linarith
    have "(2 :: nat) ^ n \<le> 2 ^ 15" using n by (intro power_increasing) simp_all
    with lt have "unat ?f + 1 < 65536" by simp
    then have "unat (?f + 1) = unat ?f + 1" by (simp add: unat_word_ariths)
    then have "unat (take_bit n (?f + 1)) = unat (?f + 1)"
      using lt by (simp add: unsigned_take_bit_eq take_bit_nat_eq_self)
    then show ?thesis by (simp add: word_unat_eq_iff)
  qed
  moreover have "(v AND NOT ?M) + push_bit k (take_bit n w) = (v AND NOT ?M) OR push_bit k (take_bit n w)" for w
    by (rule disjunctive_add)
      (auto simp: bit_and_iff bit_not_iff bit_push_bit_iff bit_mask_iff bit_take_bit_iff)
  ultimately have "with_field k n (?f + 1) v = (v AND NOT ?M) + push_bit k (?f + 1)"
    unfolding with_field_def by metis
  also have "\<dots> = (v AND NOT ?M) + (v AND ?M) + push_bit k 1"
    by (simp add: M push_bit_add add.assoc)
  finally show ?thesis using split by metis
qed

section \<open>The steps on fields\<close>

lemma bit_mask16: "bit (push_bit k (mask n) :: u16) i \<longleftrightarrow> k \<le> i \<and> i < 16 \<and> i < k + n"
  by (auto simp: bit_push_bit_iff bit_mask_iff)

lemma field_masks:
  "(0x1F :: u16) = push_bit 0 (mask 5)" "(0x3E0 :: u16) = push_bit 5 (mask 5)"
  "(0x7000 :: u16) = push_bit 12 (mask 3)"
  "(0x400 :: u16) = push_bit 10 (mask 1)" "(0x800 :: u16) = push_bit 11 (mask 1)"
  by (simp_all add: mask_eq_exp_minus_1)

lemma and_field: "k + n \<le> 16 \<Longrightarrow> v AND push_bit k (mask n) = push_bit k (field k n v)"
  by (rule bit_word_eqI) (auto simp: bit_and_iff bit_push_bit_iff bit_mask_iff bit_field)

lemma clear_field: "v AND NOT (push_bit k (mask n)) = with_field k n 0 v"
  by (simp add: with_field_def)

lemma flip_field:
  "k < 16 \<Longrightarrow> v XOR push_bit k (mask 1) = with_field k 1 (field k 1 v + 1) v"
proof (rule bit_word_eqI)
  fix i assume "k < 16" "i < LENGTH(16)"
  have z: "bit (w + 1 :: u16) 0 \<longleftrightarrow> \<not> bit w 0" for w by (simp add: bit_0)
  have f: "bit (field k 1 v) 0 = bit v k" by (simp add: bit_field)
  show "bit (v XOR push_bit k (mask 1)) i = bit (with_field k 1 (field k 1 v + 1) v) i"
  proof (cases "i = k")
    case True
    then show ?thesis using \<open>k < 16\<close> by (simp only: True diff_self_eq_0 bit_xor_iff bit_mask16 bit_with_field z f) simp
  next
    case False
    then show ?thesis by (simp only: bit_xor_iff bit_mask16 bit_with_field) auto
  qed
qed

lemma push_bit_inject:
  assumes "k + n \<le> 16"
  shows "push_bit k (field k n v) = push_bit k (mask n) \<longleftrightarrow> field k n v = mask n"
proof
  assume e: "push_bit k (field k n v) = push_bit k (mask n)"
  show "field k n v = mask n"
  proof (rule bit_word_eqI)
    fix i assume "i < LENGTH(16)"
    from arg_cong [OF e, of "\<lambda>w. bit w (k + i)"] assms show "bit (field k n v) i = bit (mask n :: u16) i"
      by (auto simp: bit_push_bit_iff bit_field bit_mask_iff)
  qed
qed simp

lemma horizontal_step_fields:
  "horizontal_step v =
     (if field 0 5 v = mask 5 then with_field 10 1 (field 10 1 v + 1) (with_field 0 5 0 v)
      else with_field 0 5 (field 0 5 v + 1) v)"
proof -
  have a: "v AND 0x1F = 31 \<longleftrightarrow> field 0 5 v = mask 5"
    using and_field [of 0 5 v] push_bit_inject [of 0 5 v] by (simp add: mask_eq_exp_minus_1)
  have f: "field 10 1 (with_field 0 5 0 v) = field 10 1 v" by (simp add: field_with_field)
  have x: "(v AND NOT 0x1F) XOR 0x400 = with_field 10 1 (field 10 1 v + 1) (with_field 0 5 0 v)"
    unfolding field_masks clear_field by (simp only: flip_field f)
  have p: "v + 1 = with_field 0 5 (field 0 5 v + 1) v" if "field 0 5 v \<noteq> mask 5"
    using add_in_field [of 0 5 v] that by simp
  show ?thesis unfolding horizontal_step_def a x using p by simp
qed

lemma vertical_step_fields:
  "vertical_step v =
     (if field 12 3 v \<noteq> mask 3 then with_field 12 3 (field 12 3 v + 1) v
      else if field 5 5 v = 29 then with_field 5 5 0 (with_field 11 1 (field 11 1 v + 1) (with_field 12 3 0 v))
      else if field 5 5 v = 31 then with_field 5 5 0 (with_field 12 3 0 v)
      else with_field 5 5 (field 5 5 v + 1) (with_field 12 3 0 v))"
proof -
  let ?w = "with_field 12 3 0 v"
  have a: "v AND 0x7000 = 0x7000 \<longleftrightarrow> field 12 3 v = mask 3"
    unfolding field_masks using and_field [of 12 3 v] push_bit_inject [of 12 3 v] by simp
  have p: "v + 0x1000 = with_field 12 3 (field 12 3 v + 1) v" if "field 12 3 v \<noteq> mask 3"
    using add_in_field [of 12 3 v] that by simp
  have w: "v AND NOT 0x7000 = ?w" unfolding field_masks clear_field ..
  have y: "drop_bit 5 (?w AND 0x3E0) = field 5 5 v"
    unfolding field_masks by (rule bit_word_eqI)
      (auto simp: bit_drop_bit_eq bit_and_iff bit_mask16 bit_field bit_with_field)
  have f: "field 11 1 ?w = field 11 1 v" by (simp add: field_with_field)
  have x: "?w XOR 0x800 = with_field 11 1 (field 11 1 v + 1) ?w"
    unfolding field_masks by (simp only: flip_field f)
  have o: "(u AND NOT 0x3E0) OR push_bit 5 z = with_field 5 5 z u" if "take_bit 5 z = z" for u z
    unfolding field_masks with_field_def by (simp add: that)
  have t0: "take_bit 5 (0 :: u16) = 0" by simp
  have t1: "take_bit 5 (field 5 5 v + 1) = field 5 5 v + 1" if "field 5 5 v \<noteq> 31"
  proof -
    have "field 5 5 v \<le> 31"
      using word_and_le1 [of "drop_bit 5 v" 31]
      by (simp add: field_def take_bit_eq_mask mask_eq_exp_minus_1)
    then have "unat (field 5 5 v) \<le> 31" by (simp add: word_le_nat_alt)
    moreover have "unat (31 :: u16) = 31" by simp
    then have "unat (field 5 5 v) \<noteq> 31" using that by (metis word_unat_eq_iff)
    ultimately have "unat (field 5 5 v) < 31" by simp
    then have "unat (field 5 5 v + 1) = unat (field 5 5 v) + 1" by (simp add: unat_word_ariths)
    with \<open>unat (field 5 5 v) < 31\<close> show ?thesis
      by (simp add: word_unat_eq_iff unsigned_take_bit_eq take_bit_nat_eq_self)
  qed
  show ?thesis
    unfolding vertical_step_def a w Let_def y
    using p x o [OF t0] o [OF t1] by (auto split: if_splits)
qed

section \<open>The counters\<close>

text \<open>The horizontal and the vertical position in the plane of four nametables.\<close>

definition hpos :: "u16 \<Rightarrow> nat" where
  "hpos v = unat (field 0 5 v) + 32 * unat (field 10 1 v)"

definition vpos :: "u16 \<Rightarrow> nat" where
  "vpos v = unat (field 12 3 v) + 8 * unat (field 5 5 v) + 240 * unat (field 11 1 v)"

lemma unat_field: "unat (field k n v) = take_bit n (unat v div 2 ^ k)"
  by (simp add: field_def unsigned_take_bit_eq unat_shift_right)

lemma unat_field_less: "unat (field k n v) < 2 ^ n"
  unfolding unat_field by (rule take_bit_nat_less_exp)

lemma unat_field_inc:
  assumes "n < 16"
  shows "unat (take_bit n (field k n v + 1)) = (unat (field k n v) + 1) mod 2 ^ n"
proof -
  have "(2 :: nat) ^ n \<le> 2 ^ 15" using assms by (intro power_increasing) simp_all
  with unat_field_less [of k n v] have "unat (field k n v) + 1 < 65536" by simp
  then have "unat (field k n v + 1) = unat (field k n v) + 1" by (simp add: unat_word_ariths)
  then show ?thesis unfolding unsigned_take_bit_eq by (simp only: take_bit_eq_mod)
qed

lemma field_full: "field k 5 v = mask 5 \<longleftrightarrow> unat (field k 5 v) = 31" "field k 3 v = mask 3 \<longleftrightarrow> unat (field k 3 v) = 7"
  by (simp_all add: word_unat_eq_iff mask_eq_exp_minus_1)

lemma horizontal_step_counts:
  "hpos (horizontal_step v) = (hpos v + 1) mod 64"
  "field 5 5 (horizontal_step v) = field 5 5 v" "field 11 4 (horizontal_step v) = field 11 4 v"
proof -
  have l: "unat (field 0 5 v) < 32" "unat (field 10 1 v) < 2"
    using unat_field_less [of 0 5 v] unat_field_less [of 10 1 v] by simp_all
  show "hpos (horizontal_step v) = (hpos v + 1) mod 64"
    using l unat_field_inc [of 5 0 v] unat_field_inc [of 1 10 v]
    by (auto simp: hpos_def horizontal_step_fields field_with_field field_full mod_if)
  show "field 5 5 (horizontal_step v) = field 5 5 v" "field 11 4 (horizontal_step v) = field 11 4 v"
    by (simp_all add: horizontal_step_fields field_with_field)
qed

lemma vpos_horizontal_step: "vpos (horizontal_step v) = vpos v"
  by (simp add: vpos_def horizontal_step_fields field_with_field)

lemma vertical_step_counts:
  assumes "unat (field 5 5 v) < 30"
  shows "vpos (vertical_step v) = (vpos v + 1) mod 480"
    "field 0 5 (vertical_step v) = field 0 5 v" "field 10 1 (vertical_step v) = field 10 1 v"
    "unat (field 5 5 (vertical_step v)) < 30"
proof -
  have l: "unat (field 12 3 v) < 8" "unat (field 11 1 v) < 2"
    using unat_field_less [of 12 3 v] unat_field_less [of 11 1 v] by simp_all
  have e: "field 5 5 v = 29 \<longleftrightarrow> unat (field 5 5 v) = 29" "field 5 5 v = 31 \<longleftrightarrow> unat (field 5 5 v) = 31"
    by (simp_all add: word_unat_eq_iff)
  show "vpos (vertical_step v) = (vpos v + 1) mod 480" "unat (field 5 5 (vertical_step v)) < 30"
    using assms l unat_field_inc [of 5 5 v] unat_field_inc [of 1 11 v] unat_field_inc [of 3 12 v]
    by (auto simp: vpos_def vertical_step_fields field_with_field field_full e mod_if)
  show "field 0 5 (vertical_step v) = field 0 5 v" "field 10 1 (vertical_step v) = field 10 1 v"
    by (simp_all add: vertical_step_fields field_with_field)
qed

section \<open>The open bus\<close>

text \<open>What becomes of bit \<open>n\<close>: driven, still charged, or decayed after three frames.\<close>

definition open_bus_bit :: "u8 \<Rightarrow> u8 \<Rightarrow> u8 \<Rightarrow> u32 \<Rightarrow> u32 list \<Rightarrow> nat \<Rightarrow> bool" where
  "open_bus_bit msk val old frame stamps n =
     (if bit msk n then bit val n else bit old n \<and> frame - stamps ! n \<le> 3)"

definition open_bus_stamp :: "u8 \<Rightarrow> u32 \<Rightarrow> u32 list \<Rightarrow> nat \<Rightarrow> u32" where
  "open_bus_stamp msk frame stamps n = (if bit msk n then frame else stamps ! n)"

lemma bit_bus_masks: "bit (0x80 :: u16) k \<longleftrightarrow> k = 7" "bit (0xFF7F :: u16) k \<longleftrightarrow> k < 16 \<and> k \<noteq> 7"
proof -
  have a: "(0x80 :: u16) = push_bit 7 1" and b: "(0xFF7F :: u16) = NOT (push_bit 7 1)" by simp_all
  show "bit (0x80 :: u16) k \<longleftrightarrow> k = 7" unfolding a by (simp only: bit_push_bit_iff bit_1_iff) auto
  show "bit (0xFF7F :: u16) k \<longleftrightarrow> k < 16 \<and> k \<noteq> 7"
    unfolding b by (simp only: bit_not_iff bit_push_bit_iff bit_1_iff) auto
qed

text \<open>After \<open>i\<close> rounds the new bits lie below position 8, the old ones above.\<close>

lemma open_bus_rounds:
  assumes len: "length stamps = 8" and i: "i \<le> 8"
  shows "\<exists>ob st. for_each (set_open_bus_bit frame) [0..<i] (push_bit 8 (ucast old), val, msk, stamps) =
      Some (ob, drop_bit i val, drop_bit i msk, st) \<and> length st = 8 \<and>
    (\<forall>k. bit ob k \<longleftrightarrow> (if k < 8 then 8 - i \<le> k \<and> open_bus_bit msk val old frame stamps (k + i - 8)
                        else k + i < 16 \<and> bit old (k + i - 8))) \<and>
    (\<forall>n < 8. st ! n = (if n < i then open_bus_stamp msk frame stamps n else stamps ! n))"
  using i
proof (induction i)
  case 0
  have "bit (push_bit 8 (ucast old) :: u16) k \<longleftrightarrow> 8 \<le> k \<and> k < 16 \<and> bit old (k - 8)" for k
    by (auto simp: bit_push_bit_iff bit_ucast_iff dest: bit_imp_le_length)
  with len show ?case by auto
next
  case (Suc i)
  from Suc.IH [OF Suc_leD [OF Suc.prems]] obtain ob st where
    run: "for_each (set_open_bus_bit frame) [0..<i] (push_bit 8 (ucast old), val, msk, stamps) =
      Some (ob, drop_bit i val, drop_bit i msk, st)" and lst: "length st = 8"
    and ob: "\<And>k. bit ob k \<longleftrightarrow> (if k < 8 then 8 - i \<le> k \<and> open_bus_bit msk val old frame stamps (k + i - 8)
                        else k + i < 16 \<and> bit old (k + i - 8))"
    and st: "\<And>n. n < 8 \<Longrightarrow> st ! n = (if n < i then open_bus_stamp msk frame stamps n else stamps ! n)" by blast
  have i8: "i < 8" using Suc.prems by simp
  have low: "drop_bit i w AND 1 \<noteq> 0 \<longleftrightarrow> bit w i" for w :: u8
    by (simp add: bit_iff_odd_drop_bit odd_iff_mod_2_eq_one and_one_eq)
  have old: "bit ob 8 = bit old i" using ob [of 8] i8 by simp
  let ?d = "drop_bit 1 ob"
  let ?ob = "if bit msk i then if bit val i then ?d OR 0x80 else ?d AND 0xFF7F
    else if frame - stamps ! i > 3 then ?d AND 0xFF7F else ?d"
  let ?st = "if bit msk i then st[i := frame] else st"
  have step: "set_open_bus_bit frame i (ob, drop_bit i val, drop_bit i msk, st) =
      Some (?ob, drop_bit (Suc i) val, drop_bit (Suc i) msk, ?st)"
    using i8 lst st [of i] by (simp add: set_open_bus_bit_def Let_def low drop_bit_drop_bit)
  have b: "bit ?ob k \<longleftrightarrow> (if k = 7 then open_bus_bit msk val old frame stamps i else bit ob (Suc k))" for k
    using old by (auto simp: bit_or_iff bit_and_iff bit_bus_masks bit_drop_bit_eq open_bus_bit_def not_le
      dest: bit_imp_le_length simp del: bit_numeral_word_iff)
  have "bit ?ob k \<longleftrightarrow> (if k < 8 then 8 - Suc i \<le> k \<and> open_bus_bit msk val old frame stamps (k + Suc i - 8)
                        else k + Suc i < 16 \<and> bit old (k + Suc i - 8))" for k
    unfolding b using i8 by (auto simp: ob)
  moreover have "?st ! n = (if n < Suc i then open_bus_stamp msk frame stamps n else stamps ! n)" if "n < 8" for n
    using st [OF that] lst that i8 by (auto simp: nth_list_update open_bus_stamp_def less_Suc_eq)
  moreover have "length ?st = 8" using lst by simp
  ultimately show ?case
    using run step by (simp add: for_each_append)
qed

lemma set_open_bus_bits:
  assumes "length (ppu_open_bus_decay_stamp p) = 8"
  shows "\<exists>p'. set_open_bus msk val p = Some p' \<and> length (ppu_open_bus_decay_stamp p') = 8 \<and>
    (\<forall>n < 8. bit (ppu_open_bus p') n =
        open_bus_bit msk val (ppu_open_bus p) (ppu_frame_count p) (ppu_open_bus_decay_stamp p) n \<and>
      ppu_open_bus_decay_stamp p' ! n =
        open_bus_stamp msk (ppu_frame_count p) (ppu_open_bus_decay_stamp p) n)"
proof (cases "msk = 0xFF")
  case True
  have e: "(0xFF :: u8) = NOT 0" by simp
  have "bit (0xFF :: u8) n \<longleftrightarrow> n < 8" for n unfolding e by (simp only: bit_not_iff) simp
  with True assms show ?thesis by (simp add: set_open_bus_def open_bus_bit_def open_bus_stamp_def del: bit_numeral_word_iff)
next
  case False
  from open_bus_rounds [OF assms order_refl, of "ppu_frame_count p" "ppu_open_bus p" val msk]
  show ?thesis using False by (auto simp: set_open_bus_def bit_ucast_iff)
qed

end
