(* ===== verification/Ppu_Properties.thy ===== *)
theory Ppu_Properties
  imports Ppu_Timing Ppu_Scroll_Facts Sample_Cartridge
begin

text \<open>
  What the PPU promises: it never faults, the beam keeps its time, the vertical blank and
  its NMI, the scroll registers as counters, the open bus and the palette.
\<close>

section \<open>Traffic\<close>

text \<open>What the machine does to the PPU, as one step each.\<close>

datatype ppu_op =
  PpuRun nat
| PpuRead u16
| PpuPeek u16
| PpuWrite u8 u16 u8

fun ppu_step :: "ppu_op \<Rightarrow> ppu_bus \<Rightarrow> ppu_bus option" where
  "ppu_step (PpuRun run_to) s = ppu_run run_to s"
| "ppu_step (PpuRead addr) s = map_option snd (ppu_read_ram addr s)"
| "ppu_step (PpuPeek addr) s = map_option (\<lambda>_. s) (ppu_peek_ram addr (fst s))"
| "ppu_step (PpuWrite ob addr v) s = ppu_write_ram ob addr v s"

definition ppu_ready :: "ppu_bus \<Rightarrow> bool" where
  "ppu_ready s \<longleftrightarrow> bus_ok s \<and> ppu_master_clock_divider (fst s) \<noteq> 0"

lemma keeps_ready: "bus_keeps s t \<Longrightarrow> ppu_ready s \<Longrightarrow> ppu_ready t"
  using bus_keeps_ok [of s t] by (auto simp: ppu_ready_def bus_keeps_def keeps_def clock_of_def time_of_def)

lemma ppu_ready_on_cpu: "ppu_ready (on_cpu f s) = ppu_ready s"
  by (simp add: ppu_ready_def bus_ok_def on_cpu_def split: prod.split)

lemma ppu_step_ok:
  assumes "ppu_ready s"
  shows "ok (ppu_step op0 s) ppu_ready"
proof -
  have b: "bus_ok s" using assms by (simp add: ppu_ready_def)
  show ?thesis
  proof (cases op0)
    case (PpuRun n)
    then show ?thesis
      using ppu_run_ok [OF b, of n] assms by (auto simp: ppu_ready_def elim!: ok_mono)
  next
    case (PpuRead a)
    then show ?thesis using ppu_read_ram_ok [OF b, of a] assms by (auto elim!: ok_mono dest: keeps_ready)
  next
    case (PpuPeek a)
    then show ?thesis using ppu_peek_ram_ok [of "fst s" a] b assms by (auto simp: bus_ok_def elim!: ok_mono)
  next
    case (PpuWrite ob a v)
    have r: "ppu_ready (if a = 0x4014 then on_cpu (run_dma_transfer v) s else s)" using assms by (simp add: ppu_ready_on_cpu)
    have "ok (ppu_write_ram ob a v s) ppu_ready"
      by (rule ok_mono [OF ppu_write_ram_ok [OF b, of ob a v]]) (rule keeps_ready [OF _ r])
    with PpuWrite show ?thesis by simp
  qed
qed

text \<open>
  C17: from power on, with any cartridge that is set up, no sequence of runs and of register
  reads, peeks and writes reaches undefined behaviour in the PPU or makes it loop: every
  index into OAM, secondary OAM, palette, sprite list and frame buffer is in range at every
  dot. The beam stays on the 341 by 262 grid.
\<close>

theorem ppu_traffic_safe:
  assumes "loaded m"
  shows "\<exists>t. for_each ppu_step ops (new_ppu, m, cpu) = Some t \<and>
    ppu_cycle (fst t) \<le> 340 \<and> - 1 \<le> ppu_scanline (fst t) \<and> ppu_scanline (fst t) \<le> 260"
proof -
  have "ppu_ready (new_ppu, m, cpu)"
    using assms new_ppu_ok
    by (simp add: ppu_ready_def bus_ok_def)
      (simp add: new_ppu_def ppu_reset_def Let_def update_minimum_draw_cycles_def)
  then have "ok (for_each ppu_step ops (new_ppu, m, cpu)) ppu_ready"
    by (rule for_each_ok) (rule ppu_step_ok)
  then show ?thesis by (auto simp: ok_iff ppu_ready_def bus_ok_def dest: ppu_okD(18-20))
qed

lemma ppu_traffic_safe_witness:
  "\<exists>t. for_each ppu_step [PpuWrite 0 0x2001 0x1E, PpuRun 90000, PpuRead 0x2002, PpuWrite 0 0x2007 5, PpuRun 400000]
      (new_ppu, sample_mapper, cpu0) = Some t \<and>
    ppu_cycle (fst t) \<le> 340 \<and> - 1 \<le> ppu_scanline (fst t) \<and> ppu_scanline (fst t) \<le> 260"
  by (rule ppu_traffic_safe [OF sample_loaded])

section \<open>Time\<close>

text \<open>
  C18: each dot moves the beam by one position, from the last dot of line 260 back to the
  pre-render line, except that an odd frame that is being rendered drops one dot of the
  pre-render line.
\<close>

theorem beam_advances:
  assumes "bus_ok s"
  shows "\<exists>t. ppu_exec s = Some t \<and>
    beam (fst t) = (beam (fst s) +
      (if ppu_scanline (fst s) = - 1 \<and> ppu_cycle (fst s) = 338 \<and> ppu_rendering_enabled (fst s) \<and>
          ppu_frame_count (fst s) AND 1 \<noteq> 0 \<and> \<not> ppu_no_odd_frame_skip (fst s) then 2 else 1))
      mod (262 * 341)"
proof -
  have p: "ppu_ok (fst s)" using assms by (simp add: bus_ok_def)
  from exec_beam [OF assms] beam_next [OF p] show ?thesis
    by (auto simp: ok_iff drops_dot_def odd_skip_def FRAME_DOTS_def)
qed

lemma new_bus_ok: "bus_ok (new_ppu, sample_mapper, cpu0)"
  by (simp add: bus_ok_def new_ppu_ok)

lemma new_ppu_fields: "ppu_scanline new_ppu = - 1" "ppu_cycle new_ppu = 340" "ppu_frame_count new_ppu = 1"
    "ppu_prevent_vbl_flag new_ppu = False" "ppu_status_flags new_ppu = status0" "ppu_control new_ppu = control0"
  by (simp_all add: new_ppu_def ppu_reset_def Let_def update_minimum_draw_cycles_def)

lemma beam_advances_witness:
  "\<exists>t. ppu_exec (new_ppu, sample_mapper, cpu0) = Some t \<and> beam (fst t) = 341"
  using beam_advances [OF new_bus_ok] by (simp add: beam_def new_ppu_fields)

text \<open>
  C19: without the odd-frame skip, \<open>n\<close> dots move the beam by \<open>n\<close> positions, and the frame
  counter by the number of times the beam passes the start of line 240, whatever is
  rendered. A frame is 89342 dots.
\<close>

theorem frame_time:
  assumes "bus_ok s" "ppu_no_odd_frame_skip (fst s)"
  shows "\<exists>t. for_each (\<lambda>_. ppu_exec) [0..<n] s = Some t \<and>
    beam (fst t) = (beam (fst s) + n) mod 89342 \<and>
    ppu_frame_count (fst t) = ppu_frame_count (fst s) + of_nat (((beam (fst s) + 7161) mod 89342 + n) div 89342)"
proof -
  have "\<exists>t. for_each (\<lambda>_. ppu_exec) [0..<n] s = Some t \<and> bus_ok t \<and> ppu_no_odd_frame_skip (fst t) \<and>
      beam (fst t) = (beam (fst s) + n) mod FRAME_DOTS \<and>
      frame_phase (fst t) = (frame_phase (fst s) + n) mod FRAME_DOTS \<and>
      ppu_frame_count (fst t) = ppu_frame_count (fst s) + of_nat ((frame_phase (fst s) + n) div FRAME_DOTS)"
  proof (induction n)
    case 0
    have "ppu_ok (fst s)" using assms by (simp add: bus_ok_def)
    then show ?case
      using assms beam_less [of "fst s"] by (simp add: frame_phase_def FRAME_DOTS_def)
  next
    case (Suc n)
    then obtain t where t: "for_each (\<lambda>_. ppu_exec) [0..<n] s = Some t" "bus_ok t" "ppu_no_odd_frame_skip (fst t)"
      "beam (fst t) = (beam (fst s) + n) mod FRAME_DOTS"
      "frame_phase (fst t) = (frame_phase (fst s) + n) mod FRAME_DOTS"
      "ppu_frame_count (fst t) = ppu_frame_count (fst s) + of_nat ((frame_phase (fst s) + n) div FRAME_DOTS)"
      by blast
    have p: "ppu_ok (fst t)" and d: "\<not> drops_dot (fst t)"
      using t(2,3) by (simp_all add: bus_ok_def drops_dot_def odd_skip_def)
    obtain u where u: "ppu_exec t = Some u" "bus_ok u" "beam (fst u) = beam (next_dot (fst t))"
      "ppu_frame_count (fst u) = ppu_frame_count (next_dot (fst t))" "ppu_no_odd_frame_skip (fst u)"
      using exec_beam [OF t(2)] t(3) by (auto simp: ok_iff)
    have "frame_phase (fst u) = frame_phase (next_dot (fst t))" using u(3) by (simp add: frame_phase_def)
    also have "\<dots> = ((frame_phase (fst s) + n) mod FRAME_DOTS + 1) mod FRAME_DOTS"
      using frame_count_next(2) [OF p d] t(5) by simp
    finally have ph: "frame_phase (fst u) = (frame_phase (fst s) + Suc n) mod FRAME_DOTS"
      by (simp add: mod_simps)
    have "(frame_phase (fst s) + Suc n) div FRAME_DOTS = (frame_phase (fst s) + n) div FRAME_DOTS +
        (if (frame_phase (fst s) + n) mod FRAME_DOTS + 1 = FRAME_DOTS then 1 else 0)"
      by (simp add: div_Suc mod_Suc FRAME_DOTS_def)
    then have "ppu_frame_count (fst u) =
        ppu_frame_count (fst s) + of_nat ((frame_phase (fst s) + Suc n) div FRAME_DOTS)"
      using u(4) frame_count_next(1) [OF p d] t(5,6) by simp
    then show ?case
      using t(1,4) u ph beam_next [OF p] d by (simp add: for_each_append mod_simps)
  qed
  then show ?thesis by (auto simp: frame_phase_def FRAME_DOTS_def)
qed

lemma frame_time_witness:
  "\<exists>t. for_each (\<lambda>_. ppu_exec) [0..<89342] (new_ppu\<lparr>ppu_no_odd_frame_skip := True\<rparr>, sample_mapper, cpu0) = Some t \<and>
    beam (fst t) = 340 \<and> ppu_frame_count (fst t) = 2"
proof -
  have "bus_ok (new_ppu\<lparr>ppu_no_odd_frame_skip := True\<rparr>, sample_mapper, cpu0)"
    by (simp add: bus_ok_def new_ppu_ok)
  from frame_time [OF this, of 89342] show ?thesis by (simp add: beam_def new_ppu_fields del: upt_rec_numeral)
qed

section \<open>Vertical blank\<close>

text \<open>
  C20: in dot 1 of line 241 the vertical blank flag is set, and with it the CPU's NMI line when
  $2000 enables it; nothing of this happens when the flag has just been read.
\<close>

theorem vblank_begins:
  assumes "bus_ok s" "ppu_scanline (fst s) = 241" "ppu_cycle (fst s) = 0"
  shows "\<exists>t. ppu_exec s = Some t \<and>
    (st_vertical_blank (ppu_status_flags (fst t)) \<longleftrightarrow>
      \<not> ppu_prevent_vbl_flag (fst s) \<or> st_vertical_blank (ppu_status_flags (fst s))) \<and>
    (cpu_nmi_flag (snd (snd t)) \<longleftrightarrow> cpu_nmi_flag (snd (snd s)) \<or>
      \<not> ppu_prevent_vbl_flag (fst s) \<and> ct_nmi_on_vertical_blank (ppu_control (fst s))) \<and>
    \<not> ppu_prevent_vbl_flag (fst t)"
proof -
  obtain p m c where s: "s = (p, m, c)" by (cases s)
  have n: "ppu_nmi_scanline p = 241" "ppu_scanline p = 241"
    using assms(1,2) by (simp_all add: s bus_ok_def ppu_okD)
  from exec_line_241 [OF assms] show ?thesis
    by (auto simp: s n ok_iff nmi_view_def vblank_dot_def Let_def on_ppu_def begin_vblank_def trigger_nmi_def
        set_vblank_def on_cpu_def set_nmi_flag_def split: if_splits)
qed

lemma vblank_begins_witness:
  "\<exists>t. ppu_exec (new_ppu\<lparr>ppu_scanline := 241, ppu_cycle := 0\<rparr>, sample_mapper, cpu0) = Some t \<and>
    st_vertical_blank (ppu_status_flags (fst t)) \<and> \<not> cpu_nmi_flag (snd (snd t))"
proof -
  have "bus_ok (new_ppu\<lparr>ppu_scanline := 241, ppu_cycle := 0\<rparr>, sample_mapper, cpu0)"
    using new_ppu_ok by (simp add: bus_ok_def ppu_ok_defs dot_ok_def)
  moreover have "\<not> cpu_nmi_flag cpu0" by (simp add: cpu0_def)
  ultimately show ?thesis
    using vblank_begins [of "(new_ppu\<lparr>ppu_scanline := 241, ppu_cycle := 0\<rparr>, sample_mapper, cpu0)"]
    by (auto simp: new_ppu_fields control0_def)
qed

text \<open>
  C21: reading $2002 in the dot before the flag is set loses the vertical blank of that frame:
  the flag reads as it was, it is not set in the next dot and no NMI is requested.
\<close>

theorem status_race_suppresses_nmi:
  assumes "bus_ok s" "ppu_scanline (fst s) = 241" "ppu_cycle (fst s) = 0" "addr AND 7 = 2"
  shows "\<exists>v t u. ppu_read_ram addr s = Some (v, t) \<and> (bit v 7 \<longleftrightarrow> st_vertical_blank (ppu_status_flags (fst s))) \<and>
    ppu_exec t = Some u \<and> \<not> st_vertical_blank (ppu_status_flags (fst u)) \<and> \<not> cpu_nmi_flag (snd (snd u))"
proof -
  let ?t0 = "update_status_flag (on_ppu (\<lambda>p. p\<lparr>ppu_write_toggle := False\<rparr>) s)"
  obtain p m c where s: "s = (p, m, c)" by (cases s)
  have n: "ppu_nmi_scanline p = 241" "ppu_scanline p = 241" "ppu_cycle p = 0"
    using assms(1-3) by (simp_all add: s bus_ok_def ppu_okD)
  obtain v t where rd: "ppu_read_ram addr s = Some (v, t)" and k: "bus_keeps s t"
    using ppu_read_ram_ok [OF assms(1), of addr] by (auto simp: ok_iff)
  then obtain q where q: "apply_open_bus 0x1F (status_byte (ppu_status_flags p)) (fst ?t0) = Some (v, q)"
    and t: "t = (q, snd ?t0)"
    using assms(4) by (auto simp: ppu_read_ram_def bind_eq_Some_conv s)
  have fl: "flags_of q = flags_of (fst ?t0)"
    using q by (auto simp: apply_open_bus_def set_open_bus_def bind_eq_Some_conv flags_of_def split: if_splits)
  have st: "\<not> st_vertical_blank (ppu_status_flags q)" "ppu_prevent_vbl_flag q" "\<not> cpu_nmi_flag (snd (snd t))"
    using fl n by (simp_all add: t s flags_of_def update_status_flag_def on_ppu_def on_cpu_def set_vblank_def clear_nmi_flag_def)
  have "bit v 7 \<longleftrightarrow> bit (status_byte (ppu_status_flags p)) 7"
  proof -
    from q have "v = status_byte (ppu_status_flags p) OR (ppu_open_bus q AND 0x1F)"
      by (auto simp: apply_open_bus_def bind_eq_Some_conv)
    then show ?thesis by (simp add: bit_or_iff bit_and_iff)
  qed
  also have "\<dots> \<longleftrightarrow> st_vertical_blank (ppu_status_flags p)"
    by (auto simp: status_byte_def bit_or_iff bit_push_bit_iff of_flag_def bit_1_iff)
  finally have v: "bit v 7 \<longleftrightarrow> st_vertical_blank (ppu_status_flags (fst s))" by (simp add: s)
  have "bus_ok t" "ppu_scanline (fst t) = 241" "ppu_cycle (fst t) = 0"
    using bus_keeps_ok [OF k] k n by (simp_all add: bus_keeps_def keeps_def clock_of_def time_of_def s)
  from exec_line_241 [OF this] have "ok (ppu_exec t) (\<lambda>u. \<not> st_vertical_blank (ppu_status_flags (fst u)) \<and> \<not> cpu_nmi_flag (snd (snd u)))"
    using st by (auto simp: t nmi_view_def vblank_dot_def Let_def on_ppu_def elim!: ok_mono split: if_splits)
  with rd v show ?thesis by (auto simp: ok_iff)
qed

lemma status_race_suppresses_nmi_witness:
  "\<exists>v t u. ppu_read_ram 0x2002 (new_ppu\<lparr>ppu_scanline := 241, ppu_cycle := 0\<rparr>, sample_mapper, cpu0) = Some (v, t) \<and>
    (bit v 7 \<longleftrightarrow> st_vertical_blank status0) \<and>
    ppu_exec t = Some u \<and> \<not> st_vertical_blank (ppu_status_flags (fst u)) \<and> \<not> cpu_nmi_flag (snd (snd u))"
proof -
  have "bus_ok (new_ppu\<lparr>ppu_scanline := 241, ppu_cycle := 0\<rparr>, sample_mapper, cpu0)"
    using new_ppu_ok by (simp add: bus_ok_def ppu_ok_defs dot_ok_def)
  from status_race_suppresses_nmi [OF this, of "0x2002"] show ?thesis
    by (simp only: fst_conv) (simp add: new_ppu_fields)
qed

section \<open>Scrolling\<close>

text \<open>
  C22: the two scroll increments are counters over the plane of four nametables: the
  horizontal one counts tiles modulo 64 and the vertical one pixel rows modulo 480, each
  without touching the other's fields, for every address whose coarse row is one of the 30
  rows of a nametable.
\<close>

theorem scroll_counters:
  assumes "unat (field 5 5 (ppu_video_ram_addr p)) < 30"
  shows "hpos (ppu_video_ram_addr (inc_horizontal_scrolling p)) = (hpos (ppu_video_ram_addr p) + 1) mod 64 \<and>
    vpos (ppu_video_ram_addr (inc_horizontal_scrolling p)) = vpos (ppu_video_ram_addr p) \<and>
    vpos (ppu_video_ram_addr (inc_vertical_scrolling p)) = (vpos (ppu_video_ram_addr p) + 1) mod 480 \<and>
    hpos (ppu_video_ram_addr (inc_vertical_scrolling p)) = hpos (ppu_video_ram_addr p)"
  using horizontal_step_counts [of "ppu_video_ram_addr p"] vertical_step_counts [OF assms]
    vpos_horizontal_step [of "ppu_video_ram_addr p"]
  by (simp add: inc_horizontal_scrolling_def inc_vertical_scrolling_def hpos_def)

lemma scroll_counters_witness:
  "vpos (ppu_video_ram_addr (inc_vertical_scrolling (new_ppu\<lparr>ppu_video_ram_addr := 0x7BBF\<rparr>))) = 0"
  using scroll_counters [of "new_ppu\<lparr>ppu_video_ram_addr := 0x7BBF\<rparr>"]
  by (simp add: vpos_def field_def take_bit_eq_mod drop_bit_eq_div)

section \<open>Open bus\<close>

text \<open>
  C23: the open bus, bit by bit: a driven bit takes the value driven and is dated, another
  bit keeps its charge for three frames and then reads as zero.
\<close>

theorem open_bus_decays:
  assumes "length (ppu_open_bus_decay_stamp p) = 8"
  shows "\<exists>p'. set_open_bus msk val p = Some p' \<and>
    (\<forall>n \<in> {0..<8}. bit (ppu_open_bus p') n =
        (if bit msk n then bit val n
         else bit (ppu_open_bus p) n \<and> ppu_frame_count p - ppu_open_bus_decay_stamp p ! n \<le> 3) \<and>
      ppu_open_bus_decay_stamp p' ! n =
        (if bit msk n then ppu_frame_count p else ppu_open_bus_decay_stamp p ! n))"
  using set_open_bus_bits [OF assms, of msk val] by (fastforce simp: open_bus_bit_def open_bus_stamp_def)

lemma open_bus_decays_witness:
  "\<exists>p'. set_open_bus 0xE0 0x80 new_ppu = Some p' \<and>
    (\<forall>n \<in> {0..<8}. bit (ppu_open_bus p') n =
        (if bit (0xE0 :: u8) n then bit (0x80 :: u8) n
         else bit (ppu_open_bus new_ppu) n \<and> ppu_frame_count new_ppu - ppu_open_bus_decay_stamp new_ppu ! n \<le> 3) \<and>
      ppu_open_bus_decay_stamp p' ! n =
        (if bit (0xE0 :: u8) n then ppu_frame_count new_ppu else ppu_open_bus_decay_stamp new_ppu ! n))"
  by (rule open_bus_decays) (simp add: ppu_okD(1) [OF new_ppu_ok])

section \<open>Palette\<close>

text \<open>The cell of the palette an address names: the sprite backdrops are the background's.\<close>

definition palette_cell :: "u16 \<Rightarrow> nat" where
  "palette_cell a = (let i = unat a mod 32 in if i \<in> {16, 20, 24, 28} then i - 16 else i)"

lemma palette_byte: "unat (ucast (a AND 0x1F) :: u8) = unat (a :: u16) mod 32"
proof -
  have m: "(0x1F :: u16) = mask 5" by (simp add: mask_eq_exp_minus_1)
  have "a AND 0x1F = take_bit 5 a" unfolding m take_bit_eq_mask ..
  then have "unat (a AND 0x1F) = take_bit 5 (unat a)" by (simp only: unsigned_take_bit_eq)
  then have "unat (a AND 0x1F) = unat a mod 32" by (simp only: take_bit_eq_mod) simp
  then show ?thesis by (simp add: unsigned_ucast_eq take_bit_nat_eq_self order_less_trans [OF mod_less_divisor])
qed

lemma palette_index: "unat (palette_read_index a) = palette_cell a"
proof -
  let ?i = "ucast (a AND 0x1F) :: u8"
  have e: "?i = w \<longleftrightarrow> unat a mod 32 = unat w" for w using palette_byte [of a] by (metis word_unat_eq_iff)
  have "palette_read_index a = (if ?i = 0x10 then 0 else if ?i = 0x14 then 4 else if ?i = 0x18 then 8
      else if ?i = 0x1C then 0x0C else ?i)"
    by (simp add: palette_read_index_def Let_def)
  then show ?thesis
    unfolding e using palette_byte [of a] by (simp add: palette_cell_def Let_def)
qed

lemma palette_cell_range: "palette_cell b < 32" "palette_cell b \<notin> {16, 20, 24, 28}"
  by (auto simp: palette_cell_def Let_def intro: order_less_trans [OF mod_less_divisor])

text \<open>A write goes to the cell of the address and, for a backdrop, to its mirror.\<close>

lemma palette_stored:
  assumes "length (ppu_palette_ram p) = 32"
  shows "\<exists>ram. palette_write a v p = Some (p\<lparr>ppu_palette_ram := ram\<rparr>) \<and> length ram = 32 \<and>
    (\<forall>j. j < 32 \<longrightarrow> j \<notin> {16, 20, 24, 28} \<longrightarrow>
      ram ! j = (if palette_cell a = j then v AND 0x3F else ppu_palette_ram p ! j))"
proof -
  define k where "k = unat a mod 32"
  have k: "k < 32" by (simp add: k_def)
  have cell: "palette_cell a = (if k \<in> {16, 20, 24, 28} then k - 16 else k)"
    by (simp add: palette_cell_def Let_def k_def)
  let ?r = "ppu_palette_ram p" and ?w = "v AND 0x3F"
  note def = palette_write_def palette_byte Let_def k_def [symmetric]
  have "k \<in> {0, 16} \<or> k \<in> {4, 20} \<or> k \<in> {8, 24} \<or> k \<in> {12, 28} \<or> k \<notin> {0, 4, 8, 12, 16, 20, 24, 28}"
    by auto
  then consider x where "x \<in> {0, 4, 8, 12}" "k = x \<or> k = x + 16" | "k \<notin> {0, 4, 8, 12, 16, 20, 24, 28}"
    by (elim disjE) (use that(1) [of 0] that(1) [of 4] that(1) [of 8] that(1) [of 12] that(2) in simp_all)
  then show ?thesis
  proof cases
    case 1
    then have w: "palette_write a v p = Some (p\<lparr>ppu_palette_ram := ?r[x := ?w, x + 16 := ?w]\<rparr>)"
      unfolding def using assms
      by (simp only: insert_iff empty_iff) (elim disjE; simp)
    have "palette_cell a = x" unfolding cell using 1 by auto
    moreover have "x + 16 \<noteq> j" if "j \<notin> {16, 20, 24, 28}" for j using 1(1) that by auto
    ultimately show ?thesis using assms unfolding w
      by (intro exI [of _ "?r[x := ?w, x + 16 := ?w]"] conjI allI impI refl) (simp_all add: nth_list_update)
  next
    case 2
    then have "palette_write a v p = Some (p\<lparr>ppu_palette_ram := ?r[k := ?w]\<rparr>)"
      unfolding def using assms k by simp
    moreover have "palette_cell a = k" unfolding cell using 2 by simp
    ultimately show ?thesis using assms k
      by (intro exI [of _ "?r[k := ?w]"] conjI allI impI) (simp_all add: nth_list_update)
  qed
qed

text \<open>
  C24: a palette write is read back, as a 6-bit colour under the greyscale mask with the open bus in the upper two
  bits, at every address of the same cell, the backdrop of the sprites being that of the
  background; no other cell changes.
\<close>

theorem palette_write_read:
  assumes "length (ppu_palette_ram p) = 32"
  shows "\<exists>p'. palette_write a v p = Some p' \<and>
    palette_read b p' = (if palette_cell a = palette_cell b
      then Some (((v AND 0x3F) AND ppu_palette_ram_mask p) OR (ppu_open_bus p AND 0xC0))
      else palette_read b p)"
proof -
  from palette_stored [OF assms, of a v] obtain ram where w: "palette_write a v p = Some (p\<lparr>ppu_palette_ram := ram\<rparr>)"
    "length ram = 32" "ram ! palette_cell b =
      (if palette_cell a = palette_cell b then v AND 0x3F else ppu_palette_ram p ! palette_cell b)"
    using palette_cell_range [of b] by blast
  then show ?thesis
    using assms palette_cell_range [of b] by (simp add: palette_read_def palette_index)
qed

lemma palette_write_read_witness:
  "\<exists>p'. palette_write 0x3F10 0x7F new_ppu = Some p' \<and> palette_read 0x3F00 p' = Some 0x3F"
  using palette_write_read [of new_ppu "0x3F10" "0x7F" "0x3F00"] ppu_okD(2) [OF new_ppu_ok]
  by (simp add: palette_cell_def new_ppu_def ppu_reset_def Let_def update_minimum_draw_cycles_def)

end
