(* ===== verification/Mapper_Factory.thy ===== *)
theory Mapper_Factory
  imports Mapper_Safety
begin

text \<open>
  \<^verbatim>\<open>MapperFactory\<close> (\<^verbatim>\<open>src/systems/nes/mappers/mapper_factory.cpp\<close>): the mapper numbers
  the emulator knows and the board it makes for each of them.
\<close>

text \<open>The case labels of \<^verbatim>\<open>is_supported\<close>.\<close>

definition supported_mappers :: "nat list" where
  "supported_mappers =
     [0, 1, 2, 3, 4, 5, 6, 7, 8, 9, 10, 11, 13, 15, 16, 17, 18, 19, 21, 22, 23, 24, 25, 26,
      32, 33, 34, 35, 38, 39, 41, 58, 60, 61, 62, 64, 65, 66, 67, 68, 69, 70, 72, 73, 74, 75, 76, 78, 79,
      86, 87, 88, 89, 90, 92, 93, 94, 95, 99, 101, 113, 133, 140, 143, 144,
      117, 118, 145, 146, 148, 149, 150, 151, 154, 153, 156, 157, 159,
      40, 42, 43, 45, 46, 50, 57, 71, 77, 107, 112, 170, 174, 180, 184, 185,
      200, 202, 203, 204, 206, 210, 213, 214, 216, 221, 225, 226, 227, 229, 230, 231, 233,
      240, 241, 242, 243, 244, 245, 246, 252]"

definition is_supported :: "nat \<Rightarrow> bool" where
  "is_supported mapper_number \<longleftrightarrow> mapper_number \<in> set supported_mappers"

text \<open>
  The boards of this development, by number; a number of no case makes the board 000.
\<close>

definition board_table :: "(nat \<times> mapper_chip) list" where
  "board_table =
     [(0, Mapper000 False), (1, Mapper001 mmc1_0), (2, Mapper002), (3, Mapper003), (4, Mapper004 mmc3_0),
      (7, Mapper007), (11, Mapper011), (144, Mapper011), (13, Mapper013), (34, Mapper034), (66, Mapper066)]"

text \<open>
  \<^verbatim>\<open>create\<close>: \<open>None\<close> when the number is that of a supported board that is not modelled.
\<close>

definition mapper_create :: "nat \<Rightarrow> mapper option" where
  "mapper_create mapper_number =
     (case map_of board_table mapper_number of
        Some k \<Rightarrow> Some (new_mapper k)
      | None \<Rightarrow> if is_supported mapper_number then None else Some (new_mapper (Mapper000 False)))"

lemma create_new:
  assumes "mapper_create n = Some m"
  obtains k where "m = new_mapper k" "\<And>c. k = Mapper004 c \<Longrightarrow> m3_current_register c < 8"
proof -
  have "\<exists>k. m = new_mapper k \<and> (\<forall>c. k = Mapper004 c \<longrightarrow> m3_current_register c < 8)"
  proof (cases "map_of board_table n")
    case None
    with assms show ?thesis by (auto simp: mapper_create_def split: if_splits)
  next
    case (Some k)
    then have "k \<in> set (map snd board_table)" by (force dest: map_of_SomeD)
    then have "\<forall>c. k = Mapper004 c \<longrightarrow> m3_current_register c < 8"
      by (auto simp: board_table_def mmc3_0_def)
    with Some assms show ?thesis by (auto simp: mapper_create_def)
  qed
  with that show ?thesis by blast
qed

text \<open>Every board that the factory makes here is one it says it supports.\<close>

lemma table_supported: "n \<in> fst ` set board_table \<Longrightarrow> is_supported n"
  by (auto simp: board_table_def is_supported_def supported_mappers_def)

end
