(* ===== verification/Ines_Loader.thy ===== *)
theory Ines_Loader
  imports Nes_Types
begin

text \<open>
  \<^verbatim>\<open>INesLoader\<close> (\<^verbatim>\<open>src/systems/nes/ines_loader.cpp\<close>): the magic number and the sixteen
  bytes of header of a ROM image. An image is the list of its bytes.
\<close>

definition is_valid :: "u8 list \<Rightarrow> bool" where
  "is_valid data \<longleftrightarrow>
     (if length data < 16 then False
      else data ! 0 = 0x4E \<and> data ! 1 = 0x45 \<and> data ! 2 = 0x53 \<and> data ! 3 = 0x1A)"

definition parse_header :: "u8 list \<Rightarrow> rom_info option" where
  "parse_header data = do {
     d4 \<leftarrow> rd data 4;
     d5 \<leftarrow> rd data 5;
     d6 \<leftarrow> rd data 6;
     d7 \<leftarrow> rd data 7;
     d8 \<leftarrow> rd data 8;
     let is_nes20 = (d7 AND 0x0C = 0x08);
     let is_old_ines = (\<not> is_nes20 \<and> d7 AND 0x0C \<noteq> 0);
     Some (rom_info0\<lparr>ri_prg_banks := unat d4, ri_chr_banks := unat d5,
       ri_mapper_number :=
         (if is_nes20
          then unat (push_bit 8 (ucast (d8 AND 0x0F)) OR ucast (d7 AND 0xF0) OR ucast (drop_bit 4 d6) :: u32)
          else if is_old_ines then unat (drop_bit 4 d6)
          else unat (drop_bit 4 d6 OR (d7 AND 0xF0))),
       ri_submapper_id := (if is_nes20 then uint (drop_bit 4 d8) else 0),
       ri_has_battery := d6 AND 0x02 \<noteq> 0, ri_has_trainer := d6 AND 0x04 \<noteq> 0,
       ri_mirroring :=
         (if d6 AND 0x08 \<noteq> 0 then FOUR_SCREENS else if d6 AND 0x01 \<noteq> 0 then VERTICAL else HORIZONTAL),
       ri_work_ram_size := (if \<not> is_nes20 \<and> \<not> is_old_ines \<and> d8 > 0 then uint d8 * 8 else 0),
       ri_is_vs_system := False, ri_use_vs_palette := \<not> is_old_ines \<and> d7 AND 0x01 \<noteq> 0\<rparr>) }"

section \<open>What the header holds\<close>

lemma parse_header_total: "is_valid data \<Longrightarrow> \<exists>info. parse_header data = Some info"
  by (auto simp: is_valid_def parse_header_def Let_def split: if_splits)

text \<open>The bank counts are bytes, the mapper number has twelve bits.\<close>

lemma nibble_bit: "bit (0x0F :: 'a::len word) n \<Longrightarrow> n < 4"
  using bit_mask_iff [of 4 n, where 'a = "'a word"] by (simp add: mask_eq_exp_minus_1)

lemma nibbles:
  assumes "\<And>n. bit (x :: u8) n \<Longrightarrow> n < 4"
  shows "unat (push_bit 8 (ucast x) OR ucast (y :: u8) OR ucast (z :: u8) :: u32) < 4096"
proof -
  let ?w = "push_bit 8 (ucast x) OR ucast y OR ucast z :: u32"
  have b: "bit (u :: u8) n \<Longrightarrow> n < 12" for u n using bit_imp_le_length [of u n] by simp
  have "n < 12" if "bit ?w n" for n
  proof -
    from that have "8 \<le> n \<and> bit x (n - 8) \<or> bit y n \<or> bit z n"
      by (auto simp: bit_or_iff bit_push_bit_iff bit_ucast_iff)
    then show ?thesis
    proof (elim disjE conjE)
      assume "8 \<le> n" "bit x (n - 8)"
      from assms [OF this(2)] show "n < 12" by simp
    qed (rule b, assumption)+
  qed
  then have e: "take_bit 12 ?w = ?w" by (intro bit_word_eqI, unfold bit_take_bit_iff) blast
  have "unat ?w = unat (take_bit 12 ?w)" by (simp only: e)
  also have "\<dots> = take_bit 12 (unat ?w)" by (rule unsigned_take_bit_eq)
  also have "\<dots> < 2 ^ 12" by (rule take_bit_nat_less_exp)
  finally show ?thesis by simp
qed

lemmas nibble_less = nibbles [of "a AND 0x0F" "b AND 0xF0" "drop_bit 4 c" for a b c,
  OF nibble_bit [OF conjunct2 [OF iffD1 [OF bit_and_iff]]]]

lemma parse_header_facts:
  assumes "parse_header data = Some info"
  shows "ri_prg_banks info = unat (data ! 4)" "ri_chr_banks info = unat (data ! 5)" "9 \<le> length data"
    "ri_has_trainer info \<longleftrightarrow> data ! 6 AND 0x04 \<noteq> 0" "ri_mapper_number info < 4096"
    "ri_bus_conflicts info = BUS_DEFAULT" "0 \<le> ri_work_ram_size info \<and> ri_work_ram_size info \<le> 2040"
proof -
  have b: "unat (w :: u8) < 4096" for w using unsigned_less [where 'a = nat, of w] by simp
  have u: "uint (w :: u8) \<le> 255" for w using uint_lt2p [of w] by simp
  have l: "9 \<le> length data"
    using assms by (auto simp: parse_header_def bind_eq_Some_conv rd_def split: if_splits)
  then show "9 \<le> length data" .
  from assms show "ri_prg_banks info = unat (data ! 4)" "ri_chr_banks info = unat (data ! 5)"
    "ri_has_trainer info \<longleftrightarrow> data ! 6 AND 0x04 \<noteq> 0" "ri_bus_conflicts info = BUS_DEFAULT"
    using l by (auto simp: parse_header_def Let_def rom_info0_def)
  show "ri_mapper_number info < 4096" "0 \<le> ri_work_ram_size info \<and> ri_work_ram_size info \<le> 2040"
    using assms l nibble_less b u by (auto simp: parse_header_def Let_def rom_info0_def)
qed

end
