(* ===== verification/Nes_Db.thy ===== *)
theory Nes_Db
  imports Ines_Loader "HOL-Library.Char_ord"
begin

text \<open>
  The checksum of a ROM and the database of \<^verbatim>\<open>nes_console.cpp\<close> that corrects the header by
  it: the text of the database is parsed into a map from checksums to entries. The text
  itself is generated from a data file when the program is built; it is a parameter.
\<close>

section \<open>CRC-32\<close>

definition crc32_bit :: "u32 \<Rightarrow> u32" where
  "crc32_bit crc = drop_bit 1 crc XOR (0xEDB88320 AND (- (crc AND 1)))"

definition crc32_byte :: "u8 \<Rightarrow> u32 \<Rightarrow> u32" where
  "crc32_byte b crc = (crc32_bit ^^ 8) (crc XOR ucast b)"

definition crc32_update :: "u32 \<Rightarrow> u8 list \<Rightarrow> u32" where
  "crc32_update crc data = NOT (fold crc32_byte data (NOT crc))"

section \<open>Text\<close>

lemma dropWhile_shorter: "dropWhile p xs = y # ys \<Longrightarrow> length ys < length xs"
  using length_dropWhile_le [of p xs] by simp

text \<open>\<^verbatim>\<open>while (std::getline(in, part, delim))\<close>: a final delimiter opens no further part.\<close>

function getlines :: "char \<Rightarrow> string \<Rightarrow> string list" where
  "getlines delim cs =
     (if cs = [] then []
      else takeWhile (\<lambda>c. c \<noteq> delim) cs #
        (case dropWhile (\<lambda>c. c \<noteq> delim) cs of [] \<Rightarrow> [] | _ # rest \<Rightarrow> getlines delim rest))"
  by auto

termination
  by (relation "measure (\<lambda>(_, cs). length cs)") (simp_all add: dropWhile_shorter)

declare getlines.simps [simp del]

lemma getlines_Nil [simp]: "getlines d [] = []"
  by (simp add: getlines.simps)

definition is_space :: "char \<Rightarrow> bool" where
  "is_space c \<longleftrightarrow> c = CHR '' '' \<or> c = CHR 0x09 \<or> c = CHR 0x0A \<or> c = CHR 0x0B \<or> c = CHR 0x0C \<or> c = CHR 0x0D"

text \<open>The value of a digit in the given base.\<close>

definition digit_value :: "nat \<Rightarrow> char \<Rightarrow> nat option" where
  "digit_value base c =
     (let n = of_char c :: nat;
          d = (if 48 \<le> n \<and> n \<le> 57 then Some (n - 48) else if 97 \<le> n \<and> n \<le> 122 then Some (n - 87)
               else if 65 \<le> n \<and> n \<le> 90 then Some (n - 55) else None)
      in case d of Some v \<Rightarrow> if v < base then Some v else None | None \<Rightarrow> None)"

fun digits_value :: "nat \<Rightarrow> nat \<Rightarrow> string \<Rightarrow> nat" where
  "digits_value base acc [] = acc"
| "digits_value base acc (c # cs) =
     (case digit_value base c of Some d \<Rightarrow> digits_value base (acc * base + d) cs | None \<Rightarrow> acc)"

text \<open>Leading white space and the sign, common to \<^verbatim>\<open>strtoul\<close> and \<^verbatim>\<open>atoi\<close>.\<close>

definition read_sign :: "string \<Rightarrow> bool \<times> string" where
  "read_sign s =
     (case dropWhile is_space s of
        c # cs \<Rightarrow> if c = CHR ''-'' then (True, cs) else if c = CHR ''+'' then (False, cs) else (False, c # cs)
      | [] \<Rightarrow> (False, []))"

text \<open>\<^verbatim>\<open>static_cast<uint32_t>(strtoul(s, nullptr, 16))\<close>; a value out of range saturates.\<close>

definition strtoul16 :: "string \<Rightarrow> u32" where
  "strtoul16 s =
     (let (neg, cs) = read_sign s;
          cs = (case cs of c # x # h # rest \<Rightarrow>
                  if c = CHR ''0'' \<and> (x = CHR ''x'' \<or> x = CHR ''X'') \<and> digit_value 16 h \<noteq> None
                  then h # rest else cs
                | _ \<Rightarrow> cs);
          n = digits_value 16 0 cs
      in if n \<ge> 2 ^ 64 then - 1 else if neg then - of_nat n else of_nat n)"

text \<open>\<^verbatim>\<open>std::atoi\<close>; its behaviour is undefined when the number does not fit an \<^verbatim>\<open>int\<close>.\<close>

definition atoi :: "string \<Rightarrow> int option" where
  "atoi s =
     (let (neg, cs) = read_sign s;
          n = (if neg then - int (digits_value 10 0 cs) else int (digits_value 10 0 cs))
      in if - (2 ^ 31) \<le> n \<and> n < 2 ^ 31 then Some n else None)"

section \<open>Entries\<close>

text \<open>\<^verbatim>\<open>NesDbEntry\<close>: a member with its \<^verbatim>\<open>has_\<close> flag is an option.\<close>

record nes_db_entry =
  ne_mapper :: "nat option"
  ne_battery :: "bool option"
  ne_bus_conflicts :: "bus_conflict_type option"
  ne_submapper :: "int option"
  ne_input_type :: "int option"
  ne_ppu_model :: "int option"
  ne_is_vs_system :: bool
  ne_mirroring :: "mirroring_type option"
  ne_work_ram_size :: int
  ne_chip :: string

definition FIELD_CRC :: nat where "FIELD_CRC = 0"
definition FIELD_SYSTEM :: nat where "FIELD_SYSTEM = 1"
definition FIELD_CHIP :: nat where "FIELD_CHIP = 4"
definition FIELD_MAPPER :: nat where "FIELD_MAPPER = 5"
definition FIELD_WORK_RAM_SIZE :: nat where "FIELD_WORK_RAM_SIZE = 9"
definition FIELD_BATTERY :: nat where "FIELD_BATTERY = 11"
definition FIELD_MIRRORING :: nat where "FIELD_MIRRORING = 12"
definition FIELD_INPUT_TYPE :: nat where "FIELD_INPUT_TYPE = 13"
definition FIELD_BUS_CONFLICTS :: nat where "FIELD_BUS_CONFLICTS = 14"
definition FIELD_SUB_MAPPER :: nat where "FIELD_SUB_MAPPER = 15"
definition FIELD_PPU_MODEL :: nat where "FIELD_PPU_MODEL = 17"

lemmas field_defs = FIELD_CRC_def FIELD_SYSTEM_def FIELD_CHIP_def FIELD_MAPPER_def FIELD_WORK_RAM_SIZE_def
  FIELD_BATTERY_def FIELD_MIRRORING_def FIELD_INPUT_TYPE_def FIELD_BUS_CONFLICTS_def FIELD_SUB_MAPPER_def
  FIELD_PPU_MODEL_def

text \<open>\<^verbatim>\<open>if (fields.size() > n && !fields[n].empty())\<close> around a member's conversion.\<close>

definition number_field :: "string list \<Rightarrow> nat \<Rightarrow> (int \<Rightarrow> 'a option) \<Rightarrow> 'a option option" where
  "number_field cells n f =
     (if n < length cells \<and> cells ! n \<noteq> [] then map_option f (atoi (cells ! n)) else Some None)"

definition parse_entry :: "string list \<Rightarrow> nes_db_entry option" where
  "parse_entry cells = do {
     mapper \<leftarrow> number_field cells FIELD_MAPPER (\<lambda>n. if 0 \<le> n \<and> n < 1024 then Some (nat n) else None);
     battery \<leftarrow> number_field cells FIELD_BATTERY (\<lambda>n. Some (n \<noteq> 0));
     bus \<leftarrow> number_field cells FIELD_BUS_CONFLICTS
       (\<lambda>n. Some (if n = 1 then BUS_YES else if n = 0 then BUS_NO else BUS_DEFAULT));
     sub \<leftarrow> number_field cells FIELD_SUB_MAPPER Some;
     input \<leftarrow> number_field cells FIELD_INPUT_TYPE Some;
     work \<leftarrow> number_field cells FIELD_WORK_RAM_SIZE Some;
     model \<leftarrow> number_field cells FIELD_PPU_MODEL Some;
     m \<leftarrow> rd cells FIELD_MIRRORING;
     chip \<leftarrow> rd cells FIELD_CHIP;
     sys \<leftarrow> rd cells FIELD_SYSTEM;
     Some \<lparr>ne_mapper = mapper, ne_battery = battery, ne_bus_conflicts = bus, ne_submapper = sub,
       ne_input_type = input, ne_ppu_model = model, ne_is_vs_system = (sys = ''VsSystem''),
       ne_mirroring = (if m = ''h'' then Some HORIZONTAL else if m = ''v'' then Some VERTICAL
         else if m = ''4'' then Some FOUR_SCREENS else None),
       ne_work_ram_size = (case work of Some n \<Rightarrow> n | None \<Rightarrow> 0), ne_chip = chip\<rparr> }"

text \<open>One line of the text: comments, short lines and a checksum of zero are skipped.\<close>

definition db_line :: "string \<Rightarrow> (u32 \<rightharpoonup> nes_db_entry) \<Rightarrow> (u32 \<rightharpoonup> nes_db_entry) option" where
  "db_line line db =
     (if line = [] \<or> hd line = CHR ''#'' then Some db
      else let cells = getlines (CHR '','') line in
        if length cells < 14 then Some db
        else let crc = strtoul16 (cells ! FIELD_CRC) in
          if crc = 0 then Some db
          else map_option (\<lambda>e. db(crc \<mapsto> e)) (parse_entry cells))"

definition parse_db :: "string \<Rightarrow> (u32 \<rightharpoonup> nes_db_entry) option" where
  "parse_db db_text = for_each db_line (getlines (CHR 0x0A) db_text) (\<lambda>_. None)"

section \<open>Overrides\<close>

definition vs_models :: "vs_ppu_model list" where
  "vs_models = [PPU_2C02, PPU_2C03, PPU_2C04A, PPU_2C04B, PPU_2C04C, PPU_2C04D,
     PPU_2C05A, PPU_2C05B, PPU_2C05C, PPU_2C05D, PPU_2C05E]"

definition override_model :: "int \<Rightarrow> rom_info \<Rightarrow> rom_info" where
  "override_model n info =
     (if n = 1 then info\<lparr>ri_vs_ppu_model := PPU_2C03, ri_use_vs_palette := True\<rparr>
      else if 2 \<le> n \<and> n \<le> 10 then info\<lparr>ri_vs_ppu_model := vs_models ! nat n, ri_use_vs_palette := True\<rparr>
      else info)"

definition override_input :: "int \<Rightarrow> rom_info \<Rightarrow> rom_info" where
  "override_input n info =
     (if n = 7 then info\<lparr>ri_input_type := VS_ZAPPER\<rparr>
      else if n = 8 then info\<lparr>ri_input_type := ZAPPER\<rparr>
      else if n = 1 then info\<lparr>ri_input_type := STANDARD_CONTROLLERS\<rparr>
      else info)"

definition opt_apply :: "('a \<Rightarrow> 'b \<Rightarrow> 'b) \<Rightarrow> 'a option \<Rightarrow> 'b \<Rightarrow> 'b" where
  "opt_apply f x info = (case x of Some v \<Rightarrow> f v info | None \<Rightarrow> info)"

definition apply_entry :: "nes_db_entry \<Rightarrow> rom_info \<Rightarrow> rom_info" where
  "apply_entry e info =
     (let info = opt_apply (\<lambda>v i. i\<lparr>ri_mapper_number := v\<rparr>) (ne_mapper e) info;
          info = (if ne_work_ram_size e > 0 then info\<lparr>ri_work_ram_size := ne_work_ram_size e\<rparr> else info);
          info = opt_apply (\<lambda>v i. i\<lparr>ri_has_battery := v\<rparr>) (ne_battery e) info;
          info = opt_apply (\<lambda>v i. i\<lparr>ri_bus_conflicts := v\<rparr>) (ne_bus_conflicts e) info;
          info = opt_apply (\<lambda>v i. i\<lparr>ri_submapper_id := v\<rparr>) (ne_submapper e) info;
          info = (if ne_chip e \<noteq> [] then info\<lparr>ri_chip := ne_chip e\<rparr> else info);
          info = (if ne_is_vs_system e then info\<lparr>ri_is_vs_system := True, ri_use_vs_palette := True\<rparr> else info);
          info = opt_apply override_model (ne_ppu_model e) info;
          info = opt_apply override_input (ne_input_type e) info
      in opt_apply (\<lambda>v i. i\<lparr>ri_mirroring := v\<rparr>) (ne_mirroring e) info)"

definition apply_nesdb_overrides :: "string \<Rightarrow> u32 \<Rightarrow> rom_info \<Rightarrow> rom_info option" where
  "apply_nesdb_overrides db_text crc info = do {
     db \<leftarrow> parse_db db_text;
     Some (case db crc of None \<Rightarrow> info | Some e \<Rightarrow> apply_entry e info) }"

text \<open>The overrides never touch what decides where the ROM lies in the image.\<close>

lemma opt_apply_keep: "(\<And>v i. g (f v i) = g i) \<Longrightarrow> g (opt_apply f x i) = g i"
  by (cases x) (simp_all add: opt_apply_def)

lemma override_layout:
  "ri_prg_banks (override_model n i) = ri_prg_banks i" "ri_prg_banks (override_input n i) = ri_prg_banks i"
  "ri_chr_banks (override_model n i) = ri_chr_banks i" "ri_chr_banks (override_input n i) = ri_chr_banks i"
  "ri_has_trainer (override_model n i) = ri_has_trainer i" "ri_has_trainer (override_input n i) = ri_has_trainer i"
  by (simp_all add: override_model_def override_input_def)

lemma apply_entry_layout:
  "ri_prg_banks (apply_entry e info) = ri_prg_banks info"
  "ri_chr_banks (apply_entry e info) = ri_chr_banks info"
  "ri_has_trainer (apply_entry e info) = ri_has_trainer info"
  unfolding apply_entry_def Let_def
  by (simp_all add: opt_apply_keep [of ri_prg_banks] opt_apply_keep [of ri_chr_banks]
      opt_apply_keep [of ri_has_trainer] override_layout)

lemma overrides_layout:
  assumes "apply_nesdb_overrides db crc info = Some info'"
  shows "ri_prg_banks info' = ri_prg_banks info" "ri_chr_banks info' = ri_chr_banks info"
    "ri_has_trainer info' = ri_has_trainer info"
  using assms by (auto simp: apply_nesdb_overrides_def bind_eq_Some_conv apply_entry_layout split: option.splits)

lemma overrides_empty [simp]: "apply_nesdb_overrides [] crc info = Some info"
  by (simp add: apply_nesdb_overrides_def parse_db_def)

end
