(* ===== verification/Control_Manager.thy ===== *)
theory Control_Manager
  imports Cpu_State
begin

text \<open>
  \<^verbatim>\<open>NesControlManager\<close> and \<^verbatim>\<open>VsControlManager\<close> (\<^verbatim>\<open>nes_control_manager.cpp\<close>,
  \<^verbatim>\<open>vs_control_manager.cpp\<close>): the serial controllers, the delayed strobe and the keyboard
  scanner at $4016 and $4017. One record holds both classes; \<open>ct_vs\<close> tells the derived
  one. \<open>ob\<close> is the external open bus of the memory manager, \<open>now\<close> the CPU's cycle count.
  The traces to \<^verbatim>\<open>stderr\<close> are left out.
\<close>

section \<open>State\<close>

text \<open>\<^verbatim>\<open>controller_read_pos_\<close> is an array of \<^verbatim>\<open>int\<close> that counts from 0 to 8.\<close>

record control =
  cm_vs :: bool
  cm_write_pending :: u8
  cm_write_addr :: u16
  cm_write_value :: u8
  cm_controller_state :: "u8 list"
  cm_controller_read_pos :: "nat list"
  cm_strobe :: bool
  cm_port2_zapper_enabled :: bool
  cm_cli_exp_bit3_mode :: bool
  cm_kb_row :: u8
  cm_kb_column :: u8
  cm_kb_enabled :: bool
  cm_dip_switches :: u32
  cm_protection_counter :: u32
  cm_prg_chr_select_bit :: u8

definition new_control :: "bool \<Rightarrow> control" where
  "new_control vs = \<lparr>cm_vs = vs, cm_write_pending = 0, cm_write_addr = 0, cm_write_value = 0,
     cm_controller_state = [0, 0], cm_controller_read_pos = [0, 0], cm_strobe = False,
     cm_port2_zapper_enabled = False, cm_cli_exp_bit3_mode = False, cm_kb_row = 0, cm_kb_column = 0,
     cm_kb_enabled = False, cm_dip_switches = 0, cm_protection_counter = 0, cm_prg_chr_select_bit = 0\<rparr>"

text \<open>
  \<^verbatim>\<open>NesControlManager::reset\<close>. It is not virtual and the console calls it through the base
  class, so that the \<^verbatim>\<open>reset\<close> of the Vs. class is never reached from there.
\<close>

definition control_reset :: "bool \<Rightarrow> control \<Rightarrow> control" where
  "control_reset soft c = c\<lparr>cm_write_pending := 0, cm_controller_state := [0, 0],
     cm_controller_read_pos := [0, 0], cm_strobe := False, cm_kb_row := 0, cm_kb_column := 0,
     cm_kb_enabled := False\<rparr>"

definition vs_control_reset :: "bool \<Rightarrow> control \<Rightarrow> control" where
  "vs_control_reset soft c =
     (control_reset soft c)\<lparr>cm_protection_counter := 0, cm_prg_chr_select_bit := 0\<rparr>"

definition set_cli_exp_bit3_mode :: "bool \<Rightarrow> control \<Rightarrow> control" where
  "set_cli_exp_bit3_mode enabled c = c\<lparr>cm_cli_exp_bit3_mode := enabled\<rparr>"

definition set_port2_zapper_enabled :: "bool \<Rightarrow> control \<Rightarrow> control" where
  "set_port2_zapper_enabled enabled c = c\<lparr>cm_port2_zapper_enabled := enabled\<rparr>"

section \<open>Buttons\<close>

text \<open>\<^verbatim>\<open>1 << button\<close> is undefined when \<open>button\<close> is negative or at least 32.\<close>

definition set_button_state :: "int \<Rightarrow> int \<Rightarrow> bool \<Rightarrow> control \<Rightarrow> control option" where
  "set_button_state port button pressed c =
     (if 0 \<le> port \<and> port < 2 then
        if 0 \<le> button \<and> button < 32 then do {
          st \<leftarrow> rd (cm_controller_state c) (nat port);
          let bitmask = (ucast (push_bit (nat button) 1 :: u32) :: u8);
          sts \<leftarrow> wr (cm_controller_state c) (nat port)
                   (if pressed then st OR bitmask else st AND NOT bitmask);
          Some (c\<lparr>cm_controller_state := sts\<rparr>) }
        else None
      else Some c)"

definition control_clear_all :: "control \<Rightarrow> control" where
  "control_clear_all c = c\<lparr>cm_controller_state := [0, 0]\<rparr>"

section \<open>Reading\<close>

definition get_open_bus_mask :: "u8 \<Rightarrow> control \<Rightarrow> u8" where
  "get_open_bus_mask port c = (if cm_vs c then 0x00 else 0xE0)"

definition get_active_keys :: "u8 \<Rightarrow> u8 \<Rightarrow> u8" where
  "get_active_keys row column = 0"

text \<open>The serial bit of a port, and the state after the shift.\<close>

definition serial_bit :: "nat \<Rightarrow> control \<Rightarrow> (u8 \<times> control) option" where
  "serial_bit port c = do {
     let muted = (port = 1 \<and> cm_cli_exp_bit3_mode c);
     state \<leftarrow> rd (cm_controller_state c) port;
     pos \<leftarrow> rd (cm_controller_read_pos c) port;
     if cm_strobe c then Some (if muted then 0 else state AND 1, c)
     else if pos < 8 then
       if muted then Some (0, c)
       else do {
         ps \<leftarrow> wr (cm_controller_read_pos c) port (pos + 1);
         Some (drop_bit pos state AND 1, c\<lparr>cm_controller_read_pos := ps\<rparr>) }
     else Some (if muted then 0 else 1, c) }"

definition base_control_read :: "u8 \<Rightarrow> u16 \<Rightarrow> control \<Rightarrow> (u8 \<times> control) option" where
  "base_control_read ob addr c =
     (if cm_port2_zapper_enabled c \<and> addr = 0x4017
      then Some ((ob AND get_open_bus_mask 1 c) OR 0x09, c)
      else do {
        let port = unat (addr AND 1);
        (bit0, c') \<leftarrow> serial_bit port c;
        let result = (ob AND get_open_bus_mask (of_nat port) c) OR bit0;
        let result =
          (if addr = 0x4017 then
             let r = (if cm_cli_exp_bit3_mode c then result OR 0x08 else result)
             in if cm_kb_enabled c
                then r OR (push_bit 1 (NOT (get_active_keys (cm_kb_row c) (cm_kb_column c))) AND 0x1E)
                else r
           else result);
        Some (result, c') })"

definition dip :: "nat \<Rightarrow> u8 \<Rightarrow> control \<Rightarrow> u8" where
  "dip n v c = (if bit (cm_dip_switches c) n then v else 0x00)"

definition control_read_ram :: "u8 \<Rightarrow> u16 \<Rightarrow> control \<Rightarrow> (u8 \<times> control) option" where
  "control_read_ram ob addr c = do {
     (v, c') \<leftarrow> base_control_read ob addr c;
     if \<not> cm_vs c then Some (v, c')
     else if addr = 0x4016 then Some ((v AND 0x65) OR dip 0 0x08 c OR dip 1 0x10 c, c')
     else if addr = 0x4017 then
       Some ((v AND 0x01) OR dip 2 0x04 c OR dip 3 0x08 c OR dip 4 0x10 c OR dip 5 0x20 c OR
             dip 6 0x40 c OR dip 7 0x80 c, c')
     else Some (v, c') }"

section \<open>Writing\<close>

definition control_write_ram :: "u64 \<Rightarrow> u16 \<Rightarrow> u8 \<Rightarrow> control \<Rightarrow> control" where
  "control_write_ram now addr val c =
     (let c = c\<lparr>cm_write_addr := addr, cm_write_value := val,
                cm_write_pending := (if now AND 0x01 \<noteq> 0 then 1 else 2)\<rparr>
      in if cm_vs c \<and> addr = 0x4016
         then c\<lparr>cm_prg_chr_select_bit := drop_bit 2 val AND 0x01\<rparr> else c)"

definition control_apply_write :: "u8 \<Rightarrow> control \<Rightarrow> control" where
  "control_apply_write val c =
     (let new_strobe = (val AND 1 \<noteq> 0);
          rewind = (\<lambda>c. c\<lparr>cm_controller_read_pos := [0, 0]\<rparr>);
          c = (if cm_strobe c \<and> \<not> new_strobe then rewind c else c);
          c = c\<lparr>cm_strobe := new_strobe\<rparr>;
          c = (if cm_strobe c then rewind c else c);
          prev_column = cm_kb_column c;
          c = c\<lparr>cm_kb_column := drop_bit 1 (val AND 0x02)\<rparr>;
          c = (if cm_kb_column c = 0 \<and> prev_column \<noteq> 0
               then c\<lparr>cm_kb_row := (cm_kb_row c + 1) mod 10\<rparr> else c);
          c = (if val AND 0x01 \<noteq> 0 then c\<lparr>cm_kb_row := 0\<rparr> else c)
      in c\<lparr>cm_kb_enabled := val AND 0x04 \<noteq> 0\<rparr>)"

definition has_pending_writes :: "control \<Rightarrow> bool" where
  "has_pending_writes c \<longleftrightarrow> cm_write_pending c > 0"

definition control_process_writes :: "control \<Rightarrow> control" where
  "control_process_writes c =
     (if cm_write_pending c = 0 then c
      else
        let c = c\<lparr>cm_write_pending := cm_write_pending c - 1\<rparr>
        in if cm_write_pending c = 0 \<and> cm_write_addr c = 0x4016
           then control_apply_write (cm_write_value c) c else c)"

definition control_memory_ranges :: "control \<Rightarrow> memory_ranges" where
  "control_memory_ranges c =
     (let r = add_handler OP_WRITE 0x4016 0 (add_handler OP_READ 0x4016 0x4017 ranges0)
      in if cm_vs c
         then add_handler OP_WRITE 0x4020 0x5FFF (add_handler OP_READ 0x4020 0x5FFF r) else r)"

section \<open>The invariant\<close>

definition control_ok :: "control \<Rightarrow> bool" where
  "control_ok c \<longleftrightarrow> length (cm_controller_state c) = 2 \<and> length (cm_controller_read_pos c) = 2"

lemma control_ok_new [simp]: "control_ok (new_control vs)"
  by (simp add: control_ok_def new_control_def)

lemma control_ok_ops [simp]:
  "control_ok (control_reset soft c)"
  "control_ok c \<Longrightarrow> control_ok (set_cli_exp_bit3_mode b c)"
  "control_ok c \<Longrightarrow> control_ok (control_clear_all c)"
  "control_ok c \<Longrightarrow> control_ok (control_write_ram now addr v c)"
  "control_ok c \<Longrightarrow> control_ok (control_process_writes c)"
  by (simp_all add: control_ok_def control_reset_def set_cli_exp_bit3_mode_def control_clear_all_def
      control_write_ram_def control_process_writes_def control_apply_write_def Let_def)

lemma port_less: "unat (addr AND 1 :: u16) < 2"
  by (rule unat_and_less) simp

lemma serial_bit_ok: "control_ok c \<Longrightarrow> port < 2 \<Longrightarrow> ok (serial_bit port c) (\<lambda>(v, d). control_ok d)"
  by (simp add: serial_bit_def Let_def control_ok_def)

lemma control_read_ok:
  assumes "control_ok c"
  shows "ok (control_read_ram ob addr c) (\<lambda>(v, d). control_ok d)"
proof -
  have "ok (base_control_read ob addr c) (\<lambda>(v, d). control_ok d)"
    using assms serial_bit_ok [OF assms port_less, of addr]
    by (auto simp: base_control_read_def Let_def elim!: ok_mono)
  then show ?thesis
    unfolding control_read_ram_def ok_bind by (rule ok_mono) auto
qed

lemma set_button_state_ok:
  "control_ok c \<Longrightarrow> 0 \<le> button \<Longrightarrow> button < 32 \<Longrightarrow> ok (set_button_state port button b c) control_ok"
  by (auto simp: set_button_state_def control_ok_def Let_def)

end
