(* ===== verification/Memory_Manager.thy ===== *)
theory Memory_Manager
  imports Control_Manager Ppu_Registers Apu
begin

text \<open>
  \<^verbatim>\<open>NesMemoryManager\<close> (\<^verbatim>\<open>nes_memory_manager.cpp\<close>, \<^verbatim>\<open>ines_memory_handler.h\<close>): the handler
  tables of the CPU's address space, the internal RAM and the open bus; and the state of
  the whole machine, \<^verbatim>\<open>NesConsole\<close>, on which reads and writes act.

  A pointer to a handler is one of six names. The trace output and the second open bus,
  which is only ever written, are kept as the code has them.
\<close>

section \<open>State\<close>

datatype handler = H_OpenBus | H_Ram | H_Ppu | H_Apu | H_Control | H_Mapper

record memory =
  mm_internal_ram :: "u8 list"
  mm_external_open_bus :: u8
  mm_internal_open_bus :: u8
  mm_read_handlers :: "u16 \<Rightarrow> handler"
  mm_write_handlers :: "u16 \<Rightarrow> handler"

text \<open>The components of \<^verbatim>\<open>NesConsole\<close>.\<close>

record nes =
  n_cpu :: cpu
  n_ppu :: ppu
  n_apu :: apu
  n_mixer :: mixer
  n_mem :: memory
  n_ctl :: control
  n_mapper :: mapper
  n_rom :: rom_info
  n_last_frame :: u32

section \<open>Registration\<close>

definition init_memory_handlers :: "handler \<Rightarrow> u16 list \<Rightarrow> bool \<Rightarrow> (u16 \<Rightarrow> handler) \<Rightarrow> u16 \<Rightarrow> handler" where
  "init_memory_handlers h addresses allow_override table =
     fold (\<lambda>addr t. if \<not> allow_override \<and> t addr \<noteq> H_OpenBus \<and> t addr \<noteq> h then t else t(addr := h))
       addresses table"

definition register_io_device :: "handler \<Rightarrow> memory_ranges \<Rightarrow> memory \<Rightarrow> memory" where
  "register_io_device h r m =
     m\<lparr>mm_read_handlers := init_memory_handlers h (mr_read r) (mr_allow_override r) (mm_read_handlers m),
       mm_write_handlers := init_memory_handlers h (mr_write r) (mr_allow_override r) (mm_write_handlers m)\<rparr>"

definition unregister_io_device :: "memory_ranges \<Rightarrow> memory \<Rightarrow> memory" where
  "unregister_io_device r m =
     m\<lparr>mm_read_handlers := fold (\<lambda>addr t. t(addr := H_OpenBus)) (mr_read r) (mm_read_handlers m),
       mm_write_handlers := fold (\<lambda>addr t. t(addr := H_OpenBus)) (mr_write r) (mm_write_handlers m)\<rparr>"

definition internal_ram_ranges :: memory_ranges where
  "internal_ram_ranges = add_handler OP_ANY 0 0x1FFF (ranges0\<lparr>mr_allow_override := True\<rparr>)"

definition new_memory_manager :: memory where
  "new_memory_manager = register_io_device H_Ram internal_ram_ranges
     \<lparr>mm_internal_ram = replicate 0x800 0, mm_external_open_bus = 0, mm_internal_open_bus = 0,
      mm_read_handlers = (\<lambda>_. H_OpenBus), mm_write_handlers = (\<lambda>_. H_OpenBus)\<rparr>"

definition memory_reset :: "bool \<Rightarrow> memory \<Rightarrow> memory" where
  "memory_reset soft_reset m =
     (if soft_reset then m else m\<lparr>mm_internal_ram := replicate (length (mm_internal_ram m)) 0\<rparr>)"

definition get_open_bus :: "u8 \<Rightarrow> memory \<Rightarrow> u8" where
  "get_open_bus msk m = mm_external_open_bus m AND msk"

definition memory_set_open_bus :: "u8 \<Rightarrow> bool \<Rightarrow> memory \<Rightarrow> memory" where
  "memory_set_open_bus val internal_only m =
     (if internal_only then m else m\<lparr>mm_external_open_bus := val\<rparr>)\<lparr>mm_internal_open_bus := val\<rparr>"

section \<open>The devices\<close>

text \<open>The views of the machine that a device works on.\<close>

definition ppu_bus_of :: "nes \<Rightarrow> ppu_bus" where
  "ppu_bus_of s = (n_ppu s, n_mapper s, n_cpu s)"

definition with_ppu_bus :: "ppu_bus \<Rightarrow> nes \<Rightarrow> nes" where
  "with_ppu_bus b s = (case b of (p, m, c) \<Rightarrow> s\<lparr>n_ppu := p, n_mapper := m, n_cpu := c\<rparr>)"

definition apu_bus_of :: "nes \<Rightarrow> apu \<times> mixer \<times> cpu" where
  "apu_bus_of s = (n_apu s, n_mixer s, n_cpu s)"

definition with_apu_bus :: "apu \<times> mixer \<times> cpu \<Rightarrow> nes \<Rightarrow> nes" where
  "with_apu_bus b s = (case b of (a, mx, c) \<Rightarrow> s\<lparr>n_apu := a, n_mixer := mx, n_cpu := c\<rparr>)"

definition ram_read :: "u16 \<Rightarrow> nes \<Rightarrow> (u8 \<times> nes) option" where
  "ram_read addr s = do {
     v \<leftarrow> rd (mm_internal_ram (n_mem s)) (unat (addr AND 0x7FF));
     Some (v, s) }"

definition ram_write :: "u16 \<Rightarrow> u8 \<Rightarrow> nes \<Rightarrow> nes option" where
  "ram_write addr val s = do {
     ram \<leftarrow> wr (mm_internal_ram (n_mem s)) (unat (addr AND 0x7FF)) val;
     Some (s\<lparr>n_mem := (n_mem s)\<lparr>mm_internal_ram := ram\<rparr>\<rparr>) }"

definition ppu_dev_read :: "u16 \<Rightarrow> nes \<Rightarrow> (u8 \<times> nes) option" where
  "ppu_dev_read addr s = map_option (\<lambda>(v, b). (v, with_ppu_bus b s)) (ppu_read_ram addr (ppu_bus_of s))"

definition ppu_dev_write :: "u16 \<Rightarrow> u8 \<Rightarrow> nes \<Rightarrow> nes option" where
  "ppu_dev_write addr val s =
     map_option (\<lambda>b. with_ppu_bus b s) (ppu_write_ram (get_open_bus 0xFF (n_mem s)) addr val (ppu_bus_of s))"

definition apu_dev_read :: "u16 \<Rightarrow> nes \<Rightarrow> (u8 \<times> nes) option" where
  "apu_dev_read addr s =
     map_option (\<lambda>(v, b). (v, with_apu_bus b s)) (apu_read_ram (get_open_bus 0x20 (n_mem s)) addr (apu_bus_of s))"

definition apu_dev_write :: "u16 \<Rightarrow> u8 \<Rightarrow> nes \<Rightarrow> nes option" where
  "apu_dev_write addr val s = map_option (\<lambda>b. with_apu_bus b s) (apu_write_ram addr val (apu_bus_of s))"

definition control_dev_read :: "u16 \<Rightarrow> nes \<Rightarrow> (u8 \<times> nes) option" where
  "control_dev_read addr s =
     map_option (\<lambda>(v, c). (v, s\<lparr>n_ctl := c\<rparr>)) (control_read_ram (get_open_bus 0xFF (n_mem s)) addr (n_ctl s))"

definition control_dev_write :: "u16 \<Rightarrow> u8 \<Rightarrow> nes \<Rightarrow> nes option" where
  "control_dev_write addr val s =
     Some (s\<lparr>n_ctl := control_write_ram (cpu_cycle_count (n_cpu s)) addr val (n_ctl s)\<rparr>)"

definition mapper_dev_read :: "u16 \<Rightarrow> nes \<Rightarrow> (u8 \<times> nes) option" where
  "mapper_dev_read addr s =
     map_option (\<lambda>v. (v, s)) (mapper_read_ram (get_open_bus 0xFF (n_mem s)) addr (n_mapper s))"

definition mapper_dev_write :: "u16 \<Rightarrow> u8 \<Rightarrow> nes \<Rightarrow> nes option" where
  "mapper_dev_write addr val s =
     map_option (\<lambda>(m, c). s\<lparr>n_mapper := m, n_cpu := c\<rparr>)
       (mapper_write_ram (get_open_bus 0xFF (n_mem s)) addr val (n_mapper s, n_cpu s))"

definition open_bus_read :: "u16 \<Rightarrow> nes \<Rightarrow> (u8 \<times> nes) option" where
  "open_bus_read addr s = Some (mm_external_open_bus (n_mem s), s)"

definition open_bus_write :: "u16 \<Rightarrow> u8 \<Rightarrow> nes \<Rightarrow> nes option" where
  "open_bus_write addr val s = Some s"

section \<open>Reads and writes\<close>

text \<open>The virtual calls through the tables.\<close>

fun handler_read :: "handler \<Rightarrow> u16 \<Rightarrow> nes \<Rightarrow> (u8 \<times> nes) option" where
  "handler_read H_OpenBus = open_bus_read"
| "handler_read H_Ram = ram_read"
| "handler_read H_Ppu = ppu_dev_read"
| "handler_read H_Apu = apu_dev_read"
| "handler_read H_Control = control_dev_read"
| "handler_read H_Mapper = mapper_dev_read"

fun handler_write :: "handler \<Rightarrow> u16 \<Rightarrow> u8 \<Rightarrow> nes \<Rightarrow> nes option" where
  "handler_write H_OpenBus = open_bus_write"
| "handler_write H_Ram = ram_write"
| "handler_write H_Ppu = ppu_dev_write"
| "handler_write H_Apu = apu_dev_write"
| "handler_write H_Control = control_dev_write"
| "handler_write H_Mapper = mapper_dev_write"

definition memory_read :: "u16 \<Rightarrow> nes \<Rightarrow> (u8 \<times> nes) option" where
  "memory_read addr s = do {
     (v, s) \<leftarrow> handler_read (mm_read_handlers (n_mem s) addr) addr s;
     Some (v, s\<lparr>n_mem := memory_set_open_bus v (addr = 0x4015) (n_mem s)\<rparr>) }"

definition memory_write :: "u16 \<Rightarrow> u8 \<Rightarrow> nes \<Rightarrow> nes option" where
  "memory_write addr val s = do {
     s \<leftarrow> handler_write (mm_write_handlers (n_mem s) addr) addr val s;
     Some (s\<lparr>n_mem := memory_set_open_bus val False (n_mem s)\<rparr>) }"

end
