(* ===== verification/Machine.thy ===== *)
theory Machine
  imports Memory_Manager
begin

text \<open>
  The clock of the machine (\<^verbatim>\<open>NesConsole::process_cpu_clock\<close>, the two halves of a CPU cycle
  in \<^verbatim>\<open>nes_cpu.cpp\<close>) and the DMA unit of the CPU. Every CPU cycle runs the PPU twice up to
  the master clock and the other devices once. \<open>E\<close> is the audio environment.
\<close>

section \<open>One CPU cycle\<close>

definition cpu_do :: "(cpu \<Rightarrow> cpu) \<Rightarrow> nes \<Rightarrow> nes" where
  "cpu_do f s = s\<lparr>n_cpu := f (n_cpu s)\<rparr>"

definition process_cpu_clock :: "audio_env \<Rightarrow> nes \<Rightarrow> nes option" where
  "process_cpu_clock E s = do {
     let s = (if has_cpu_clock_hook (m_chip (n_mapper s))
              then let (m, c) = mapper_process_cpu_clock (n_mapper s, n_cpu s) in s\<lparr>n_mapper := m, n_cpu := c\<rparr>
              else s);
     b \<leftarrow> apu_process_cpu_clock E (apu_bus_of s);
     let s = with_apu_bus b s;
     Some (if has_pending_writes (n_ctl s) then s\<lparr>n_ctl := control_process_writes (n_ctl s)\<rparr> else s) }"

text \<open>\<^verbatim>\<open>console_->get_ppu()->run(master_clock_ - ppu_offset_)\<close>.\<close>

definition run_ppu :: "nes \<Rightarrow> nes option" where
  "run_ppu s = do {
     b \<leftarrow> ppu_run (cpu_master_clock (n_cpu s) - unat (cpu_ppu_offset (n_cpu s))) (ppu_bus_of s);
     Some (with_ppu_bus b s) }"

definition start_cpu_cycle :: "audio_env \<Rightarrow> bool \<Rightarrow> nes \<Rightarrow> nes option" where
  "start_cpu_cycle E for_read s = do {
     let s = cpu_do (\<lambda>c.
       let k = int (unat (cpu_start_clock_count c)) in
       c\<lparr>cpu_master_clock := nat (int (cpu_master_clock c) + (if for_read then k - 1 else k + 1)),
         cpu_cycle_count := cpu_cycle_count c + 1\<rparr>) s;
     s \<leftarrow> run_ppu s;
     process_cpu_clock E s }"

text \<open>The NMI edge detector and the IRQ level, sampled at the end of a cycle.\<close>

definition sample_interrupts :: "cpu \<Rightarrow> cpu" where
  "sample_interrupts c =
     (let c = c\<lparr>cpu_prev_need_nmi := cpu_need_nmi c\<rparr>;
          c = (if \<not> cpu_prev_nmi_flag c \<and> cpu_nmi_flag c then c\<lparr>cpu_need_nmi := True\<rparr> else c);
          c = c\<lparr>cpu_prev_nmi_flag := cpu_nmi_flag c\<rparr>;
          c = c\<lparr>cpu_prev_run_irq := cpu_run_irq c\<rparr>
      in c\<lparr>cpu_run_irq := cpu_irq_flag c AND cpu_irq_mask c > 0 \<and> \<not> (cpu_ps c AND ps_INTERRUPT \<noteq> 0)\<rparr>)"

definition end_cpu_cycle :: "bool \<Rightarrow> nes \<Rightarrow> nes option" where
  "end_cpu_cycle for_read s = do {
     let s = cpu_do (\<lambda>c.
       let k = int (unat (cpu_end_clock_count c)) in
       c\<lparr>cpu_master_clock := nat (int (cpu_master_clock c) + (if for_read then k + 1 else k - 1))\<rparr>) s;
     s \<leftarrow> run_ppu s;
     Some (cpu_do sample_interrupts s) }"

section \<open>DMA\<close>

text \<open>The locals of \<^verbatim>\<open>process_pending_dma\<close> that its loop changes.\<close>

record dma =
  dma_sprite_counter :: u16
  dma_sprite_read_addr :: u8
  dma_read_value :: u8
  dma_prev_read_address :: u16

definition controller_addr :: "u16 \<Rightarrow> bool" where
  "controller_addr addr \<longleftrightarrow> addr = 0x4016 \<or> addr = 0x4017"

text \<open>
  The lambda \<^verbatim>\<open>process_dma_read\<close>: the value, the new \<^verbatim>\<open>prev_read_address\<close>, the state. While
  the CPU is halted on an address of the internal registers, these see the low five bits of
  every address the DMA unit reads.
\<close>

definition process_dma_read :: "bool \<Rightarrow> u16 \<Rightarrow> u16 \<Rightarrow> nes \<Rightarrow> (u8 \<times> u16 \<times> nes) option" where
  "process_dma_read enable_internal_reg_reads prev_read_address addr s =
     (if \<not> enable_internal_reg_reads then
        if 0x4000 \<le> addr \<and> addr \<le> 0x401F then Some (get_open_bus 0xFF (n_mem s), addr, s)
        else map_option (\<lambda>(v, s). (v, addr, s)) (memory_read addr s)
      else do {
        let internal_addr = 0x4000 OR (addr AND 0x1F);
        let is_same_address = (internal_addr = addr);
        (v, s) \<leftarrow>
          (if internal_addr = 0x4015 then do {
             (v, s) \<leftarrow> memory_read internal_addr s;
             s \<leftarrow> (if is_same_address then Some s else map_option snd (memory_read addr s));
             Some (v, s) }
           else if controller_addr internal_addr then do {
             (v, s) \<leftarrow> (if prev_read_address = internal_addr then Some (get_open_bus 0xFF (n_mem s), s)
                       else memory_read internal_addr s);
             if is_same_address then Some (v, s)
             else do {
               let ob_mask = get_open_bus_mask (ucast (internal_addr - 0x4016)) (n_ctl s);
               (external_value, s) \<leftarrow> memory_read addr s;
               Some ((external_value AND ob_mask) OR ((v AND NOT ob_mask) AND (external_value AND NOT ob_mask)), s) } }
           else memory_read addr s);
        Some (v, internal_addr, s) })"

text \<open>The acknowledgement at the start of each DMA cycle.\<close>

definition dma_process_cycle :: "cpu \<Rightarrow> cpu" where
  "dma_process_cycle c =
     (if cpu_abort_dmc_dma c then
        c\<lparr>cpu_dmc_dma_running := False, cpu_abort_dmc_dma := False, cpu_need_dummy_read := False,
          cpu_need_halt := False\<rparr>
      else if cpu_need_halt c then c\<lparr>cpu_need_halt := False\<rparr>
      else if cpu_need_dummy_read c then c\<lparr>cpu_need_dummy_read := False\<rparr>
      else c)"

text \<open>The four kinds of cycles: a DMC read, a sprite read, a sprite write, and a wait.\<close>

definition dma_dmc_cycle :: "audio_env \<Rightarrow> bool \<Rightarrow> dma \<Rightarrow> nes \<Rightarrow> (dma \<times> nes) option" where
  "dma_dmc_cycle E internal d s = do {
     s \<leftarrow> start_cpu_cycle E True (cpu_do dma_process_cycle s);
     let s = cpu_do (\<lambda>c. c\<lparr>cpu_is_dmc_dma_read := True\<rparr>) s;
     let dmc_addr = apu_get_dmc_read_address (n_apu s);
     (v, prev, s) \<leftarrow> process_dma_read internal (dma_prev_read_address d) dmc_addr s;
     let (a, c) = apu_set_dmc_read_buffer v (n_apu s, n_cpu s);
     let s = s\<lparr>n_apu := a, n_cpu := c\<lparr>cpu_is_dmc_dma_read := False\<rparr>\<rparr>;
     s \<leftarrow> end_cpu_cycle True s;
     Some (d\<lparr>dma_read_value := v, dma_prev_read_address := prev\<rparr>,
       cpu_do (\<lambda>c. c\<lparr>cpu_dmc_dma_running := False, cpu_abort_dmc_dma := False\<rparr>) s) }"

definition dma_sprite_read :: "audio_env \<Rightarrow> bool \<Rightarrow> dma \<Rightarrow> nes \<Rightarrow> (dma \<times> nes) option" where
  "dma_sprite_read E internal d s = do {
     s \<leftarrow> start_cpu_cycle E True (cpu_do dma_process_cycle s);
     (v, prev, s) \<leftarrow> process_dma_read internal (dma_prev_read_address d)
       (ucast (cpu_sprite_dma_offset (n_cpu s)) * 0x100 + ucast (dma_sprite_read_addr d)) s;
     s \<leftarrow> end_cpu_cycle True s;
     Some (d\<lparr>dma_read_value := v, dma_prev_read_address := prev,
       dma_sprite_read_addr := dma_sprite_read_addr d + 1,
       dma_sprite_counter := dma_sprite_counter d + 1\<rparr>, s) }"

definition dma_sprite_write :: "audio_env \<Rightarrow> dma \<Rightarrow> nes \<Rightarrow> (dma \<times> nes) option" where
  "dma_sprite_write E d s = do {
     s \<leftarrow> start_cpu_cycle E True (cpu_do dma_process_cycle s);
     s \<leftarrow> memory_write 0x2004 (dma_read_value d) s;
     s \<leftarrow> end_cpu_cycle True s;
     let d = d\<lparr>dma_sprite_counter := dma_sprite_counter d + 1\<rparr>;
     Some (d, if dma_sprite_counter d = 0x200
              then cpu_do (\<lambda>c. c\<lparr>cpu_sprite_dma_transfer := False\<rparr>) s else s) }"

definition dma_wait :: "audio_env \<Rightarrow> u16 \<Rightarrow> dma \<Rightarrow> nes \<Rightarrow> (dma \<times> nes) option" where
  "dma_wait E read_address d s = do {
     s \<leftarrow> start_cpu_cycle E True (cpu_do dma_process_cycle s);
     s \<leftarrow> (if controller_addr read_address then Some s else map_option snd (memory_read read_address s));
     s \<leftarrow> end_cpu_cycle True s;
     Some (d, s) }"

definition dma_round :: "audio_env \<Rightarrow> u16 \<Rightarrow> bool \<Rightarrow> dma \<times> nes \<Rightarrow> (dma \<times> nes) option" where
  "dma_round E read_address internal ds =
     (let (d, s) = ds; c = n_cpu s in
      if cpu_cycle_count c AND 0x01 = 0 then
        if cpu_dmc_dma_running c \<and> \<not> cpu_need_halt c \<and> \<not> cpu_need_dummy_read c
        then dma_dmc_cycle E internal d s
        else if cpu_sprite_dma_transfer c then dma_sprite_read E internal d s
        else dma_wait E read_address d s
      else if cpu_sprite_dma_transfer c \<and> dma_sprite_counter d AND 0x01 \<noteq> 0
      then dma_sprite_write E d s
      else dma_wait E read_address d s)"

text \<open>The first cycle of a transfer: the CPU is halted on the address it reads.\<close>

definition dma_halt :: "audio_env \<Rightarrow> u16 \<Rightarrow> nes \<Rightarrow> nes option" where
  "dma_halt E read_address s = do {
     let enable_internal_reg_reads = (read_address AND 0xFFE0 = 0x4000);
     let skip_first_input_clock =
       (enable_internal_reg_reads \<and> cpu_dmc_dma_running (n_cpu s) \<and> controller_addr read_address \<and>
        apu_get_dmc_read_address (n_apu s) AND 0x1F = read_address AND 0x1F);
     s \<leftarrow> start_cpu_cycle E True (cpu_do (\<lambda>c. c\<lparr>cpu_need_halt := False\<rparr>) s);
     s \<leftarrow> (if \<not> (cpu_abort_dmc_dma (n_cpu s) \<and> controller_addr read_address) \<and> \<not> skip_first_input_clock
           then map_option snd (memory_read read_address s) else Some s);
     end_cpu_cycle True s }"

definition dma_loop :: "audio_env \<Rightarrow> u16 \<Rightarrow> nes \<Rightarrow> nes option" where
  "dma_loop E read_address s =
     map_option snd (while_loop (\<lambda>(d, s). cpu_dmc_dma_running (n_cpu s) \<or> cpu_sprite_dma_transfer (n_cpu s))
       (dma_round E read_address (read_address AND 0xFFE0 = 0x4000))
       (\<lparr>dma_sprite_counter = 0, dma_sprite_read_addr = 0, dma_read_value = 0,
         dma_prev_read_address = read_address\<rparr>, s))"

definition process_pending_dma :: "audio_env \<Rightarrow> u16 \<Rightarrow> nes \<Rightarrow> nes option" where
  "process_pending_dma E read_address s =
     (if \<not> cpu_need_halt (n_cpu s) then Some s
      else do {
        s \<leftarrow> dma_halt E read_address s;
        if cpu_abort_dmc_dma (n_cpu s) then do {
          let s = cpu_do (\<lambda>c. c\<lparr>cpu_dmc_dma_running := False, cpu_abort_dmc_dma := False\<rparr>) s;
          if \<not> cpu_sprite_dma_transfer (n_cpu s)
          then Some (cpu_do (\<lambda>c. c\<lparr>cpu_need_dummy_read := False\<rparr>) s)
          else dma_loop E read_address s }
        else dma_loop E read_address s })"

section \<open>Memory accesses of the CPU\<close>

definition cpu_memory_read :: "audio_env \<Rightarrow> u16 \<Rightarrow> nes \<Rightarrow> (u8 \<times> nes) option" where
  "cpu_memory_read E addr s = do {
     s \<leftarrow> process_pending_dma E addr s;
     s \<leftarrow> start_cpu_cycle E True s;
     (v, s) \<leftarrow> memory_read addr s;
     s \<leftarrow> end_cpu_cycle True s;
     Some (v, s) }"

definition cpu_memory_write :: "audio_env \<Rightarrow> u16 \<Rightarrow> u8 \<Rightarrow> nes \<Rightarrow> nes option" where
  "cpu_memory_write E addr val s = do {
     s \<leftarrow> start_cpu_cycle E False (cpu_do (\<lambda>c. c\<lparr>cpu_write_cycle := True\<rparr>) s);
     s \<leftarrow> memory_write addr val s;
     s \<leftarrow> end_cpu_cycle False s;
     Some (cpu_do (\<lambda>c. c\<lparr>cpu_write_cycle := False\<rparr>) s) }"

definition cpu_memory_read_word :: "audio_env \<Rightarrow> u16 \<Rightarrow> nes \<Rightarrow> (u16 \<times> nes) option" where
  "cpu_memory_read_word E addr s = do {
     (lo, s) \<leftarrow> cpu_memory_read E addr s;
     (hi, s) \<leftarrow> cpu_memory_read E (addr + 1) s;
     Some (make_word hi lo, s) }"

end
