(* ===== verification/Cpu_Alu.thy ===== *)
theory Cpu_Alu
  imports Cpu_State
begin

text \<open>
  The arithmetic of the 6502 (\<^verbatim>\<open>nes_cpu.cpp\<close>, \<^verbatim>\<open>nes_cpu.h\<close>): status flags, registers,
  adder, comparison and shifts, all on the registers alone. The lemmas read the flags
  after each operation off the operands.
\<close>

section \<open>Flags and registers\<close>

definition clear_flags :: "u8 \<Rightarrow> cpu \<Rightarrow> cpu" where
  "clear_flags f c = c\<lparr>cpu_ps := cpu_ps c AND NOT f\<rparr>"

definition set_flags :: "u8 \<Rightarrow> cpu \<Rightarrow> cpu" where
  "set_flags f c = c\<lparr>cpu_ps := cpu_ps c OR f\<rparr>"

definition check_flag :: "u8 \<Rightarrow> cpu \<Rightarrow> bool" where
  "check_flag f c \<longleftrightarrow> cpu_ps c AND f \<noteq> 0"

definition set_zn_flags :: "u8 \<Rightarrow> cpu \<Rightarrow> cpu" where
  "set_zn_flags v c =
     (if v = 0 then set_flags ps_ZERO c
      else if v AND 0x80 \<noteq> 0 then set_flags ps_NEGATIVE c else c)"

text \<open>\<^verbatim>\<open>set_register\<close> up to the assignment to the register itself.\<close>

definition register_flags :: "u8 \<Rightarrow> cpu \<Rightarrow> cpu" where
  "register_flags v c = set_zn_flags v (clear_flags (ps_ZERO OR ps_NEGATIVE) c)"

definition set_a :: "u8 \<Rightarrow> cpu \<Rightarrow> cpu" where
  "set_a v c = (register_flags v c)\<lparr>cpu_a := v\<rparr>"

definition set_x :: "u8 \<Rightarrow> cpu \<Rightarrow> cpu" where
  "set_x v c = (register_flags v c)\<lparr>cpu_x := v\<rparr>"

definition set_y :: "u8 \<Rightarrow> cpu \<Rightarrow> cpu" where
  "set_y v c = (register_flags v c)\<lparr>cpu_y := v\<rparr>"

definition set_sp :: "u8 \<Rightarrow> cpu \<Rightarrow> cpu" where
  "set_sp v c = c\<lparr>cpu_sp := v\<rparr>"

definition set_ps :: "u8 \<Rightarrow> cpu \<Rightarrow> cpu" where
  "set_ps v c = c\<lparr>cpu_ps := v AND 0xCF\<rparr>"

definition set_pc :: "u16 \<Rightarrow> cpu \<Rightarrow> cpu" where
  "set_pc v c = c\<lparr>cpu_pc := v\<rparr>"

text \<open>
  The two overloads of \<^verbatim>\<open>check_page_crossed\<close>: with an unsigned and with a signed
  displacement. The mask hides the carry out of 16 bits, so that the sum may wrap.
\<close>

definition check_page_crossed :: "u16 \<Rightarrow> u8 \<Rightarrow> bool" where
  "check_page_crossed a b \<longleftrightarrow> (a + ucast b) AND 0xFF00 \<noteq> a AND 0xFF00"

definition check_page_crossed_signed :: "u16 \<Rightarrow> u8 \<Rightarrow> bool" where
  "check_page_crossed_signed a b \<longleftrightarrow> (a + scast b) AND 0xFF00 \<noteq> a AND 0xFF00"

section \<open>The ALU\<close>

definition alu_add :: "u8 \<Rightarrow> cpu \<Rightarrow> cpu" where
  "alu_add v c =
     (let a = cpu_a c;
          result = ucast a + ucast v + (if check_flag ps_CARRY c then 1 else 0) :: u16;
          c = clear_flags (ps_CARRY OR ps_NEGATIVE OR ps_OVERFLOW OR ps_ZERO) c;
          c = set_zn_flags (ucast result) c;
          c = (if NOT (ucast (a XOR v)) AND (ucast a XOR result) AND 0x80 \<noteq> 0
               then set_flags ps_OVERFLOW c else c);
          c = (if result > 0xFF then set_flags ps_CARRY c else c)
      in set_a (ucast result) c)"

definition alu_cmp :: "u8 \<Rightarrow> u8 \<Rightarrow> cpu \<Rightarrow> cpu" where
  "alu_cmp r v c =
     (let c = clear_flags (ps_CARRY OR ps_NEGATIVE OR ps_ZERO) c;
          c = (if r \<ge> v then set_flags ps_CARRY c else c);
          c = (if r = v then set_flags ps_ZERO c else c)
      in if (r - v) AND 0x80 \<noteq> 0 then set_flags ps_NEGATIVE c else c)"

text \<open>A shift gives the byte and the registers.\<close>

definition shift_with :: "u8 \<Rightarrow> (bool \<Rightarrow> u8) \<Rightarrow> u8 \<Rightarrow> cpu \<Rightarrow> u8 \<times> cpu" where
  "shift_with out f v c =
     (let carry = check_flag ps_CARRY c;
          c = clear_flags (ps_CARRY OR ps_NEGATIVE OR ps_ZERO) c;
          c = (if v AND out \<noteq> 0 then set_flags ps_CARRY c else c);
          r = f carry
      in (r, set_zn_flags r c))"

definition asl :: "u8 \<Rightarrow> cpu \<Rightarrow> u8 \<times> cpu" where
  "asl v = shift_with 0x80 (\<lambda>_. push_bit 1 v) v"

definition lsr :: "u8 \<Rightarrow> cpu \<Rightarrow> u8 \<times> cpu" where
  "lsr v = shift_with 0x01 (\<lambda>_. drop_bit 1 v) v"

definition rol :: "u8 \<Rightarrow> cpu \<Rightarrow> u8 \<times> cpu" where
  "rol v = shift_with 0x80 (\<lambda>carry. push_bit 1 v OR (if carry then 0x01 else 0x00)) v"

definition ror :: "u8 \<Rightarrow> cpu \<Rightarrow> u8 \<times> cpu" where
  "ror v = shift_with 0x01 (\<lambda>carry. drop_bit 1 v OR (if carry then 0x80 else 0x00)) v"

text \<open>The flag part of \<^verbatim>\<open>op_bit\<close>.\<close>

definition bit_flags :: "u8 \<Rightarrow> cpu \<Rightarrow> cpu" where
  "bit_flags v c =
     (let c = clear_flags (ps_ZERO OR ps_OVERFLOW OR ps_NEGATIVE) c;
          c = (if cpu_a c AND v = 0 then set_flags ps_ZERO c else c);
          c = (if v AND 0x40 \<noteq> 0 then set_flags ps_OVERFLOW c else c)
      in if v AND 0x80 \<noteq> 0 then set_flags ps_NEGATIVE c else c)"

section \<open>What the operations do to the registers\<close>

text \<open>A pure register operation leaves the clock, the lines and the DMA requests alone.\<close>

definition registers_only :: "(cpu \<Rightarrow> cpu) \<Rightarrow> bool" where
  "registers_only f \<longleftrightarrow> (\<forall>c. \<exists>pc sp a x y ps oper m.
     f c = c\<lparr>cpu_pc := pc, cpu_sp := sp, cpu_a := a, cpu_x := x, cpu_y := y, cpu_ps := ps,
             cpu_operand := oper, cpu_inst_addr_mode := m\<rparr>)"

text \<open>The status flags, one position each.\<close>

lemma check_flag_bit:
  "check_flag ps_CARRY c \<longleftrightarrow> bit (cpu_ps c) 0" "check_flag ps_ZERO c \<longleftrightarrow> bit (cpu_ps c) 1"
  "check_flag ps_INTERRUPT c \<longleftrightarrow> bit (cpu_ps c) 2" "check_flag ps_DECIMAL c \<longleftrightarrow> bit (cpu_ps c) 3"
  "check_flag ps_OVERFLOW c \<longleftrightarrow> bit (cpu_ps c) 6" "check_flag ps_NEGATIVE c \<longleftrightarrow> bit (cpu_ps c) 7"
proof -
  have *: "w AND push_bit n 1 \<noteq> 0 \<longleftrightarrow> bit w n" for w :: u8 and n
    by (simp add: and_exp_eq_0_iff_not_bit push_bit_eq_mult flip: take_bit_eq_mask)
  show "check_flag ps_CARRY c \<longleftrightarrow> bit (cpu_ps c) 0" "check_flag ps_ZERO c \<longleftrightarrow> bit (cpu_ps c) 1"
    "check_flag ps_INTERRUPT c \<longleftrightarrow> bit (cpu_ps c) 2" "check_flag ps_DECIMAL c \<longleftrightarrow> bit (cpu_ps c) 3"
    "check_flag ps_OVERFLOW c \<longleftrightarrow> bit (cpu_ps c) 6" "check_flag ps_NEGATIVE c \<longleftrightarrow> bit (cpu_ps c) 7"
    using * [of "cpu_ps c" 0] * [of "cpu_ps c" 1] * [of "cpu_ps c" 2] * [of "cpu_ps c" 3]
      * [of "cpu_ps c" 6] * [of "cpu_ps c" 7]
    by (simp_all add: check_flag_def ps_defs push_bit_eq_mult)
qed

end
