(* ===== verification/Cpu_Ops.thy ===== *)
theory Cpu_Ops
  imports Machine Cpu_Alu
begin

text \<open>
  The instruction set of \<^verbatim>\<open>NesCpu\<close> (\<^verbatim>\<open>nes_cpu.cpp\<close>, \<^verbatim>\<open>nes_cpu.h\<close>): operand fetches with
  their dummy reads, the stack, one definition per operation, the two dispatch tables, the
  interrupt sequence, \<^verbatim>\<open>exec\<close> and \<^verbatim>\<open>reset\<close>. The traces controlled by environment variables
  are left out.

  An operation maps the machine to the machine after it; \<open>E\<close> is the audio environment. The
  order of the memory accesses is the code's, since each of them is a CPU cycle during which
  the other units run. Where C++ leaves the order of two operands open, one of them is a
  register that no memory access changes.
\<close>

section \<open>Addressing\<close>

definition NMI_VECTOR :: u16 where "NMI_VECTOR = 0xFFFA"
definition RESET_VECTOR :: u16 where "RESET_VECTOR = 0xFFFC"
definition IRQ_VECTOR :: u16 where "IRQ_VECTOR = 0xFFFE"

fun addr_mode_index :: "addr_mode \<Rightarrow> nat" where
  "addr_mode_index AM_NONE = 0" | "addr_mode_index AM_ACC = 1" | "addr_mode_index AM_IMP = 2"
| "addr_mode_index AM_IMM = 3" | "addr_mode_index AM_REL = 4" | "addr_mode_index AM_ZERO = 5"
| "addr_mode_index AM_ABS = 6" | "addr_mode_index AM_ZERO_X = 7" | "addr_mode_index AM_ZERO_Y = 8"
| "addr_mode_index AM_IND = 9" | "addr_mode_index AM_IND_X = 10" | "addr_mode_index AM_IND_Y = 11"
| "addr_mode_index AM_IND_YW = 12" | "addr_mode_index AM_ABS_X = 13" | "addr_mode_index AM_ABS_XW = 14"
| "addr_mode_index AM_ABS_Y = 15" | "addr_mode_index AM_ABS_YW = 16" | "addr_mode_index AM_OTHER = 17"

text \<open>The enumeration is ordered as it is declared; \<^verbatim>\<open>get_operand_value\<close> relies on it.\<close>

instantiation addr_mode :: linorder
begin

definition less_eq_addr_mode :: "addr_mode \<Rightarrow> addr_mode \<Rightarrow> bool" where
  "less_eq_addr_mode a b \<longleftrightarrow> addr_mode_index a \<le> addr_mode_index b"

definition less_addr_mode :: "addr_mode \<Rightarrow> addr_mode \<Rightarrow> bool" where
  "less_addr_mode a b \<longleftrightarrow> addr_mode_index a < addr_mode_index b"

instance
proof
  fix a b :: addr_mode
  show "a \<le> b \<Longrightarrow> b \<le> a \<Longrightarrow> a = b"
    by (cases a; cases b) (simp_all add: less_eq_addr_mode_def)
qed (auto simp: less_eq_addr_mode_def less_addr_mode_def)

end

definition dummy_read :: "audio_env \<Rightarrow> nes \<Rightarrow> nes option" where
  "dummy_read E s = map_option snd (cpu_memory_read E (cpu_pc (n_cpu s)) s)"

definition read_byte :: "audio_env \<Rightarrow> nes \<Rightarrow> (u8 \<times> nes) option" where
  "read_byte E s = do {
     (v, s) \<leftarrow> cpu_memory_read E (cpu_pc (n_cpu s)) s;
     Some (v, cpu_do (\<lambda>c. c\<lparr>cpu_pc := cpu_pc c + 1\<rparr>) s) }"

definition get_op_code :: "audio_env \<Rightarrow> nes \<Rightarrow> (u8 \<times> nes) option" where
  "get_op_code E s = do {
     (v, s) \<leftarrow> cpu_memory_read E (cpu_pc (n_cpu s)) s;
     Some (v, cpu_do (\<lambda>c. c\<lparr>cpu_pc := cpu_pc c + 1\<rparr>) s) }"

definition read_word :: "audio_env \<Rightarrow> nes \<Rightarrow> (u16 \<times> nes) option" where
  "read_word E s = do {
     (lo, s) \<leftarrow> read_byte E s;
     (hi, s) \<leftarrow> read_byte E s;
     Some (make_word hi lo, s) }"

text \<open>A zero-page pointer: the word at \<open>zero\<close>, whose high byte is at $00 when it is at $FF.\<close>

definition zero_page_word :: "audio_env \<Rightarrow> u8 \<Rightarrow> nes \<Rightarrow> (u16 \<times> nes) option" where
  "zero_page_word E zero s =
     (if zero = 0xFF then do {
        (lo, s) \<leftarrow> cpu_memory_read E 0xFF s;
        (hi, s) \<leftarrow> cpu_memory_read E 0x00 s;
        Some (make_word hi lo, s) }
      else cpu_memory_read_word E (ucast zero) s)"

text \<open>The dummy read of an indexed access, at the address whose high byte is not yet fixed.\<close>

definition index_read :: "audio_env \<Rightarrow> u16 \<Rightarrow> u8 \<Rightarrow> nes \<Rightarrow> nes option" where
  "index_read E base i s = map_option snd
     (cpu_memory_read E (base + ucast i - (if check_page_crossed base i then 0x100 else 0)) s)"

definition indexed :: "audio_env \<Rightarrow> bool \<Rightarrow> u16 \<Rightarrow> u8 \<Rightarrow> nes \<Rightarrow> (u16 \<times> nes) option" where
  "indexed E dr base i s = do {
     s \<leftarrow> (if check_page_crossed base i \<or> dr then index_read E base i s else Some s);
     Some (base + ucast i, s) }"

definition get_immediate :: "audio_env \<Rightarrow> nes \<Rightarrow> (u16 \<times> nes) option" where
  "get_immediate E s = map_option (\<lambda>(v, s). (ucast v, s)) (read_byte E s)"

definition get_zero_index_addr :: "audio_env \<Rightarrow> (cpu \<Rightarrow> u8) \<Rightarrow> nes \<Rightarrow> (u16 \<times> nes) option" where
  "get_zero_index_addr E reg s = do {
     (v, s) \<leftarrow> read_byte E s;
     (_, s) \<leftarrow> cpu_memory_read E (ucast v) s;
     Some (ucast (v + reg (n_cpu s)), s) }"

definition get_abs_x_addr :: "audio_env \<Rightarrow> bool \<Rightarrow> nes \<Rightarrow> (u16 \<times> nes) option" where
  "get_abs_x_addr E dr s = do {
     (base, s) \<leftarrow> read_word E s;
     indexed E dr base (cpu_x (n_cpu s)) s }"

definition get_abs_y_addr :: "audio_env \<Rightarrow> bool \<Rightarrow> nes \<Rightarrow> (u16 \<times> nes) option" where
  "get_abs_y_addr E dr s = do {
     (base, s) \<leftarrow> read_word E s;
     indexed E dr base (cpu_y (n_cpu s)) s }"

text \<open>The indirect jump does not carry into the high byte of its pointer.\<close>

definition get_ind :: "audio_env \<Rightarrow> nes \<Rightarrow> (u16 \<times> nes) option" where
  "get_ind E s =
     (let addr = cpu_operand (n_cpu s) in
      if addr AND 0xFF = 0xFF then do {
        (lo, s) \<leftarrow> cpu_memory_read E addr s;
        (hi, s) \<leftarrow> cpu_memory_read E (addr - 0xFF) s;
        Some (make_word hi lo, s) }
      else cpu_memory_read_word E addr s)"

definition get_ind_x_addr :: "audio_env \<Rightarrow> nes \<Rightarrow> (u16 \<times> nes) option" where
  "get_ind_x_addr E s = do {
     (zero, s) \<leftarrow> read_byte E s;
     (_, s) \<leftarrow> cpu_memory_read E (ucast zero) s;
     zero_page_word E (zero + cpu_x (n_cpu s)) s }"

definition get_ind_y_addr :: "audio_env \<Rightarrow> bool \<Rightarrow> nes \<Rightarrow> (u16 \<times> nes) option" where
  "get_ind_y_addr E dr s = do {
     (zero, s) \<leftarrow> read_byte E s;
     (addr, s) \<leftarrow> zero_page_word E zero s;
     indexed E dr addr (cpu_y (n_cpu s)) s }"

definition fetch_operand :: "audio_env \<Rightarrow> nes \<Rightarrow> (u16 \<times> nes) option" where
  "fetch_operand E s = (case cpu_inst_addr_mode (n_cpu s) of
     AM_ACC \<Rightarrow> map_option (Pair 0) (dummy_read E s)
   | AM_IMP \<Rightarrow> map_option (Pair 0) (dummy_read E s)
   | AM_IMM \<Rightarrow> get_immediate E s
   | AM_REL \<Rightarrow> get_immediate E s
   | AM_ZERO \<Rightarrow> get_immediate E s
   | AM_ZERO_X \<Rightarrow> get_zero_index_addr E cpu_x s
   | AM_ZERO_Y \<Rightarrow> get_zero_index_addr E cpu_y s
   | AM_IND \<Rightarrow> read_word E s
   | AM_IND_X \<Rightarrow> get_ind_x_addr E s
   | AM_IND_Y \<Rightarrow> get_ind_y_addr E False s
   | AM_IND_YW \<Rightarrow> get_ind_y_addr E True s
   | AM_ABS \<Rightarrow> read_word E s
   | AM_ABS_X \<Rightarrow> get_abs_x_addr E False s
   | AM_ABS_XW \<Rightarrow> get_abs_x_addr E True s
   | AM_ABS_Y \<Rightarrow> get_abs_y_addr E False s
   | AM_ABS_YW \<Rightarrow> get_abs_y_addr E True s
   | AM_OTHER \<Rightarrow> Some (0, s)
   | AM_NONE \<Rightarrow> Some (0, s))"

definition get_operand_value :: "audio_env \<Rightarrow> nes \<Rightarrow> (u8 \<times> nes) option" where
  "get_operand_value E s =
     (if cpu_inst_addr_mode (n_cpu s) \<ge> AM_ZERO then cpu_memory_read E (cpu_operand (n_cpu s)) s
      else Some (ucast (cpu_operand (n_cpu s)), s))"

section \<open>The stack\<close>

definition cpu_push :: "audio_env \<Rightarrow> u8 \<Rightarrow> nes \<Rightarrow> nes option" where
  "cpu_push E v s = do {
     s \<leftarrow> cpu_memory_write E (0x100 + ucast (cpu_sp (n_cpu s))) v s;
     Some (cpu_do (\<lambda>c. c\<lparr>cpu_sp := cpu_sp c - 1\<rparr>) s) }"

definition cpu_push_word :: "audio_env \<Rightarrow> u16 \<Rightarrow> nes \<Rightarrow> nes option" where
  "cpu_push_word E v s = do {
     s \<leftarrow> cpu_push E (hi_byte v) s;
     cpu_push E (lo_byte v) s }"

definition cpu_pop :: "audio_env \<Rightarrow> nes \<Rightarrow> (u8 \<times> nes) option" where
  "cpu_pop E s =
     (let s = cpu_do (\<lambda>c. c\<lparr>cpu_sp := cpu_sp c + 1\<rparr>) s
      in cpu_memory_read E (0x100 + ucast (cpu_sp (n_cpu s))) s)"

definition cpu_pop_word :: "audio_env \<Rightarrow> nes \<Rightarrow> (u16 \<times> nes) option" where
  "cpu_pop_word E s = do {
     (lo, s) \<leftarrow> cpu_pop E s;
     (hi, s) \<leftarrow> cpu_pop E s;
     Some (make_word hi lo, s) }"

section \<open>Operations\<close>

text \<open>An operation that reads its operand and then works on the registers.\<close>

definition with_operand :: "audio_env \<Rightarrow> (u8 \<Rightarrow> cpu \<Rightarrow> cpu) \<Rightarrow> nes \<Rightarrow> nes option" where
  "with_operand E f s = do {
     (v, s) \<leftarrow> get_operand_value E s;
     Some (cpu_do (f v) s) }"

subsection \<open>Loads, logic, arithmetic\<close>

definition op_lda :: "audio_env \<Rightarrow> nes \<Rightarrow> nes option" where
  "op_lda E = with_operand E (set_a)"

definition op_ldx :: "audio_env \<Rightarrow> nes \<Rightarrow> nes option" where
  "op_ldx E = with_operand E (set_x)"

definition op_ldy :: "audio_env \<Rightarrow> nes \<Rightarrow> nes option" where
  "op_ldy E = with_operand E (set_y)"

definition and_op :: "audio_env \<Rightarrow> nes \<Rightarrow> nes option" where
  "and_op E = with_operand E (\<lambda>v c. set_a (cpu_a c AND v) c)"

definition eor_op :: "audio_env \<Rightarrow> nes \<Rightarrow> nes option" where
  "eor_op E = with_operand E (\<lambda>v c. set_a (cpu_a c XOR v) c)"

definition ora_op :: "audio_env \<Rightarrow> nes \<Rightarrow> nes option" where
  "ora_op E = with_operand E (\<lambda>v c. set_a (cpu_a c OR v) c)"

definition adc_op :: "audio_env \<Rightarrow> nes \<Rightarrow> nes option" where
  "adc_op E = with_operand E (alu_add)"

definition sbc_op :: "audio_env \<Rightarrow> nes \<Rightarrow> nes option" where
  "sbc_op E = with_operand E (\<lambda>v. alu_add (v XOR 0xFF))"

definition cpa :: "audio_env \<Rightarrow> nes \<Rightarrow> nes option" where
  "cpa E = with_operand E (\<lambda>v c. alu_cmp (cpu_a c) v c)"

definition cpx :: "audio_env \<Rightarrow> nes \<Rightarrow> nes option" where
  "cpx E = with_operand E (\<lambda>v c. alu_cmp (cpu_x c) v c)"

definition cpy :: "audio_env \<Rightarrow> nes \<Rightarrow> nes option" where
  "cpy E = with_operand E (\<lambda>v c. alu_cmp (cpu_y c) v c)"

definition op_bit :: "audio_env \<Rightarrow> nes \<Rightarrow> nes option" where
  "op_bit E = with_operand E (bit_flags)"

definition op_nop :: "audio_env \<Rightarrow> nes \<Rightarrow> nes option" where
  "op_nop E = with_operand E (\<lambda>v c. c)"

subsection \<open>Stores and transfers\<close>

definition op_sta :: "audio_env \<Rightarrow> nes \<Rightarrow> nes option" where
  "op_sta E s = cpu_memory_write E (cpu_operand (n_cpu s)) (cpu_a (n_cpu s)) s"

definition op_stx :: "audio_env \<Rightarrow> nes \<Rightarrow> nes option" where
  "op_stx E s = cpu_memory_write E (cpu_operand (n_cpu s)) (cpu_x (n_cpu s)) s"

definition op_sty :: "audio_env \<Rightarrow> nes \<Rightarrow> nes option" where
  "op_sty E s = cpu_memory_write E (cpu_operand (n_cpu s)) (cpu_y (n_cpu s)) s"

definition op_tax :: "audio_env \<Rightarrow> nes \<Rightarrow> nes option" where
  "op_tax E s = Some (cpu_do (\<lambda>c. set_x (cpu_a c) c) s)"

definition op_tay :: "audio_env \<Rightarrow> nes \<Rightarrow> nes option" where
  "op_tay E s = Some (cpu_do (\<lambda>c. set_y (cpu_a c) c) s)"

definition op_tsx :: "audio_env \<Rightarrow> nes \<Rightarrow> nes option" where
  "op_tsx E s = Some (cpu_do (\<lambda>c. set_x (cpu_sp c) c) s)"

definition op_txa :: "audio_env \<Rightarrow> nes \<Rightarrow> nes option" where
  "op_txa E s = Some (cpu_do (\<lambda>c. set_a (cpu_x c) c) s)"

definition op_txs :: "audio_env \<Rightarrow> nes \<Rightarrow> nes option" where
  "op_txs E s = Some (cpu_do (\<lambda>c. set_sp (cpu_x c) c) s)"

definition op_tya :: "audio_env \<Rightarrow> nes \<Rightarrow> nes option" where
  "op_tya E s = Some (cpu_do (\<lambda>c. set_a (cpu_y c) c) s)"

definition op_inx :: "audio_env \<Rightarrow> nes \<Rightarrow> nes option" where
  "op_inx E s = Some (cpu_do (\<lambda>c. set_x (cpu_x c + 1) c) s)"

definition op_iny :: "audio_env \<Rightarrow> nes \<Rightarrow> nes option" where
  "op_iny E s = Some (cpu_do (\<lambda>c. set_y (cpu_y c + 1) c) s)"

definition op_dex :: "audio_env \<Rightarrow> nes \<Rightarrow> nes option" where
  "op_dex E s = Some (cpu_do (\<lambda>c. set_x (cpu_x c - 1) c) s)"

definition op_dey :: "audio_env \<Rightarrow> nes \<Rightarrow> nes option" where
  "op_dey E s = Some (cpu_do (\<lambda>c. set_y (cpu_y c - 1) c) s)"

definition op_clc :: "audio_env \<Rightarrow> nes \<Rightarrow> nes option" where
  "op_clc E s = Some (cpu_do (clear_flags ps_CARRY) s)"

definition op_cld :: "audio_env \<Rightarrow> nes \<Rightarrow> nes option" where
  "op_cld E s = Some (cpu_do (clear_flags ps_DECIMAL) s)"

definition op_cli :: "audio_env \<Rightarrow> nes \<Rightarrow> nes option" where
  "op_cli E s = Some (cpu_do (clear_flags ps_INTERRUPT) s)"

definition op_clv :: "audio_env \<Rightarrow> nes \<Rightarrow> nes option" where
  "op_clv E s = Some (cpu_do (clear_flags ps_OVERFLOW) s)"

definition op_sec :: "audio_env \<Rightarrow> nes \<Rightarrow> nes option" where
  "op_sec E s = Some (cpu_do (set_flags ps_CARRY) s)"

definition op_sed :: "audio_env \<Rightarrow> nes \<Rightarrow> nes option" where
  "op_sed E s = Some (cpu_do (set_flags ps_DECIMAL) s)"

definition op_sei :: "audio_env \<Rightarrow> nes \<Rightarrow> nes option" where
  "op_sei E s = Some (cpu_do (set_flags ps_INTERRUPT) s)"

subsection \<open>Shifts, increments\<close>

text \<open>A read-modify-write access: the old value is written back before the new one.\<close>

definition inc_op :: "audio_env \<Rightarrow> nes \<Rightarrow> nes option" where
  "inc_op E s = do {
     let addr = cpu_operand (n_cpu s);
     let s = cpu_do (clear_flags (ps_NEGATIVE OR ps_ZERO)) s;
     (v, s) \<leftarrow> cpu_memory_read E addr s;
     s \<leftarrow> cpu_memory_write E addr v s;
     let v = v + 1;
     cpu_memory_write E addr v (cpu_do (set_zn_flags v) s) }"

definition dec_op :: "audio_env \<Rightarrow> nes \<Rightarrow> nes option" where
  "dec_op E s = do {
     let addr = cpu_operand (n_cpu s);
     let s = cpu_do (clear_flags (ps_NEGATIVE OR ps_ZERO)) s;
     (v, s) \<leftarrow> cpu_memory_read E addr s;
     s \<leftarrow> cpu_memory_write E addr v s;
     let v = v - 1;
     cpu_memory_write E addr v (cpu_do (set_zn_flags v) s) }"

definition shift_addr :: "(u8 \<Rightarrow> cpu \<Rightarrow> u8 \<times> cpu) \<Rightarrow> audio_env \<Rightarrow> nes \<Rightarrow> nes option" where
  "shift_addr sh E s = do {
     let addr = cpu_operand (n_cpu s);
     (v, s) \<leftarrow> cpu_memory_read E addr s;
     s \<leftarrow> cpu_memory_write E addr v s;
     let (r, c) = sh v (n_cpu s);
     cpu_memory_write E addr r (s\<lparr>n_cpu := c\<rparr>) }"

definition asl_addr :: "audio_env \<Rightarrow> nes \<Rightarrow> nes option" where
  "asl_addr = shift_addr asl"

definition lsr_addr :: "audio_env \<Rightarrow> nes \<Rightarrow> nes option" where
  "lsr_addr = shift_addr lsr"

definition rol_addr :: "audio_env \<Rightarrow> nes \<Rightarrow> nes option" where
  "rol_addr = shift_addr rol"

definition ror_addr :: "audio_env \<Rightarrow> nes \<Rightarrow> nes option" where
  "ror_addr = shift_addr ror"

definition op_asl_acc :: "audio_env \<Rightarrow> nes \<Rightarrow> nes option" where
  "op_asl_acc E s = Some (cpu_do (\<lambda>c. let (r, c) = asl (cpu_a c) c in set_a r c) s)"

definition op_lsr_acc :: "audio_env \<Rightarrow> nes \<Rightarrow> nes option" where
  "op_lsr_acc E s = Some (cpu_do (\<lambda>c. let (r, c) = lsr (cpu_a c) c in set_a r c) s)"

definition op_rol_acc :: "audio_env \<Rightarrow> nes \<Rightarrow> nes option" where
  "op_rol_acc E s = Some (cpu_do (\<lambda>c. let (r, c) = rol (cpu_a c) c in set_a r c) s)"

definition op_ror_acc :: "audio_env \<Rightarrow> nes \<Rightarrow> nes option" where
  "op_ror_acc E s = Some (cpu_do (\<lambda>c. let (r, c) = ror (cpu_a c) c in set_a r c) s)"

subsection \<open>Branches and jumps\<close>

definition branch_relative :: "(cpu \<Rightarrow> bool) \<Rightarrow> audio_env \<Rightarrow> nes \<Rightarrow> nes option" where
  "branch_relative branch E s =
     (if branch (n_cpu s) then do {
        let offset = (ucast (cpu_operand (n_cpu s)) :: u8);
        let s = cpu_do (\<lambda>c. if cpu_run_irq c \<and> \<not> cpu_prev_run_irq c then c\<lparr>cpu_run_irq := False\<rparr> else c) s;
        s \<leftarrow> dummy_read E s;
        s \<leftarrow> (if check_page_crossed_signed (cpu_pc (n_cpu s)) offset then dummy_read E s else Some s);
        Some (cpu_do (\<lambda>c. set_pc (cpu_pc c + scast offset) c) s) }
      else Some s)"

definition op_bcc :: "audio_env \<Rightarrow> nes \<Rightarrow> nes option" where
  "op_bcc = branch_relative (\<lambda>c. \<not> check_flag ps_CARRY c)"

definition op_bcs :: "audio_env \<Rightarrow> nes \<Rightarrow> nes option" where
  "op_bcs = branch_relative (check_flag ps_CARRY)"

definition op_beq :: "audio_env \<Rightarrow> nes \<Rightarrow> nes option" where
  "op_beq = branch_relative (check_flag ps_ZERO)"

definition op_bmi :: "audio_env \<Rightarrow> nes \<Rightarrow> nes option" where
  "op_bmi = branch_relative (check_flag ps_NEGATIVE)"

definition op_bne :: "audio_env \<Rightarrow> nes \<Rightarrow> nes option" where
  "op_bne = branch_relative (\<lambda>c. \<not> check_flag ps_ZERO c)"

definition op_bpl :: "audio_env \<Rightarrow> nes \<Rightarrow> nes option" where
  "op_bpl = branch_relative (\<lambda>c. \<not> check_flag ps_NEGATIVE c)"

definition op_bvc :: "audio_env \<Rightarrow> nes \<Rightarrow> nes option" where
  "op_bvc = branch_relative (\<lambda>c. \<not> check_flag ps_OVERFLOW c)"

definition op_bvs :: "audio_env \<Rightarrow> nes \<Rightarrow> nes option" where
  "op_bvs = branch_relative (check_flag ps_OVERFLOW)"

definition op_jmp_abs :: "audio_env \<Rightarrow> nes \<Rightarrow> nes option" where
  "op_jmp_abs E s = Some (cpu_do (\<lambda>c. set_pc (cpu_operand c) c) s)"

definition op_jmp_ind :: "audio_env \<Rightarrow> nes \<Rightarrow> nes option" where
  "op_jmp_ind E s = do {
     (addr, s) \<leftarrow> get_ind E s;
     Some (cpu_do (set_pc addr) s) }"

definition op_jsr :: "audio_env \<Rightarrow> nes \<Rightarrow> nes option" where
  "op_jsr E s = do {
     (lo, s) \<leftarrow> read_byte E s;
     s \<leftarrow> dummy_read E s;
     s \<leftarrow> cpu_push_word E (cpu_pc (n_cpu s)) s;
     (hi, s) \<leftarrow> read_byte E s;
     Some (cpu_do (set_pc (make_word hi lo)) s) }"

definition op_rts :: "audio_env \<Rightarrow> nes \<Rightarrow> nes option" where
  "op_rts E s = do {
     s \<leftarrow> dummy_read E s;
     (addr, s) \<leftarrow> cpu_pop_word E s;
     s \<leftarrow> dummy_read E s;
     Some (cpu_do (set_pc (addr + 1)) s) }"

definition op_rti :: "audio_env \<Rightarrow> nes \<Rightarrow> nes option" where
  "op_rti E s = do {
     s \<leftarrow> dummy_read E s;
     (v, s) \<leftarrow> cpu_pop E s;
     let s = cpu_do (set_ps v) s;
     (addr, s) \<leftarrow> cpu_pop_word E s;
     Some (cpu_do (set_pc addr) s) }"

definition op_pha :: "audio_env \<Rightarrow> nes \<Rightarrow> nes option" where
  "op_pha E s = cpu_push E (cpu_a (n_cpu s)) s"

definition op_php :: "audio_env \<Rightarrow> nes \<Rightarrow> nes option" where
  "op_php E s = cpu_push E (cpu_ps (n_cpu s) OR ps_BREAK OR ps_RESERVED) s"

definition op_pla :: "audio_env \<Rightarrow> nes \<Rightarrow> nes option" where
  "op_pla E s = do {
     s \<leftarrow> dummy_read E s;
     (v, s) \<leftarrow> cpu_pop E s;
     Some (cpu_do (set_a v) s) }"

definition op_plp :: "audio_env \<Rightarrow> nes \<Rightarrow> nes option" where
  "op_plp E s = do {
     s \<leftarrow> dummy_read E s;
     (v, s) \<leftarrow> cpu_pop E s;
     Some (cpu_do (set_ps v) s) }"

text \<open>The jump through the NMI or the IRQ vector, common to \<^verbatim>\<open>op_brk\<close> and \<^verbatim>\<open>irq\<close>.\<close>

definition take_vector :: "audio_env \<Rightarrow> u8 \<Rightarrow> nes \<Rightarrow> nes option" where
  "take_vector E flags s = do {
     let nmi = cpu_need_nmi (n_cpu s);
     let s = (if nmi then cpu_do (\<lambda>c. c\<lparr>cpu_need_nmi := False\<rparr>) s else s);
     s \<leftarrow> cpu_push E flags s;
     let s = cpu_do (set_flags ps_INTERRUPT) s;
     (addr, s) \<leftarrow> cpu_memory_read_word E (if nmi then NMI_VECTOR else IRQ_VECTOR) s;
     Some (cpu_do (set_pc addr) s) }"

definition op_brk :: "audio_env \<Rightarrow> nes \<Rightarrow> nes option" where
  "op_brk E s = do {
     s \<leftarrow> cpu_push_word E (cpu_pc (n_cpu s) + 1) s;
     let flags = cpu_ps (n_cpu s) OR ps_BREAK OR ps_RESERVED;
     s \<leftarrow> take_vector E flags s;
     Some (cpu_do (\<lambda>c. c\<lparr>cpu_prev_need_nmi := False\<rparr>) s) }"

definition op_hlt :: "audio_env \<Rightarrow> nes \<Rightarrow> nes option" where
  "op_hlt E s = Some (cpu_do (\<lambda>c. c\<lparr>cpu_pc := cpu_pc c - 1, cpu_prev_run_irq := False, cpu_prev_need_nmi := False\<rparr>) s)"

subsection \<open>Unofficial operations\<close>

definition op_slo :: "audio_env \<Rightarrow> nes \<Rightarrow> nes option" where
  "op_slo E s = do {
     (v, s) \<leftarrow> get_operand_value E s;
     s \<leftarrow> cpu_memory_write E (cpu_operand (n_cpu s)) v s;
     let (sv, c) = asl v (n_cpu s);
     let s = s\<lparr>n_cpu := set_a (cpu_a c OR sv) c\<rparr>;
     cpu_memory_write E (cpu_operand (n_cpu s)) sv s }"

definition op_sre :: "audio_env \<Rightarrow> nes \<Rightarrow> nes option" where
  "op_sre E s = do {
     (v, s) \<leftarrow> get_operand_value E s;
     s \<leftarrow> cpu_memory_write E (cpu_operand (n_cpu s)) v s;
     let (sv, c) = lsr v (n_cpu s);
     let s = s\<lparr>n_cpu := set_a (cpu_a c XOR sv) c\<rparr>;
     cpu_memory_write E (cpu_operand (n_cpu s)) sv s }"

definition op_rla :: "audio_env \<Rightarrow> nes \<Rightarrow> nes option" where
  "op_rla E s = do {
     (v, s) \<leftarrow> get_operand_value E s;
     s \<leftarrow> cpu_memory_write E (cpu_operand (n_cpu s)) v s;
     let (sv, c) = rol v (n_cpu s);
     let s = s\<lparr>n_cpu := set_a (cpu_a c AND sv) c\<rparr>;
     cpu_memory_write E (cpu_operand (n_cpu s)) sv s }"

definition op_rra :: "audio_env \<Rightarrow> nes \<Rightarrow> nes option" where
  "op_rra E s = do {
     (v, s) \<leftarrow> get_operand_value E s;
     s \<leftarrow> cpu_memory_write E (cpu_operand (n_cpu s)) v s;
     let (sv, c) = ror v (n_cpu s);
     let s = s\<lparr>n_cpu := alu_add sv c\<rparr>;
     cpu_memory_write E (cpu_operand (n_cpu s)) sv s }"

definition op_sax :: "audio_env \<Rightarrow> nes \<Rightarrow> nes option" where
  "op_sax E s = cpu_memory_write E (cpu_operand (n_cpu s)) (cpu_a (n_cpu s) AND cpu_x (n_cpu s)) s"

definition op_lax :: "audio_env \<Rightarrow> nes \<Rightarrow> nes option" where
  "op_lax E = with_operand E (\<lambda>v c. set_a v (set_x v c))"

definition op_dcp :: "audio_env \<Rightarrow> nes \<Rightarrow> nes option" where
  "op_dcp E s = do {
     (v, s) \<leftarrow> get_operand_value E s;
     s \<leftarrow> cpu_memory_write E (cpu_operand (n_cpu s)) v s;
     let v = v - 1;
     let s = cpu_do (\<lambda>c. alu_cmp (cpu_a c) v c) s;
     cpu_memory_write E (cpu_operand (n_cpu s)) v s }"

definition op_isb :: "audio_env \<Rightarrow> nes \<Rightarrow> nes option" where
  "op_isb E s = do {
     (v, s) \<leftarrow> get_operand_value E s;
     s \<leftarrow> cpu_memory_write E (cpu_operand (n_cpu s)) v s;
     let v = v + 1;
     let s = cpu_do (alu_add (v XOR 0xFF)) s;
     cpu_memory_write E (cpu_operand (n_cpu s)) v s }"

definition op_aac :: "audio_env \<Rightarrow> nes \<Rightarrow> nes option" where
  "op_aac E = with_operand E (\<lambda>v c.
     let c = clear_flags ps_CARRY (set_a (cpu_a c AND v) c)
     in if check_flag ps_NEGATIVE c then set_flags ps_CARRY c else c)"

definition op_asr :: "audio_env \<Rightarrow> nes \<Rightarrow> nes option" where
  "op_asr E s = with_operand E (\<lambda>v c.
     let c = set_a (cpu_a c AND v) c;
         c = (if cpu_a c AND 0x01 \<noteq> 0 then set_flags ps_CARRY c else c)
     in set_a (drop_bit 1 (cpu_a c)) c) (cpu_do (clear_flags ps_CARRY) s)"

definition op_arr :: "audio_env \<Rightarrow> nes \<Rightarrow> nes option" where
  "op_arr E = with_operand E (\<lambda>v c.
     let c = set_a (drop_bit 1 (cpu_a c AND v) OR (if check_flag ps_CARRY c then 0x80 else 0x00)) c;
         c = clear_flags (ps_CARRY OR ps_OVERFLOW) c;
         c = (if cpu_a c AND 0x40 \<noteq> 0 then set_flags ps_CARRY c else c)
     in if (if check_flag ps_CARRY c then 1 else 0) XOR (drop_bit 5 (cpu_a c) AND 1) \<noteq> 0
        then set_flags ps_OVERFLOW c else c)"

definition op_atx :: "audio_env \<Rightarrow> nes \<Rightarrow> nes option" where
  "op_atx E = with_operand E (\<lambda>v c.
     let c = set_a v c; c = set_x (cpu_a c) c in set_a (cpu_a c) c)"

definition op_axs :: "audio_env \<Rightarrow> nes \<Rightarrow> nes option" where
  "op_axs E = with_operand E (\<lambda>ov c.
     let v = (cpu_a c AND cpu_x c) - ov;
         c = clear_flags ps_CARRY c;
         c = (if cpu_a c AND cpu_x c \<ge> ov then set_flags ps_CARRY c else c)
     in set_x v c)"

definition op_ane :: "audio_env \<Rightarrow> nes \<Rightarrow> nes option" where
  "op_ane E = with_operand E (\<lambda>imm c. set_a ((cpu_a c OR 0xEE) AND cpu_x c AND imm) c)"

definition op_las :: "audio_env \<Rightarrow> nes \<Rightarrow> nes option" where
  "op_las E = with_operand E (\<lambda>v c.
     let c = set_a (v AND cpu_sp c) c; c = set_x (cpu_a c) c in set_sp (cpu_a c) c)"

text \<open>
  The stores whose value is masked with the high byte of the address plus one: \<open>base\<close> is
  indexed by \<open>i\<close>, and the value \<open>v\<close> also masks the high byte when a page is crossed.
\<close>

definition masked_store :: "audio_env \<Rightarrow> u16 \<Rightarrow> (cpu \<Rightarrow> u8) \<Rightarrow> (cpu \<Rightarrow> u8) \<Rightarrow> nes \<Rightarrow> nes option" where
  "masked_store E base i v s = do {
     s \<leftarrow> index_read E base (i (n_cpu s)) s;
     let addr = base + ucast (i (n_cpu s));
     let ah = (if check_page_crossed base (i (n_cpu s)) then hi_byte addr AND v (n_cpu s) else hi_byte addr);
     let al = lo_byte addr;
     cpu_memory_write E (make_word ah al) (v (n_cpu s) AND (hi_byte base + 1)) s }"

definition op_shy :: "audio_env \<Rightarrow> nes \<Rightarrow> nes option" where
  "op_shy E s = do {
     (base, s) \<leftarrow> read_word E s;
     masked_store E base cpu_x cpu_y s }"

definition op_shx :: "audio_env \<Rightarrow> nes \<Rightarrow> nes option" where
  "op_shx E s = do {
     (base, s) \<leftarrow> read_word E s;
     masked_store E base cpu_y cpu_x s }"

definition op_shaa :: "audio_env \<Rightarrow> nes \<Rightarrow> nes option" where
  "op_shaa E s = do {
     (base, s) \<leftarrow> read_word E s;
     masked_store E base cpu_y (\<lambda>c. cpu_x c AND cpu_a c) s }"

definition op_shaz :: "audio_env \<Rightarrow> nes \<Rightarrow> nes option" where
  "op_shaz E s = do {
     (zero, s) \<leftarrow> read_byte E s;
     (base, s) \<leftarrow> zero_page_word E zero s;
     masked_store E base cpu_y (\<lambda>c. cpu_x c AND cpu_a c) s }"

definition op_tas :: "audio_env \<Rightarrow> nes \<Rightarrow> nes option" where
  "op_tas E s = do {
     s \<leftarrow> op_shaa E s;
     Some (cpu_do (\<lambda>c. set_sp (cpu_x c AND cpu_a c) c) s) }"

section \<open>Dispatch\<close>

text \<open>The tables of member function pointers and of addressing modes.\<close>

definition op_table :: "(audio_env \<Rightarrow> nes \<Rightarrow> nes option) list" where
  "op_table = [
     op_brk, ora_op, op_hlt, op_slo, op_nop, ora_op, asl_addr, op_slo,
     op_php, ora_op, op_asl_acc, op_aac, op_nop, ora_op, asl_addr, op_slo,
     op_bpl, ora_op, op_hlt, op_slo, op_nop, ora_op, asl_addr, op_slo,
     op_clc, ora_op, op_nop, op_slo, op_nop, ora_op, asl_addr, op_slo,
     op_jsr, and_op, op_hlt, op_rla, op_bit, and_op, rol_addr, op_rla,
     op_plp, and_op, op_rol_acc, op_aac, op_bit, and_op, rol_addr, op_rla,
     op_bmi, and_op, op_hlt, op_rla, op_nop, and_op, rol_addr, op_rla,
     op_sec, and_op, op_nop, op_rla, op_nop, and_op, rol_addr, op_rla,
     op_rti, eor_op, op_hlt, op_sre, op_nop, eor_op, lsr_addr, op_sre,
     op_pha, eor_op, op_lsr_acc, op_asr, op_jmp_abs, eor_op, lsr_addr, op_sre,
     op_bvc, eor_op, op_hlt, op_sre, op_nop, eor_op, lsr_addr, op_sre,
     op_cli, eor_op, op_nop, op_sre, op_nop, eor_op, lsr_addr, op_sre,
     op_rts, adc_op, op_hlt, op_rra, op_nop, adc_op, ror_addr, op_rra,
     op_pla, adc_op, op_ror_acc, op_arr, op_jmp_ind, adc_op, ror_addr, op_rra,
     op_bvs, adc_op, op_hlt, op_rra, op_nop, adc_op, ror_addr, op_rra,
     op_sei, adc_op, op_nop, op_rra, op_nop, adc_op, ror_addr, op_rra,
     op_nop, op_sta, op_nop, op_sax, op_sty, op_sta, op_stx, op_sax,
     op_dey, op_nop, op_txa, op_ane, op_sty, op_sta, op_stx, op_sax,
     op_bcc, op_sta, op_hlt, op_shaz, op_sty, op_sta, op_stx, op_sax,
     op_tya, op_sta, op_txs, op_tas, op_shy, op_sta, op_shx, op_shaa,
     op_ldy, op_lda, op_ldx, op_lax, op_ldy, op_lda, op_ldx, op_lax,
     op_tay, op_lda, op_tax, op_atx, op_ldy, op_lda, op_ldx, op_lax,
     op_bcs, op_lda, op_hlt, op_lax, op_ldy, op_lda, op_ldx, op_lax,
     op_clv, op_lda, op_tsx, op_las, op_ldy, op_lda, op_ldx, op_lax,
     cpy, cpa, op_nop, op_dcp, cpy, cpa, dec_op, op_dcp,
     op_iny, cpa, op_dex, op_axs, cpy, cpa, dec_op, op_dcp,
     op_bne, cpa, op_hlt, op_dcp, op_nop, cpa, dec_op, op_dcp,
     op_cld, cpa, op_nop, op_dcp, op_nop, cpa, dec_op, op_dcp,
     cpx, sbc_op, op_nop, op_isb, cpx, sbc_op, inc_op, op_isb,
     op_inx, sbc_op, op_nop, sbc_op, cpx, sbc_op, inc_op, op_isb,
     op_beq, sbc_op, op_hlt, op_isb, op_nop, sbc_op, inc_op, op_isb,
     op_sed, sbc_op, op_nop, op_isb, op_nop, sbc_op, inc_op, op_isb]"

definition addr_mode_table :: "addr_mode list" where
  "addr_mode_table = [
     AM_IMP, AM_IND_X, AM_NONE, AM_IND_X, AM_ZERO, AM_ZERO, AM_ZERO, AM_ZERO,
     AM_IMP, AM_IMM, AM_ACC, AM_IMM, AM_ABS, AM_ABS, AM_ABS, AM_ABS,
     AM_REL, AM_IND_Y, AM_NONE, AM_IND_YW, AM_ZERO_X, AM_ZERO_X, AM_ZERO_X, AM_ZERO_X,
     AM_IMP, AM_ABS_Y, AM_IMP, AM_ABS_YW, AM_ABS_X, AM_ABS_X, AM_ABS_XW, AM_ABS_XW,
     AM_OTHER, AM_IND_X, AM_NONE, AM_IND_X, AM_ZERO, AM_ZERO, AM_ZERO, AM_ZERO,
     AM_IMP, AM_IMM, AM_ACC, AM_IMM, AM_ABS, AM_ABS, AM_ABS, AM_ABS,
     AM_REL, AM_IND_Y, AM_NONE, AM_IND_YW, AM_ZERO_X, AM_ZERO_X, AM_ZERO_X, AM_ZERO_X,
     AM_IMP, AM_ABS_Y, AM_IMP, AM_ABS_YW, AM_ABS_X, AM_ABS_X, AM_ABS_XW, AM_ABS_XW,
     AM_IMP, AM_IND_X, AM_NONE, AM_IND_X, AM_ZERO, AM_ZERO, AM_ZERO, AM_ZERO,
     AM_IMP, AM_IMM, AM_ACC, AM_IMM, AM_ABS, AM_ABS, AM_ABS, AM_ABS,
     AM_REL, AM_IND_Y, AM_NONE, AM_IND_YW, AM_ZERO_X, AM_ZERO_X, AM_ZERO_X, AM_ZERO_X,
     AM_IMP, AM_ABS_Y, AM_IMP, AM_ABS_YW, AM_ABS_X, AM_ABS_X, AM_ABS_XW, AM_ABS_XW,
     AM_IMP, AM_IND_X, AM_NONE, AM_IND_X, AM_ZERO, AM_ZERO, AM_ZERO, AM_ZERO,
     AM_IMP, AM_IMM, AM_ACC, AM_IMM, AM_IND, AM_ABS, AM_ABS, AM_ABS,
     AM_REL, AM_IND_Y, AM_NONE, AM_IND_YW, AM_ZERO_X, AM_ZERO_X, AM_ZERO_X, AM_ZERO_X,
     AM_IMP, AM_ABS_Y, AM_IMP, AM_ABS_YW, AM_ABS_X, AM_ABS_X, AM_ABS_XW, AM_ABS_XW,
     AM_IMM, AM_IND_X, AM_IMM, AM_IND_X, AM_ZERO, AM_ZERO, AM_ZERO, AM_ZERO,
     AM_IMP, AM_IMM, AM_IMP, AM_IMM, AM_ABS, AM_ABS, AM_ABS, AM_ABS,
     AM_REL, AM_IND_YW, AM_NONE, AM_OTHER, AM_ZERO_X, AM_ZERO_X, AM_ZERO_Y, AM_ZERO_Y,
     AM_IMP, AM_ABS_YW, AM_IMP, AM_OTHER, AM_OTHER, AM_ABS_XW, AM_OTHER, AM_OTHER,
     AM_IMM, AM_IND_X, AM_IMM, AM_IND_X, AM_ZERO, AM_ZERO, AM_ZERO, AM_ZERO,
     AM_IMP, AM_IMM, AM_IMP, AM_IMM, AM_ABS, AM_ABS, AM_ABS, AM_ABS,
     AM_REL, AM_IND_Y, AM_NONE, AM_IND_Y, AM_ZERO_X, AM_ZERO_X, AM_ZERO_Y, AM_ZERO_Y,
     AM_IMP, AM_ABS_Y, AM_IMP, AM_ABS_Y, AM_ABS_X, AM_ABS_X, AM_ABS_Y, AM_ABS_Y,
     AM_IMM, AM_IND_X, AM_IMM, AM_IND_X, AM_ZERO, AM_ZERO, AM_ZERO, AM_ZERO,
     AM_IMP, AM_IMM, AM_IMP, AM_IMM, AM_ABS, AM_ABS, AM_ABS, AM_ABS,
     AM_REL, AM_IND_Y, AM_NONE, AM_IND_YW, AM_ZERO_X, AM_ZERO_X, AM_ZERO_X, AM_ZERO_X,
     AM_IMP, AM_ABS_Y, AM_IMP, AM_ABS_YW, AM_ABS_X, AM_ABS_X, AM_ABS_XW, AM_ABS_XW,
     AM_IMM, AM_IND_X, AM_IMM, AM_IND_X, AM_ZERO, AM_ZERO, AM_ZERO, AM_ZERO,
     AM_IMP, AM_IMM, AM_IMP, AM_IMM, AM_ABS, AM_ABS, AM_ABS, AM_ABS,
     AM_REL, AM_IND_Y, AM_NONE, AM_IND_YW, AM_ZERO_X, AM_ZERO_X, AM_ZERO_X, AM_ZERO_X,
     AM_IMP, AM_ABS_Y, AM_IMP, AM_ABS_YW, AM_ABS_X, AM_ABS_X, AM_ABS_XW, AM_ABS_XW]"

section \<open>Execution\<close>

definition cpu_irq :: "audio_env \<Rightarrow> nes \<Rightarrow> nes option" where
  "cpu_irq E s = do {
     s \<leftarrow> dummy_read E s;
     s \<leftarrow> dummy_read E s;
     s \<leftarrow> cpu_push_word E (cpu_pc (n_cpu s)) s;
     take_vector E (cpu_ps (n_cpu s) OR ps_RESERVED) s }"

definition cpu_exec :: "audio_env \<Rightarrow> nes \<Rightarrow> nes option" where
  "cpu_exec E s = do {
     (opcode, s) \<leftarrow> get_op_code E s;
     m \<leftarrow> rd addr_mode_table (unat opcode);
     let s = cpu_do (\<lambda>c. c\<lparr>cpu_inst_addr_mode := m\<rparr>) s;
     (v, s) \<leftarrow> fetch_operand E s;
     let s = cpu_do (\<lambda>c. c\<lparr>cpu_operand := v\<rparr>) s;
     f \<leftarrow> rd op_table (unat opcode);
     s \<leftarrow> f E s;
     if cpu_prev_run_irq (n_cpu s) \<or> cpu_prev_need_nmi (n_cpu s) then cpu_irq E s else Some s }"

text \<open>
  \<^verbatim>\<open>reset\<close>: the vector is read without a cycle, low byte first, and the CPU then idles for
  eight cycles.
\<close>

definition idle_cycle :: "audio_env \<Rightarrow> nes \<Rightarrow> nes option" where
  "idle_cycle E s = Option.bind (start_cpu_cycle E True s) (end_cpu_cycle True)"

definition cpu_clear_lines :: "cpu \<Rightarrow> cpu" where
  "cpu_clear_lines c = c\<lparr>cpu_nmi_flag := False, cpu_irq_flag := 0, cpu_sprite_dma_transfer := False,
     cpu_sprite_dma_offset := 0, cpu_need_halt := False, cpu_dmc_dma_running := False,
     cpu_abort_dmc_dma := False, cpu_write_cycle := False\<rparr>"

definition cpu_power_up :: "u16 \<Rightarrow> cpu \<Rightarrow> cpu" where
  "cpu_power_up pc c = c\<lparr>cpu_pc := pc, cpu_a := 0, cpu_sp := 0xFD, cpu_x := 0, cpu_y := 0,
     cpu_ps := ps_INTERRUPT, cpu_run_irq := False, cpu_prev_run_irq := False, cpu_need_nmi := False,
     cpu_prev_need_nmi := False, cpu_prev_nmi_flag := False, cpu_cycle_count := - 1,
     cpu_master_clock := 12\<rparr>"

definition cpu_reset :: "audio_env \<Rightarrow> bool \<Rightarrow> nes \<Rightarrow> nes option" where
  "cpu_reset E soft_reset s = do {
     let s = cpu_do cpu_clear_lines s;
     (lo, s) \<leftarrow> memory_read RESET_VECTOR s;
     (hi, s) \<leftarrow> memory_read (RESET_VECTOR + 1) s;
     for_each (\<lambda>_. idle_cycle E) [0..<8] (cpu_do (cpu_power_up (make_word hi lo)) s) }"

end
