(* ===== verification/Console.thy ===== *)
theory Console
  imports Mapper_Factory Nes_Db Cpu_Ops
begin

text \<open>
  \<^verbatim>\<open>NesConsole\<close> (\<^verbatim>\<open>src/systems/nes/nes_console.cpp\<close>): loading a ROM image, which builds the
  whole machine, reset, the frame loop and the calls of the front end.

  Parameters of the model: \<open>E\<close>, the audio environment; \<open>db_text\<close>, the text of the ROM
  database, which the build embeds from a file it generates; \<open>topology\<close>, whether the
  environment variable \<^verbatim>\<open>EAR6_CLI_INPUT_TOPOLOGY\<close> is set.
\<close>

section \<open>State\<close>

text \<open>
  Before the first ROM every component but the sound mixer is a null pointer. Once there is
  a machine its \<open>n_mixer\<close> is that same mixer: a later ROM does not make a new one.
\<close>

datatype console = Unloaded mixer | Running nes

fun console_mixer :: "console \<Rightarrow> mixer" where
  "console_mixer (Unloaded mx) = mx"
| "console_mixer (Running s) = n_mixer s"

fun console_last_frame :: "console \<Rightarrow> u32" where
  "console_last_frame (Unloaded _) = 0"
| "console_last_frame (Running s) = n_last_frame s"

definition new_console :: console where
  "new_console = Unloaded new_mixer"

section \<open>Reset\<close>

definition console_reset :: "audio_env \<Rightarrow> bool \<Rightarrow> nes \<Rightarrow> nes option" where
  "console_reset E soft_reset s = do {
     let s = s\<lparr>n_mem := memory_reset soft_reset (n_mem s), n_ppu := ppu_reset soft_reset (n_ppu s),
               n_apu := apu_reset soft_reset (n_apu s)\<rparr>;
     s \<leftarrow> cpu_reset E soft_reset s;
     Some (s\<lparr>n_ctl := control_reset soft_reset (n_ctl s)\<rparr>) }"

section \<open>Loading a ROM image\<close>

definition header_size :: "rom_info \<Rightarrow> nat" where
  "header_size info = 16 + (if ri_has_trainer info then 512 else 0)"

definition prg_bytes :: "rom_info \<Rightarrow> nat" where
  "prg_bytes info = ri_prg_banks info * 0x4000"

definition chr_bytes :: "rom_info \<Rightarrow> nat" where
  "chr_bytes info = ri_chr_banks info * 0x2000"

text \<open>
  The header and what the database says of the ROM. The checksum covers \<open>size - header_size\<close>
  bytes; when the image is shorter than its header this \<^verbatim>\<open>size_t\<close> wraps around and the loop
  leaves the image.
\<close>

definition resolve_info :: "string \<Rightarrow> u8 list \<Rightarrow> rom_info option" where
  "resolve_info db_text data = do {
     info0 \<leftarrow> parse_header data;
     if length data < header_size info0 then None
     else do {
       info \<leftarrow> apply_nesdb_overrides db_text (crc32_update 0 (drop (header_size info0) data)) info0;
       let info = (if \<not> is_supported (ri_mapper_number info) \<and> is_supported (ri_mapper_number info0)
                   then info\<lparr>ri_mapper_number := ri_mapper_number info0\<rparr> else info);
       Some (if ri_mapper_number info = 99
             then info\<lparr>ri_is_vs_system := True, ri_use_vs_palette := True\<rparr> else info) } }"

text \<open>\<^verbatim>\<open>memcpy\<close> of \<open>n\<close> bytes from position \<open>pos\<close> of the image.\<close>

definition slice :: "nat \<Rightarrow> nat \<Rightarrow> u8 list \<Rightarrow> u8 list option" where
  "slice pos n data = (if pos + n \<le> length data then Some (take n (drop pos data)) else None)"

definition trainer_bytes :: "rom_info \<Rightarrow> u8 list \<Rightarrow> u8 list" where
  "trainer_bytes info data =
     (if ri_has_trainer info \<and> length data \<ge> header_size info then take 512 (drop 16 data) else [])"

text \<open>The cartridge: made, sized, initialised, and given its RAM.\<close>

definition build_cartridge :: "rom_info \<Rightarrow> u8 list \<Rightarrow> u8 list \<Rightarrow> u8 list \<Rightarrow> mapper option" where
  "build_cartridge info prg_rom chr_rom trainer_data = do {
     m \<leftarrow> mapper_create (ri_mapper_number info);
     let m = (case ri_bus_conflicts info of
                BUS_YES \<Rightarrow> set_has_bus_conflicts True m
              | BUS_NO \<Rightarrow> set_has_bus_conflicts False m
              | BUS_DEFAULT \<Rightarrow> m);
     m \<leftarrow> mapper_init info prg_rom chr_rom (init_work_ram info m);
     m \<leftarrow> (if trainer_data \<noteq> [] then apply_trainer_data trainer_data m else Some m);
     let m = setup_default_work_ram m;
     Some (if m_chr_rom_size m > 0 then m else initialize_chr_ram (- 1) m) }"

text \<open>The devices of a new machine, in the order of their registration.\<close>

definition register_devices :: "control \<Rightarrow> mapper \<Rightarrow> memory \<Rightarrow> memory" where
  "register_devices ctl m mem =
     register_io_device H_Mapper (mapper_memory_ranges m)
       (register_io_device H_Control (control_memory_ranges ctl)
         (register_io_device H_Apu apu_memory_ranges
           (register_io_device H_Ppu ppu_memory_ranges mem)))"

definition build_machine :: "bool \<Rightarrow> rom_info \<Rightarrow> mapper \<Rightarrow> mixer \<Rightarrow> u32 \<Rightarrow> nes" where
  "build_machine topology info m mx last_frame =
     (let ctl = new_control (ri_is_vs_system info);
          ctl = (if topology then set_cli_exp_bit3_mode True ctl else ctl);
          ppu = (if ri_is_vs_system info \<or> ri_use_vs_palette info
                 then new_ppu\<lparr>ppu_no_odd_frame_skip := True\<rparr> else new_ppu)
      in \<lparr>n_cpu = cpu0, n_ppu = ppu, n_apu = new_apu, n_mixer = mx,
          n_mem = register_devices ctl m new_memory_manager, n_ctl = ctl, n_mapper = m, n_rom = info,
          n_last_frame = last_frame\<rparr>)"

text \<open>The result is the code's return value and the console after the call.\<close>

definition load_rom :: "audio_env \<Rightarrow> bool \<Rightarrow> string \<Rightarrow> u8 list \<Rightarrow> console \<Rightarrow> (int \<times> console) option" where
  "load_rom E topology db_text data con =
     (if \<not> is_valid data then Some (- 1, con)
      else do {
        info \<leftarrow> resolve_info db_text data;
        prg_rom \<leftarrow> slice (header_size info) (prg_bytes info) data;
        chr_rom \<leftarrow> slice (header_size info + prg_bytes info) (chr_bytes info) data;
        m \<leftarrow> build_cartridge info prg_rom chr_rom (trainer_bytes info data);
        s \<leftarrow> console_reset E False
               (build_machine topology info m (console_mixer con) (console_last_frame con));
        Some (0, Running s) })"

section \<open>Running\<close>

definition run_frame_loop :: "audio_env \<Rightarrow> nes \<Rightarrow> nes option" where
  "run_frame_loop E s =
     while_loop (\<lambda>t. ppu_frame_count (n_ppu t) = ppu_frame_count (n_ppu s)) (cpu_exec E) s"

definition finish_frame :: "audio_env \<Rightarrow> nes \<Rightarrow> nes option" where
  "finish_frame E s = do {
     let n = ppu_frame_count (n_ppu s);
     let s = s\<lparr>n_last_frame := (if n > 0 then n - 1 else 0)\<rparr>;
     b \<leftarrow> apu_end_frame E (apu_bus_of s);
     let s = with_apu_bus b s;
     a \<leftarrow> push_frame (n_apu s);
     Some (s\<lparr>n_apu := a\<rparr>) }"

definition run_frame :: "audio_env \<Rightarrow> nes \<Rightarrow> nes option" where
  "run_frame E s = Option.bind (run_frame_loop E s) (finish_frame E)"

section \<open>The front end\<close>

text \<open>The calls that do nothing, or return null or zero, before a ROM is loaded.\<close>

fun console_button :: "int \<Rightarrow> int \<Rightarrow> bool \<Rightarrow> console \<Rightarrow> console option" where
  "console_button port button pressed (Unloaded mx) = Some (Unloaded mx)"
| "console_button port button pressed (Running s) =
     map_option (\<lambda>c. Running (s\<lparr>n_ctl := c\<rparr>)) (set_button_state port button pressed (n_ctl s))"

fun console_clear_input :: "console \<Rightarrow> console" where
  "console_clear_input (Unloaded mx) = Unloaded mx"
| "console_clear_input (Running s) = Running (s\<lparr>n_ctl := control_clear_all (n_ctl s)\<rparr>)"

fun console_audio_buffer :: "console \<Rightarrow> i16 list option option" where
  "console_audio_buffer (Unloaded mx) = Some None"
| "console_audio_buffer (Running s) = get_buffer (n_apu s)"

fun console_audio_samples :: "console \<Rightarrow> nat option" where
  "console_audio_samples (Unloaded mx) = Some 0"
| "console_audio_samples (Running s) = get_samples (n_apu s)"

fun console_consume_audio :: "console \<Rightarrow> console" where
  "console_consume_audio (Unloaded mx) = Unloaded mx"
| "console_consume_audio (Running s) = Running (s\<lparr>n_apu := consume_audio (n_apu s)\<rparr>)"

end
