(* ===== verification/Machine_Safety.thy ===== *)
theory Machine_Safety
  imports Machine Apu_Dma Ppu_Register_Facts
begin

text \<open>
  The machine as a whole: the invariant of the console, the contract of the devices in the
  CPU's address space, and the total correctness of a CPU cycle and of a memory access,
  transfers of the DMA unit included.
\<close>

section \<open>The invariant\<close>

definition nes_ok :: "nes \<Rightarrow> bool" where
  "nes_ok s \<longleftrightarrow> bus_ok (ppu_bus_of s) \<and> ppu_master_clock_divider (n_ppu s) \<noteq> 0 \<and>
     apu_ok (n_apu s) (n_mixer s) \<and> control_ok (n_ctl s) \<and> length (mm_internal_ram (n_mem s)) = 0x800"

abbreviation dma_state :: "nes \<Rightarrow> dmc \<times> cpu" where
  "dma_state s \<equiv> (ap_dmc (n_apu s), n_cpu s)"

abbreviation tables :: "nes \<Rightarrow> (u16 \<Rightarrow> handler) \<times> (u16 \<Rightarrow> handler)" where
  "tables s \<equiv> (mm_read_handlers (n_mem s), mm_write_handlers (n_mem s))"

text \<open>
  A device may change its own state, the interrupt lines and the requests of the DMC; it
  leaves the time of the PPU, the registers of the CPU and the handler tables alone.
\<close>

definition stays :: "nes \<Rightarrow> nes \<Rightarrow> bool" where
  "stays s t \<longleftrightarrow> nes_ok t \<and> time_of (n_ppu t) = time_of (n_ppu s) \<and>
     cpu_core (n_cpu t) = cpu_core (n_cpu s) \<and> tables t = tables s"

definition moves :: "nes \<Rightarrow> nes \<Rightarrow> bool" where
  "moves s t \<longleftrightarrow> stays s t \<and> dma_moves (dma_state s) (dma_state t)"

lemma stays_refl [simp]: "stays s s \<longleftrightarrow> nes_ok s"
  by (simp add: stays_def)

lemma moves_refl [simp]: "moves s s \<longleftrightarrow> nes_ok s"
  by (simp add: moves_def)

lemma stays_trans: "stays s t \<Longrightarrow> stays t u \<Longrightarrow> stays s u"
  by (simp add: stays_def)

lemma moves_trans: "moves s t \<Longrightarrow> moves t u \<Longrightarrow> moves s u"
  by (auto simp: moves_def intro: stays_trans dma_moves_trans)

lemma moves_stays: "moves s t \<Longrightarrow> stays s t"
  by (simp add: moves_def)

lemma stays_ok: "stays s t \<Longrightarrow> nes_ok t"
  by (simp add: stays_def)

lemma moves_ok: "moves s t \<Longrightarrow> nes_ok t"
  by (simp add: moves_def stays_def)

lemma nes_ok_cpu [simp]: "nes_ok (s\<lparr>n_cpu := c\<rparr>) = nes_ok s" "nes_ok (cpu_do f s) = nes_ok s"
  by (simp_all add: nes_ok_def ppu_bus_of_def bus_ok_def cpu_do_def)

lemma nes_ok_mem [simp]:
  "nes_ok (s\<lparr>n_mem := memory_set_open_bus v b m\<rparr>) = nes_ok (s\<lparr>n_mem := m\<rparr>)"
  by (simp add: nes_ok_def ppu_bus_of_def bus_ok_def memory_set_open_bus_def)

section \<open>The contract of a device\<close>

locale memory_device =
  fixes dread :: "u16 \<Rightarrow> nes \<Rightarrow> (u8 \<times> nes) option"
    and dwrite :: "u16 \<Rightarrow> u8 \<Rightarrow> nes \<Rightarrow> nes option"
  assumes read_moves: "nes_ok s \<Longrightarrow> ok (dread addr s) (\<lambda>(v, t). moves s t)"
    and write_stays: "nes_ok s \<Longrightarrow> ok (dwrite addr v s) (stays s)"
    and write_moves: "nes_ok s \<Longrightarrow> addr \<noteq> 0x4014 \<Longrightarrow> addr \<noteq> 0x4015 \<Longrightarrow> ok (dwrite addr v s) (moves s)"
begin

text \<open>The memory manager's access through a device, with the open bus left behind.\<close>

lemma bus_read:
  assumes "nes_ok s"
  shows "ok (Option.bind (dread addr s) (\<lambda>(v, s). Some (v, s\<lparr>n_mem := memory_set_open_bus v b (n_mem s)\<rparr>)))
    (\<lambda>(v, t). moves s t)"
proof -
  have "moves s (t\<lparr>n_mem := memory_set_open_bus v b (n_mem t)\<rparr>)" if "moves s t" for v t
    using that by (simp add: moves_def stays_def memory_set_open_bus_def del: nes_ok_mem)
      (simp add: nes_ok_def ppu_bus_of_def)
  then show ?thesis by (auto intro!: ok_mono [OF read_moves [OF assms]])
qed

lemma bus_write:
  assumes "nes_ok s"
  shows "ok (Option.bind (dwrite addr v s) (\<lambda>s. Some (s\<lparr>n_mem := memory_set_open_bus v b (n_mem s)\<rparr>))) (stays s)"
    "addr \<noteq> 0x4014 \<Longrightarrow> addr \<noteq> 0x4015 \<Longrightarrow>
      ok (Option.bind (dwrite addr v s) (\<lambda>s. Some (s\<lparr>n_mem := memory_set_open_bus v b (n_mem s)\<rparr>))) (moves s)"
proof -
  have st: "stays s (t\<lparr>n_mem := memory_set_open_bus v b (n_mem t)\<rparr>)" if "stays s t" for t
    using that by (simp add: stays_def memory_set_open_bus_def del: nes_ok_mem) (simp add: nes_ok_def ppu_bus_of_def)
  then show "ok (Option.bind (dwrite addr v s) (\<lambda>s. Some (s\<lparr>n_mem := memory_set_open_bus v b (n_mem s)\<rparr>))) (stays s)"
    by (auto intro!: ok_mono [OF write_stays [OF assms]])
  assume a: "addr \<noteq> 0x4014" "addr \<noteq> 0x4015"
  show "ok (Option.bind (dwrite addr v s) (\<lambda>s. Some (s\<lparr>n_mem := memory_set_open_bus v b (n_mem s)\<rparr>))) (moves s)"
    using st by (auto intro!: ok_mono [OF write_moves [OF assms a]] simp: moves_def)
qed

end

section \<open>The six devices\<close>

interpretation open_bus_dev: memory_device open_bus_read open_bus_write
  by unfold_locales (simp_all add: open_bus_read_def open_bus_write_def)

lemma ram_index: "unat (addr AND 0x7FF :: u16) < 0x800"
  by (rule unat_and_less) simp

interpretation ram_dev: memory_device ram_read ram_write
proof unfold_locales
  fix s addr v assume s: "nes_ok s"
  then have len: "length (mm_internal_ram (n_mem s)) = 0x800" by (simp add: nes_ok_def)
  show "ok (ram_read addr s) (\<lambda>(v, t). moves s t)"
    using s ram_index [of addr] by (simp add: ram_read_def len)
  have m: "moves s (s\<lparr>n_mem := (n_mem s)\<lparr>mm_internal_ram := (mm_internal_ram (n_mem s))[i := v]\<rparr>\<rparr>)" for i
    using s by (simp add: moves_def stays_def nes_ok_def ppu_bus_of_def bus_ok_def)
  then show "ok (ram_write addr v s) (stays s)" "ok (ram_write addr v s) (moves s)"
    using ram_index [of addr] moves_stays [OF m] by (simp_all add: ram_write_def len)
qed

lemma ppu_dev_moves:
  assumes "nes_ok s" "bus_keeps (ppu_bus_of s) b"
  shows "moves s (with_ppu_bus b s)"
proof -
  obtain p m c where b: "b = (p, m, c)" by (cases b)
  from assms(2) have q: "cpu_quiet c = cpu_quiet (n_cpu s)" "time_of p = time_of (n_ppu s)" "ppu_ok p" "loaded m"
    by (auto simp: b bus_keeps_def keeps_def clock_of_def ppu_bus_of_def)
  have d: "ppu_master_clock_divider p = ppu_master_clock_divider (n_ppu s)" using q(2) by (simp add: time_of_def)
  show ?thesis
    using assms(1) q d cpu_quietD(1) [OF q(1)] dma_moves_same [OF q(1)]
    by (simp add: moves_def stays_def nes_ok_def with_ppu_bus_def b ppu_bus_of_def bus_ok_def)
qed

interpretation ppu_dev: memory_device ppu_dev_read ppu_dev_write
proof unfold_locales
  fix s addr v assume s: "nes_ok s"
  then have b: "bus_ok (ppu_bus_of s)" by (simp add: nes_ok_def)
  show "ok (ppu_dev_read addr s) (\<lambda>(v, t). moves s t)"
    by (auto simp: ppu_dev_read_def intro!: ok_mono [OF ppu_read_ram_ok [OF b]] ppu_dev_moves [OF s])
  note w = ppu_write_ram_ok [OF b, of "get_open_bus 0xFF (n_mem s)" addr v]
  show quiet: "ok (ppu_dev_write addr v s) (moves s)" if "addr \<noteq> 0x4014"
    using that by (auto simp: ppu_dev_write_def intro!: ok_mono [OF w] ppu_dev_moves [OF s])
  let ?s = "s\<lparr>n_cpu := run_dma_transfer v (n_cpu s)\<rparr>"
  have dma: "stays s (with_ppu_bus c s)" if "bus_keeps (on_cpu (run_dma_transfer v) (ppu_bus_of s)) c" for c
  proof -
    have "on_cpu (run_dma_transfer v) (ppu_bus_of s) = ppu_bus_of ?s" by (simp add: ppu_bus_of_def on_cpu_def)
    with that have "moves ?s (with_ppu_bus c ?s)" using s by (intro ppu_dev_moves) simp_all
    moreover have "with_ppu_bus c ?s = with_ppu_bus c s" by (simp add: with_ppu_bus_def split: prod.split)
    ultimately have "stays ?s (with_ppu_bus c s)" by (metis moves_stays)
    then show ?thesis by (simp add: stays_def)
  qed
  show "ok (ppu_dev_write addr v s) (stays s)"
  proof (cases "addr = 0x4014")
    case True
    have "ok (ppu_write_ram (get_open_bus 0xFF (n_mem s)) addr v (ppu_bus_of s)) (\<lambda>c. stays s (with_ppu_bus c s))"
      by (rule ok_mono [OF w]) (rule dma, simp add: True)
    then show ?thesis by (simp add: ppu_dev_write_def)
  qed (auto intro: ok_mono [OF quiet] moves_stays)
qed

lemma apu_dev_stays:
  assumes "nes_ok s" "apu_ok (fst b) (fst (snd b))" "cpu_core (snd (snd b)) = cpu_core (n_cpu s)"
  shows "stays s (with_apu_bus b s)"
  using assms by (auto simp: stays_def nes_ok_def with_apu_bus_def ppu_bus_of_def bus_ok_def split: prod.split)

lemma apu_dev_moves:
  assumes "nes_ok s" "apu_ok (fst b) (fst (snd b))" "dma_moves (dma_of (apu_bus_of s)) (dma_of b)"
  shows "moves s (with_apu_bus b s)"
proof -
  have "cpu_core (snd (snd b)) = cpu_core (n_cpu s)" using assms(3) by (simp add: dma_moves_def apu_bus_of_def)
  with apu_dev_stays [OF assms(1,2)] assms(3) show ?thesis
    by (auto simp: moves_def with_apu_bus_def apu_bus_of_def split: prod.split)
qed

lemma dmc_write_ram_quiet:
  assumes "dmc_write_ram addr v (d, mx, cpu) = Some (d', mx', cpu')"
  shows "dmc_pending d' = dmc_pending d \<and> cpu_quiet cpu' = cpu_quiet cpu"
  using assms unfolding dmc_write_ram_def Let_def
  by (auto simp: bind_eq_Some_conv dmc_pending_def simp del: bind_split split: if_split_asm)

lemma apu_write_ram_shape:
  assumes "apu_write_ram addr v s = Some s'" "addr \<noteq> 0x4015" "s' \<noteq> s"
  shows "\<exists>t. apu_run s = Some t \<and> dmc_pending (ap_dmc (fst s')) = dmc_pending (ap_dmc (fst t)) \<and>
    cpu_quiet (snd (snd s')) = cpu_quiet (snd (snd t))"
proof -
  let ?P = "\<lambda>t. dmc_pending (ap_dmc (fst s')) = dmc_pending (ap_dmc (fst t)) \<and>
    cpu_quiet (snd (snd s')) = cpu_quiet (snd (snd t))"
  have *: "\<exists>t. apu_run s = Some t \<and> ?P t"
    if "Option.bind (apu_run s) f = Some s'" "\<And>t. f t = Some s' \<Longrightarrow> ?P t" for f
    using that by (auto simp: bind_eq_Some_conv)
  show ?thesis
    using assms unfolding apu_write_ram_def fc_write_ram_def
    apply (simp only: if_False split: if_split_asm)
    apply (simp_all only: option.inject)
    apply (erule *, (auto simp: bind_eq_Some_conv Let_def add_need_def simp del: bind_split dest!: dmc_write_ram_quiet split: if_split_asm)[])+
    apply simp
    done
qed
lemma apu_write_ram_dma:
  assumes "apu_write_ram addr v s = Some s'" "addr \<noteq> 0x4015"
  shows "dma_moves (dma_of s) (dma_of s')"
proof (cases "s' = s")
  case False
  from apu_write_ram_shape [OF assms False] obtain t where t: "apu_run s = Some t"
    "dmc_pending (ap_dmc (fst s')) = dmc_pending (ap_dmc (fst t))"
    "cpu_quiet (snd (snd s')) = cpu_quiet (snd (snd t))" by blast
  from dma_moves_trans [OF apu_run_dma [OF t(1)] dma_moves_same [OF t(3)]] t(2) show ?thesis by simp
qed simp

interpretation apu_dev: memory_device apu_dev_read apu_dev_write
proof unfold_locales
  fix s addr v assume s: "nes_ok s"
  then have a: "apu_ok (n_apu s) (n_mixer s)" by (simp add: nes_ok_def)
  have bus: "apu_bus_of s = (n_apu s, n_mixer s, n_cpu s)" by (simp add: apu_bus_of_def)
  show "ok (apu_dev_read addr s) (\<lambda>(v, t). moves s t)"
  proof -
    obtain w b where r: "apu_read_ram (get_open_bus 0x20 (n_mem s)) addr (apu_bus_of s) = Some (w, b)"
      "apu_ok (fst b) (fst (snd b))"
      using apu_read_ram_ok [OF a, of "get_open_bus 0x20 (n_mem s)" addr "n_cpu s"] by (auto simp: bus ok_iff)
    from apu_read_ram_dma [OF r(1)] show ?thesis
      by (simp add: apu_dev_read_def r(1) apu_dev_moves [OF s r(2)])
  qed
  obtain b where w: "apu_write_ram addr v (apu_bus_of s) = Some b" "apu_ok (fst b) (fst (snd b))"
    using apu_write_ram_ok [OF a, of addr v "n_cpu s"] by (auto simp: bus ok_iff)
  have "cpu_core (snd (snd b)) = cpu_core (n_cpu s)" using apu_write_ram_core [OF w(1)] by (simp add: bus)
  then show "ok (apu_dev_write addr v s) (stays s)"
    by (simp add: apu_dev_write_def w(1) apu_dev_stays [OF s w(2)])
  show "ok (apu_dev_write addr v s) (moves s)" if "addr \<noteq> 0x4015"
    using apu_write_ram_dma [OF w(1) that] by (simp add: apu_dev_write_def w(1) apu_dev_moves [OF s w(2)])
qed

lemma control_dev_moves: "nes_ok s \<Longrightarrow> control_ok c \<Longrightarrow> moves s (s\<lparr>n_ctl := c\<rparr>)"
  by (simp add: moves_def stays_def nes_ok_def ppu_bus_of_def)

interpretation control_dev: memory_device control_dev_read control_dev_write
proof unfold_locales
  fix s addr v assume s: "nes_ok s"
  then have c: "control_ok (n_ctl s)" by (simp add: nes_ok_def)
  show "ok (control_dev_read addr s) (\<lambda>(v, t). moves s t)"
    by (auto simp: control_dev_read_def intro!: ok_mono [OF control_read_ok [OF c]] control_dev_moves [OF s])
  have "moves s (s\<lparr>n_ctl := control_write_ram k addr v (n_ctl s)\<rparr>)" for k
    using c by (intro control_dev_moves [OF s]) simp
  then show "ok (control_dev_write addr v s) (stays s)" "ok (control_dev_write addr v s) (moves s)"
    by (simp_all add: control_dev_write_def moves_stays)
qed

lemma write_register_quiet:
  "write_register ob addr v (m, c) = Some (m', c') \<Longrightarrow> cpu_quiet c' = cpu_quiet c"
  by (auto simp: write_register_def mmc3_write_register_def Let_def bind_eq_Some_conv
      split: mapper_chip.splits if_splits)

lemma mapper_write_ram_quiet:
  "mapper_write_ram ob addr v (m, c) = Some (m', c') \<Longrightarrow> cpu_quiet c' = cpu_quiet c"
  by (auto simp: mapper_write_ram_def base_write_ram_def Let_def bind_eq_Some_conv
      split: if_splits dest: write_register_quiet)

interpretation mapper_dev: memory_device mapper_dev_read mapper_dev_write
proof unfold_locales
  fix s addr v assume s: "nes_ok s"
  then have l: "loaded (n_mapper s)" by (simp add: nes_ok_def bus_ok_def ppu_bus_of_def)
  show "ok (mapper_dev_read addr s) (\<lambda>(v, t). moves s t)"
    using s mapper_read_ram_ok [OF l, of "get_open_bus 0xFF (n_mem s)" addr] by (auto simp: mapper_dev_read_def)
  obtain m c where w: "mapper_write_ram (get_open_bus 0xFF (n_mem s)) addr v (n_mapper s, n_cpu s) = Some (m, c)"
    "loaded m"
    using mapper_write_ram_ok [OF l, of "get_open_bus 0xFF (n_mem s)" addr v "n_cpu s"] by (auto simp: ok_iff)
  have q: "cpu_quiet c = cpu_quiet (n_cpu s)" by (rule mapper_write_ram_quiet [OF w(1)])
  have "moves s (s\<lparr>n_mapper := m, n_cpu := c\<rparr>)"
    using s w(2) cpu_quietD(1) [OF q] dma_moves_same [OF q]
    by (simp add: moves_def stays_def nes_ok_def ppu_bus_of_def bus_ok_def)
  then show "ok (mapper_dev_write addr v s) (stays s)" "ok (mapper_dev_write addr v s) (moves s)"
    by (simp_all add: mapper_dev_write_def w(1) moves_stays)
qed

section \<open>The memory manager\<close>

theorem memory_read_ok: "nes_ok s \<Longrightarrow> ok (memory_read addr s) (\<lambda>(v, t). moves s t)"
  unfolding memory_read_def
  using open_bus_dev.bus_read ram_dev.bus_read ppu_dev.bus_read apu_dev.bus_read control_dev.bus_read
    mapper_dev.bus_read
  by (cases "mm_read_handlers (n_mem s) addr") simp_all

theorem memory_write_ok: "nes_ok s \<Longrightarrow> ok (memory_write addr v s) (stays s)"
  unfolding memory_write_def
  using open_bus_dev.bus_write(1) ram_dev.bus_write(1) ppu_dev.bus_write(1) apu_dev.bus_write(1)
    control_dev.bus_write(1) mapper_dev.bus_write(1)
  by (cases "mm_write_handlers (n_mem s) addr") simp_all

theorem memory_write_quiet:
  "nes_ok s \<Longrightarrow> addr \<noteq> 0x4014 \<Longrightarrow> addr \<noteq> 0x4015 \<Longrightarrow> ok (memory_write addr v s) (moves s)"
  unfolding memory_write_def
  using open_bus_dev.bus_write(2) ram_dev.bus_write(2) ppu_dev.bus_write(2) apu_dev.bus_write(2)
    control_dev.bus_write(2) mapper_dev.bus_write(2)
  by (cases "mm_write_handlers (n_mem s) addr") simp_all

end
