(* ===== verification/Machine_Cycles.thy ===== *)
theory Machine_Cycles
  imports Machine_Safety Ppu_Timing
begin

text \<open>
  The cost of what the CPU does, in cycles: every cycle counts one, keeps the PPU within
  reach of the CPU, and moves the beam; a transfer of the DMA unit ends, after a bounded
  number of cycles.
\<close>

declare One_nat_def [simp del]

section \<open>Time\<close>

lemma cpu_do_frame [simp]:
  "n_cpu (cpu_do f s) = f (n_cpu s)" "n_ppu (cpu_do f s) = n_ppu s" "n_apu (cpu_do f s) = n_apu s"
  "n_mem (cpu_do f s) = n_mem s" "n_ctl (cpu_do f s) = n_ctl s" "n_mapper (cpu_do f s) = n_mapper s"
  "n_mixer (cpu_do f s) = n_mixer s"
  by (simp_all add: cpu_do_def)

text \<open>The PPU is not far behind the CPU: 256 master clocks, and a dot.\<close>

definition in_step :: "nes \<Rightarrow> bool" where
  "in_step s \<longleftrightarrow> cpu_master_clock (n_cpu s) - unat (cpu_ppu_offset (n_cpu s)) <
     ppu_master_clock (n_ppu s) + unat (ppu_master_clock_divider (n_ppu s)) + 256"

definition clock_ok :: "nes \<Rightarrow> bool" where
  "clock_ok s \<longleftrightarrow> nes_ok s \<and> in_step s"

text \<open>The fields of the CPU that its clock reads.\<close>

definition cpu_time :: "cpu \<Rightarrow> u64 \<times> nat \<times> u8 \<times> u8 \<times> u8" where
  "cpu_time c = (cpu_cycle_count c, cpu_master_clock c, cpu_ppu_offset c, cpu_start_clock_count c,
     cpu_end_clock_count c)"

lemma core_time: "cpu_core c = cpu_core d \<Longrightarrow> cpu_time c = cpu_time d"
  using cpu_coreD [of c d] by (simp add: cpu_time_def)

text \<open>A cycle runs the PPU twice, each time by at most \<open>RUN_DOTS\<close> dots.\<close>

definition RUN_DOTS :: nat where "RUN_DOTS = 2048"

definition spent :: "nat \<Rightarrow> nes \<Rightarrow> nes \<Rightarrow> bool" where
  "spent n s t \<longleftrightarrow> clock_ok t \<and> tables t = tables s \<and>
     cpu_cycle_count (n_cpu t) = cpu_cycle_count (n_cpu s) + of_nat n \<and>
     (\<exists>d. n \<le> d \<and> d \<le> 2 * RUN_DOTS * n \<and> travelled d (n_ppu s) (n_ppu t))"

text \<open>At most \<open>n\<close> cycles.\<close>

definition within :: "nat \<Rightarrow> nes \<Rightarrow> nes \<Rightarrow> bool" where
  "within n s t \<longleftrightarrow> (\<exists>k \<le> n. spent k s t)"

lemma spent_0 [simp]: "spent 0 s s \<longleftrightarrow> clock_ok s"
  by (auto simp: spent_def intro: exI [of _ 0])

lemma spent_ok: "spent n s t \<Longrightarrow> clock_ok t"
  by (simp add: spent_def)

lemma spent_trans:
  assumes "spent n s t" "spent m t u"
  shows "spent (n + m) s u"
proof -
  obtain d e where "n \<le> d" "d \<le> 2 * RUN_DOTS * n" "travelled d (n_ppu s) (n_ppu t)"
    "m \<le> e" "e \<le> 2 * RUN_DOTS * m" "travelled e (n_ppu t) (n_ppu u)"
    using assms by (auto simp: spent_def)
  then have "n + m \<le> d + e" "d + e \<le> 2 * RUN_DOTS * (n + m)" "travelled (d + e) (n_ppu s) (n_ppu u)"
    by (auto simp: distrib_left intro: travelled_trans)
  then have "\<exists>k. n + m \<le> k \<and> k \<le> 2 * RUN_DOTS * (n + m) \<and> travelled k (n_ppu s) (n_ppu u)" by blast
  with assms show ?thesis by (simp add: spent_def)
qed

lemma within_0 [simp]: "within n s s \<longleftrightarrow> clock_ok s"
  by (auto simp: within_def spent_ok intro: exI [of _ 0] dest: spent_ok)

lemma within_ok: "within n s t \<Longrightarrow> clock_ok t"
  by (auto simp: within_def spent_ok)

lemma within_trans: "within n s t \<Longrightarrow> within m t u \<Longrightarrow> within (n + m) s u"
  unfolding within_def by (meson add_mono spent_trans)

lemma within_mono: "within n s t \<Longrightarrow> n \<le> m \<Longrightarrow> within m s t"
  unfolding within_def using le_trans by blast

lemma spent_within: "spent n s t \<Longrightarrow> within n s t"
  by (auto simp: within_def)

text \<open>What leaves the clocks alone costs nothing.\<close>

lemma spent_same:
  assumes "spent n s t" "nes_ok u" "tables u = tables t" "cpu_time (n_cpu u) = cpu_time (n_cpu t)"
    "time_of (n_ppu u) = time_of (n_ppu t)"
  shows "spent n s u"
proof -
  have "frame_phase (n_ppu u) = frame_phase (n_ppu t)" "ppu_frame_count (n_ppu u) = ppu_frame_count (n_ppu t)"
    using time_of_beam [OF assms(5)] by (simp_all add: frame_phase_def)
  with assms show ?thesis
    by (auto simp: spent_def clock_ok_def in_step_def cpu_time_def time_of_def travelled_def)
qed

lemma spent_stays: "spent n s t \<Longrightarrow> stays t u \<Longrightarrow> spent n s u"
  using spent_same [of n s t u] core_time [of "n_cpu u" "n_cpu t"] by (simp add: stays_def)

lemma spent_cpu: "spent n s t \<Longrightarrow> cpu_time c = cpu_time (n_cpu t) \<Longrightarrow> spent n s (t\<lparr>n_cpu := c\<rparr>)"
  using spent_same [of n s t "t\<lparr>n_cpu := c\<rparr>"] by (simp add: spent_def clock_ok_def)

lemma spent_from_cpu: "cpu_time c = cpu_time (n_cpu s) \<Longrightarrow> spent n (s\<lparr>n_cpu := c\<rparr>) t = spent n s t"
  by (simp add: spent_def cpu_time_def)

section \<open>One cycle\<close>

lemma run_ppu_ok:
  assumes "nes_ok s"
    and lag: "cpu_master_clock (n_cpu s) - unat (cpu_ppu_offset (n_cpu s)) <
      ppu_master_clock (n_ppu s) + unat (ppu_master_clock_divider (n_ppu s)) + 512"
  shows "ok (run_ppu s) (\<lambda>t. clock_ok t \<and> cpu_quiet (n_cpu t) = cpu_quiet (n_cpu s) \<and> n_apu t = n_apu s \<and>
    tables t = tables s \<and> (\<exists>d. 1 \<le> d \<and> d \<le> RUN_DOTS \<and> travelled d (n_ppu s) (n_ppu t)))"
proof -
  let ?to = "cpu_master_clock (n_cpu s) - unat (cpu_ppu_offset (n_cpu s))"
  have b: "bus_ok (ppu_bus_of s)" "ppu_master_clock_divider (fst (ppu_bus_of s)) \<noteq> 0"
    using assms(1) by (simp_all add: nes_ok_def ppu_bus_of_def)
  obtain p m c where r: "ppu_run ?to (ppu_bus_of s) = Some (p, m, c)"
    using ppu_run_ok [OF b, of ?to] by (auto simp: ok_iff)
  have k: "bus_ok (p, m, c)" "cpu_quiet c = cpu_quiet (n_cpu s)"
    "ppu_master_clock_divider p = ppu_master_clock_divider (n_ppu s)" "?to < ppu_master_clock p + unat (ppu_master_clock_divider p)"
    using ok_SomeD [OF ppu_run_ok [OF b, of ?to] r] unfolding ppu_bus_of_def fst_conv snd_conv by blast+
  have t: "ppu_master_clock p \<le> max ?to (ppu_master_clock (n_ppu s) + unat (ppu_master_clock_divider (n_ppu s)))"
    "\<exists>n \<ge> 1. n \<le> 2 * (ppu_master_clock p - ppu_master_clock (n_ppu s)) \<and> travelled n (n_ppu s) p"
    using ppu_run_travels [OF b r] by (simp_all add: ppu_bus_of_def)
  have "unat (ppu_master_clock_divider (n_ppu s)) < 256" using unsigned_less [where 'a = nat, of "ppu_master_clock_divider (n_ppu s)"] by simp
  then have "ppu_master_clock p - ppu_master_clock (n_ppu s) \<le> 768" using t(1) lag by linarith
  with t(2) have d: "\<exists>d. 1 \<le> d \<and> d \<le> RUN_DOTS \<and> travelled d (n_ppu s) p"
    unfolding RUN_DOTS_def by fastforce
  let ?t = "with_ppu_bus (p, m, c) s"
  have "nes_ok ?t" using assms(1) k(1,3) by (simp add: nes_ok_def with_ppu_bus_def ppu_bus_of_def)
  moreover have "cpu_time c = cpu_time (n_cpu s)" using core_time [OF cpu_quietD(1) [OF k(2)]] .
  then have "in_step ?t" using k(4) by (simp add: in_step_def with_ppu_bus_def cpu_time_def)
  ultimately show ?thesis
    using k(2) d by (simp add: run_ppu_def r clock_ok_def) (simp add: with_ppu_bus_def)
qed

text \<open>The clock hook of the console: it moves the DMA unit only as the APU does.\<close>

lemma process_cpu_clock_ok:
  assumes "nes_ok s"
  shows "ok (process_cpu_clock E s) (moves s)"
proof -
  have a: "apu_ok (n_apu s) (n_mixer s)" using assms by (simp add: nes_ok_def)
  have bus: "apu_bus_of s = (n_apu s, n_mixer s, n_cpu s)" by (simp add: apu_bus_of_def)
  obtain b where r: "apu_process_cpu_clock E (apu_bus_of s) = Some b" "apu_ok (fst b) (fst (snd b))"
    using apu_process_cpu_clock_ok [OF a, of E "n_cpu s"] by (auto simp: bus ok_iff)
  from apu_dev_moves [OF assms(1) r(2) apu_process_cpu_clock_dma [OF r(1)]]
  have m: "moves s (with_apu_bus b s)" .
  have "moves s ((with_apu_bus b s)\<lparr>n_ctl := control_process_writes c\<rparr>)" if "c = n_ctl (with_apu_bus b s)" for c
  proof -
    have "control_ok c" using moves_ok [OF m] by (simp add: nes_ok_def that)
    then show ?thesis using moves_trans [OF m control_dev_moves [OF moves_ok [OF m]]] by simp
  qed
  from this [OF refl] m show ?thesis by (simp add: process_cpu_clock_def r(1) mapper_process_cpu_clock_def Let_def)
qed

text \<open>
  The DMA unit over a stretch of time in which the registers of the CPU may change: as
  \<open>dma_moves\<close>, without the registers.
\<close>

definition dma_steps :: "dmc \<times> cpu \<Rightarrow> dmc \<times> cpu \<Rightarrow> bool" where
  "dma_steps s t \<longleftrightarrow>
     cpu_sprite_dma_transfer (snd t) = cpu_sprite_dma_transfer (snd s) \<and>
     dmc_pending (fst t) \<le> dmc_pending (fst s) \<and>
     (dma_flags (snd t) = dma_flags (snd s) \<or>
      dma_flags (snd t) = (True, True, True) \<and> dmc_pending (fst t) < dmc_pending (fst s) \<or>
      \<not> cpu_dmc_dma_running (snd t))"

lemma dma_moves_steps: "dma_moves s t \<Longrightarrow> dma_steps s t"
  by (simp add: dma_moves_def dma_steps_def)

lemma dma_steps_trans: "dma_steps s t \<Longrightarrow> dma_steps t u \<Longrightarrow> dma_steps s u"
  by (auto simp: dma_steps_def dma_flags_def)

lemma dma_steps_same:
  "cpu_sprite_dma_transfer c' = cpu_sprite_dma_transfer c \<Longrightarrow> dma_flags c' = dma_flags c \<Longrightarrow> dma_steps (d, c) (d, c')"
  by (simp add: dma_steps_def)

text \<open>The first half of a cycle, after which a device is used, and the second.\<close>

definition half_clock :: "nat \<Rightarrow> nes \<Rightarrow> nes \<Rightarrow> bool" where
  "half_clock n s t \<longleftrightarrow> clock_ok t \<and> tables t = tables s \<and>
     cpu_cycle_count (n_cpu t) = cpu_cycle_count (n_cpu s) + of_nat n \<and>
     (\<exists>d. 1 \<le> d \<and> d \<le> RUN_DOTS \<and> travelled d (n_ppu s) (n_ppu t))"

definition half_cycle :: "nat \<Rightarrow> nes \<Rightarrow> nes \<Rightarrow> bool" where
  "half_cycle n s t \<longleftrightarrow> half_clock n s t \<and> dma_steps (dma_state s) (dma_state t)"

lemma half_clock_same:
  assumes "half_clock n s t" "nes_ok u" "tables u = tables t" "cpu_time (n_cpu u) = cpu_time (n_cpu t)"
    "time_of (n_ppu u) = time_of (n_ppu t)"
  shows "half_clock n s u"
proof -
  have "frame_phase (n_ppu u) = frame_phase (n_ppu t)" "ppu_frame_count (n_ppu u) = ppu_frame_count (n_ppu t)"
    using time_of_beam [OF assms(5)] by (simp_all add: frame_phase_def)
  with assms show ?thesis
    by (auto simp: half_clock_def clock_ok_def in_step_def cpu_time_def time_of_def travelled_def)
qed

lemma half_clock_stays: "half_clock n s t \<Longrightarrow> stays t u \<Longrightarrow> half_clock n s u"
  using half_clock_same [of n s t u] core_time [of "n_cpu u" "n_cpu t"] by (simp add: stays_def)

lemma half_clock_ok: "half_clock n s t \<Longrightarrow> nes_ok t" "half_clock n s t \<Longrightarrow> clock_ok t"
  by (simp_all add: half_clock_def clock_ok_def)

lemma half_cycleD:
  "half_cycle n s t \<Longrightarrow> half_clock n s t" "half_cycle n s t \<Longrightarrow> nes_ok t" "half_cycle n s t \<Longrightarrow> clock_ok t"
  by (auto simp: half_cycle_def dest: half_clock_ok)

lemma half_stays_moves:
  assumes "half_cycle n s t" "moves t u"
  shows "half_cycle n s u"
  using assms half_clock_stays [of n s t u]
  by (auto simp: half_cycle_def moves_def dest: dma_moves_steps intro: dma_steps_trans)

lemma run_half:
  assumes s: "clock_ok s" and c: "c = (n_cpu s)\<lparr>cpu_master_clock := k, cpu_cycle_count := cpu_cycle_count (n_cpu s) + of_nat n\<rparr>"
    and k: "k \<le> cpu_master_clock (n_cpu s) + 256"
  shows "ok (run_ppu (s\<lparr>n_cpu := c\<rparr>)) (half_cycle n s)"
proof -
  have "ok (run_ppu (s\<lparr>n_cpu := c\<rparr>)) (\<lambda>t. clock_ok t \<and> cpu_quiet (n_cpu t) = cpu_quiet c \<and> n_apu t = n_apu s \<and>
      tables t = tables s \<and> (\<exists>d. 1 \<le> d \<and> d \<le> RUN_DOTS \<and> travelled d (n_ppu s) (n_ppu t)))"
    by (rule ok_mono [OF run_ppu_ok]) (use s k in \<open>auto simp: clock_ok_def in_step_def c\<close>)
  then show ?thesis
  proof (rule ok_mono)
    fix t assume t: "clock_ok t \<and> cpu_quiet (n_cpu t) = cpu_quiet c \<and> n_apu t = n_apu s \<and>
      tables t = tables s \<and> (\<exists>d. 1 \<le> d \<and> d \<le> RUN_DOTS \<and> travelled d (n_ppu s) (n_ppu t))"
    then have q: "cpu_quiet (n_cpu t) = cpu_quiet c" by blast
    have "cpu_cycle_count (n_cpu t) = cpu_cycle_count (n_cpu s) + of_nat n"
      using cpu_coreD(1) [OF cpu_quietD(1) [OF q]] by (simp add: c)
    moreover have "dma_steps (dma_state s) (dma_state t)"
      using t cpu_quietD(2-) [OF q] by (simp add: dma_steps_def dma_flags_def c)
    ultimately show "half_cycle n s t" using t by (simp add: half_cycle_def half_clock_def)
  qed
qed

lemma clock_bound: "nat (int m + (if b then int (unat (k :: u8)) - 1 else int (unat k) + 1)) \<le> m + 256"
  "nat (int m + (if b then int (unat (k :: u8)) + 1 else int (unat k) - 1)) \<le> m + 256"
  using uint_lt2p [of k] by auto

lemma start_cpu_cycle_ok:
  assumes "clock_ok s"
  shows "ok (start_cpu_cycle E for_read s) (half_cycle 1 s)"
proof -
  have half: "ok (run_ppu (s\<lparr>n_cpu := c\<rparr>)) (half_cycle 1 s)"
    if "c = (n_cpu s)\<lparr>cpu_master_clock := nat (int (cpu_master_clock (n_cpu s)) +
        (if for_read then int (unat (cpu_start_clock_count (n_cpu s))) - 1 else int (unat (cpu_start_clock_count (n_cpu s))) + 1)),
      cpu_cycle_count := cpu_cycle_count (n_cpu s) + of_nat 1\<rparr>" for c
    by (rule run_half [OF assms(1) that clock_bound(1)])
  have "ok (process_cpu_clock E t) (half_cycle 1 s)" if "half_cycle 1 s t" for t
  proof -
    have "nes_ok t" using that by (simp add: half_cycleD)
    from process_cpu_clock_ok [OF this] show ?thesis
      by (rule ok_mono) (rule half_stays_moves [OF that])
  qed
  then show ?thesis
    unfolding start_cpu_cycle_def cpu_do_def Let_def ok_bind
    by (intro ok_mono [OF half]) simp_all
qed

lemma sample_frame [simp]:
  "cpu_time (sample_interrupts c) = cpu_time c" "dma_flags (sample_interrupts c) = dma_flags c"
  "cpu_sprite_dma_transfer (sample_interrupts c) = cpu_sprite_dma_transfer c"
  "cpu_dmc_dma_running (sample_interrupts c) = cpu_dmc_dma_running c"
  "cpu_pc (sample_interrupts c) = cpu_pc c" "cpu_sp (sample_interrupts c) = cpu_sp c"
  "cpu_a (sample_interrupts c) = cpu_a c" "cpu_x (sample_interrupts c) = cpu_x c"
  "cpu_y (sample_interrupts c) = cpu_y c" "cpu_ps (sample_interrupts c) = cpu_ps c"
  by (simp_all add: sample_interrupts_def Let_def cpu_time_def dma_flags_def)

lemma end_cpu_cycle_ok:
  assumes "clock_ok s"
  shows "ok (end_cpu_cycle for_read s) (half_cycle 0 s)"
proof -
  have half: "ok (run_ppu (s\<lparr>n_cpu := c\<rparr>)) (half_cycle 0 s)"
    if "c = (n_cpu s)\<lparr>cpu_master_clock := nat (int (cpu_master_clock (n_cpu s)) +
        (if for_read then int (unat (cpu_end_clock_count (n_cpu s))) + 1 else int (unat (cpu_end_clock_count (n_cpu s))) - 1)),
      cpu_cycle_count := cpu_cycle_count (n_cpu s) + of_nat 0\<rparr>" for c
    by (rule run_half [OF assms(1) that clock_bound(2)])
  have fin: "half_cycle 0 s (cpu_do sample_interrupts t)" if "half_cycle 0 s t" for t
  proof -
    have "cpu_time (sample_interrupts (n_cpu t)) = cpu_time (n_cpu t)" by simp
    then show ?thesis using that
      by (simp add: half_cycle_def half_clock_def cpu_do_def clock_ok_def in_step_def cpu_time_def dma_steps_def)
  qed
  then show ?thesis
    unfolding end_cpu_cycle_def cpu_do_def Let_def ok_bind
    by (intro ok_mono [OF half]) simp_all
qed

text \<open>A whole cycle with the use of a device in the middle.\<close>

lemma half_trans:
  assumes "half_clock 1 s t" "half_clock 0 t u"
  shows "spent 1 s u"
proof -
  obtain d e where "1 \<le> d" "d \<le> RUN_DOTS" "travelled d (n_ppu s) (n_ppu t)"
    "1 \<le> e" "e \<le> RUN_DOTS" "travelled e (n_ppu t) (n_ppu u)"
    using assms by (auto simp: half_clock_def)
  then have "1 \<le> d + e" "d + e \<le> 2 * RUN_DOTS * 1" "travelled (d + e) (n_ppu s) (n_ppu u)"
    by (auto intro: travelled_trans)
  then have "\<exists>k. 1 \<le> k \<and> k \<le> 2 * RUN_DOTS * 1 \<and> travelled k (n_ppu s) (n_ppu u)" by blast
  then show "spent 1 s u" using assms by (simp add: spent_def half_clock_def)
qed

text \<open>A quiet cycle: the device moves the DMA unit only as the APU may.\<close>

definition quiet_cycle :: "nes \<Rightarrow> nes \<Rightarrow> bool" where
  "quiet_cycle s t \<longleftrightarrow> spent 1 s t \<and> dma_steps (dma_state s) (dma_state t)"

lemma end_quiet:
  assumes "half_cycle 1 s t"
  shows "ok (end_cpu_cycle r t) (quiet_cycle s)"
  using end_cpu_cycle_ok [OF half_cycleD(3) [OF assms], of r] assms
  by (auto simp: quiet_cycle_def half_cycle_def elim!: ok_mono intro: half_trans dma_steps_trans)

lemma read_cycle_ok:
  assumes "clock_ok s"
  shows "ok (do { s \<leftarrow> start_cpu_cycle E True s; (v, s) \<leftarrow> memory_read addr s; s \<leftarrow> end_cpu_cycle True s; Some (v, s) })
    (\<lambda>(v, t). quiet_cycle s t)"
proof -
  have "ok (do { (v, s) \<leftarrow> memory_read addr t; s \<leftarrow> end_cpu_cycle True s; Some (v, s) }) (\<lambda>(v, t). quiet_cycle s t)"
    if t: "half_cycle 1 s t" for t
    by (rule ok_bindI [OF memory_read_ok [OF half_cycleD(2) [OF t]]])
      (auto intro!: ok_mono [OF end_quiet] half_stays_moves [OF t])
  then show ?thesis by (rule ok_bindI [OF start_cpu_cycle_ok [OF assms]])
qed

section \<open>Transfers\<close>

lemma process_cycle_time [simp]:
  "cpu_time (dma_process_cycle c) = cpu_time c"
  "cpu_sprite_dma_transfer (dma_process_cycle c) = cpu_sprite_dma_transfer c"
  by (simp_all add: dma_process_cycle_def cpu_time_def)

lemma clock_ok_cpu: "clock_ok s \<Longrightarrow> cpu_time c = cpu_time (n_cpu s) \<Longrightarrow> clock_ok (s\<lparr>n_cpu := c\<rparr>)"
  using spent_cpu [of 0 s s c] spent_ok by simp

lemma process_cycle_ok: "clock_ok s \<Longrightarrow> clock_ok (cpu_do dma_process_cycle s)"
  by (simp add: cpu_do_def clock_ok_cpu)

lemma quiet_from_cpu: "cpu_time c = cpu_time (n_cpu s) \<Longrightarrow> spent 1 (s\<lparr>n_cpu := c\<rparr>) t \<Longrightarrow> spent 1 s t"
  by (simp add: spent_from_cpu)

lemma process_dma_read_ok:
  assumes "nes_ok s"
  shows "ok (process_dma_read internal prev addr s) (\<lambda>(v, p, t). moves s t)"
proof -
  have rd: "ok (memory_read a t) (\<lambda>(v, u). moves s u)" if "moves s t" for a t
    by (rule ok_mono [OF memory_read_ok [OF moves_ok [OF that]]]) (auto intro: moves_trans [OF that])
  have s: "moves s s" using assms by simp
  show ?thesis
    unfolding process_dma_read_def Let_def
    by (auto intro!: ok_mono [OF rd] rd s simp: assms)
qed

text \<open>The wait, the sprite read and the sprite write are quiet cycles.\<close>

lemma dma_wait_ok:
  assumes "clock_ok s"
  shows "ok (dma_wait E addr d s) (\<lambda>(d', t). d' = d \<and> quiet_cycle (cpu_do dma_process_cycle s) t)"
proof -
  let ?s = "cpu_do dma_process_cycle s"
  have "ok (do { s \<leftarrow> (if controller_addr addr then Some t else map_option snd (memory_read addr t));
      s \<leftarrow> end_cpu_cycle True s; Some (d, s) }) (\<lambda>(d', t). d' = d \<and> quiet_cycle ?s t)"
    if t: "half_cycle 1 ?s t" for t
  proof (rule ok_bindI [where P = "half_cycle 1 ?s"])
    show "ok (if controller_addr addr then Some t else map_option snd (memory_read addr t)) (half_cycle 1 ?s)"
      using t by (auto intro!: ok_mono [OF memory_read_ok [OF half_cycleD(2) [OF t]]] half_stays_moves [OF t])
  qed (auto intro!: ok_mono [OF end_quiet])
  then show ?thesis
    unfolding dma_wait_def by (rule ok_bindI [OF start_cpu_cycle_ok [OF process_cycle_ok [OF assms(1)]]])
qed

lemma dma_sprite_read_ok:
  assumes "clock_ok s"
  shows "ok (dma_sprite_read E internal d s) (\<lambda>(d', t). dma_sprite_counter d' = dma_sprite_counter d + 1 \<and>
    quiet_cycle (cpu_do dma_process_cycle s) t)"
proof -
  let ?s = "cpu_do dma_process_cycle s"
  have rd: "ok (process_dma_read internal prev addr t) (\<lambda>(v, p, u). half_cycle 1 ?s u)" if t: "half_cycle 1 ?s t" for prev addr t
    by (rule ok_mono [OF process_dma_read_ok [OF half_cycleD(2) [OF t]]]) (auto intro: half_stays_moves [OF t])
  show ?thesis
    unfolding dma_sprite_read_def
    by (rule ok_bindI [OF start_cpu_cycle_ok [OF process_cycle_ok [OF assms(1)]]], rule ok_bindI [OF rd], assumption)
      (auto intro!: ok_mono [OF end_quiet])
qed

lemma dma_sprite_write_ok:
  assumes "clock_ok s"
  shows "ok (dma_sprite_write E d s) (\<lambda>(d', t). dma_sprite_counter d' = dma_sprite_counter d + 1 \<and>
    (\<exists>u. quiet_cycle (cpu_do dma_process_cycle s) u \<and>
      t = (if dma_sprite_counter d' = 0x200 then cpu_do (\<lambda>c. c\<lparr>cpu_sprite_dma_transfer := False\<rparr>) u else u)))"
proof -
  let ?s = "cpu_do dma_process_cycle s"
  have wr: "ok (memory_write 0x2004 v t) (half_cycle 1 ?s)" if t: "half_cycle 1 ?s t" for v t
    by (rule ok_mono [OF memory_write_quiet [OF half_cycleD(2) [OF t]]]) (auto intro: half_stays_moves [OF t])
  show ?thesis
    unfolding dma_sprite_write_def Let_def
    by (rule ok_bindI [OF start_cpu_cycle_ok [OF process_cycle_ok [OF assms(1)]]], rule ok_bindI [OF wr], assumption)
      (auto intro!: ok_mono [OF end_quiet])
qed

lemma set_dmc_read_buffer_cpu:
  "set_dmc_read_buffer v (d, c) = (d', c') \<Longrightarrow> cpu_quiet c' = cpu_quiet c"
  by (auto simp: set_dmc_read_buffer_def Let_def split: if_splits)

lemma dma_dmc_cycle_ok:
  assumes "clock_ok s"
  shows "ok (dma_dmc_cycle E internal d s) (\<lambda>(d', t). dma_sprite_counter d' = dma_sprite_counter d \<and> spent 1 s t \<and>
    cpu_sprite_dma_transfer (n_cpu t) = cpu_sprite_dma_transfer (n_cpu s) \<and> \<not> cpu_dmc_dma_running (n_cpu t))"
proof -
  let ?s = "cpu_do dma_process_cycle s"
  define Q where "Q t \<longleftrightarrow> half_clock 1 s t \<and> cpu_sprite_dma_transfer (n_cpu t) = cpu_sprite_dma_transfer (n_cpu s)" for t
  have Qcpu: "Q (cpu_do f t)" if "Q t" "\<And>c. cpu_time (f c) = cpu_time c" "\<And>c. cpu_sprite_dma_transfer (f c) = cpu_sprite_dma_transfer c" for f t
    using that half_clock_same [of 1 s t "cpu_do f t"] half_clock_ok(1) [of 1 s t]
    by (simp add: Q_def)
  have start: "ok (start_cpu_cycle E True ?s) Q"
    by (rule ok_mono [OF start_cpu_cycle_ok [OF process_cycle_ok [OF assms(1)]]])
      (simp add: half_cycle_def half_clock_def dma_steps_def Q_def cpu_do_def, simp add: cpu_time_def dma_process_cycle_def)
  have rd: "ok (process_dma_read internal prev addr t) (\<lambda>(v, p, u). Q u)" if "Q t" for prev addr t
  proof -
    have "nes_ok t" using that by (auto simp: Q_def dest: half_clock_ok)
    then show ?thesis
      by (rule ok_mono [OF process_dma_read_ok])
        (use that in \<open>auto simp: Q_def moves_def dma_moves_def intro: half_clock_stays\<close>)
  qed
  have buf: "Q (t\<lparr>n_apu := a, n_cpu := c\<lparr>cpu_is_dmc_dma_read := False\<rparr>\<rparr>)"
    if t: "Q t" and b: "apu_set_dmc_read_buffer v (n_apu t, n_cpu t) = (a, c)" for t v a c
  proof -
    have n: "nes_ok t" "half_clock 1 s t" using t by (auto simp: Q_def dest: half_clock_ok)
    then have "apu_ok a (n_mixer t)" using apu_set_dmc_read_buffer_ok [OF _ b] by (simp add: nes_ok_def)
    then have "nes_ok (t\<lparr>n_apu := a, n_cpu := c'\<rparr>)" for c' using n(1) by (simp add: nes_ok_def ppu_bus_of_def bus_ok_def)
    moreover have q: "cpu_quiet c = cpu_quiet (n_cpu t)"
      using b by (auto simp: apu_set_dmc_read_buffer_def split: prod.splits dest: set_dmc_read_buffer_cpu)
    have "cpu_time (c\<lparr>cpu_is_dmc_dma_read := False\<rparr>) = cpu_time (n_cpu t)"
      using core_time [OF cpu_quietD(1) [OF q]] by (simp add: cpu_time_def)
    ultimately show ?thesis
      using t n cpu_quietD(2) [OF q] half_clock_same [of 1 s t "t\<lparr>n_apu := a, n_cpu := c\<lparr>cpu_is_dmc_dma_read := False\<rparr>\<rparr>"]
      by (simp add: Q_def)
  qed
  have fin: "ok (end_cpu_cycle True t) (\<lambda>u. spent 1 s u \<and> cpu_sprite_dma_transfer (n_cpu u) = cpu_sprite_dma_transfer (n_cpu s))"
    if t: "Q t" for t
  proof -
    have h: "half_clock 1 s t" "clock_ok t" using t by (auto simp: Q_def dest: half_clock_ok)
    show ?thesis
      by (rule ok_mono [OF end_cpu_cycle_ok [OF h(2)]])
        (use t in \<open>auto simp: half_cycle_def dma_steps_def Q_def intro: half_trans [OF h(1)]\<close>)
  qed
  have last: "spent 1 s (cpu_do (\<lambda>c. c\<lparr>cpu_dmc_dma_running := False, cpu_abort_dmc_dma := False\<rparr>) u)" if "spent 1 s u" for u
    unfolding cpu_do_def by (rule spent_cpu [OF that]) (simp add: cpu_time_def)
  show ?thesis
    unfolding dma_dmc_cycle_def Let_def
    apply (rule ok_bindI [OF start])
    apply (rule ok_bindI [OF rd [OF Qcpu]], assumption)
      apply (simp_all add: cpu_time_def)
    apply (auto simp del: ok_bind split: prod.split)
    apply (rule ok_bindI [OF fin [OF buf]], assumption, assumption)
    apply (auto simp: last)
    done
qed

declare One_nat_def [simp]

end
