(* ===== verification/Dma_Transfer.thy ===== *)
theory Dma_Transfer
  imports Machine_Cycles
begin

text \<open>
  The transfer loop of the DMA unit ends. While a sprite transfer runs, no two of the DMC's
  cycles follow each other without a sprite byte between them, because a new request starts
  with a dummy read; alone, a DMC transfer is delayed only by requests that have to be paid
  for. The measure below falls in every round.
\<close>

declare One_nat_def [simp del]

section \<open>The measure\<close>

definition put_cycle :: "nes \<Rightarrow> bool" where
  "put_cycle s \<longleftrightarrow> cpu_cycle_count (n_cpu s) AND 1 \<noteq> 0"

definition dmc_ready :: "cpu \<Rightarrow> bool" where
  "dmc_ready c \<longleftrightarrow> dma_flags c = (True, False, False)"

definition dma_measure :: "dma \<times> nes \<Rightarrow> nat" where
  "dma_measure ds =
     (let (d, s) = ds; c = n_cpu s; k = unat (dma_sprite_counter d) in
      if cpu_sprite_dma_transfer c then
        100 + (0x200 - k) * 8 +
          (if put_cycle s \<and> even k then (if cpu_dmc_dma_running c then 4 else 2)
           else if \<not> put_cycle s \<and> dmc_ready c then 3 else 1)
      else if cpu_dmc_dma_running c then
        40 + dmc_pending (ap_dmc (n_apu s)) * 8 + (if cpu_need_halt c then 2 else 0) +
          (if cpu_need_dummy_read c then 2 else 0) + (if put_cycle s then 1 else 0)
      else 0)"

text \<open>At the start of a get cycle the sprite counter is even.\<close>

definition dma_aligned :: "dma \<times> nes \<Rightarrow> bool" where
  "dma_aligned ds =
     (let (d, s) = ds; k = unat (dma_sprite_counter d) in
      cpu_sprite_dma_transfer (n_cpu s) \<longrightarrow> k < 0x200 \<and> (\<not> put_cycle s \<longrightarrow> even k))"

lemma dmc_pending_le: "dmc_pending d * 8 \<le> 16"
  by (simp add: dmc_pending_def)

lemma dma_measure_le: "dma_measure ds \<le> 4200"
proof -
  have "dmc_pending (ap_dmc (n_apu (snd ds))) * 8 \<le> 16" by (rule dmc_pending_le)
  then show ?thesis by (auto simp: dma_measure_def Let_def split: prod.split)
qed

lemma cycle_parity:
  assumes "spent 1 s t"
  shows "put_cycle t \<longleftrightarrow> \<not> put_cycle s"
proof -
  have "(w + 1) AND 1 \<noteq> 0 \<longleftrightarrow> w AND 1 = 0" for w :: u64
    by (simp add: and_one_eq mod_2_eq_odd)
  then show ?thesis using assms by (simp add: put_cycle_def spent_def)
qed

section \<open>The flags after a round\<close>

lemma flags_after_process:
  "dma_flags (dma_process_cycle c) =
     (if cpu_abort_dmc_dma c then (False, False, False)
      else (cpu_dmc_dma_running c, False, cpu_need_halt c \<and> cpu_need_dummy_read c))"
  by (simp add: dma_process_cycle_def dma_flags_def)

lemma quiet_round:
  assumes q: "quiet_cycle (cpu_do dma_process_cycle s) t"
  shows "spent 1 s t" "cpu_sprite_dma_transfer (n_cpu t) = cpu_sprite_dma_transfer (n_cpu s)"
    "dmc_pending (ap_dmc (n_apu t)) \<le> dmc_pending (ap_dmc (n_apu s))"
    "dma_flags (n_cpu t) = dma_flags (dma_process_cycle (n_cpu s)) \<or>
     dma_flags (n_cpu t) = (True, True, True) \<and> dmc_pending (ap_dmc (n_apu t)) < dmc_pending (ap_dmc (n_apu s)) \<or>
     \<not> cpu_dmc_dma_running (n_cpu t)"
  using q by (auto simp: quiet_cycle_def dma_steps_def cpu_do_def spent_from_cpu)

lemma flagsD: "dma_flags c = (r, h, d) \<Longrightarrow> cpu_dmc_dma_running c = r \<and> cpu_need_halt c = h \<and> cpu_need_dummy_read c = d"
  by (simp add: dma_flags_def)

text \<open>A wait costs one of the measure, in either kind of transfer.\<close>

lemma wait_decreases:
  assumes q: "quiet_cycle (cpu_do dma_process_cycle s) t"
    and wait: "put_cycle s \<or> \<not> dmc_ready (n_cpu s) \<and> \<not> cpu_sprite_dma_transfer (n_cpu s)"
      "cpu_sprite_dma_transfer (n_cpu s) \<Longrightarrow> even (unat (dma_sprite_counter d))"
    and run: "cpu_dmc_dma_running (n_cpu s) \<or> cpu_sprite_dma_transfer (n_cpu s)"
  shows "dma_measure (d, t) < dma_measure (d, s)"
proof -
  note r = quiet_round [OF q]
  have par: "put_cycle t \<longleftrightarrow> \<not> put_cycle s" by (rule cycle_parity [OF r(1)])
  show ?thesis
  proof (cases "cpu_sprite_dma_transfer (n_cpu s)")
    case True
    with wait have w: "put_cycle s" "even (unat (dma_sprite_counter d))" by auto
    have "dmc_ready (n_cpu t) \<Longrightarrow> cpu_dmc_dma_running (n_cpu s)"
      using r(4) by (auto simp: dmc_ready_def flags_after_process dest: flagsD split: if_splits)
    then show ?thesis using True w par r(2) by (auto simp: dma_measure_def Let_def)
  next
    case False
    with run have R: "cpu_dmc_dma_running (n_cpu s)" by simp
    let ?p = "dmc_pending (ap_dmc (n_apu s))" and ?p' = "dmc_pending (ap_dmc (n_apu t))"
    consider "\<not> cpu_dmc_dma_running (n_cpu t)"
      | "dma_flags (n_cpu t) = (True, True, True)" "?p' < ?p"
      | "\<not> cpu_abort_dmc_dma (n_cpu s)"
        "dma_flags (n_cpu t) = (True, False, cpu_need_halt (n_cpu s) \<and> cpu_need_dummy_read (n_cpu s))" "?p' \<le> ?p"
      using r(3,4) R by (auto simp: flags_after_process split: if_splits dest: flagsD)
    then show ?thesis
    proof cases
      case 1
      then show ?thesis using False R r(2) by (simp add: dma_measure_def Let_def)
    next
      case 2
      then have "?p' * 8 + 8 \<le> ?p * 8" by simp
      then show ?thesis using 2 False R r(2) flagsD [OF 2(1)] by (simp add: dma_measure_def Let_def)
    next
      case 3
      have "put_cycle s \<or> cpu_need_halt (n_cpu s) \<or> cpu_need_dummy_read (n_cpu s)"
        using wait(1) False R by (auto simp: dmc_ready_def dma_flags_def)
      moreover have "?p' * 8 \<le> ?p * 8" using 3(3) by simp
      ultimately show ?thesis
        using False R r(2) par flagsD [OF 3(2)] by (auto simp: dma_measure_def Let_def)
    qed
  qed
qed

section \<open>A round\<close>

definition dma_active :: "nes \<Rightarrow> bool" where
  "dma_active s \<longleftrightarrow> cpu_dmc_dma_running (n_cpu s) \<or> cpu_sprite_dma_transfer (n_cpu s)"

lemma counter_up: "unat (k :: u16) < 0x200 \<Longrightarrow> unat (k + 1) = unat k + 1"
  by (simp add: unat_word_ariths)

lemma odd_counter: "k AND 0x01 \<noteq> 0 \<longleftrightarrow> odd (unat (k :: u16))"
  by (simp add: and_one_eq mod_2_eq_odd bit_unsigned_iff flip: bit_0)

lemma dma_round_ok:
  assumes c: "clock_ok s" and al: "dma_aligned (d, s)" and act: "dma_active s"
  shows "ok (dma_round E addr internal (d, s)) (\<lambda>(d', t). spent 1 s t \<and> dma_aligned (d', t) \<and>
    dma_measure (d', t) < dma_measure (d, s))"
proof -
  let ?k = "unat (dma_sprite_counter d)"
  have round: "dma_round E addr internal (d, s) =
      (if \<not> put_cycle s then
         if dmc_ready (n_cpu s) then dma_dmc_cycle E internal d s
         else if cpu_sprite_dma_transfer (n_cpu s) then dma_sprite_read E internal d s
         else dma_wait E addr d s
       else if cpu_sprite_dma_transfer (n_cpu s) \<and> odd ?k then dma_sprite_write E d s
       else dma_wait E addr d s)"
    by (simp add: dma_round_def put_cycle_def dmc_ready_def dma_flags_def odd_counter Let_def)
  have waits: "ok (dma_wait E addr d s) (\<lambda>(d', t). spent 1 s t \<and> dma_aligned (d', t) \<and>
      dma_measure (d', t) < dma_measure (d, s))"
    if w: "put_cycle s \<or> \<not> dmc_ready (n_cpu s) \<and> \<not> cpu_sprite_dma_transfer (n_cpu s)"
      "cpu_sprite_dma_transfer (n_cpu s) \<Longrightarrow> even ?k"
  proof (rule ok_mono [OF dma_wait_ok [OF c]], clarify)
    fix t assume q: "quiet_cycle (cpu_do dma_process_cycle s) t"
    note r = quiet_round [OF q]
    have "dma_measure (d, t) < dma_measure (d, s)"
      by (rule wait_decreases [OF q w]) (use act in \<open>auto simp: dma_active_def\<close>)
    moreover have "dma_aligned (d, t)" using al w r(2) cycle_parity [OF r(1)] by (auto simp: dma_aligned_def Let_def)
    ultimately show "spent 1 s t \<and> dma_aligned (d, t) \<and> dma_measure (d, t) < dma_measure (d, s)" using r(1) by blast
  qed
  consider (dmc) "\<not> put_cycle s" "dmc_ready (n_cpu s)"
    | (rd) "\<not> put_cycle s" "\<not> dmc_ready (n_cpu s)" "cpu_sprite_dma_transfer (n_cpu s)"
    | (wt) "\<not> put_cycle s" "\<not> dmc_ready (n_cpu s)" "\<not> cpu_sprite_dma_transfer (n_cpu s)"
    | (wr) "put_cycle s" "cpu_sprite_dma_transfer (n_cpu s)" "odd ?k"
    | (wt2) "put_cycle s" "cpu_sprite_dma_transfer (n_cpu s) \<Longrightarrow> even ?k" by blast
  then show ?thesis
  proof cases
    case dmc
    have "ok (dma_dmc_cycle E internal d s) (\<lambda>(d', t). spent 1 s t \<and> dma_aligned (d', t) \<and> dma_measure (d', t) < dma_measure (d, s))"
    proof (rule ok_mono [OF dma_dmc_cycle_ok [OF c]], unfold split_paired_all prod.case, elim conjE exE)
      fix d' :: dma and t assume h: "dma_sprite_counter d' = dma_sprite_counter d" "spent 1 s t" "\<not> cpu_dmc_dma_running (n_cpu t)"
        "cpu_sprite_dma_transfer (n_cpu t) = cpu_sprite_dma_transfer (n_cpu s)"
      have p: "put_cycle t" using cycle_parity [OF h(2)] dmc by simp
      have "dma_aligned (d', t)" using al h p by (simp add: dma_aligned_def Let_def)
      moreover have "dma_measure (d', t) < dma_measure (d, s)"
        using h p dmc al flagsD [OF dmc(2) [unfolded dmc_ready_def]] by (auto simp: dma_measure_def dma_aligned_def Let_def)
      ultimately show "spent 1 s t \<and> dma_aligned (d', t) \<and> dma_measure (d', t) < dma_measure (d, s)" using h(2) by blast
    qed
    then show ?thesis using dmc by (simp add: round)
  next
    case rd
    then have k: "?k < 0x200" "even ?k" using al by (auto simp: dma_aligned_def Let_def)
    then have "?k + 1 < 0x200" by presburger
    have "ok (dma_sprite_read E internal d s) (\<lambda>(d', t). spent 1 s t \<and> dma_aligned (d', t) \<and> dma_measure (d', t) < dma_measure (d, s))"
    proof (rule ok_mono [OF dma_sprite_read_ok [OF c]], unfold split_paired_all prod.case, elim conjE exE)
      fix d' :: dma and t assume h: "dma_sprite_counter d' = dma_sprite_counter d + 1" "quiet_cycle (cpu_do dma_process_cycle s) t"
      note r = quiet_round [OF h(2)]
      have p: "put_cycle t" using cycle_parity [OF r(1)] rd by simp
      have k': "unat (dma_sprite_counter d') = ?k + 1" using counter_up [OF k(1)] h(1) by simp
      have "dma_aligned (d', t)" using p k' \<open>?k + 1 < 0x200\<close> by (simp add: dma_aligned_def Let_def)
      moreover have "dma_measure (d', t) < dma_measure (d, s)"
        using p k' k rd r(2) by (simp add: dma_measure_def Let_def)
      ultimately show "spent 1 s t \<and> dma_aligned (d', t) \<and> dma_measure (d', t) < dma_measure (d, s)" using r(1) by blast
    qed
    then show ?thesis using rd by (simp add: round)
  next
    case wr
    then have k: "?k < 0x200" using al by (auto simp: dma_aligned_def Let_def)
    have k1: "unat (dma_sprite_counter d + 1) = ?k + 1" by (rule counter_up [OF k])
    have "ok (dma_sprite_write E d s) (\<lambda>(d', t). spent 1 s t \<and> dma_aligned (d', t) \<and> dma_measure (d', t) < dma_measure (d, s))"
    proof (rule ok_mono [OF dma_sprite_write_ok [OF c]], unfold split_paired_all prod.case, elim conjE exE, hypsubst)
      fix d' :: dma and u assume h: "dma_sprite_counter d' = dma_sprite_counter d + 1" "quiet_cycle (cpu_do dma_process_cycle s) u"
      note r = quiet_round [OF h(2)]
      let ?t = "if dma_sprite_counter d' = 0x200 then cpu_do (\<lambda>c. c\<lparr>cpu_sprite_dma_transfer := False\<rparr>) u else u"
      have p: "\<not> put_cycle u" using cycle_parity [OF r(1)] wr by simp
      have sp: "spent 1 s ?t" using r(1) spent_cpu [OF r(1), of "(n_cpu u)\<lparr>cpu_sprite_dma_transfer := False\<rparr>"]
        by (simp add: cpu_do_def cpu_time_def)
      have pp: "put_cycle ?t \<longleftrightarrow> put_cycle u" by (simp add: put_cycle_def)
      have full: "dma_sprite_counter d' = 0x200 \<longleftrightarrow> ?k + 1 = 0x200"
        using k1 h(1) word_unat_eq_iff [of "dma_sprite_counter d'" "0x200"] by simp
      have k': "unat (dma_sprite_counter d') = ?k + 1" using k1 h(1) by simp
      have "dma_aligned (d', ?t)" using k k' p pp full wr(3) by (auto simp: dma_aligned_def Let_def)
      moreover have "dma_measure (d', ?t) < dma_measure (d, s)"
        using k k' p pp full wr r(2) dmc_pending_le [of "ap_dmc (n_apu u)"] by (auto simp: dma_measure_def Let_def)
      ultimately show "spent 1 s ?t \<and> dma_aligned (d', ?t) \<and> dma_measure (d', ?t) < dma_measure (d, s)" using sp by blast
    qed
    then show ?thesis using wr by (simp add: round)
  qed (use waits round in auto)
qed

section \<open>The transfer\<close>

lemma dma_loop_ok:
  assumes c: "clock_ok s"
  shows "ok (dma_loop E addr s) (within 4200 s)"
proof -
  define I where "I ds \<longleftrightarrow> dma_aligned ds \<and> (\<exists>n. n + dma_measure ds \<le> 4200 \<and> spent n s (snd ds))" for ds
  have "ok (while_loop (\<lambda>(d, s). cpu_dmc_dma_running (n_cpu s) \<or> cpu_sprite_dma_transfer (n_cpu s))
      (dma_round E addr (addr AND 0xFFE0 = 0x4000))
      (\<lparr>dma_sprite_counter = 0, dma_sprite_read_addr = 0, dma_read_value = 0, dma_prev_read_address = addr\<rparr>, s))
    (\<lambda>ds. within 4200 s (snd ds))"
  proof (rule while_loop_ok [where I = I and m = dma_measure])
    show "I (\<lparr>dma_sprite_counter = 0, dma_sprite_read_addr = 0, dma_read_value = 0, dma_prev_read_address = addr\<rparr>, s)"
      unfolding I_def using c dma_measure_le by (auto simp: dma_aligned_def Let_def intro!: exI [of _ 0])
  next
    fix ds :: "dma \<times> nes"
    assume inv: "I ds" and act: "case ds of (d, s) \<Rightarrow> cpu_dmc_dma_running (n_cpu s) \<or> cpu_sprite_dma_transfer (n_cpu s)"
    obtain d t where ds: "ds = (d, t)" by (cases ds)
    from inv obtain n where n: "n + dma_measure (d, t) \<le> 4200" "spent n s t" "dma_aligned (d, t)"
      by (auto simp: I_def ds)
    have "dma_active t" using act by (simp add: ds dma_active_def)
    from dma_round_ok [OF spent_ok [OF n(2)] n(3) this]
    show "ok (dma_round E addr (addr AND 0xFFE0 = 0x4000) ds) (\<lambda>ds'. I ds' \<and> dma_measure ds' < dma_measure ds)"
      unfolding ds
    proof (rule ok_mono, unfold split_paired_all prod.case, elim conjE)
      fix d' :: dma and u assume r: "spent 1 t u" "dma_aligned (d', u)" "dma_measure (d', u) < dma_measure (d, t)"
      have "spent (n + 1) s u" by (rule spent_trans [OF n(2) r(1)])
      moreover have "n + 1 + dma_measure (d', u) \<le> 4200" using n(1) r(3) by simp
      ultimately have "I (d', u)" using r(2) unfolding I_def snd_conv by blast
      with r(3) show "I (d', u) \<and> dma_measure (d', u) < dma_measure (d, t)" by blast
    qed
  next
    fix ds :: "dma \<times> nes" assume "I ds"
    then show "within 4200 s (snd ds)" unfolding I_def within_def by (meson add_leD1)
  qed
  then show ?thesis by (simp add: dma_loop_def)
qed

lemma dma_halt_ok:
  assumes "clock_ok s"
  shows "ok (dma_halt E addr s) (spent 1 s)"
proof -
  let ?s = "cpu_do (\<lambda>c. c\<lparr>cpu_need_halt := False\<rparr>) s"
  have s: "clock_ok ?s" using clock_ok_cpu [OF assms(1)] by (simp add: cpu_do_def cpu_time_def)
  have half: "half_clock 1 s t" if "half_clock 1 ?s t" for t using that by (simp add: half_clock_def)
  have rd: "ok (if b then map_option snd (memory_read addr t) else Some t) (half_clock 1 s)" if t: "half_clock 1 s t" for b t
    by (auto intro!: t ok_mono [OF memory_read_ok [OF half_clock_ok(1) [OF t]]] half_clock_stays [OF t] moves_stays
       )
  have fin: "ok (end_cpu_cycle True t) (spent 1 s)" if t: "half_clock 1 s t" for t
    by (rule ok_mono [OF end_cpu_cycle_ok [OF half_clock_ok(2) [OF t]]]) (auto simp: half_cycle_def intro: half_trans [OF t])
  show ?thesis
    unfolding dma_halt_def Let_def
    by (rule ok_bindI [OF start_cpu_cycle_ok [OF s]], rule ok_bindI [OF rd])
      (auto intro: half fin half_cycleD)
qed

theorem process_pending_dma_ok:
  assumes "clock_ok s"
  shows "ok (process_pending_dma E addr s) (within 4201 s)"
proof -
  have cpu: "spent 1 s (cpu_do f t)" if "spent 1 s t" "\<And>c. cpu_time (f c) = cpu_time c" for f t
    unfolding cpu_do_def by (rule spent_cpu [OF that(1)]) (simp add: that(2))
  have loop: "ok (dma_loop E addr t) (within 4201 s)" if t: "spent 1 s t" for t
    by (rule ok_mono [OF dma_loop_ok [OF spent_ok [OF t]]])
      (rule within_mono [OF within_trans [OF spent_within [OF t]]], auto)
  have w: "within 4201 s t" if "spent 1 s t" for t by (rule within_mono [OF spent_within [OF that]]) simp
  have s: "within 4201 s s" using assms(1) by simp
  show ?thesis
    unfolding process_pending_dma_def Let_def
    by (auto intro!: ok_mono [OF dma_halt_ok [OF assms]] loop w s cpu simp: cpu_time_def assms(1))
qed

text \<open>The accesses of the CPU.\<close>

theorem cpu_memory_read_ok:
  assumes "clock_ok s"
  shows "ok (cpu_memory_read E addr s) (\<lambda>(v, t). \<exists>k \<ge> 1. k \<le> 4202 \<and> spent k s t)"
proof -
  have rd: "ok (do { s \<leftarrow> start_cpu_cycle E True t; (v, s) \<leftarrow> memory_read addr s; s \<leftarrow> end_cpu_cycle True s; Some (v, s) })
      (\<lambda>(v, t). \<exists>k \<ge> 1. k \<le> 4202 \<and> spent k s t)" if t: "within 4201 s t" for t
  proof (rule ok_mono [OF read_cycle_ok [OF within_ok [OF t]]], clarify)
    fix u assume u: "quiet_cycle t u"
    obtain k where k: "k \<le> 4201" "spent k s t" using t by (auto simp: within_def)
    have "spent (k + 1) s u" using spent_trans [OF k(2)] u by (simp add: quiet_cycle_def)
    with k(1) show "\<exists>k \<ge> 1. k \<le> 4202 \<and> spent k s u" by (intro exI [of _ "k + 1"]) simp
  qed
  show ?thesis
    unfolding cpu_memory_read_def by (rule ok_bindI [OF process_pending_dma_ok [OF assms]]) (rule rd)
qed

theorem cpu_memory_write_ok:
  assumes "clock_ok s"
  shows "ok (cpu_memory_write E addr v s) (spent 1 s)"
proof -
  let ?s = "cpu_do (\<lambda>c. c\<lparr>cpu_write_cycle := True\<rparr>) s"
  have s: "clock_ok ?s" using clock_ok_cpu [OF assms(1)] by (simp add: cpu_do_def cpu_time_def)
  have half: "half_clock 1 s t" if "half_clock 1 ?s t" for t using that by (simp add: half_clock_def)
  have wr: "ok (memory_write addr v t) (half_clock 1 s)" if t: "half_clock 1 s t" for t
    by (rule ok_mono [OF memory_write_ok [OF half_clock_ok(1) [OF t]]]) (rule half_clock_stays [OF t])
  have fin: "ok (end_cpu_cycle False t) (spent 1 s)" if t: "half_clock 1 s t" for t
    by (rule ok_mono [OF end_cpu_cycle_ok [OF half_clock_ok(2) [OF t]]]) (auto simp: half_cycle_def intro: half_trans [OF t])
  have last: "spent 1 s (cpu_do (\<lambda>c. c\<lparr>cpu_write_cycle := False\<rparr>) t)" if "spent 1 s t" for t
    unfolding cpu_do_def by (rule spent_cpu [OF that]) (simp add: cpu_time_def)
  show ?thesis
    unfolding cpu_memory_write_def
    by (rule ok_bindI [OF start_cpu_cycle_ok [OF s]], rule ok_bindI [OF wr], erule half [OF half_cycleD(1)],
        rule ok_bindI [OF fin]) (auto intro: last)
qed

declare One_nat_def [simp]

end
