(* ===== verification/Cpu_Safety.thy ===== *)
theory Cpu_Safety
  imports Dma_Transfer Cpu_Ops
begin

text \<open>
  Every instruction, the interrupt sequence and the reset return, without undefined
  behaviour, after a bounded number of memory accesses. An access takes at most
  \<open>ACCESS\<close> cycles, a transfer of the DMA unit in front of it included.
\<close>

section \<open>Counting accesses\<close>

definition ACCESS :: nat where "ACCESS = 4202"

text \<open>
  \<open>within_accesses E p n s m\<close>: from \<open>s\<close>, the execution \<open>m\<close> returns, in a state \<open>p a\<close>
  that is at most \<open>n\<close> accesses later.
\<close>

definition within_accesses :: "audio_env \<Rightarrow> ('a \<Rightarrow> nes) \<Rightarrow> nat \<Rightarrow> nes \<Rightarrow> 'a option \<Rightarrow> bool" where
  "within_accesses E p n s m \<longleftrightarrow>
     (clock_ok s \<longrightarrow> ok m (\<lambda>a. within (n * ACCESS) s (p a)))"

definition costs :: "audio_env \<Rightarrow> ('a \<Rightarrow> nes) \<Rightarrow> nat \<Rightarrow> (nes \<Rightarrow> 'a option) \<Rightarrow> bool" where
  "costs E p n f \<longleftrightarrow> (\<forall>s. within_accesses E p n s (f s))"

text \<open>The same machine but for the registers of the CPU.\<close>

definition same_machine :: "nes \<Rightarrow> nes \<Rightarrow> bool" where
  "same_machine s t \<longleftrightarrow> (\<exists>c. t = s\<lparr>n_cpu := c\<rparr> \<and> cpu_time c = cpu_time (n_cpu s))"

named_theorems cost_intro \<open>rules that count the accesses of an execution\<close>

lemma same_refl [cost_intro]: "same_machine s s"
  unfolding same_machine_def by (rule exI [of _ "n_cpu s"]) simp

lemma same_cpu [cost_intro]: "same_machine s t \<Longrightarrow> cpu_time c = cpu_time (n_cpu t) \<Longrightarrow> same_machine s (t\<lparr>n_cpu := c\<rparr>)"
  by (auto simp: same_machine_def)

lemma same_do [cost_intro]: "same_machine s t \<Longrightarrow> (\<And>c. cpu_time (f c) = cpu_time c) \<Longrightarrow> same_machine s (cpu_do f t)"
  by (auto simp: cpu_do_def intro: same_cpu)

lemma within_same: "same_machine s t \<Longrightarrow> within n t u \<Longrightarrow> within n s u"
  by (auto simp: same_machine_def within_def spent_from_cpu)

lemma clock_ok_same: "same_machine s t \<Longrightarrow> clock_ok s \<Longrightarrow> clock_ok t"
  by (auto simp: same_machine_def intro: clock_ok_cpu)

lemma cost_end [cost_intro]: "same_machine s (p a) \<Longrightarrow> within_accesses E p n s (Some a)"
  using clock_ok_same [of s "p a"] within_same [of s "p a"] by (auto simp: within_accesses_def)

lemma cost_bind:
  assumes f: "costs E p k f" and le: "k \<le> n" and same: "same_machine s t"
    and g: "\<And>a. within_accesses E q (n - k) (p a) (g a)"
  shows "within_accesses E q n s (Option.bind (f t) g)"
  unfolding within_accesses_def
proof (intro impI)
  assume s: "clock_ok s"
  have "ok (f t) (\<lambda>a. within (k * ACCESS) s (p a))"
    using f clock_ok_same [OF same s] within_same [OF same]
    by (auto simp: costs_def within_accesses_def elim!: ok_mono)
  then show "ok (Option.bind (f t) g) (\<lambda>a. within (n * ACCESS) s (q a))"
  proof (rule ok_bindI)
    fix a assume a: "within (k * ACCESS) s (p a)"
    have "k * ACCESS + (n - k) * ACCESS = n * ACCESS" using le by (simp flip: distrib_right)
    then have "within (n * ACCESS) s u" if "within ((n - k) * ACCESS) (p a) u" for u
      using within_trans [OF a that] by simp
    then show "ok (g a) (\<lambda>a. within (n * ACCESS) s (q a))"
      using g [of a] within_ok [OF a] by (auto simp: within_accesses_def elim!: ok_mono)
  qed
qed

lemma cost_tail: "costs E p k f \<Longrightarrow> k \<le> n \<Longrightarrow> same_machine s t \<Longrightarrow> within_accesses E p n s (f t)"
  using cost_bind [of E p k f n s t p Some] by (simp add: cost_end same_refl)

lemma cost_map:
  "costs E p k f \<Longrightarrow> k \<le> n \<Longrightarrow> same_machine s t \<Longrightarrow> (\<And>a. same_machine (p a) (q (h a))) \<Longrightarrow>
    within_accesses E q n s (map_option h (f t))"
  using cost_bind [of E p k f n s t q "\<lambda>a. Some (h a)"] by (simp add: cost_end map_conv_bind_option comp_def)

lemma cost_if [cost_intro]:
  "(b \<Longrightarrow> within_accesses E p n s m) \<Longrightarrow> (\<not> b \<Longrightarrow> within_accesses E p n s m') \<Longrightarrow>
    within_accesses E p n s (if b then m else m')"
  by simp

lemma cost_bind_if [cost_intro]:
  "(b \<Longrightarrow> within_accesses E p n s (Option.bind m f)) \<Longrightarrow> (\<not> b \<Longrightarrow> within_accesses E p n s (Option.bind m' f)) \<Longrightarrow>
    within_accesses E p n s (Option.bind (if b then m else m') f)"
  by simp

lemma costsI: "(\<And>s. within_accesses E p n s (f s)) \<Longrightarrow> costs E p n f"
  by (simp add: costs_def)

section \<open>The registers do not touch the clock\<close>

lemma time_registers [simp]:
  "cpu_time (clear_flags f c) = cpu_time c" "cpu_time (set_flags f c) = cpu_time c"
  "cpu_time (set_zn_flags v c) = cpu_time c"
  "cpu_time (set_sp v c) = cpu_time c" "cpu_time (set_ps v c) = cpu_time c" "cpu_time (set_pc a c) = cpu_time c"
  by (simp_all add: clear_flags_def set_flags_def set_zn_flags_def set_sp_def set_ps_def set_pc_def cpu_time_def)

lemma time_register_set [simp]:
  "cpu_time (set_a v c) = cpu_time c" "cpu_time (set_x v c) = cpu_time c" "cpu_time (set_y v c) = cpu_time c"
proof -
  have r: "cpu_time (register_flags v c) = cpu_time c" by (simp add: register_flags_def)
  show "cpu_time (set_a v c) = cpu_time c" "cpu_time (set_x v c) = cpu_time c" "cpu_time (set_y v c) = cpu_time c"
    using r by (simp_all add: set_a_def set_x_def set_y_def cpu_time_def)
qed

lemma time_alu [simp]:
  "cpu_time (alu_add v c) = cpu_time c" "cpu_time (alu_cmp r v c) = cpu_time c" "cpu_time (bit_flags v c) = cpu_time c"
  by (simp_all add: alu_add_def alu_cmp_def bit_flags_def Let_def)

lemma time_shift [simp]:
  "cpu_time (snd (asl v c)) = cpu_time c" "cpu_time (snd (lsr v c)) = cpu_time c"
  "cpu_time (snd (rol v c)) = cpu_time c" "cpu_time (snd (ror v c)) = cpu_time c"
  by (simp_all add: asl_def lsr_def rol_def ror_def shift_with_def Let_def)

lemma time_fields [simp]:
  "cpu_time (c\<lparr>cpu_pc := pc\<rparr>) = cpu_time c" "cpu_time (c\<lparr>cpu_sp := sp\<rparr>) = cpu_time c"
  "cpu_time (c\<lparr>cpu_operand := w\<rparr>) = cpu_time c" "cpu_time (c\<lparr>cpu_inst_addr_mode := m\<rparr>) = cpu_time c"
  "cpu_time (c\<lparr>cpu_need_nmi := b\<rparr>) = cpu_time c" "cpu_time (c\<lparr>cpu_prev_need_nmi := b\<rparr>) = cpu_time c"
  "cpu_time (c\<lparr>cpu_run_irq := b\<rparr>) = cpu_time c" "cpu_time (c\<lparr>cpu_prev_run_irq := b\<rparr>) = cpu_time c"
  by (simp_all add: cpu_time_def)

section \<open>The accesses\<close>

lemma read_costs: "costs E snd 1 (cpu_memory_read E addr)"
  unfolding costs_def within_accesses_def
  by (auto simp: ACCESS_def within_def split_beta intro!: ok_mono [OF cpu_memory_read_ok])

lemma write_costs: "costs E id 1 (cpu_memory_write E addr v)"
  unfolding costs_def within_accesses_def
  by (auto simp: ACCESS_def intro!: ok_mono [OF cpu_memory_write_ok] within_mono [OF spent_within, of 1])

lemmas [cost_intro] = cost_bind [OF read_costs] cost_tail [OF read_costs] cost_map [OF read_costs]
  cost_bind [OF write_costs] cost_tail [OF write_costs]

text \<open>The helpers: operands, pointers, the stack.\<close>

lemma dummy_read_costs: "costs E id 1 (dummy_read E)"
  unfolding dummy_read_def by (auto intro!: costsI cost_intro)

lemma read_byte_costs: "costs E snd 1 (read_byte E)"
  unfolding read_byte_def by (auto intro!: costsI cost_intro)

lemmas [cost_intro] = cost_bind [OF dummy_read_costs] cost_map [OF dummy_read_costs]
  cost_bind [OF read_byte_costs] cost_map [OF read_byte_costs]

lemma get_op_code_costs: "costs E snd 1 (get_op_code E)"
  unfolding get_op_code_def by (auto intro!: costsI cost_intro)

lemma read_word_costs: "costs E snd 2 (read_word E)"
  unfolding read_word_def by (auto intro!: costsI cost_intro)

lemma read_word_at_costs: "costs E snd 2 (cpu_memory_read_word E addr)"
  unfolding cpu_memory_read_word_def by (auto intro!: costsI cost_intro)

lemmas [cost_intro] = cost_bind [OF get_op_code_costs] cost_bind [OF read_word_costs] cost_tail [OF read_word_costs]
  cost_bind [OF read_word_at_costs] cost_tail [OF read_word_at_costs]

lemma zero_page_word_costs: "costs E snd 2 (zero_page_word E zero)"
  unfolding zero_page_word_def by (auto intro!: costsI cost_intro)

lemma index_read_costs: "costs E id 1 (index_read E base i)"
  unfolding index_read_def by (auto intro!: costsI cost_intro)

lemmas [cost_intro] = cost_bind [OF zero_page_word_costs] cost_tail [OF zero_page_word_costs]
  cost_bind [OF index_read_costs]

lemma indexed_costs: "costs E snd 1 (indexed E dr base i)"
  unfolding indexed_def by (auto intro!: costsI cost_intro)

lemmas [cost_intro] = cost_tail [OF indexed_costs]

lemma addr_costs:
  "costs E snd 1 (get_immediate E)" "costs E snd 2 (get_zero_index_addr E reg)"
  "costs E snd 3 (get_abs_x_addr E dr)" "costs E snd 3 (get_abs_y_addr E dr)"
  "costs E snd 4 (get_ind_x_addr E)" "costs E snd 4 (get_ind_y_addr E dr)" "costs E snd 2 (get_ind E)"
  unfolding get_immediate_def get_zero_index_addr_def get_abs_x_addr_def get_abs_y_addr_def get_ind_x_addr_def
    get_ind_y_addr_def get_ind_def Let_def
  by (auto intro!: costsI cost_intro)

lemmas [cost_intro] = addr_costs [THEN cost_tail]

lemma fetch_operand_costs: "costs E snd 4 (fetch_operand E)"
  unfolding fetch_operand_def
  by (rule costsI) (auto intro!: cost_intro split: addr_mode.split)

lemma get_operand_value_costs: "costs E snd 1 (get_operand_value E)"
  unfolding get_operand_value_def by (auto intro!: costsI cost_intro)

lemmas [cost_intro] = cost_bind [OF fetch_operand_costs] cost_bind [OF get_operand_value_costs]
  cost_bind [OF addr_costs(7)]

lemma push_costs: "costs E id 1 (cpu_push E v)"
  unfolding cpu_push_def by (auto intro!: costsI cost_intro)

lemma pop_costs: "costs E snd 1 (cpu_pop E)"
  unfolding cpu_pop_def Let_def by (auto intro!: costsI cost_intro)

lemmas [cost_intro] = cost_bind [OF push_costs] cost_tail [OF push_costs] cost_bind [OF pop_costs]

lemma push_word_costs: "costs E id 2 (cpu_push_word E v)"
  unfolding cpu_push_word_def by (auto intro!: costsI cost_intro)

lemma pop_word_costs: "costs E snd 2 (cpu_pop_word E)"
  unfolding cpu_pop_word_def by (auto intro!: costsI cost_intro)

lemmas [cost_intro] = cost_bind [OF push_word_costs] cost_bind [OF pop_word_costs]

section \<open>The instructions\<close>

lemma with_operand_costs: "(\<And>v c. cpu_time (f v c) = cpu_time c) \<Longrightarrow> costs E id 1 (with_operand E f)"
  unfolding with_operand_def by (auto intro!: costsI cost_intro)

lemma shift_addr_costs: "(\<And>v c. cpu_time (snd (sh v c)) = cpu_time c) \<Longrightarrow> costs E id 3 (shift_addr sh E)"
  unfolding shift_addr_def Let_def by (auto intro!: costsI cost_intro simp: split_beta)

lemma branch_costs: "costs E id 2 (branch_relative b E)"
  unfolding branch_relative_def Let_def by (auto intro!: costsI cost_intro)

lemma take_vector_costs: "costs E id 3 (take_vector E flags)"
  unfolding take_vector_def Let_def by (auto intro!: costsI cost_intro)

lemma masked_store_costs: "costs E id 2 (masked_store E base i v)"
  unfolding masked_store_def Let_def by (auto intro!: costsI cost_intro)

lemmas [cost_intro] = cost_bind [OF take_vector_costs] cost_tail [OF take_vector_costs] cost_tail [OF masked_store_costs]

lemma costs_le: "costs E p k f \<Longrightarrow> k \<le> n \<Longrightarrow> costs E p n f"
  by (auto intro: costsI cost_tail same_refl)

lemmas operand_op_defs = op_lda_def op_ldx_def op_ldy_def and_op_def eor_op_def ora_op_def adc_op_def sbc_op_def
  cpa_def cpx_def cpy_def op_bit_def op_nop_def op_lax_def op_aac_def op_arr_def op_atx_def op_axs_def
  op_ane_def op_las_def

lemmas register_op_defs = op_tax_def op_tay_def op_tsx_def op_txa_def op_txs_def op_tya_def op_inx_def op_iny_def
  op_dex_def op_dey_def op_clc_def op_cld_def op_cli_def op_clv_def op_sec_def op_sed_def op_sei_def
  op_asl_acc_def op_lsr_acc_def op_rol_acc_def op_ror_acc_def op_jmp_abs_def op_hlt_def

lemmas memory_op_defs = op_sta_def op_stx_def op_sty_def op_sax_def inc_op_def dec_op_def op_jmp_ind_def op_jsr_def
  op_rts_def op_rti_def op_pha_def op_php_def op_pla_def op_plp_def op_brk_def op_slo_def op_sre_def op_rla_def
  op_rra_def op_dcp_def op_isb_def op_asr_def op_shy_def op_shx_def op_shaa_def op_shaz_def

text \<open>No operation takes more than six accesses after its operand has been fetched.\<close>

lemma operand_op_costs:
  "costs E id 6 (op_lda E)" "costs E id 6 (op_ldx E)" "costs E id 6 (op_ldy E)" "costs E id 6 (and_op E)"
  "costs E id 6 (eor_op E)" "costs E id 6 (ora_op E)" "costs E id 6 (adc_op E)" "costs E id 6 (sbc_op E)"
  "costs E id 6 (cpa E)" "costs E id 6 (cpx E)" "costs E id 6 (cpy E)" "costs E id 6 (op_bit E)"
  "costs E id 6 (op_nop E)" "costs E id 6 (op_lax E)" "costs E id 6 (op_aac E)" "costs E id 6 (op_arr E)"
  "costs E id 6 (op_atx E)" "costs E id 6 (op_axs E)" "costs E id 6 (op_ane E)" "costs E id 6 (op_las E)"
  unfolding operand_op_defs
  by (rule costs_le [OF with_operand_costs], simp add: Let_def, simp)+

lemma register_op_costs:
  "costs E id 6 (op_tax E)" "costs E id 6 (op_tay E)" "costs E id 6 (op_tsx E)" "costs E id 6 (op_txa E)"
  "costs E id 6 (op_txs E)" "costs E id 6 (op_tya E)" "costs E id 6 (op_inx E)" "costs E id 6 (op_iny E)"
  "costs E id 6 (op_dex E)" "costs E id 6 (op_dey E)" "costs E id 6 (op_clc E)" "costs E id 6 (op_cld E)"
  "costs E id 6 (op_cli E)" "costs E id 6 (op_clv E)" "costs E id 6 (op_sec E)" "costs E id 6 (op_sed E)"
  "costs E id 6 (op_sei E)" "costs E id 6 (op_asl_acc E)" "costs E id 6 (op_lsr_acc E)"
  "costs E id 6 (op_rol_acc E)" "costs E id 6 (op_ror_acc E)" "costs E id 6 (op_jmp_abs E)" "costs E id 6 (op_hlt E)"
  unfolding register_op_defs
  by (auto intro!: costsI cost_intro simp: split_beta Let_def)

lemma branch_op_costs:
  "costs E id 6 (op_bcc E)" "costs E id 6 (op_bcs E)" "costs E id 6 (op_beq E)" "costs E id 6 (op_bmi E)"
  "costs E id 6 (op_bne E)" "costs E id 6 (op_bpl E)" "costs E id 6 (op_bvc E)" "costs E id 6 (op_bvs E)"
  unfolding op_bcc_def op_bcs_def op_beq_def op_bmi_def op_bne_def op_bpl_def op_bvc_def op_bvs_def
  by (rule costs_le [OF branch_costs], simp)+

lemma shift_op_costs:
  "costs E id 6 (asl_addr E)" "costs E id 6 (lsr_addr E)" "costs E id 6 (rol_addr E)" "costs E id 6 (ror_addr E)"
  unfolding asl_addr_def lsr_addr_def rol_addr_def ror_addr_def
  by (rule costs_le [OF shift_addr_costs], simp, simp)+

lemma memory_op_costs:
  "costs E id 6 (op_sta E)" "costs E id 6 (op_stx E)" "costs E id 6 (op_sty E)" "costs E id 6 (op_sax E)"
  "costs E id 6 (inc_op E)" "costs E id 6 (dec_op E)" "costs E id 6 (op_jmp_ind E)" "costs E id 6 (op_jsr E)"
  "costs E id 6 (op_rts E)" "costs E id 6 (op_rti E)" "costs E id 6 (op_pha E)" "costs E id 6 (op_php E)"
  "costs E id 6 (op_pla E)" "costs E id 6 (op_plp E)" "costs E id 6 (op_brk E)" "costs E id 6 (op_slo E)"
  "costs E id 6 (op_sre E)" "costs E id 6 (op_rla E)" "costs E id 6 (op_rra E)" "costs E id 6 (op_dcp E)"
  "costs E id 6 (op_isb E)" "costs E id 6 (op_shy E)" "costs E id 6 (op_shx E)"
  "costs E id 6 (op_shaa E)" "costs E id 6 (op_shaz E)"
  unfolding memory_op_defs Let_def
  by (auto intro!: costsI cost_intro simp: split_beta)

lemma op_asr_costs: "costs E id 6 (op_asr E)"
proof -
  have "costs E id 1 (with_operand E (\<lambda>v c. let c = set_a (cpu_a c AND v) c;
      c = (if cpu_a c AND 0x01 \<noteq> 0 then set_flags ps_CARRY c else c) in set_a (drop_bit 1 (cpu_a c)) c))"
    by (rule with_operand_costs) (simp add: Let_def)
  then show ?thesis
    unfolding op_asr_def by (intro costsI) (rule cost_tail, assumption, simp, rule same_do, rule same_refl, simp)
qed

lemma op_tas_costs: "costs E id 6 (op_tas E)"
proof -
  have "costs E id 4 (op_shaa E)"
    unfolding op_shaa_def by (auto intro!: costsI cost_intro)
  then show ?thesis
    unfolding op_tas_def by (intro costsI) (rule cost_bind, assumption, simp, rule same_refl, auto intro!: cost_intro)
qed

lemmas op_costs = operand_op_costs register_op_costs branch_op_costs shift_op_costs memory_op_costs
  op_asr_costs op_tas_costs

lemma op_table_costs: "list_all (\<lambda>f. costs E id 6 (f E)) op_table"
  unfolding op_table_def by (simp add: op_costs)

lemma table_lengths: "length op_table = 256" "length addr_mode_table = 256"
  by (simp_all add: op_table_def addr_mode_table_def)

lemma opcode_less: "unat (opcode :: u8) < 256"
  using unsigned_less [where 'a = nat, of opcode] by simp

section \<open>Execution\<close>

lemma irq_costs: "costs E id 7 (cpu_irq E)"
  unfolding cpu_irq_def by (auto intro!: costsI cost_intro)

lemmas [cost_intro] = cost_tail [OF irq_costs]

lemma exec_costs: "costs E id 18 (cpu_exec E)"
proof (rule costsI)
  fix s
  have op: "costs E id 6 ((op_table ! unat opcode) E)" for opcode :: u8
    using op_table_costs [of E] opcode_less [of opcode] by (simp add: list_all_length table_lengths)
  show "within_accesses E id 18 s (cpu_exec E s)"
    unfolding cpu_exec_def Let_def
    by (auto intro!: cost_intro cost_bind [OF op] simp: table_lengths opcode_less)
qed

text \<open>
  One instruction, the interrupt sequence after it included: no undefined behaviour, at
  least one cycle, which fetches the opcode, and at most eighteen accesses.
\<close>

theorem cpu_exec_ok:
  assumes "clock_ok s"
  shows "ok (cpu_exec E s) (\<lambda>t. \<exists>k \<ge> 1. k \<le> 19 * ACCESS \<and> spent k s t)"
proof -
  define rest where "rest = (\<lambda>(opcode :: u8, s). do {
     m \<leftarrow> rd addr_mode_table (unat opcode);
     let s = cpu_do (\<lambda>c. c\<lparr>cpu_inst_addr_mode := m\<rparr>) s;
     (v, s) \<leftarrow> fetch_operand E s;
     let s = cpu_do (\<lambda>c. c\<lparr>cpu_operand := v\<rparr>) s;
     f \<leftarrow> rd op_table (unat opcode);
     s \<leftarrow> f E s;
     if cpu_prev_run_irq (n_cpu s) \<or> cpu_prev_need_nmi (n_cpu s) then cpu_irq E s else Some s })"
  have op: "costs E id 6 ((op_table ! unat opcode) E)" for opcode :: u8
    using op_table_costs [of E] opcode_less [of opcode] by (simp add: list_all_length table_lengths)
  have rest: "costs E id 18 (\<lambda>s. rest (opcode, s))" for opcode
    unfolding rest_def Let_def
    by (auto intro!: costsI cost_intro cost_bind [OF op] simp: table_lengths opcode_less)
  have tail: "ok (rest (opcode, t)) (\<lambda>u. \<exists>k \<ge> 1. k \<le> 19 * ACCESS \<and> spent k s u)"
    if t: "k \<ge> 1" "k \<le> ACCESS" "spent k s t" for k t opcode
  proof -
    have "ok (rest (opcode, t)) (within (18 * ACCESS) t)"
      using rest spent_ok [OF t(3)] by (simp add: costs_def within_accesses_def)
    then show ?thesis
    proof (rule ok_mono)
      fix u assume "within (18 * ACCESS) t u"
      then obtain j where j: "j \<le> 18 * ACCESS" "spent j t u" by (auto simp: within_def)
      with t spent_trans [OF t(3) j(2)] show "\<exists>k \<ge> 1. k \<le> 19 * ACCESS \<and> spent k s u"
        by (intro exI [of _ "k + j"]) simp
    qed
  qed
  have pc: "spent k s (cpu_do (\<lambda>c. c\<lparr>cpu_pc := cpu_pc c + 1\<rparr>) t)" if "spent k s t" for k t
    unfolding cpu_do_def by (rule spent_cpu [OF that]) (simp add: cpu_time_def)
  have "cpu_exec E s = Option.bind (get_op_code E s) rest"
    unfolding cpu_exec_def rest_def ..
  moreover have "ok (get_op_code E s) (\<lambda>(v, t). \<exists>k \<ge> 1. k \<le> ACCESS \<and> spent k s t)"
    unfolding get_op_code_def
    by (rule ok_bindI [OF cpu_memory_read_ok [OF assms]])
      (unfold split_paired_all prod.case ok_Some ACCESS_def, blast intro: pc)
  ultimately show ?thesis
    by (simp only:) (rule ok_bindI, assumption, unfold split_paired_all prod.case, blast intro: tail)
qed

section \<open>Reset\<close>

lemma idle_cycle_ok:
  assumes "clock_ok s"
  shows "ok (idle_cycle E s) (spent 1 s)"
  unfolding idle_cycle_def
proof (rule ok_bindI [OF start_cpu_cycle_ok [OF assms]])
  fix t assume "half_cycle 1 s t"
  then show "ok (end_cpu_cycle True t) (spent 1 s)"
    using ok_mono [OF end_quiet] unfolding quiet_cycle_def by blast
qed

theorem cpu_reset_ok:
  assumes "nes_ok s"
  shows "ok (cpu_reset E soft s) clock_ok"
proof -
  have rd: "ok (memory_read addr t) (\<lambda>(v, u). nes_ok u)" if "nes_ok t" for addr t
    using that by (auto intro!: ok_mono [OF memory_read_ok] dest: moves_ok)
  have on: "clock_ok (cpu_do (cpu_power_up w) t)" if "nes_ok t" for w t
    using that by (simp add: clock_ok_def in_step_def cpu_power_up_def)
  have idle: "ok (for_each (\<lambda>_. idle_cycle E) [0..<8] t) clock_ok" if "clock_ok t" for t
    by (rule for_each_ok [where I = clock_ok, OF that]) (auto intro!: ok_mono [OF idle_cycle_ok] assms dest: spent_ok)
  show ?thesis
    unfolding cpu_reset_def Let_def
    by (rule ok_bindI [OF rd], simp add: assms, clarify, rule ok_bindI [OF rd], assumption)
      (auto intro: idle on)
qed

end
