(* ===== verification/Cpu_Facts.thy ===== *)
theory Cpu_Facts
  imports Cpu_Alu
begin

text \<open>
  The flags after the arithmetic operations, and the operations themselves, read as integer
  arithmetic on the operands.
\<close>

section \<open>Flags\<close>

lemma ps_bits:
  "bit (cpu_ps (set_flags f c)) n \<longleftrightarrow> bit (cpu_ps c) n \<or> bit f n"
  "bit (cpu_ps (clear_flags f c)) n \<longleftrightarrow> bit (cpu_ps c) n \<and> \<not> bit f n"
  by (auto simp: set_flags_def clear_flags_def bit_or_iff bit_and_iff bit_not_iff dest: bit_imp_le_length)

lemma flag_frame [simp]:
  "cpu_a (set_flags f c) = cpu_a c" "cpu_a (clear_flags f c) = cpu_a c" "cpu_a (set_zn_flags v c) = cpu_a c"
  "cpu_a (register_flags v c) = cpu_a c"
  "cpu_a (set_a v c) = v" "cpu_x (set_x v c) = v" "cpu_y (set_y v c) = v"
  by (simp_all add: set_flags_def clear_flags_def set_zn_flags_def register_flags_def set_a_def set_x_def set_y_def)

lemma and_0x80: "v AND 0x80 \<noteq> 0 \<longleftrightarrow> bit (v :: u8) 7"
  using check_flag_bit(6) [of "cpu0\<lparr>cpu_ps := v\<rparr>"] by (simp add: check_flag_def ps_defs)

lemma and_0x01: "v AND 0x01 \<noteq> 0 \<longleftrightarrow> bit (v :: u8) 0"
  using check_flag_bit(1) [of "cpu0\<lparr>cpu_ps := v\<rparr>"] by (simp add: check_flag_def ps_defs)

lemma bit_7: "bit (v :: u8) 7 \<longleftrightarrow> 128 \<le> unat v"
proof -
  have "bit v 7 \<longleftrightarrow> bit (unat v) 7" by (simp add: bit_unsigned_iff)
  also have "\<dots> \<longleftrightarrow> odd (unat v div 128)" by (simp add: bit_iff_odd)
  also have "\<dots> \<longleftrightarrow> 128 \<le> unat v"
  proof (cases "unat v < 128")
    case False
    moreover have "unat v < 256" using unsigned_less [where 'a = nat, of v] by simp
    ultimately have "unat v div 128 = 1" by (intro div_nat_eqI) simp_all
    with False show ?thesis by simp
  qed simp
  finally show ?thesis .
qed

lemma sint_u8: "sint (v :: u8) = (if 128 \<le> unat v then int (unat v) - 256 else int (unat v))"
proof -
  define k where "k = unat v"
  have kv: "uint v = int k" by (simp add: k_def)
  have "k < 256" using unsigned_less [where 'a = nat, of v] by (simp add: k_def)
  have "sint v = (int k + 128) mod 256 - 128"
    by (simp add: sint_uint signed_take_bit_eq_take_bit_shift take_bit_eq_mod kv)
  also have "(int k + 128) mod 256 = (if k < 128 then int k + 128 else int k - 128)"
    using \<open>k < 256\<close> mod_add_self2 [of "int k - 128" 256] by (cases "k < 128") (simp_all add: add.commute)
  finally show ?thesis by (auto simp: k_def [symmetric])
qed

text \<open>Zero and negative after a register has been set.\<close>

lemma register_flag_bits:
  "bit (cpu_ps (register_flags v c)) n \<longleftrightarrow>
     (if n = 1 then v = 0 else if n = 7 then bit v 7 else bit (cpu_ps c) n)"
proof -
  have z: "bit ps_ZERO n \<longleftrightarrow> n = 1" "bit ps_NEGATIVE n \<longleftrightarrow> n = 7" for n
    using bit_exp_iff [of 1 n, where 'a = "8 word"] bit_exp_iff [of 7 n, where 'a = "8 word"]
    by (auto simp: ps_defs)
  then show ?thesis
    using and_0x80 [of v]
    by (auto simp: register_flags_def set_zn_flags_def ps_bits bit_or_iff)
qed

lemma set_a_bits: "bit (cpu_ps (set_a v c)) n = bit (cpu_ps (register_flags v c)) n"
  by (simp add: set_a_def)

section \<open>The adder\<close>

definition carry_in :: "cpu \<Rightarrow> nat" where
  "carry_in c = (if check_flag ps_CARRY c then 1 else 0)"

lemma flag_positions:
  "bit ps_CARRY n \<longleftrightarrow> n = 0" "bit ps_ZERO n \<longleftrightarrow> n = 1" "bit ps_OVERFLOW n \<longleftrightarrow> n = 6" "bit ps_NEGATIVE n \<longleftrightarrow> n = 7"
  using bit_exp_iff [of 0 n, where 'a = "8 word"] bit_exp_iff [of 1 n, where 'a = "8 word"]
    bit_exp_iff [of 6 n, where 'a = "8 word"] bit_exp_iff [of 7 n, where 'a = "8 word"]
  by (auto simp: ps_defs)

lemma sum16:
  fixes a v :: u8
  assumes "k \<le> 1"
  shows "unat (ucast a + ucast v + of_nat k :: u16) = unat a + unat v + k"
proof -
  have "unat a < 256" "unat v < 256"
    using unsigned_less [where 'a = nat, of a] unsigned_less [where 'a = nat, of v] by simp_all
  with assms show ?thesis by (simp add: unat_word_ariths unsigned_of_nat take_bit_nat_eq_self unsigned_ucast_eq)
qed

lemma and_0x80_16: "w AND 0x80 \<noteq> 0 \<longleftrightarrow> bit (w :: u16) 7"
  using and_exp_eq_0_iff_not_bit [of w 7] by simp

lemma overflow_arith:
  fixes a v k :: nat
  assumes "a < 256" "v < 256" "k \<le> 1"
  shows "(128 \<le> a \<longleftrightarrow> 128 \<le> v) \<and> (128 \<le> a \<longleftrightarrow> \<not> 128 \<le> (a + v + k) mod 256) \<longleftrightarrow>
    (if 128 \<le> a then int a - 256 else int a) + (if 128 \<le> v then int v - 256 else int v) + int k < - 128 \<or>
    127 < (if 128 \<le> a then int a - 256 else int a) + (if 128 \<le> v then int v - 256 else int v) + int k"
proof -
  have "(a + v + k) mod 256 = (if a + v + k < 256 then a + v + k else a + v + k - 256)"
    using assms by (simp add: mod_if)
  then show ?thesis using assms by auto
qed

text \<open>Result and flags of the adder, as integer arithmetic with the carry.\<close>

lemma alu_add_facts:
  fixes c v
  defines "n \<equiv> unat (cpu_a c) + unat v + carry_in c"
    and "m \<equiv> sint (cpu_a c) + sint v + int (carry_in c)"
  shows "unat (cpu_a (alu_add v c)) = n mod 256"
    "check_flag ps_CARRY (alu_add v c) \<longleftrightarrow> 255 < n"
    "check_flag ps_ZERO (alu_add v c) \<longleftrightarrow> n mod 256 = 0"
    "check_flag ps_NEGATIVE (alu_add v c) \<longleftrightarrow> 128 \<le> n mod 256"
    "check_flag ps_OVERFLOW (alu_add v c) \<longleftrightarrow> m < - 128 \<or> 127 < m"
proof -
  define result :: u16 where "result = ucast (cpu_a c) + ucast v + of_nat (carry_in c)"
  have k: "carry_in c \<le> 1" by (simp add: carry_in_def)
  have r: "unat result = n" using sum16 [OF k] by (simp add: result_def n_def)
  have r8: "unat (ucast result :: u8) = n mod 256" using r by (simp add: unsigned_ucast_eq take_bit_eq_mod)
  have res: "(if check_flag ps_CARRY c then 1 else 0) = (of_nat (carry_in c) :: u16)" by (simp add: carry_in_def)
  define d where "d = (let c = set_zn_flags (ucast result) (clear_flags (ps_CARRY OR ps_NEGATIVE OR ps_OVERFLOW OR ps_ZERO) c);
      c = (if NOT (ucast (cpu_a c XOR v)) AND (ucast (cpu_a c) XOR result) AND 0x80 \<noteq> 0 then set_flags ps_OVERFLOW c else c)
    in if result > 0xFF then set_flags ps_CARRY c else c)"
  have add: "alu_add v c = set_a (ucast result) d"
    unfolding alu_add_def d_def res result_def [symmetric] Let_def by simp
  show "unat (cpu_a (alu_add v c)) = n mod 256" using r8 by (simp add: add)
  have b: "bit (cpu_ps (alu_add v c)) i = bit (cpu_ps (register_flags (ucast result) d)) i" for i
    by (simp add: add set_a_bits)
  have "0xFF < result \<longleftrightarrow> 255 < n" using r by (simp add: word_less_nat_alt)
  then show "check_flag ps_CARRY (alu_add v c) \<longleftrightarrow> 255 < n"
    by (simp add: check_flag_bit b register_flag_bits d_def Let_def ps_bits flag_positions bit_or_iff set_zn_flags_def)
  have "(ucast result :: u8) = 0 \<longleftrightarrow> n mod 256 = 0" using r8 by (simp add: word_unat_eq_iff)
  then show "check_flag ps_ZERO (alu_add v c) \<longleftrightarrow> n mod 256 = 0"
    by (simp add: check_flag_bit b register_flag_bits)
  show "check_flag ps_NEGATIVE (alu_add v c) \<longleftrightarrow> 128 \<le> n mod 256"
    using r8 bit_7 [of "ucast result"] by (simp add: check_flag_bit b register_flag_bits)
  have rb: "bit result 7 \<longleftrightarrow> 128 \<le> n mod 256"
    using bit_7 [of "ucast result"] r8 by (simp add: bit_ucast_iff)
  have "check_flag ps_OVERFLOW (alu_add v c) \<longleftrightarrow>
      bit (NOT (ucast (cpu_a c XOR v)) AND (ucast (cpu_a c) XOR result) :: u16) 7"
    using and_0x80_16 [of "NOT (ucast (cpu_a c XOR v)) AND (ucast (cpu_a c) XOR result)"]
    by (auto simp: check_flag_bit b register_flag_bits d_def Let_def ps_bits flag_positions bit_or_iff set_zn_flags_def
        and.assoc)
  also have "\<dots> \<longleftrightarrow> (128 \<le> unat (cpu_a c) \<longleftrightarrow> 128 \<le> unat v) \<and> (128 \<le> unat (cpu_a c) \<longleftrightarrow> \<not> 128 \<le> n mod 256)"
    by (auto simp: bit_and_iff bit_not_iff bit_xor_iff bit_ucast_iff rb simp flip: bit_7)
  also have "\<dots> \<longleftrightarrow> m < - 128 \<or> 127 < m"
    unfolding m_def n_def sint_u8
    by (rule overflow_arith) (use k unsigned_less [where 'a = nat, of "cpu_a c"] unsigned_less [where 'a = nat, of v] in simp_all)
  finally show "check_flag ps_OVERFLOW (alu_add v c) \<longleftrightarrow> m < - 128 \<or> 127 < m" .
qed

end
