(* ===== verification/Cpu_Frame.thy ===== *)
theory Cpu_Frame
  imports Cpu_Safety Cpu_Facts
begin

text \<open>
  What a program on the 6502 can rely on: the cycles, the reads and the DMA transfers that
  happen while an instruction runs leave the registers and the internal RAM alone, so that
  the stack gives back what was pushed.
\<close>

declare One_nat_def [simp del]

section \<open>The state a program sees\<close>

definition regs :: "cpu \<Rightarrow> cpu" where
  "regs c = cpu0\<lparr>cpu_pc := cpu_pc c, cpu_sp := cpu_sp c, cpu_a := cpu_a c, cpu_x := cpu_x c, cpu_y := cpu_y c,
     cpu_ps := cpu_ps c, cpu_operand := cpu_operand c, cpu_inst_addr_mode := cpu_inst_addr_mode c\<rparr>"

lemma regs_read [simp]:
  "cpu_pc (regs c) = cpu_pc c" "cpu_sp (regs c) = cpu_sp c" "cpu_a (regs c) = cpu_a c" "cpu_x (regs c) = cpu_x c"
  "cpu_y (regs c) = cpu_y c" "cpu_ps (regs c) = cpu_ps c" "cpu_operand (regs c) = cpu_operand c"
  by (simp_all add: regs_def)

lemma regs_write [simp]:
  "regs (c\<lparr>cpu_pc := w\<rparr>) = (regs c)\<lparr>cpu_pc := w\<rparr>" "regs (c\<lparr>cpu_sp := b\<rparr>) = (regs c)\<lparr>cpu_sp := b\<rparr>"
  "regs (c\<lparr>cpu_ps := b\<rparr>) = (regs c)\<lparr>cpu_ps := b\<rparr>" "regs (c\<lparr>cpu_need_nmi := f\<rparr>) = regs c"
  by (simp_all add: regs_def)

lemma regsD:
  assumes "regs c = d"
  shows "cpu_pc c = cpu_pc d" "cpu_sp c = cpu_sp d" "cpu_a c = cpu_a d" "cpu_x c = cpu_x d" "cpu_y c = cpu_y d"
    "cpu_ps c = cpu_ps d" "cpu_operand c = cpu_operand d"
  using assms by auto

abbreviation ram_of :: "nes \<Rightarrow> u8 list" where
  "ram_of s \<equiv> mm_internal_ram (n_mem s)"

text \<open>
  \<open>steady s t\<close>: \<open>t\<close> is a sound state with the registers, the RAM and the handlers of \<open>s\<close>.
  The DMA unit writes to $2004 only; \<open>oam_port\<close> says that this is not RAM.
\<close>

definition steady :: "nes \<Rightarrow> nes \<Rightarrow> bool" where
  "steady s t \<longleftrightarrow> clock_ok t \<and> regs (n_cpu t) = regs (n_cpu s) \<and> ram_of t = ram_of s \<and> tables t = tables s"

definition oam_port :: "nes \<Rightarrow> bool" where
  "oam_port s \<longleftrightarrow> mm_write_handlers (n_mem s) 0x2004 \<noteq> H_Ram"

lemma steady_refl [simp]: "steady s s \<longleftrightarrow> clock_ok s"
  by (simp add: steady_def)

lemma steady_ok: "steady s t \<Longrightarrow> clock_ok t"
  by (simp add: steady_def)

lemma steady_trans: "steady s t \<Longrightarrow> steady t u \<Longrightarrow> steady s u"
  by (simp add: steady_def)

lemma steady_port: "steady s t \<Longrightarrow> oam_port t = oam_port s"
  by (simp add: steady_def oam_port_def)

lemma core_regs: "cpu_core c = cpu_core d \<Longrightarrow> regs c = regs d"
  using cpu_coreD [of c d] by (simp add: regs_def)

lemma steady_cpu:
  "steady s t \<Longrightarrow> regs c = regs (n_cpu t) \<Longrightarrow> cpu_time c = cpu_time (n_cpu t) \<Longrightarrow> steady s (t\<lparr>n_cpu := c\<rparr>)"
  by (simp add: steady_def clock_ok_cpu)

lemma steady_do:
  "steady s t \<Longrightarrow> regs (f (n_cpu t)) = regs (n_cpu t) \<Longrightarrow> cpu_time (f (n_cpu t)) = cpu_time (n_cpu t) \<Longrightarrow>
   steady s (cpu_do f t)"
  by (simp add: cpu_do_def steady_cpu)

lemma stays_clock_ok: "clock_ok s \<Longrightarrow> stays s t \<Longrightarrow> clock_ok t"
  using half_clock_stays core_time [of "n_cpu t" "n_cpu s"]
  by (auto simp: clock_ok_def stays_def in_step_def time_of_def cpu_time_def)

lemma steady_stays:
  "steady s t \<Longrightarrow> stays t u \<Longrightarrow> ram_of u = ram_of t \<Longrightarrow> steady s u"
  using stays_clock_ok [of t u] core_regs [of "n_cpu u" "n_cpu t"] by (simp add: steady_def stays_def)

section \<open>Cycles\<close>

lemma run_ppu_mem: "run_ppu s = Some t \<Longrightarrow> n_mem t = n_mem s"
  by (auto simp: run_ppu_def bind_eq_Some_conv with_ppu_bus_def)

lemma process_clock_mem: "process_cpu_clock E s = Some t \<Longrightarrow> n_mem t = n_mem s"
  by (auto simp: process_cpu_clock_def bind_eq_Some_conv with_apu_bus_def Let_def split: prod.splits)

lemma run_regs:
  assumes "clock_ok s" "regs c = regs (n_cpu s)" "cpu_ppu_offset c = cpu_ppu_offset (n_cpu s)"
    and "cpu_master_clock c \<le> cpu_master_clock (n_cpu s) + 256" "run_ppu (s\<lparr>n_cpu := c\<rparr>) = Some t"
  shows "steady s t"
proof -
  have "ok (run_ppu (s\<lparr>n_cpu := c\<rparr>)) (\<lambda>t. clock_ok t \<and> cpu_quiet (n_cpu t) = cpu_quiet c)"
    by (rule ok_mono [OF run_ppu_ok]) (use assms(1-4) in \<open>auto simp: clock_ok_def in_step_def\<close>)
  with assms(5) have t: "clock_ok t" "cpu_quiet (n_cpu t) = cpu_quiet c" by (auto dest: ok_SomeD)
  then show ?thesis
    using assms(2) run_ppu_mem [OF assms(5)] core_regs [OF cpu_quietD(1) [OF t(2)]] by (simp add: steady_def)
qed

lemma start_steady:
  assumes "start_cpu_cycle E r s = Some t" "clock_ok s"
  shows "steady s t"
proof -
  define k where "k = nat (int (cpu_master_clock (n_cpu s)) +
    (if r then int (unat (cpu_start_clock_count (n_cpu s))) - 1 else int (unat (cpu_start_clock_count (n_cpu s))) + 1))"
  have k: "k \<le> cpu_master_clock (n_cpu s) + 256" unfolding k_def by (rule clock_bound)
  from assms(1) obtain u where u: "run_ppu (s\<lparr>n_cpu := (n_cpu s)\<lparr>cpu_master_clock := k,
      cpu_cycle_count := cpu_cycle_count (n_cpu s) + 1\<rparr>\<rparr>) = Some u" "process_cpu_clock E u = Some t"
    unfolding start_cpu_cycle_def cpu_do_def bind_eq_Some_conv Let_def k_def by blast
  have su: "steady s u" by (rule run_regs [OF assms(2) _ _ _ u(1)]) (use k in \<open>simp_all add: regs_def\<close>)
  then have "ok (process_cpu_clock E u) (moves u)"
    using process_cpu_clock_ok  by (simp add: steady_def clock_ok_def)
  then have "stays u t" using u(2) by (auto dest: ok_SomeD moves_stays)
  with su show ?thesis using process_clock_mem [OF u(2)] by (simp add: steady_stays)
qed

lemma end_steady:
  assumes "end_cpu_cycle r s = Some t" "clock_ok s"
  shows "steady s t"
proof -
  define k where "k = nat (int (cpu_master_clock (n_cpu s)) +
    (if r then int (unat (cpu_end_clock_count (n_cpu s))) + 1 else int (unat (cpu_end_clock_count (n_cpu s))) - 1))"
  have k: "k \<le> cpu_master_clock (n_cpu s) + 256" unfolding k_def by (rule clock_bound)
  from assms(1) obtain u where u: "run_ppu (s\<lparr>n_cpu := (n_cpu s)\<lparr>cpu_master_clock := k\<rparr>\<rparr>) = Some u"
    "t = cpu_do sample_interrupts u"
    unfolding end_cpu_cycle_def cpu_do_def bind_eq_Some_conv Let_def option.inject k_def by blast
  have "steady s u" by (rule run_regs [OF assms(2) _ _ _ u(1)]) (use k in \<open>simp_all add: regs_def\<close>)
  then show ?thesis unfolding u(2) by (rule steady_do) (simp_all add: regs_def sample_interrupts_def Let_def cpu_time_def)
qed

section \<open>Memory accesses\<close>

lemma handler_read_mem:
  "handler_read h addr s = Some (v, t) \<Longrightarrow> n_mem t = n_mem s"
  by (cases h) (auto simp: open_bus_read_def ram_read_def ppu_dev_read_def apu_dev_read_def control_dev_read_def
      mapper_dev_read_def with_ppu_bus_def with_apu_bus_def bind_eq_Some_conv split: prod.splits)

lemma handler_write_mem:
  "handler_write h addr v s = Some t \<Longrightarrow> h \<noteq> H_Ram \<Longrightarrow> n_mem t = n_mem s"
  by (cases h) (auto simp: open_bus_write_def ppu_dev_write_def apu_dev_write_def control_dev_write_def
      mapper_dev_write_def with_ppu_bus_def with_apu_bus_def split: prod.splits)

lemma ram_open_bus [simp]: "mm_internal_ram (memory_set_open_bus v b m) = mm_internal_ram m"
  by (simp add: memory_set_open_bus_def)

lemma memory_read_steady:
  assumes "memory_read addr t = Some (v, u)" "steady s t"
  shows "steady s u"
proof -
  from assms(1) have "ram_of u = ram_of t"
    by (auto simp: memory_read_def bind_eq_Some_conv dest!: handler_read_mem)
  moreover have "ok (memory_read addr t) (\<lambda>(v, u). moves t u)"
    using assms(2) by (intro memory_read_ok) (simp add: steady_def clock_ok_def)
  then have "stays t u" using assms(1) by (simp add: moves_stays)
  ultimately show ?thesis using assms(2) by (simp add: steady_stays)
qed

lemma memory_write_steady:
  assumes "memory_write addr v t = Some u" "steady s t" "mm_write_handlers (n_mem t) addr \<noteq> H_Ram"
  shows "steady s u"
proof -
  from assms(1,3) have "ram_of u = ram_of t"
    by (auto simp: memory_write_def bind_eq_Some_conv dest!: handler_write_mem)
  moreover have "ok (memory_write addr v t) (stays t)"
    using assms(2) by (intro memory_write_ok) (simp add: steady_def clock_ok_def)
  then have "stays t u" using assms(1) by simp
  ultimately show ?thesis using assms(2) by (simp add: steady_stays)
qed

text \<open>The steps in the form that chains: from a state steady since \<open>s\<close> to the next.\<close>

lemma steady_start:
  "start_cpu_cycle E r t = Some u \<Longrightarrow> steady s t \<Longrightarrow> steady s u"
  by (blast intro: steady_trans start_steady steady_ok)

lemma steady_end: "end_cpu_cycle r t = Some u \<Longrightarrow> steady s t \<Longrightarrow> steady s u"
  by (blast intro: steady_trans end_steady steady_ok)

lemma steady_process_dma_read:
  assumes "process_dma_read internal prev addr t = Some (v, q, u)" "steady s t"
  shows "steady s u"
  using assms unfolding process_dma_read_def Let_def
  by (auto simp: bind_eq_Some_conv split: if_split_asm dest: memory_read_steady)

lemma steady_process_cycle: "steady s t \<Longrightarrow> steady s (cpu_do dma_process_cycle t)"
  by (rule steady_do, assumption, simp add: regs_def dma_process_cycle_def, simp)

lemma steady_flags:
  assumes "steady s t"
  shows "steady s (cpu_do (\<lambda>c. c\<lparr>cpu_is_dmc_dma_read := b\<rparr>) t)"
    "steady s (cpu_do (\<lambda>c. c\<lparr>cpu_dmc_dma_running := b, cpu_abort_dmc_dma := b'\<rparr>) t)"
    "steady s (cpu_do (\<lambda>c. c\<lparr>cpu_sprite_dma_transfer := b\<rparr>) t)"
    "steady s (cpu_do (\<lambda>c. c\<lparr>cpu_need_dummy_read := b\<rparr>) t)"
    "steady s (cpu_do (\<lambda>c. c\<lparr>cpu_need_halt := b\<rparr>) t)"
    "steady s (cpu_do (\<lambda>c. c\<lparr>cpu_write_cycle := b\<rparr>) t)"
  by (rule steady_do [OF assms]; simp add: regs_def cpu_time_def)+

lemma steady_dmc_buffer:
  assumes "steady s t" "apu_set_dmc_read_buffer v (n_apu t, n_cpu t) = (a, c)"
  shows "steady s (t\<lparr>n_apu := a, n_cpu := c\<lparr>cpu_is_dmc_dma_read := False\<rparr>\<rparr>)"
proof -
  have n: "clock_ok t" using assms(1) by (rule steady_ok)
  then have "apu_ok a (n_mixer t)"
    using apu_set_dmc_read_buffer_ok [OF _ assms(2)] by (simp add: nes_ok_def clock_ok_def)
  with n have ok: "nes_ok (t\<lparr>n_apu := a, n_cpu := c'\<rparr>)" for c'
    by (simp add: nes_ok_def ppu_bus_of_def bus_ok_def clock_ok_def)
  have "cpu_quiet c = cpu_quiet (n_cpu t)"
    using assms(2) by (auto simp: apu_set_dmc_read_buffer_def split: prod.splits dest: set_dmc_read_buffer_cpu)
  then have k: "cpu_core c = cpu_core (n_cpu t)" by (rule cpu_quietD)
  then have "cpu_time c = cpu_time (n_cpu t)" "regs c = regs (n_cpu t)" by (rule core_time, rule core_regs)
  with ok n assms(1) show ?thesis
    by (simp add: steady_def clock_ok_def in_step_def cpu_time_def regs_def)
qed

lemma steady_round:
  assumes "dma_round E addr internal (d, t) = Some (d', u)" "steady s t" "oam_port s"
  shows "steady s u"
proof -
  have wr: "mm_write_handlers (n_mem w) 0x2004 \<noteq> H_Ram" if "steady s w" for w
    using assms(3) that by (simp add: oam_port_def steady_def)
  note on = steady_start [OF _ steady_process_cycle [OF assms(2)]]
  have wait: "steady s u" if "dma_wait E addr d t = Some (d', u)"
  proof -
    from that obtain w x v where w: "start_cpu_cycle E True (cpu_do dma_process_cycle t) = Some w"
      "x = w \<or> memory_read addr w = Some (v, x)" "end_cpu_cycle True x = Some u"
      by (auto simp: dma_wait_def bind_eq_Some_conv split: if_split_asm)
    then show ?thesis using on [OF w(1)] memory_read_steady steady_end [OF w(3)] by blast
  qed
  have sr: "steady s u" if "dma_sprite_read E internal d t = Some (d', u)"
  proof -
    from that obtain w v p a x where w: "start_cpu_cycle E True (cpu_do dma_process_cycle t) = Some w"
      "process_dma_read internal (dma_prev_read_address d) a w = Some (v, p, x)" "end_cpu_cycle True x = Some u"
      by (auto simp: dma_sprite_read_def bind_eq_Some_conv)
    then show ?thesis using on [OF w(1)] steady_process_dma_read [OF w(2)] steady_end [OF w(3)] by blast
  qed
  have sw: "steady s u" if "dma_sprite_write E d t = Some (d', u)"
  proof -
    from that obtain w x y where w: "start_cpu_cycle E True (cpu_do dma_process_cycle t) = Some w"
      "memory_write 0x2004 (dma_read_value d) w = Some x" "end_cpu_cycle True x = Some y"
      "u = y \<or> u = cpu_do (\<lambda>c. c\<lparr>cpu_sprite_dma_transfer := False\<rparr>) y"
      by (auto simp: dma_sprite_write_def bind_eq_Some_conv Let_def split: if_split_asm)
    have "steady s w" using on [OF w(1)] .
    then have "steady s y" using memory_write_steady [OF w(2)] wr steady_end [OF w(3)] by blast
    then show ?thesis using w(4) steady_flags(3) by blast
  qed
  have dm: "steady s u" if "dma_dmc_cycle E internal d t = Some (d', u)"
  proof -
    from that obtain w v p x y where w: "start_cpu_cycle E True (cpu_do dma_process_cycle t) = Some w"
      "process_dma_read internal (dma_prev_read_address d)
        (apu_get_dmc_read_address (n_apu w)) (cpu_do (\<lambda>c. c\<lparr>cpu_is_dmc_dma_read := True\<rparr>) w) = Some (v, p, x)"
      "end_cpu_cycle True (x\<lparr>n_apu := fst (apu_set_dmc_read_buffer v (n_apu x, n_cpu x)),
        n_cpu := (snd (apu_set_dmc_read_buffer v (n_apu x, n_cpu x)))\<lparr>cpu_is_dmc_dma_read := False\<rparr>\<rparr>) = Some y"
      "u = cpu_do (\<lambda>c. c\<lparr>cpu_dmc_dma_running := False, cpu_abort_dmc_dma := False\<rparr>) y"
      by (auto simp: dma_dmc_cycle_def bind_eq_Some_conv Let_def case_prod_beta apu_get_dmc_read_address_def)
    have "steady s w" using on [OF w(1)] .
    then have "steady s x" using steady_process_dma_read [OF w(2)] steady_flags(1) by blast
    then show ?thesis
      using steady_end [OF w(3)] steady_dmc_buffer [OF _ surjective_pairing] steady_flags(2) w(4) by blast
  qed
  show ?thesis
    using assms(1) wait sr sw dm by (simp add: dma_round_def Let_def split: if_split_asm)
qed

lemma steady_loop:
  assumes "dma_loop E addr t = Some u" "steady s t" "oam_port s"
  shows "steady s u"
proof -
  from assms(1) obtain d where w: "while_loop (\<lambda>(d, s). cpu_dmc_dma_running (n_cpu s) \<or> cpu_sprite_dma_transfer (n_cpu s))
      (dma_round E addr (addr AND 0xFFE0 = 0x4000))
      (\<lparr>dma_sprite_counter = 0, dma_sprite_read_addr = 0, dma_read_value = 0, dma_prev_read_address = addr\<rparr>, t) = Some (d, u)"
    by (auto simp: dma_loop_def)
  have "steady s (snd (d, u))"
  proof (rule while_loop_inv [OF w, where I = "\<lambda>ds. steady s (snd ds)"])
    fix ds ds' assume "steady s (snd ds)" "dma_round E addr (addr AND 0xFFE0 = 0x4000) ds = Some ds'"
    then show "steady s (snd ds')"
      using steady_round [of E addr _ "fst ds" "snd ds" "fst ds'" "snd ds'"] assms(3) by simp
  qed (use assms(2) in simp)
  then show ?thesis by simp
qed

lemma steady_pending:
  assumes "process_pending_dma E addr t = Some u" "steady s t" "oam_port s"
  shows "steady s u"
proof -
  have halt: "steady s v" if h: "dma_halt E addr t = Some v" for v
  proof -
    from h obtain w x b where w: "start_cpu_cycle E True (cpu_do (\<lambda>c. c\<lparr>cpu_need_halt := False\<rparr>) t) = Some w"
      "x = w \<or> memory_read addr w = Some (b, x)" "end_cpu_cycle True x = Some v"
      by (auto simp: dma_halt_def bind_eq_Some_conv Let_def split: if_split_asm)
    have "steady s w" using steady_start [OF w(1) steady_flags(5) [OF assms(2)]] .
    then show ?thesis using w(2) memory_read_steady steady_end [OF w(3)] by blast
  qed
  have loop: "steady s u" if "dma_loop E addr v = Some u" "steady s v" for v
    by (rule steady_loop [OF that assms(3)])
  show ?thesis
    using assms(1,2) halt loop steady_flags(2,4) unfolding process_pending_dma_def Let_def
    by (auto simp: bind_eq_Some_conv split: if_split_asm)
qed

section \<open>The accesses of an instruction\<close>

text \<open>\<open>agrees r xs s t\<close>: since \<open>s\<close>, the registers have become \<open>r\<close> and the RAM \<open>xs\<close>.\<close>

definition agrees :: "cpu \<Rightarrow> u8 list \<Rightarrow> nes \<Rightarrow> nes \<Rightarrow> bool" where
  "agrees r xs s t \<longleftrightarrow> clock_ok t \<and> regs (n_cpu t) = r \<and> ram_of t = xs \<and> tables t = tables s"

lemma steady_agrees: "steady s t \<longleftrightarrow> agrees (regs (n_cpu s)) (ram_of s) s t"
  by (simp add: steady_def agrees_def)

lemma agrees_ok: "agrees r xs s t \<Longrightarrow> clock_ok t"
  by (simp add: agrees_def)

lemma memory_read_ram:
  assumes "memory_read addr s = Some (v, t)" "mm_read_handlers (n_mem s) addr = H_Ram"
    "length (ram_of s) = 0x800"
  shows "v = ram_of s ! unat (addr AND 0x7FF)"
  using assms ram_index [of addr] by (auto simp: memory_read_def ram_read_def bind_eq_Some_conv)

lemma read_frame:
  assumes c: "clock_ok s" and p: "oam_port s"
  shows "ok (cpu_memory_read E addr s) (\<lambda>(v, t). steady s t \<and>
    (mm_read_handlers (n_mem s) addr = H_Ram \<longrightarrow> v = ram_of s ! unat (addr AND 0x7FF)))"
proof -
  obtain v t where r: "cpu_memory_read E addr s = Some (v, t)"
    using cpu_memory_read_ok [OF c, of E addr] by (auto simp: ok_iff)
  then obtain a b d where w: "process_pending_dma E addr s = Some a" "start_cpu_cycle E True a = Some b"
    "memory_read addr b = Some (v, d)" "end_cpu_cycle True d = Some t"
    by (auto simp: cpu_memory_read_def bind_eq_Some_conv)
  have "steady s a" using steady_pending [OF w(1) _ p] c by simp
  from steady_start [OF w(2) this] have b: "steady s b" .
  have t: "steady s t" using steady_end [OF w(4) memory_read_steady [OF w(3) b]] .
  have "length (ram_of b) = 0x800" using steady_ok [OF b] by (simp add: clock_ok_def nes_ok_def)
  with memory_read_ram [OF w(3)] b have "mm_read_handlers (n_mem s) addr = H_Ram \<longrightarrow> v = ram_of s ! unat (addr AND 0x7FF)"
    by (simp add: steady_def)
  with r t show ?thesis by simp
qed

lemma write_frame:
  assumes c: "clock_ok s" and h: "mm_write_handlers (n_mem s) addr = H_Ram"
  shows "ok (cpu_memory_write E addr v s)
    (agrees (regs (n_cpu s)) ((ram_of s)[unat (addr AND 0x7FF) := v]) s)"
proof -
  obtain t where r: "cpu_memory_write E addr v s = Some t"
    using cpu_memory_write_ok [OF c, of E addr v] by (auto simp: ok_iff)
  then obtain a b d where w: "start_cpu_cycle E False (cpu_do (\<lambda>c. c\<lparr>cpu_write_cycle := True\<rparr>) s) = Some a"
    "memory_write addr v a = Some b" "end_cpu_cycle False b = Some d" "t = cpu_do (\<lambda>c. c\<lparr>cpu_write_cycle := False\<rparr>) d"
    by (auto simp: cpu_memory_write_def bind_eq_Some_conv)
  have a: "steady s a" by (rule steady_start [OF w(1) steady_flags(6)]) (simp add: c)
  have "ok (memory_write addr v a) (stays a)"
    using steady_ok [OF a] by (intro memory_write_ok) (simp add: clock_ok_def)
  then have st: "stays a b" using w(2) by simp
  have "ram_of b = (ram_of s)[unat (addr AND 0x7FF) := v]"
    using w(2) h a ram_index [of addr] steady_ok [OF a]
    by (auto simp: memory_write_def ram_write_def bind_eq_Some_conv steady_def clock_ok_def nes_ok_def wr_def split: if_splits)
  moreover have "regs (n_cpu b) = regs (n_cpu s)" "tables b = tables s"
    using st a core_regs [of "n_cpu b" "n_cpu a"] by (simp_all add: stays_def steady_def)
  moreover have "steady b t"
    unfolding w(4) by (rule steady_flags(6) [OF end_steady [OF w(3) stays_clock_ok [OF steady_ok [OF a] st]]])
  ultimately have "agrees (regs (n_cpu s)) ((ram_of s)[unat (addr AND 0x7FF) := v]) s t"
    by (simp add: agrees_def steady_def)
  with r show ?thesis by simp
qed

section \<open>The stack\<close>

text \<open>Both tables map the page $0100-$01FF to the internal RAM.\<close>

definition stack_in_ram :: "nes \<Rightarrow> bool" where
  "stack_in_ram s \<longleftrightarrow> (\<forall>b :: u8. mm_read_handlers (n_mem s) (0x100 + ucast b) = H_Ram \<and>
     mm_write_handlers (n_mem s) (0x100 + ucast b) = H_Ram)"

text \<open>What the chains below rest on: the port of the sprite DMA, the stack page.\<close>

definition program_env :: "nes \<Rightarrow> bool" where
  "program_env s \<longleftrightarrow> oam_port s \<and> stack_in_ram s"

lemma stack_addr: "unat (0x100 + ucast (b :: u8) :: u16) = 0x100 + unat b"
proof -
  have "unat b < 256" using unsigned_less [where 'a = nat, of b] by simp
  then have "unat b < 2 ^ 16" by (rule order_less_trans) simp
  then have "take_bit 16 (unat b) = unat b" by (rule take_bit_nat_eq_self)
  then have "unat (ucast b :: u16) = unat b" by (simp add: unsigned_ucast_eq)
  moreover have "(256 + unat b) mod 65536 = 256 + unat b"
    by (rule mod_less) (use \<open>unat b < 256\<close> in linarith)
  ultimately show ?thesis by (simp add: unat_word_ariths)
qed

lemma stack_index: "unat ((0x100 + ucast (b :: u8) :: u16) AND 0x7FF) = 0x100 + unat b"
proof -
  have b: "unat b < 256" using unsigned_less [where 'a = nat, of b] by simp
  have "(0x7FF :: u16) = mask 11" by (simp add: mask_eq_exp_minus_1)
  then have "unat ((0x100 + ucast b :: u16) AND 0x7FF) = take_bit 11 (0x100 + unat b)"
    by (simp only: take_bit_eq_mask [symmetric] unsigned_take_bit_eq stack_addr)
  moreover have "take_bit 11 (0x100 + unat b) = 0x100 + unat b"
    by (rule take_bit_nat_eq_self, rule order_less_trans [OF add_strict_left_mono [OF b]]) simp
  ultimately show ?thesis by simp
qed

lemma agrees_env: "agrees r xs s t \<Longrightarrow> program_env t = program_env s"
  by (simp add: agrees_def program_env_def oam_port_def stack_in_ram_def)

lemma agrees_step: "agrees r xs s t \<Longrightarrow> agrees r' xs' t u \<Longrightarrow> agrees r' xs' s u"
  by (simp add: agrees_def)

lemma agrees_read:
  assumes "agrees r xs s t" "program_env s"
  shows "ok (cpu_memory_read E addr t) (\<lambda>(v, u). agrees r xs s u \<and>
    (mm_read_handlers (n_mem s) addr = H_Ram \<longrightarrow> v = xs ! unat (addr AND 0x7FF)))"
proof -
  have "program_env t" using assms by (simp add: agrees_env)
  then have "ok (cpu_memory_read E addr t) (\<lambda>(v, u). steady t u \<and>
      (mm_read_handlers (n_mem t) addr = H_Ram \<longrightarrow> v = ram_of t ! unat (addr AND 0x7FF)))"
    using agrees_ok [OF assms(1)] by (intro read_frame) (simp_all add: program_env_def)
  then show ?thesis
    by (rule ok_mono) (use assms(1) in \<open>auto simp: steady_def agrees_def\<close>)
qed

lemma agrees_write:
  assumes "agrees r xs s t" "program_env s" "mm_write_handlers (n_mem s) addr = H_Ram"
  shows "ok (cpu_memory_write E addr v t) (agrees r (xs[unat (addr AND 0x7FF) := v]) s)"
proof -
  have "ok (cpu_memory_write E addr v t) (agrees (regs (n_cpu t)) ((ram_of t)[unat (addr AND 0x7FF) := v]) t)"
    using assms agrees_ok [OF assms(1)] by (intro write_frame) (simp_all add: program_env_def agrees_def)
  then show ?thesis
    by (rule ok_mono) (use assms(1) in \<open>auto simp: agrees_def\<close>)
qed

lemma agrees_do:
  "agrees r xs s t \<Longrightarrow> cpu_time (f (n_cpu t)) = cpu_time (n_cpu t) \<Longrightarrow> agrees (regs (f (n_cpu t))) xs s (cpu_do f t)"
  by (simp add: agrees_def cpu_do_def clock_ok_cpu)

lemma agrees_regs: "agrees r xs s t \<Longrightarrow> regs (n_cpu t) = r"
  by (simp add: agrees_def)

lemma agrees_sp: "agrees r xs s t \<Longrightarrow> cpu_sp (n_cpu t) = cpu_sp r"
  by (auto simp: agrees_def)

lemma agrees_pc: "agrees r xs s t \<Longrightarrow> cpu_pc (n_cpu t) = cpu_pc r"
  by (auto simp: agrees_def)

lemma agrees_ps: "agrees r xs s t \<Longrightarrow> cpu_ps (n_cpu t) = cpu_ps r"
  by (auto simp: agrees_def)

lemma agrees_set:
  assumes "agrees r xs s t"
  shows "agrees (r\<lparr>cpu_sp := b\<rparr>) xs s (cpu_do (\<lambda>c. c\<lparr>cpu_sp := b\<rparr>) t)"
    "agrees (r\<lparr>cpu_pc := w\<rparr>) xs s (cpu_do (\<lambda>c. c\<lparr>cpu_pc := w\<rparr>) t)"
    "agrees (r\<lparr>cpu_ps := b\<rparr>) xs s (cpu_do (\<lambda>c. c\<lparr>cpu_ps := b\<rparr>) t)"
    "agrees r xs s (cpu_do (\<lambda>c. c\<lparr>cpu_need_nmi := f\<rparr>) t)"
  using agrees_do [OF assms, of "\<lambda>c. c\<lparr>cpu_sp := b\<rparr>"] agrees_do [OF assms, of "\<lambda>c. c\<lparr>cpu_pc := w\<rparr>"]
    agrees_do [OF assms, of "\<lambda>c. c\<lparr>cpu_ps := b\<rparr>"] agrees_do [OF assms, of "\<lambda>c. c\<lparr>cpu_need_nmi := f\<rparr>"]
  by (simp_all add: agrees_regs [OF assms] cpu_time_def)

lemma do_const: "cpu_do f t = cpu_do (\<lambda>_. f (n_cpu t)) t"
  by (simp add: cpu_do_def)

lemma agrees_push:
  assumes "agrees r xs s t" "program_env s"
  shows "ok (cpu_push E v t) (agrees (r\<lparr>cpu_sp := cpu_sp r - 1\<rparr>) (xs[0x100 + unat (cpu_sp r) := v]) s)"
proof -
  have "ok (cpu_memory_write E (0x100 + ucast (cpu_sp r)) v t) (agrees r (xs[0x100 + unat (cpu_sp r) := v]) s)"
    using agrees_write [OF assms, of "0x100 + ucast (cpu_sp r)" E v] assms(2)
    by (simp add: stack_index program_env_def stack_in_ram_def)
  then show ?thesis
    unfolding cpu_push_def agrees_sp [OF assms(1)]
  proof (rule ok_bindI)
    fix u assume u: "agrees r (xs[0x100 + unat (cpu_sp r) := v]) s u"
    have "cpu_do (\<lambda>c. c\<lparr>cpu_sp := cpu_sp c - 1\<rparr>) u = cpu_do (\<lambda>c. c\<lparr>cpu_sp := cpu_sp r - 1\<rparr>) u"
      by (simp add: cpu_do_def agrees_sp [OF u])
    with agrees_set(1) [OF u] show "ok (Some (cpu_do (\<lambda>c. c\<lparr>cpu_sp := cpu_sp c - 1\<rparr>) u))
        (agrees (r\<lparr>cpu_sp := cpu_sp r - 1\<rparr>) (xs[0x100 + unat (cpu_sp r) := v]) s)" by simp
  qed
qed

lemma agrees_pop:
  assumes "agrees r xs s t" "program_env s"
  shows "ok (cpu_pop E t) (\<lambda>(v, u). agrees (r\<lparr>cpu_sp := cpu_sp r + 1\<rparr>) xs s u \<and> v = xs ! (0x100 + unat (cpu_sp r + 1)))"
proof -
  have d: "cpu_do (\<lambda>c. c\<lparr>cpu_sp := cpu_sp c + 1\<rparr>) t = cpu_do (\<lambda>c. c\<lparr>cpu_sp := cpu_sp r + 1\<rparr>) t"
    by (simp add: cpu_do_def agrees_sp [OF assms(1)])
  have "mm_read_handlers (n_mem s) (0x100 + ucast (cpu_sp r + 1)) = H_Ram"
    using assms(2) unfolding program_env_def stack_in_ram_def by blast
  with agrees_read [OF agrees_set(1) [OF assms(1)] assms(2), of E "0x100 + ucast (cpu_sp r + 1)" "cpu_sp r + 1"]
  show ?thesis unfolding cpu_pop_def d Let_def stack_index by (auto elim!: ok_mono)
qed

lemma agrees_dummy: "agrees r xs s t \<Longrightarrow> program_env s \<Longrightarrow> ok (dummy_read E t) (agrees r xs s)"
  unfolding dummy_read_def ok_map_option by (rule ok_mono [OF agrees_read]) auto

lemma agrees_byte:
  assumes "agrees r xs s t" "program_env s"
  shows "ok (read_byte E t) (\<lambda>(v, u). agrees (r\<lparr>cpu_pc := cpu_pc r + 1\<rparr>) xs s u)"
  unfolding read_byte_def
proof (rule ok_bindI [OF agrees_read [OF assms]], clarify)
  fix v u assume u: "agrees r xs s u"
  have "cpu_do (\<lambda>c. c\<lparr>cpu_pc := cpu_pc c + 1\<rparr>) u = cpu_do (\<lambda>c. c\<lparr>cpu_pc := cpu_pc r + 1\<rparr>) u"
    by (simp add: cpu_do_def agrees_pc [OF u])
  with agrees_set(2) [OF u] show "ok (Some (v, cpu_do (\<lambda>c. c\<lparr>cpu_pc := cpu_pc c + 1\<rparr>) u))
      (\<lambda>(v, u). agrees (r\<lparr>cpu_pc := cpu_pc r + 1\<rparr>) xs s u)" by simp
qed

end
