(* ===== verification/Console_Facts.thy ===== *)
theory Console_Facts
  imports Console Cpu_Frame Apu_Properties
begin

text \<open>
  A machine that the console builds from a complete ROM image satisfies the invariant of the
  whole machine, and its address space is decoded as the registrations say. Frames end.
\<close>

section \<open>The RAM of a cartridge\<close>

definition rams :: "mapper \<Rightarrow> u8 list \<times> u8 list \<times> u32 \<times> u32 \<times> rom_info" where
  "rams m = (m_work_ram m, m_save_ram m, m_work_ram_size m, m_save_ram_size m, m_rom_info m)"

lemma rams_upd [simp]:
  "rams (m\<lparr>m_chip := k\<rparr>) = rams m" "rams (m\<lparr>m_own_ram := xs\<rparr>) = rams m"
  "rams (m\<lparr>m_mirroring_type := t\<rparr>) = rams m" "rams (m\<lparr>m_prg_pages := f\<rparr>) = rams m"
  "rams (m\<lparr>m_has_bus_conflicts := b\<rparr>) = rams m"
  by (simp_all add: rams_def)

lemma rams_map [simp]:
  "rams (map_cpu_source s e p off acc m) = rams m" "rams (map_ppu_source s e p off n acc m) = rams m"
  "rams (map_ppu_offset s e t off acc m) = rams m" "rams (initialize_chr_ram k m) = rams m"
  "rams (add_register_range s e o1 m) = rams m" "rams (set_has_bus_conflicts b m) = rams m"
  by (cases t; simp add: rams_def map_cpu_source_def map_ppu_source_def map_ppu_offset_def
      initialize_chr_ram_def add_register_range_def set_has_bus_conflicts_def Let_def)+

lemma rams_select [simp]:
  "rams (map_ppu_page s e n t acc m) = rams m" "rams (select_chr_page slot page t m) = rams m"
  "rams (set_nametable i j m) = rams m" "rams (set_mirroring_type mt m) = rams m"
  "rams (mmc3_update_mirroring c m) = rams m"
proof -
  show ppu: "rams (map_ppu_page s e n t acc m) = rams m" for s e n t acc and m :: mapper
    by (simp add: map_ppu_page_def Let_def split: chr_memory_type.splits)
  show "rams (select_chr_page slot page t m) = rams m" by (simp add: select_chr_page_def Let_def ppu)
  show nt: "rams (set_nametable i j m) = rams m" for i j and m :: mapper
    by (simp add: set_nametable_def Let_def)
  show mt: "rams (set_mirroring_type mt m) = rams m" for mt
    by (cases mt) (simp_all add: set_mirroring_type_def Let_def nt)
  show "rams (mmc3_update_mirroring c m) = rams m" by (simp add: mmc3_update_mirroring_def mt)
qed

lemma rams_page:
  "map_cpu_page s e n acc m = Some m' \<Longrightarrow> rams m' = rams m"
  by (auto simp: map_cpu_page_def Let_def bind_eq_Some_conv)

lemma rams_prg: "select_prg_page slot page m = Some m' \<Longrightarrow> rams m' = rams m"
  by (auto simp: select_prg_page_def Let_def bind_eq_Some_conv dest!: rams_page)

lemma rams_chr_pages [simp]: "rams (select_chr_pages ps m) = rams m"
proof -
  have "rams (foldl (\<lambda>m (slot, page). select_chr_page slot (ucast (page :: u8)) CHR_DEFAULT m) m xs) = rams m" for xs
    by (induction xs arbitrary: m) (simp_all split: prod.splits)
  then show ?thesis by (simp add: select_chr_pages_def)
qed

lemma rams_mmc1: "mmc1_update_state c m = Some m' \<Longrightarrow> rams m' = rams m"
  by (auto simp: mmc1_update_state_def Let_def bind_eq_Some_conv split: if_splits dest!: rams_prg)

lemma rams_mmc3: "mmc3_update_state c m = Some m' \<Longrightarrow> rams m' = rams m"
  by (auto simp: mmc3_update_state_def mmc3_update_prg_mapping_def mmc3_update_chr_mapping_def Let_def
      bind_eq_Some_conv split: if_splits dest!: rams_prg)

lemma rams_mmc1_init: "mmc1_init (c, m) = Some (c', m') \<Longrightarrow> rams m' = rams m"
  by (auto simp: mmc1_init_def mmc1_process_register_write_def Let_def bind_eq_Some_conv dest!: rams_mmc1)

lemma rams_mmc3_init: "mmc3_init info (c, m) = Some (c', m') \<Longrightarrow> rams m' = rams m"
  by (auto simp: mmc3_init_def Let_def bind_eq_Some_conv dest!: rams_mmc3)

lemma mapper_init_rams:
  assumes "mapper_init info prg chr m0 = Some m"
  shows "rams m = rams (set_rom info prg chr m0)"
  using assms
  by (auto simp: mapper_init_def Let_def mapper000_init_def mapper002_init_def latch_board_init_def
      mapper007_init_def mapper007_write_register_def mapper011_init_def mapper013_init_def bind_eq_Some_conv
      split: mapper_chip.splits if_splits dest!: rams_mmc1_init rams_mmc3_init rams_prg rams_page)

section \<open>The size of the CHR RAM\<close>

definition chr_fits :: "u32 \<Rightarrow> mapper \<Rightarrow> bool" where
  "chr_fits N m \<longleftrightarrow> get_chr_ram_size (m_chip m) = N \<and> m_chr_ram_size m \<le> N"

lemma chr_fits_upd [simp]:
  "chr_fits N (m\<lparr>m_own_ram := xs\<rparr>) = chr_fits N m" "chr_fits N (m\<lparr>m_mirroring_type := t\<rparr>) = chr_fits N m"
  "chr_fits N (m\<lparr>m_prg_pages := f\<rparr>) = chr_fits N m" "chr_fits N (m\<lparr>m_has_bus_conflicts := b\<rparr>) = chr_fits N m"
  by (simp_all add: chr_fits_def)

lemma chr_fits_map [simp]:
  "chr_fits N (map_cpu_source s e p off acc m) = chr_fits N m"
  "chr_fits N (map_ppu_source s e p off n acc m) = chr_fits N m"
  "chr_fits N (map_ppu_offset s e t off acc m) = chr_fits N m"
  "chr_fits N (add_register_range s e o1 m) = chr_fits N m" "chr_fits N (set_has_bus_conflicts b m) = chr_fits N m"
  by (cases t; simp add: chr_fits_def map_cpu_source_def map_ppu_source_def map_ppu_offset_def
      add_register_range_def set_has_bus_conflicts_def Let_def)+

lemma chr_fits_ram [simp]: "chr_fits N m \<Longrightarrow> chr_fits N (initialize_chr_ram (- 1) m)"
  by (simp add: chr_fits_def initialize_chr_ram_def Let_def)

lemma chr_fits_select [simp]:
  "chr_fits N m \<Longrightarrow> chr_fits N (map_ppu_page s e n t acc m)" "chr_fits N m \<Longrightarrow> chr_fits N (select_chr_page slot page t m)"
  "chr_fits N (set_nametable i j m) = chr_fits N m" "chr_fits N (set_mirroring_type mt m) = chr_fits N m"
  "chr_fits N (mmc3_update_mirroring c m) = chr_fits N m"
proof -
  show ppu: "chr_fits N m \<Longrightarrow> chr_fits N (map_ppu_page s e n t acc m)" for s e n t acc and m :: mapper
    by (simp add: map_ppu_page_def Let_def split: chr_memory_type.splits)
  show "chr_fits N m \<Longrightarrow> chr_fits N (select_chr_page slot page t m)" by (simp add: select_chr_page_def Let_def ppu)
  show nt: "chr_fits N (set_nametable i j m) = chr_fits N m" for i j and m :: mapper
    by (simp add: set_nametable_def Let_def)
  show mt: "chr_fits N (set_mirroring_type mt m) = chr_fits N m" for mt
    by (cases mt) (simp_all add: set_mirroring_type_def Let_def nt)
  show "chr_fits N (mmc3_update_mirroring c m) = chr_fits N m" by (simp add: mmc3_update_mirroring_def mt)
qed

lemma chr_fits_page: "map_cpu_page s e n acc m = Some m' \<Longrightarrow> \<forall>N. chr_fits N m' = chr_fits N m"
  by (auto simp: map_cpu_page_def Let_def bind_eq_Some_conv)

lemma chr_fits_prg: "select_prg_page slot page m = Some m' \<Longrightarrow> \<forall>N. chr_fits N m' = chr_fits N m"
  by (auto simp: select_prg_page_def Let_def bind_eq_Some_conv dest: chr_fits_page)

lemma chr_fits_pages [simp]: "chr_fits N m \<Longrightarrow> chr_fits N (select_chr_pages ps m)"
proof -
  have "chr_fits N m \<Longrightarrow> chr_fits N (foldl (\<lambda>m (slot, page). select_chr_page slot (ucast (page :: u8)) CHR_DEFAULT m) m xs)" for xs
    by (induction xs arbitrary: m) (simp_all split: prod.splits)
  then show "chr_fits N m \<Longrightarrow> ?thesis" by (simp add: select_chr_pages_def)
qed

lemma chr_fits_mmc1: "mmc1_update_state c m = Some m' \<Longrightarrow> \<forall>N. chr_fits N m \<longrightarrow> chr_fits N m'"
  by (auto simp: mmc1_update_state_def Let_def bind_eq_Some_conv split: if_splits dest!: chr_fits_prg)

lemma chr_fits_mmc3: "mmc3_update_state c m = Some m' \<Longrightarrow> \<forall>N. chr_fits N m \<longrightarrow> chr_fits N m'"
  by (auto simp: mmc3_update_state_def mmc3_update_prg_mapping_def mmc3_update_chr_mapping_def Let_def
      bind_eq_Some_conv split: if_splits dest!: chr_fits_prg)

lemma chr_fits_mmc1_init: "mmc1_init (c, m) = Some (c', m') \<Longrightarrow> \<forall>N. chr_fits N m \<longrightarrow> chr_fits N m'"
  by (auto simp: mmc1_init_def mmc1_process_register_write_def Let_def bind_eq_Some_conv dest!: chr_fits_mmc1)

lemma chr_fits_mmc3_init: "mmc3_init info (c, m) = Some (c', m') \<Longrightarrow> \<forall>N. chr_fits N m \<longrightarrow> chr_fits N m'"
  by (auto simp: mmc3_init_def Let_def bind_eq_Some_conv dest!: chr_fits_mmc3)

lemma chr_fits_chip: "chr_fits N m \<Longrightarrow> get_chr_ram_size k = N \<Longrightarrow> chr_fits N (m\<lparr>m_chip := k\<rparr>)"
  by (simp add: chr_fits_def)

lemma ram_size_simps [simp]:
  "get_chr_ram_size (Mapper000 b) = 0x2000" "get_chr_ram_size (Mapper001 c) = 0x2000"
  "get_chr_ram_size (Mapper004 d) = 0x2000"
  by (simp_all add: get_chr_ram_size_def)

lemma chr_fits_8k: "m_chr_ram_size m \<le> 0x2000 \<Longrightarrow> get_chr_ram_size (m_chip m) = N \<Longrightarrow> chr_fits N m"
  by (auto simp: chr_fits_def get_chr_ram_size_def word_le_nat_alt split: if_splits)

lemma chr_fits_000:
  assumes "mapper000_init info m = Some m'" "chr_fits 0x2000 m"
  shows "chr_fits 0x2000 m'"
proof -
  have c: "chr_fits 0x2000 (initialize_chr_ram 0x2000 m)" if "chr_fits 0x2000 m" for m
    using that by (simp add: chr_fits_def initialize_chr_ram_def Let_def)
  have k: "chr_fits 0x2000 (m\<lparr>m_chip := Mapper000 b\<rparr>)" for b by (rule chr_fits_chip [OF assms(2)]) simp
  show ?thesis
    using assms(1) c k
    by (auto simp: mapper000_init_def Let_def bind_eq_Some_conv dest!: chr_fits_page split: if_splits)
qed

lemma mapper_init_chr_fits:
  assumes "mapper_init info prg chr m0 = Some m" "chr_fits N m0"
  shows "chr_fits N m"
proof -
  define s where "s = set_rom info prg chr m0"
  have s: "chr_fits N s" using assms(2) by (simp add: chr_fits_def set_rom_def s_def)
  have k: "get_chr_ram_size (m_chip s) = N" using s by (simp add: chr_fits_def)
  note run = assms(1) [unfolded mapper_init_def Let_def, folded s_def]
  note defs = mapper002_init_def latch_board_init_def mapper007_init_def mapper007_write_register_def
    mapper011_init_def mapper013_init_def bind_eq_Some_conv Let_def
  show ?thesis
  proof (cases "m_chip s")
    case (Mapper000 b)
    with run k s chr_fits_000 [of info s m] show ?thesis by simp
  next
    case (Mapper001 c)
    with run obtain c' m' where m: "mmc1_init (c, s) = Some (c', m')" "m = m'\<lparr>m_chip := Mapper001 c'\<rparr>" by auto
    with chr_fits_mmc1_init [OF m(1)] s k Mapper001 show ?thesis by (simp add: chr_fits_chip)
  next
    case (Mapper004 c)
    with run obtain c' m' where m: "mmc3_init info (c, s) = Some (c', m')" "m = m'\<lparr>m_chip := Mapper004 c'\<rparr>" by auto
    with chr_fits_mmc3_init [OF m(1)] s k Mapper004 show ?thesis by (simp add: chr_fits_chip)
  qed (use run s in \<open>auto simp: defs dest!: chr_fits_prg\<close>)
qed

section \<open>The cartridge of a ROM image\<close>

text \<open>The RAM the image asks for covers the window $6000-$7FFF, where it is mapped.\<close>

definition ram_fits :: "rom_info \<Rightarrow> bool" where
  "ram_fits info \<longleftrightarrow> ri_has_battery info \<or> ri_work_ram_size info \<le> 0 \<or>
     8 \<le> ri_work_ram_size info \<and> ri_work_ram_size info < 2 ^ 22"

definition rams_ok :: "mapper \<Rightarrow> bool" where
  "rams_ok m \<longleftrightarrow> length (m_work_ram m) = unat (m_work_ram_size m) \<and> length (m_save_ram m) = unat (m_save_ram_size m) \<and>
     (if ri_has_battery (m_rom_info m) then m_save_ram_size m = 0x2000 else 0x2000 \<le> m_work_ram_size m)"

lemma init_work_ram_rams:
  assumes "ram_fits info"
  shows "rams_ok (set_rom info prg chr (init_work_ram info (new_mapper k)))"
proof -
  have big: "0x2000 \<le> (word_of_int (n * 1024) :: u32)" if "8 \<le> n" "n < 2 ^ 22" for n :: int
  proof -
    have "take_bit 32 (n * 1024) = n * 1024"
      by (rule take_bit_int_eq_self) (use that in simp_all)
    then have "uint (word_of_int (n * 1024) :: u32) = n * 1024"
      by (simp only: uint_word_of_int_eq len_bit0 len_num1) simp
    moreover have "0x2000 \<le> n * 1024" using that by simp
    ultimately show ?thesis unfolding word_le_def by (simp only: uint_numeral len_bit0 len_num1) simp
  qed
  show ?thesis
    using assms big
    by (auto simp: rams_ok_def ram_fits_def init_work_ram_def new_mapper_def set_rom_def Let_def virtual_defs)
qed

lemma rams_ok_eq: "rams m = rams m' \<Longrightarrow> rams_ok m = rams_ok m'"
  by (simp add: rams_def rams_ok_def)

lemma ram_window_page:
  assumes "0x2000 \<le> length (region r m)" "0x60 \<le> i" "i \<le> (0x7F :: u8)"
  shows "page_ok m (ptr_add (vec_data r m) (0 + 0x100 * ucast (i - 0x60)))"
proof -
  have d: "unat (i - 0x60) = unat i - 0x60" "unat i \<le> 0x7F"
    using assms(2,3) by (simp_all add: unat_sub_if' word_le_nat_alt)
  then have "unat (0 + 0x100 * ucast (i - 0x60) :: u32) = 256 * unat (i - 0x60)"
    by (subst unat_page_offset) simp_all
  with assms(1) d show ?thesis by (auto simp: vec_data_def ptr_add_def page_ok_def)
qed

lemma chip_ok_same: "same_board m m' \<Longrightarrow> chip_ok m' = chip_ok m"
  by (simp add: chip_ok_def same_board_def split: mapper_chip.splits)

lemma loaded_ram_window:
  assumes "loaded m" "0x2000 \<le> length (region r m)"
  shows "loaded (map_cpu_source 0x6000 0x7FFF (vec_data r m) 0 acc m)"
proof -
  let ?m = "map_cpu_source 0x6000 0x7FFF (vec_data r m) 0 acc m"
  have hb: "hi_byte 0x6000 = 0x60" "hi_byte 0x7FFF = 0x7F" by (simp_all add: hi_byte_def)
  have p: "paged (m_chip m) (length (m_own_ram m)) m" "rom_window m" using assms(1) by (simp_all add: loaded_def)
  have "mapper_wf ?m"
    using loaded_wf [OF assms(1)] assms(2)
    by (intro map_cpu_source_wf) (auto simp: hb intro!: ram_window_page [unfolded add_0])
  from paged_same_board [OF p(1) _ this] have "paged (m_chip m) (length (m_own_ram m)) ?m" by simp
  moreover have "rom_window ?m" by (rule rom_window_own [OF p(2)])
  ultimately show ?thesis
    by (rule loadedI) (use assms(1) chip_ok_same [of m ?m] in \<open>simp add: loaded_def\<close>)
qed

lemma setup_default_work_ram_loaded:
  assumes "loaded m" "rams_ok m"
  shows "loaded (setup_default_work_ram m)"
proof -
  have "0x2000 \<le> length (m_work_ram m)" if "0x2000 \<le> m_work_ram_size m"
    using assms(2) that by (simp add: rams_ok_def word_le_nat_alt)
  moreover have "0x2000 \<le> length (m_save_ram m)" if "m_save_ram_size m = 0x2000"
    using assms(2) that by (simp add: rams_ok_def)
  ultimately show ?thesis
    using assms loaded_ram_window [OF assms(1), of SaveRam] loaded_ram_window [OF assms(1), of WorkRam]
    by (auto simp: setup_default_work_ram_def rams_ok_def)
qed

lemma trainer_loaded:
  assumes "loaded m" "rams_ok m"
  shows "ok (apply_trainer_data data m) (\<lambda>m'. loaded m' \<and> rams_ok m' \<and> m_chr_rom_size m' = m_chr_rom_size m \<and>
    (\<forall>N. chr_fits N m' = chr_fits N m))"
proof -
  have len: "length (m_work_ram m) = unat (m_work_ram_size m)" "length (m_save_ram m) = unat (m_save_ram_size m)"
    using assms(2) by (simp_all add: rams_ok_def)
  have ld: "loaded (set_region r xs m)" if "length xs = length (region r m)" for r xs
    by (rule loaded_set_region [OF assms(1) that])
  have c: "ok (copy_at 0x1000 data xs) (\<lambda>ys. length ys = length xs)" if "length data = 512" "0x2000 \<le> length xs"
    for xs using that by simp
  show ?thesis
    using assms c [of "m_work_ram m"] c [of "m_save_ram m"] ld [of _ WorkRam] ld [of _ SaveRam] len
    by (auto simp: apply_trainer_data_def word_le_nat_alt rams_ok_def chr_fits_def elim!: ok_mono
        simp del: ok_copy_at)
qed

definition conflict_setting :: "rom_info \<Rightarrow> mapper \<Rightarrow> mapper" where
  "conflict_setting info m =
     (case ri_bus_conflicts info of BUS_YES \<Rightarrow> set_has_bus_conflicts True m
        | BUS_NO \<Rightarrow> set_has_bus_conflicts False m | BUS_DEFAULT \<Rightarrow> m)"

lemma conflict_setting_new:
  obtains b where "conflict_setting info (new_mapper k) = (new_mapper k)\<lparr>m_has_bus_conflicts := b\<rparr>"
proof -
  have "\<exists>b. conflict_setting info (new_mapper k) = (new_mapper k)\<lparr>m_has_bus_conflicts := b\<rparr>"
    by (cases "ri_bus_conflicts info")
      (auto simp: conflict_setting_def set_has_bus_conflicts_def new_mapper_def)
  with that show ?thesis by blast
qed

lemma init_work_ram_conflicts:
  "init_work_ram info (m\<lparr>m_has_bus_conflicts := b\<rparr>) = (init_work_ram info m)\<lparr>m_has_bus_conflicts := b\<rparr>"
  by (simp add: init_work_ram_def Let_def)

lemma build_cartridge_ok:
  assumes create: "mapper_create (ri_mapper_number info) = Some (new_mapper k)"
    and cur: "\<And>c. k = Mapper004 c \<Longrightarrow> m3_current_register c < 8"
    and fits: "rom_fits k prg chr" "ram_fits info"
  shows "ok (build_cartridge info prg chr trainer) loaded"
proof -
  obtain b where b: "conflict_setting info (new_mapper k) = (new_mapper k)\<lparr>m_has_bus_conflicts := b\<rparr>"
    by (rule conflict_setting_new)
  define m0 where "m0 = init_work_ram info (conflict_setting info (new_mapper k))"
  have e: "m0 = (init_work_ram info (new_mapper k))\<lparr>m_has_bus_conflicts := b\<rparr>"
    by (simp add: m0_def b init_work_ram_conflicts)
  have chip: "m_chip m0 = k" "m_own_ram m0 = []"
    by (simp_all add: e init_work_ram_def new_mapper_def Let_def)
  have fr: "fresh m0" using fresh_new [of info k] by (simp add: e fresh_def)
  have size: "chr_fits (get_chr_ram_size k) m0"
    using fr chip by (simp add: chr_fits_def fresh_def)
  have rams: "rams_ok (set_rom info prg chr m0)"
    using init_work_ram_rams [OF fits(2), of prg chr k] by (auto simp: e set_rom_def rams_ok_def split: if_splits)
  have init: "ok (mapper_init info prg chr m0) (\<lambda>m. loaded m \<and> rams_ok m \<and> chr_fits (get_chr_ram_size k) m)"
    using mapper_init_ok [OF fr _ chip(2), of prg chr info] fits(1) chip(1) cur rams
      rams_ok_eq [OF mapper_init_rams] mapper_init_chr_fits [OF _ size]
    by (auto simp: ok_iff)
  have fin: "loaded (if m_chr_rom_size m > 0 then m else initialize_chr_ram (- 1) m)"
    if l: "loaded m" and c: "chr_fits N m" for m N
  proof -
    have wf: "mapper_wf m" by (rule loaded_wf [OF l])
    then have len: "length (m_chr_ram m) = unat (m_chr_ram_size m)" by (simp add: mapper_wf_def)
    let ?m = "initialize_chr_ram (- 1) m"
    have same: "same_board m ?m" by (simp add: initialize_chr_ram_def same_board_def Let_def)
    have "mapper_wf ?m"
      by (rule initialize_chr_ram_wf [OF wf, where n = "get_chr_ram_size (m_chip m)"])
        (use c len in \<open>auto simp: chr_fits_def word_le_nat_alt get_chr_ram_size_def split: if_splits\<close>)
    then have "paged (m_chip m) (length (m_own_ram m)) ?m"
      using paged_same_board [OF _ same] l by (simp add: loaded_def)
    moreover have "rom_window ?m" using l by (simp add: loaded_def rom_window_def initialize_chr_ram_def Let_def)
    ultimately have "loaded ?m"
      by (rule loadedI) (use l chip_ok_same [OF same] in \<open>simp add: loaded_def\<close>)
    with l show ?thesis by simp
  qed
  have window: "chr_fits N (setup_default_work_ram m)" if "chr_fits N m" for N m
    using that by (simp add: setup_default_work_ram_def)
  have tail: "loaded m \<Longrightarrow> rams_ok m \<Longrightarrow> chr_fits N m \<Longrightarrow>
      loaded (if m_chr_rom_size (setup_default_work_ram m) > 0 then setup_default_work_ram m
        else initialize_chr_ram (- 1) (setup_default_work_ram m))" for m N
    by (rule fin [OF setup_default_work_ram_loaded window])
  have train: "ok (if trainer \<noteq> [] then apply_trainer_data trainer m else Some m)
      (\<lambda>m. loaded m \<and> rams_ok m \<and> chr_fits N m)" if "loaded m" "rams_ok m" "chr_fits N m" for m N
    using trainer_loaded [OF that(1,2), of trainer] that by (auto elim!: ok_mono)
  show ?thesis
    unfolding build_cartridge_def create conflict_setting_def [symmetric] Let_def Option.bind.simps m0_def [symmetric]
    by (rule ok_bindI [OF init], elim conjE, rule ok_bindI [OF train], assumption+, elim conjE,
        unfold ok_Some, rule tail)
qed

section \<open>The machine\<close>

lemma build_machine_ok:
  assumes "loaded m" "mixer_ok mx"
  shows "nes_ok (build_machine topology info m mx n)"
proof -
  have p: "ppu_ok (new_ppu\<lparr>ppu_no_odd_frame_skip := b\<rparr>)" for b
    using new_ppu_ok by (simp add: ppu_ok_defs)
  have d: "ppu_master_clock_divider new_ppu = 4"
    by (simp add: new_ppu_def ppu_reset_def Let_def update_minimum_draw_cycles_def)
  have r: "length (mm_internal_ram (register_devices c m new_memory_manager)) = 0x800" for c
    by (simp add: register_devices_def register_io_device_def new_memory_manager_def)
  show ?thesis
    using assms p [of True] new_ppu_ok new_apu_ok [OF assms(2)] d r
    by (simp add: nes_ok_def build_machine_def ppu_bus_of_def bus_ok_def Let_def)
qed

lemma ppu_reset_ok:
  assumes "ppu_ok p"
  shows "ppu_ok (ppu_reset soft p)" "ppu_master_clock_divider (ppu_reset soft p) = ppu_master_clock_divider p"
  using assms
  by (simp_all add: ppu_reset_def Let_def update_minimum_draw_cycles_def ppu_ok_defs dot_ok_def tile0_def sprite0_def)

section \<open>Loading\<close>

text \<open>
  What the console relies on and does not check: the image holds all its banks, at least one
  bank of the board's size among them, and its RAM covers the window where it is mapped.
\<close>

definition playable :: "string \<Rightarrow> u8 list \<Rightarrow> bool" where
  "playable db_text data \<longleftrightarrow> is_valid data \<and>
     (case resolve_info db_text data of
        None \<Rightarrow> False
      | Some info \<Rightarrow> header_size info + prg_bytes info + chr_bytes info \<le> length data \<and> ram_fits info \<and>
          (case mapper_create (ri_mapper_number info) of
             None \<Rightarrow> False
           | Some m \<Rightarrow> unat (get_prg_page_size (m_chip m)) \<le> prg_bytes info))"

lemma resolve_layout:
  assumes "resolve_info db data = Some info"
  shows "ri_prg_banks info < 256" "ri_chr_banks info < 256"
proof -
  obtain i0 i1 where r: "parse_header data = Some i0" "apply_nesdb_overrides db (crc32_update 0 (drop (header_size i0) data)) i0 = Some i1"
    "ri_prg_banks info = ri_prg_banks i1" "ri_chr_banks info = ri_chr_banks i1"
    using assms by (auto simp: resolve_info_def Let_def bind_eq_Some_conv split: if_splits)
  have b: "unat (w :: u8) < 256" for w using unsigned_less [where 'a = nat, of w] by simp
  show "ri_prg_banks info < 256" "ri_chr_banks info < 256"
    using r(3,4) overrides_layout [OF r(2)] parse_header_facts(1,2) [OF r(1)] b by simp_all
qed

section \<open>The address map\<close>

lemma init_handlers:
  "init_memory_handlers h xs override t a =
     (if a \<in> set xs \<and> (override \<or> t a = H_OpenBus \<or> t a = h) then h else t a)"
proof -
  have "fold (\<lambda>addr t. if \<not> override \<and> t addr \<noteq> H_OpenBus \<and> t addr \<noteq> h then t else t(addr := h)) xs t a =
      (if a \<in> set xs \<and> (override \<or> t a = H_OpenBus \<or> t a = h) then h else t a)"
    by (induction xs arbitrary: t) auto
  then show ?thesis by (simp add: init_memory_handlers_def)
qed

text \<open>The device of an address: what the five registrations amount to.\<close>

definition read_map :: "bool \<Rightarrow> u16 \<Rightarrow> handler" where
  "read_map vs a =
     (if a \<le> 0x1FFF then H_Ram else if a \<le> 0x3FFF then H_Ppu
      else if a = 0x4015 \<or> 0x4018 \<le> a \<and> a \<le> 0x401A then H_Apu
      else if a = 0x4016 \<or> a = 0x4017 \<or> vs \<and> 0x4020 \<le> a \<and> a \<le> 0x5FFF then H_Control
      else if 0x4020 \<le> a then H_Mapper else H_OpenBus)"

definition write_map :: "bool \<Rightarrow> u16 \<Rightarrow> handler" where
  "write_map vs a =
     (if a \<le> 0x1FFF then H_Ram else if a \<le> 0x3FFF \<or> a = 0x4014 then H_Ppu
      else if a \<le> 0x4017 \<and> a \<noteq> 0x4016 then H_Apu
      else if a = 0x4016 \<or> vs \<and> 0x4020 \<le> a \<and> a \<le> 0x5FFF then H_Control
      else if 0x4020 \<le> a then H_Mapper else H_OpenBus)"

lemma mapper_ranges:
  "set (mr_read (mapper_memory_ranges m)) = {a. 0x4020 \<le> a}" "set (mr_write (mapper_memory_ranges m)) = {a. 0x4020 \<le> a}"
  "\<not> mr_allow_override (mapper_memory_ranges m)"
proof -
  have top: "a \<le> 0xFFFF" for a :: u16
    using unsigned_less [where 'a = nat, of a] by (simp add: word_le_nat_alt)
  have low: "0x4020 \<le> a" if "0x6000 \<le> a" for a :: u16
    using that by (rule order_trans [rotated]) simp
  show "set (mr_read (mapper_memory_ranges m)) = {a. 0x4020 \<le> a}" "set (mr_write (mapper_memory_ranges m)) = {a. 0x4020 \<le> a}"
    "\<not> mr_allow_override (mapper_memory_ranges m)"
    by (auto simp: mapper_memory_ranges_def Let_def ranges0_def top low split: mapper_chip.splits)
qed

lemma handler_step:
  "mm_read_handlers (register_io_device h r m) a =
     (if a \<in> set (mr_read r) \<and> (mr_allow_override r \<or> mm_read_handlers m a = H_OpenBus \<or> mm_read_handlers m a = h)
      then h else mm_read_handlers m a)"
  "mm_write_handlers (register_io_device h r m) a =
     (if a \<in> set (mr_write r) \<and> (mr_allow_override r \<or> mm_write_handlers m a = H_OpenBus \<or> mm_write_handlers m a = h)
      then h else mm_write_handlers m a)"
  by (simp_all add: register_io_device_def init_handlers)

lemma device_ranges:
  "set (mr_read internal_ram_ranges) = {a. a \<le> 0x1FFF}" "set (mr_write internal_ram_ranges) = {a. a \<le> 0x1FFF}"
  "set (mr_read ppu_memory_ranges) = {a. 0x2000 \<le> a \<and> a \<le> 0x3FFF}"
  "set (mr_write ppu_memory_ranges) = {a. 0x2000 \<le> a \<and> a \<le> 0x3FFF \<or> a = 0x4014}"
  "set (mr_read apu_memory_ranges) = {a. a = 0x4015 \<or> 0x4018 \<le> a \<and> a \<le> 0x401A}"
  "set (mr_write apu_memory_ranges) = {a. 0x4000 \<le> a \<and> a \<le> 0x4013 \<or> a = 0x4015 \<or> a = 0x4017}"
  "set (mr_read (control_memory_ranges c)) = {a. 0x4016 \<le> a \<and> a \<le> 0x4017 \<or> cm_vs c \<and> 0x4020 \<le> a \<and> a \<le> 0x5FFF}"
  "set (mr_write (control_memory_ranges c)) = {a. a = 0x4016 \<or> cm_vs c \<and> 0x4020 \<le> a \<and> a \<le> 0x5FFF}"
  by (auto simp: internal_ram_ranges_def ppu_memory_ranges_def apu_memory_ranges_def control_memory_ranges_def
      ranges0_def Let_def)

lemma overrides:
  "mr_allow_override internal_ram_ranges" "\<not> mr_allow_override ppu_memory_ranges"
  "\<not> mr_allow_override apu_memory_ranges" "\<not> mr_allow_override (control_memory_ranges c)"
  by (simp_all add: internal_ram_ranges_def ppu_memory_ranges_def apu_memory_ranges_def control_memory_ranges_def
      ranges0_def Let_def)

lemma device_tables:
  "mm_read_handlers (register_devices c m new_memory_manager) a = read_map (cm_vs c) a"
  "mm_write_handlers (register_devices c m new_memory_manager) a = write_map (cm_vs c) a"
proof -
  have eq: "a = w \<longleftrightarrow> unat a = unat w" for w by (rule word_unat_eq_iff)
  note defs = register_devices_def new_memory_manager_def handler_step mapper_ranges device_ranges overrides mem_Collect_eq
  define n where "n = unat a"
  note nat = word_le_nat_alt eq unat_numeral n_def [symmetric]
  have regions: "n \<le> 0x1FFF \<or> 0x2000 \<le> n \<and> n \<le> 0x3FFF \<or> 0x4000 \<le> n \<and> n < 0x4020 \<or> 0x4020 \<le> n \<and> n \<le> 0x5FFF \<or> 0x6000 \<le> n"
    by linarith
  show "mm_read_handlers (register_devices c m new_memory_manager) a = read_map (cm_vs c) a"
    using regions unfolding defs read_map_def nat by (elim disjE conjE) (simp_all add: mapper_ranges(3) overrides)
  show "mm_write_handlers (register_devices c m new_memory_manager) a = write_map (cm_vs c) a"
    using regions unfolding defs write_map_def nat by (elim disjE conjE) (simp_all add: mapper_ranges(3) overrides)
qed

section \<open>The state after a reset\<close>

lemma idle_steady:
  assumes "clock_ok t"
  shows "ok (idle_cycle E t) (\<lambda>u. spent 1 t u \<and> steady t u)"
proof -
  obtain u where u: "idle_cycle E t = Some u" "spent 1 t u"
    using idle_cycle_ok [OF assms] by (auto simp: ok_iff)
  then obtain v where v: "start_cpu_cycle E True t = Some v" "end_cpu_cycle True v = Some u"
    by (auto simp: idle_cycle_def bind_eq_Some_conv)
  have "steady t u" by (rule steady_end [OF v(2) steady_start [OF v(1) _]]) (simp add: assms(1))
  with u show ?thesis by simp
qed

lemma idle_cycles:
  assumes "clock_ok t"
  shows "ok (for_each (\<lambda>_. idle_cycle E) [0..<n] t) (\<lambda>u. spent n t u \<and> steady t u)"
proof (induction n)
  case 0
  then show ?case using assms(1) by simp
next
  case (Suc n)
  have step: "ok (idle_cycle E u) (\<lambda>v. spent (Suc n) t v \<and> steady t v)" if u: "spent n t u \<and> steady t u" for u
  proof (rule ok_mono [OF idle_steady [OF spent_ok]])
    fix v assume "spent 1 u v \<and> steady u v"
    with u spent_trans [of n t u 1 v] steady_trans [of t u v] show "spent (Suc n) t v \<and> steady t v" by simp
  qed (use u in blast)
  have one: "for_each (\<lambda>_. idle_cycle E) [n] = idle_cycle E" by (rule ext) simp
  have "for_each (\<lambda>_. idle_cycle E) [0..<Suc n] t = Option.bind (for_each (\<lambda>_. idle_cycle E) [0..<n] t) (idle_cycle E)"
    by (simp add: for_each_append one)
  with ok_bindI [OF Suc step] show ?case by simp
qed

lemma read_ram_same: "memory_read addr s = Some (v, t) \<Longrightarrow> ram_of t = ram_of s"
  by (auto simp: memory_read_def bind_eq_Some_conv dest!: handler_read_mem)

lemma cpu_reset_state:
  assumes "nes_ok s"
  shows "\<exists>lo hi s1 s2 t. memory_read 0xFFFC (cpu_do cpu_clear_lines s) = Some (lo, s1) \<and>
    memory_read 0xFFFD s1 = Some (hi, s2) \<and> cpu_reset E soft s = Some t \<and> clock_ok t \<and> tables t = tables s \<and>
    regs (n_cpu t) = regs (cpu_power_up (make_word hi lo) (n_cpu s2)) \<and> cpu_cycle_count (n_cpu t) = 7 \<and>
    ram_of t = ram_of s"
proof -
  let ?c = "cpu_do cpu_clear_lines s"
  have c: "nes_ok ?c" using assms(1) by simp
  obtain lo s1 where r1: "memory_read 0xFFFC ?c = Some (lo, s1)" "moves ?c s1"
    using memory_read_ok [OF c, of "0xFFFC"] by (auto simp: ok_iff)
  obtain hi s2 where r2: "memory_read 0xFFFD s1 = Some (hi, s2)" "moves s1 s2"
    using memory_read_ok [OF moves_ok [OF r1(2)], of "0xFFFD"] by (auto simp: ok_iff)
  let ?p = "cpu_do (cpu_power_up (make_word hi lo)) s2"
  have m: "moves ?c s2" by (rule moves_trans [OF r1(2) r2(2)])
  have p: "clock_ok ?p"
    using moves_ok [OF m] by (simp add: clock_ok_def in_step_def cpu_power_up_def)
  obtain t where t: "for_each (\<lambda>_. idle_cycle E) [0..<8] ?p = Some t" "spent 8 ?p t" "steady ?p t"
    using idle_cycles [OF p, of E 8] by (auto simp: ok_iff)
  have v: "RESET_VECTOR = 0xFFFC" "RESET_VECTOR + 1 = 0xFFFD" by (simp_all add: RESET_VECTOR_def)
  have "cpu_reset E soft s = Some t"
    unfolding cpu_reset_def Let_def v(1) using t(1) by (simp add: r1(1) r2(1))
  moreover have "tables t = tables s"
    using t(3) m by (simp add: steady_def moves_def stays_def cpu_do_def)
  moreover have "cpu_cycle_count (n_cpu t) = 7"
    using t(2) by (simp add: spent_def cpu_do_def cpu_power_up_def)
  moreover have "regs (n_cpu t) = regs (cpu_power_up (make_word hi lo) (n_cpu s2))"
    using t(3) by (simp add: steady_def cpu_do_def)
  moreover have "ram_of t = ram_of s"
    using t(3) read_ram_same [OF r2(1)] read_ram_same [OF r1(1)] by (simp add: steady_def cpu_do_def)
  ultimately show ?thesis using r1(1) r2(1) t(2) spent_ok by blast
qed

theorem console_reset_ok:
  assumes "nes_ok s"
  shows "ok (console_reset E soft s) (\<lambda>t. clock_ok t \<and> tables t = tables s)"
proof -
  let ?s = "s\<lparr>n_mem := memory_reset soft (n_mem s), n_ppu := ppu_reset soft (n_ppu s), n_apu := apu_reset soft (n_apu s)\<rparr>"
  have "nes_ok ?s"
    using assms(1) ppu_reset_ok apu_reset_ok
    by (auto simp: nes_ok_def ppu_bus_of_def bus_ok_def memory_reset_def)
  from cpu_reset_state [OF this, of E soft]
  have "ok (cpu_reset E soft ?s) (\<lambda>t. clock_ok t \<and> tables t = tables ?s)" by (auto simp: ok_iff)
  moreover have "tables ?s = tables s" by (simp add: memory_reset_def)
  moreover have "clock_ok (t\<lparr>n_ctl := control_reset soft (n_ctl t)\<rparr>)" if "clock_ok t" for t
    using that by (simp add: clock_ok_def nes_ok_def in_step_def ppu_bus_of_def)
  ultimately show ?thesis unfolding console_reset_def Let_def by (auto elim: ok_mono)
qed

section \<open>The loaded machine\<close>

text \<open>The machine that \<^verbatim>\<open>load_rom\<close> leaves: in the invariant, its devices in their places.\<close>

definition wired :: "bool \<Rightarrow> nes \<Rightarrow> bool" where
  "wired vs s \<longleftrightarrow> tables s = (read_map vs, write_map vs)"

lemma load_rom_ok:
  assumes "playable db data" "mixer_ok (console_mixer con)"
  shows "ok (load_rom E topology db data con) (\<lambda>(r, con'). r = 0 \<and> (\<exists>s info. con' = Running s \<and>
    resolve_info db data = Some info \<and> clock_ok s \<and> wired (ri_is_vs_system info) s))"
proof -
  from assms(1) obtain info m where v: "is_valid data" and info: "resolve_info db data = Some info"
    and size: "header_size info + prg_bytes info + chr_bytes info \<le> length data" and ram: "ram_fits info"
    and m: "mapper_create (ri_mapper_number info) = Some m" "unat (get_prg_page_size (m_chip m)) \<le> prg_bytes info"
    by (auto simp: playable_def split: option.splits)
  obtain k where k: "m = new_mapper k" "\<And>c. k = Mapper004 c \<Longrightarrow> m3_current_register c < 8"
    using create_new [OF m(1)] by blast
  obtain prg where prg: "slice (header_size info) (prg_bytes info) data = Some prg" "length prg = prg_bytes info"
    using size by (auto simp: slice_def)
  obtain chr where chr: "slice (header_size info + prg_bytes info) (chr_bytes info) data = Some chr"
    "length chr = chr_bytes info"
    using size by (auto simp: slice_def)
  have "rom_fits k prg chr"
    using m(2) prg(2) chr(2) resolve_layout [OF info]
    by (simp add: rom_fits_def k new_mapper_def prg_bytes_def chr_bytes_def)
  from build_cartridge_ok [OF m(1) [unfolded k] k(2) this ram, of "trainer_bytes info data"]
  obtain b where b: "build_cartridge info prg chr (trainer_bytes info data) = Some b" "loaded b"
    by (auto simp: ok_iff)
  let ?s = "build_machine topology info b (console_mixer con) (console_last_frame con)"
  have "ok (console_reset E False ?s) (\<lambda>t. clock_ok t \<and> tables t = tables ?s)"
    by (rule console_reset_ok [OF build_machine_ok [OF b(2) assms(2)]])
  then obtain s where s: "console_reset E False ?s = Some s" "clock_ok s" "tables s = tables ?s"
    unfolding ok_iff by blast
  have "\<exists>c. n_mem ?s = register_devices c b new_memory_manager \<and> cm_vs c = ri_is_vs_system info"
    by (auto simp: build_machine_def new_control_def set_cli_exp_bit3_mode_def Let_def)
  then obtain c where c: "n_mem ?s = register_devices c b new_memory_manager" "cm_vs c = ri_is_vs_system info" by blast
  have "wired (ri_is_vs_system info) s"
    unfolding wired_def s(3) c(1) by (simp add: fun_eq_iff device_tables c(2))
  with s show ?thesis
    using v info by (auto simp: load_rom_def prg(1) chr(1) b(1))
qed

lemma wired_env: "wired vs s \<Longrightarrow> program_env s"
proof -
  assume w: "wired vs s"
  have "0x100 + ucast b \<le> (0x1FFF :: u16)" for b :: u8
  proof -
    have "unat b < 256" using unsigned_less [where 'a = nat, of b] by simp
    then have "0x100 + unat b \<le> 0x1FFF" by linarith
    then show ?thesis by (simp only: word_le_nat_alt stack_addr) simp
  qed
  with w show ?thesis
    by (simp add: program_env_def oam_port_def stack_in_ram_def wired_def read_map_def write_map_def)
qed

section \<open>Frames end\<close>

text \<open>
  Each instruction moves the beam, by less than \<open>2 ^ 32\<close> frames, so that the frame counter
  cannot come back to the value it had: the loop ends when the beam leaves the frame.
\<close>

definition EXEC_DOTS :: nat where "EXEC_DOTS = 2 * RUN_DOTS * (19 * ACCESS)"

lemma cpu_exec_travels:
  assumes "clock_ok s"
  shows "ok (cpu_exec E s) (\<lambda>t. clock_ok t \<and> tables t = tables s \<and>
    (\<exists>d. 1 \<le> d \<and> d \<le> EXEC_DOTS \<and> travelled d (n_ppu s) (n_ppu t)))"
proof (rule ok_mono [OF cpu_exec_ok [OF assms]], elim exE conjE)
  fix t k assume k: "1 \<le> k" "k \<le> 19 * ACCESS" "spent k s t"
  then obtain d where d: "k \<le> d" "d \<le> 2 * RUN_DOTS * k" "travelled d (n_ppu s) (n_ppu t)" by (auto simp: spent_def)
  have "2 * RUN_DOTS * k \<le> EXEC_DOTS" using k(2) by (simp add: EXEC_DOTS_def RUN_DOTS_def)
  with k d show "clock_ok t \<and> tables t = tables s \<and> (\<exists>d. 1 \<le> d \<and> d \<le> EXEC_DOTS \<and> travelled d (n_ppu s) (n_ppu t))"
    by (auto simp: spent_def intro!: exI [of _ d])
qed

lemma run_frame_loop_ok:
  assumes "clock_ok s"
  shows "ok (run_frame_loop E s) (\<lambda>t. clock_ok t \<and> tables t = tables s \<and>
    (\<exists>n. 1 \<le> n \<and> n \<le> EXEC_DOTS div FRAME_DOTS + 1 \<and> ppu_frame_count (n_ppu t) = ppu_frame_count (n_ppu s) + of_nat n))"
proof -
  let ?c = "ppu_frame_count (n_ppu s)"
  define I where "I t \<longleftrightarrow> clock_ok t \<and> tables t = tables s \<and> (ppu_frame_count (n_ppu t) = ?c \<or>
      (\<exists>n. 1 \<le> n \<and> n \<le> EXEC_DOTS div FRAME_DOTS + 1 \<and> ppu_frame_count (n_ppu t) = ?c + of_nat n))" for t
  have big: "EXEC_DOTS div FRAME_DOTS + 1 < 2 ^ 32"
    by (simp add: EXEC_DOTS_def FRAME_DOTS_def RUN_DOTS_def ACCESS_def)
  have step: "I u \<and> (ppu_frame_count (n_ppu u) = ?c \<longrightarrow> frame_phase (n_ppu t) < frame_phase (n_ppu u))"
    if t: "I t" "ppu_frame_count (n_ppu t) = ?c" and u: "clock_ok u" "tables u = tables t"
      "1 \<le> d" "d \<le> EXEC_DOTS" "travelled d (n_ppu t) (n_ppu u)" for t u d
  proof -
    let ?n = "(frame_phase (n_ppu t) + d) div FRAME_DOTS"
    have ph: "frame_phase (n_ppu t) < FRAME_DOTS" by (rule frame_phase_less)
    have cnt: "ppu_frame_count (n_ppu u) = ?c + of_nat ?n"
      "frame_phase (n_ppu u) = (frame_phase (n_ppu t) + d) mod FRAME_DOTS"
      using u(5) t(2) by (simp_all add: travelled_def)
    have "?n \<le> (FRAME_DOTS + EXEC_DOTS) div FRAME_DOTS" by (rule div_le_mono) (use ph u(4) in linarith)
    also have "\<dots> = EXEC_DOTS div FRAME_DOTS + 1" by (simp add: FRAME_DOTS_def)
    finally have n: "?n \<le> EXEC_DOTS div FRAME_DOTS + 1" .
    show ?thesis
    proof (cases "?n = 0")
      case True
      then have "frame_phase (n_ppu t) + d < FRAME_DOTS" by (simp add: FRAME_DOTS_def div_eq_0_iff)
      with True cnt u t(1) show ?thesis by (simp add: I_def)
    next
      case False
      then have "\<not> 2 ^ 32 dvd ?n" using n big by (auto dest!: dvd_imp_le)
      then have "(of_nat ?n :: u32) \<noteq> 0" by (simp only: word_of_nat_eq_0_iff len_bit0 len_num1) simp
      then have "ppu_frame_count (n_ppu u) \<noteq> ?c" using cnt(1) by simp
      moreover have "\<exists>n. 1 \<le> n \<and> n \<le> EXEC_DOTS div FRAME_DOTS + 1 \<and> ppu_frame_count (n_ppu u) = ?c + of_nat n"
        using False n cnt(1) by (intro exI [of _ ?n]) simp
      ultimately show ?thesis using u t(1) by (simp add: I_def)
    qed
  qed
  show ?thesis
    unfolding run_frame_loop_def
  proof (rule while_loop_ok [where I = I and m = "\<lambda>t. FRAME_DOTS - frame_phase (n_ppu t) +
      (if ppu_frame_count (n_ppu t) = ?c then FRAME_DOTS + 1 else 0)"])
    show "I s" using assms(1) by (simp add: I_def)
  next
    fix t assume t: "I t" "ppu_frame_count (n_ppu t) = ?c"
    have "clock_ok t" using t(1) by (simp add: I_def)
    from cpu_exec_travels [OF this] show "ok (cpu_exec E t) (\<lambda>u. I u \<and>
      FRAME_DOTS - frame_phase (n_ppu u) + (if ppu_frame_count (n_ppu u) = ?c then FRAME_DOTS + 1 else 0) <
      FRAME_DOTS - frame_phase (n_ppu t) + (if ppu_frame_count (n_ppu t) = ?c then FRAME_DOTS + 1 else 0))"
    proof (rule ok_mono, elim conjE exE)
      fix u d assume "clock_ok u" "tables u = tables t" "1 \<le> d" "d \<le> EXEC_DOTS" "travelled d (n_ppu t) (n_ppu u)"
      from step [OF t this] show "I u \<and>
        FRAME_DOTS - frame_phase (n_ppu u) + (if ppu_frame_count (n_ppu u) = ?c then FRAME_DOTS + 1 else 0) <
        FRAME_DOTS - frame_phase (n_ppu t) + (if ppu_frame_count (n_ppu t) = ?c then FRAME_DOTS + 1 else 0)"
        using t(2) frame_phase_less [of "n_ppu t"] frame_phase_less [of "n_ppu u"] by auto
    qed
  qed (auto simp: I_def)
qed

lemma finish_frame_ok:
  assumes "clock_ok s"
  shows "ok (finish_frame E s) (\<lambda>t. clock_ok t \<and> tables t = tables s \<and> n_ppu t = n_ppu s \<and>
    n_last_frame t = (if ppu_frame_count (n_ppu s) > 0 then ppu_frame_count (n_ppu s) - 1 else 0))"
proof -
  define l where "l = (if ppu_frame_count (n_ppu s) > 0 then ppu_frame_count (n_ppu s) - 1 else 0)"
  let ?s = "s\<lparr>n_last_frame := l\<rparr>"
  have bus: "apu_bus_of ?s = (n_apu s, n_mixer s, n_cpu s)" by (simp add: apu_bus_of_def)
  have "running (n_apu s) (n_mixer s)" "ring_ok (n_apu s)"
    using assms(1) by (simp_all add: clock_ok_def nes_ok_def apu_ok_def)
  then obtain a mx c where e: "apu_end_frame E (apu_bus_of ?s) = Some (a, mx, c)" "apu_ok a mx"
    using apu_end_frame_ok [of "n_apu s" "n_mixer s" E "n_cpu s"] by (auto simp: bus ok_iff)
  have core: "cpu_core c = cpu_core (n_cpu s)"
    using apu_end_frame_dma [OF e(1) [unfolded bus]] by (simp add: dma_moves_def)
  obtain a' where p: "push_frame a = Some a'" "apu_ok a' mx"
    using push_frame_ok [OF e(2)] by (auto simp: ok_iff)
  have run: "finish_frame E s = Some (s\<lparr>n_last_frame := l, n_apu := a', n_mixer := mx, n_cpu := c\<rparr>)"
    unfolding finish_frame_def Let_def l_def [symmetric]
    by (simp add: e(1) p(1) with_apu_bus_def)
  have "in_step (s\<lparr>n_last_frame := l, n_apu := a', n_mixer := mx, n_cpu := c\<rparr>)"
    using assms(1) core_time [OF core] by (simp add: clock_ok_def in_step_def cpu_time_def)
  then have "clock_ok (s\<lparr>n_last_frame := l, n_apu := a', n_mixer := mx, n_cpu := c\<rparr>)"
    using assms(1) p(2) by (simp add: clock_ok_def nes_ok_def ppu_bus_of_def bus_ok_def)
  with run show ?thesis by (simp add: l_def)
qed

lemma run_frame_ok:
  assumes "clock_ok s"
  shows "ok (run_frame E s) (\<lambda>t. clock_ok t \<and> tables t = tables s \<and>
    (\<exists>n. 1 \<le> n \<and> n \<le> EXEC_DOTS div FRAME_DOTS + 1 \<and> ppu_frame_count (n_ppu t) = ppu_frame_count (n_ppu s) + of_nat n) \<and>
    n_last_frame t = (if ppu_frame_count (n_ppu t) > 0 then ppu_frame_count (n_ppu t) - 1 else 0))"
  unfolding run_frame_def
  by (rule ok_bindI [OF run_frame_loop_ok [OF assms]], elim conjE, rule ok_mono [OF finish_frame_ok [OF _]],
      assumption, simp)

end
