(* ===== verification/Console_Properties.thy ===== *)
theory Console_Properties
  imports Console_Facts Sample_Cartridge
begin

text \<open>
  What the console promises: a cartridge that is set up takes any traffic, a complete ROM image becomes
  a machine whose devices are where the hardware has them, a truncated one is undefined behaviour, a reset starts the program
  at its vector, and the frame loop ends.
\<close>

section \<open>Cartridge traffic\<close>







definition sample_rom_info :: rom_info where
  "sample_rom_info = rom_info0\<lparr>ri_mapper_number := 3\<rparr>"

lemma sample_create: "mapper_create 3 = Some (new_mapper Mapper003)"
  by (simp add: mapper_create_def board_table_def)


section \<open>A work RAM smaller than its window\<close>

text \<open>The trainer is not copied to a RAM of less than 8 KB.\<close>

lemma no_room_for_trainer:
  "m_work_ram_size m < 0x2000 \<Longrightarrow> m_save_ram_size m < 0x2000 \<Longrightarrow> apply_trainer_data trainer m = Some m"
  by (simp add: apply_trainer_data_def not_le [symmetric])

lemma small_rams:
  assumes "\<not> ri_has_battery info" "0 < ri_work_ram_size info" "ri_work_ram_size info < 8"
    and "mapper_init info prg chr (init_work_ram info (conflict_setting info (new_mapper k))) = Some m"
  shows "unat (m_work_ram_size m) = 1024 * nat (ri_work_ram_size info)" "m_save_ram_size m = 0" "m_rom_info m = info"
    "length (m_work_ram m) = 1024 * nat (ri_work_ram_size info)"
proof -
  define n where "n = nat (ri_work_ram_size info)"
  have n: "ri_work_ram_size info = int n" "0 < n" "n < 8" using assms(2,3) by (simp_all add: n_def)
  have u: "unat (word_of_int (int n * 1024) :: u32) = 1024 * n"
  proof -
    have "take_bit 32 (int n * 1024) = int n * 1024" by (rule take_bit_int_eq_self) (use n in simp_all)
    then have "uint (word_of_int (int n * 1024) :: u32) = int n * 1024"
      by (simp only: uint_word_of_int_eq len_bit0 len_num1) simp
    then show ?thesis by (simp only: unat_eq_nat_uint)
  qed
  obtain b where b: "conflict_setting info (new_mapper k) = (new_mapper k)\<lparr>m_has_bus_conflicts := b\<rparr>"
    by (rule conflict_setting_new)
  have "rams m = rams (set_rom info prg chr (init_work_ram info (new_mapper k)))"
    using mapper_init_rams [OF assms(4)] by (simp add: b init_work_ram_conflicts rams_def set_rom_def)
  then show "unat (m_work_ram_size m) = 1024 * nat (ri_work_ram_size info)" "m_save_ram_size m = 0" "m_rom_info m = info"
    "length (m_work_ram m) = 1024 * nat (ri_work_ram_size info)"
    using assms(1) n u by (simp_all add: rams_def set_rom_def init_work_ram_def new_mapper_def Let_def)
qed

lemma build_small_ram:
  assumes "build_cartridge info prg chr trainer = Some m"
    and "\<not> ri_has_battery info" "0 < ri_work_ram_size info" "ri_work_ram_size info < 8"
  obtains m1 where "m_work_ram m = m_work_ram m1" "length (m_work_ram m1) = 1024 * nat (ri_work_ram_size info)"
    "m_prg_pages m = m_prg_pages (map_cpu_source 0x6000 0x7FFF (vec_data WorkRam m1) 0 (Some READ_WRITE) m1)"
    "m_prg_memory_access m = m_prg_memory_access (map_cpu_source 0x6000 0x7FFF (vec_data WorkRam m1) 0 (Some READ_WRITE) m1)"
proof -
  from assms(1) obtain m0 m1 m2 where c: "mapper_create (ri_mapper_number info) = Some m0"
    "mapper_init info prg chr (init_work_ram info (conflict_setting info m0)) = Some m1"
    "(if trainer \<noteq> [] then apply_trainer_data trainer m1 else Some m1) = Some m2"
    "m = (if m_chr_rom_size (setup_default_work_ram m2) > 0 then setup_default_work_ram m2
      else initialize_chr_ram (- 1) (setup_default_work_ram m2))"
    by (auto simp: build_cartridge_def bind_eq_Some_conv Let_def conflict_setting_def [symmetric] simp del: bind_split)
  obtain k where "m0 = new_mapper k" using create_new [OF c(1)] by blast
  note r = small_rams [OF assms(2-4) c(2) [unfolded this]]
  have "m_work_ram_size m1 < 0x2000" "0 < m_work_ram_size m1"
    using assms(3,4) r(1) by (simp_all add: word_less_nat_alt)
  moreover from this have "m2 = m1" using c(3) no_room_for_trainer [of m1 trainer] r(2) by (simp split: if_splits)
  ultimately have "setup_default_work_ram m2 = map_cpu_source 0x6000 0x7FFF (vec_data WorkRam m1) 0 (Some READ_WRITE) m1"
    using assms(2) r(3) by (simp add: setup_default_work_ram_def)
  with c(4) r(4) show ?thesis
    by (intro that [of m1]) (simp_all add: initialize_chr_ram_def map_cpu_source_def Let_def)
qed

text \<open>
  C39: a work RAM of 1 to 7 KB does not cover the window $6000-$7FFF that the loader maps to it. On a cartridge without a battery whose
  description gives it such a RAM (the ROM database does, 2 KB, for the entries 642855AB and F2ABEB30 of mapper 3), a read of the window
  gives the byte of the RAM at that distance from $6000 when the RAM has it, and behind its end reads out of the bounds of \<^verbatim>\<open>work_ram_\<close>.
\<close>

theorem small_work_ram_overruns:
  assumes "build_cartridge info prg chr trainer = Some m"
    and "\<not> ri_has_battery info" "0 < ri_work_ram_size info" "ri_work_ram_size info < 8"
    and "0x6000 \<le> addr" "addr \<le> 0x7FFF"
  shows "mapper_read_ram ob addr m =
    (if unat addr - 0x6000 < 1024 * nat (ri_work_ram_size info) then Some (m_work_ram m ! (unat addr - 0x6000)) else None)"
proof -
  obtain m1 where m1: "m_work_ram m = m_work_ram m1" "length (m_work_ram m1) = 1024 * nat (ri_work_ram_size info)"
    "m_prg_pages m = m_prg_pages (map_cpu_source 0x6000 0x7FFF (vec_data WorkRam m1) 0 (Some READ_WRITE) m1)"
    "m_prg_memory_access m = m_prg_memory_access (map_cpu_source 0x6000 0x7FFF (vec_data WorkRam m1) 0 (Some READ_WRITE) m1)"
    using build_small_ram [OF assms(1-4)] by blast
  have hb: "hi_byte 0x6000 = 0x60" "hi_byte 0x7FFF = 0x7F" by (simp_all add: hi_byte_def)
  have a: "0x6000 \<le> unat addr" "unat addr \<le> 0x7FFF" using assms(5,6) by (simp_all add: word_le_nat_alt)
  have h: "0x60 \<le> unat (hi_byte addr)" "unat (hi_byte addr) \<le> 0x7F"
    using a div_le_mono [OF a(1), of 256] div_le_mono [OF a(2), of 256] by (simp_all add: unat_hi_byte)
  then have w: "0x60 \<le> hi_byte addr" "hi_byte addr \<le> 0x7F" by (simp_all add: word_le_nat_alt)
  have d: "unat (hi_byte addr - 0x60) = unat (hi_byte addr) - 0x60" using h by (simp add: unat_sub_if' word_le_nat_alt)
  have off: "unat (0x100 * ucast (hi_byte addr - 0x60) :: u32) + unat (lo_byte addr) = unat addr - 0x6000"
    using unat_page_offset [of 0 "hi_byte addr - 0x60"] d h byte_of_addr [of addr] by simp
  have pos: "m_work_ram m1 \<noteq> []" using m1(2) assms(3) by auto
  have p: "m_prg_memory_access m (hi_byte addr) = READ_WRITE"
    "m_prg_pages m (hi_byte addr) = Some (WorkRam, unat (0x100 * ucast (hi_byte addr - 0x60) :: u32))"
    using w pos by (simp_all add: m1(3,4) map_cpu_source_def hb Let_def resolve_access_def vec_data_def ptr_add_def)
  have "mapper_read_ram ob addr m = load_ptr (m_prg_pages m (hi_byte addr)) (lo_byte addr) m"
    by (simp add: mapper_read_ram_def base_read_ram_def allow_register_read_def p can_access split: mapper_chip.split)
  also have "\<dots> = rd (m_work_ram m) (unat addr - 0x6000)" by (simp add: load_ptr_def p off)
  finally show ?thesis by (simp add: rd_def m1(1,2))
qed

lemma small_work_ram_overruns_witness:
  "\<exists>m. build_cartridge (sample_rom_info\<lparr>ri_work_ram_size := 2\<rparr>) sample_prg sample_chr [] = Some m \<and>
    mapper_read_ram 0 0x67FF m = Some (m_work_ram m ! 0x7FF) \<and> mapper_read_ram 0 0x6800 m = None"
proof -
  let ?i = "sample_rom_info\<lparr>ri_work_ram_size := 2\<rparr>"
  let ?m = "init_work_ram ?i (conflict_setting ?i (new_mapper Mapper003))"
  obtain b where b: "conflict_setting ?i (new_mapper Mapper003) = (new_mapper Mapper003)\<lparr>m_has_bus_conflicts := b\<rparr>"
    by (rule conflict_setting_new)
  have f: "fresh ?m" using fresh_new [of ?i Mapper003] unfolding b init_work_ram_conflicts by (simp add: fresh_def)
  have c: "m_chip ?m = Mapper003" "m_own_ram ?m = []"
    unfolding b init_work_ram_conflicts by (simp_all add: init_work_ram_def new_mapper_def Let_def)
  have "ok (mapper_init ?i sample_prg sample_chr ?m) loaded"
    by (rule mapper_init_ok [OF f _ c(2)]) (simp_all add: c(1) sample_fits)
  then obtain m1 where "mapper_init ?i sample_prg sample_chr ?m = Some m1" by (auto simp: ok_iff)
  moreover have "mapper_create (ri_mapper_number ?i) = Some (new_mapper Mapper003)"
    by (simp add: sample_rom_info_def sample_create)
  ultimately have "\<exists>m. build_cartridge ?i sample_prg sample_chr [] = Some m"
    unfolding build_cartridge_def conflict_setting_def [symmetric] Let_def by simp
  then obtain m where m: "build_cartridge ?i sample_prg sample_chr [] = Some m" by blast
  have i: "\<not> ri_has_battery ?i" "0 < ri_work_ram_size ?i" "ri_work_ram_size ?i < 8" "nat (ri_work_ram_size ?i) = 2"
    by (simp_all add: sample_rom_info_def rom_info0_def)
  show ?thesis
    using m small_work_ram_overruns [OF m i(1-3), of "0x67FF" 0] small_work_ram_overruns [OF m i(1-3), of "0x6800" 0]
    unfolding i(4) by simp
qed

section \<open>A sample image\<close>

text \<open>The board 003 with 32 KB of PRG ROM that holds \<^verbatim>\<open>NOP\<close> and 8 KB of CHR ROM.\<close>

definition silent_env :: audio_env where
  "silent_env = \<lparr>env_mix = (\<lambda>_. 0)\<rparr>"

definition sample_header :: "u8 list" where
  "sample_header = [0x4E, 0x45, 0x53, 0x1A, 2, 1, 0x30, 0, 0, 0, 0, 0, 0, 0, 0, 0]"

definition sample_image :: "u8 list" where
  "sample_image = sample_header @ replicate 0x8000 0xEA @ replicate 0x2000 0"

fun console_machine :: "console \<Rightarrow> nes option" where
  "console_machine (Running s) = Some s"
| "console_machine (Unloaded _) = None"

definition sample_nes :: nes where
  "sample_nes = the (Option.bind (load_rom silent_env False [] sample_image new_console) (console_machine \<circ> snd))"

lemma sample_header_length: "length sample_header = 16"
  by (simp add: sample_header_def)

lemma sample_image_bytes [simp]:
  "length sample_image = 40976" "i < 16 \<Longrightarrow> sample_image ! i = sample_header ! i"
  by (simp_all add: sample_image_def sample_header_length nth_append)

lemma sample_info:
  "\<exists>info. resolve_info [] sample_image = Some info \<and> ri_mapper_number info = 3 \<and> ri_prg_banks info = 2 \<and>
     ri_chr_banks info = 1 \<and> \<not> ri_has_trainer info \<and> ri_work_ram_size info = 0"
  by (simp add: resolve_info_def parse_header_def header_size_def rom_info0_def sample_header_def Let_def
      is_supported_def supported_mappers_def)

lemma sample_playable: "playable [] sample_image"
proof -
  show ?thesis using sample_info sample_create
    by (auto simp: playable_def is_valid_def sample_header_def header_size_def prg_bytes_def chr_bytes_def ram_fits_def
        new_mapper_def)
qed

lemma sample_load:
  "\<exists>vs. load_rom silent_env False [] sample_image new_console = Some (0, Running sample_nes) \<and>
     clock_ok sample_nes \<and> wired vs sample_nes"
proof -
  have "ok (load_rom silent_env False [] sample_image new_console)
      (\<lambda>(r, con'). r = 0 \<and> (\<exists>s info. con' = Running s \<and> resolve_info [] sample_image = Some info \<and>
        clock_ok s \<and> wired (ri_is_vs_system info) s))"
    by (rule load_rom_ok [OF sample_playable]) (simp_all add: new_console_def new_mixer_ok)
  then obtain s vs where s: "load_rom silent_env False [] sample_image new_console = Some (0, Running s)"
    "clock_ok s" "wired vs s" by (auto simp: ok_iff)
  then have "sample_nes = s" by (simp add: sample_nes_def)
  with s show ?thesis by blast
qed

lemma sample_clock [simp]: "clock_ok sample_nes"
  using sample_load by blast

lemma sample_env: "program_env sample_nes"
  using sample_load wired_env by blast

section \<open>Loading\<close>

lemma playableI:
  assumes "is_valid data" "resolve_info db_text data = Some info"
    "header_size info + prg_bytes info + chr_bytes info \<le> length data"
    "mapper_create (ri_mapper_number info) = Some m0" "unat (get_prg_page_size (m_chip m0)) \<le> prg_bytes info"
    "ri_has_battery info \<or> ri_work_ram_size info \<le> 0 \<or> 8 \<le> ri_work_ram_size info \<and> ri_work_ram_size info < 2 ^ 22"
  shows "playable db_text data"
  using assms by (simp add: playable_def ram_fits_def)

text \<open>
  C25: a complete image is loaded. Let the image have a valid header and hold all the banks that the header, as the database
  corrects it, announces; let its board be one of those modelled and its PRG ROM hold at least one bank of the board's size; let its description
  say that there is a battery, or give no work RAM, or give 8 KB or more (below 4 GB); and let the mixer be in its invariant, as a new
  console's is. Then the call returns 0, the machine satisfies the invariant under which nothing of it
  ever faults, and every address of the CPU is decoded by the device that the hardware has
  there, Vs. System or not.
\<close>

theorem load_rom_builds_machine:
  assumes header: "is_valid data" "resolve_info db_text data = Some info"
    and complete: "header_size info + prg_bytes info + chr_bytes info \<le> length data"
    and board: "mapper_create (ri_mapper_number info) = Some m0" "unat (get_prg_page_size (m_chip m0)) \<le> prg_bytes info"
    and ram: "ri_has_battery info \<or> ri_work_ram_size info \<le> 0 \<or> 8 \<le> ri_work_ram_size info \<and> ri_work_ram_size info < 2 ^ 22"
    and mixer: "mixer_ok (console_mixer con)"
  shows "\<exists>s. load_rom E topology db_text data con = Some (0, Running s) \<and> clock_ok s \<and>
    (\<forall>a. mm_read_handlers (n_mem s) a = read_map (ri_is_vs_system info) a \<and>
         mm_write_handlers (n_mem s) a = write_map (ri_is_vs_system info) a)"
proof -
  obtain s i where "load_rom E topology db_text data con = Some (0, Running s)"
    "resolve_info db_text data = Some i" "clock_ok s" "wired (ri_is_vs_system i) s"
    using load_rom_ok [OF playableI [OF header complete board ram] mixer, of E topology] by (auto simp: ok_iff)
  then show ?thesis using header(2) by (auto simp: wired_def)
qed

lemma load_rom_builds_machine_witness:
  "\<exists>s info. load_rom silent_env False [] sample_image new_console = Some (0, Running s) \<and>
    resolve_info [] sample_image = Some info \<and> clock_ok s \<and>
    (\<forall>a. mm_read_handlers (n_mem s) a = read_map (ri_is_vs_system info) a \<and>
         mm_write_handlers (n_mem s) a = write_map (ri_is_vs_system info) a)"
proof -
  obtain info where i: "resolve_info [] sample_image = Some info" "ri_mapper_number info = 3"
    "header_size info + prg_bytes info + chr_bytes info \<le> length sample_image" "0x8000 \<le> prg_bytes info"
    "ri_work_ram_size info \<le> 0"
    using sample_info by (auto simp: header_size_def prg_bytes_def chr_bytes_def)
  have v: "is_valid sample_image" using sample_playable by (simp add: playable_def)
  show ?thesis
    using load_rom_builds_machine [OF v i(1,3), of "new_mapper Mapper003" new_console silent_env False] i
    by (auto simp: sample_create new_mapper_def new_console_def new_mixer_ok)
qed

text \<open>
  C26: the size of the image is not checked against its header: when it is shorter than the
  banks that the header announces, loading it reads past its end.
\<close>

theorem truncated_image_is_undefined:
  assumes "is_valid data" "resolve_info db_text data = Some info"
    "length data < header_size info + prg_bytes info + chr_bytes info"
  shows "load_rom E topology db_text data con = None"
  using assms by (auto simp: load_rom_def slice_def)

lemma truncated_image_is_undefined_witness:
  "load_rom silent_env False [] (sample_header @ [0xEA]) new_console = None"
proof -
  have h: "(sample_header @ [0xEA]) ! i = sample_header ! i" if "i < 16" for i
    using that by (simp add: sample_header_length nth_append)
  have l: "length (sample_header @ [0xEA]) = 17" by (simp add: sample_header_length)
  have "\<exists>info. resolve_info [] (sample_header @ [0xEA]) = Some info \<and> ri_prg_banks info = 2 \<and>
      ri_chr_banks info = 1 \<and> \<not> ri_has_trainer info"
    unfolding resolve_info_def parse_header_def
    by (simp add: l h header_size_def rom_info0_def Let_def is_supported_def supported_mappers_def)
      (simp add: sample_header_def)
  then obtain info where i: "resolve_info [] (sample_header @ [0xEA]) = Some info" "ri_prg_banks info = 2"
    "ri_chr_banks info = 1" "\<not> ri_has_trainer info" by blast
  have "is_valid (sample_header @ [0xEA])" by (simp add: is_valid_def l h) (simp add: sample_header_def)
  from truncated_image_is_undefined [OF this i(1)] show ?thesis
    by (simp add: sample_header_length header_size_def prg_bytes_def chr_bytes_def i)
qed

section \<open>Reset\<close>

lemma rom_read:
  assumes "loaded m" "0x8000 \<le> addr"
  shows "mapper_read_ram ob addr m = load_ptr (m_prg_pages m (hi_byte addr)) (lo_byte addr) m"
proof -
  have "0x8000 div 256 \<le> unat addr div 256"
    by (rule div_le_mono) (use assms(2) in \<open>simp add: word_le_nat_alt\<close>)
  then have "0x80 \<le> hi_byte addr" by (simp add: word_le_nat_alt unat_hi_byte)
  then have "m_prg_memory_access m (hi_byte addr) = READ_WRITE"
    using assms(1) by (simp add: loaded_def rom_window_def)
  then show ?thesis
    by (simp add: mapper_read_ram_def base_read_ram_def allow_register_read_def split: mapper_chip.split)
qed

text \<open>
  C27: a reset clears the registers, disables interrupts, sets the stack pointer to $FD and the
  program counter to the word the cartridge holds at $FFFC, and lets eight cycles pass. A hard
  reset also clears the internal RAM; a soft one keeps it.
\<close>

theorem reset_starts_program:
  assumes "clock_ok s" "wired vs s"
  shows "\<exists>t lo hi. console_reset E soft s = Some t \<and> clock_ok t \<and>
    cpu_a (n_cpu t) = 0 \<and> cpu_x (n_cpu t) = 0 \<and> cpu_y (n_cpu t) = 0 \<and> cpu_sp (n_cpu t) = 0xFD \<and>
    cpu_ps (n_cpu t) = ps_INTERRUPT \<and> cpu_cycle_count (n_cpu t) = 7 \<and>
    cpu_pc (n_cpu t) = make_word hi lo \<and>
    mapper_read_ram 0 0xFFFC (n_mapper s) = Some lo \<and> mapper_read_ram 0 0xFFFD (n_mapper s) = Some hi \<and>
    mm_internal_ram (n_mem t) = (if soft then mm_internal_ram (n_mem s) else replicate 0x800 0)"
proof -
  let ?s = "s\<lparr>n_mem := memory_reset soft (n_mem s), n_ppu := ppu_reset soft (n_ppu s), n_apu := apu_reset soft (n_apu s)\<rparr>"
  have ok: "nes_ok ?s"
    using assms(1) ppu_reset_ok apu_reset_ok
    by (auto simp: clock_ok_def nes_ok_def ppu_bus_of_def bus_ok_def memory_reset_def)
  obtain lo hi s1 s2 t where r: "memory_read 0xFFFC (cpu_do cpu_clear_lines ?s) = Some (lo, s1)"
    "memory_read 0xFFFD s1 = Some (hi, s2)" "cpu_reset E soft ?s = Some t" "clock_ok t"
    "regs (n_cpu t) = regs (cpu_power_up (make_word hi lo) (n_cpu s2))" "cpu_cycle_count (n_cpu t) = 7"
    "ram_of t = ram_of ?s"
    using cpu_reset_state [OF ok, of E soft] by blast
  have l: "loaded (n_mapper s)" using assms(1) by (simp add: clock_ok_def nes_ok_def ppu_bus_of_def bus_ok_def)
  have map: "read_map vs 0xFFFC = H_Mapper" "read_map vs 0xFFFD = H_Mapper" by (simp_all add: read_map_def)
  have h: "mm_read_handlers (n_mem s) = read_map vs" using assms(2) by (simp add: wired_def)
  have "n_mapper s1 = n_mapper s \<and> mm_read_handlers (n_mem s1) = read_map vs \<and>
      mapper_read_ram 0 0xFFFC (n_mapper s) = Some lo"
    using r(1) by (auto simp: memory_read_def mapper_dev_read_def bind_eq_Some_conv memory_reset_def map h
        memory_set_open_bus_def rom_read [OF l] cpu_do_def split: if_splits)
  moreover from this have "mapper_read_ram 0 0xFFFD (n_mapper s) = Some hi"
    using r(2) by (auto simp: memory_read_def mapper_dev_read_def bind_eq_Some_conv map rom_read [OF l])
  moreover have "console_reset E soft s = Some (t\<lparr>n_ctl := control_reset soft (n_ctl t)\<rparr>)"
    by (simp add: console_reset_def Let_def r(3))
  moreover have "clock_ok (t\<lparr>n_ctl := control_reset soft (n_ctl t)\<rparr>)"
    using r(4) by (simp add: clock_ok_def nes_ok_def in_step_def ppu_bus_of_def)
  moreover have "ram_of ?s = (if soft then ram_of s else replicate 0x800 0)"
    using assms(1) by (simp add: memory_reset_def clock_ok_def nes_ok_def)
  ultimately show ?thesis
    using r(6,7) regsD [OF r(5)]
    by (intro exI [of _ "t\<lparr>n_ctl := control_reset soft (n_ctl t)\<rparr>"] exI [of _ lo] exI [of _ hi])
      (simp add: cpu_power_up_def)
qed

lemma reset_starts_program_witness:
  "\<exists>t lo hi. console_reset silent_env True sample_nes = Some t \<and> clock_ok t \<and>
    cpu_a (n_cpu t) = 0 \<and> cpu_x (n_cpu t) = 0 \<and> cpu_y (n_cpu t) = 0 \<and> cpu_sp (n_cpu t) = 0xFD \<and>
    cpu_ps (n_cpu t) = ps_INTERRUPT \<and> cpu_cycle_count (n_cpu t) = 7 \<and>
    cpu_pc (n_cpu t) = make_word hi lo \<and>
    mapper_read_ram 0 0xFFFC (n_mapper sample_nes) = Some lo \<and>
    mapper_read_ram 0 0xFFFD (n_mapper sample_nes) = Some hi \<and>
    mm_internal_ram (n_mem t) = mm_internal_ram (n_mem sample_nes)"
proof -
  obtain vs where "wired vs sample_nes" using sample_load by blast
  from reset_starts_program [OF sample_clock this, of silent_env True] show ?thesis by simp
qed

section \<open>Frames\<close>

text \<open>
  C28: the frame loop ends. From any state of a loaded machine it returns, without a fault,
  after the frame counter of the PPU has moved, by at most 3661 frames, and the number it
  reports as completed is that of the frame before.
\<close>

theorem frame_ends:
  assumes "clock_ok s"
  shows "\<exists>t n. run_frame E s = Some t \<and> clock_ok t \<and> 1 \<le> n \<and> n \<le> 3661 \<and>
    ppu_frame_count (n_ppu t) = ppu_frame_count (n_ppu s) + of_nat n \<and>
    n_last_frame t = (if ppu_frame_count (n_ppu t) = 0 then 0 else ppu_frame_count (n_ppu t) - 1)"
proof -
  have b: "EXEC_DOTS div FRAME_DOTS + 1 \<le> 3661" by (simp add: EXEC_DOTS_def FRAME_DOTS_def RUN_DOTS_def ACCESS_def)
  obtain t n where t: "run_frame E s = Some t" "clock_ok t" "1 \<le> n" "n \<le> EXEC_DOTS div FRAME_DOTS + 1"
    "ppu_frame_count (n_ppu t) = ppu_frame_count (n_ppu s) + of_nat n"
    "n_last_frame t = (if ppu_frame_count (n_ppu t) > 0 then ppu_frame_count (n_ppu t) - 1 else 0)"
    using run_frame_ok [OF assms] unfolding ok_iff by blast
  from t(6) have "n_last_frame t = (if ppu_frame_count (n_ppu t) = 0 then 0 else ppu_frame_count (n_ppu t) - 1)"
    by (simp add: word_gt_0)
  with t(1-3,5) order_trans [OF t(4) b] show ?thesis by blast
qed

lemma frame_ends_witness:
  "\<exists>t n. run_frame silent_env sample_nes = Some t \<and> clock_ok t \<and> 1 \<le> n \<and> n \<le> 3661 \<and>
    ppu_frame_count (n_ppu t) = ppu_frame_count (n_ppu sample_nes) + of_nat n \<and>
    n_last_frame t = (if ppu_frame_count (n_ppu t) = 0 then 0 else ppu_frame_count (n_ppu t) - 1)"
  by (rule frame_ends [OF sample_clock])

end
