(* ===== verification/Cpu_Stack.thy ===== *)
theory Cpu_Stack
  imports Cpu_Frame
begin

text \<open>
  The stack sequences of the CPU on the level of \<open>agrees\<close>: words pushed and popped, the
  interrupt sequence, and the calls and returns of subroutines.
\<close>

declare One_nat_def [simp del]

abbreviation stack_at :: "u8 \<Rightarrow> nat" where
  "stack_at sp \<equiv> 0x100 + unat sp"

lemma agrees_push_word:
  assumes "agrees r xs s t" "program_env s"
  shows "ok (cpu_push_word E w t) (agrees (r\<lparr>cpu_sp := cpu_sp r - 2\<rparr>)
    (xs[stack_at (cpu_sp r) := hi_byte w, stack_at (cpu_sp r - 1) := lo_byte w]) s)"
  unfolding cpu_push_word_def
proof (rule ok_bindI [OF agrees_push [OF assms]])
  fix u assume u: "agrees (r\<lparr>cpu_sp := cpu_sp r - 1\<rparr>) (xs[stack_at (cpu_sp r) := hi_byte w]) s u"
  have "cpu_sp r - 1 - 1 = cpu_sp r - 2" by simp
  with agrees_push [OF u assms(2), of E "lo_byte w"]
  show "ok (cpu_push E (lo_byte w) u) (agrees (r\<lparr>cpu_sp := cpu_sp r - 2\<rparr>)
      (xs[stack_at (cpu_sp r) := hi_byte w, stack_at (cpu_sp r - 1) := lo_byte w]) s)" by simp
qed

lemma agrees_pop_word:
  assumes "agrees r xs s t" "program_env s"
  shows "ok (cpu_pop_word E t) (\<lambda>(w, u). agrees (r\<lparr>cpu_sp := cpu_sp r + 2\<rparr>) xs s u \<and>
    w = make_word (xs ! stack_at (cpu_sp r + 2)) (xs ! stack_at (cpu_sp r + 1)))"
  unfolding cpu_pop_word_def
proof (rule ok_bindI [OF agrees_pop [OF assms]], unfold split_paired_all prod.case, elim conjE)
  fix lo u assume u: "agrees (r\<lparr>cpu_sp := cpu_sp r + 1\<rparr>) xs s u" and lo: "lo = xs ! stack_at (cpu_sp r + 1)"
  have "cpu_sp r + 1 + 1 = cpu_sp r + 2" by simp
  with agrees_pop [OF u assms(2), of E] lo
  show "ok (Option.bind (cpu_pop E u) (\<lambda>(hi, s). Some (make_word hi lo, s))) (\<lambda>(w, u).
      agrees (r\<lparr>cpu_sp := cpu_sp r + 2\<rparr>) xs s u \<and>
      w = make_word (xs ! stack_at (cpu_sp r + 2)) (xs ! stack_at (cpu_sp r + 1)))"
    by (auto elim!: ok_mono)
qed

lemma agrees_read_word:
  assumes "agrees r xs s t" "program_env s"
  shows "ok (cpu_memory_read_word E addr t) (\<lambda>(w, u). agrees r xs s u)"
  unfolding cpu_memory_read_word_def
  by (rule ok_bindI [OF agrees_read [OF assms]], unfold split_paired_all prod.case, elim conjE,
      rule ok_bindI [OF agrees_read [OF _ assms(2)]], assumption) auto

lemma agrees_flags:
  assumes "agrees r xs s t"
  shows "agrees (r\<lparr>cpu_ps := cpu_ps r OR b\<rparr>) xs s (cpu_do (set_flags b) t)"
proof -
  have "cpu_do (set_flags b) t = cpu_do (\<lambda>c. c\<lparr>cpu_ps := cpu_ps r OR b\<rparr>) t"
    by (simp add: cpu_do_def set_flags_def agrees_ps [OF assms])
  with agrees_set(3) [OF assms] show ?thesis by simp
qed

lemma agrees_set_pc: "agrees r xs s t \<Longrightarrow> agrees (r\<lparr>cpu_pc := w\<rparr>) xs s (cpu_do (set_pc w) t)"
  using agrees_set(2) by (simp add: cpu_do_def set_pc_def)

section \<open>Interrupts\<close>

lemma agrees_take_vector:
  assumes "agrees r xs s t" "program_env s"
  shows "ok (take_vector E flags t) (\<lambda>u. \<exists>w. agrees
    (r\<lparr>cpu_sp := cpu_sp r - 1, cpu_ps := cpu_ps r OR ps_INTERRUPT, cpu_pc := w\<rparr>) (xs[stack_at (cpu_sp r) := flags]) s u)"
proof -
  let ?r = "r\<lparr>cpu_sp := cpu_sp r - 1\<rparr>" and ?xs = "xs[stack_at (cpu_sp r) := flags]"
  have nmi: "agrees r xs s (if b then cpu_do (\<lambda>c. c\<lparr>cpu_need_nmi := False\<rparr>) t else t)" for b
    using agrees_set(4) [OF assms(1)] assms(1) by simp
  have vec: "ok (Option.bind (cpu_memory_read_word E a (cpu_do (set_flags ps_INTERRUPT) u))
      (\<lambda>(addr, s). Some (cpu_do (set_pc addr) s)))
      (\<lambda>u. \<exists>w. agrees (?r\<lparr>cpu_ps := cpu_ps r OR ps_INTERRUPT, cpu_pc := w\<rparr>) ?xs s u)" if "agrees ?r ?xs s u" for a u
  proof (rule ok_bindI [OF agrees_read_word [OF agrees_flags [OF that] assms(2)]], unfold split_paired_all prod.case ok_Some)
    fix w v assume "agrees (?r\<lparr>cpu_ps := cpu_ps ?r OR ps_INTERRUPT\<rparr>) ?xs s v"
    from agrees_set_pc [OF this, of w] show "\<exists>w'. agrees (?r\<lparr>cpu_ps := cpu_ps r OR ps_INTERRUPT, cpu_pc := w'\<rparr>) ?xs s (cpu_do (set_pc w) v)"
      by (intro exI [of _ w]) simp
  qed
  show ?thesis
    unfolding take_vector_def Let_def by (rule ok_bindI [OF agrees_push [OF nmi assms(2)]]) (rule vec)
qed

lemma agrees_irq:
  assumes "clock_ok s" "program_env s"
  shows "ok (cpu_irq E s) (\<lambda>t. \<exists>w. agrees ((regs (n_cpu s))\<lparr>cpu_sp := cpu_sp (n_cpu s) - 3,
      cpu_ps := cpu_ps (n_cpu s) OR ps_INTERRUPT, cpu_pc := w\<rparr>)
    ((ram_of s)[stack_at (cpu_sp (n_cpu s)) := hi_byte (cpu_pc (n_cpu s)),
       stack_at (cpu_sp (n_cpu s) - 1) := lo_byte (cpu_pc (n_cpu s)),
       stack_at (cpu_sp (n_cpu s) - 2) := cpu_ps (n_cpu s) OR ps_RESERVED]) s t)"
proof -
  let ?r = "regs (n_cpu s)" and ?sp = "cpu_sp (n_cpu s)" and ?pc = "cpu_pc (n_cpu s)"
  let ?xs = "(ram_of s)[stack_at ?sp := hi_byte ?pc, stack_at (?sp - 1) := lo_byte ?pc]"
  have start: "agrees ?r (ram_of s) s s" using assms(1) by (simp add: agrees_def)
  note pushed = agrees_push_word [OF _ assms(2), of ?r "ram_of s" _ E ?pc]
  have fin: "ok (take_vector E (cpu_ps (n_cpu t) OR ps_RESERVED) t) (\<lambda>u. \<exists>w. agrees (?r\<lparr>cpu_sp := ?sp - 3,
      cpu_ps := cpu_ps (n_cpu s) OR ps_INTERRUPT, cpu_pc := w\<rparr>) (?xs[stack_at (?sp - 2) := cpu_ps (n_cpu s) OR ps_RESERVED]) s u)"
    if t: "agrees (?r\<lparr>cpu_sp := ?sp - 2\<rparr>) ?xs s t" for t
  proof -
    have "?sp - 2 - 1 = ?sp - 3" by simp
    with agrees_take_vector [OF t assms(2), of E "cpu_ps (n_cpu t) OR ps_RESERVED"] agrees_ps [OF t]
    show ?thesis by simp
  qed
  have push: "ok (cpu_push_word E (cpu_pc (n_cpu t)) t) (agrees (?r\<lparr>cpu_sp := ?sp - 2\<rparr>) ?xs s)"
    if t: "agrees ?r (ram_of s) s t" for t
    using agrees_push_word [OF t assms(2), of E ?pc] agrees_pc [OF t] by simp
  show ?thesis
    unfolding cpu_irq_def
    by (rule ok_bindI [OF agrees_dummy [OF start assms(2)]], rule ok_bindI [OF agrees_dummy [OF _ assms(2)]], assumption,
        rule ok_bindI [OF push], assumption) (rule fin)
qed

lemma agrees_rti:
  assumes "agrees r xs s t" "program_env s"
  shows "ok (op_rti E t) (agrees (r\<lparr>cpu_ps := xs ! stack_at (cpu_sp r + 1) AND 0xCF, cpu_sp := cpu_sp r + 3,
    cpu_pc := make_word (xs ! stack_at (cpu_sp r + 3)) (xs ! stack_at (cpu_sp r + 2))\<rparr>) xs s)"
proof -
  let ?f = "xs ! stack_at (cpu_sp r + 1)"
  let ?r = "r\<lparr>cpu_sp := cpu_sp r + 1, cpu_ps := ?f AND 0xCF\<rparr>"
  have ps: "agrees ?r xs s (cpu_do (set_ps ?f) u)" if "agrees (r\<lparr>cpu_sp := cpu_sp r + 1\<rparr>) xs s u" for u
    using agrees_set(3) [OF that, of "?f AND 0xCF"] by (simp add: cpu_do_def set_ps_def)
  have word: "ok (Option.bind (cpu_pop_word E (cpu_do (set_ps ?f) u)) (\<lambda>(addr, s). Some (cpu_do (set_pc addr) s)))
      (agrees (r\<lparr>cpu_ps := ?f AND 0xCF, cpu_sp := cpu_sp r + 3,
        cpu_pc := make_word (xs ! stack_at (cpu_sp r + 3)) (xs ! stack_at (cpu_sp r + 2))\<rparr>) xs s)"
    if u: "agrees (r\<lparr>cpu_sp := cpu_sp r + 1\<rparr>) xs s u" for u
  proof (rule ok_bindI [OF agrees_pop_word [OF ps [OF u] assms(2)]], unfold split_paired_all prod.case ok_Some, elim conjE)
    fix w v assume v: "agrees (?r\<lparr>cpu_sp := cpu_sp ?r + 2\<rparr>) xs s v"
      "w = make_word (xs ! stack_at (cpu_sp ?r + 2)) (xs ! stack_at (cpu_sp ?r + 1))"
    have "cpu_sp r + 1 + 2 = cpu_sp r + 3" "cpu_sp r + 1 + 1 = cpu_sp r + 2" by simp_all
    with agrees_set_pc [OF v(1), of w] v(2)
    show "agrees (r\<lparr>cpu_ps := ?f AND 0xCF, cpu_sp := cpu_sp r + 3,
        cpu_pc := make_word (xs ! stack_at (cpu_sp r + 3)) (xs ! stack_at (cpu_sp r + 2))\<rparr>) xs s (cpu_do (set_pc w) v)"
      by simp
  qed
  show ?thesis
    unfolding op_rti_def Let_def
    by (rule ok_bindI [OF agrees_dummy [OF assms]], rule ok_bindI [OF agrees_pop [OF _ assms(2)]], assumption,
        unfold split_paired_all prod.case, elim conjE, simp only:, rule word)
qed

section \<open>Subroutines\<close>

lemma agrees_jsr:
  assumes "clock_ok s" "program_env s"
  shows "ok (op_jsr E s) (\<lambda>t. \<exists>w. agrees ((regs (n_cpu s))\<lparr>cpu_sp := cpu_sp (n_cpu s) - 2, cpu_pc := w\<rparr>)
    ((ram_of s)[stack_at (cpu_sp (n_cpu s)) := hi_byte (cpu_pc (n_cpu s) + 1),
       stack_at (cpu_sp (n_cpu s) - 1) := lo_byte (cpu_pc (n_cpu s) + 1)]) s t)"
proof -
  let ?r = "regs (n_cpu s)" and ?sp = "cpu_sp (n_cpu s)" and ?pc = "cpu_pc (n_cpu s) + 1"
  let ?xs = "(ram_of s)[stack_at ?sp := hi_byte ?pc, stack_at (?sp - 1) := lo_byte ?pc]"
  let ?r1 = "?r\<lparr>cpu_pc := ?pc\<rparr>" and ?r2 = "?r\<lparr>cpu_pc := ?pc, cpu_sp := ?sp - 2\<rparr>"
  have start: "agrees ?r (ram_of s) s s" using assms(1) by (simp add: agrees_def)
  have push: "ok (cpu_push_word E (cpu_pc (n_cpu t)) t) (agrees ?r2 ?xs s)" if t: "agrees ?r1 (ram_of s) s t" for t
    using agrees_push_word [OF t assms(2), of E ?pc] agrees_pc [OF t] by simp
  have fin: "ok (Option.bind (read_byte E t) (\<lambda>(hi, s). Some (cpu_do (set_pc (make_word hi lo)) s)))
      (\<lambda>t. \<exists>w. agrees (?r\<lparr>cpu_sp := ?sp - 2, cpu_pc := w\<rparr>) ?xs s t)" if t: "agrees ?r2 ?xs s t" for t lo
  proof (rule ok_bindI [OF agrees_byte [OF t assms(2)]], unfold split_paired_all prod.case ok_Some)
    fix hi u assume "agrees (?r2\<lparr>cpu_pc := cpu_pc ?r2 + 1\<rparr>) ?xs s u"
    from agrees_set_pc [OF this, of "make_word hi lo"]
    show "\<exists>w. agrees (?r\<lparr>cpu_sp := ?sp - 2, cpu_pc := w\<rparr>) ?xs s (cpu_do (set_pc (make_word hi lo)) u)"
      by (intro exI [of _ "make_word hi lo"]) simp
  qed
  have b: "ok (read_byte E s) (\<lambda>(v, u). agrees ?r1 (ram_of s) s u)" using agrees_byte [OF start assms(2)] by simp
  show ?thesis
    unfolding op_jsr_def
    by (rule ok_bindI [OF b], unfold split_paired_all prod.case, rule ok_bindI [OF agrees_dummy [OF _ assms(2)]], assumption,
        rule ok_bindI [OF push], assumption) (rule fin)
qed

lemma agrees_rts:
  assumes "agrees r xs s t" "program_env s"
  shows "ok (op_rts E t) (agrees (r\<lparr>cpu_sp := cpu_sp r + 2,
    cpu_pc := make_word (xs ! stack_at (cpu_sp r + 2)) (xs ! stack_at (cpu_sp r + 1)) + 1\<rparr>) xs s)"
proof -
  let ?w = "make_word (xs ! stack_at (cpu_sp r + 2)) (xs ! stack_at (cpu_sp r + 1))"
  have fin: "ok (Option.bind (dummy_read E u) (\<lambda>s. Some (cpu_do (set_pc (?w + 1)) s)))
      (agrees (r\<lparr>cpu_sp := cpu_sp r + 2, cpu_pc := ?w + 1\<rparr>) xs s)" if "agrees (r\<lparr>cpu_sp := cpu_sp r + 2\<rparr>) xs s u" for u
    by (rule ok_bindI [OF agrees_dummy [OF that assms(2)]])
      (use agrees_set_pc [of "r\<lparr>cpu_sp := cpu_sp r + 2\<rparr>" xs s _ "?w + 1"] in simp)
  show ?thesis
    unfolding op_rts_def
    by (rule ok_bindI [OF agrees_dummy [OF assms]], rule ok_bindI [OF agrees_pop_word [OF _ assms(2)]], assumption,
        unfold split_paired_all prod.case, elim conjE, simp only:, rule fin)
qed

end
