(* ===== verification/Cpu_Properties.thy ===== *)
theory Cpu_Properties
  imports Console_Properties Cpu_Stack Cpu_Facts
begin

text \<open>
  What the CPU promises: integer arithmetic in the adder, rotations that undo each other,
  bounded time for every access and every instruction, DMA transfers included, and a stack
  that brings interrupts and subroutines back to where they came from.
\<close>

declare One_nat_def [simp del]

section \<open>Arithmetic\<close>

text \<open>
  C29: the adder of ADC and SBC is integer addition with carry: the accumulator holds the sum
  modulo 256, C tells that it exceeded 255, V that the signed sum left -128..127, Z and N
  describe the result.
\<close>

theorem adder_is_addition:
  "unat (cpu_a (alu_add v c)) = (unat (cpu_a c) + unat v + of_bool (check_flag ps_CARRY c)) mod 256 \<and>
   (check_flag ps_CARRY (alu_add v c) \<longleftrightarrow> 255 < unat (cpu_a c) + unat v + of_bool (check_flag ps_CARRY c)) \<and>
   (check_flag ps_OVERFLOW (alu_add v c) \<longleftrightarrow>
     sint (cpu_a c) + sint v + of_bool (check_flag ps_CARRY c) \<notin> {- 128..127}) \<and>
   (check_flag ps_ZERO (alu_add v c) \<longleftrightarrow> cpu_a (alu_add v c) = 0) \<and>
   (check_flag ps_NEGATIVE (alu_add v c) \<longleftrightarrow> sint (cpu_a (alu_add v c)) < 0)"
proof -
  have k: "carry_in c = of_bool (check_flag ps_CARRY c)" by (simp add: carry_in_def)
  note f = alu_add_facts [where c = c and v = v, unfolded k]
  have "cpu_a (alu_add v c) = 0 \<longleftrightarrow> unat (cpu_a (alu_add v c)) = 0" by (simp only: unat_eq_0)
  moreover have "sint w < 0 \<longleftrightarrow> 128 \<le> unat w" for w :: u8
  proof -
    define n where "n = unat w"
    have "n < 256" using unsigned_less [where 'a = nat, of w] by (simp add: n_def)
    then show ?thesis unfolding sint_u8 n_def [symmetric] by auto
  qed
  moreover have "x < - 128 \<or> 127 < x \<longleftrightarrow> x \<notin> {- 128..127}" for x :: int by auto
  ultimately show ?thesis by (simp only: f of_nat_of_bool simp_thms)
qed

text \<open>The adder at the complement of its operand subtracts with borrow.\<close>

lemma alu_sub_facts:
  "int (unat (cpu_a (alu_add (v XOR 0xFF) c))) =
     (int (unat (cpu_a c)) - int (unat v) - of_bool (\<not> check_flag ps_CARRY c)) mod 256 \<and>
   (check_flag ps_CARRY (alu_add (v XOR 0xFF) c) \<longleftrightarrow>
     unat v + of_bool (\<not> check_flag ps_CARRY c) \<le> unat (cpu_a c)) \<and>
   (check_flag ps_OVERFLOW (alu_add (v XOR 0xFF) c) \<longleftrightarrow>
     sint (cpu_a c) - sint v - of_bool (\<not> check_flag ps_CARRY c) \<notin> {- 128..127})"
proof -
  have k: "carry_in c = of_bool (check_flag ps_CARRY c)" by (simp add: carry_in_def)
  note f = alu_add_facts [where c = c and v = "v XOR 0xFF", unfolded k]
  have lt: "unat v < 256" "unat (cpu_a c) < 256" using unsigned_less [where 'a = nat, of v]
    unsigned_less [where 'a = nat, of "cpu_a c"] by simp_all
  have ff: "(0xFF :: u8) = - 1" by (subst mask_full [symmetric]) (simp add: mask_eq_exp_minus_1)
  from this have "v XOR 0xFF = NOT v" by (simp only: bit.xor_one_right)
  then have "v XOR 0xFF = - 1 - v" by (simp add: not_eq_complement)
  moreover have "unat (- 1 - v) = unat (- 1 :: u8) - unat v" by (rule unat_sub) simp
  moreover have "unat (- 1 :: u8) = 255" unfolding ff [symmetric] by (simp add: One_nat_def)
  ultimately have u: "unat (v XOR 0xFF) = 255 - unat v" by simp
  define n k where "n = unat v" and "k = unat (cpu_a c)"
  note nk = n_def [symmetric] k_def [symmetric]
  have s: "sint (v XOR 0xFF) = - sint v - 1"
    using lt(1) unfolding sint_u8 u nk by (auto simp: of_nat_diff)
  have sum: "int (k + (255 - n) + of_bool b) = (int k - int n - of_bool (\<not> b)) + 256" for b
    using lt(1) unfolding nk by (cases b) (simp_all add: of_nat_diff)
  have "int ((k + (255 - n) + of_bool b) mod 256) = (int k - int n - of_bool (\<not> b)) mod 256" for b
    by (simp only: zmod_int sum of_nat_numeral mod_add_self2)
  moreover have "255 < k + (255 - n) + of_bool b \<longleftrightarrow> n + of_bool (\<not> b) \<le> k" for b
    using lt(1) unfolding nk by (cases b) auto
  moreover have "sint (cpu_a c) + (- sint v - 1) + of_bool b = sint (cpu_a c) - sint v - of_bool (\<not> b)" for b
    by (cases b) simp_all
  moreover have "x < - 128 \<or> 127 < x \<longleftrightarrow> x \<notin> {- 128..127}" for x :: int by auto
  ultimately show ?thesis
    unfolding f u s nk by (simp only: of_nat_of_bool)
qed

lemma alu_add_result:
  "check_flag ps_ZERO (alu_add v c) \<longleftrightarrow> cpu_a (alu_add v c) = 0"
  "check_flag ps_NEGATIVE (alu_add v c) \<longleftrightarrow> 128 \<le> unat (cpu_a (alu_add v c))"
  "regs (alu_add v c) = (regs c)\<lparr>cpu_a := cpu_a (alu_add v c), cpu_ps := cpu_ps (alu_add v c)\<rparr>"
  "cpu_time (alu_add v c) = cpu_time c"
proof -
  show "check_flag ps_ZERO (alu_add v c) \<longleftrightarrow> cpu_a (alu_add v c) = 0"
    unfolding alu_add_facts(3) alu_add_facts(1) [symmetric] by (simp only: unat_eq_0)
  show "check_flag ps_NEGATIVE (alu_add v c) \<longleftrightarrow> 128 \<le> unat (cpu_a (alu_add v c))"
    unfolding alu_add_facts(4) alu_add_facts(1) [symmetric] ..
qed (simp_all add: alu_add_def Let_def set_a_def register_flags_def set_zn_flags_def set_flags_def clear_flags_def regs_def
    cpu_time_def)

text \<open>
  The operand of an instruction: the low byte that was fetched for an immediate one, the byte
  of the RAM where its address is decoded there. Reading it leaves the registers alone.
\<close>

lemma operand_value:
  assumes "clock_ok s" "oam_port s"
  shows "\<exists>v u. get_operand_value E s = Some (v, u) \<and> steady s u \<and>
    (cpu_inst_addr_mode (n_cpu s) < AM_ZERO \<longrightarrow> v = ucast (cpu_operand (n_cpu s))) \<and>
    (AM_ZERO \<le> cpu_inst_addr_mode (n_cpu s) \<and> mm_read_handlers (n_mem s) (cpu_operand (n_cpu s)) = H_Ram \<longrightarrow>
      v = ram_of s ! unat (cpu_operand (n_cpu s) AND 0x7FF))"
proof (cases "AM_ZERO \<le> cpu_inst_addr_mode (n_cpu s)")
  case True
  have "ok (cpu_memory_read E (cpu_operand (n_cpu s)) s) (\<lambda>(v, t). steady s t \<and>
      (mm_read_handlers (n_mem s) (cpu_operand (n_cpu s)) = H_Ram \<longrightarrow> v = ram_of s ! unat (cpu_operand (n_cpu s) AND 0x7FF)))"
    by (rule read_frame) (use assms in simp_all)
  then show ?thesis using True by (auto simp: ok_iff get_operand_value_def)
next
  case False
  with assms show ?thesis by (simp add: get_operand_value_def)
qed

text \<open>
  C30: SBC subtracts its operand with borrow. In a state in the invariant of the machine, with $2004 not decoded as RAM (the
  loader gives it to the PPU; a DMA transfer may come before the operand), the operation returns. With \<open>v\<close> the operand,
  the byte that was fetched for an immediate one or the byte of the RAM at its address where the RAM is decoded there, the
  accumulator holds \<open>a - v - (1 - C)\<close> modulo 256, C tells that there was no borrow, V that the signed difference
  left -128..127, Z and N describe the result; the other registers and the RAM stay.
\<close>

theorem sbc_is_subtraction:
  assumes "clock_ok s" "oam_port s"
  defines "a \<equiv> cpu_a (n_cpu s)" and "borrow \<equiv> \<not> check_flag ps_CARRY (n_cpu s)"
  shows "\<exists>v u t. get_operand_value E s = Some (v, u) \<and> sbc_op E s = Some t \<and> clock_ok t \<and>
    (cpu_inst_addr_mode (n_cpu s) < AM_ZERO \<longrightarrow> v = ucast (cpu_operand (n_cpu s))) \<and>
    (AM_ZERO \<le> cpu_inst_addr_mode (n_cpu s) \<and> mm_read_handlers (n_mem s) (cpu_operand (n_cpu s)) = H_Ram \<longrightarrow>
      v = ram_of s ! unat (cpu_operand (n_cpu s) AND 0x7FF)) \<and>
    int (unat (cpu_a (n_cpu t))) = (int (unat a) - int (unat v) - of_bool borrow) mod 256 \<and>
    (check_flag ps_CARRY (n_cpu t) \<longleftrightarrow> unat v + of_bool borrow \<le> unat a) \<and>
    (check_flag ps_OVERFLOW (n_cpu t) \<longleftrightarrow> sint a - sint v - of_bool borrow \<notin> {- 128..127}) \<and>
    (check_flag ps_ZERO (n_cpu t) \<longleftrightarrow> cpu_a (n_cpu t) = 0) \<and>
    (check_flag ps_NEGATIVE (n_cpu t) \<longleftrightarrow> 128 \<le> unat (cpu_a (n_cpu t))) \<and>
    regs (n_cpu t) = (regs (n_cpu s))\<lparr>cpu_a := cpu_a (n_cpu t), cpu_ps := cpu_ps (n_cpu t)\<rparr> \<and> ram_of t = ram_of s"
proof -
  obtain v u where v: "get_operand_value E s = Some (v, u)" and u: "steady s u"
    and o: "cpu_inst_addr_mode (n_cpu s) < AM_ZERO \<longrightarrow> v = ucast (cpu_operand (n_cpu s))"
      "AM_ZERO \<le> cpu_inst_addr_mode (n_cpu s) \<and> mm_read_handlers (n_mem s) (cpu_operand (n_cpu s)) = H_Ram \<longrightarrow>
        v = ram_of s ! unat (cpu_operand (n_cpu s) AND 0x7FF)"
    using operand_value [OF assms(1,2), of E] by blast
  let ?t = "cpu_do (alu_add (v XOR 0xFF)) u"
  have r: "regs (n_cpu u) = regs (n_cpu s)" using u by (simp add: steady_def)
  have a: "cpu_a (n_cpu u) = a" "check_flag ps_CARRY (n_cpu u) = (\<not> borrow)"
    using regsD [OF r] by (simp_all add: a_def borrow_def check_flag_def)
  have t: "sbc_op E s = Some ?t" by (simp add: sbc_op_def with_operand_def v)
  have "clock_ok ?t" "ram_of ?t = ram_of s"
    using u steady_ok [OF u] clock_ok_cpu [of u "alu_add (v XOR 0xFF) (n_cpu u)"]
    by (simp_all add: cpu_do_def alu_add_result(4) steady_def)
  with v t o alu_sub_facts [of v "n_cpu u", unfolded a not_not] alu_add_result(1,2) [of "v XOR 0xFF" "n_cpu u"]
    alu_add_result(3) [of "v XOR 0xFF" "n_cpu u", unfolded r]
  show ?thesis by (intro exI [of _ v] exI [of _ u] exI [of _ ?t]) (simp add: cpu_do_def)
qed

lemma sbc_is_subtraction_witness:
  "\<exists>v u t. get_operand_value silent_env sample_nes = Some (v, u) \<and> sbc_op silent_env sample_nes = Some t \<and>
    int (unat (cpu_a (n_cpu t))) = (int (unat (cpu_a (n_cpu sample_nes))) - int (unat v) -
      of_bool (\<not> check_flag ps_CARRY (n_cpu sample_nes))) mod 256"
  using sbc_is_subtraction [OF sample_clock sample_env [unfolded program_env_def, THEN conjunct1], of silent_env] by blast

lemma zn_carry: "bit (cpu_ps (set_zn_flags r c)) 0 = bit (cpu_ps c) 0"
  by (simp add: set_zn_flags_def ps_bits flag_positions)

lemma shift_carry:
  "fst (shift_with out f v c) = f (check_flag ps_CARRY c)"
  "check_flag ps_CARRY (snd (shift_with out f v c)) \<longleftrightarrow> v AND out \<noteq> 0"
proof -
  show "fst (shift_with out f v c) = f (check_flag ps_CARRY c)" by (simp add: shift_with_def Let_def)
  have "bit (cpu_ps (if b then set_flags ps_CARRY d else d)) 0 \<longleftrightarrow> b \<or> bit (cpu_ps d) 0" for b d
    by (simp add: ps_bits flag_positions)
  then show "check_flag ps_CARRY (snd (shift_with out f v c)) \<longleftrightarrow> v AND out \<noteq> 0"
    by (simp add: shift_with_def Let_def check_flag_bit(1) zn_carry ps_bits bit_or_iff flag_positions)
qed

lemma rotate_bits:
  fixes v :: u8
  shows "drop_bit 1 (push_bit 1 v OR (if b then 0x01 else 0x00)) OR (if v AND 0x80 \<noteq> 0 then 0x80 else 0x00) = v"
    "(push_bit 1 v OR (if b then 0x01 else 0x00)) AND 0x01 \<noteq> 0 \<longleftrightarrow> b"
    "push_bit 1 (drop_bit 1 v OR (if b then 0x80 else 0x00)) OR (if v AND 0x01 \<noteq> 0 then 0x01 else 0x00) = v"
    "(drop_bit 1 v OR (if b then 0x80 else 0x00)) AND 0x80 \<noteq> 0 \<longleftrightarrow> b"
proof -
  have c: "bit (if b then 0x80 else 0x00 :: u8) n \<longleftrightarrow> b \<and> n = 7" "bit (if b then 0x01 else 0x00 :: u8) n \<longleftrightarrow> b \<and> n = 0" for b n
    using flag_positions [of n] by (cases b; simp only: ps_defs if_True if_False bit_0_eq bot_apply simp_thms bot_bool_def)+
  have top: "bit v n \<Longrightarrow> n < 8" for v :: u8 and n by (drule bit_imp_le_length) simp
  note bits = bit_or_iff bit_push_bit_iff bit_drop_bit_eq o_apply c
  show "drop_bit 1 (push_bit 1 v OR (if b then 0x01 else 0x00)) OR (if v AND 0x80 \<noteq> 0 then 0x80 else 0x00) = v"
    unfolding and_0x80
  proof (rule bit_word_eqI)
    fix n assume "n < LENGTH(8)"
    then have "n < 7 \<or> n = 7" by auto
    then show "bit (drop_bit 1 (push_bit 1 v OR (if b then 0x01 else 0x00)) OR (if bit v 7 then 0x80 else 0x00)) n = bit v n"
      by (simp only: bits) auto
  qed
  show "(push_bit 1 v OR (if b then 0x01 else 0x00)) AND 0x01 \<noteq> 0 \<longleftrightarrow> b"
    unfolding and_0x01 by (simp only: bits) simp
  show "push_bit 1 (drop_bit 1 v OR (if b then 0x80 else 0x00)) OR (if v AND 0x01 \<noteq> 0 then 0x01 else 0x00) = v"
    unfolding and_0x01
  proof (rule bit_word_eqI)
    fix n assume n: "n < LENGTH(8)"
    show "bit (push_bit 1 (drop_bit 1 v OR (if b then 0x80 else 0x00)) OR (if bit v 0 then 0x01 else 0x00)) n = bit v n"
      using n by (simp only: bits, cases n) (auto simp: One_nat_def)
  qed
  show "(drop_bit 1 v OR (if b then 0x80 else 0x00)) AND 0x80 \<noteq> 0 \<longleftrightarrow> b"
    unfolding and_0x80 by (simp only: bits) (auto dest: top)
qed

text \<open>
  C31: ROR undoes ROL and ROL undoes ROR, the carry included: together they rotate nine bits.
\<close>

theorem rotations_undo:
  "(case rol v c of (r, d) \<Rightarrow> case ror r d of (w, e) \<Rightarrow>
      w = v \<and> check_flag ps_CARRY e = check_flag ps_CARRY c) \<and>
   (case ror v c of (r, d) \<Rightarrow> case rol r d of (w, e) \<Rightarrow>
      w = v \<and> check_flag ps_CARRY e = check_flag ps_CARRY c)"
  unfolding case_prod_unfold rol_def ror_def
  by (simp only: shift_carry rotate_bits simp_thms)

section \<open>Time\<close>

text \<open>
  C32: a read of the CPU takes at least one cycle, and at most 4202 when the DMA unit takes the
  bus first, whatever it has to transfer; a write takes exactly one. Neither ever faults.
\<close>

theorem access_time:
  assumes "clock_ok s"
  shows "(\<exists>v t k. cpu_memory_read E addr s = Some (v, t) \<and> clock_ok t \<and> 1 \<le> k \<and> k \<le> 4202 \<and>
      cpu_cycle_count (n_cpu t) = cpu_cycle_count (n_cpu s) + of_nat k) \<and>
    (\<exists>t. cpu_memory_write E addr w s = Some t \<and> clock_ok t \<and>
      cpu_cycle_count (n_cpu t) = cpu_cycle_count (n_cpu s) + 1)"
  using cpu_memory_read_ok [OF assms, of E addr] cpu_memory_write_ok [OF assms, of E addr w]
  by (fastforce simp: ok_iff spent_def)

lemma access_time_witness:
  "(\<exists>v t k. cpu_memory_read silent_env 0x2007 sample_nes = Some (v, t) \<and> clock_ok t \<and> 1 \<le> k \<and> k \<le> 4202 \<and>
      cpu_cycle_count (n_cpu t) = cpu_cycle_count (n_cpu sample_nes) + of_nat k) \<and>
    (\<exists>t. cpu_memory_write silent_env 0x2007 0xFF sample_nes = Some t \<and> clock_ok t \<and>
      cpu_cycle_count (n_cpu t) = cpu_cycle_count (n_cpu sample_nes) + 1)"
  by (rule access_time [OF sample_clock])

text \<open>
  C33: every instruction, official or not, with the interrupt that may follow it, returns
  without a fault, after at least one and at most 19 accesses' worth of cycles.
\<close>

theorem instruction_returns:
  assumes "clock_ok s"
  shows "\<exists>t k. cpu_exec E s = Some t \<and> clock_ok t \<and> 1 \<le> k \<and> k \<le> 19 * 4202 \<and>
    cpu_cycle_count (n_cpu t) = cpu_cycle_count (n_cpu s) + of_nat k"
  using cpu_exec_ok [OF assms] unfolding ok_iff spent_def ACCESS_def by blast

lemma instruction_returns_witness:
  "\<exists>t k. cpu_exec silent_env sample_nes = Some t \<and> clock_ok t \<and> 1 \<le> k \<and> k \<le> 19 * 4202 \<and>
    cpu_cycle_count (n_cpu t) = cpu_cycle_count (n_cpu sample_nes) + of_nat k"
  by (rule instruction_returns [OF sample_clock])

section \<open>The stack\<close>

lemma stack_cells:
  fixes xs :: "u8 list"
  assumes "length xs = 0x800"
  shows "xs[stack_at sp := a, stack_at (sp - 1) := b] ! stack_at sp = a"
    "xs[stack_at sp := a, stack_at (sp - 1) := b] ! stack_at (sp - 1) = b"
    "xs[stack_at sp := a, stack_at (sp - 1) := b, stack_at (sp - 2) := c] ! stack_at sp = a"
    "xs[stack_at sp := a, stack_at (sp - 1) := b, stack_at (sp - 2) := c] ! stack_at (sp - 1) = b"
    "xs[stack_at sp := a, stack_at (sp - 1) := b, stack_at (sp - 2) := c] ! stack_at (sp - 2) = c"
proof -
  have lt: "stack_at w < 0x800" for w
  proof -
    have "unat w < 256" using unsigned_less [where 'a = nat, of w] by simp
    then show ?thesis by linarith
  qed
  have ne: "stack_at (sp - 1) \<noteq> stack_at sp" "stack_at (sp - 2) \<noteq> stack_at sp" "stack_at (sp - 2) \<noteq> stack_at (sp - 1)"
    by (simp_all add: word_unat_eq_iff [symmetric] One_nat_def)
  show "xs[stack_at sp := a, stack_at (sp - 1) := b] ! stack_at sp = a"
    "xs[stack_at sp := a, stack_at (sp - 1) := b] ! stack_at (sp - 1) = b"
    "xs[stack_at sp := a, stack_at (sp - 1) := b, stack_at (sp - 2) := c] ! stack_at sp = a"
    "xs[stack_at sp := a, stack_at (sp - 1) := b, stack_at (sp - 2) := c] ! stack_at (sp - 1) = b"
    "xs[stack_at sp := a, stack_at (sp - 1) := b, stack_at (sp - 2) := c] ! stack_at (sp - 2) = c"
    using lt ne ne [symmetric] by (simp_all only: nth_list_update length_list_update assms if_True if_False simp_thms)
qed

text \<open>
  C34: an interrupt that is entered is left where it came: after the sequence has pushed the
  program counter and the flags, RTI, in any later state with the same stack pointer and
  those three bytes still on the stack, restores the program counter, the stack pointer and
  the flags, less the two that the register does not have.
\<close>

theorem interrupt_returns:
  assumes "clock_ok s" "program_env s"
  shows "\<exists>t. cpu_irq E s = Some t \<and> cpu_sp (n_cpu t) = cpu_sp (n_cpu s) - 3 \<and>
    cpu_ps (n_cpu t) = cpu_ps (n_cpu s) OR ps_INTERRUPT \<and>
    (\<forall>u. clock_ok u \<and> tables u = tables t \<and> cpu_sp (n_cpu u) = cpu_sp (n_cpu t) \<and>
       (\<forall>k \<in> {1, 2, 3}. ram_of u ! (0x100 + unat (cpu_sp (n_cpu t) + k)) = ram_of t ! (0x100 + unat (cpu_sp (n_cpu t) + k))) \<longrightarrow>
       (\<exists>w. op_rti E u = Some w \<and> cpu_pc (n_cpu w) = cpu_pc (n_cpu s) \<and> cpu_sp (n_cpu w) = cpu_sp (n_cpu s) \<and>
            cpu_ps (n_cpu w) = (cpu_ps (n_cpu s) OR ps_RESERVED) AND 0xCF))"
proof -
  let ?sp = "cpu_sp (n_cpu s)" and ?pc = "cpu_pc (n_cpu s)"
  let ?xs = "(ram_of s)[stack_at ?sp := hi_byte ?pc, stack_at (?sp - 1) := lo_byte ?pc,
    stack_at (?sp - 2) := cpu_ps (n_cpu s) OR ps_RESERVED]"
  obtain t w where t: "cpu_irq E s = Some t" and a: "agrees ((regs (n_cpu s))\<lparr>cpu_sp := ?sp - 3,
      cpu_ps := cpu_ps (n_cpu s) OR ps_INTERRUPT, cpu_pc := w\<rparr>) ?xs s t"
    using agrees_irq [OF assms, of E] by (auto simp: ok_iff)
  have ram: "ram_of t = ?xs" and tab: "tables t = tables s" using a by (simp_all add: agrees_def)
  have len: "length (ram_of s) = 0x800" using assms(1) by (simp add: clock_ok_def nes_ok_def)
  note cells = stack_cells(3,4,5) [OF len, of ?sp "hi_byte ?pc" "lo_byte ?pc" "cpu_ps (n_cpu s) OR ps_RESERVED"]
  have ret: "\<exists>w. op_rti E u = Some w \<and> cpu_pc (n_cpu w) = ?pc \<and> cpu_sp (n_cpu w) = ?sp \<and>
      cpu_ps (n_cpu w) = (cpu_ps (n_cpu s) OR ps_RESERVED) AND 0xCF"
    if u: "clock_ok u" "tables u = tables t" "cpu_sp (n_cpu u) = cpu_sp (n_cpu t)"
      "\<forall>k \<in> {1, 2, 3}. ram_of u ! stack_at (cpu_sp (n_cpu t) + k) = ram_of t ! stack_at (cpu_sp (n_cpu t) + k)" for u
  proof -
    have sp: "cpu_sp (n_cpu u) = ?sp - 3" using u(3) agrees_sp [OF a] by simp
    have e: "?sp - 3 + 1 = ?sp - 2" "?sp - 3 + 2 = ?sp - 1" "?sp - 3 + 3 = ?sp" by simp_all
    have stk: "ram_of u ! stack_at (?sp - 2) = cpu_ps (n_cpu s) OR ps_RESERVED"
      "ram_of u ! stack_at (?sp - 1) = lo_byte ?pc" "ram_of u ! stack_at ?sp = hi_byte ?pc"
      using u(4) agrees_sp [OF a] e cells unfolding ram by simp_all
    have env: "program_env u" using assms(2) u(2) tab by (simp add: program_env_def oam_port_def stack_in_ram_def)
    have "agrees (regs (n_cpu u)) (ram_of u) u u" using u(1) by (simp add: agrees_def)
    from agrees_rti [OF this env, of E] obtain v where v: "op_rti E u = Some v"
      "agrees ((regs (n_cpu u))\<lparr>cpu_ps := ram_of u ! stack_at (cpu_sp (n_cpu u) + 1) AND 0xCF, cpu_sp := cpu_sp (n_cpu u) + 3,
        cpu_pc := make_word (ram_of u ! stack_at (cpu_sp (n_cpu u) + 3)) (ram_of u ! stack_at (cpu_sp (n_cpu u) + 2))\<rparr>) (ram_of u) u v"
      by (auto simp: ok_iff)
    from agrees_pc [OF v(2)] agrees_sp [OF v(2)] agrees_ps [OF v(2)] v(1) show ?thesis
      by (simp add: sp e stk)
  qed
  then show ?thesis using t agrees_sp [OF a] agrees_ps [OF a] by auto
qed

lemma interrupt_returns_witness:
  "\<exists>t w. cpu_irq silent_env sample_nes = Some t \<and> op_rti silent_env t = Some w \<and>
    cpu_pc (n_cpu w) = cpu_pc (n_cpu sample_nes) \<and> cpu_sp (n_cpu w) = cpu_sp (n_cpu sample_nes)"
proof -
  have "ok (cpu_irq silent_env sample_nes) clock_ok"
    using agrees_irq [OF sample_clock sample_env, of silent_env] by (auto elim!: ok_mono dest: agrees_ok)
  with interrupt_returns [OF sample_clock sample_env, of silent_env] show ?thesis by auto
qed

text \<open>
  C35: a subroutine returns behind its call: after JSR, whose operand bytes lie at the program
  counter, RTS in any later state with the same stack pointer and the two pushed bytes still
  on the stack continues two bytes further, with the stack pointer as before.
\<close>

theorem subroutine_returns:
  assumes "clock_ok s" "program_env s"
  shows "\<exists>t. op_jsr E s = Some t \<and> cpu_sp (n_cpu t) = cpu_sp (n_cpu s) - 2 \<and>
    (\<forall>u. clock_ok u \<and> tables u = tables t \<and> cpu_sp (n_cpu u) = cpu_sp (n_cpu t) \<and>
       (\<forall>k \<in> {1, 2}. ram_of u ! (0x100 + unat (cpu_sp (n_cpu t) + k)) = ram_of t ! (0x100 + unat (cpu_sp (n_cpu t) + k))) \<longrightarrow>
       (\<exists>w. op_rts E u = Some w \<and> cpu_pc (n_cpu w) = cpu_pc (n_cpu s) + 2 \<and> cpu_sp (n_cpu w) = cpu_sp (n_cpu s)))"
proof -
  let ?sp = "cpu_sp (n_cpu s)" and ?pc = "cpu_pc (n_cpu s) + 1"
  let ?xs = "(ram_of s)[stack_at ?sp := hi_byte ?pc, stack_at (?sp - 1) := lo_byte ?pc]"
  obtain t w where t: "op_jsr E s = Some t" and a: "agrees ((regs (n_cpu s))\<lparr>cpu_sp := ?sp - 2, cpu_pc := w\<rparr>) ?xs s t"
    using agrees_jsr [OF assms, of E] by (auto simp: ok_iff)
  have ram: "ram_of t = ?xs" and tab: "tables t = tables s" using a by (simp_all add: agrees_def)
  have len: "length (ram_of s) = 0x800" using assms(1) by (simp add: clock_ok_def nes_ok_def)
  note cells = stack_cells(1,2) [OF len, of ?sp "hi_byte ?pc" "lo_byte ?pc"]
  have ret: "\<exists>w. op_rts E u = Some w \<and> cpu_pc (n_cpu w) = cpu_pc (n_cpu s) + 2 \<and> cpu_sp (n_cpu w) = ?sp"
    if u: "clock_ok u" "tables u = tables t" "cpu_sp (n_cpu u) = cpu_sp (n_cpu t)"
      "\<forall>k \<in> {1, 2}. ram_of u ! stack_at (cpu_sp (n_cpu t) + k) = ram_of t ! stack_at (cpu_sp (n_cpu t) + k)" for u
  proof -
    have sp: "cpu_sp (n_cpu u) = ?sp - 2" using u(3) agrees_sp [OF a] by simp
    have e: "?sp - 2 + 1 = ?sp - 1" "?sp - 2 + 2 = ?sp" by simp_all
    have stk: "ram_of u ! stack_at (?sp - 1) = lo_byte ?pc" "ram_of u ! stack_at ?sp = hi_byte ?pc"
      using u(4) agrees_sp [OF a] e cells unfolding ram by simp_all
    have env: "program_env u" using assms(2) u(2) tab by (simp add: program_env_def oam_port_def stack_in_ram_def)
    have "agrees (regs (n_cpu u)) (ram_of u) u u" using u(1) by (simp add: agrees_def)
    from agrees_rts [OF this env, of E] obtain v where v: "op_rts E u = Some v"
      "agrees ((regs (n_cpu u))\<lparr>cpu_sp := cpu_sp (n_cpu u) + 2,
        cpu_pc := make_word (ram_of u ! stack_at (cpu_sp (n_cpu u) + 2)) (ram_of u ! stack_at (cpu_sp (n_cpu u) + 1)) + 1\<rparr>) (ram_of u) u v"
      by (auto simp: ok_iff)
    from agrees_pc [OF v(2)] agrees_sp [OF v(2)] v(1) show ?thesis by (simp add: sp e stk)
  qed
  then show ?thesis using t agrees_sp [OF a] by auto
qed

lemma subroutine_returns_witness:
  "\<exists>t w. op_jsr silent_env sample_nes = Some t \<and> op_rts silent_env t = Some w \<and>
    cpu_pc (n_cpu w) = cpu_pc (n_cpu sample_nes) + 2 \<and> cpu_sp (n_cpu w) = cpu_sp (n_cpu sample_nes)"
proof -
  have "ok (op_jsr silent_env sample_nes) clock_ok"
    using agrees_jsr [OF sample_clock sample_env, of silent_env] by (auto elim!: ok_mono dest: agrees_ok)
  with subroutine_returns [OF sample_clock sample_env, of silent_env] show ?thesis by auto
qed

end
