(* ===== verification/State_Stream.thy ===== *)
theory State_Stream
  imports Prelude
begin

text \<open>
  \<^verbatim>\<open>StateStream\<close> (\<^verbatim>\<open>src/core/state_stream.h\<close>): one description of an object's members that
  writes them to a byte string or reads them back, according to the mode of the stream.

  A \<open>sync\<close> of a value is a function on the stream and the value. It is \<open>None\<close> when the value
  read has no counterpart in the model (a number no enumerator has). The members of an
  object are described by a list of syncs, in the order of the calls.
\<close>

section \<open>The stream\<close>

text \<open>\<^verbatim>\<open>input_ + position_\<close> up to the end of the input is \<open>ss_input\<close>.\<close>

record stream =
  ss_loading :: bool
  ss_error :: bool
  ss_input :: "u8 list"
  ss_output :: "u8 list"

definition saving_stream :: stream where
  "saving_stream = \<lparr>ss_loading = False, ss_error = False, ss_input = [], ss_output = []\<rparr>"

definition loading_stream :: "u8 list \<Rightarrow> stream" where
  "loading_stream data = \<lparr>ss_loading = True, ss_error = False, ss_input = data, ss_output = []\<rparr>"

definition stream_fail :: "stream \<Rightarrow> stream" where
  "stream_fail s = s\<lparr>ss_error := True\<rparr>"

definition get_remaining :: "stream \<Rightarrow> nat" where
  "get_remaining s = length (ss_input s)"

type_synonym 'v sync = "stream \<times> 'v \<Rightarrow> (stream \<times> 'v) option"

section \<open>Values\<close>

text \<open>Little endian: the byte \<open>i\<close> is \<open>encoded >> (i * 8)\<close>.\<close>

fun word_bytes :: "nat \<Rightarrow> 'a::len word \<Rightarrow> u8 list" where
  "word_bytes 0 w = []"
| "word_bytes (Suc n) w = ucast w # word_bytes n (drop_bit 8 w)"

fun bytes_word :: "u8 list \<Rightarrow> 'a::len word" where
  "bytes_word [] = 0"
| "bytes_word (b # bs) = ucast b OR push_bit 8 (bytes_word bs)"

definition sync_word :: "'a::len word sync" where
  "sync_word = (\<lambda>(s, v). let n = LENGTH('a) div 8 in
     if \<not> ss_loading s then Some (s\<lparr>ss_output := ss_output s @ word_bytes n v\<rparr>, v)
     else if get_remaining s < n then Some (stream_fail s, v)
     else Some (s\<lparr>ss_input := drop n (ss_input s)\<rparr>, bytes_word (take n (ss_input s))))"

definition sync_bool :: "bool sync" where
  "sync_bool = (\<lambda>(s, v). do {
     (s, encoded) \<leftarrow> sync_word (s, of_flag v :: u8);
     if ss_loading s then
       if encoded > 1 then Some (stream_fail s, v) else Some (s, encoded \<noteq> 0)
     else Some (s, v) })"

text \<open>
  A value that the code keeps in a machine integer and the model in another type: \<open>f\<close>
  gives its bits and \<open>g\<close> reads them.
\<close>

definition sync_as :: "('v \<Rightarrow> 'a::len word) \<Rightarrow> ('a word \<Rightarrow> 'v option) \<Rightarrow> 'v sync" where
  "sync_as f g = (\<lambda>(s, v). do {
     (s, w) \<leftarrow> sync_word (s, f v);
     if ss_loading s then map_option (Pair s) (g w) else Some (s, v) })"

definition sync_nat16 :: "nat sync" where
  "sync_nat16 = sync_as (of_nat :: nat \<Rightarrow> u16) (Some \<circ> unat)"

definition sync_nat32 :: "nat sync" where
  "sync_nat32 = sync_as (of_nat :: nat \<Rightarrow> u32) (Some \<circ> unat)"

definition sync_nat64 :: "nat sync" where
  "sync_nat64 = sync_as (of_nat :: nat \<Rightarrow> u64) (Some \<circ> unat)"

definition sync_int16 :: "int sync" where
  "sync_int16 = sync_as (of_int :: int \<Rightarrow> u16) (Some \<circ> sint)"

definition sync_int32 :: "int sync" where
  "sync_int32 = sync_as (of_int :: int \<Rightarrow> u32) (Some \<circ> sint)"

text \<open>An \<^verbatim>\<open>int\<close> that is never negative: a negative one has no counterpart.\<close>

definition sync_count :: "nat sync" where
  "sync_count = sync_as (of_nat :: nat \<Rightarrow> u32) (\<lambda>w. if sint w < 0 then None else Some (unat w))"

text \<open>An enumeration whose enumerators are numbered from 0, in 32 bits.\<close>

definition enum_index :: "'e list \<Rightarrow> 'e \<Rightarrow> nat" where
  "enum_index es e = length (takeWhile (\<lambda>x. x \<noteq> e) es)"

definition sync_enum :: "'e list \<Rightarrow> 'e sync" where
  "sync_enum es = sync_as (\<lambda>e. of_nat (enum_index es e) :: u32) (\<lambda>w. rd es (unat w))"

section \<open>Members, arrays and vectors\<close>

definition sync_field :: "('r \<Rightarrow> 'v) \<Rightarrow> ('v \<Rightarrow> 'r \<Rightarrow> 'r) \<Rightarrow> 'v sync \<Rightarrow> 'r sync" where
  "sync_field get put A = (\<lambda>(s, r). do { (s, v) \<leftarrow> A (s, get r); Some (s, put v r) })"

fun sync_all :: "'r sync list \<Rightarrow> 'r sync" where
  "sync_all [] x = Some x"
| "sync_all (A # As) x = Option.bind (A x) (sync_all As)"

fun sync_list :: "'v sync \<Rightarrow> 'v list sync" where
  "sync_list A (s, []) = Some (s, [])"
| "sync_list A (s, x # xs) = do {
     (s, x) \<leftarrow> A (s, x);
     (s, xs) \<leftarrow> sync_list A (s, xs);
     Some (s, x # xs) }"

text \<open>A buffer the model keeps as a function of the index; \<open>is\<close> lists the indices.\<close>

fun sync_table :: "'i list \<Rightarrow> 'v sync \<Rightarrow> ('i \<Rightarrow> 'v) sync" where
  "sync_table [] A x = Some x"
| "sync_table (i # is) A (s, t) = do {
     (s, v) \<leftarrow> A (s, t i);
     sync_table is A (s, t(i := v)) }"

text \<open>\<^verbatim>\<open>values.resize(n)\<close>.\<close>

definition word_resize :: "nat \<Rightarrow> 'a::len word list \<Rightarrow> 'a word list" where
  "word_resize n xs = take n xs @ replicate (n - length xs) 0"

definition sync_vector :: "'a::len word list sync" where
  "sync_vector = (\<lambda>(s, xs). do {
     (s, n) \<leftarrow> sync_word (s, of_nat (length xs) :: u64);
     if ss_error s then Some (s, xs)
     else if ss_loading s then
       if unat n > get_remaining s div (LENGTH('a) div 8) then Some (stream_fail s, xs)
       else sync_list sync_word (s, word_resize (unat n) xs)
     else sync_list sync_word (s, xs) })"

end
