(* ===== verification/State_Devices.thy ===== *)
theory State_Devices
  imports State_Stream Memory_Manager
begin

text \<open>
  The saved form of the machine's devices: \<^verbatim>\<open>serialize\<close> of the CPU, the PPU, the parts of the
  APU, the mixer, the memory manager and the controllers
  (\<^verbatim>\<open>src/systems/nes/nes_state.cpp\<close>). Each is the list of its members, in the order of the
  calls, with the width the member has in the C++ class. What a read accepts is what the code
  accepts: no member is checked but those that select a buffer or count elements.
\<close>

section \<open>Shapes of members\<close>

definition member :: "('r \<Rightarrow> 'v) \<Rightarrow> (('v \<Rightarrow> 'v) \<Rightarrow> 'r \<Rightarrow> 'r) \<Rightarrow> 'v sync \<Rightarrow> 'r sync" where
  "member get upd A = sync_field get (\<lambda>v. upd (\<lambda>_. v)) A"

text \<open>A description that depends on the object, as a size or a constant of its class does.\<close>

definition sync_on :: "('r \<Rightarrow> 'r sync) \<Rightarrow> 'r sync" where
  "sync_on B = (\<lambda>(s, r). B r (s, r))"

text \<open>
  Local variables: \<open>start\<close> gives their first values, \<open>A\<close> syncs them together with members,
  and on loading \<open>store\<close> checks them and puts them into the object; when the check fails
  the stream fails and the function returns, else it goes on with \<open>B\<close>.
\<close>

definition sync_local ::
  "(bool \<Rightarrow> 'r \<Rightarrow> 'l) \<Rightarrow> ('l \<times> 'r) sync \<Rightarrow> ('l \<Rightarrow> 'r \<Rightarrow> bool \<times> 'r) \<Rightarrow> 'r sync \<Rightarrow> 'r sync" where
  "sync_local start A store B = (\<lambda>(s, r). do {
     (s, l, r) \<leftarrow> A (s, start (ss_loading s) r, r);
     if ss_loading s then
       let (fine, r) = store l r in
       if fine then B (s, r) else Some (stream_fail s, r)
     else B (s, r) })"

definition sync_local_part :: "('l \<Rightarrow> 'v) \<Rightarrow> (('v \<Rightarrow> 'v) \<Rightarrow> 'l \<Rightarrow> 'l) \<Rightarrow> 'v sync \<Rightarrow> ('l \<times> 'r) sync" where
  "sync_local_part get upd A = sync_field (\<lambda>x. get (fst x)) (\<lambda>v x. (upd (\<lambda>_. v) (fst x), snd x)) A"

definition sync_object_part :: "'r sync \<Rightarrow> ('l \<times> 'r) sync" where
  "sync_object_part A = sync_field snd (\<lambda>r x. (fst x, r)) A"

text \<open>The first \<open>n\<close> elements of a buffer.\<close>

definition sync_prefix :: "nat \<Rightarrow> 'v sync \<Rightarrow> 'v list sync" where
  "sync_prefix n A = sync_field (take n) (\<lambda>ys xs. ys @ drop n xs) (sync_list A)"

definition sync_fixed_vector :: "'a::len word list sync" where
  "sync_fixed_vector = (\<lambda>(s, xs). do {
     (s, n) \<leftarrow> sync_word (s, of_nat (length xs) :: u64);
     if ss_error s then Some (s, xs)
     else if ss_loading s then
       if unat n \<noteq> length xs then Some (stream_fail s, xs) else sync_list sync_word (s, xs)
     else sync_list sync_word (s, xs) })"

definition sync_optional_fixed_vector :: "nat \<Rightarrow> 'a::len word list sync" where
  "sync_optional_fixed_vector fixed_size = (\<lambda>(s, xs). do {
     (s, n) \<leftarrow> sync_word (s, of_nat (length xs) :: u64);
     if ss_error s then Some (s, xs)
     else if ss_loading s then
       if n \<noteq> 0 \<and> unat n \<noteq> fixed_size then Some (stream_fail s, xs)
       else sync_list sync_word (s, word_resize (unat n) xs)
     else sync_list sync_word (s, xs) })"

section \<open>Enumerations\<close>

definition addr_modes :: "addr_mode list" where
  "addr_modes = [AM_NONE, AM_ACC, AM_IMP, AM_IMM, AM_REL, AM_ZERO, AM_ABS, AM_ZERO_X, AM_ZERO_Y,
     AM_IND, AM_IND_X, AM_IND_Y, AM_IND_YW, AM_ABS_X, AM_ABS_XW, AM_ABS_Y, AM_ABS_YW, AM_OTHER]"

definition audio_channels :: "audio_channel list" where
  "audio_channels = [SQUARE1, SQUARE2, TRIANGLE, NOISE, DMC_CHANNEL, FDS, MMC5, VRC6, VRC7,
     NAMCO163, SUNSOFT5B]"

section \<open>CPU\<close>

definition sync_cpu_state :: "cpu sync" where
  "sync_cpu_state = sync_all [
     member cpu_cycle_count cpu_cycle_count_update sync_word,
     member cpu_pc cpu_pc_update sync_word,
     member cpu_sp cpu_sp_update sync_word,
     member cpu_a cpu_a_update sync_word,
     member cpu_x cpu_x_update sync_word,
     member cpu_y cpu_y_update sync_word,
     member cpu_ps cpu_ps_update sync_word,
     member cpu_irq_flag cpu_irq_flag_update sync_word,
     member cpu_nmi_flag cpu_nmi_flag_update sync_bool]"

definition cpu_serialize :: "cpu sync" where
  "cpu_serialize = sync_all [
     member cpu_master_clock cpu_master_clock_update sync_nat64,
     member cpu_ppu_offset cpu_ppu_offset_update sync_word,
     member cpu_start_clock_count cpu_start_clock_count_update sync_word,
     member cpu_end_clock_count cpu_end_clock_count_update sync_word,
     member cpu_operand cpu_operand_update sync_word,
     member cpu_inst_addr_mode cpu_inst_addr_mode_update (sync_enum addr_modes),
     member cpu_need_halt cpu_need_halt_update sync_bool,
     member cpu_sprite_dma_transfer cpu_sprite_dma_transfer_update sync_bool,
     member cpu_dmc_dma_running cpu_dmc_dma_running_update sync_bool,
     member cpu_abort_dmc_dma cpu_abort_dmc_dma_update sync_bool,
     member cpu_need_dummy_read cpu_need_dummy_read_update sync_bool,
     member cpu_sprite_dma_offset cpu_sprite_dma_offset_update sync_word,
     member cpu_write_cycle cpu_write_cycle_update sync_bool,
     member cpu_irq_mask cpu_irq_mask_update sync_word,
     sync_cpu_state,
     member cpu_prev_run_irq cpu_prev_run_irq_update sync_bool,
     member cpu_run_irq cpu_run_irq_update sync_bool,
     member cpu_prev_nmi_flag cpu_prev_nmi_flag_update sync_bool,
     member cpu_prev_need_nmi cpu_prev_need_nmi_update sync_bool,
     member cpu_need_nmi cpu_need_nmi_update sync_bool,
     member cpu_is_dmc_dma_read cpu_is_dmc_dma_read_update sync_bool]"

section \<open>PPU\<close>

definition sync_tile :: "tile_info sync" where
  "sync_tile = sync_all [
     member ti_tile_addr ti_tile_addr_update sync_word,
     member ti_low_byte ti_low_byte_update sync_word,
     member ti_high_byte ti_high_byte_update sync_word,
     member ti_palette_offset ti_palette_offset_update sync_word]"

definition sync_sprite :: "sprite_info sync" where
  "sync_sprite = sync_all [
     member sp_sprite_x sp_sprite_x_update sync_word,
     member sp_low_byte sp_low_byte_update sync_word,
     member sp_high_byte sp_high_byte_update sync_word,
     member sp_palette_offset sp_palette_offset_update sync_word,
     member sp_horizontal_mirror sp_horizontal_mirror_update sync_bool,
     member sp_background_priority sp_background_priority_update sync_bool]"

definition sync_control :: "ppu_control sync" where
  "sync_control = sync_all [
     member ct_background_pattern_addr ct_background_pattern_addr_update sync_word,
     member ct_sprite_pattern_addr ct_sprite_pattern_addr_update sync_word,
     member ct_vertical_write ct_vertical_write_update sync_bool,
     member ct_large_sprites ct_large_sprites_update sync_bool,
     member ct_nmi_on_vertical_blank ct_nmi_on_vertical_blank_update sync_bool]"

definition sync_mask :: "ppu_mask sync" where
  "sync_mask = sync_all [
     member mk_grayscale mk_grayscale_update sync_bool,
     member mk_background_mask mk_background_mask_update sync_bool,
     member mk_sprite_mask mk_sprite_mask_update sync_bool,
     member mk_background_enabled mk_background_enabled_update sync_bool,
     member mk_sprites_enabled mk_sprites_enabled_update sync_bool,
     member mk_intensify_red mk_intensify_red_update sync_bool,
     member mk_intensify_green mk_intensify_green_update sync_bool,
     member mk_intensify_blue mk_intensify_blue_update sync_bool]"

definition sync_status :: "ppu_status sync" where
  "sync_status = sync_all [
     member st_sprite_overflow st_sprite_overflow_update sync_bool,
     member st_sprite_zero_hit st_sprite_zero_hit_update sync_bool,
     member st_vertical_blank st_vertical_blank_update sync_bool]"

text \<open>The frame buffers are two arrays of 256 * 240 pixels.\<close>

definition sync_output_buffer :: "nat \<Rightarrow> ppu sync" where
  "sync_output_buffer k = sync_field (\<lambda>p. ppu_output_buffers p k)
     (\<lambda>v p. p\<lparr>ppu_output_buffers := (ppu_output_buffers p)(k := v)\<rparr>) (sync_table [0..<256 * 240] sync_word)"

definition ppu_serialize_timing :: "ppu sync" where
  "ppu_serialize_timing = sync_all [
     member ppu_master_clock ppu_master_clock_update sync_nat64,
     member ppu_master_clock_divider ppu_master_clock_divider_update sync_word,
     member ppu_cycle ppu_cycle_update sync_nat32,
     member ppu_scanline ppu_scanline_update sync_int16,
     member ppu_frame_count ppu_frame_count_update sync_word,
     member ppu_nmi_scanline ppu_nmi_scanline_update sync_nat32,
     member ppu_vblank_end ppu_vblank_end_update sync_nat16,
     member ppu_no_odd_frame_skip ppu_no_odd_frame_skip_update sync_bool]"

definition ppu_serialize_pixels :: "ppu sync" where
  "ppu_serialize_pixels = sync_all [
     sync_output_buffer 0,
     sync_output_buffer 1,
     member ppu_last_updated_pixel ppu_last_updated_pixel_update sync_int32,
     member ppu_video_ram_addr ppu_video_ram_addr_update sync_word,
     member ppu_tmp_video_ram_addr ppu_tmp_video_ram_addr_update sync_word,
     member ppu_high_bit_shift ppu_high_bit_shift_update sync_word,
     member ppu_low_bit_shift ppu_low_bit_shift_update sync_word,
     member ppu_sprite_ram_addr ppu_sprite_ram_addr_update sync_word,
     member ppu_x_scroll ppu_x_scroll_update sync_word,
     member ppu_open_bus ppu_open_bus_update sync_word,
     member ppu_open_bus_decay_stamp ppu_open_bus_decay_stamp_update (sync_list sync_word),
     member ppu_enable_oam_decay ppu_enable_oam_decay_update sync_bool,
     member ppu_need_state_update ppu_need_state_update_update sync_bool,
     member ppu_rendering_enabled ppu_rendering_enabled_update sync_bool,
     member ppu_prev_rendering_enabled ppu_prev_rendering_enabled_update sync_bool,
     member ppu_sprite0_visible ppu_sprite0_visible_update sync_bool,
     member ppu_sprite_count ppu_sprite_count_update sync_word,
     member ppu_secondary_oam_addr ppu_secondary_oam_addr_update sync_word,
     member ppu_oam_copy_buffer ppu_oam_copy_buffer_update sync_word,
     member ppu_sprite_in_range ppu_sprite_in_range_update sync_bool,
     member ppu_sprite0_added ppu_sprite0_added_update sync_bool,
     member ppu_sprite_addr_h ppu_sprite_addr_h_update sync_word,
     member ppu_sprite_addr_l ppu_sprite_addr_l_update sync_word,
     member ppu_overflow_bug_counter ppu_overflow_bug_counter_update sync_word,
     member ppu_oam_copy_done ppu_oam_copy_done_update sync_bool,
     member ppu_minimum_draw_bg_cycle ppu_minimum_draw_bg_cycle_update sync_nat16,
     member ppu_minimum_draw_sprite_cycle ppu_minimum_draw_sprite_cycle_update sync_nat16,
     member ppu_minimum_draw_sprite_standard_cycle ppu_minimum_draw_sprite_standard_cycle_update sync_nat16,
     member ppu_palette_ram ppu_palette_ram_update (sync_list sync_word),
     member ppu_sprite_ram ppu_sprite_ram_update (sync_list sync_word),
     member ppu_secondary_sprite_ram ppu_secondary_sprite_ram_update (sync_list sync_word),
     member ppu_tile ppu_tile_update sync_tile,
     member ppu_bus_address ppu_bus_address_update sync_word,
     member ppu_current_tile_palette ppu_current_tile_palette_update sync_word,
     member ppu_previous_tile_palette ppu_previous_tile_palette_update sync_word,
     member ppu_intensify_color_bits ppu_intensify_color_bits_update sync_word,
     member ppu_palette_ram_mask ppu_palette_ram_mask_update sync_word,
     member ppu_update_vram_addr_delay ppu_update_vram_addr_delay_update sync_word,
     member ppu_sprite_index ppu_sprite_index_update sync_nat32,
     member ppu_has_sprite ppu_has_sprite_update (sync_list sync_bool)]"

definition ppu_serialize_registers :: "ppu sync" where
  "ppu_serialize_registers = sync_all [
     member ppu_sprite_tiles ppu_sprite_tiles_update (sync_list sync_sprite),
     member ppu_control ppu_control_update sync_control,
     member ppu_mask ppu_mask_update sync_mask,
     member ppu_status_flags ppu_status_flags_update sync_status,
     member ppu_update_vram_addr ppu_update_vram_addr_update sync_word,
     member ppu_prevent_vbl_flag ppu_prevent_vbl_flag_update sync_bool,
     member ppu_write_toggle ppu_write_toggle_update sync_bool,
     member ppu_need_video_ram_increment ppu_need_video_ram_increment_update sync_bool,
     member ppu_allow_full_ppu_access ppu_allow_full_ppu_access_update sync_bool,
     member ppu_memory_read_buffer ppu_memory_read_buffer_update sync_word,
     member ppu_ignore_vram_read ppu_ignore_vram_read_update sync_nat32,
     member ppu_oam_decay_cycles ppu_oam_decay_cycles_update (sync_list sync_word),
     member ppu_corrupt_oam_row ppu_corrupt_oam_row_update (sync_list sync_bool),
     member ppu_first_visible_sprite_addr ppu_first_visible_sprite_addr_update sync_word,
     member ppu_last_visible_sprite_addr ppu_last_visible_sprite_addr_update sync_word,
     member ppu_emulator_bg_enabled ppu_emulator_bg_enabled_update sync_bool,
     member ppu_emulator_sprites_enabled ppu_emulator_sprites_enabled_update sync_bool]"

text \<open>
  The pointers to the current and the shown buffer travel as 0 or 1; the check comes last,
  when every other member has been read.
\<close>

definition ppu_store_buffers :: "u8 \<times> u8 \<Rightarrow> ppu \<Rightarrow> bool \<times> ppu" where
  "ppu_store_buffers l p =
     (if fst l > 1 \<or> snd l > 1 then (False, p)
      else (True, p\<lparr>ppu_current_output_buffer := unat (fst l), ppu_framebuffer := unat (snd l)\<rparr>))"

definition ppu_serialize :: "ppu sync" where
  "ppu_serialize = sync_local
     (\<lambda>_ p. (of_flag (ppu_current_output_buffer p = 1), of_flag (ppu_framebuffer p = 1)))
     (sync_all [
        sync_object_part ppu_serialize_timing,
        sync_local_part fst apfst sync_word,
        sync_local_part snd apsnd sync_word,
        sync_object_part ppu_serialize_pixels,
        sync_object_part ppu_serialize_registers])
     ppu_store_buffers (sync_all [])"

section \<open>APU\<close>

definition length_serialize :: "length_counter sync" where
  "length_serialize = sync_all [
     member lc_channel lc_channel_update (sync_enum audio_channels),
     member lc_new_halt_value lc_new_halt_value_update sync_bool,
     member lc_enabled lc_enabled_update sync_bool,
     member lc_halt lc_halt_update sync_bool,
     member lc_counter lc_counter_update sync_word,
     member lc_reload_value lc_reload_value_update sync_word,
     member lc_previous_value lc_previous_value_update sync_word]"

definition envelope_serialize :: "envelope sync" where
  "envelope_serialize = sync_all [
     member en_length_counter en_length_counter_update length_serialize,
     member en_constant_volume en_constant_volume_update sync_bool,
     member en_volume en_volume_update sync_word,
     member en_start en_start_update sync_bool,
     member en_divider en_divider_update sync_word,
     member en_counter en_counter_update sync_word]"

definition timer_serialize :: "apu_timer sync" where
  "timer_serialize = sync_all [
     member tm_previous_cycle tm_previous_cycle_update sync_word,
     member tm_timer tm_timer_update sync_word,
     member tm_period tm_period_update sync_word,
     member tm_last_output tm_last_output_update sync_word,
     member tm_channel tm_channel_update (sync_enum audio_channels)]"

definition square_serialize :: "square sync" where
  "square_serialize = sync_all [
     member sq_envelope sq_envelope_update envelope_serialize,
     member sq_timer sq_timer_update timer_serialize,
     member sq_channel sq_channel_update (sync_enum audio_channels),
     member sq_is_channel1 sq_is_channel1_update sync_bool,
     member sq_duty sq_duty_update sync_word,
     member sq_duty_pos sq_duty_pos_update sync_word,
     member sq_sweep_enabled sq_sweep_enabled_update sync_bool,
     member sq_sweep_period sq_sweep_period_update sync_word,
     member sq_sweep_negate sq_sweep_negate_update sync_bool,
     member sq_sweep_shift sq_sweep_shift_update sync_word,
     member sq_reload_sweep sq_reload_sweep_update sync_bool,
     member sq_sweep_divider sq_sweep_divider_update sync_word,
     member sq_sweep_target_period sq_sweep_target_period_update sync_word,
     member sq_real_period sq_real_period_update sync_word]"

definition triangle_serialize :: "triangle sync" where
  "triangle_serialize = sync_all [
     member tr_length_counter tr_length_counter_update length_serialize,
     member tr_timer tr_timer_update timer_serialize,
     member tr_linear_counter tr_linear_counter_update sync_word,
     member tr_linear_counter_reload tr_linear_counter_reload_update sync_word,
     member tr_linear_reload_flag tr_linear_reload_flag_update sync_bool,
     member tr_linear_control_flag tr_linear_control_flag_update sync_bool,
     member tr_sequence_position tr_sequence_position_update sync_word]"

definition noise_serialize :: "noise sync" where
  "noise_serialize = sync_all [
     member ns_envelope ns_envelope_update envelope_serialize,
     member ns_timer ns_timer_update timer_serialize,
     member ns_shift_register ns_shift_register_update sync_word,
     member ns_mode_flag ns_mode_flag_update sync_bool]"

definition dmc_serialize :: "dmc sync" where
  "dmc_serialize = sync_all [
     member dm_timer dm_timer_update timer_serialize,
     member dm_sample_addr dm_sample_addr_update sync_word,
     member dm_sample_length dm_sample_length_update sync_word,
     member dm_output_level dm_output_level_update sync_word,
     member dm_irq_enabled dm_irq_enabled_update sync_bool,
     member dm_loop_flag dm_loop_flag_update sync_bool,
     member dm_current_addr dm_current_addr_update sync_word,
     member dm_bytes_remaining dm_bytes_remaining_update sync_word,
     member dm_read_buffer dm_read_buffer_update sync_word,
     member dm_buffer_empty dm_buffer_empty_update sync_bool,
     member dm_shift_register dm_shift_register_update sync_word,
     member dm_bits_remaining dm_bits_remaining_update sync_word,
     member dm_silence_flag dm_silence_flag_update sync_bool,
     member dm_need_to_run_flag dm_need_to_run_flag_update sync_bool,
     member dm_disable_delay dm_disable_delay_update sync_word,
     member dm_transfer_start_delay dm_transfer_start_delay_update sync_word]"

definition fc_serialize :: "frame_counter sync" where
  "fc_serialize = sync_all [
     member fc_step_cycles fc_step_cycles_update (sync_list (sync_list sync_int32)),
     member fc_previous_cycle fc_previous_cycle_update sync_int32,
     member fc_current_step fc_current_step_update sync_nat32,
     member fc_step_mode fc_step_mode_update sync_nat32,
     member fc_inhibit_irq fc_inhibit_irq_update sync_bool,
     member fc_block_frame_counter_tick fc_block_frame_counter_tick_update sync_word,
     member fc_new_value fc_new_value_update sync_int16,
     member fc_write_delay_counter fc_write_delay_counter_update sync_word,
     member fc_irq_flag fc_irq_flag_update sync_bool,
     member fc_irq_flag_clear_clock fc_irq_flag_clear_clock_update sync_word]"

text \<open>A frame of the audio queue: a wrong sample count fails the stream but is stored.\<close>

definition sync_audio_frame :: "audio_frame sync" where
  "sync_audio_frame = (\<lambda>(s, f). do {
     (s, d) \<leftarrow> sync_vector (s, af_data f);
     (s, n) \<leftarrow> sync_word (s, of_nat (af_samples f) :: u64);
     if ss_loading s then
       let f = \<lparr>af_data = d, af_samples = unat n\<rparr> in
       if unat n \<noteq> length d div 2 then Some (stream_fail s, f) else Some (s, f)
     else Some (s, f) })"

definition apu_store_queue :: "u64 \<times> u64 \<times> u64 \<Rightarrow> apu \<Rightarrow> bool \<times> apu" where
  "apu_store_queue l a =
     (let (write_index, read_index, available_frames) = l in
      if unat write_index \<ge> MAX_AUDIO_FRAMES \<or> unat read_index \<ge> MAX_AUDIO_FRAMES \<or>
         unat available_frames > MAX_AUDIO_FRAMES then (False, a)
      else (True, a\<lparr>ap_write_index := unat write_index, ap_read_index := unat read_index,
                    ap_available_frames := unat available_frames\<rparr>))"

definition apu_serialize_channels :: "apu sync" where
  "apu_serialize_channels = sync_all [
     member ap_apu_enabled ap_apu_enabled_update sync_bool,
     member ap_need_to_run ap_need_to_run_update sync_bool,
     member ap_previous_cycle ap_previous_cycle_update sync_word,
     member ap_current_cycle ap_current_cycle_update sync_word,
     member ap_square1 ap_square1_update square_serialize,
     member ap_square2 ap_square2_update square_serialize,
     member ap_triangle ap_triangle_update triangle_serialize,
     member ap_noise ap_noise_update noise_serialize,
     member ap_dmc ap_dmc_update dmc_serialize,
     member ap_frame_counter ap_frame_counter_update fc_serialize,
     member ap_audio_ring ap_audio_ring_update (sync_list sync_audio_frame)]"

definition apu_serialize :: "apu sync" where
  "apu_serialize = sync_local
     (\<lambda>_ a. (of_nat (ap_write_index a), of_nat (ap_read_index a), of_nat (ap_available_frames a)))
     (sync_all [
        sync_object_part apu_serialize_channels,
        sync_local_part fst apfst sync_word,
        sync_local_part (fst \<circ> snd) (apsnd \<circ> apfst) sync_word,
        sync_local_part (snd \<circ> snd) (apsnd \<circ> apsnd) sync_word,
        sync_object_part (member ap_frame_accumulator ap_frame_accumulator_update sync_vector)])
     apu_store_queue (sync_all [])"

section \<open>Mixer\<close>

text \<open>
  The local variables of \<^verbatim>\<open>NesSoundMixer::serialize\<close>: the members of the resampler, its
  buffer, which starts empty on loading, and the sample count.
\<close>

record mixer_locals =
  ml_factor :: u64
  ml_offset :: u64
  ml_avail :: i32
  ml_integrator :: i32
  ml_buffer_count :: i32
  ml_buffer :: "i32 list"
  ml_sample_count :: u64

definition mixer_start :: "bool \<Rightarrow> mixer \<Rightarrow> mixer_locals" where
  "mixer_start loading mx = (let b = mx_blip mx in
     \<lparr>ml_factor = bl_factor b, ml_offset = bl_offset b, ml_avail = of_nat (bl_avail b),
      ml_integrator = bl_integrator b, ml_buffer_count = of_nat (bl_size b + BUF_EXTRA),
      ml_buffer = (if loading then [] else bl_buffer b), ml_sample_count = of_nat (mx_sample_count mx)\<rparr>)"

definition mixer_store :: "mixer_locals \<Rightarrow> mixer \<Rightarrow> bool \<times> mixer" where
  "mixer_store l mx =
     (if unat (ml_sample_count l) > length (mx_output_buffer mx) div 2 then (False, mx)
      else
        let mx = mx\<lparr>mx_sample_count := unat (ml_sample_count l)\<rparr>; count = sint (ml_buffer_count l) in
        if count \<noteq> int (bl_size (mx_blip mx) + BUF_EXTRA) \<or> int (length (ml_buffer l)) \<noteq> count
        then (False, mx)
        else case blip_restore_state (ml_factor l) (ml_offset l) (sint (ml_avail l)) (ml_integrator l)
                    (ml_buffer l) count (mx_blip mx) of
          None \<Rightarrow> (False, mx)
        | Some b \<Rightarrow> (True, mx\<lparr>mx_blip := b\<rparr>))"

definition sync_channel_output :: "nat \<Rightarrow> mixer sync" where
  "sync_channel_output j = sync_field (\<lambda>mx. mx_channel_output mx j)
     (\<lambda>v mx. mx\<lparr>mx_channel_output := (mx_channel_output mx)(j := v)\<rparr>) (sync_table [0..<CYCLE_LENGTH] sync_word)"

definition mixer_serialize_deltas :: "mixer sync" where
  "mixer_serialize_deltas = sync_all (
     [member mx_previous_output_left mx_previous_output_left_update sync_int32,
      member mx_timestamps mx_timestamps_update sync_vector] @
     map sync_channel_output [0..<11] @
     [member mx_current_output mx_current_output_update (sync_list sync_word),
      member mx_initialized mx_initialized_update sync_bool,
      member mx_clock_rate mx_clock_rate_update sync_word])"

definition mixer_serialize :: "mixer sync" where
  "mixer_serialize = sync_local mixer_start
     (sync_all [
        sync_object_part mixer_serialize_deltas,
        sync_local_part ml_factor ml_factor_update sync_word,
        sync_local_part ml_offset ml_offset_update sync_word,
        sync_local_part ml_avail ml_avail_update sync_word,
        sync_local_part ml_integrator ml_integrator_update sync_word,
        sync_local_part ml_buffer_count ml_buffer_count_update sync_word,
        sync_local_part ml_buffer ml_buffer_update sync_vector,
        sync_local_part ml_sample_count ml_sample_count_update sync_word])
     mixer_store
     (sync_on (\<lambda>mx. member mx_output_buffer mx_output_buffer_update
        (sync_prefix (mx_sample_count mx * 2) sync_word)))"

section \<open>Memory and controllers\<close>

definition open_bus_serialize :: "memory sync" where
  "open_bus_serialize = sync_all [
     member mm_external_open_bus mm_external_open_bus_update sync_word,
     member mm_internal_open_bus mm_internal_open_bus_update sync_word]"

definition memory_serialize :: "memory sync" where
  "memory_serialize = sync_all [
     member mm_internal_ram mm_internal_ram_update (sync_list sync_word),
     open_bus_serialize]"

definition control_serialize :: "control sync" where
  "control_serialize = sync_all [
     member cm_write_pending cm_write_pending_update sync_word,
     member cm_write_addr cm_write_addr_update sync_word,
     member cm_write_value cm_write_value_update sync_word,
     member cm_controller_state cm_controller_state_update (sync_list sync_word),
     member cm_controller_read_pos cm_controller_read_pos_update (sync_list sync_count),
     member cm_strobe cm_strobe_update sync_bool,
     member cm_port2_zapper_enabled cm_port2_zapper_enabled_update sync_bool,
     member cm_cli_exp_bit3_mode cm_cli_exp_bit3_mode_update sync_bool,
     member cm_kb_row cm_kb_row_update sync_word,
     member cm_kb_column cm_kb_column_update sync_word,
     member cm_kb_enabled cm_kb_enabled_update sync_bool]"

definition vs_control_serialize :: "control sync" where
  "vs_control_serialize = sync_all [
     control_serialize,
     member cm_dip_switches cm_dip_switches_update sync_word,
     member cm_protection_counter cm_protection_counter_update sync_word,
     member cm_prg_chr_select_bit cm_prg_chr_select_bit_update sync_word]"

end
