(* ===== verification/State_Cartridge.thy ===== *)
theory State_Cartridge
  imports State_Devices Mapper_Base
begin

text \<open>
  The saved form of a cartridge and of the console: \<^verbatim>\<open>BaseMapper::serialize\<close> with its memory
  pages, the boards' own members, and \<^verbatim>\<open>NesConsole::serialize\<close>
  (\<^verbatim>\<open>src/systems/nes/nes_state.cpp\<close>). The contents of the ROMs are not saved.
\<close>

section \<open>Memory pages\<close>

text \<open>
  A page pointer travels as the number of the buffer it points into and an offset. The boards
  that declare a \<^verbatim>\<open>work_ram_\<close> of their own answer for it as their region 0.
\<close>

definition has_own_ram :: "mapper_chip \<Rightarrow> bool" where
  "has_own_ram k = (case k of Mapper001 _ \<Rightarrow> True | Mapper002 \<Rightarrow> True | Mapper004 _ \<Rightarrow> True | _ \<Rightarrow> False)"

text \<open>The size of a buffer as \<^verbatim>\<open>locate\<close> and \<^verbatim>\<open>restore\<close> see it.\<close>

definition buffer_size :: "mapper \<Rightarrow> mem_region \<Rightarrow> nat" where
  "buffer_size m r = (if r = OwnRam \<and> \<not> has_own_ram (m_chip m) then 0 else length (region r m))"

fun region_code :: "mem_region \<Rightarrow> u8" where
  "region_code PrgRom = 1"
| "region_code ChrRom = 2"
| "region_code ChrRam = 3"
| "region_code WorkRam = 4"
| "region_code SaveRam = 5"
| "region_code NtRam = 6"
| "region_code OwnRam = 0x80"

definition code_region :: "u8 \<Rightarrow> mem_region option" where
  "code_region c =
     (if c = 1 then Some PrgRom else if c = 2 then Some ChrRom else if c = 3 then Some ChrRam
      else if c = 4 then Some WorkRam else if c = 5 then Some SaveRam else if c = 6 then Some NtRam
      else if c = 0x80 then Some OwnRam else None)"

text \<open>\<^verbatim>\<open>None\<close>: the pointer lies in no buffer. The null pointer is region 0.\<close>

definition locate_page :: "(mem_region \<Rightarrow> nat) \<Rightarrow> ptr \<Rightarrow> (u8 \<times> u32) option" where
  "locate_page size_of p = (case p of
     None \<Rightarrow> Some (0, 0)
   | Some (r, off) \<Rightarrow> if off < size_of r then Some (region_code r, of_nat off) else None)"

text \<open>The restored pointer, and whether the stream fails.\<close>

definition restore_page :: "(mem_region \<Rightarrow> nat) \<Rightarrow> u8 \<Rightarrow> u32 \<Rightarrow> ptr \<times> bool" where
  "restore_page size_of c off =
     (if c = 0 then (None, False)
      else case code_region c of
        None \<Rightarrow> (None, True)
      | Some r \<Rightarrow> if unat off < size_of r then (Some (r, unat off), False) else (None, True))"

definition sync_page :: "(mem_region \<Rightarrow> nat) \<Rightarrow> ptr sync" where
  "sync_page size_of = (\<lambda>(s, p). do {
     let place = (if ss_loading s then Some (0, 0) else locate_page size_of p);
     let (c, off) = (case place of None \<Rightarrow> (0xFF, 0) | Some x \<Rightarrow> x);
     (s, c) \<leftarrow> sync_word (if place = None then stream_fail s else s, c);
     (s, off) \<leftarrow> sync_word (s, off);
     if ss_loading s then
       let (q, bad) = restore_page size_of c off in
       if bad then Some (stream_fail s, q) else Some (s, q)
     else Some (s, p) })"

definition all_pages :: "u8 list" where
  "all_pages = map of_nat [0..<0x100]"

section \<open>The base class\<close>

definition mirroring_types :: "mirroring_type list" where
  "mirroring_types = [HORIZONTAL, VERTICAL, SCREEN_A_ONLY, SCREEN_B_ONLY, FOUR_SCREENS]"

definition memory_accesses :: "memory_access list" where
  "memory_accesses = [NO_ACCESS, READ, WRITE, READ_WRITE]"

definition chr_memory_types :: "chr_memory_type list" where
  "chr_memory_types = [CHR_DEFAULT, CHR_ROM, CHR_RAM, NAMETABLE_RAM, CHR_MAPPER_RAM]"

text \<open>The CHR RAM comes with its size, which becomes \<^verbatim>\<open>chr_ram_size_\<close> when all went well.\<close>

definition sync_chr_ram :: "mapper sync" where
  "sync_chr_ram = (\<lambda>(s, m). do {
     (s, xs) \<leftarrow> sync_optional_fixed_vector (unat (get_chr_ram_size (m_chip m))) (s, m_chr_ram m);
     let m = m\<lparr>m_chr_ram := xs\<rparr>;
     if ss_error s then Some (s, m)
     else if ss_loading s then Some (s, m\<lparr>m_chr_ram_size := of_nat (length xs)\<rparr>)
     else Some (s, m) })"

definition base_serialize :: "mapper sync" where
  "base_serialize = sync_all [
     sync_chr_ram,
     member m_work_ram m_work_ram_update sync_fixed_vector,
     member m_save_ram m_save_ram_update sync_fixed_vector,
     member m_nametable_ram m_nametable_ram_update (sync_list sync_word),
     member m_mirroring_type m_mirroring_type_update (sync_enum mirroring_types),
     sync_on (\<lambda>m. member m_prg_pages m_prg_pages_update (sync_table all_pages (sync_page (buffer_size m)))),
     sync_on (\<lambda>m. member m_chr_pages m_chr_pages_update (sync_table all_pages (sync_page (buffer_size m)))),
     member m_prg_memory_access m_prg_memory_access_update (sync_table all_pages (sync_enum memory_accesses)),
     member m_chr_memory_access m_chr_memory_access_update (sync_table all_pages (sync_enum memory_accesses)),
     member m_chr_memory_type m_chr_memory_type_update (sync_table all_pages (sync_enum chr_memory_types))]"

section \<open>The boards\<close>

definition mmc1_serialize :: "mmc1 sync" where
  "mmc1_serialize = sync_all [
     member m1_write_buffer m1_write_buffer_update sync_word,
     member m1_shift_count m1_shift_count_update sync_word,
     member m1_wram_disable m1_wram_disable_update sync_bool,
     member m1_chr_mode m1_chr_mode_update sync_bool,
     member m1_prg_mode m1_prg_mode_update sync_bool,
     member m1_slot_select m1_slot_select_update sync_bool,
     member m1_chr_reg0 m1_chr_reg0_update sync_word,
     member m1_chr_reg1 m1_chr_reg1_update sync_word,
     member m1_prg_reg m1_prg_reg_update sync_word,
     member m1_last_write_cycle m1_last_write_cycle_update sync_word,
     member m1_last_chr_reg m1_last_chr_reg_update sync_word]"

definition mmc3_serialize :: "mmc3 sync" where
  "mmc3_serialize = sync_all [
     member m3_irq_reload_value m3_irq_reload_value_update sync_word,
     member m3_irq_counter m3_irq_counter_update sync_word,
     member m3_irq_reload m3_irq_reload_update sync_bool,
     member m3_irq_enabled m3_irq_enabled_update sync_bool,
     member m3_force_mmc3_rev_a_irqs m3_force_mmc3_rev_a_irqs_update sync_bool,
     member m3_prg_mode m3_prg_mode_update sync_word,
     member m3_chr_mode m3_chr_mode_update sync_word,
     member m3_current_register m3_current_register_update sync_word,
     member m3_registers m3_registers_update (sync_list sync_word),
     member m3_wram_enabled m3_wram_enabled_update sync_bool,
     member m3_wram_write_protected m3_wram_write_protected_update sync_bool,
     member m3_reg_a000 m3_reg_a000_update sync_word,
     member m3_a12_low_clock m3_a12_low_clock_update sync_word]"

text \<open>The members of a board; the board itself does not change.\<close>

fun sync_chip :: "mapper_chip sync" where
  "sync_chip (s, Mapper000 b) = map_option (\<lambda>(s, b). (s, Mapper000 b)) (sync_bool (s, b))"
| "sync_chip (s, Mapper001 r) = map_option (\<lambda>(s, r). (s, Mapper001 r)) (mmc1_serialize (s, r))"
| "sync_chip (s, Mapper004 r) = map_option (\<lambda>(s, r). (s, Mapper004 r)) (mmc3_serialize (s, r))"
| "sync_chip (s, k) = Some (s, k)"

definition mapper_serialize :: "mapper sync" where
  "mapper_serialize = sync_all [
     sync_on (\<lambda>m. if has_own_ram (m_chip m) then member m_own_ram m_own_ram_update sync_fixed_vector else sync_all []),
     base_serialize,
     member m_chip m_chip_update sync_chip]"

section \<open>The console\<close>

definition nes_serialize :: "nes sync" where
  "nes_serialize = sync_all [
     member n_last_frame n_last_frame_update sync_word,
     member n_cpu n_cpu_update cpu_serialize,
     member n_ppu n_ppu_update ppu_serialize,
     member n_mem n_mem_update memory_serialize,
     member n_mixer n_mixer_update mixer_serialize,
     member n_apu n_apu_update apu_serialize,
     member n_mapper n_mapper_update mapper_serialize,
     sync_on (\<lambda>s. member n_ctl n_ctl_update
       (if cm_vs (n_ctl s) then vs_control_serialize else control_serialize))]"

end
