(* ===== verification/Nes_System.thy ===== *)
theory Nes_System
  imports Console State_Cartridge
begin

text \<open>
  \<^verbatim>\<open>NesSystem\<close> (\<^verbatim>\<open>src/systems/nes/nes_system.cpp\<close>): the console with its palette, the picture in
  RGBA, the identity of the loaded content and the saved state. The tracing code behind
  \<^verbatim>\<open>EAR6_ENABLE_PALETTE_TRACE\<close> only prints and is left out.
\<close>

section \<open>Palettes\<close>

definition DEFAULT_NES_PALETTE :: "u32 list" where
  "DEFAULT_NES_PALETTE = [
     0x666666, 0x002A88, 0x1412A7, 0x3B00A4, 0x5C007E, 0x6E0040, 0x6C0600, 0x561D00,
     0x333500, 0x0B4800, 0x005200, 0x004F08, 0x00404D, 0x000000, 0x000000, 0x000000,
     0xADADAD, 0x155FD9, 0x4240FF, 0x7527FE, 0xA01ACC, 0xB71E7B, 0xB53120, 0x994E00,
     0x6B6D00, 0x388700, 0x0C9300, 0x008F32, 0x007C8D, 0x000000, 0x000000, 0x000000,
     0xFFFEFF, 0x64B0FF, 0x9290FF, 0xC676FF, 0xF36AFF, 0xFE6ECC, 0xFE8170, 0xEA9E22,
     0xBCBE00, 0x88D800, 0x5CE430, 0x45E082, 0x48CDDE, 0x4F4F4F, 0x000000, 0x000000,
     0xFFFEFF, 0xC0DFFF, 0xD3D2FF, 0xE8C8FF, 0xFBC2FF, 0xFEC4EA, 0xFECCC5, 0xF7D8A5,
     0xE4E594, 0xCFEF96, 0xBDF4AB, 0xB3F3CC, 0xB5EBF2, 0xB8B8B8, 0x000000, 0x000000]"

definition PALETTE_LUT_2C02 :: "u8 list" where
  "PALETTE_LUT_2C02 = [
     0, 1, 2, 3, 4, 5, 6, 7, 8, 9, 10, 11, 12, 13, 14, 15,
     16, 17, 18, 19, 20, 21, 22, 23, 24, 25, 26, 27, 28, 29, 30, 31,
     32, 33, 34, 35, 36, 37, 38, 39, 40, 41, 42, 43, 44, 45, 46, 47,
     48, 49, 50, 51, 52, 53, 54, 55, 56, 57, 58, 59, 60, 61, 62, 63]"

definition PALETTE_LUT_2C03 :: "u8 list" where
  "PALETTE_LUT_2C03 = [
     0, 1, 2, 3, 4, 5, 6, 7, 8, 9, 10, 11, 12, 13, 14, 15,
     16, 17, 18, 19, 20, 21, 22, 23, 24, 25, 26, 27, 28, 29, 30, 31,
     32, 33, 34, 35, 36, 37, 38, 39, 40, 41, 42, 43, 44, 15, 46, 47,
     48, 49, 50, 51, 52, 53, 54, 55, 56, 57, 58, 59, 60, 15, 62, 63]"

definition PALETTE_LUT_2C04C :: "u8 list" where
  "PALETTE_LUT_2C04C = [
     20, 37, 58, 16, 11, 32, 49, 9, 1, 46, 54, 8, 21, 61, 62, 60,
     34, 28, 5, 18, 25, 24, 23, 27, 0, 3, 46, 2, 22, 6, 52, 53,
     35, 15, 14, 55, 13, 39, 38, 32, 41, 4, 33, 36, 17, 45, 46, 31,
     44, 30, 57, 51, 7, 42, 40, 29, 10, 46, 50, 56, 19, 43, 63, 12]"

definition PALETTE_LUT_2C04A :: "u8 list" where
  "PALETTE_LUT_2C04A = [
     53, 35, 22, 34, 28, 9, 29, 21, 32, 0, 39, 5, 4, 40, 8, 32,
     33, 62, 31, 41, 60, 50, 54, 18, 63, 43, 46, 30, 61, 45, 36, 1,
     14, 49, 51, 42, 44, 12, 27, 20, 46, 7, 52, 6, 19, 2, 38, 46,
     46, 25, 16, 10, 57, 3, 55, 23, 15, 17, 11, 13, 56, 37, 24, 58]"

definition PALETTE_LUT_2C04B :: "u8 list" where
  "PALETTE_LUT_2C04B = [
     46, 39, 24, 57, 58, 37, 28, 49, 22, 19, 56, 52, 32, 35, 60, 11,
     15, 33, 6, 61, 27, 41, 30, 34, 29, 36, 14, 43, 50, 8, 46, 3,
     4, 54, 38, 51, 17, 31, 16, 2, 20, 63, 0, 9, 18, 46, 40, 32,
     62, 13, 42, 23, 12, 1, 21, 25, 46, 44, 7, 55, 53, 5, 10, 45]"

definition PALETTE_LUT_2C04D :: "u8 list" where
  "PALETTE_LUT_2C04D = [
     24, 3, 28, 40, 46, 53, 1, 23, 16, 31, 42, 14, 54, 55, 11, 57,
     37, 30, 18, 52, 46, 29, 6, 38, 62, 27, 34, 25, 4, 46, 58, 33,
     5, 10, 7, 2, 19, 20, 0, 21, 12, 61, 17, 15, 13, 56, 45, 36,
     51, 32, 8, 22, 63, 43, 32, 60, 46, 39, 35, 49, 41, 50, 44, 9]"

definition PALETTE_LUT_2C05 :: "u8 list" where
  "PALETTE_LUT_2C05 = [
     0, 1, 2, 3, 4, 5, 6, 7, 8, 9, 10, 11, 12, 13, 14, 15,
     16, 17, 18, 19, 20, 21, 22, 23, 24, 25, 26, 27, 28, 29, 30, 31,
     32, 33, 34, 35, 36, 37, 38, 39, 40, 41, 42, 43, 44, 15, 46, 47,
     48, 49, 50, 51, 52, 53, 54, 55, 56, 57, 58, 59, 60, 15, 62, 63]"

definition PPU_RGB_2C03 :: "u32 list" where
  "PPU_RGB_2C03 = [
     0x6D6D6D, 0x002491, 0x0000DA, 0x6D48DA, 0x91006D, 0xB6006D, 0xB62400, 0x914800,
     0x6D4800, 0x244800, 0x006D24, 0x009100, 0x004848, 0x000000, 0x000000, 0x000000,
     0xB6B6B6, 0x006DDA, 0x0048FF, 0x9100FF, 0xB600FF, 0xFF0091, 0xFF0000, 0xDA6D00,
     0x916D00, 0x249100, 0x009100, 0x00B66D, 0x009191, 0x000000, 0x000000, 0x000000,
     0xFFFFFF, 0x6DB6FF, 0x9191FF, 0xDA6DFF, 0xFF00FF, 0xFF6DFF, 0xFF9100, 0xFFB600,
     0xDADA00, 0x6DDA00, 0x00FF00, 0x48FFDA, 0x00FFFF, 0x000000, 0x000000, 0x000000,
     0xFFFFFF, 0xB6DAFF, 0xDAB6FF, 0xFFB6FF, 0xFF91FF, 0xFFB6B6, 0xFFDA91, 0xFFFF48,
     0xFFFF6D, 0xB6FF48, 0x91FF6D, 0x48FFDA, 0x91DAFF, 0x000000, 0x000000, 0x000000]"

definition PPU_RGB_2C04C :: "u32 list" where
  "PPU_RGB_2C04C = [
     0xB600FF, 0xFF6DFF, 0x91FF6D, 0xB6B6B6, 0x009100, 0xFFFFFF, 0xB6DAFF, 0x244800,
     0x002491, 0x000000, 0xFFDA91, 0x6D4800, 0xFF0091, 0xDADADA, 0xDAB66D, 0x91DAFF,
     0x9191FF, 0x009191, 0xB6006D, 0x0048FF, 0x249100, 0x916D00, 0xDA6D00, 0x00B66D,
     0x6D6D6D, 0x6D48DA, 0x000000, 0x0000DA, 0xFF0000, 0xB62400, 0xFF91FF, 0xFFB6B6,
     0xDA6DFF, 0x004800, 0x00006D, 0xFFFF00, 0x242424, 0xFFB600, 0xFF9100, 0xFFFFFF,
     0x6DDA00, 0x91006D, 0x6DB6FF, 0xFF00FF, 0x006DDA, 0x919191, 0x000000, 0x6D2400,
     0x00FFFF, 0x480000, 0xB6FF48, 0xFFB6FF, 0x914800, 0x00FF00, 0xDADA00, 0x484848,
     0x006D24, 0x000000, 0xDAB6FF, 0xFFFF6D, 0x9100FF, 0x48FFDA, 0xFFDA00, 0x004848]"

definition PPU_RGB_2C04A :: "u32 list" where
  "PPU_RGB_2C04A = [
     0xFFB6B6, 0xDA6DFF, 0xFF0000, 0x9191FF, 0x009191, 0x244800, 0x484848, 0xFF0091,
     0xFFFFFF, 0x6D6D6D, 0xFFB600, 0xB6006D, 0x91006D, 0xDADA00, 0x6D4800, 0xFFFFFF,
     0x6DB6FF, 0xDAB66D, 0x6D2400, 0x6DDA00, 0x91DAFF, 0xDAB6FF, 0xFFDA91, 0x0048FF,
     0xFFDA00, 0x48FFDA, 0x000000, 0x480000, 0xDADADA, 0x919191, 0xFF00FF, 0x002491,
     0x00006D, 0xB6DAFF, 0xFFB6FF, 0x00FF00, 0x00FFFF, 0x004848, 0x00B66D, 0xB600FF,
     0x000000, 0x914800, 0xFF91FF, 0xB62400, 0x9100FF, 0x0000DA, 0xFF9100, 0x000000,
     0x000000, 0x249100, 0xB6B6B6, 0x006D24, 0xB6FF48, 0x6D48DA, 0xFFFF00, 0xDA6D00,
     0x004800, 0x006DDA, 0x009100, 0x242424, 0xFFFF6D, 0xFF6DFF, 0x916D00, 0x91FF6D]"

definition PPU_RGB_2C04B :: "u32 list" where
  "PPU_RGB_2C04B = [
     0x000000, 0xFFB600, 0x916D00, 0xB6FF48, 0x91FF6D, 0xFF6DFF, 0x009191, 0xB6DAFF,
     0xFF0000, 0x9100FF, 0xFFFF6D, 0xFF91FF, 0xFFFFFF, 0xDA6DFF, 0x91DAFF, 0x009100,
     0x004800, 0x6DB6FF, 0xB62400, 0xDADADA, 0x00B66D, 0x6DDA00, 0x480000, 0x9191FF,
     0x484848, 0xFF00FF, 0x00006D, 0x48FFDA, 0xDAB6FF, 0x6D4800, 0x000000, 0x6D48DA,
     0x91006D, 0xFFDA91, 0xFF9100, 0xFFB6FF, 0x006DDA, 0x6D2400, 0xB6B6B6, 0x0000DA,
     0xB600FF, 0xFFDA00, 0x6D6D6D, 0x244800, 0x0048FF, 0x000000, 0xDADA00, 0xFFFFFF,
     0xDAB66D, 0x242424, 0x00FF00, 0xDA6D00, 0x004848, 0x002491, 0xFF0091, 0x249100,
     0x000000, 0x00FFFF, 0x914800, 0xFFFF00, 0xFFB6B6, 0xB6006D, 0x006D24, 0x919191]"

definition PPU_RGB_2C04D :: "u32 list" where
  "PPU_RGB_2C04D = [
     0x916D00, 0x6D48DA, 0x009191, 0xDADA00, 0x000000, 0xFFB6B6, 0x002491, 0xDA6D00,
     0xB6B6B6, 0x6D2400, 0x00FF00, 0x00006D, 0xFFDA91, 0xFFFF00, 0x009100, 0xB6FF48,
     0xFF6DFF, 0x480000, 0x0048FF, 0xFF91FF, 0x000000, 0x484848, 0xB62400, 0xFF9100,
     0xDAB66D, 0x00B66D, 0x9191FF, 0x249100, 0x91006D, 0x000000, 0x91FF6D, 0x6DB6FF,
     0xB6006D, 0x006D24, 0x914800, 0x0000DA, 0x9100FF, 0xB600FF, 0x6D6D6D, 0xFF0091,
     0x004848, 0xDADADA, 0x006DDA, 0x004800, 0x242424, 0xFFFF6D, 0x919191, 0xFF00FF,
     0xFFB6FF, 0xFFFFFF, 0x6D4800, 0xFF0000, 0xFFDA00, 0x48FFDA, 0xFFFFFF, 0x91DAFF,
     0x000000, 0xFFB600, 0xDA6DFF, 0xB6DAFF, 0x6DDA00, 0xDAB6FF, 0x00FFFF, 0x244800]"

section \<open>State\<close>

text \<open>
  \<open>sy_rgba\<close> is the picture, four bytes a pixel; it has one size for the life of the object. The
  console keeps the header of the loaded ROM, or the default one.
\<close>

record nes_system =
  sy_console :: console
  sy_palette :: "u32 list"
  sy_rgba :: "u8 list"
  sy_identity :: u64

fun console_rom_info :: "console \<Rightarrow> rom_info" where
  "console_rom_info (Unloaded _) = rom_info0"
| "console_rom_info (Running s) = n_rom s"

section \<open>Colours\<close>

text \<open>
  A channel is attenuated once for each of the two emphasis bits of the other colours that are
  set. The code multiplies a \<^verbatim>\<open>double\<close> by 0.84 each time and truncates the result: for the values
  0 to 255 this is the quotient below.
\<close>

definition attenuate :: "nat \<Rightarrow> u8 \<Rightarrow> u8" where
  "attenuate n v = of_nat (unat v * 21 ^ n div 25 ^ n)"

definition apply_emphasis_to_rgb :: "u32 \<Rightarrow> u16 \<Rightarrow> u8 \<Rightarrow> u32" where
  "apply_emphasis_to_rgb rgb bits raw_idx =
     (if bits AND 0x1C0 = 0 \<or> raw_idx AND 0x0F > 0x0D then rgb
      else
        let e_red = of_bool (bits AND 0x040 \<noteq> 0); e_green = of_bool (bits AND 0x080 \<noteq> 0);
            e_blue = of_bool (bits AND 0x100 \<noteq> 0);
            red = attenuate (e_green + e_blue) (ucast (drop_bit 16 rgb));
            green = attenuate (e_red + e_blue) (ucast (drop_bit 8 rgb));
            blue = attenuate (e_red + e_green) (ucast rgb)
        in push_bit 16 (ucast red) OR push_bit 8 (ucast green) OR ucast blue)"

text \<open>The palette index table and, for the arcade PPUs, their colours.\<close>

definition ppu_colours :: "rom_info \<Rightarrow> u8 list \<times> u32 list option" where
  "ppu_colours info =
     (if ri_use_vs_palette info then
        case ri_vs_ppu_model info of
          PPU_2C03 \<Rightarrow> (PALETTE_LUT_2C03, Some PPU_RGB_2C03)
        | PPU_2C04A \<Rightarrow> (PALETTE_LUT_2C04A, Some PPU_RGB_2C04A)
        | PPU_2C04B \<Rightarrow> (PALETTE_LUT_2C04B, Some PPU_RGB_2C04B)
        | PPU_2C04C \<Rightarrow> (PALETTE_LUT_2C04C, Some PPU_RGB_2C04C)
        | PPU_2C04D \<Rightarrow> (PALETTE_LUT_2C04D, Some PPU_RGB_2C04D)
        | PPU_2C02 \<Rightarrow> (PALETTE_LUT_2C02, None)
        | _ \<Rightarrow> (PALETTE_LUT_2C05, Some PPU_RGB_2C03)
      else (PALETTE_LUT_2C02, None))"

definition rgba_bytes :: "u32 \<Rightarrow> u8 list" where
  "rgba_bytes rgb = [ucast (drop_bit 16 rgb), ucast (drop_bit 8 rgb), ucast rgb, 0xFF]"

text \<open>\<open>None\<close>: the masked pixel is not an index of the tables.\<close>

definition convert_pixel :: "rom_info \<Rightarrow> u32 list \<Rightarrow> u8 \<Rightarrow> u16 \<Rightarrow> u16 \<Rightarrow> u8 list option" where
  "convert_pixel info palette palette_ram_mask bits pixel = do {
     let raw_idx = ucast (pixel AND ucast palette_ram_mask);
     let (lut, ppu_rgb) = ppu_colours info;
     pal_idx \<leftarrow> rd lut (unat raw_idx);
     rgb \<leftarrow> (case ppu_rgb of Some colours \<Rightarrow> rd colours (unat raw_idx) | None \<Rightarrow> rd palette (unat pal_idx));
     Some (rgba_bytes (apply_emphasis_to_rgb rgb bits raw_idx)) }"

fun convert_pixels :: "('i \<Rightarrow> u8 list option) \<Rightarrow> 'i list \<Rightarrow> u8 list option" where
  "convert_pixels f [] = Some []"
| "convert_pixels f (i # is) = do { p \<leftarrow> f i; ps \<leftarrow> convert_pixels f is; Some (p @ ps) }"

fun convert_frame :: "nes_system \<Rightarrow> nes_system option" where
  "convert_frame sys = (case sy_console sys of
     Unloaded _ \<Rightarrow> Some sys
   | Running s \<Rightarrow> do {
       let p = n_ppu s;
       rgba \<leftarrow> convert_pixels (\<lambda>i. convert_pixel (n_rom s) (sy_palette sys) (ppu_palette_ram_mask p)
                (ppu_intensify_color_bits p) (ppu_output_buffers p (ppu_framebuffer p) i)) [0..<256 * 240];
       Some (sys\<lparr>sy_rgba := rgba\<rparr>) })"

definition set_palette :: "u32 list \<Rightarrow> nes_system \<Rightarrow> nes_system option" where
  "set_palette palette sys = convert_frame (sys\<lparr>sy_palette := take 64 palette\<rparr>)"

definition new_nes_system :: "nes_system option" where
  "new_nes_system = set_palette DEFAULT_NES_PALETTE
     \<lparr>sy_console = new_console, sy_palette = replicate 64 0, sy_rgba = replicate (256 * 240 * 4) 0, sy_identity = 0\<rparr>"

section \<open>Content\<close>

text \<open>The FNV-1a hash of the image.\<close>

definition fnv_step :: "u64 \<Rightarrow> u8 \<Rightarrow> u64" where
  "fnv_step identity b = (identity XOR ucast b) * 1099511628211"

definition content_identity :: "u8 list \<Rightarrow> u64" where
  "content_identity data = foldl fnv_step 1469598103934665603 data"

definition nes_load :: "audio_env \<Rightarrow> bool \<Rightarrow> string \<Rightarrow> u8 list \<Rightarrow> nes_system \<Rightarrow> (int \<times> nes_system) option" where
  "nes_load E topology db_text data sys = do {
     (ret, con) \<leftarrow> load_rom E topology db_text data (sy_console sys);
     let sys = sys\<lparr>sy_console := con\<rparr>;
     if ret = 0 then do {
       sys \<leftarrow> set_palette DEFAULT_NES_PALETTE (sys\<lparr>sy_identity := content_identity data\<rparr>);
       Some (ret, sys) }
     else Some (ret, sys) }"

section \<open>Saved states\<close>

definition has_state :: "nes_system \<Rightarrow> bool" where
  "has_state sys \<longleftrightarrow> sy_identity sys \<noteq> 0 \<and> is_supported (ri_mapper_number (console_rom_info (sy_console sys)))"

text \<open>\<^verbatim>\<open>NesConsole::serialize\<close> with its check that all components are there.\<close>

fun console_serialize :: "console sync" where
  "console_serialize (s, Unloaded mx) = Some (stream_fail s, Unloaded mx)"
| "console_serialize (s, Running m) = map_option (\<lambda>(s, m). (s, Running m)) (nes_serialize (s, m))"

text \<open>The data on success; the code's other result is -1.\<close>

definition nes_save_state :: "nes_system \<Rightarrow> u8 list option option" where
  "nes_save_state sys =
     (if \<not> has_state sys then Some None
      else do {
        (s, v) \<leftarrow> sync_word (saving_stream, 1 :: u32);
        (s, n) \<leftarrow> sync_word (s, of_nat (ri_mapper_number (console_rom_info (sy_console sys))) :: u32);
        (s, p) \<leftarrow> sync_list sync_word (s, sy_palette sys);
        (s, con) \<leftarrow> console_serialize (s, sy_console sys);
        Some (if ss_error s then None else Some (ss_output s)) })"

text \<open>
  The members are stored as they are read: when the data turns out to be wrong the system
  has been changed all the same.
\<close>

definition nes_load_state :: "u8 list \<Rightarrow> nes_system \<Rightarrow> (int \<times> nes_system) option" where
  "nes_load_state data sys =
     (if \<not> has_state sys then Some (- 1, sys)
      else do {
        (s, version) \<leftarrow> sync_word (loading_stream data, 0 :: u32);
        (s, number) \<leftarrow> sync_word (s, 0 :: u32);
        if version \<noteq> 1 \<or> number \<noteq> of_nat (ri_mapper_number (console_rom_info (sy_console sys)))
        then Some (- 1, sys)
        else do {
          (s, palette) \<leftarrow> sync_list sync_word (s, sy_palette sys);
          (s, con) \<leftarrow> console_serialize (s, sy_console sys);
          let sys = sys\<lparr>sy_palette := palette, sy_console := con\<rparr>;
          if ss_error s \<or> get_remaining s \<noteq> 0 then Some (- 1, sys)
          else do { sys \<leftarrow> convert_frame sys; Some (0, sys) } } })"

section \<open>Running\<close>

text \<open>A step without a ROM follows a null pointer.\<close>

definition nes_step :: "audio_env \<Rightarrow> nes_system \<Rightarrow> (int \<times> nes_system) option" where
  "nes_step E sys = (case sy_console sys of
     Unloaded _ \<Rightarrow> None
   | Running s \<Rightarrow> do {
       s \<leftarrow> run_frame E s;
       sys \<leftarrow> convert_frame (sys\<lparr>sy_console := Running s\<rparr>);
       Some (0, sys) })"

definition nes_get_framebuffer :: "nes_system \<Rightarrow> u8 list" where
  "nes_get_framebuffer sys = sy_rgba sys"

definition on_console :: "(console \<Rightarrow> console) \<Rightarrow> nes_system \<Rightarrow> nes_system" where
  "on_console f sys = sys\<lparr>sy_console := f (sy_console sys)\<rparr>"

end
