(* ===== verification/State_Codec.thy ===== *)
theory State_Codec
  imports State_Stream
begin

text \<open>
  What the syncs of a saved state promise, as rules that follow the structure of an object's
  description. \<open>restores A x y z\<close>: what \<open>A\<close> writes for the value \<open>x\<close> turns \<open>y\<close> into \<open>z\<close>
  when \<open>A\<close> reads it. \<open>reader F\<close>: an execution that reads without an error depends on the
  bytes it takes and on nothing behind them, and fails on any part of them.
\<close>

section \<open>Words\<close>

lemma length_word_bytes [simp]: "length (word_bytes n w) = n"
  by (induction n w rule: word_bytes.induct) simp_all

lemma bit_bytes_word:
  "bit (bytes_word (word_bytes n w) :: 'a::len word) k \<longleftrightarrow> k < 8 * n \<and> bit (w :: 'a word) k"
proof (induction n arbitrary: w k)
  case (Suc n)
  have "bit (bytes_word (word_bytes (Suc n) w) :: 'a word) k \<longleftrightarrow>
      k < 8 \<and> bit w k \<or> k < LENGTH('a) \<and> 8 \<le> k \<and> k - 8 < 8 * n \<and> bit (drop_bit 8 w) (k - 8)"
    by (auto simp: bit_or_iff bit_push_bit_iff bit_ucast_iff Suc.IH dest: bit_imp_le_length)
  then show ?case by (auto simp: bit_drop_bit_eq dest: bit_imp_le_length)
qed simp

lemma bytes_word_bytes: "LENGTH('a::len) \<le> 8 * n \<Longrightarrow> bytes_word (word_bytes n w) = (w :: 'a word)"
  by (rule bit_word_eqI) (simp add: bit_bytes_word)

lemma unat_of_nat_eq: "n < 2 ^ LENGTH('a::len) \<Longrightarrow> unat (of_nat n :: 'a word) = n"
  by (simp add: unsigned_of_nat take_bit_nat_eq_self)

lemma sint_of_int_word:
  assumes "- (2 ^ (LENGTH('a::len) - 1)) \<le> n" "n < 2 ^ (LENGTH('a) - 1)"
  shows "sint (of_int n :: 'a word) = n"
  using assms by (simp add: signed_of_int signed_take_bit_int_eq_self)

section \<open>Restoring\<close>

definition restores :: "'v sync \<Rightarrow> 'v \<Rightarrow> 'v \<Rightarrow> 'v \<Rightarrow> bool" where
  "restores A x y z \<longleftrightarrow> (\<exists>bytes.
     (\<forall>s. \<not> ss_loading s \<longrightarrow> \<not> ss_error s \<longrightarrow> A (s, x) = Some (s\<lparr>ss_output := ss_output s @ bytes\<rparr>, x)) \<and>
     (\<forall>s rest. ss_loading s \<longrightarrow> \<not> ss_error s \<longrightarrow> ss_input s = bytes @ rest \<longrightarrow>
        A (s, y) = Some (s\<lparr>ss_input := rest\<rparr>, z)))"

text \<open>A value that is restored whatever it replaces.\<close>

definition exact :: "'v sync \<Rightarrow> 'v \<Rightarrow> bool" where
  "exact A x \<longleftrightarrow> (\<forall>y. restores A x y x)"

named_theorems restore_intro \<open>rules that follow the description of an object\<close>

lemma exactD [restore_intro]: "exact A x \<Longrightarrow> restores A x y x"
  by (simp add: exact_def)

lemma restoresI:
  assumes "\<And>s. \<not> ss_loading s \<Longrightarrow> \<not> ss_error s \<Longrightarrow> A (s, x) = Some (s\<lparr>ss_output := ss_output s @ bytes\<rparr>, x)"
    and "\<And>s rest. ss_loading s \<Longrightarrow> \<not> ss_error s \<Longrightarrow> ss_input s = bytes @ rest \<Longrightarrow>
      A (s, y) = Some (s\<lparr>ss_input := rest\<rparr>, z)"
  shows "restores A x y z"
  using assms unfolding restores_def by blast

lemma save_word:
  "\<not> ss_loading s \<Longrightarrow> sync_word (s, w :: 'a::len word) =
     Some (s\<lparr>ss_output := ss_output s @ word_bytes (LENGTH('a) div 8) w\<rparr>, w)"
  by (simp add: sync_word_def)

lemma load_word:
  fixes w :: "'a::len word"
  assumes "ss_loading s" "ss_input s = word_bytes (LENGTH('a) div 8) w @ rest" "8 dvd LENGTH('a)"
  shows "sync_word (s, v :: 'a word) = Some (s\<lparr>ss_input := rest\<rparr>, w)"
  using assms by (auto simp: sync_word_def get_remaining_def bytes_word_bytes)

lemma exact_word [restore_intro]: "8 dvd LENGTH('a::len) \<Longrightarrow> exact sync_word (w :: 'a word)"
  unfolding exact_def
  by (intro allI restoresI [where bytes = "word_bytes (LENGTH('a) div 8) w"]) (simp_all add: save_word load_word)

lemma exact_as [restore_intro]:
  fixes f :: "'v \<Rightarrow> 'a::len word"
  assumes "g (f x) = Some x" "8 dvd LENGTH('a)"
  shows "exact (sync_as f g) x"
  unfolding exact_def
proof (intro allI restoresI)
  show "sync_as f g (s, x) = Some (s\<lparr>ss_output := ss_output s @ word_bytes (LENGTH('a) div 8) (f x)\<rparr>, x)"
    if "\<not> ss_loading s" for s using that by (simp add: sync_as_def save_word)
  show "sync_as f g (s, y) = Some (s\<lparr>ss_input := rest\<rparr>, x)"
    if "ss_loading s" "ss_input s = word_bytes (LENGTH('a) div 8) (f x) @ rest" for s rest y
    using that assms by (simp add: sync_as_def load_word [OF that(1,2)])
qed

lemma exact_bool [restore_intro]: "exact sync_bool b"
  unfolding exact_def
proof (intro allI restoresI)
  show "sync_bool (s, b) = Some (s\<lparr>ss_output := ss_output s @ word_bytes 1 (of_flag b :: u8)\<rparr>, b)"
    if "\<not> ss_loading s" for s using that by (simp add: sync_bool_def save_word)
  show "sync_bool (s, y) = Some (s\<lparr>ss_input := rest\<rparr>, b)"
    if "ss_loading s" "ss_input s = word_bytes 1 (of_flag b :: u8) @ rest" for s rest y
  proof -
    have "sync_word (s, v :: u8) = Some (s\<lparr>ss_input := rest\<rparr>, of_flag b)" for v
      using that by (intro load_word) simp_all
    then show ?thesis using that(1) by (cases b) (simp_all add: sync_bool_def)
  qed
qed

lemma exact_nat [restore_intro]:
  "n < 2 ^ 16 \<Longrightarrow> exact sync_nat16 n" "n < 2 ^ 32 \<Longrightarrow> exact sync_nat32 n" "n < 2 ^ 64 \<Longrightarrow> exact sync_nat64 n"
  unfolding sync_nat16_def sync_nat32_def sync_nat64_def
  by (auto intro!: exact_as simp: unat_of_nat_eq)

lemma exact_int [restore_intro]:
  "- (2 ^ 15) \<le> n \<Longrightarrow> n < 2 ^ 15 \<Longrightarrow> exact sync_int16 n"
  "- (2 ^ 31) \<le> n \<Longrightarrow> n < 2 ^ 31 \<Longrightarrow> exact sync_int32 n"
  unfolding sync_int16_def sync_int32_def
  by (auto intro!: exact_as simp: sint_of_int_word)

lemma exact_count [restore_intro]:
  assumes "n < 2 ^ 31"
  shows "exact sync_count n"
proof -
  have "sint (of_nat n :: u32) = int n"
    using assms sint_of_int_word [where 'a = 32, of "int n"] by simp
  moreover have "unat (of_nat n :: u32) = n" using assms by (simp add: unat_of_nat_eq)
  ultimately show ?thesis unfolding sync_count_def by (intro exact_as) simp_all
qed

lemma enum_index_nth: "e \<in> set es \<Longrightarrow> enum_index es e < length es \<and> es ! enum_index es e = e"
proof (induction es)
  case (Cons x es)
  then show ?case by (auto simp: enum_index_def)
qed simp

lemma exact_enum [restore_intro]:
  assumes "e \<in> set es" "length es < 2 ^ 32"
  shows "exact (sync_enum es) e"
proof -
  have "unat (of_nat (enum_index es e) :: u32) = enum_index es e"
    using enum_index_nth [OF assms(1)] assms(2) by (simp add: unat_of_nat_eq)
  then show ?thesis
    unfolding sync_enum_def using enum_index_nth [OF assms(1)] by (intro exact_as) simp_all
qed

section \<open>Composition\<close>

lemma restores_field [restore_intro]:
  assumes "restores A (get x) (get y) v" "put (get x) x = x"
  shows "restores (sync_field get put A) x y (put v y)"
  using assms unfolding restores_def sync_field_def by fastforce

lemma restores_Nil [restore_intro]: "restores (sync_all []) x y y"
  by (rule restoresI [where bytes = "[]"]) simp_all

lemma restores_Cons [restore_intro]:
  assumes "restores A x y z" "restores (sync_all As) x z w"
  shows "restores (sync_all (A # As)) x y w"
proof -
  obtain b where b: "\<And>s. \<not> ss_loading s \<Longrightarrow> \<not> ss_error s \<Longrightarrow> A (s, x) = Some (s\<lparr>ss_output := ss_output s @ b\<rparr>, x)"
    "\<And>s rest. ss_loading s \<Longrightarrow> \<not> ss_error s \<Longrightarrow> ss_input s = b @ rest \<Longrightarrow> A (s, y) = Some (s\<lparr>ss_input := rest\<rparr>, z)"
    using assms(1) unfolding restores_def by blast
  obtain c where c: "\<And>s. \<not> ss_loading s \<Longrightarrow> \<not> ss_error s \<Longrightarrow> sync_all As (s, x) = Some (s\<lparr>ss_output := ss_output s @ c\<rparr>, x)"
    "\<And>s rest. ss_loading s \<Longrightarrow> \<not> ss_error s \<Longrightarrow> ss_input s = c @ rest \<Longrightarrow> sync_all As (s, z) = Some (s\<lparr>ss_input := rest\<rparr>, w)"
    using assms(2) unfolding restores_def by blast
  show ?thesis by (rule restoresI [where bytes = "b @ c"]) (simp_all add: b c)
qed

text \<open>The members that an object is put back from are those it was saved with.\<close>

lemma restores_list:
  "list_all2 (\<lambda>x y. restores A x y x) xs ys \<Longrightarrow> restores (sync_list A) xs ys xs"
proof (induction rule: list_all2_induct)
  case Nil
  then show ?case by (intro restoresI [where bytes = "[]"]) simp_all
next
  case (Cons x xs y ys)
  from Cons.hyps(1) obtain b where b: "\<And>s. \<not> ss_loading s \<Longrightarrow> \<not> ss_error s \<Longrightarrow> A (s, x) = Some (s\<lparr>ss_output := ss_output s @ b\<rparr>, x)"
    "\<And>s rest. ss_loading s \<Longrightarrow> \<not> ss_error s \<Longrightarrow> ss_input s = b @ rest \<Longrightarrow> A (s, y) = Some (s\<lparr>ss_input := rest\<rparr>, x)"
    unfolding restores_def by blast
  from Cons.IH obtain c where
    c: "\<And>s. \<not> ss_loading s \<Longrightarrow> \<not> ss_error s \<Longrightarrow> sync_list A (s, xs) = Some (s\<lparr>ss_output := ss_output s @ c\<rparr>, xs)"
    "\<And>s rest. ss_loading s \<Longrightarrow> \<not> ss_error s \<Longrightarrow> ss_input s = c @ rest \<Longrightarrow>
      sync_list A (s, ys) = Some (s\<lparr>ss_input := rest\<rparr>, xs)"
    unfolding restores_def by blast
  show ?case by (rule restoresI [where bytes = "b @ c"]) (simp_all add: b c)
qed

lemma exact_list:
  "(\<And>x. x \<in> set xs \<Longrightarrow> exact A x) \<Longrightarrow> length ys = length xs \<Longrightarrow> restores (sync_list A) xs ys xs"
  by (intro restores_list) (simp add: list_all2_conv_all_nth exactD)

lemma exact_table:
  assumes "\<And>i. i \<in> set is \<Longrightarrow> exact A (f i)"
  shows "restores (sync_table is A) f g (\<lambda>i. if i \<in> set is then f i else g i)"
  using assms
proof (induction "is" arbitrary: g)
  case Nil
  then show ?case by (intro restoresI [where bytes = "[]"]) simp_all
next
  case (Cons i "is")
  from Cons.prems [of i] have "restores A (f i) (g i) (f i)" by (simp add: exact_def)
  then obtain b where b: "\<And>s. \<not> ss_loading s \<Longrightarrow> \<not> ss_error s \<Longrightarrow> A (s, f i) = Some (s\<lparr>ss_output := ss_output s @ b\<rparr>, f i)"
    "\<And>s rest. ss_loading s \<Longrightarrow> \<not> ss_error s \<Longrightarrow> ss_input s = b @ rest \<Longrightarrow> A (s, g i) = Some (s\<lparr>ss_input := rest\<rparr>, f i)"
    unfolding restores_def by blast
  have e: "(\<lambda>j. if j \<in> set is then f j else (g(i := f i)) j) = (\<lambda>j. if j \<in> set (i # is) then f j else g j)"
    by (auto simp: fun_eq_iff)
  have "restores (sync_table is A) f (g(i := f i)) (\<lambda>j. if j \<in> set is then f j else (g(i := f i)) j)"
    by (rule Cons.IH) (simp add: Cons.prems)
  then obtain c where c: "\<And>s. \<not> ss_loading s \<Longrightarrow> \<not> ss_error s \<Longrightarrow> sync_table is A (s, f) = Some (s\<lparr>ss_output := ss_output s @ c\<rparr>, f)"
    "\<And>s rest. ss_loading s \<Longrightarrow> \<not> ss_error s \<Longrightarrow> ss_input s = c @ rest \<Longrightarrow>
      sync_table is A (s, g(i := f i)) = Some (s\<lparr>ss_input := rest\<rparr>, (\<lambda>j. if j \<in> set (i # is) then f j else g j))"
    unfolding restores_def e by blast
  show ?case by (rule restoresI [where bytes = "b @ c"]) (simp_all add: b c)
qed

lemma bytes_of_list:
  assumes "\<not> ss_loading s"
  shows "sync_list sync_word (s, xs :: 'a::len word list) =
    Some (s\<lparr>ss_output := ss_output s @ concat (map (word_bytes (LENGTH('a) div 8)) xs)\<rparr>, xs)"
  using assms
proof (induction xs arbitrary: s)
  case (Cons x xs)
  have "\<not> ss_loading (s\<lparr>ss_output := o1\<rparr>)" for o1 using Cons.prems by simp
  from Cons.IH [OF this] show ?case by (simp add: save_word [OF Cons.prems])
qed simp

lemma list_of_bytes:
  fixes xs :: "'a::len word list"
  assumes "ss_loading s" "8 dvd LENGTH('a)" "length ys = length xs"
    "ss_input s = concat (map (word_bytes (LENGTH('a) div 8)) xs) @ rest"
  shows "sync_list sync_word (s, ys) = Some (s\<lparr>ss_input := rest\<rparr>, xs)"
  using assms
proof (induction xs arbitrary: s ys)
  case (Cons x xs)
  from Cons.prems(3) obtain y ys' where ys: "ys = y # ys'" "length ys' = length xs" by (cases ys) auto
  let ?s = "s\<lparr>ss_input := concat (map (word_bytes (LENGTH('a) div 8)) xs) @ rest\<rparr>"
  have "sync_word (s, y) = Some (?s, x)" using Cons.prems by (intro load_word) simp_all
  moreover have "sync_list sync_word (?s, ys') = Some (?s\<lparr>ss_input := rest\<rparr>, xs)"
    using Cons.prems(1,2) ys(2) by (intro Cons.IH) simp_all
  ultimately show ?case by (simp add: ys(1))
qed simp

lemma length_concat_bytes: "length (concat (map (word_bytes n) xs)) = length xs * n"
  by (induction xs) simp_all

lemma length_word_resize [simp]: "length (word_resize n xs) = n"
  by (simp add: word_resize_def)

lemma exact_vector [restore_intro]:
  fixes xs :: "'a::len word list"
  assumes "length xs < 2 ^ 64" "8 dvd LENGTH('a)"
  shows "exact sync_vector xs"
  unfolding exact_def
proof (intro allI restoresI)
  let ?n = "of_nat (length xs) :: u64" and ?bs = "concat (map (word_bytes (LENGTH('a) div 8)) xs)"
  have n: "unat ?n = length xs" using assms(1) by (simp add: unat_of_nat_eq)
  have "8 \<le> LENGTH('a)" using assms(2) by (auto intro: dvd_imp_le)
  then have w: "0 < LENGTH('a) div 8" by (simp add: div_greater_zero_iff)
  show "sync_vector (s, xs) = Some (s\<lparr>ss_output := ss_output s @ word_bytes 8 ?n @ ?bs\<rparr>, xs)"
    if "\<not> ss_loading s" "\<not> ss_error s" for s
    using that by (simp add: sync_vector_def save_word bytes_of_list)
  show "sync_vector (s, ys) = Some (s\<lparr>ss_input := rest\<rparr>, xs)"
    if s: "ss_loading s" "\<not> ss_error s" "ss_input s = (word_bytes 8 ?n @ ?bs) @ rest" for s rest ys
  proof -
    let ?s = "s\<lparr>ss_input := ?bs @ rest\<rparr>"
    have "sync_word (s, v :: u64) = Some (?s, ?n)" for v using s by (intro load_word) simp_all
    moreover have "length xs \<le> get_remaining ?s div (LENGTH('a) div 8)"
      using w by (simp add: get_remaining_def length_concat_bytes)
    moreover have "sync_list sync_word (?s, word_resize (length xs) ys) = Some (?s\<lparr>ss_input := rest\<rparr>, xs)"
      using s assms(2) by (intro list_of_bytes) simp_all
    ultimately show ?thesis using s n by (simp add: sync_vector_def)
  qed
qed

end
