(* ===== verification/State_Reader.thy ===== *)
theory State_Reader
  imports State_Codec
begin

text \<open>
  The contract of a sync towards malformed input, as a locale: an error is never forgotten,
  a read that succeeds depends on the bytes it takes only and needs all of them, and a sync
  that saves leaves the value alone. The contract is closed under the combinators that
  describe objects.
\<close>

section \<open>Executions over a stream\<close>

definition consumes :: "(stream \<Rightarrow> (stream \<times> 'a) option) \<Rightarrow> stream \<Rightarrow> stream \<Rightarrow> 'a \<Rightarrow> bool" where
  "consumes F s s' a \<longleftrightarrow> (\<exists>taken. ss_input s = taken @ ss_input s' \<and>
     (\<forall>rest. F (s\<lparr>ss_input := taken @ rest\<rparr>) = Some (s'\<lparr>ss_input := rest\<rparr>, a)) \<and>
     (\<forall>p q t b. taken = p @ q \<longrightarrow> q \<noteq> [] \<longrightarrow> F (s\<lparr>ss_input := p\<rparr>) = Some (t, b) \<longrightarrow> ss_error t))"

definition reader :: "(stream \<Rightarrow> (stream \<times> 'a) option) \<Rightarrow> bool" where
  "reader F \<longleftrightarrow> (\<forall>s s' a. F s = Some (s', a) \<longrightarrow>
     ss_loading s' = ss_loading s \<and> (ss_error s \<longrightarrow> ss_error s') \<and>
     (ss_loading s \<longrightarrow> \<not> ss_error s' \<longrightarrow> consumes F s s' a))"

named_theorems reader_intro \<open>executions that respect the contract\<close>

lemma readerD:
  assumes "reader F" "F s = Some (s', a)"
  shows "ss_loading s' = ss_loading s" "ss_error s \<Longrightarrow> ss_error s'"
    "ss_loading s \<Longrightarrow> \<not> ss_error s' \<Longrightarrow> consumes F s s' a"
  using assms unfolding reader_def by blast+

lemma reader_return [reader_intro]: "reader (\<lambda>s. Some (s, a))"
  by (auto simp: reader_def consumes_def)

lemma reader_none [reader_intro]: "reader (\<lambda>s. None)"
  by (simp add: reader_def)

lemma reader_fail [reader_intro]: "reader (\<lambda>s. Some (stream_fail s, a))"
  by (auto simp: reader_def stream_fail_def)

lemma reader_option [reader_intro]: "reader (\<lambda>s. map_option (Pair s) x)"
  by (cases x) (auto simp: reader_intro)

lemma consumes_bind:
  assumes F: "reader F" and G: "\<And>a. reader (G a)"
    and f: "F s = Some (t, a)" and g: "G a t = Some (u, b)" and l: "ss_loading s" "\<not> ss_error u"
  shows "consumes (\<lambda>s. Option.bind (F s) (\<lambda>(s, a). G a s)) s u b"
proof -
  have lt: "ss_loading t" using readerD(1) [OF F f] l(1) by simp
  have et: "\<not> ss_error t" using readerD(2) [OF G g] l(2) by blast
  obtain x where x: "ss_input s = x @ ss_input t"
    "\<And>rest. F (s\<lparr>ss_input := x @ rest\<rparr>) = Some (t\<lparr>ss_input := rest\<rparr>, a)"
    "\<And>p q v b. x = p @ q \<Longrightarrow> q \<noteq> [] \<Longrightarrow> F (s\<lparr>ss_input := p\<rparr>) = Some (v, b) \<Longrightarrow> ss_error v"
    using readerD(3) [OF F f l(1) et] unfolding consumes_def by blast
  obtain y where y: "ss_input t = y @ ss_input u"
    "\<And>rest. G a (t\<lparr>ss_input := y @ rest\<rparr>) = Some (u\<lparr>ss_input := rest\<rparr>, b)"
    "\<And>p q v b. y = p @ q \<Longrightarrow> q \<noteq> [] \<Longrightarrow> G a (t\<lparr>ss_input := p\<rparr>) = Some (v, b) \<Longrightarrow> ss_error v"
    using readerD(3) [OF G g lt l(2)] unfolding consumes_def by blast
  show ?thesis
    unfolding consumes_def
  proof (intro exI [of _ "x @ y"] conjI allI impI)
    show "ss_input s = (x @ y) @ ss_input u" by (simp add: x(1) y(1))
    show "Option.bind (F (s\<lparr>ss_input := (x @ y) @ rest\<rparr>)) (\<lambda>(s, a). G a s) = Some (u\<lparr>ss_input := rest\<rparr>, b)" for rest
      by (simp add: x(2) y(2))
    fix p q v c
    assume pq: "x @ y = p @ q" "q \<noteq> []" and r: "Option.bind (F (s\<lparr>ss_input := p\<rparr>)) (\<lambda>(s, a). G a s) = Some (v, c)"
    from r obtain w d where w: "F (s\<lparr>ss_input := p\<rparr>) = Some (w, d)" "G d w = Some (v, c)"
      by (auto simp: bind_eq_Some_conv)
    from pq(1) consider z where "x = p @ z" "z @ y = q" | z where "p = x @ z" "y = z @ q"
      by (auto simp: append_eq_append_conv2)
    then show "ss_error v"
    proof cases
      case 1
      show ?thesis
      proof (cases "z = []")
        case True
        with 1 w x(2) [of "[]"] have "w = t\<lparr>ss_input := []\<rparr>" "d = a" by simp_all
        with y(3) [of "[]" y v c] w(2) 1 True pq(2) show ?thesis by simp
      next
        case False
        from x(3) [OF 1(1) False w(1)] show ?thesis using readerD(2) [OF G w(2)] by blast
      qed
    next
      case 2
      with w x(2) [of z] have "w = t\<lparr>ss_input := z\<rparr>" "d = a" by simp_all
      with y(3) [OF 2(2) pq(2)] w(2) show ?thesis by simp
    qed
  qed
qed

lemma reader_bind [reader_intro]:
  assumes F: "reader F" and G: "\<And>a. reader (G a)"
  shows "reader (\<lambda>s. Option.bind (F s) (\<lambda>(s, a). G a s))"
  unfolding reader_def
proof (intro allI impI)
  fix s u b assume r: "Option.bind (F s) (\<lambda>(s, a). G a s) = Some (u, b)"
  then obtain t a where f: "F s = Some (t, a)" "G a t = Some (u, b)" by (auto simp: bind_eq_Some_conv)
  show "ss_loading u = ss_loading s \<and> (ss_error s \<longrightarrow> ss_error u) \<and>
      (ss_loading s \<longrightarrow> \<not> ss_error u \<longrightarrow> consumes (\<lambda>s. Option.bind (F s) (\<lambda>(s, a). G a s)) s u b)"
    using readerD(1,2) [OF F f(1)] readerD(1,2) [OF G f(2)] consumes_bind [of F G s t a u b, OF F G f] by blast
qed

lemma reader_bind_case [reader_intro]:
  assumes "reader F" "\<And>a. reader (\<lambda>s. G s a)"
  shows "reader (\<lambda>s. Option.bind (F s) (\<lambda>(s, a). G s a))"
  using reader_bind [of F "\<lambda>a s. G s a"] assms by blast

lemma reader_map [reader_intro]:
  assumes "reader F"
  shows "reader (\<lambda>s. map_option (\<lambda>(s, a). (s, f a)) (F s))"
proof -
  have "(\<lambda>s. map_option (\<lambda>(s, a). (s, f a)) (F s)) = (\<lambda>s. Option.bind (F s) (\<lambda>(s, a). Some (s, f a)))"
    by (rule ext) (auto simp: map_option_case split: option.splits)
  then show ?thesis using assms by (auto intro: reader_intro)
qed

text \<open>Choices on the value, on the mode, and on an error that has happened.\<close>

lemma reader_if [reader_intro]: "reader F \<Longrightarrow> reader G \<Longrightarrow> reader (\<lambda>s. if b then F s else G s)"
  by (cases b) simp_all

lemma reader_mode [reader_intro]:
  assumes "reader F" "reader G"
  shows "reader (\<lambda>s. if ss_loading s then F s else G s)"
  unfolding reader_def
proof (intro allI impI)
  fix s t a assume r: "(if ss_loading s then F s else G s) = Some (t, a)"
  have e: "consumes (\<lambda>s. if ss_loading s then F s else G s) s t a = consumes F s t a" if "ss_loading s"
    using that by (simp add: consumes_def)
  show "ss_loading t = ss_loading s \<and> (ss_error s \<longrightarrow> ss_error t) \<and>
      (ss_loading s \<longrightarrow> \<not> ss_error t \<longrightarrow> consumes (\<lambda>s. if ss_loading s then F s else G s) s t a)"
    using r readerD [OF assms(1), of s t a] readerD(1,2) [OF assms(2), of s t a] e by (auto split: if_splits)
qed

lemma reader_saving [reader_intro]:
  "reader F \<Longrightarrow> reader G \<Longrightarrow> reader (\<lambda>s. if \<not> ss_loading s then G s else F s)"
proof -
  have "(\<lambda>s. if \<not> ss_loading s then G s else F s) = (\<lambda>s. if ss_loading s then F s else G s)" by auto
  then show "reader F \<Longrightarrow> reader G \<Longrightarrow> reader (\<lambda>s. if \<not> ss_loading s then G s else F s)"
    using reader_mode [of F G] by simp
qed

lemma reader_error [reader_intro]:
  assumes "reader G"
  shows "reader (\<lambda>s. if ss_error s then Some (s, a) else G s)"
  unfolding reader_def
proof (intro allI impI)
  fix s t b assume r: "(if ss_error s then Some (s, a) else G s) = Some (t, b)"
  have e: "consumes (\<lambda>s. if ss_error s then Some (s, a) else G s) s t b = consumes G s t b" if "\<not> ss_error s"
    using that by (simp add: consumes_def)
  show "ss_loading t = ss_loading s \<and> (ss_error s \<longrightarrow> ss_error t) \<and>
      (ss_loading s \<longrightarrow> \<not> ss_error t \<longrightarrow> consumes (\<lambda>s. if ss_error s then Some (s, a) else G s) s t b)"
    using r readerD [OF assms, of s t b] e by (auto split: if_splits)
qed

text \<open>The two places that look at what is left of the input.\<close>

lemma reader_bytes [reader_intro]:
  "reader (\<lambda>s. if get_remaining s < n then Some (stream_fail s, a)
     else Some (s\<lparr>ss_input := drop n (ss_input s)\<rparr>, f (take n (ss_input s))))"
  unfolding reader_def
proof (intro allI impI)
  fix s t b
  assume r: "(if get_remaining s < n then Some (stream_fail s, a)
    else Some (s\<lparr>ss_input := drop n (ss_input s)\<rparr>, f (take n (ss_input s)))) = Some (t, b)"
  have "consumes (\<lambda>s. if get_remaining s < n then Some (stream_fail s, a)
      else Some (s\<lparr>ss_input := drop n (ss_input s)\<rparr>, f (take n (ss_input s)))) s t b" if "\<not> ss_error t"
    unfolding consumes_def
  proof (intro exI [of _ "take n (ss_input s)"] conjI allI impI)
    have t: "n \<le> length (ss_input s)" "t = s\<lparr>ss_input := drop n (ss_input s)\<rparr>" "b = f (take n (ss_input s))"
      using r that by (auto simp: get_remaining_def stream_fail_def split: if_splits)
    then show "ss_input s = take n (ss_input s) @ ss_input t" by simp
    show "(if get_remaining (s\<lparr>ss_input := take n (ss_input s) @ rest\<rparr>) < n then Some (stream_fail (s\<lparr>ss_input := take n (ss_input s) @ rest\<rparr>), a)
        else Some (s\<lparr>ss_input := take n (ss_input s) @ rest\<rparr>\<lparr>ss_input := drop n (ss_input (s\<lparr>ss_input := take n (ss_input s) @ rest\<rparr>))\<rparr>,
          f (take n (ss_input (s\<lparr>ss_input := take n (ss_input s) @ rest\<rparr>))))) = Some (t\<lparr>ss_input := rest\<rparr>, b)" for rest
      using t by (simp add: get_remaining_def)
    fix p q v c
    assume pq: "take n (ss_input s) = p @ q" "q \<noteq> []"
      and v: "(if get_remaining (s\<lparr>ss_input := p\<rparr>) < n then Some (stream_fail (s\<lparr>ss_input := p\<rparr>), a)
        else Some (s\<lparr>ss_input := p\<rparr>\<lparr>ss_input := drop n (ss_input (s\<lparr>ss_input := p\<rparr>))\<rparr>,
          f (take n (ss_input (s\<lparr>ss_input := p\<rparr>))))) = Some (v, c)"
    have "length (take n (ss_input s)) = length (p @ q)" by (simp only: pq(1))
    then have "length p < n" using t(1) pq(2) by (cases q) auto
    with v show "ss_error v" by (auto simp: get_remaining_def stream_fail_def)
  qed
  with r show "ss_loading t = ss_loading s \<and> (ss_error s \<longrightarrow> ss_error t) \<and>
      (ss_loading s \<longrightarrow> \<not> ss_error t \<longrightarrow> consumes (\<lambda>s. if get_remaining s < n then Some (stream_fail s, a)
      else Some (s\<lparr>ss_input := drop n (ss_input s)\<rparr>, f (take n (ss_input s)))) s t b)"
    by (auto simp: stream_fail_def split: if_splits)
qed

section \<open>The contract\<close>

locale state_sync =
  fixes A :: "'v sync"
  assumes reads: "reader (\<lambda>s. A (s, v))"
    and saves: "A (s, v) = Some (s', v') \<Longrightarrow> \<not> ss_loading s \<Longrightarrow> v' = v"
begin

lemma loaded_all:
  assumes "A (loading_stream data, y) = Some (s, z)" "\<not> ss_error s" "get_remaining s = 0"
  shows "\<And>more. A (loading_stream (data @ more), y) = Some (s\<lparr>ss_input := more\<rparr>, z)"
    and "\<And>p q t u. data = p @ q \<Longrightarrow> q \<noteq> [] \<Longrightarrow> A (loading_stream p, y) = Some (t, u) \<Longrightarrow> ss_error t"
proof -
  have l: "loading_stream data\<lparr>ss_input := x\<rparr> = loading_stream x" for x by (simp add: loading_stream_def)
  have "consumes (\<lambda>s. A (s, y)) (loading_stream data) s z"
    using readerD(3) [OF reads assms(1)] assms(2) by (simp add: loading_stream_def)
  then show "\<And>more. A (loading_stream (data @ more), y) = Some (s\<lparr>ss_input := more\<rparr>, z)"
    "\<And>p q t u. data = p @ q \<Longrightarrow> q \<noteq> [] \<Longrightarrow> A (loading_stream p, y) = Some (t, u) \<Longrightarrow> ss_error t"
    using assms(3) unfolding consumes_def l by (auto simp: loading_stream_def get_remaining_def)
qed

lemma saved: "A (s, v) = Some (s', v') \<Longrightarrow> \<not> ss_loading s \<Longrightarrow> v' = v \<and> \<not> ss_loading s'"
  using saves readerD(1) [OF reads] by blast

text \<open>An error raised once stays until the end.\<close>

lemma error_stays: "A (s, v) = Some (s', v') \<Longrightarrow> ss_error s \<Longrightarrow> ss_error s'"
  using readerD(2) [OF reads] by blast

end

named_theorems contract \<open>syncs that respect the contract\<close>

lemma reader_word [reader_intro]: "reader (\<lambda>s. sync_word (s, v))"
proof -
  have save: "reader (\<lambda>s. Some (s\<lparr>ss_output := ss_output s @ b\<rparr>, a))" for b and a :: 'b
    by (auto simp: reader_def consumes_def)
  have "reader (\<lambda>s. if \<not> ss_loading s then Some (s\<lparr>ss_output := ss_output s @ word_bytes (LENGTH('a) div 8) v\<rparr>, v)
      else if get_remaining s < LENGTH('a) div 8 then Some (stream_fail s, v)
      else Some (s\<lparr>ss_input := drop (LENGTH('a) div 8) (ss_input s)\<rparr>, bytes_word (take (LENGTH('a) div 8) (ss_input s))))"
    by (intro reader_saving reader_bytes save)
  then show ?thesis unfolding sync_word_def by (simp add: Let_def)
qed

lemma state_sync_word [contract]: "state_sync sync_word"
  by (standard; (rule reader_word)?) (auto simp: sync_word_def Let_def)

lemma state_sync_as [contract]: "state_sync (sync_as f g)"
proof
  show "reader (\<lambda>s. sync_as f g (s, v))" for v
    unfolding sync_as_def prod.case by (intro reader_intro)
  show "v' = v" if "sync_as f g (s, v) = Some (s', v')" "\<not> ss_loading s" for s v s' v'
    using that by (simp add: sync_as_def save_word)
qed

lemma state_sync_bool [contract]: "state_sync sync_bool"
proof
  show "reader (\<lambda>s. sync_bool (s, v))" for v
    unfolding sync_bool_def prod.case by (intro reader_intro)
  show "v' = v" if "sync_bool (s, v) = Some (s', v')" "\<not> ss_loading s" for s v s' v'
    using that by (simp add: sync_bool_def save_word)
qed

lemma state_sync_values [contract]:
  "state_sync sync_nat16" "state_sync sync_nat32" "state_sync sync_nat64" "state_sync sync_int16"
  "state_sync sync_int32" "state_sync sync_count" "state_sync (sync_enum es)"
  by (simp_all add: sync_nat16_def sync_nat32_def sync_nat64_def sync_int16_def sync_int32_def
      sync_count_def sync_enum_def contract)

lemma state_sync_field [contract]:
  assumes "state_sync A" "\<And>r. put (get r) r = r"
  shows "state_sync (sync_field get put A)"
proof
  show "reader (\<lambda>s. sync_field get put A (s, r))" for r
    unfolding sync_field_def prod.case using state_sync.reads [OF assms(1)] by (intro reader_intro)
  show "r' = r" if "sync_field get put A (s, r) = Some (s', r')" "\<not> ss_loading s" for s r s' r'
    using that state_sync.saves [OF assms(1)] assms(2) by (fastforce simp: sync_field_def bind_eq_Some_conv)
qed

lemma reader_all: "(\<And>A v. A \<in> set As \<Longrightarrow> reader (\<lambda>s. A (s, v))) \<Longrightarrow> reader (\<lambda>s. sync_all As (s, v))"
proof (induction As arbitrary: v)
  case (Cons A As)
  have "reader (\<lambda>s. Option.bind (A (s, v)) (\<lambda>(s, a). sync_all As (s, a)))"
    by (intro reader_intro Cons) simp_all
  then show ?case by (simp add: case_prod_eta)
qed (auto intro: reader_intro)

lemma state_sync_all [contract]:
  assumes "list_all state_sync As"
  shows "state_sync (sync_all As)"
proof
  show "reader (\<lambda>s. sync_all As (s, v))" for v
    using assms by (intro reader_all) (auto simp: list_all_iff state_sync.reads)
  show "v' = v" if "sync_all As (s, v) = Some (s', v')" "\<not> ss_loading s" for s v s' v'
    using assms that
  proof (induction As arbitrary: s v)
    case (Cons A As)
    from Cons.prems(2) obtain t w where t: "A (s, v) = Some (t, w)" "sync_all As (t, w) = Some (s', v')"
      by (auto simp: bind_eq_Some_conv)
    from Cons.prems(1) have A: "state_sync A" "list_all state_sync As" by simp_all
    have "w = v" using state_sync.saves [OF A(1) t(1) Cons.prems(3)] .
    moreover have "\<not> ss_loading t" using readerD(1) [OF state_sync.reads [OF A(1)] t(1)] Cons.prems(3) by simp
    ultimately show ?case using Cons.IH [OF A(2) t(2)] by simp
  qed simp
qed

lemma reader_list: "(\<And>v. reader (\<lambda>s. A (s, v))) \<Longrightarrow> reader (\<lambda>s. sync_list A (s, vs))"
  by (induction vs) (auto intro!: reader_intro)

lemma saves_list:
  assumes "state_sync A" "sync_list A (s, vs) = Some (s', vs')" "\<not> ss_loading s"
  shows "vs' = vs"
  using assms(2,3)
proof (induction vs arbitrary: s vs')
  case (Cons v vs)
  from Cons.prems(1) obtain t w ws where t: "A (s, v) = Some (t, w)" "sync_list A (t, vs) = Some (s', ws)" "vs' = w # ws"
    by (auto simp: bind_eq_Some_conv)
  have "\<not> ss_loading t" using readerD(1) [OF state_sync.reads [OF assms(1)] t(1)] Cons.prems(2) by simp
  then show ?case using state_sync.saves [OF assms(1) t(1) Cons.prems(2)] Cons.IH [OF t(2)] t(3) by simp
qed simp

lemma state_sync_list [contract]:
  assumes "state_sync A"
  shows "state_sync (sync_list A)"
  by standard (auto intro: reader_list state_sync.reads [OF assms] saves_list [OF assms])

lemma state_sync_table [contract]:
  assumes "state_sync A"
  shows "state_sync (sync_table is A)"
proof
  show "reader (\<lambda>s. sync_table is A (s, t))" for t
    by (induction "is" arbitrary: t) (auto intro!: reader_intro state_sync.reads [OF assms])
  show "t' = t" if "sync_table is A (s, t) = Some (s', t')" "\<not> ss_loading s" for s t s' t'
    using that
  proof (induction "is" arbitrary: s t)
    case (Cons i "is")
    from Cons.prems(1) obtain u w where u: "A (s, t i) = Some (u, w)" "sync_table is A (u, t(i := w)) = Some (s', t')"
      by (auto simp: bind_eq_Some_conv)
    have "\<not> ss_loading u" using readerD(1) [OF state_sync.reads [OF assms] u(1)] Cons.prems(2) by simp
    then show ?case using state_sync.saves [OF assms u(1) Cons.prems(2)] Cons.IH [OF u(2)] by simp
  qed simp
qed

text \<open>The size check of a vector: the elements take exactly what it asks for.\<close>

lemma word_list_takes:
  fixes vs :: "'a::len word list"
  assumes "sync_list sync_word (s, vs) = Some (s', vs')" "ss_loading s" "\<not> ss_error s'"
  shows "length (ss_input s) = length vs * (LENGTH('a) div 8) + length (ss_input s')"
  using assms(1,2)
proof (induction vs arbitrary: s vs')
  case (Cons v vs)
  from Cons.prems(1) obtain t w ws where t: "sync_word (s, v) = Some (t, w)" "sync_list sync_word (t, vs) = Some (s', ws)"
    by (auto simp: bind_eq_Some_conv)
  have l: "ss_loading t" using readerD(1) [OF reader_word t(1)] Cons.prems(2) by simp
  have "\<not> ss_error t" using readerD(2) [OF reader_list [OF reader_word] t(2)] assms(3) by blast
  then have "length (ss_input s) = LENGTH('a) div 8 + length (ss_input t)"
    using t(1) Cons.prems(2) by (auto simp: sync_word_def Let_def get_remaining_def stream_fail_def split: if_splits)
  with Cons.IH [OF t(2) l] show ?case by simp
qed simp

lemma reader_sized:
  fixes vs :: "'a::len word list"
  assumes "0 < LENGTH('a) div 8"
  shows "reader (\<lambda>s. if length vs > get_remaining s div (LENGTH('a) div 8) then Some (stream_fail s, xs)
     else sync_list sync_word (s, vs))"
  unfolding reader_def
proof (intro allI impI)
  let ?w = "LENGTH('a) div 8"
  let ?F = "\<lambda>s. if length vs > get_remaining s div ?w then Some (stream_fail s, xs) else sync_list sync_word (s, vs)"
  note R = reader_list [OF reader_word, of vs]
  have fits: "length vs \<le> n div ?w \<longleftrightarrow> length vs * ?w \<le> n" for n
    using assms by (simp add: less_eq_div_iff_mult_less_eq)
  fix s t a assume r: "?F s = Some (t, a)"
  have "consumes ?F s t a" if l: "ss_loading s" "\<not> ss_error t"
  proof -
    have e: "sync_list sync_word (s, vs) = Some (t, a)" using r l by (auto simp: stream_fail_def split: if_splits)
    obtain x where x: "ss_input s = x @ ss_input t"
      "\<And>rest. sync_list sync_word (s\<lparr>ss_input := x @ rest\<rparr>, vs) = Some (t\<lparr>ss_input := rest\<rparr>, a)"
      "\<And>p q v b. x = p @ q \<Longrightarrow> q \<noteq> [] \<Longrightarrow> sync_list sync_word (s\<lparr>ss_input := p\<rparr>, vs) = Some (v, b) \<Longrightarrow> ss_error v"
      using readerD(3) [OF R e l] unfolding consumes_def by blast
    have "length x = length vs * ?w" using word_list_takes [OF e l] x(1) by simp
    then have "length vs \<le> get_remaining (s\<lparr>ss_input := x @ rest\<rparr>) div ?w" for rest
      by (simp add: get_remaining_def fits)
    then have "?F (s\<lparr>ss_input := x @ rest\<rparr>) = Some (t\<lparr>ss_input := rest\<rparr>, a)" for rest
      using x(2) [of rest] by (simp add: not_less [symmetric])
    moreover have "ss_error v" if "x = p @ q" "q \<noteq> []" "?F (s\<lparr>ss_input := p\<rparr>) = Some (v, b)" for p q v b
      using that x(3) [OF that(1,2), of v b] by (auto simp: stream_fail_def split: if_splits)
    ultimately show ?thesis using x(1) unfolding consumes_def by blast
  qed
  with r show "ss_loading t = ss_loading s \<and> (ss_error s \<longrightarrow> ss_error t) \<and>
      (ss_loading s \<longrightarrow> \<not> ss_error t \<longrightarrow> consumes ?F s t a)"
    using readerD(1,2) [OF R, of s t a] by (auto simp: stream_fail_def split: if_splits)
qed

lemma state_sync_vector [contract]:
  assumes "8 \<le> LENGTH('a::len)"
  shows "state_sync (sync_vector :: 'a word list sync)"
proof
  have w: "0 < LENGTH('a) div 8" using assms by (simp add: div_greater_zero_iff)
  have sized: "reader (\<lambda>s. if unat n > get_remaining s div (LENGTH('a) div 8) then Some (stream_fail s, vs)
     else sync_list sync_word (s, word_resize (unat n) vs))" for n :: u64 and vs :: "'a word list"
    using reader_sized [OF w, of "word_resize (unat n) vs" vs] by simp
  show "reader (\<lambda>s. sync_vector (s, vs))" for vs :: "'a word list"
    unfolding sync_vector_def prod.case by (intro reader_intro sized reader_list)
  show "vs' = vs" if "sync_vector (s, vs) = Some (s', vs')" "\<not> ss_loading s" for s s' and vs vs' :: "'a word list"
    using that readerD(1) [OF reader_word, of s "of_nat (length vs) :: u64"] saves_list [OF state_sync_word]
    by (auto simp: sync_vector_def bind_eq_Some_conv split: if_splits)
qed

end
