(* ===== verification/State_Facts.thy ===== *)
theory State_Facts
  imports State_Reader State_Cartridge Machine_Safety
begin

text \<open>
  The saved form of the machine meets the contract of \<open>State_Reader\<close>, and each part of it
  restores what it saved, for the states that exist in C++: the numbers fit the widths of
  the members they stand for, and the arrays have their lengths.
\<close>

section \<open>Rules for the shapes\<close>

lemma state_sync_member [contract]:
  "state_sync A \<Longrightarrow> (\<And>r. upd (\<lambda>_. get r) r = r) \<Longrightarrow> state_sync (member get upd A)"
  unfolding member_def by (rule state_sync_field)

lemma state_sync_on [contract]:
  assumes "\<And>r. state_sync (B r)"
  shows "state_sync (sync_on B)"
  by standard (auto simp: sync_on_def intro: state_sync.reads [OF assms] state_sync.saves [OF assms])

lemma state_sync_object_part [contract]: "state_sync A \<Longrightarrow> state_sync (sync_object_part A)"
  unfolding sync_object_part_def by (rule state_sync_field) simp_all

lemma pair_laws [simp]:
  "apfst (\<lambda>_. fst x) x = x" "apsnd (\<lambda>_. snd x) x = x"
  "apsnd (apfst (\<lambda>_. fst (snd y))) y = y" "apsnd (apsnd (\<lambda>_. snd (snd y))) y = y"
  by (cases x; cases y; simp)+

lemma state_sync_local_part [contract]:
  "state_sync A \<Longrightarrow> (\<And>l. upd (\<lambda>_. get l) l = l) \<Longrightarrow> state_sync (sync_local_part get upd A)"
  unfolding sync_local_part_def by (rule state_sync_field) simp_all

lemma state_sync_local [contract]:
  assumes A: "state_sync A" and B: "state_sync B"
  shows "state_sync (sync_local start A store B)"
proof
  have start: "reader (\<lambda>s. A (s, start (ss_loading s) r, r))" for r
  proof -
    have "reader (\<lambda>s. if ss_loading s then A (s, start True r, r) else A (s, start False r, r))"
      by (intro reader_intro state_sync.reads [OF A])
    moreover have "(\<lambda>s. A (s, start (ss_loading s) r, r)) =
        (\<lambda>s. if ss_loading s then A (s, start True r, r) else A (s, start False r, r))" by auto
    ultimately show ?thesis by simp
  qed
  have rest: "reader (\<lambda>s. if ss_loading s then
      case store l r of (fine, r) \<Rightarrow> if fine then B (s, r) else Some (stream_fail s, r) else B (s, r))" for l r
    by (cases "store l r") (auto intro!: reader_mode reader_if reader_fail state_sync.reads [OF B])
  show "reader (\<lambda>s. sync_local start A store B (s, r))" for r
    unfolding sync_local_def prod.case Let_def
    by (intro reader_bind_case start) (auto intro!: rest split: prod.split)
  show "r' = r" if h: "sync_local start A store B (s, r) = Some (s', r')" "\<not> ss_loading s" for s r s' r'
  proof -
    from h obtain t x where t: "A (s, start (ss_loading s) r, r) = Some (t, x)" by (auto simp: sync_local_def bind_eq_Some_conv)
    have x: "x = (start (ss_loading s) r, r)" using state_sync.saves [OF A t h(2)] .
    have l: "\<not> ss_loading t" using readerD(1) [OF state_sync.reads [OF A] t] h(2) by simp
    from h(1) t x l have "B (t, r) = Some (s', r')" by (simp add: sync_local_def)
    from state_sync.saves [OF B this l] show ?thesis .
  qed
qed

lemma state_sync_prefix [contract]: "state_sync A \<Longrightarrow> state_sync (sync_prefix n A)"
  unfolding sync_prefix_def by (rule state_sync_field) (simp_all add: contract)

lemma saves_word: "sync_word (s, w) = Some (s', w') \<Longrightarrow> \<not> ss_loading s \<Longrightarrow> w' = w \<and> \<not> ss_loading s'"
  by (auto simp: save_word)

lemma state_sync_fixed [contract]:
  "state_sync sync_fixed_vector" "state_sync (sync_optional_fixed_vector n)"
proof -
  show "state_sync sync_fixed_vector"
  proof
    show "reader (\<lambda>s. sync_fixed_vector (s, xs))" for xs
      unfolding sync_fixed_vector_def prod.case by (intro reader_intro reader_list)
    show "v' = v" if "sync_fixed_vector (s, v) = Some (s', v')" "\<not> ss_loading s" for s s' v v'
      using that by (auto simp: sync_fixed_vector_def save_word split: if_splits dest: saves_list [OF state_sync_word])
  qed
  show "state_sync (sync_optional_fixed_vector n)"
  proof
    show "reader (\<lambda>s. sync_optional_fixed_vector n (s, xs))" for xs
      unfolding sync_optional_fixed_vector_def prod.case by (intro reader_intro reader_list)
    show "v' = v" if "sync_optional_fixed_vector n (s, v) = Some (s', v')" "\<not> ss_loading s" for s s' v v'
      using that by (auto simp: sync_optional_fixed_vector_def save_word split: if_splits dest: saves_list [OF state_sync_word])
  qed
qed

section \<open>The devices meet the contract\<close>

lemma devices_contract [contract]:
  "state_sync sync_cpu_state" "state_sync sync_tile" "state_sync sync_sprite" "state_sync sync_control"
  "state_sync sync_mask" "state_sync sync_status" "state_sync (sync_output_buffer k)"
  "state_sync ppu_serialize_timing" "state_sync length_serialize" "state_sync timer_serialize"
  by (simp_all add: sync_cpu_state_def sync_tile_def sync_sprite_def sync_control_def sync_mask_def
      sync_status_def sync_output_buffer_def ppu_serialize_timing_def length_serialize_def
      timer_serialize_def contract)

lemma cpu_contract [contract]: "state_sync cpu_serialize"
  unfolding cpu_serialize_def by (simp add: contract)

lemma ppu_parts_contract [contract]:
  "state_sync ppu_serialize_pixels" "state_sync ppu_serialize_registers"
  unfolding ppu_serialize_pixels_def ppu_serialize_registers_def by (simp_all add: contract)

lemma ppu_contract [contract]: "state_sync ppu_serialize"
  unfolding ppu_serialize_def by (simp add: contract)

lemma channel_contract [contract]:
  "state_sync envelope_serialize" "state_sync square_serialize" "state_sync triangle_serialize"
  "state_sync noise_serialize" "state_sync dmc_serialize" "state_sync fc_serialize"
proof -
  show e: "state_sync envelope_serialize" unfolding envelope_serialize_def by (simp add: contract)
  show "state_sync square_serialize" "state_sync triangle_serialize" "state_sync noise_serialize"
    unfolding square_serialize_def triangle_serialize_def noise_serialize_def by (simp_all add: contract e)
  show "state_sync dmc_serialize" "state_sync fc_serialize"
    unfolding dmc_serialize_def fc_serialize_def by (simp_all add: contract)
qed

lemma frame_contract [contract]: "state_sync sync_audio_frame"
proof
  have v: "state_sync (sync_vector :: i16 list sync)" by (simp add: contract)
  show "reader (\<lambda>s. sync_audio_frame (s, f))" for f
    unfolding sync_audio_frame_def prod.case Let_def
    by (intro reader_intro state_sync.reads [OF state_sync_vector]) simp_all
  show "f' = f" if "sync_audio_frame (s, f) = Some (s', f')" "\<not> ss_loading s" for s s' f f'
    using that by (auto simp: sync_audio_frame_def bind_eq_Some_conv Let_def split: if_splits
        dest!: saves_word state_sync.saved [OF v])
qed

lemma apu_contract [contract]: "state_sync apu_serialize"
  unfolding apu_serialize_def apu_serialize_channels_def by (simp add: contract)

lemma mixer_contract [contract]: "state_sync mixer_serialize"
proof -
  have "state_sync (sync_channel_output j)" for j
    unfolding sync_channel_output_def by (simp add: contract)
  then have "state_sync mixer_serialize_deltas"
    unfolding mixer_serialize_deltas_def by (simp add: contract list_all_iff)
  then show ?thesis unfolding mixer_serialize_def by (simp add: contract)
qed

lemma ports_contract [contract]:
  "state_sync memory_serialize" "state_sync control_serialize" "state_sync vs_control_serialize"
proof -
  show "state_sync memory_serialize"
    unfolding memory_serialize_def open_bus_serialize_def by (simp add: contract)
  show c: "state_sync control_serialize" unfolding control_serialize_def by (simp add: contract)
  show "state_sync vs_control_serialize" unfolding vs_control_serialize_def by (simp add: contract c)
qed

section \<open>The cartridge and the console meet the contract\<close>

lemma reader_marked [reader_intro]:
  assumes "reader F"
  shows "reader (\<lambda>s. F (stream_fail s))"
  unfolding reader_def
proof (intro allI impI)
  fix s t a assume "F (stream_fail s) = Some (t, a)"
  from readerD(1,2) [OF assms this] show "ss_loading t = ss_loading s \<and> (ss_error s \<longrightarrow> ss_error t) \<and>
      (ss_loading s \<longrightarrow> \<not> ss_error t \<longrightarrow> consumes (\<lambda>s. F (stream_fail s)) s t a)"
    by (simp add: stream_fail_def)
qed

definition page_rest :: "(mem_region \<Rightarrow> nat) \<Rightarrow> ptr \<Rightarrow> u8 \<Rightarrow> u32 \<Rightarrow> stream \<Rightarrow> (stream \<times> ptr) option" where
  "page_rest size_of p c off s = do {
     (s, c) \<leftarrow> sync_word (s, c);
     (s, off) \<leftarrow> sync_word (s, off);
     if ss_loading s then
       if snd (restore_page size_of c off) then Some (stream_fail s, fst (restore_page size_of c off))
       else Some (s, fst (restore_page size_of c off))
     else Some (s, p) }"

lemma sync_page_rest:
  "sync_page size_of (s, p) =
     (if ss_loading s then page_rest size_of p 0 0 s
      else case locate_page size_of p of None \<Rightarrow> page_rest size_of p 0xFF 0 (stream_fail s)
        | Some (c, off) \<Rightarrow> page_rest size_of p c off s)"
  by (auto simp: sync_page_def page_rest_def Let_def case_prod_unfold cong: if_cong split: option.split)

lemma page_contract [contract]: "state_sync (sync_page size_of)"
proof
  have r: "reader (page_rest size_of p c off)" for p c off
    unfolding page_rest_def by (intro reader_intro)
  show "reader (\<lambda>s. sync_page size_of (s, p))" for p
    unfolding sync_page_rest
    by (cases "locate_page size_of p") (auto intro!: reader_mode r reader_marked [OF r])
  have k: "page_rest size_of p c off s = Some (s', q) \<Longrightarrow> \<not> ss_loading s \<Longrightarrow> q = p" for p c off s s' q
    by (auto simp: page_rest_def save_word)
  show "q = p" if "sync_page size_of (s, p) = Some (s', q)" "\<not> ss_loading s" for s p s' q
    using that by (auto simp: sync_page_rest stream_fail_def split: option.splits dest: k)
qed

lemma chr_ram_contract [contract]: "state_sync sync_chr_ram"
proof
  show "reader (\<lambda>s. sync_chr_ram (s, m))" for m
    unfolding sync_chr_ram_def prod.case Let_def
    by (intro reader_intro state_sync.reads [OF state_sync_fixed(2)])
  show "m' = m" if "sync_chr_ram (s, m) = Some (s', m')" "\<not> ss_loading s" for s m s' m'
    using that by (auto simp: sync_chr_ram_def bind_eq_Some_conv Let_def split: if_splits
        dest!: state_sync.saved [OF state_sync_fixed(2)])
qed

lemma chip_contract [contract]: "state_sync sync_chip"
proof
  have m: "state_sync mmc1_serialize" "state_sync mmc3_serialize"
    unfolding mmc1_serialize_def mmc3_serialize_def by (simp_all add: contract)
  show "reader (\<lambda>s. sync_chip (s, k))" for k
    by (cases k) (auto intro!: reader_intro reader_map state_sync.reads [OF m(1)] state_sync.reads [OF m(2)]
        state_sync.reads [OF state_sync_bool])
  show "k' = k" if "sync_chip (s, k) = Some (s', k')" "\<not> ss_loading s" for s k s' k'
    using that by (cases k)
      (auto dest: state_sync.saves [OF m(1)] state_sync.saves [OF m(2)] state_sync.saves [OF state_sync_bool])
qed

lemma mapper_contract [contract]: "state_sync mapper_serialize"
  unfolding mapper_serialize_def base_serialize_def by (simp add: contract)

lemma state_sync_if [contract]: "state_sync A \<Longrightarrow> state_sync B \<Longrightarrow> state_sync (if b then A else B)"
  by simp

interpretation machine: state_sync nes_serialize
  unfolding nes_serialize_def by (simp add: contract)

end
