(* ===== verification/State_Restore.thy ===== *)
theory State_Restore
  imports State_Facts
begin

text \<open>
  Each part of the saved state restores what it saved. A state that exists in C++ is
  \<open>storable\<close>: the numbers of the model fit the members they stand for, the arrays have their
  lengths.
\<close>

section \<open>Rules for the shapes\<close>

lemma restores_eq: "restores A x y z \<Longrightarrow> z = w \<Longrightarrow> restores A x y w"
  by simp

lemma exactI: "(\<And>y. restores A x y x) \<Longrightarrow> exact A x"
  by (simp add: exact_def)

lemma restores_member:
  "restores A (get x) (get y) v \<Longrightarrow> upd (\<lambda>_. get x) x = x \<Longrightarrow>
   restores (member get upd A) x y (upd (\<lambda>_. v) y)"
  unfolding member_def by (rule restores_field)

lemma restores_on: "B x = B y \<Longrightarrow> restores (B x) x y z \<Longrightarrow> restores (sync_on B) x y z"
  by (simp add: restores_def sync_on_def)

lemma restores_object_part:
  "restores A (snd x) (snd y) z \<Longrightarrow> restores (sync_object_part A) x y (fst y, z)"
  unfolding sync_object_part_def by (rule restores_field) simp_all

lemma restores_local_part:
  "restores A (get (fst x)) (get (fst y)) v \<Longrightarrow> upd (\<lambda>_. get (fst x)) (fst x) = fst x \<Longrightarrow>
   restores (sync_local_part get upd A) x y (upd (\<lambda>_. v) (fst y), snd y)"
  unfolding sync_local_part_def
  by (rule restores_field [where put = "\<lambda>v x. (upd (\<lambda>_. v) (fst x), snd x)"]) simp_all

lemma restores_local:
  assumes A: "restores A (start False x, x) (start True y, y) (l, z)"
    and store: "store l z = (True, w)" and B: "restores B x w u"
  shows "restores (sync_local start A store B) x y u"
proof -
  obtain b where b: "\<And>s. \<not> ss_loading s \<Longrightarrow> \<not> ss_error s \<Longrightarrow>
      A (s, start False x, x) = Some (s\<lparr>ss_output := ss_output s @ b\<rparr>, start False x, x)"
    "\<And>s rest. ss_loading s \<Longrightarrow> \<not> ss_error s \<Longrightarrow> ss_input s = b @ rest \<Longrightarrow>
      A (s, start True y, y) = Some (s\<lparr>ss_input := rest\<rparr>, l, z)"
    using A unfolding restores_def by blast
  obtain c where c: "\<And>s. \<not> ss_loading s \<Longrightarrow> \<not> ss_error s \<Longrightarrow> B (s, x) = Some (s\<lparr>ss_output := ss_output s @ c\<rparr>, x)"
    "\<And>s rest. ss_loading s \<Longrightarrow> \<not> ss_error s \<Longrightarrow> ss_input s = c @ rest \<Longrightarrow> B (s, w) = Some (s\<lparr>ss_input := rest\<rparr>, u)"
    using B unfolding restores_def by blast
  show ?thesis by (rule restoresI [where bytes = "b @ c"]) (simp_all add: sync_local_def b c store)
qed

lemma restores_prefix:
  assumes "\<And>x. x \<in> set xs \<Longrightarrow> exact A x" "n \<le> length xs" "n \<le> length ys"
  shows "restores (sync_prefix n A) xs ys (take n xs @ drop n ys)"
  unfolding sync_prefix_def
  using assms by (intro restores_field [where put = "\<lambda>ys xs. ys @ drop n xs"] exact_list)
    (auto dest: in_set_takeD)

lemma restores_fixed:
  fixes xs :: "'a::len word list"
  assumes "length ys = length xs" "length xs < 2 ^ 64" "8 dvd LENGTH('a)"
  shows "restores sync_fixed_vector xs ys xs"
proof (rule restoresI)
  let ?n = "of_nat (length xs) :: u64" and ?bs = "concat (map (word_bytes (LENGTH('a) div 8)) xs)"
  have n: "unat ?n = length xs" using assms(2) by (simp add: unat_of_nat_eq)
  show "sync_fixed_vector (s, xs) = Some (s\<lparr>ss_output := ss_output s @ word_bytes 8 ?n @ ?bs\<rparr>, xs)"
    if "\<not> ss_loading s" "\<not> ss_error s" for s
    using that by (simp add: sync_fixed_vector_def save_word bytes_of_list)
  show "sync_fixed_vector (s, ys) = Some (s\<lparr>ss_input := rest\<rparr>, xs)"
    if s: "ss_loading s" "\<not> ss_error s" "ss_input s = (word_bytes 8 ?n @ ?bs) @ rest" for s rest
  proof -
    let ?s = "s\<lparr>ss_input := ?bs @ rest\<rparr>"
    have "sync_word (s, v :: u64) = Some (?s, ?n)" for v using s by (intro load_word) simp_all
    moreover have "sync_list sync_word (?s, ys) = Some (?s\<lparr>ss_input := rest\<rparr>, xs)"
      using s assms(1,3) by (intro list_of_bytes) simp_all
    ultimately show ?thesis using s n assms(1) by (simp add: sync_fixed_vector_def)
  qed
qed

lemma restores_optional:
  fixes xs :: "'a::len word list"
  assumes "xs = [] \<or> length xs = k" "length xs < 2 ^ 64" "8 dvd LENGTH('a)"
  shows "restores (sync_optional_fixed_vector k) xs ys xs"
proof (rule restoresI)
  let ?n = "of_nat (length xs) :: u64" and ?bs = "concat (map (word_bytes (LENGTH('a) div 8)) xs)"
  have n: "unat ?n = length xs" using assms(2) by (simp add: unat_of_nat_eq)
  show "sync_optional_fixed_vector k (s, xs) = Some (s\<lparr>ss_output := ss_output s @ word_bytes 8 ?n @ ?bs\<rparr>, xs)"
    if "\<not> ss_loading s" "\<not> ss_error s" for s
    using that by (simp add: sync_optional_fixed_vector_def save_word bytes_of_list)
  show "sync_optional_fixed_vector k (s, ys) = Some (s\<lparr>ss_input := rest\<rparr>, xs)"
    if s: "ss_loading s" "\<not> ss_error s" "ss_input s = (word_bytes 8 ?n @ ?bs) @ rest" for s rest
  proof -
    let ?s = "s\<lparr>ss_input := ?bs @ rest\<rparr>"
    have "sync_word (s, v :: u64) = Some (?s, ?n)" for v using s by (intro load_word) simp_all
    moreover have "sync_list sync_word (?s, word_resize (length xs) ys) = Some (?s\<lparr>ss_input := rest\<rparr>, xs)"
      using s assms(3) by (intro list_of_bytes) simp_all
    moreover have "?n \<noteq> 0 \<longrightarrow> unat ?n = k" using assms(1) n by auto
    ultimately show ?thesis using s n by (auto simp: sync_optional_fixed_vector_def)
  qed
qed

lemmas parts = restores_Nil restores_Cons restores_member exact_list exactD exact_word exact_bool exact_nat exact_int
  exact_count exact_enum exact_vector

section \<open>CPU\<close>

lemma exact_cpu_state:
  "restores sync_cpu_state x y (y\<lparr>cpu_cycle_count := cpu_cycle_count x, cpu_pc := cpu_pc x, cpu_sp := cpu_sp x,
     cpu_a := cpu_a x, cpu_x := cpu_x x, cpu_y := cpu_y x, cpu_ps := cpu_ps x, cpu_irq_flag := cpu_irq_flag x,
     cpu_nmi_flag := cpu_nmi_flag x\<rparr>)"
  unfolding sync_cpu_state_def
  by (rule restores_eq, (rule parts | simp; fail)+)

lemma addr_modes_all: "m \<in> set addr_modes"
  by (cases m) (simp_all add: addr_modes_def)

lemma audio_channels_all: "c \<in> set audio_channels"
  by (cases c) (simp_all add: audio_channels_def)

lemma enum_lengths: "length addr_modes < 2 ^ 32" "length audio_channels < 2 ^ 32"
  by (simp_all add: addr_modes_def audio_channels_def)

lemmas enums = addr_modes_all audio_channels_all enum_lengths

lemma exact_cpu: "cpu_master_clock c < 2 ^ 64 \<Longrightarrow> exact cpu_serialize c"
  unfolding cpu_serialize_def
  by (rule exactI, rule restores_eq, (rule exact_cpu_state parts enums | simp; fail)+)


section \<open>PPU\<close>

lemma restores_output_buffer:
  "restores (sync_output_buffer k) x y (y\<lparr>ppu_output_buffers := (ppu_output_buffers y)
     (k := \<lambda>i. if i < 256 * 240 then ppu_output_buffers x k i else ppu_output_buffers y k i)\<rparr>)"
proof -
  let ?is = "[0..<256 * 240]"
  have "restores (sync_table ?is sync_word) (ppu_output_buffers x k) (ppu_output_buffers y k)
      (\<lambda>i. if i \<in> set ?is then ppu_output_buffers x k i else ppu_output_buffers y k i)"
    by (intro exact_table exact_word) simp
  then have "restores (sync_table ?is sync_word) (ppu_output_buffers x k) (ppu_output_buffers y k)
      (\<lambda>i. if i < 256 * 240 then ppu_output_buffers x k i else ppu_output_buffers y k i)"
    unfolding set_upt atLeastLessThan_iff by simp
  then show ?thesis unfolding sync_output_buffer_def by (intro restores_field) simp_all
qed

lemma exact_ppu_parts:
  "exact sync_tile t" "exact sync_sprite i" "exact sync_control c" "exact sync_mask m" "exact sync_status u"
  unfolding sync_tile_def sync_sprite_def sync_control_def sync_mask_def sync_status_def
  by (rule exactI, rule restores_eq, (rule parts | simp; fail)+)+

text \<open>The members of the PPU that are wider in the model than in the class.\<close>

definition ppu_storable :: "ppu \<Rightarrow> bool" where
  "ppu_storable p \<longleftrightarrow> ppu_ok p \<and> ppu_master_clock p < 2 ^ 64 \<and> ppu_ignore_vram_read p < 2 ^ 32 \<and>
     - (2 ^ 31) \<le> ppu_last_updated_pixel p \<and> ppu_last_updated_pixel p < 2 ^ 31 \<and>
     ppu_minimum_draw_bg_cycle p < 2 ^ 16 \<and> ppu_minimum_draw_sprite_cycle p < 2 ^ 16 \<and>
     ppu_minimum_draw_sprite_standard_cycle p < 2 ^ 16"

text \<open>Outside the two frame buffers there is nothing; the model has values there.\<close>

definition same_beyond :: "ppu \<Rightarrow> ppu \<Rightarrow> bool" where
  "same_beyond p q \<longleftrightarrow> (\<forall>k i. 2 \<le> k \<or> 256 * 240 \<le> i \<longrightarrow> ppu_output_buffers p k i = ppu_output_buffers q k i)"

lemma restores_ppu:
  assumes x: "ppu_storable x" and y: "ppu_ok y" and b: "same_beyond x y"
  shows "restores ppu_serialize x y x"
proof -
  have l: "ppu_lengths x" "ppu_lengths y" using x y by (simp_all add: ppu_storable_def ppu_ok_def)
  note lengths = l [unfolded ppu_lengths_def, THEN conjunct1]
  have small: "ppu_cycle x < 2 ^ 32" "- (2 ^ 15) \<le> ppu_scanline x" "ppu_scanline x < 2 ^ 15"
    "ppu_nmi_scanline x < 2 ^ 32" "ppu_vblank_end x < 2 ^ 16" "ppu_sprite_index x < 2 ^ 32"
    "ppu_current_output_buffer x = 0 \<or> ppu_current_output_buffer x = 1" "ppu_framebuffer x = 0 \<or> ppu_framebuffer x = 1"
    using x by (auto simp: ppu_storable_def ppu_ok_defs dot_ok_def)
  have wide: "ppu_master_clock x < 2 ^ 64" "ppu_ignore_vram_read x < 2 ^ 32" "- (2 ^ 31) \<le> ppu_last_updated_pixel x"
    "ppu_last_updated_pixel x < 2 ^ 31" "ppu_minimum_draw_bg_cycle x < 2 ^ 16"
    "ppu_minimum_draw_sprite_cycle x < 2 ^ 16" "ppu_minimum_draw_sprite_standard_cycle x < 2 ^ 16"
    using x by (simp_all add: ppu_storable_def)
  have merged: "(ppu_output_buffers y)(0 := f, Suc 0 := g) = ppu_output_buffers x"
    if "\<And>i. f i = ppu_output_buffers x 0 i" "\<And>i. g i = ppu_output_buffers x (Suc 0) i" for f g
    using b that by (auto simp: same_beyond_def fun_eq_iff)
  have beyond: "61440 \<le> i \<Longrightarrow> ppu_output_buffers y k i = ppu_output_buffers x k i" for k i
    using b by (simp add: same_beyond_def)
  let ?w = "x\<lparr>ppu_current_output_buffer := ppu_current_output_buffer y, ppu_framebuffer := ppu_framebuffer y\<rparr>"
  let ?l = "(of_flag (ppu_current_output_buffer x = 1), of_flag (ppu_framebuffer x = 1)) :: u8 \<times> u8"
  let ?k = "(of_flag (ppu_current_output_buffer y = 1), of_flag (ppu_framebuffer y = 1)) :: u8 \<times> u8"
  note facts = l [unfolded ppu_lengths_def] small [simplified] wide [simplified]
  show ?thesis
    unfolding ppu_serialize_def
  proof (rule restores_local [where z = ?w and l = ?l])
    show "restores (sync_all []) x x x" by (rule restores_Nil)
    show "ppu_store_buffers ?l ?w = (True, x)"
      using small(7,8) by (auto simp: ppu_store_buffers_def intro!: ppu.equality)
    show "restores (sync_all [sync_object_part ppu_serialize_timing, sync_local_part fst apfst sync_word,
         sync_local_part snd apsnd sync_word, sync_object_part ppu_serialize_pixels, sync_object_part ppu_serialize_registers])
        (?l, x) (?k, y) (?l, ?w)"
      unfolding ppu_serialize_timing_def ppu_serialize_pixels_def ppu_serialize_registers_def
      by (rule restores_eq, (rule restores_output_buffer restores_object_part restores_local_part parts exact_ppu_parts
           | simp add: facts; fail)+) (rule prod_eqI, simp, rule ppu.equality, simp_all add: merged beyond not_less)
  qed
qed

section \<open>APU\<close>

lemma exact_units: "exact length_serialize l" "exact timer_serialize t"
  unfolding length_serialize_def timer_serialize_def
  by (rule exactI, rule restores_eq, (rule parts enums | simp; fail)+)+

lemma exact_envelope: "exact envelope_serialize e"
  unfolding envelope_serialize_def
  by (rule exactI, rule restores_eq, (rule parts exact_units | simp; fail)+)

lemma exact_channels:
  "exact square_serialize q" "exact triangle_serialize t" "exact noise_serialize n" "exact dmc_serialize d"
  unfolding square_serialize_def triangle_serialize_def noise_serialize_def dmc_serialize_def
  by (rule exactI, rule restores_eq, (rule parts enums exact_units exact_envelope | simp; fail)+)+

definition fc_storable :: "frame_counter \<Rightarrow> bool" where
  "fc_storable f \<longleftrightarrow> fc_ok f \<and> - (2 ^ 15) \<le> fc_new_value f \<and> fc_new_value f < 2 ^ 15"

lemma restores_step_cycles: "restores (sync_list (sync_list sync_int32)) STEP_CYCLES STEP_CYCLES STEP_CYCLES"
  by (intro restores_list list_all2_same [THEN iffD2] ballI exact_list exact_int)
    (auto simp: STEP_CYCLES_def)

lemma restores_fc:
  assumes x: "fc_storable x" and y: "fc_ok y"
  shows "restores fc_serialize x y x"
proof -
  have "STEP_CYCLES ! fc_step_mode x ! fc_current_step x < 2 ^ 31"
    if "fc_step_mode x < 2" "fc_current_step x < 6"
    using that by (auto simp: STEP_CYCLES_def less_Suc_eq numeral_eq_Suc)
  then have "fc_previous_cycle x < 2 ^ 31" "0 \<le> fc_previous_cycle x" "fc_step_mode x < 2" "fc_current_step x < 6"
    using x by (auto simp: fc_storable_def fc_ok_def)
  then have small: "- (2 ^ 31) \<le> fc_previous_cycle x" "fc_previous_cycle x < 2 ^ 31"
    "fc_current_step x < 2 ^ 32" "fc_step_mode x < 2 ^ 32"
    "- (2 ^ 15) \<le> fc_new_value x" "fc_new_value x < 2 ^ 15"
    using x by (auto simp: fc_storable_def)
  have rows: "fc_step_cycles x = STEP_CYCLES" "fc_step_cycles y = STEP_CYCLES"
    using x y by (simp_all add: fc_storable_def fc_ok_def)
  have cycles: "restores (sync_list (sync_list sync_int32)) (fc_step_cycles x) (fc_step_cycles y) (fc_step_cycles x)"
    unfolding rows by (rule restores_step_cycles)
  show ?thesis
    unfolding fc_serialize_def
    by (rule restores_eq, (rule cycles parts | simp add: small [simplified]; fail)+)
qed

text \<open>The frames of the queue hold two values a sample.\<close>

definition frame_storable :: "audio_frame \<Rightarrow> bool" where
  "frame_storable f \<longleftrightarrow> length (af_data f) < 2 ^ 64 \<and> af_samples f = length (af_data f) div 2"

lemma exact_frame:
  assumes "frame_storable f"
  shows "exact sync_audio_frame f"
  unfolding exact_def
proof
  fix g :: audio_frame
  have n: "unat (of_nat (af_samples f) :: u64) = af_samples f"
    using assms by (intro unat_of_nat_eq) (auto simp: frame_storable_def)
  have "exact sync_vector (af_data f)" using assms by (intro exact_vector) (simp_all add: frame_storable_def)
  from exactD [OF this, of "af_data g"] obtain b where
    b: "\<And>s. \<not> ss_loading s \<Longrightarrow> \<not> ss_error s \<Longrightarrow> sync_vector (s, af_data f) = Some (s\<lparr>ss_output := ss_output s @ b\<rparr>, af_data f)"
    "\<And>s rest. ss_loading s \<Longrightarrow> \<not> ss_error s \<Longrightarrow> ss_input s = b @ rest \<Longrightarrow>
       sync_vector (s, af_data g) = Some (s\<lparr>ss_input := rest\<rparr>, af_data f)"
    unfolding restores_def by blast
  let ?w = "word_bytes 8 (of_nat (af_samples f) :: u64)"
  show "restores sync_audio_frame f g f"
  proof (rule restoresI [where bytes = "b @ ?w"])
    show "sync_audio_frame (s, f) = Some (s\<lparr>ss_output := ss_output s @ b @ ?w\<rparr>, f)"
      if "\<not> ss_loading s" "\<not> ss_error s" for s
      using that by (simp add: sync_audio_frame_def b save_word)
    show "sync_audio_frame (s, g) = Some (s\<lparr>ss_input := rest\<rparr>, f)"
      if s: "ss_loading s" "\<not> ss_error s" "ss_input s = (b @ ?w) @ rest" for s rest
    proof -
      have "sync_word (s\<lparr>ss_input := ?w @ rest\<rparr>, v :: u64) = Some (s\<lparr>ss_input := rest\<rparr>, of_nat (af_samples f))" for v
        using s by (subst load_word) simp_all
      then show ?thesis
        using s n assms by (simp add: sync_audio_frame_def b(2) [of s "?w @ rest"] frame_storable_def)
    qed
  qed
qed

definition apu_storable :: "apu \<Rightarrow> bool" where
  "apu_storable a \<longleftrightarrow> fc_storable (ap_frame_counter a) \<and> ring_ok a \<and>
     (\<forall>f \<in> set (ap_audio_ring a). frame_storable f) \<and> length (ap_frame_accumulator a) < 2 ^ 64"

lemma restores_apu:
  assumes x: "apu_storable x" and y: "fc_ok (ap_frame_counter y)" "length (ap_audio_ring y) = MAX_AUDIO_FRAMES"
  shows "restores apu_serialize x y x"
proof -
  have r: "ap_write_index x < 8" "ap_read_index x < 8" "ap_available_frames x \<le> 8"
    "length (ap_audio_ring x) = 8" "length (ap_audio_ring y) = 8"
    using x y(2) by (simp_all add: apu_storable_def ring_ok_def MAX_AUDIO_FRAMES_def)
  have parts_ok: "fc_storable (ap_frame_counter x)" "fc_ok (ap_frame_counter y)"
    "\<And>g. g \<in> set (ap_audio_ring x) \<Longrightarrow> frame_storable g" "length (ap_frame_accumulator x) < 2 ^ 64"
    using x y(1) by (simp_all add: apu_storable_def)
  have n: "unat (of_nat (ap_write_index x) :: u64) = ap_write_index x"
    "unat (of_nat (ap_read_index x) :: u64) = ap_read_index x"
    "unat (of_nat (ap_available_frames x) :: u64) = ap_available_frames x"
    using r by (simp_all add: unat_of_nat_eq)
  let ?l = "\<lambda>a. (of_nat (ap_write_index a), of_nat (ap_read_index a), of_nat (ap_available_frames a)) :: u64 \<times> u64 \<times> u64"
  let ?w = "x\<lparr>ap_write_index := ap_write_index y, ap_read_index := ap_read_index y,
      ap_available_frames := ap_available_frames y\<rparr>"
  show ?thesis
    unfolding apu_serialize_def
  proof (rule restores_local [where z = ?w and l = "?l x"])
    show "restores (sync_all []) x x x" by (rule restores_Nil)
    show "apu_store_queue (?l x) ?w = (True, x)"
      using r n by (simp add: apu_store_queue_def MAX_AUDIO_FRAMES_def)
    show "restores (sync_all [sync_object_part apu_serialize_channels, sync_local_part fst apfst sync_word,
        sync_local_part (fst \<circ> snd) (apsnd \<circ> apfst) sync_word, sync_local_part (snd \<circ> snd) (apsnd \<circ> apsnd) sync_word,
        sync_object_part (member ap_frame_accumulator ap_frame_accumulator_update sync_vector)])
        (?l x, x) (?l y, y) (?l x, ?w)"
      unfolding apu_serialize_channels_def
      by (rule restores_eq, (rule restores_object_part restores_local_part restores_fc exact_frame parts exact_channels
           | simp add: r parts_ok [simplified]; fail)+)
  qed
qed

section \<open>Mixer\<close>

lemma restores_channel_output:
  "restores (sync_channel_output j) x y (y\<lparr>mx_channel_output := (mx_channel_output y)
     (j := \<lambda>i. if i < CYCLE_LENGTH then mx_channel_output x j i else mx_channel_output y j i)\<rparr>)"
proof -
  let ?is = "[0..<CYCLE_LENGTH]"
  have "restores (sync_table ?is sync_word) (mx_channel_output x j) (mx_channel_output y j)
      (\<lambda>i. if i \<in> set ?is then mx_channel_output x j i else mx_channel_output y j i)"
    by (intro exact_table exact_word) simp
  then have "restores (sync_table ?is sync_word) (mx_channel_output x j) (mx_channel_output y j)
      (\<lambda>i. if i < CYCLE_LENGTH then mx_channel_output x j i else mx_channel_output y j i)"
    unfolding set_upt atLeastLessThan_iff by simp
  then show ?thesis unfolding sync_channel_output_def by (intro restores_field) simp_all
qed

lemma restores_channel_outputs:
  "restores (sync_all As) x (y\<lparr>mx_channel_output := \<lambda>j i. if j \<in> set js \<and> i < CYCLE_LENGTH
       then mx_channel_output x j i else mx_channel_output y j i\<rparr>) z \<Longrightarrow>
   restores (sync_all (map sync_channel_output js @ As)) x y z"
proof (induction js arbitrary: y)
  case (Cons j js)
  let ?y = "y\<lparr>mx_channel_output := (mx_channel_output y)
      (j := \<lambda>i. if i < CYCLE_LENGTH then mx_channel_output x j i else mx_channel_output y j i)\<rparr>"
  have "?y\<lparr>mx_channel_output := \<lambda>k i. if k \<in> set js \<and> i < CYCLE_LENGTH then mx_channel_output x k i
        else mx_channel_output ?y k i\<rparr> =
      y\<lparr>mx_channel_output := \<lambda>k i. if k \<in> set (j # js) \<and> i < CYCLE_LENGTH then mx_channel_output x k i
        else mx_channel_output y k i\<rparr>"
    by (auto simp: fun_eq_iff)
  with Cons.prems have "restores (sync_all (map sync_channel_output js @ As)) x ?y z"
    by (intro Cons.IH) (simp only:)
  then show ?case unfolding list.map append_Cons by (rule restores_Cons [OF restores_channel_output])
qed simp

definition mixer_storable :: "mixer \<Rightarrow> bool" where
  "mixer_storable mx \<longleftrightarrow> mixer_at MAX_SAMPLES_PER_FRAME MAX_SAMPLES_PER_FRAME mx \<and> length (mx_timestamps mx) < 2 ^ 64 \<and>
     - (2 ^ 31) \<le> mx_previous_output_left mx \<and> mx_previous_output_left mx < 2 ^ 31"

definition same_channels :: "mixer \<Rightarrow> mixer \<Rightarrow> bool" where
  "same_channels x y \<longleftrightarrow> (\<forall>j i. 11 \<le> j \<or> CYCLE_LENGTH \<le> i \<longrightarrow> mx_channel_output x j i = mx_channel_output y j i)"

text \<open>Of the samples only those of the last frame are saved.\<close>

definition mixer_loaded :: "mixer \<Rightarrow> mixer \<Rightarrow> mixer" where
  "mixer_loaded x y = (let n = mx_sample_count x * 2 in
     x\<lparr>mx_output_buffer := take n (mx_output_buffer x) @ drop n (mx_output_buffer y)\<rparr>)"

lemma restores_mixer:
  assumes x: "mixer_storable x"
    and y: "mixer_at MAX_SAMPLES_PER_FRAME MAX_SAMPLES_PER_FRAME y" and c: "same_channels x y"
  shows "restores mixer_serialize x y (mixer_loaded x y)"
proof -
  have a: "length (mx_current_output x) = 11" "length (mx_current_output y) = 11"
    "length (mx_output_buffer x) = 12800" "length (mx_output_buffer y) = 12800"
    "mx_sample_count x \<le> 6400" "blip_ok (mx_blip x)" "bl_size (mx_blip x) = 6400" "bl_size (mx_blip y) = 6400"
    "bl_avail (mx_blip x) \<le> 6400"
    using x y by (auto simp: mixer_storable_def mixer_at_def MAX_SAMPLES_PER_FRAME_def)
  have b: "bl_factor (mx_blip x) = 241564468917326" "length (bl_buffer (mx_blip x)) = 6418"
    using a(6,7) by (simp_all add: blip_ok_def BLIP_FACTOR_def BUF_EXTRA_def)
  have p: "- (2 ^ 31) \<le> mx_previous_output_left x" "mx_previous_output_left x < 2 ^ 31" "length (mx_timestamps x) < 2 ^ 64"
    using x by (simp_all add: mixer_storable_def)
  have n: "unat (of_nat (mx_sample_count x) :: u64) = mx_sample_count x"
    "sint (of_nat (bl_avail (mx_blip x)) :: i32) = int (bl_avail (mx_blip x))"
    "sint (of_nat (bl_size (mx_blip x) + BUF_EXTRA) :: i32) = 6418"
    using a sint_of_int_word [where 'a = 32, of "int (bl_avail (mx_blip x))"]
    by (simp_all add: unat_of_nat_eq BUF_EXTRA_def)
  have channels: "(\<lambda>j i. if j < 11 \<and> i < CYCLE_LENGTH then mx_channel_output x j i else mx_channel_output y j i) =
      mx_channel_output x"
    using c by (auto simp: same_channels_def fun_eq_iff)
  let ?w = "x\<lparr>mx_output_buffer := mx_output_buffer y\<rparr>"
  let ?v = "?w\<lparr>mx_blip := mx_blip y, mx_sample_count := mx_sample_count y\<rparr>"
  show ?thesis
    unfolding mixer_serialize_def
  proof (rule restores_local [where z = ?v and l = "mixer_start False x"])
    show "mixer_store (mixer_start False x) ?v = (True, ?w)"
      using a b n by (simp add: mixer_store_def mixer_start_def Let_def blip_restore_state_def BUF_EXTRA_def)
    show "restores (sync_on (\<lambda>mx. member mx_output_buffer mx_output_buffer_update
        (sync_prefix (mx_sample_count mx * 2) sync_word))) x ?w (mixer_loaded x y)"
      using a unfolding mixer_loaded_def Let_def
      by (intro restores_on restores_eq [OF restores_member [OF restores_prefix]] exact_word) simp_all
    show "restores (sync_all [sync_object_part mixer_serialize_deltas, sync_local_part ml_factor ml_factor_update sync_word,
        sync_local_part ml_offset ml_offset_update sync_word, sync_local_part ml_avail ml_avail_update sync_word,
        sync_local_part ml_integrator ml_integrator_update sync_word,
        sync_local_part ml_buffer_count ml_buffer_count_update sync_word,
        sync_local_part ml_buffer ml_buffer_update sync_vector,
        sync_local_part ml_sample_count ml_sample_count_update sync_word])
        (mixer_start False x, x) (mixer_start True y, y) (mixer_start False x, ?v)"
      unfolding mixer_serialize_deltas_def append_Cons append_Nil
      by (rule restores_eq, (rule restores_object_part restores_local_part restores_channel_outputs parts
           | simp add: a b p [simplified] mixer_start_def Let_def; fail)+)
        (rule prod_eqI, simp add: mixer_start_def Let_def, rule mixer.equality, simp_all add: channels cong: if_cong)
  qed
qed

section \<open>Memory and controllers\<close>

lemma restores_memory:
  "length (mm_internal_ram y) = length (mm_internal_ram x) \<Longrightarrow>
   restores memory_serialize x y (y\<lparr>mm_internal_ram := mm_internal_ram x,
     mm_external_open_bus := mm_external_open_bus x, mm_internal_open_bus := mm_internal_open_bus x\<rparr>)"
  unfolding memory_serialize_def open_bus_serialize_def
  by (rule restores_eq, (rule parts | simp; fail)+)

definition control_storable :: "control \<Rightarrow> bool" where
  "control_storable c \<longleftrightarrow> control_ok c \<and> (\<forall>n \<in> set (cm_controller_read_pos c). n < 2 ^ 31)"

lemma restores_control:
  assumes x: "control_storable x" and y: "control_ok y"
  shows "restores control_serialize x y (x\<lparr>cm_vs := cm_vs y, cm_dip_switches := cm_dip_switches y,
     cm_protection_counter := cm_protection_counter y, cm_prg_chr_select_bit := cm_prg_chr_select_bit y\<rparr>)"
    (is "restores _ _ _ ?z")
proof -
  have l: "length (cm_controller_state x) = 2" "length (cm_controller_read_pos x) = 2"
    "length (cm_controller_state y) = 2" "length (cm_controller_read_pos y) = 2"
    "\<And>n. n \<in> set (cm_controller_read_pos x) \<Longrightarrow> n < 2 ^ 31"
    using x y by (simp_all add: control_storable_def control_ok_def)
  show ?thesis
    unfolding control_serialize_def
    by (rule restores_eq, (rule parts | simp add: l [simplified]; fail)+)
qed

text \<open>The DIP switches and the counters belong to the Vs. class.\<close>

definition same_ports :: "control \<Rightarrow> control \<Rightarrow> bool" where
  "same_ports x y \<longleftrightarrow> cm_vs y = cm_vs x \<and> (cm_vs x \<or> cm_dip_switches y = cm_dip_switches x \<and>
     cm_protection_counter y = cm_protection_counter x \<and> cm_prg_chr_select_bit y = cm_prg_chr_select_bit x)"

lemma restores_ports:
  assumes "control_storable x" "control_ok y" "same_ports x y"
  shows "restores (if cm_vs x then vs_control_serialize else control_serialize) x y x"
proof (cases "cm_vs x")
  case True
  have "restores vs_control_serialize x y x"
    unfolding vs_control_serialize_def
    using True assms(3)
    by - (rule restores_eq, (rule restores_control parts | simp add: assms; fail)+,
      rule control.equality; simp add: same_ports_def)
  with True show ?thesis by simp
next
  case False
  then show ?thesis
    using assms(3) by (simp add: same_ports_def restores_eq [OF restores_control [OF assms(1,2)]])
qed

end
