(* ===== verification/State_Restore_Cartridge.thy ===== *)
theory State_Restore_Cartridge
  imports State_Restore
begin

text \<open>
  The saved form of a cartridge and of the console restores what it saved.
\<close>

section \<open>Memory pages\<close>

lemma code_region_code [simp]: "code_region (region_code r) = Some r" "region_code r \<noteq> 0"
  by (cases r; simp add: code_region_def)+

text \<open>The page is the null pointer or points into a buffer.\<close>

definition placed :: "(mem_region \<Rightarrow> nat) \<Rightarrow> ptr \<Rightarrow> bool" where
  "placed size_of p \<longleftrightarrow> (\<forall>r off. p = Some (r, off) \<longrightarrow> off < size_of r)"

lemma restore_located:
  assumes "placed size_of p" "\<And>r. size_of r \<le> 2 ^ 32"
  shows "\<exists>c off. locate_page size_of p = Some (c, off) \<and> restore_page size_of c off = (p, False)"
proof (cases p)
  case None
  then show ?thesis by (simp add: locate_page_def restore_page_def)
next
  case (Some a)
  obtain r off where a: "a = (r, off)" by (cases a)
  have off: "off < size_of r" using assms(1) Some a by (simp add: placed_def)
  then have "unat (of_nat off :: u32) = off"
    using assms(2) [of r] by (intro unat_of_nat_eq) simp
  with off Some a show ?thesis by (simp add: locate_page_def restore_page_def)
qed

lemma exact_page:
  assumes "placed size_of p" "\<And>r. size_of r \<le> 2 ^ 32"
  shows "exact (sync_page size_of) p"
  unfolding exact_def
proof
  fix q :: ptr
  obtain c off where l: "locate_page size_of p = Some (c, off)" and r: "restore_page size_of c off = (p, False)"
    using restore_located [OF assms] by blast
  let ?c = "word_bytes 1 c" and ?o = "word_bytes 4 off"
  show "restores (sync_page size_of) p q p"
  proof (rule restoresI [where bytes = "?c @ ?o"])
    show "sync_page size_of (s, p) = Some (s\<lparr>ss_output := ss_output s @ ?c @ ?o\<rparr>, p)"
      if "\<not> ss_loading s" "\<not> ss_error s" for s
      using that by (simp add: sync_page_rest page_rest_def l save_word)
    show "sync_page size_of (s, q) = Some (s\<lparr>ss_input := rest\<rparr>, p)"
      if s: "ss_loading s" "\<not> ss_error s" "ss_input s = (?c @ ?o) @ rest" for s rest
    proof -
      have "sync_word (s, v) = Some (s\<lparr>ss_input := ?o @ rest\<rparr>, c)" for v
        using s by (subst load_word) simp_all
      moreover have "sync_word (s\<lparr>ss_input := ?o @ rest\<rparr>, v) = Some (s\<lparr>ss_input := rest\<rparr>, off)" for v
        using s by (subst load_word) simp_all
      ultimately show ?thesis using s r by (simp add: sync_page_rest page_rest_def)
    qed
  qed
qed

lemma set_all_pages [simp]: "set all_pages = UNIV"
proof -
  have "i \<in> set all_pages" for i :: u8
  proof -
    have "i = of_nat (unat i)" by simp
    moreover have "unat i \<in> set [0..<0x100]" using unsigned_less [where 'a = nat, of i] by simp
    ultimately show ?thesis unfolding all_pages_def by (metis image_eqI set_map)
  qed
  then show ?thesis by auto
qed

lemma restores_pages:
  "(\<And>i. exact A (f i)) \<Longrightarrow> restores (sync_table all_pages A) f g f"
  by (rule restores_eq [OF exact_table]) simp_all

section \<open>The base class\<close>

lemma restores_chr_ram:
  fixes x :: mapper
  assumes "m_chr_ram x = [] \<or> length (m_chr_ram x) = unat (get_chr_ram_size (m_chip x))"
    "length (m_chr_ram x) < 2 ^ 32" "m_chr_ram_size x = of_nat (length (m_chr_ram x))"
    "get_chr_ram_size (m_chip y) = get_chr_ram_size (m_chip x)"
  shows "restores sync_chr_ram x y (y\<lparr>m_chr_ram := m_chr_ram x, m_chr_ram_size := m_chr_ram_size x\<rparr>)"
proof -
  let ?k = "unat (get_chr_ram_size (m_chip x))"
  have "restores (sync_optional_fixed_vector ?k) (m_chr_ram x) (m_chr_ram y) (m_chr_ram x)"
    using assms(1,2) by (intro restores_optional) auto
  then obtain b where b: "\<And>s. \<not> ss_loading s \<Longrightarrow> \<not> ss_error s \<Longrightarrow>
      sync_optional_fixed_vector ?k (s, m_chr_ram x) = Some (s\<lparr>ss_output := ss_output s @ b\<rparr>, m_chr_ram x)"
    "\<And>s rest. ss_loading s \<Longrightarrow> \<not> ss_error s \<Longrightarrow> ss_input s = b @ rest \<Longrightarrow>
      sync_optional_fixed_vector ?k (s, m_chr_ram y) = Some (s\<lparr>ss_input := rest\<rparr>, m_chr_ram x)"
    unfolding restores_def by blast
  show ?thesis
    by (rule restoresI [where bytes = b]) (simp_all add: sync_chr_ram_def Let_def b assms(3,4))
qed

lemma enums_all:
  "t \<in> set mirroring_types" "a \<in> set memory_accesses" "c \<in> set chr_memory_types"
  "length mirroring_types < 2 ^ 32" "length memory_accesses < 2 ^ 32" "length chr_memory_types < 2 ^ 32"
  by ((cases t; cases a; cases c; simp add: mirroring_types_def memory_accesses_def chr_memory_types_def); fail)+

text \<open>
  A cartridge whose pages and sizes fit the format: the buffers are shorter than 4 GB, every page
  points into one of them, and the CHR RAM has the size the board gives it.
\<close>

definition cartridge_storable :: "mapper \<Rightarrow> bool" where
  "cartridge_storable m \<longleftrightarrow>
     (m_chr_ram m = [] \<or> length (m_chr_ram m) = unat (get_chr_ram_size (m_chip m))) \<and>
     m_chr_ram_size m = of_nat (length (m_chr_ram m)) \<and> length (m_nametable_ram m) = 0x1000 \<and>
     (\<forall>r. length (region r m) < 2 ^ 32) \<and>
     (\<forall>i. placed (buffer_size m) (m_prg_pages m i) \<and> placed (buffer_size m) (m_chr_pages m i)) \<and>
     (\<forall>c. m_chip m = Mapper004 c \<longrightarrow> length (m3_registers c) = 8)"

text \<open>The kind of a board, without its registers.\<close>

fun chip_kind :: "mapper_chip \<Rightarrow> mapper_chip" where
  "chip_kind (Mapper000 _) = Mapper000 False"
| "chip_kind (Mapper001 _) = Mapper001 mmc1_0"
| "chip_kind (Mapper004 _) = Mapper004 mmc3_0"
| "chip_kind k = k"

text \<open>The same cartridge: what is not saved is the same, and the buffers have the same sizes.\<close>

definition same_cartridge :: "mapper \<Rightarrow> mapper \<Rightarrow> bool" where
  "same_cartridge x y \<longleftrightarrow> chip_kind (m_chip x) = chip_kind (m_chip y) \<and>
     (\<forall>c. m_chip y = Mapper004 c \<longrightarrow> length (m3_registers c) = 8) \<and>
     length (m_work_ram x) = length (m_work_ram y) \<and> length (m_save_ram x) = length (m_save_ram y) \<and>
     length (m_nametable_ram x) = length (m_nametable_ram y) \<and> length (m_own_ram x) = length (m_own_ram y) \<and>
     (\<not> has_own_ram (m_chip x) \<longrightarrow> m_own_ram x = m_own_ram y) \<and>
     m_rom_info x = m_rom_info y \<and> m_prg_rom x = m_prg_rom y \<and> m_chr_rom x = m_chr_rom y \<and>
     m_prg_size x = m_prg_size y \<and> m_chr_rom_size x = m_chr_rom_size y \<and>
     m_work_ram_size x = m_work_ram_size y \<and> m_save_ram_size x = m_save_ram_size y \<and>
     m_has_default_work_ram x = m_has_default_work_ram y \<and>
     m_is_write_register_addr x = m_is_write_register_addr y \<and>
     m_is_read_register_addr x = m_is_read_register_addr y \<and> m_has_bus_conflicts x = m_has_bus_conflicts y"

lemma same_kind:
  "chip_kind k = chip_kind k' \<Longrightarrow> has_own_ram k' = has_own_ram k \<and> get_chr_ram_size k' = get_chr_ram_size k"
  by (cases k; cases k'; simp add: has_own_ram_def get_chr_ram_size_def)

lemma exact_mmc1: "exact mmc1_serialize r"
  unfolding mmc1_serialize_def by (rule exactI, rule restores_eq, (rule parts | simp; fail)+)

lemma restores_mmc3:
  "length (m3_registers r) = 8 \<Longrightarrow> length (m3_registers q) = 8 \<Longrightarrow> restores mmc3_serialize r q r"
  unfolding mmc3_serialize_def by (rule restores_eq, (rule parts | simp; fail)+)

lemma restores_wrap:
  assumes "restores A r q r" and C: "\<And>s v. sync_chip (s, C v) = map_option (\<lambda>(s, v). (s, C v)) (A (s, v))"
  shows "restores sync_chip (C r) (C q) (C r)"
proof -
  obtain b where b: "\<And>s. \<not> ss_loading s \<Longrightarrow> \<not> ss_error s \<Longrightarrow> A (s, r) = Some (s\<lparr>ss_output := ss_output s @ b\<rparr>, r)"
    "\<And>s rest. ss_loading s \<Longrightarrow> \<not> ss_error s \<Longrightarrow> ss_input s = b @ rest \<Longrightarrow> A (s, q) = Some (s\<lparr>ss_input := rest\<rparr>, r)"
    using assms(1) unfolding restores_def by blast
  show ?thesis by (rule restoresI [where bytes = b]) (simp_all add: C b)
qed

lemma restores_chip:
  assumes "chip_kind k = chip_kind k'"
    "\<And>c. k = Mapper004 c \<Longrightarrow> length (m3_registers c) = 8" "\<And>c. k' = Mapper004 c \<Longrightarrow> length (m3_registers c) = 8"
  shows "restores sync_chip k k' k"
proof -
  have plain: "restores sync_chip k k k" if "\<And>s. sync_chip (s, k) = Some (s, k)" for k
    by (rule restoresI [where bytes = "[]"]) (simp_all add: that)
  show ?thesis
    using assms
    by (cases k; cases k') (auto intro!: plain restores_wrap [OF exactD [OF exact_bool], of Mapper000]
        restores_wrap [OF exactD [OF exact_mmc1], of Mapper001] restores_wrap [OF restores_mmc3, of _ _ Mapper004])
qed

section \<open>The cartridge\<close>

lemma buffer_size_cong:
  assumes "has_own_ram (m_chip a) = has_own_ram (m_chip b)" "length (m_prg_rom a) = length (m_prg_rom b)"
    "length (m_chr_rom a) = length (m_chr_rom b)" "length (m_chr_ram a) = length (m_chr_ram b)"
    "length (m_work_ram a) = length (m_work_ram b)" "length (m_save_ram a) = length (m_save_ram b)"
    "length (m_nametable_ram a) = length (m_nametable_ram b)" "length (m_own_ram a) = length (m_own_ram b)"
  shows "buffer_size a = buffer_size b"
proof
  show "buffer_size a r = buffer_size b r" for r by (cases r; simp add: buffer_size_def assms)
qed

lemma restores_page_tables:
  assumes "\<And>i. placed (buffer_size x) (get x i)" "\<And>r. buffer_size x r \<le> 2 ^ 32" "buffer_size x = buffer_size y"
    "upd (\<lambda>_. get x) x = x"
  shows "restores (sync_on (\<lambda>m. member get upd (sync_table all_pages (sync_page (buffer_size m))))) x y (upd (\<lambda>_. get x) y)"
  using assms by (intro restores_on restores_member restores_pages exact_page) simp_all

lemma restores_mapper:
  assumes x: "cartridge_storable x" and same: "same_cartridge x y"
  shows "restores mapper_serialize x y x"
proof -
  have chip: "has_own_ram (m_chip y) = has_own_ram (m_chip x)" "get_chr_ram_size (m_chip y) = get_chr_ram_size (m_chip x)"
    using same same_kind [of "m_chip x" "m_chip y"] by (auto simp: same_cartridge_def)
  have lengths: "length (m_work_ram y) = length (m_work_ram x)" "length (m_save_ram y) = length (m_save_ram x)"
    "length (m_nametable_ram y) = length (m_nametable_ram x)" "length (m_own_ram y) = length (m_own_ram x)"
    "m_prg_rom y = m_prg_rom x" "m_chr_rom y = m_chr_rom x"
    using same by (simp_all add: same_cartridge_def)
  have small: "length (region r x) < 2 ^ 32" for r using x by (simp add: cartridge_storable_def)
  note sizes = small [of WorkRam, simplified] small [of SaveRam, simplified] small [of OwnRam, simplified]
    small [of ChrRam, simplified]
  have wide: "length (m_work_ram x) < 2 ^ 64" "length (m_save_ram x) < 2 ^ 64" "length (m_own_ram x) < 2 ^ 64"
    using sizes by simp_all
  have pages: "placed (buffer_size x) (m_prg_pages x i)" "placed (buffer_size x) (m_chr_pages x i)"
    "buffer_size x r \<le> 2 ^ 32" for i r
    using x less_imp_le [OF small [of r]] by (simp_all add: cartridge_storable_def buffer_size_def)
  have ram: "m_chr_ram x = [] \<or> length (m_chr_ram x) = unat (get_chr_ram_size (m_chip x))"
    "m_chr_ram_size x = of_nat (length (m_chr_ram x))"
    using x by (simp_all add: cartridge_storable_def)
  have kinds: "chip_kind (m_chip x) = chip_kind (m_chip y)"
    "\<And>c. m_chip x = Mapper004 c \<Longrightarrow> length (m3_registers c) = 8"
    "\<And>c. m_chip y = Mapper004 c \<Longrightarrow> length (m3_registers c) = 8"
    using x same by (simp_all add: cartridge_storable_def same_cartridge_def)
  have base: "restores base_serialize x z (z\<lparr>m_chr_ram := m_chr_ram x, m_chr_ram_size := m_chr_ram_size x,
      m_work_ram := m_work_ram x, m_save_ram := m_save_ram x, m_nametable_ram := m_nametable_ram x,
      m_mirroring_type := m_mirroring_type x, m_prg_pages := m_prg_pages x, m_chr_pages := m_chr_pages x,
      m_prg_memory_access := m_prg_memory_access x, m_chr_memory_access := m_chr_memory_access x,
      m_chr_memory_type := m_chr_memory_type x\<rparr>)"
    if z: "z = y \<or> z = y\<lparr>m_own_ram := m_own_ram x\<rparr>" for z
  proof -
    have lz: "length (m_work_ram z) = length (m_work_ram x)" "length (m_save_ram z) = length (m_save_ram x)"
      "length (m_nametable_ram z) = length (m_nametable_ram x)" "length (m_own_ram z) = length (m_own_ram x)"
      "m_prg_rom z = m_prg_rom x" "m_chr_rom z = m_chr_rom x" "m_chip z = m_chip y"
      using z lengths by auto
    show ?thesis
      unfolding base_serialize_def
      by (rule restores_eq, (rule restores_chr_ram restores_fixed restores_page_tables restores_pages parts enums_all pages
          | (rule buffer_size_cong; simp add: lz chip; fail)
          | simp add: lz chip ram sizes wide [simplified]; fail)+)
  qed
  let ?own = "if has_own_ram (m_chip x) then y\<lparr>m_own_ram := m_own_ram x\<rparr> else y"
  have own: "restores (sync_on (\<lambda>m. if has_own_ram (m_chip m) then member m_own_ram m_own_ram_update sync_fixed_vector
      else sync_all [])) x y ?own"
  proof (cases "has_own_ram (m_chip x)")
    case True
    then show ?thesis
      using lengths(4) wide(3) by (intro restores_on) (simp_all add: chip restores_member [OF restores_fixed])
  next
    case False
    then show ?thesis by (intro restores_on) (simp_all add: chip restores_Nil del: sync_all.simps)
  qed
  have own_x: "m_own_ram ?own = m_own_ram x" "m_chip ?own = m_chip y" using same by (simp_all add: same_cartridge_def)
  have chips: "restores sync_chip (m_chip x) (m_chip y) (m_chip x)"
    by (rule restores_chip) (use kinds in auto)
  have z: "?own = y \<or> ?own = y\<lparr>m_own_ram := m_own_ram x\<rparr>" by simp
  show ?thesis
    unfolding mapper_serialize_def
  proof (rule restores_eq, rule restores_Cons [OF own restores_Cons [OF base [OF z] restores_Cons [OF _ restores_Nil]]])
    let ?z = "?own\<lparr>m_chr_ram := m_chr_ram x, m_chr_ram_size := m_chr_ram_size x,
      m_work_ram := m_work_ram x, m_save_ram := m_save_ram x, m_nametable_ram := m_nametable_ram x,
      m_mirroring_type := m_mirroring_type x, m_prg_pages := m_prg_pages x, m_chr_pages := m_chr_pages x,
      m_prg_memory_access := m_prg_memory_access x, m_chr_memory_access := m_chr_memory_access x,
      m_chr_memory_type := m_chr_memory_type x\<rparr>"
    show "restores (member m_chip m_chip_update sync_chip) x ?z (?z\<lparr>m_chip := m_chip x\<rparr>)"
      using chips by (intro restores_member) simp_all
    show "?z\<lparr>m_chip := m_chip x\<rparr> = x"
      using same by (intro mapper.equality) (simp_all add: own_x(1) same_cartridge_def)
  qed
qed

section \<open>The console\<close>

definition machine_storable :: "nes \<Rightarrow> bool" where
  "machine_storable s \<longleftrightarrow> cpu_master_clock (n_cpu s) < 2 ^ 64 \<and> ppu_storable (n_ppu s) \<and> apu_storable (n_apu s) \<and>
     mixer_storable (n_mixer s) \<and> control_storable (n_ctl s) \<and> cartridge_storable (n_mapper s)"

text \<open>A machine with the same cartridge, whatever it has run.\<close>

definition same_machine :: "nes \<Rightarrow> nes \<Rightarrow> bool" where
  "same_machine s t \<longleftrightarrow> ppu_ok (n_ppu t) \<and> same_beyond (n_ppu s) (n_ppu t) \<and>
     fc_ok (ap_frame_counter (n_apu t)) \<and> length (ap_audio_ring (n_apu t)) = MAX_AUDIO_FRAMES \<and>
     mixer_at MAX_SAMPLES_PER_FRAME MAX_SAMPLES_PER_FRAME (n_mixer t) \<and> same_channels (n_mixer s) (n_mixer t) \<and>
     control_ok (n_ctl t) \<and> same_ports (n_ctl s) (n_ctl t) \<and> same_cartridge (n_mapper s) (n_mapper t) \<and>
     length (mm_internal_ram (n_mem s)) = length (mm_internal_ram (n_mem t)) \<and>
     mm_read_handlers (n_mem s) = mm_read_handlers (n_mem t) \<and>
     mm_write_handlers (n_mem s) = mm_write_handlers (n_mem t) \<and> n_rom s = n_rom t"

definition machine_loaded :: "nes \<Rightarrow> nes \<Rightarrow> nes" where
  "machine_loaded s t = s\<lparr>n_mixer := mixer_loaded (n_mixer s) (n_mixer t)\<rparr>"

lemma restores_control_member:
  assumes "control_storable (n_ctl x)" "control_ok (n_ctl y)" "same_ports (n_ctl x) (n_ctl y)"
  shows "restores (sync_on (\<lambda>s. member n_ctl n_ctl_update
     (if cm_vs (n_ctl s) then vs_control_serialize else control_serialize))) x y (y\<lparr>n_ctl := n_ctl x\<rparr>)"
proof (rule restores_on)
  show "member n_ctl n_ctl_update (if cm_vs (n_ctl x) then vs_control_serialize else control_serialize) =
      member n_ctl n_ctl_update (if cm_vs (n_ctl y) then vs_control_serialize else control_serialize)"
    using assms(3) by (simp add: same_ports_def)
  show "restores (member n_ctl n_ctl_update (if cm_vs (n_ctl x) then vs_control_serialize else control_serialize)) x y
      (y\<lparr>n_ctl := n_ctl x\<rparr>)"
    by (rule restores_member, rule restores_ports [OF assms]) simp
qed

theorem restores_machine:
  assumes s: "machine_storable s" and same: "same_machine s t"
  shows "restores nes_serialize s t (machine_loaded s t)"
proof -
  note facts = s [unfolded machine_storable_def, simplified] same [unfolded same_machine_def]
  show ?thesis
    unfolding nes_serialize_def
    by (rule restores_eq, (rule restores_Nil restores_Cons restores_control_member restores_member restores_ppu
        restores_apu restores_mixer restores_mapper restores_memory exactD exact_word exact_cpu
        | simp add: facts; fail)+)
      (rule nes.equality, simp_all add: facts machine_loaded_def)
qed

end
