(* ===== verification/Nes_System_Facts.thy ===== *)
theory Nes_System_Facts
  imports Nes_System Console_Facts State_Restore_Cartridge
begin

text \<open>
  Correctness of the NES system: every picture it converts has its size and is opaque, loading
  and stepping keep its invariant, and a saved state is read back into a system with the same
  cartridge.
\<close>

section \<open>The picture\<close>

lemma colour_tables:
  "fst (ppu_colours info) = lut \<Longrightarrow> length lut = 64"
  "fst (ppu_colours info) = lut \<Longrightarrow> i < 64 \<Longrightarrow> unat (lut ! i) < 64"
  "snd (ppu_colours info) = Some colours \<Longrightarrow> length colours = 64"
proof -
  have l: "length l = 64 \<and> (\<forall>b \<in> set l. unat b < 64)"
    if "l \<in> {PALETTE_LUT_2C02, PALETTE_LUT_2C03, PALETTE_LUT_2C04A, PALETTE_LUT_2C04B, PALETTE_LUT_2C04C,
      PALETTE_LUT_2C04D, PALETTE_LUT_2C05}" for l
    using that by (auto simp: PALETTE_LUT_2C02_def PALETTE_LUT_2C03_def PALETTE_LUT_2C04A_def PALETTE_LUT_2C04B_def
        PALETTE_LUT_2C04C_def PALETTE_LUT_2C04D_def PALETTE_LUT_2C05_def)
  have "fst (ppu_colours info) \<in> {PALETTE_LUT_2C02, PALETTE_LUT_2C03, PALETTE_LUT_2C04A, PALETTE_LUT_2C04B,
      PALETTE_LUT_2C04C, PALETTE_LUT_2C04D, PALETTE_LUT_2C05}"
    by (cases "ri_vs_ppu_model info") (simp_all add: ppu_colours_def)
  from l [OF this] show "fst (ppu_colours info) = lut \<Longrightarrow> length lut = 64"
    "fst (ppu_colours info) = lut \<Longrightarrow> i < 64 \<Longrightarrow> unat (lut ! i) < 64" by auto
  show "snd (ppu_colours info) = Some colours \<Longrightarrow> length colours = 64"
    by (cases "ri_vs_ppu_model info")
      (auto simp: ppu_colours_def PPU_RGB_2C03_def PPU_RGB_2C04A_def PPU_RGB_2C04B_def PPU_RGB_2C04C_def
        PPU_RGB_2C04D_def split: if_splits)
qed

lemma masked_index:
  assumes "k \<le> (0x3F :: u8)"
  shows "unat (ucast ((pixel :: u16) AND ucast k) :: u8) < 64"
proof -
  have "unat (ucast (pixel AND ucast k) :: u8) \<le> unat (pixel AND ucast k)" by (simp add: unsigned_ucast_eq take_bit_eq_mod)
  also have "\<dots> \<le> unat (ucast k :: u16)" by (rule unat_and_le)
  also have "\<dots> \<le> 0x3F" using assms by (simp add: word_le_nat_alt unsigned_ucast_eq take_bit_eq_mod)
  finally show ?thesis by simp
qed

lemma convert_pixel_ok:
  assumes "length palette = 64" "k \<le> 0x3F"
  shows "ok (convert_pixel info palette k bits pixel) (\<lambda>px. \<exists>rgb. px = rgba_bytes rgb)"
proof -
  obtain lut cs where c: "ppu_colours info = (lut, cs)" by (cases "ppu_colours info")
  have "fst (ppu_colours info) = lut" using c by simp
  note t = colour_tables(1,2) [OF this]
  have "cs = Some colours \<Longrightarrow> length colours = 64" for colours using colour_tables(3) [of info colours] c by simp
  with t masked_index [OF assms(2), of pixel] show ?thesis
    unfolding convert_pixel_def Let_def c prod.case
    by (cases cs) (auto simp: assms(1))
qed

text \<open>The bytes of a picture: four a pixel, the last one 255.\<close>

definition opaque :: "u8 list \<Rightarrow> bool" where
  "opaque bs \<longleftrightarrow> length bs = 256 * 240 * 4 \<and> (\<forall>i < 256 * 240. bs ! (4 * i + 3) = 0xFF)"

lemma convert_pixels_ok:
  assumes "\<And>i. ok (f i) (\<lambda>px. \<exists>rgb. px = rgba_bytes rgb)"
  shows "ok (convert_pixels f is) (\<lambda>bs. length bs = 4 * length is \<and> (\<forall>i < length is. bs ! (4 * i + 3) = 0xFF))"
proof (induction "is")
  case (Cons i "is")
  obtain rgb where f: "f i = Some (rgba_bytes rgb)" using assms [of i] by (auto simp: ok_iff)
  obtain bs where bs: "convert_pixels f is = Some bs" "length bs = 4 * length is"
    "\<And>i. i < length is \<Longrightarrow> bs ! (4 * i + 3) = 0xFF"
    using Cons.IH by (auto simp: ok_iff)
  have "(rgba_bytes rgb @ bs) ! (4 * j + 3) = 0xFF" if "j < Suc (length is)" for j
  proof (cases j)
    case 0
    then show ?thesis by (simp add: rgba_bytes_def)
  next
    case (Suc k)
    then show ?thesis using that bs(3) [of k] by (simp add: rgba_bytes_def numeral_eq_Suc)
  qed
  with f bs show ?case by (simp add: rgba_bytes_def)
qed simp

section \<open>The invariant\<close>

definition system_ok :: "nes_system \<Rightarrow> bool" where
  "system_ok sys \<longleftrightarrow> length (sy_palette sys) = 64 \<and> length (sy_rgba sys) = 256 * 240 * 4 \<and>
     (case sy_console sys of Unloaded mx \<Rightarrow> mixer_ok mx | Running s \<Rightarrow> clock_ok s)"

lemma clock_ppu: "clock_ok s \<Longrightarrow> ppu_ok (n_ppu s)"
  by (simp add: clock_ok_def nes_ok_def bus_ok_def ppu_bus_of_def)

lemma convert_running:
  assumes "length (sy_palette sys) = 64" "sy_console sys = Running s" "ppu_ok (n_ppu s)"
  shows "\<exists>rgba. convert_frame sys = Some (sys\<lparr>sy_rgba := rgba\<rparr>) \<and> opaque rgba"
proof -
  have "ppu_palette_ram_mask (n_ppu s) \<le> 0x3F" using assms(3) by (simp add: ppu_ok_defs)
  let ?f = "\<lambda>i. convert_pixel (n_rom s) (sy_palette sys) (ppu_palette_ram_mask (n_ppu s))
      (ppu_intensify_color_bits (n_ppu s)) (ppu_output_buffers (n_ppu s) (ppu_framebuffer (n_ppu s)) i)"
  let ?is = "[0..<256 * 240]"
  have "ok (convert_pixels ?f ?is) (\<lambda>bs. length bs = 4 * length ?is \<and> (\<forall>i < length ?is. bs ! (4 * i + 3) = 0xFF))"
    by (rule convert_pixels_ok, rule convert_pixel_ok) fact+
  then obtain bs where "convert_pixels ?f ?is = Some bs" "opaque bs"
    unfolding ok_iff length_upt opaque_def by auto
  then show ?thesis using assms(2) by (auto simp: Let_def simp del: upt_rec_numeral)
qed

lemma new_system: "\<exists>sys. new_nes_system = Some sys \<and> system_ok sys \<and> sy_identity sys = 0"
  by (simp add: new_nes_system_def set_palette_def system_ok_def new_console_def new_mixer_ok DEFAULT_NES_PALETTE_def)

lemma set_palette_ok:
  assumes "system_ok sys" "length palette = 64"
  shows "ok (set_palette palette sys) (\<lambda>t. system_ok t \<and> sy_palette t = palette \<and> sy_console t = sy_console sys \<and>
    sy_identity t = sy_identity sys \<and> (\<forall>s. sy_console sys = Running s \<longrightarrow> opaque (sy_rgba t)))"
proof (cases "sy_console sys")
  case (Unloaded mx)
  then show ?thesis using assms by (simp add: set_palette_def system_ok_def)
next
  case (Running s)
  then have "ppu_ok (n_ppu s)" using assms(1) by (simp add: system_ok_def clock_ppu)
  with assms(2) Running obtain rgba where
    "convert_frame (sys\<lparr>sy_palette := palette\<rparr>) = Some (sys\<lparr>sy_palette := palette, sy_rgba := rgba\<rparr>)" "opaque rgba"
    using convert_running [of "sys\<lparr>sy_palette := palette\<rparr>" s] by auto
  with assms Running show ?thesis by (simp add: set_palette_def system_ok_def opaque_def del: convert_frame.simps)
qed

lemma default_palette [simp]: "length DEFAULT_NES_PALETTE = 64"
  by (simp add: DEFAULT_NES_PALETTE_def)

lemma nes_load_ok:
  assumes "system_ok sys" "playable db data"
  shows "ok (nes_load E topology db data sys) (\<lambda>(r, t). r = 0 \<and> system_ok t \<and> sy_identity t = content_identity data \<and>
    sy_palette t = DEFAULT_NES_PALETTE \<and> opaque (sy_rgba t) \<and> (\<exists>s. sy_console t = Running s))"
proof -
  have "mixer_ok (console_mixer (sy_console sys))"
    using assms(1) by (cases "sy_console sys") (simp_all add: system_ok_def clock_ok_def nes_ok_def apu_ok_def running_def)
  from load_rom_ok [OF assms(2) this] obtain s where
    l: "load_rom E topology db data (sy_console sys) = Some (0, Running s)" "clock_ok s"
    by (auto simp: ok_iff)
  let ?sys = "sys\<lparr>sy_console := Running s, sy_identity := content_identity data\<rparr>"
  have "system_ok ?sys" using assms(1) l(2) by (simp add: system_ok_def)
  from set_palette_ok [OF this default_palette] l(1) show ?thesis
    by (auto simp: nes_load_def ok_iff)
qed

lemma nes_step_ok:
  assumes "system_ok sys" "sy_console sys = Running s"
  shows "ok (nes_step E sys) (\<lambda>(r, t). r = 0 \<and> system_ok t \<and> opaque (sy_rgba t) \<and> sy_palette t = sy_palette sys \<and>
    sy_identity t = sy_identity sys \<and> (\<exists>s'. sy_console t = Running s'))"
proof -
  have "clock_ok s" using assms by (simp add: system_ok_def)
  then obtain s' where f: "run_frame E s = Some s'" "clock_ok s'"
    using run_frame_ok [of s E] unfolding ok_iff by blast
  obtain rgba where "convert_frame (sys\<lparr>sy_console := Running s'\<rparr>) = Some (sys\<lparr>sy_console := Running s', sy_rgba := rgba\<rparr>)"
    "opaque rgba"
    using assms(1) convert_running [of "sys\<lparr>sy_console := Running s'\<rparr>" s'] clock_ppu [OF f(2)] by (auto simp: system_ok_def)
  with assms f show ?thesis by (simp add: nes_step_def system_ok_def opaque_def del: convert_frame.simps)
qed

section \<open>Saved states\<close>

text \<open>What a saved state holds after its version and its board, as one sync.\<close>

definition payload_serialize :: "(u32 list \<times> console) sync" where
  "payload_serialize = sync_all [sync_field fst (\<lambda>p x. (p, snd x)) (sync_list sync_word),
     sync_field snd (\<lambda>c x. (fst x, c)) console_serialize]"

definition saved_number :: "nes_system \<Rightarrow> u32" where
  "saved_number sys = of_nat (ri_mapper_number (console_rom_info (sy_console sys)))"

lemma payload_eq:
  "payload_serialize (s, p, con) = do {
     (s, p) \<leftarrow> sync_list sync_word (s, p);
     (s, con) \<leftarrow> console_serialize (s, con);
     Some (s, p, con) }"
  by (simp add: payload_serialize_def sync_field_def bind_assoc case_prod_unfold)

lemma save_payload:
  assumes "has_state sys"
  shows "nes_save_state sys = map_option (\<lambda>(s, x). if ss_error s then None else Some (ss_output s))
    (payload_serialize (saving_stream\<lparr>ss_output := word_bytes 4 (1 :: u32) @ word_bytes 4 (saved_number sys)\<rparr>,
       sy_palette sys, sy_console sys))"
  using assms
  by (auto simp: nes_save_state_def payload_eq save_word saving_stream_def saved_number_def
      split: bind_splits prod.splits)

definition load_header :: "nes_system \<Rightarrow> stream \<Rightarrow> (stream \<times> bool) option" where
  "load_header sys s = do {
     (s, version) \<leftarrow> sync_word (s, 0 :: u32);
     (s, number) \<leftarrow> sync_word (s, 0 :: u32);
     Some (s, version = 1 \<and> number = saved_number sys) }"

definition load_payload :: "nes_system \<Rightarrow> stream \<Rightarrow> (stream \<times> bool \<times> u32 list \<times> console) option" where
  "load_payload sys s = do {
     (s, fine) \<leftarrow> load_header sys s;
     if fine then do { (s, x) \<leftarrow> payload_serialize (s, sy_palette sys, sy_console sys); Some (s, True, x) }
     else Some (s, False, sy_palette sys, sy_console sys) }"

lemma load_eq:
  assumes "has_state sys"
  shows "nes_load_state data sys = do {
     (s, fine, palette, con) \<leftarrow> load_payload sys (loading_stream data);
     let sys = sys\<lparr>sy_palette := palette, sy_console := con\<rparr>;
     if \<not> fine \<or> ss_error s \<or> get_remaining s \<noteq> 0 then Some (- 1, sys)
     else map_option (Pair 0) (convert_frame sys) }"
  using assms
  by (auto simp: nes_load_state_def load_payload_def load_header_def payload_eq saved_number_def Let_def
      simp del: convert_frame.simps split: bind_splits prod.splits)

lemma console_contract [contract]: "state_sync console_serialize"
proof
  show "reader (\<lambda>s. console_serialize (s, con))" for con
    by (cases con) (auto intro!: reader_intro reader_map machine.reads)
  show "con' = con" if "console_serialize (s, con) = Some (s', con')" "\<not> ss_loading s" for s con s' con'
    using that by (cases con) (auto dest: machine.saves)
qed

interpretation payload: state_sync payload_serialize
  unfolding payload_serialize_def by (simp add: contract)

lemma load_payload_reader: "reader (load_payload sys)"
  unfolding load_payload_def load_header_def
  by (intro reader_intro payload.reads)

lemma restores_console:
  assumes "restores nes_serialize s t u"
  shows "restores console_serialize (Running s) (Running t) (Running u)"
proof -
  obtain b where b: "\<And>st. \<not> ss_loading st \<Longrightarrow> \<not> ss_error st \<Longrightarrow> nes_serialize (st, s) = Some (st\<lparr>ss_output := ss_output st @ b\<rparr>, s)"
    "\<And>st rest. ss_loading st \<Longrightarrow> \<not> ss_error st \<Longrightarrow> ss_input st = b @ rest \<Longrightarrow> nes_serialize (st, t) = Some (st\<lparr>ss_input := rest\<rparr>, u)"
    using assms unfolding restores_def by blast
  show ?thesis by (rule restoresI [where bytes = b]) (simp_all add: b)
qed

lemma restores_payload:
  assumes "length q = length p" "restores nes_serialize s t u"
  shows "restores payload_serialize (p, Running s) (q, Running t) (p, Running u)"
proof -
  have p: "restores (sync_list sync_word) p q p" using assms(1) by (intro exact_list exact_word) simp_all
  have c: "restores console_serialize (Running s) (Running t) (Running u)" by (rule restores_console [OF assms(2)])
  have "restores (sync_field fst (\<lambda>p x. (p, snd x)) (sync_list sync_word)) (p, Running s) (q, Running t) (p, Running t)"
    by (rule restores_eq, rule restores_field) (use p in auto)
  moreover have "restores (sync_field snd (\<lambda>c x. (fst x, c)) console_serialize) (p, Running s) (p, Running t) (p, Running u)"
    by (rule restores_eq, rule restores_field) (use c in auto)
  ultimately show ?thesis unfolding payload_serialize_def by (blast intro: restores_Cons restores_Nil)
qed

text \<open>
  Two systems with the same cartridge: what one saves the other loads. Its picture is that
  of the saved machine, its identity stays.
\<close>

theorem saved_state_loads:
  assumes s: "sy_console sys = Running s" "has_state sys" "length (sy_palette sys) = 64" "machine_storable s"
    and t: "sy_console sys' = Running t" "has_state sys'" "length (sy_palette sys') = 64" "same_machine s t"
  shows "\<exists>data rgba. nes_save_state sys = Some (Some data) \<and>
    nes_load_state data sys' = Some (0, sys'\<lparr>sy_console := Running (machine_loaded s t), sy_palette := sy_palette sys,
      sy_rgba := rgba\<rparr>) \<and> opaque rgba"
proof -
  let ?u = "machine_loaded s t"
  have "restores payload_serialize (sy_palette sys, Running s) (sy_palette sys', Running t) (sy_palette sys, Running ?u)"
    using s(3) t(3) by (intro restores_payload restores_machine s t) simp
  then obtain b where
    b: "\<And>st. \<not> ss_loading st \<Longrightarrow> \<not> ss_error st \<Longrightarrow> payload_serialize (st, sy_palette sys, Running s) =
        Some (st\<lparr>ss_output := ss_output st @ b\<rparr>, sy_palette sys, Running s)"
    "\<And>st rest. ss_loading st \<Longrightarrow> \<not> ss_error st \<Longrightarrow> ss_input st = b @ rest \<Longrightarrow>
        payload_serialize (st, sy_palette sys', Running t) = Some (st\<lparr>ss_input := rest\<rparr>, sy_palette sys, Running ?u)"
    unfolding restores_def by blast
  let ?head = "word_bytes 4 (1 :: u32) @ word_bytes 4 (saved_number sys)"
  have number: "saved_number sys' = saved_number sys"
    using t(4) by (simp add: saved_number_def s(1) t(1) same_machine_def)
  have save: "nes_save_state sys = Some (Some (?head @ b))"
    using s by (simp add: save_payload b(1) saving_stream_def)
  have "sync_word (loading_stream (?head @ b), v) =
      Some (loading_stream (word_bytes 4 (saved_number sys) @ b), 1 :: u32)" for v
    by (subst load_word) (simp_all add: loading_stream_def)
  moreover have "sync_word (loading_stream (word_bytes 4 (saved_number sys) @ b), v) =
      Some (loading_stream b, saved_number sys)" for v
    by (subst load_word) (simp_all add: loading_stream_def)
  moreover have "payload_serialize (loading_stream b, sy_palette sys', Running t) =
      Some (loading_stream [], sy_palette sys, Running ?u)"
    using b(2) [of "loading_stream b" "[]"] by (simp add: loading_stream_def)
  ultimately have pay: "load_payload sys' (loading_stream (?head @ b)) =
      Some (loading_stream [], True, sy_palette sys, Running ?u)"
    by (simp add: load_payload_def load_header_def number t(1))
  let ?sys = "sys'\<lparr>sy_palette := sy_palette sys, sy_console := Running ?u\<rparr>"
  have "ppu_ok (n_ppu ?u)" using s(4) by (simp add: machine_loaded_def machine_storable_def ppu_storable_def)
  then obtain rgba where "convert_frame ?sys = Some (?sys\<lparr>sy_rgba := rgba\<rparr>)" "opaque rgba"
    using convert_running [of ?sys ?u] s(3) by auto
  then have "nes_load_state (?head @ b) sys' = Some (0, ?sys\<lparr>sy_rgba := rgba\<rparr>) \<and> opaque rgba"
    unfolding load_eq [OF t(2)] pay by (simp add: loading_stream_def get_remaining_def del: convert_frame.simps)
  with save show ?thesis by (intro exI [of _ "?head @ b"] exI [of _ rgba]) simp
qed

text \<open>Accepted data is accepted as a whole: no proper part of it, and nothing longer.\<close>

lemma loading_input: "loading_stream data\<lparr>ss_input := x\<rparr> = loading_stream x"
  by (simp add: loading_stream_def)

theorem state_length_matters:
  assumes "nes_load_state data sys = Some (0, sys')"
  shows "extra \<noteq> [] \<Longrightarrow> \<exists>t. nes_load_state (data @ extra) sys = Some (- 1, t)"
    and "data = p @ q \<Longrightarrow> q \<noteq> [] \<Longrightarrow> nes_load_state p sys = Some (r, t) \<Longrightarrow> r = - 1"
proof -
  have h: "has_state sys" using assms by (auto simp: nes_load_state_def split: if_splits)
  obtain s fine x where l: "load_payload sys (loading_stream data) = Some (s, fine, x)" "fine" "\<not> ss_error s" "get_remaining s = 0"
    using assms unfolding load_eq [OF h] by (auto simp: bind_eq_Some_conv Let_def split: if_splits)
  have taken: "consumes (load_payload sys) (loading_stream data) s (fine, x)"
    using readerD(3) [OF load_payload_reader l(1)] l(3) by (simp add: loading_stream_def)
  have whole: "ss_input s = []" "ss_input (loading_stream data) = data"
    using l(4) by (simp_all add: get_remaining_def loading_stream_def)
  have all: "\<forall>rest. load_payload sys (loading_stream (data @ rest)) = Some (s\<lparr>ss_input := rest\<rparr>, fine, x)"
    "\<forall>p q u b. data = p @ q \<longrightarrow> q \<noteq> [] \<longrightarrow> load_payload sys (loading_stream p) = Some (u, b) \<longrightarrow> ss_error u"
    using taken unfolding consumes_def loading_input whole append_Nil2 by blast+
  note c = all(1) [rule_format] all(2) [rule_format]
  show "\<exists>t. nes_load_state (data @ extra) sys = Some (- 1, t)" if "extra \<noteq> []"
    using that by (cases x) (simp add: load_eq [OF h] c(1) get_remaining_def)
  show "r = - 1" if "data = p @ q" "q \<noteq> []" "nes_load_state p sys = Some (r, t)"
    using that(3) unfolding load_eq [OF h]
    by (auto simp: bind_eq_Some_conv Let_def dest!: c(2) [OF that(1,2)] split: if_splits)
qed

end
