(* ===== verification/State_Container.thy ===== *)
theory State_Container
  imports State_Stream
begin

text \<open>
  The container of a saved state (\<^verbatim>\<open>src/core/ear6.cpp\<close>): a preamble of 32 bytes with a checksum,
  and a body that the protocol buffer library encodes. The library is a parameter, the
  \<open>codec\<close>; a message is the record of what its accessors return.
\<close>

section \<open>Messages\<close>

text \<open>\<^verbatim>\<open>state_container.proto\<close>: \<open>None\<close> is a member that is not set.\<close>

record preview =
  pv_version :: "u32 option"
  pv_format :: "int option"
  pv_width :: "u32 option"
  pv_height :: "u32 option"
  pv_image_data :: "u8 list option"

record container =
  sc_system_type :: u32
  sc_content_identity :: u64
  sc_content_name :: "u8 list option"
  sc_content :: "u8 list"
  sc_system_state :: "u8 list"
  sc_preview :: "preview option"

text \<open>\<^verbatim>\<open>upb_Encode\<close> and \<^verbatim>\<open>ear6_state_StateContainer_parse_ex\<close>; \<open>None\<close> is their failure.\<close>

record codec =
  cd_encode :: "container \<Rightarrow> u8 list option"
  cd_decode :: "u8 list \<Rightarrow> container option"

section \<open>Helpers\<close>

definition STATE_MAGIC :: "u8 list" where
  "STATE_MAGIC = [0x45, 0x41, 0x52, 0x36, 0x53, 0x54, 0x41, 0x54]"

definition STATE_PREAMBLE_SIZE :: nat where "STATE_PREAMBLE_SIZE = 32"

definition MAX_STATE_NAME_HINT_SIZE :: nat where "MAX_STATE_NAME_HINT_SIZE = 4096"

definition STATE_PREVIEW_VERSION :: u32 where "STATE_PREVIEW_VERSION = 1"

definition CONTAINER_WIRE_VERSION :: u32 where "CONTAINER_WIRE_VERSION = 1"

definition FORMAT_RGBA8888 :: int where "FORMAT_RGBA8888 = 1"

definition append_u32 :: "u8 list \<Rightarrow> u32 \<Rightarrow> u8 list" where
  "append_u32 data v = data @ word_bytes 4 v"

definition append_u64 :: "u8 list \<Rightarrow> u64 \<Rightarrow> u8 list" where
  "append_u64 data v = data @ word_bytes 8 v"

text \<open>The word at a position, little endian.\<close>

definition read_u32 :: "nat \<Rightarrow> u8 list \<Rightarrow> u32" where
  "read_u32 pos data = bytes_word (take 4 (drop pos data))"

definition read_u64 :: "nat \<Rightarrow> u8 list \<Rightarrow> u64" where
  "read_u64 pos data = bytes_word (take 8 (drop pos data))"

definition crc_bit :: "u32 \<Rightarrow> u32" where
  "crc_bit crc = drop_bit 1 crc XOR (0xEDB88320 AND (0 - (crc AND 1)))"

definition crc_byte :: "u32 \<Rightarrow> u8 \<Rightarrow> u32" where
  "crc_byte crc b = (crc_bit ^^ 8) (crc XOR ucast b)"

definition crc32 :: "u8 list \<Rightarrow> u32" where
  "crc32 data = NOT (foldl crc_byte 0xFFFFFFFF data)"

text \<open>The FNV-1a hash of the content, as in \<^verbatim>\<open>NesSystem::load\<close>.\<close>

definition container_identity :: "u8 list \<Rightarrow> u64" where
  "container_identity data = foldl (\<lambda>identity b. (identity XOR ucast b) * 1099511628211) 1469598103934665603 data"

text \<open>The file name at the end of a path or an URL; at most its last 4096 characters.\<close>

definition normalize_content_name_hint :: "u8 list option \<Rightarrow> u8 list" where
  "normalize_content_name_hint hint = (case hint of
     None \<Rightarrow> []
   | Some text \<Rightarrow>
       let name = takeWhile (\<lambda>c. c \<noteq> 0x3F \<and> c \<noteq> 0x23) text;
           base = rev (takeWhile (\<lambda>c. c \<noteq> 0x2F \<and> c \<noteq> 0x5C) (rev name))
       in drop (length base - MAX_STATE_NAME_HINT_SIZE) base)"

definition checked_rgba_size :: "u32 \<Rightarrow> u32 \<Rightarrow> nat option" where
  "checked_rgba_size width height =
     (if width = 0 \<or> height = 0 \<or> unat width > 2 ^ 31 - 1 \<or> unat height > 2 ^ 31 - 1 then None
      else if unat width > (2 ^ 64 - 1) div unat height div 4 then None
      else Some (unat width * unat height * 4))"

section \<open>Parsing\<close>

text \<open>The picture with its width and height; \<open>None\<close>: \<^verbatim>\<open>EAR6_STATE_PREVIEW_NONE\<close>.\<close>

record parsed_state =
  ps_container_wire_version :: u32
  ps_system_type :: u32
  ps_content_identity :: u64
  ps_content :: "u8 list"
  ps_name_hint :: "u8 list"
  ps_system_state :: "u8 list"
  ps_preview :: "(u8 list \<times> u32 \<times> u32) option"

definition parse_state_preview :: "preview option \<Rightarrow> (u8 list \<times> u32 \<times> u32) option" where
  "parse_state_preview preview = do {
     pv \<leftarrow> preview;
     version \<leftarrow> pv_version pv;
     format \<leftarrow> pv_format pv;
     width \<leftarrow> pv_width pv;
     height \<leftarrow> pv_height pv;
     image \<leftarrow> pv_image_data pv;
     if version \<noteq> STATE_PREVIEW_VERSION \<or> format \<noteq> FORMAT_RGBA8888 then None
     else do {
       rgba_size \<leftarrow> checked_rgba_size width height;
       if rgba_size \<noteq> length image then None else Some (image, width, height) } }"

text \<open>The body of a state whose preamble is right, or the code's -4.\<close>

definition state_body :: "u8 list \<Rightarrow> int + u8 list" where
  "state_body bytes =
     (if length bytes < STATE_PREAMBLE_SIZE then Inl (- 4)
      else if take 8 bytes \<noteq> STATE_MAGIC then Inl (- 4)
      else
        let preamble_size = unat (read_u32 12 bytes) in
        if read_u32 8 bytes \<noteq> CONTAINER_WIRE_VERSION \<or> preamble_size < STATE_PREAMBLE_SIZE \<or>
           preamble_size > length bytes \<or>
           read_u64 16 bytes \<noteq> of_nat (length bytes - preamble_size) \<or> read_u32 28 bytes \<noteq> 0
        then Inl (- 4)
        else
          let body = drop preamble_size bytes in
          if read_u32 24 bytes \<noteq> crc32 body then Inl (- 4) else Inr body)"

definition parse_container :: "container \<Rightarrow> int + parsed_state" where
  "parse_container c =
     (if length (sc_content c) > 2 ^ 31 - 1 then Inl (- 4)
      else if sc_content_identity c \<noteq> container_identity (sc_content c) then Inl (- 4)
      else Inr \<lparr>ps_container_wire_version = CONTAINER_WIRE_VERSION, ps_system_type = sc_system_type c,
             ps_content_identity = sc_content_identity c, ps_content = sc_content c,
             ps_name_hint = (case sc_content_name c of
                Some name \<Rightarrow> if length name \<le> MAX_STATE_NAME_HINT_SIZE \<and> 0 \<notin> set name then name else []
              | None \<Rightarrow> []),
             ps_system_state = sc_system_state c, ps_preview = parse_state_preview (sc_preview c)\<rparr>)"

text \<open>\<^verbatim>\<open>data\<close> may be the null pointer.\<close>

definition parse_state :: "codec \<Rightarrow> u8 list option \<Rightarrow> int + parsed_state" where
  "parse_state cd data = (case data of
     None \<Rightarrow> Inl (- 1)
   | Some bytes \<Rightarrow> (case state_body bytes of
       Inl e \<Rightarrow> Inl e
     | Inr body \<Rightarrow> (case cd_decode cd body of
         None \<Rightarrow> Inl (- 4)
       | Some c \<Rightarrow> parse_container c)))"

section \<open>Building\<close>

definition state_preview :: "u8 list \<Rightarrow> int \<Rightarrow> int \<Rightarrow> preview option" where
  "state_preview framebuffer width height =
     (if width > 0 \<and> height > 0 then
        case checked_rgba_size (of_int width) (of_int height) of
          None \<Rightarrow> None
        | Some preview_size \<Rightarrow> Some \<lparr>pv_version = Some STATE_PREVIEW_VERSION, pv_format = Some FORMAT_RGBA8888,
            pv_width = Some (of_int width), pv_height = Some (of_int height),
            pv_image_data = Some (take preview_size framebuffer)\<rparr>
      else None)"

definition state_image :: "u8 list \<Rightarrow> u8 list" where
  "state_image body =
     append_u32 (append_u32 (append_u64 (append_u32 (append_u32 STATE_MAGIC CONTAINER_WIRE_VERSION)
       (of_nat STATE_PREAMBLE_SIZE)) (of_nat (length body))) (crc32 body)) 0 @ body"

end
