(* ===== verification/Container_Facts.thy ===== *)
theory Container_Facts
  imports State_Container State_Codec
begin

text \<open>
  The preamble of a saved state: what is built is parsed back, no other length is accepted,
  and the checksum catches every damaged byte.
\<close>

section \<open>Little-endian words\<close>

lemma bit_bytes_length: "bit (bytes_word bs :: 'a::len word) k \<Longrightarrow> k < 8 * length bs"
proof (induction bs arbitrary: k)
  case (Cons b bs)
  have "bit b k \<Longrightarrow> k < 8" using bit_imp_le_length [of b k] by simp
  with Cons show ?case by (fastforce simp: bit_or_iff bit_push_bit_iff bit_ucast_iff)
qed simp

lemma word_bytes_word:
  "8 * length bs \<le> LENGTH('a::len) \<Longrightarrow> word_bytes (length bs) (bytes_word bs :: 'a word) = bs"
proof (induction bs)
  case (Cons b bs)
  let ?w = "bytes_word bs :: 'a word"
  have "ucast (ucast b OR push_bit 8 ?w :: 'a word) = b"
    using Cons.prems by (intro bit_word_eqI) (auto simp: bit_or_iff bit_push_bit_iff bit_ucast_iff)
  moreover have "drop_bit 8 (ucast b OR push_bit 8 ?w) = ?w"
  proof (rule bit_word_eqI)
    fix k assume k: "k < LENGTH('a)"
    have "k < 8 * length bs" if "bit ?w k" using that by (rule bit_bytes_length)
    then show "bit (drop_bit 8 (ucast b OR push_bit 8 ?w)) k = bit ?w k"
      using Cons.prems k by (auto simp: bit_drop_bit_eq bit_or_iff bit_push_bit_iff bit_ucast_iff dest: bit_imp_le_length)
  qed
  ultimately show ?case using Cons by simp
qed simp

lemma bytes_word_inject:
  assumes "length xs = length ys" "8 * length xs \<le> LENGTH('a::len)"
  shows "(bytes_word xs :: 'a word) = bytes_word ys \<longleftrightarrow> xs = ys"
  using assms word_bytes_word [of xs, where 'a = 'a] word_bytes_word [of ys, where 'a = 'a] by metis

text \<open>A byte inside the window of a word changes it, one outside does not.\<close>

lemma window_update:
  assumes "pos + n \<le> length xs" "i < length xs" "b \<noteq> xs ! i"
  shows "pos \<le> i \<Longrightarrow> i < pos + n \<Longrightarrow> take n (drop pos (xs[i := b])) \<noteq> take n (drop pos xs)"
    and "i < pos \<or> pos + n \<le> i \<Longrightarrow> take n (drop pos (xs[i := b])) = take n (drop pos xs)"
proof -
  show "take n (drop pos (xs[i := b])) \<noteq> take n (drop pos xs)" if "pos \<le> i" "i < pos + n"
  proof
    assume "take n (drop pos (xs[i := b])) = take n (drop pos xs)"
    then have "take n (drop pos (xs[i := b])) ! (i - pos) = take n (drop pos xs) ! (i - pos)" by simp
    with that assms show False by simp
  qed
  show "take n (drop pos (xs[i := b])) = take n (drop pos xs)" if "i < pos \<or> pos + n \<le> i"
    using that assms(1) by (auto simp: list_eq_iff_nth_eq nth_list_update)
qed

lemma read_update:
  assumes "i < length xs" "b \<noteq> xs ! i"
  shows "pos + 4 \<le> length xs \<Longrightarrow> pos \<le> i \<Longrightarrow> i < pos + 4 \<Longrightarrow> read_u32 pos (xs[i := b]) \<noteq> read_u32 pos xs"
    and "pos + 4 \<le> length xs \<Longrightarrow> i < pos \<or> pos + 4 \<le> i \<Longrightarrow> read_u32 pos (xs[i := b]) = read_u32 pos xs"
    and "pos + 8 \<le> length xs \<Longrightarrow> pos \<le> i \<Longrightarrow> i < pos + 8 \<Longrightarrow> read_u64 pos (xs[i := b]) \<noteq> read_u64 pos xs"
    and "pos + 8 \<le> length xs \<Longrightarrow> i < pos \<or> pos + 8 \<le> i \<Longrightarrow> read_u64 pos (xs[i := b]) = read_u64 pos xs"
  using window_update [OF _ assms, of pos 4] window_update [OF _ assms, of pos 8]
  by (simp_all add: read_u32_def read_u64_def bytes_word_inject)

section \<open>The checksum\<close>

lemma low_bit: "- ((c :: u32) AND 1) = (if bit c 0 then - 1 else 0)"
  by (simp add: and_one_eq mod2_eq_if bit_0)

text \<open>The polynomial has its top bit set, which the shift leaves clear: a step loses nothing.\<close>

lemma xor_cancel: "x XOR p = y XOR p \<longleftrightarrow> x = y" "p XOR x = p XOR y \<longleftrightarrow> x = y" for x y p :: u32
proof -
  have "(x XOR p) XOR p = x" for x by (simp only: xor.assoc xor_self_eq xor.right_neutral)
  then show r: "x XOR p = y XOR p \<longleftrightarrow> x = y" by metis
  show "p XOR x = p XOR y \<longleftrightarrow> x = y" unfolding xor.commute [of p] by (rule r)
qed

lemma crc_bit_inject: "crc_bit c = crc_bit d \<longleftrightarrow> c = d"
proof
  assume eq: "crc_bit c = crc_bit d"
  have top: "bit (crc_bit c) 31 = bit c 0" for c
  proof -
    have "bit (0xEDB88320 :: u32) 31" "\<not> bit c 32" using bit_imp_le_length [of c 32] by auto
    then show ?thesis
      unfolding crc_bit_def diff_0 low_bit by (simp add: bit_xor_iff bit_drop_bit_eq del: bit_numeral_iff)
  qed
  then have low: "bit c 0 = bit d 0" using eq by metis
  have shift: "drop_bit 1 c = drop_bit 1 d"
    using eq unfolding crc_bit_def diff_0 low_bit low by (simp only: xor_cancel)
  show "c = d"
  proof (rule bit_word_eqI)
    show "bit c k = bit d k" for k
    proof (cases k)
      case (Suc n)
      have "bit (drop_bit 1 c) n = bit (drop_bit 1 d) n" by (simp only: shift)
      then show ?thesis by (simp add: Suc bit_drop_bit_eq)
    qed (simp only: low)
  qed
qed simp

lemma crc_byte_inject: "crc_byte c b = crc_byte d b \<longleftrightarrow> c = d" "crc_byte c b = crc_byte c e \<longleftrightarrow> b = e"
proof -
  have "inj crc_bit" by (rule injI) (simp add: crc_bit_inject)
  then have "inj (crc_bit ^^ 8)" by (rule inj_fn)
  then have i: "(crc_bit ^^ 8) x = (crc_bit ^^ 8) y \<longleftrightarrow> x = y" for x y by (simp add: inj_eq)
  show "crc_byte c b = crc_byte d b \<longleftrightarrow> c = d" unfolding crc_byte_def i xor_cancel by (rule refl)
  have "(ucast b :: u32) = ucast e \<longleftrightarrow> b = e"
  proof
    assume "(ucast b :: u32) = ucast e"
    then have bits: "bit (ucast b :: u32) k = bit (ucast e :: u32) k" for k by (simp only:)
    have "bit b k = bit e k" if "k < 8" for k using bits [of k] that by (simp add: bit_ucast_iff)
    then show "b = e" by (intro bit_word_eqI) simp
  qed simp
  then show "crc_byte c b = crc_byte c e \<longleftrightarrow> b = e"
    unfolding crc_byte_def i xor_cancel .
qed

lemma crc_fold_inject: "foldl crc_byte c xs = foldl crc_byte d xs \<longleftrightarrow> c = d"
  by (induction xs arbitrary: c d) (simp_all add: crc_byte_inject)

lemma crc32_update:
  assumes "i < length xs" "b \<noteq> xs ! i"
  shows "crc32 (xs[i := b]) \<noteq> crc32 xs"
proof -
  let ?p = "take i xs" and ?q = "drop (Suc i) xs"
  have "crc32 xs = crc32 (?p @ xs ! i # ?q)" by (rule arg_cong [OF id_take_nth_drop [OF assms(1)]])
  moreover have "foldl crc_byte s (?p @ b # ?q) \<noteq> foldl crc_byte s (?p @ xs ! i # ?q)" for s
    using assms(2) by (simp add: crc_fold_inject crc_byte_inject)
  moreover have "NOT v = NOT w \<longleftrightarrow> v = w" for v w :: u32 using bit.compl_eq_compl_iff .
  ultimately show ?thesis
    unfolding upd_conv_take_nth_drop [OF assms(1)] crc32_def by simp
qed

section \<open>The preamble\<close>

lemma state_body_Inr:
  "state_body data = Inr body \<longleftrightarrow> 32 \<le> length data \<and> take 8 data = STATE_MAGIC \<and>
     read_u32 8 data = CONTAINER_WIRE_VERSION \<and> 32 \<le> unat (read_u32 12 data) \<and>
     unat (read_u32 12 data) \<le> length data \<and>
     read_u64 16 data = of_nat (length data - unat (read_u32 12 data)) \<and> read_u32 28 data = 0 \<and>
     body = drop (unat (read_u32 12 data)) data \<and> read_u32 24 data = crc32 body"
  by (auto simp: state_body_def STATE_PREAMBLE_SIZE_def Let_def)

lemma state_body_Inl: "state_body data = Inl e \<Longrightarrow> e = - 4"
  by (auto simp: state_body_def Let_def split: if_splits)

lemma state_body_rejects: "(\<And>body. state_body data \<noteq> Inr body) \<Longrightarrow> state_body data = Inl (- 4)"
  using state_body_Inl by (cases "state_body data") auto

lemma of_nat_u64_inject: "m < 2 ^ 64 \<Longrightarrow> n < 2 ^ 64 \<Longrightarrow> (of_nat m :: u64) = of_nat n \<longleftrightarrow> m = n"
  by (auto dest!: arg_cong [of _ _ unat] simp: unat_of_nat_eq)

lemma take_window:
  assumes "take 32 xs = take 32 ys" "pos + n \<le> 32"
  shows "take n (drop pos xs) = take n (drop pos ys)"
proof -
  have "take n (drop pos zs) = take n (drop pos (take 32 zs))" for zs :: "'a list"
    using assms(2) by (simp add: drop_take min_def)
  then show ?thesis using assms(1) by metis
qed

text \<open>A different length does not fit the announced size of the body.\<close>

lemma state_body_length:
  assumes "state_body data = Inr body" "length data < 2 ^ 64" "length other < 2 ^ 64"
    and "length other \<noteq> length data" "32 \<le> length other \<Longrightarrow> take 32 other = take 32 data"
  shows "state_body other = Inl (- 4)"
proof (rule state_body_rejects, rule notI)
  fix b assume o: "state_body other = Inr b"
  note d = assms(1) [unfolded state_body_Inr] and o = o [unfolded state_body_Inr]
  have "take 8 (drop 16 other) = take 8 (drop 16 data)" "take 4 (drop 12 other) = take 4 (drop 12 data)"
    using assms(5) o by (auto intro!: take_window)
  then have r: "read_u64 16 other = read_u64 16 data" "read_u32 12 other = read_u32 12 data"
    by (simp_all add: read_u64_def read_u32_def)
  then have "(of_nat (length other - unat (read_u32 12 data)) :: u64) = of_nat (length data - unat (read_u32 12 data))"
    using d o by metis
  then have "length other - unat (read_u32 12 data) = length data - unat (read_u32 12 data)"
    using assms(2,3) by (subst (asm) of_nat_u64_inject) simp_all
  moreover have "unat (read_u32 12 data) \<le> length data" "unat (read_u32 12 data) \<le> length other"
    using d o r(2) by metis+
  ultimately show False using assms(4) by linarith
qed

text \<open>A damaged byte, in a state without bytes between the preamble and the body.\<close>

lemma state_body_damaged:
  assumes "state_body data = Inr body" "read_u32 12 data = 32" "length data < 2 ^ 64"
    and i: "i < length data" "b \<noteq> data ! i"
  shows "state_body (data[i := b]) = Inl (- 4)"
proof (rule state_body_rejects, rule notI)
  fix body' assume o: "state_body (data[i := b]) = Inr body'"
  note d = assms(1) [unfolded state_body_Inr assms(2)] and o = o [unfolded state_body_Inr length_list_update]
  note keep = read_update [OF i]
  consider "i < 8" | "8 \<le> i" "i < 12" | "12 \<le> i" "i < 16" | "16 \<le> i" "i < 24" | "24 \<le> i" "i < 28"
    | "28 \<le> i" "i < 32" | "32 \<le> i" by linarith
  then show False
  proof cases
    case 1
    have "take 8 (drop 0 (data[i := b])) \<noteq> take 8 (drop 0 data)"
      using d 1 by (intro window_update i) simp_all
    with d o show False by simp
  next
    case 2
    with keep(1) [of 8] d o show False by simp
  next
    case 3
    let ?n = "unat (read_u32 12 (data[i := b]))"
    have "read_u32 12 (data[i := b]) \<noteq> 32" using keep(1) [of 12] d 3 assms(2) by simp
    then have n: "?n \<noteq> 32" by (auto simp: word_unat_eq_iff)
    have "(of_nat (length data - ?n) :: u64) = of_nat (length data - 32)"
      using keep(4) [of 16] d o 3 by simp
    then have "length data - ?n = length data - 32"
      using assms(3) by (subst (asm) of_nat_u64_inject) simp_all
    moreover have "?n \<le> length data" "32 \<le> length data" using d o by blast+
    ultimately show False using n by linarith
  next
    case 4
    with keep(3) [of 16] keep(2) [of 12] d o assms(2) show False by simp
  next
    case 5
    with keep(1) [of 24] keep(2) [of 12] d o assms(2) show False by simp
  next
    case 6
    with keep(1) [of 28] d o show False by simp
  next
    case 7
    have "drop 32 (data[i := b]) = (drop 32 data)[i - 32 := b]" using 7 by (simp add: drop_update_swap)
    moreover have "crc32 ((drop 32 data)[i - 32 := b]) \<noteq> crc32 (drop 32 data)"
      using i 7 by (intro crc32_update) auto
    ultimately show False
      using keep(2) [of 24] keep(2) [of 12] d o 7 assms(2) by simp
  qed
qed

lemma read_word_bytes:
  fixes v :: u32 and u :: u64
  assumes "length xs = pos"
  shows "read_u32 pos (xs @ word_bytes 4 v @ ys) = v" "read_u64 pos (xs @ word_bytes 8 u @ ys) = u"
  using assms by (simp_all add: read_u32_def read_u64_def bytes_word_bytes)

lemma state_body_image:
  shows "state_body (state_image body) = Inr body" "read_u32 12 (state_image body) = 32"
    "length (state_image body) = 32 + length body"
proof -
  let ?m = STATE_MAGIC and ?a = "word_bytes 4 CONTAINER_WIRE_VERSION" and ?b = "word_bytes 4 (32 :: u32)"
    and ?c = "word_bytes 8 (of_nat (length body) :: u64)" and ?d = "word_bytes 4 (crc32 body)"
    and ?e = "word_bytes 4 (0 :: u32)"
  have m: "length ?m = 8" by (simp add: STATE_MAGIC_def)
  have img: "state_image body = ?m @ ?a @ ?b @ ?c @ ?d @ ?e @ body"
    by (simp add: state_image_def append_u32_def append_u64_def STATE_PREAMBLE_SIZE_def)
  have r: "read_u32 8 (state_image body) = CONTAINER_WIRE_VERSION" "read_u32 12 (state_image body) = 32"
    "read_u64 16 (state_image body) = of_nat (length body)" "read_u32 24 (state_image body) = crc32 body"
    "read_u32 28 (state_image body) = 0"
    unfolding img
    using read_word_bytes(1) [of ?m 8 CONTAINER_WIRE_VERSION] read_word_bytes(1) [of "?m @ ?a" 12 32]
      read_word_bytes(2) [of "?m @ ?a @ ?b" 16 "of_nat (length body)"]
      read_word_bytes(1) [of "?m @ ?a @ ?b @ ?c" 24 "crc32 body"] read_word_bytes(1) [of "?m @ ?a @ ?b @ ?c @ ?d" 28 0]
    by (simp_all add: m)
  show l: "length (state_image body) = 32 + length body" unfolding img by (simp add: m)
  have t: "take 8 (state_image body) = STATE_MAGIC" "drop 32 (state_image body) = body"
    unfolding img by (simp_all add: m)
  show "state_body (state_image body) = Inr body" "read_u32 12 (state_image body) = 32"
    unfolding state_body_Inr r t l by (simp_all add: t)
qed

end
