(* ===== verification/State_Properties.thy ===== *)
theory State_Properties
  imports Nes_System_Facts Console_Properties Container_Facts
begin

text \<open>
  What the saved states of the NES promise: a state brings a machine with the same cartridge
  to the saved one and is accepted only as a whole; and the two checksums of the program agree.
\<close>

section \<open>Samples\<close>

text \<open>A board 003 whose ROM window is mapped, in two machines with different histories.\<close>

definition plain_cartridge :: mapper where
  "plain_cartridge = (new_mapper Mapper003)\<lparr>m_prg_rom := replicate 0x8000 0xEA, m_prg_size := 0x8000,
     m_prg_pages := (\<lambda>i. if 0x80 \<le> i then Some (PrgRom, (unat i - 0x80) * 0x100) else None)\<rparr>"

definition saved_machine :: nes where
  "saved_machine = (build_machine False rom_info0 plain_cartridge new_mixer 7)
     \<lparr>n_cpu := cpu0\<lparr>cpu_pc := 0x8123, cpu_a := 0x42\<rparr>\<rparr>"

definition other_machine :: nes where
  "other_machine = build_machine False rom_info0 plain_cartridge new_mixer 0"

definition system_of :: "nes \<Rightarrow> nes_system" where
  "system_of s = \<lparr>sy_console = Running s, sy_palette = DEFAULT_NES_PALETTE, sy_rgba = [], sy_identity = 1\<rparr>"

lemma machine_parts:
  "n_ppu saved_machine = new_ppu" "n_ppu other_machine = new_ppu" "n_apu saved_machine = new_apu"
  "n_apu other_machine = new_apu" "n_mixer saved_machine = new_mixer" "n_mixer other_machine = new_mixer"
  "n_ctl saved_machine = new_control False" "n_ctl other_machine = new_control False"
  "n_mapper saved_machine = plain_cartridge" "n_mapper other_machine = plain_cartridge"
  "n_rom saved_machine = rom_info0" "n_rom other_machine = rom_info0" "n_mem saved_machine = n_mem other_machine"
  "cpu_master_clock (n_cpu saved_machine) = 0"
  by (simp_all add: saved_machine_def other_machine_def build_machine_def rom_info0_def cpu0_def Let_def)

lemma plain_cartridge_storable: "cartridge_storable plain_cartridge" "same_cartridge plain_cartridge plain_cartridge"
proof -
  have "(unat (i :: u8) - 0x80) * 0x100 < 0x8000" for i
    using u8_unat_less [of i] by linarith
  moreover have "length (region r plain_cartridge) < 2 ^ 32" for r
    by (cases r) (simp_all add: plain_cartridge_def new_mapper_def)
  ultimately show "cartridge_storable plain_cartridge"
    by (auto simp: cartridge_storable_def placed_def buffer_size_def plain_cartridge_def new_mapper_def
        split: if_splits)
  show "same_cartridge plain_cartridge plain_cartridge"
    by (auto simp: same_cartridge_def plain_cartridge_def new_mapper_def)
qed

lemma new_ppu_storable: "ppu_storable new_ppu" "same_beyond new_ppu new_ppu"
  using new_ppu_ok
  by (simp_all add: ppu_storable_def same_beyond_def)
    (simp add: new_ppu_def ppu_reset_def Let_def update_minimum_draw_cycles_def)

lemma new_apu_storable: "apu_storable new_apu" "ring_ok new_apu"
proof -
  have "ring_ok new_apu" using new_apu_ok [OF new_mixer_ok] by (simp add: apu_ok_def)
  moreover have "fc_ok (ap_frame_counter new_apu)" using new_apu_ok [OF new_mixer_ok] by (simp add: apu_ok_def running_def)
  ultimately show "apu_storable new_apu" "ring_ok new_apu"
    by (simp_all add: apu_storable_def fc_storable_def)
      (auto simp: new_apu_def apu_reset_def fc_reset_def new_frame_counter_def frame_storable_def empty_frame_def Let_def)
qed

lemma new_mixer_storable: "mixer_storable new_mixer"
  "mixer_at MAX_SAMPLES_PER_FRAME MAX_SAMPLES_PER_FRAME new_mixer" "same_channels new_mixer new_mixer"
proof -
  show m: "mixer_at MAX_SAMPLES_PER_FRAME MAX_SAMPLES_PER_FRAME new_mixer"
    using new_mixer_ok by (auto simp: mixer_ok_def mixer_at_def)
  then show "mixer_storable new_mixer"
    by (simp add: mixer_storable_def) (simp add: new_mixer_def mixer_reset_def)
  show "same_channels new_mixer new_mixer" by (simp add: same_channels_def)
qed

lemma machine_sample: "machine_storable saved_machine" "same_machine saved_machine other_machine"
proof -
  have "control_storable (new_control False)" "same_ports (new_control False) (new_control False)"
    by (simp_all add: control_storable_def new_control_def control_ok_def same_ports_def)
  moreover have "fc_ok (ap_frame_counter new_apu)" "length (ap_audio_ring new_apu) = MAX_AUDIO_FRAMES" "ppu_ok new_ppu"
    using new_apu_storable new_ppu_ok by (simp_all add: apu_storable_def fc_storable_def ring_ok_def)
  ultimately show "machine_storable saved_machine" "same_machine saved_machine other_machine"
    using new_ppu_storable new_apu_storable(1) new_mixer_storable plain_cartridge_storable
    by (simp_all add: machine_storable_def same_machine_def machine_parts)
qed

lemma system_sample:
  "has_state (system_of saved_machine)" "has_state (system_of other_machine)"
  "length (sy_palette (system_of s)) = 64" "sy_console (system_of s) = Running s"
proof -
  have "is_supported 0" by (simp add: is_supported_def supported_mappers_def)
  then show "has_state (system_of saved_machine)" "has_state (system_of other_machine)"
    by (simp_all add: has_state_def system_of_def machine_parts) (simp_all add: rom_info0_def)
qed (simp_all add: system_of_def)

lemmas saved_sample = saved_state_loads [OF system_sample(4,1,3) machine_sample(1) system_sample(4,2,3) machine_sample(2)]

section \<open>Properties\<close>

text \<open>
  C3: a saved NES state restores the machine. Two systems that can be saved (content is loaded, its mapper is supported), with
  palettes of 64 colours, run the same cartridge: the same ROMs and description, RAMs of the same sizes, the same board, kind of controllers and address map.
  The state of the first is one that the machine keeps: the PPU, the frame counter, the ring of audio frames,
  the mixer with its resampler and the controllers satisfy their invariants (the PPU's excludes a palette mask above 0x3F, which no register
  write makes); the integers that the model keeps unbounded fit their C++ members; each page pointer of the cartridge is null or points into
  its buffer, and its CHR RAM is not there yet or of the board's size. The second system may have run anything, with the same invariants of its PPU,
  frame counter, ring, mixer and controllers. Then what the first saves the second loads with
  result 0: its machine is then that of the first in every component, the samples of the
  output buffer behind the last frame excepted, its palette is that of the first, and its
  picture, converted anew, is opaque and of full size. Nothing else of it changes. (Where the model has functions for arrays, the values
  outside the arrays, which stand for nothing, are taken to be equal.)
\<close>

theorem machine_state_round_trip:
  assumes "sy_console sys = Running s" "has_state sys" "length (sy_palette sys) = 64" "machine_storable s"
    and "sy_console sys' = Running t" "has_state sys'" "length (sy_palette sys') = 64" "same_machine s t"
  shows "\<exists>data rgba n. nes_save_state sys = Some (Some data) \<and>
    nes_load_state data sys' = Some (0, sys'\<lparr>sy_palette := sy_palette sys, sy_rgba := rgba,
      sy_console := Running (s\<lparr>n_mixer := (n_mixer s)\<lparr>mx_output_buffer :=
        take n (mx_output_buffer (n_mixer s)) @ drop n (mx_output_buffer (n_mixer t))\<rparr>\<rparr>)\<rparr>) \<and>
    n = mx_sample_count (n_mixer s) * 2 \<and> opaque rgba"
proof -
  obtain data rgba where d: "nes_save_state sys = Some (Some data)"
    "nes_load_state data sys' = Some (0, sys'\<lparr>sy_console := Running (machine_loaded s t), sy_palette := sy_palette sys,
      sy_rgba := rgba\<rparr>)" "opaque rgba"
    using saved_state_loads [OF assms] by blast
  show ?thesis
    by (rule exI [of _ data], rule exI [of _ rgba], rule exI [of _ "mx_sample_count (n_mixer s) * 2"])
      (simp add: d machine_loaded_def mixer_loaded_def Let_def)
qed

theorem machine_state_round_trip_witness:
  "\<exists>data rgba n. nes_save_state (system_of saved_machine) = Some (Some data) \<and>
    nes_load_state data (system_of other_machine) = Some (0, (system_of other_machine)\<lparr>sy_palette := DEFAULT_NES_PALETTE,
      sy_rgba := rgba, sy_console := Running (saved_machine\<lparr>n_mixer := (n_mixer saved_machine)\<lparr>mx_output_buffer :=
        take n (mx_output_buffer (n_mixer saved_machine)) @ drop n (mx_output_buffer (n_mixer other_machine))\<rparr>\<rparr>)\<rparr>) \<and>
    n = mx_sample_count (n_mixer saved_machine) * 2 \<and> opaque rgba"
  using machine_state_round_trip [OF system_sample(4,1,3) machine_sample(1) system_sample(4,2,3) machine_sample(2)]
  by (simp add: system_of_def)

text \<open>
  C38: a state is accepted only as a whole. When a system takes some data, it returns -1 for the same
  data with anything appended, and for no proper prefix of it does it return 0: the reader notices
  that the input ends, whatever member it is reading.
\<close>

theorem state_accepted_whole:
  assumes "nes_load_state data sys = Some (0, sys')"
  shows "(extra \<noteq> [] \<longrightarrow> (\<exists>t. nes_load_state (data @ extra) sys = Some (- 1, t))) \<and>
    (\<forall>n r t. n < length data \<and> nes_load_state (take n data) sys = Some (r, t) \<longrightarrow> r = - 1)"
proof (intro conjI impI allI)
  show "\<exists>t. nes_load_state (data @ extra) sys = Some (- 1, t)" if "extra \<noteq> []"
    using state_length_matters(1) [OF assms that] .
  show "r = - 1" if "n < length data \<and> nes_load_state (take n data) sys = Some (r, t)" for n r t
    using state_length_matters(2) [OF assms, of "take n data" "drop n data"] that by simp
qed

theorem state_accepted_whole_witness:
  "\<exists>data. nes_save_state (system_of saved_machine) = Some (Some data) \<and>
    (\<exists>t. nes_load_state (data @ [0]) (system_of other_machine) = Some (- 1, t)) \<and>
    \<not> (\<exists>t. nes_load_state (butlast data) (system_of other_machine) = Some (0, t))"
proof -
  obtain data u where d: "nes_save_state (system_of saved_machine) = Some (Some data)"
    "nes_load_state data (system_of other_machine) = Some (0, u)"
    using saved_sample by blast
  have "data \<noteq> []"
    using d(2) by (auto simp: nes_load_state_def sync_word_def loading_stream_def get_remaining_def stream_fail_def split: if_splits)
  then have "length data - 1 < length data" by (cases data) simp_all
  with state_accepted_whole [OF d(2), of "[0]"] d(1) show ?thesis
    by (fastforce simp: butlast_conv_take)
qed

text \<open>
  C40: the two checksums of the program agree: the one over the body of a saved state and the one that
  identifies a ROM in the database are the same function of the bytes.
\<close>

theorem checksums_agree: "crc32 data = crc32_update 0 data"
proof -
  have "crc_byte c b = crc32_byte b c" for c b
    by (simp add: crc_byte_def crc32_byte_def crc_bit_def [abs_def] crc32_bit_def [abs_def])
  then have "foldl crc_byte c data = fold crc32_byte data c" for c
    by (induction data arbitrary: c) simp_all
  moreover have "(0xFFFFFFFF :: u32) = NOT 0" by simp
  ultimately show ?thesis unfolding crc32_def crc32_update_def by (simp only:)
qed

section \<open>What loading does not check\<close>

text \<open>
  A state is not checked against the invariant of the machine: with a palette mask above 0x3F, which
  no register write produces, a pixel selects an entry behind the 64 of the palette tables.
\<close>

lemma unchecked_palette_mask: "convert_pixel info palette 0x7F bits 0x40 = None"
proof -
  obtain lut colours where c: "ppu_colours info = (lut, colours)" by (cases "ppu_colours info")
  then have "length lut = 64" using colour_tables(1) [of info lut] by simp
  then show ?thesis by (simp add: convert_pixel_def c rd_def)
qed

end
