(* ===== verification/Test_System.thy ===== *)
theory Test_System
  imports State_Stream
begin

text \<open>
  \<^verbatim>\<open>TestSystem\<close> (\<^verbatim>\<open>src/systems/test/test_system.cpp\<close>), the system behind the tests of the API. Its
  picture is a wave computed with \<^verbatim>\<open>sin\<close> from the tick alone: the parameter \<open>wave\<close>.
\<close>

record test_system =
  ts_tick :: int
  ts_framebuffer :: "u8 list"

text \<open>The picture is a sum of sines in double precision: the function from the tick to the pixels is a parameter.\<close>

definition generate_wave :: "(int \<Rightarrow> u8 list) \<Rightarrow> test_system \<Rightarrow> test_system" where
  "generate_wave wave t = t\<lparr>ts_framebuffer := wave (ts_tick t)\<rparr>"

definition new_test_system :: "(int \<Rightarrow> u8 list) \<Rightarrow> test_system" where
  "new_test_system wave = generate_wave wave \<lparr>ts_tick = 0, ts_framebuffer = replicate (256 * 240 * 4) 0\<rparr>"

definition test_save_state :: "test_system \<Rightarrow> u8 list option" where
  "test_save_state t = do {
     (s, v) \<leftarrow> sync_word (saving_stream, 1 :: u32);
     (s, tick) \<leftarrow> sync_int32 (s, ts_tick t);
     Some (ss_output s) }"

definition test_load_state :: "(int \<Rightarrow> u8 list) \<Rightarrow> u8 list \<Rightarrow> test_system \<Rightarrow> (int \<times> test_system) option" where
  "test_load_state wave data t = do {
     (s, version) \<leftarrow> sync_word (loading_stream data, 0 :: u32);
     (s, tick) \<leftarrow> sync_int32 (s, 0);
     if ss_error s \<or> get_remaining s \<noteq> 0 \<or> version \<noteq> 1 \<or> tick < 0 then Some (- 1, t)
     else Some (0, generate_wave wave (t\<lparr>ts_tick := tick\<rparr>)) }"

text \<open>\<open>None\<close>: the tick overflows.\<close>

definition test_step :: "(int \<Rightarrow> u8 list) \<Rightarrow> test_system \<Rightarrow> (int \<times> test_system) option" where
  "test_step wave t =
     (if ts_tick t + 1 \<ge> 2 ^ 31 then None else Some (0, generate_wave wave (t\<lparr>ts_tick := ts_tick t + 1\<rparr>)))"

end
