(* ===== verification/Ear6_Api.thy ===== *)
theory Ear6_Api
  imports Nes_System Test_System State_Container
begin

text \<open>
  The public interface (\<^verbatim>\<open>src/core/ear6.cpp\<close>): a session owns one system, the content it was
  loaded with and the registered callbacks.

  A session is never the null pointer here; with the null pointer every call returns -1, 0
  or null at once. The \<^verbatim>\<open>catch (...)\<close> clauses, which turn an exception of the allocator into -2,
  are left out. The callbacks are the environment's: a step yields the list of the calls.
\<close>

section \<open>Systems\<close>

datatype system_type = SYSTEM_TEST | SYSTEM_NES | SYSTEM_FLASH

fun system_code :: "system_type \<Rightarrow> u32" where
  "system_code SYSTEM_TEST = 0"
| "system_code SYSTEM_NES = 1"
| "system_code SYSTEM_FLASH = 2"

datatype system = TestSys test_system | NesSys nes_system

text \<open>
  What the environment supplies: the audio arithmetic, whether the input topology variable is set, the
  text of the ROM database, the protocol buffer library and the picture of the test system.
\<close>

record ear6_env =
  ev_audio :: audio_env
  ev_topology :: bool
  ev_db :: string
  ev_codec :: codec
  ev_wave :: "int \<Rightarrow> u8 list"

definition create_system :: "ear6_env \<Rightarrow> system_type \<Rightarrow> system option" where
  "create_system env t = (case t of
     SYSTEM_TEST \<Rightarrow> Some (TestSys (new_test_system (ev_wave env)))
   | SYSTEM_NES \<Rightarrow> map_option NesSys new_nes_system
   | SYSTEM_FLASH \<Rightarrow> None)"

text \<open>The virtual functions of \<^verbatim>\<open>System\<close>.\<close>

fun system_load :: "ear6_env \<Rightarrow> u8 list \<Rightarrow> system \<Rightarrow> (int \<times> system) option" where
  "system_load env data (TestSys t) = Some (0, TestSys t)"
| "system_load env data (NesSys s) =
     map_option (\<lambda>(r, s). (r, NesSys s)) (nes_load (ev_audio env) (ev_topology env) (ev_db env) data s)"

fun system_save_state :: "system \<Rightarrow> u8 list option option" where
  "system_save_state (TestSys t) = map_option Some (test_save_state t)"
| "system_save_state (NesSys s) = nes_save_state s"

fun system_load_state :: "ear6_env \<Rightarrow> u8 list \<Rightarrow> system \<Rightarrow> (int \<times> system) option" where
  "system_load_state env data (TestSys t) = map_option (\<lambda>(r, t). (r, TestSys t)) (test_load_state (ev_wave env) data t)"
| "system_load_state env data (NesSys s) = map_option (\<lambda>(r, s). (r, NesSys s)) (nes_load_state data s)"

fun system_step :: "ear6_env \<Rightarrow> system \<Rightarrow> (int \<times> system) option" where
  "system_step env (TestSys t) = map_option (\<lambda>(r, t). (r, TestSys t)) (test_step (ev_wave env) t)"
| "system_step env (NesSys s) = map_option (\<lambda>(r, s). (r, NesSys s)) (nes_step (ev_audio env) s)"

fun system_framebuffer :: "system \<Rightarrow> u8 list" where
  "system_framebuffer (TestSys t) = ts_framebuffer t"
| "system_framebuffer (NesSys s) = nes_get_framebuffer s"

definition FRAME_WIDTH :: int where "FRAME_WIDTH = 256"

definition FRAME_HEIGHT :: int where "FRAME_HEIGHT = 240"

fun system_audiobuffer :: "system \<Rightarrow> i16 list option option" where
  "system_audiobuffer (TestSys t) = Some None"
| "system_audiobuffer (NesSys s) = console_audio_buffer (sy_console s)"

fun system_audio_samples :: "system \<Rightarrow> nat option" where
  "system_audio_samples (TestSys t) = Some 0"
| "system_audio_samples (NesSys s) = console_audio_samples (sy_console s)"

fun system_consume_audio :: "system \<Rightarrow> system" where
  "system_consume_audio (TestSys t) = TestSys t"
| "system_consume_audio (NesSys s) = NesSys (on_console console_consume_audio s)"

section \<open>Sessions\<close>

record ear6 =
  ex_system_type :: system_type
  ex_system :: system
  ex_frame_cb :: bool
  ex_audio_cb :: bool
  ex_has_content :: bool
  ex_content :: "u8 list"
  ex_content_name_hint :: "u8 list"

definition ear6_create :: "ear6_env \<Rightarrow> system_type \<Rightarrow> ear6 option" where
  "ear6_create env t = do {
     sys \<leftarrow> create_system env t;
     Some \<lparr>ex_system_type = t, ex_system = sys, ex_frame_cb = False, ex_audio_cb = False,
           ex_has_content = False, ex_content = [], ex_content_name_hint = []\<rparr> }"

section \<open>Content\<close>

text \<open>
  \<open>data\<close> is \<open>None\<close> for the null pointer, and holds at least \<open>size\<close> bytes otherwise. The system
  keeps what the load did to it even when the load failed.
\<close>

definition load_content :: "ear6_env \<Rightarrow> u8 list option \<Rightarrow> int \<Rightarrow> u8 list option \<Rightarrow> ear6 \<Rightarrow> (int \<times> ear6) option" where
  "load_content env data size_arg hint ctx =
     (if size_arg < 0 \<or> (data = None \<and> size_arg > 0) then Some (- 1, ctx)
      else
        let bytes = (case data of None \<Rightarrow> [] | Some bs \<Rightarrow> bs) in
        if length bytes < nat size_arg then None
        else do {
          let content = take (nat size_arg) bytes;
          (result, sys) \<leftarrow> system_load env content (ex_system ctx);
          let ctx = ctx\<lparr>ex_system := sys\<rparr>;
          if result \<noteq> 0 then Some (result, ctx)
          else Some (0, ctx\<lparr>ex_content := content, ex_content_name_hint := normalize_content_name_hint hint,
                            ex_has_content := True\<rparr>) })"

definition ear6_load_from_memory ::
  "ear6_env \<Rightarrow> u8 list option \<Rightarrow> int \<Rightarrow> u8 list option \<Rightarrow> ear6 \<Rightarrow> (int \<times> ear6) option" where
  "ear6_load_from_memory env data size_arg hint ctx = load_content env data size_arg hint ctx"

text \<open>\<open>file\<close>: what reading the file at \<open>path\<close> gives, \<open>None\<close> when it cannot be opened or read.\<close>

definition ear6_load_from_file :: "ear6_env \<Rightarrow> u8 list option \<Rightarrow> u8 list option \<Rightarrow> ear6 \<Rightarrow> (int \<times> ear6) option" where
  "ear6_load_from_file env file path ctx = (case path of
     None \<Rightarrow> Some (- 1, ctx)
   | Some p \<Rightarrow> (case file of
       None \<Rightarrow> Some (- 3, ctx)
     | Some bytes \<Rightarrow> if length bytes > 2 ^ 31 - 1 then Some (- 3, ctx)
         else load_content env (Some bytes) (int (length bytes)) (Some p) ctx))"

section \<open>Saved states\<close>

definition state_container :: "ear6 \<Rightarrow> u8 list \<Rightarrow> container" where
  "state_container ctx system_state =
     \<lparr>sc_system_type = system_code (ex_system_type ctx),
      sc_content_identity = container_identity (ex_content ctx),
      sc_content_name = (if ex_content_name_hint ctx = [] then None else Some (ex_content_name_hint ctx)),
      sc_content = ex_content ctx, sc_system_state = system_state,
      sc_preview = state_preview (system_framebuffer (ex_system ctx)) FRAME_WIDTH FRAME_HEIGHT\<rparr>"

definition build_state :: "ear6_env \<Rightarrow> ear6 \<Rightarrow> (int + u8 list) option" where
  "build_state env ctx = do {
     saved \<leftarrow> system_save_state (ex_system ctx);
     case saved of
       None \<Rightarrow> Some (Inl (- 1))
     | Some system_state \<Rightarrow> (case cd_encode (ev_codec env) (state_container ctx system_state) of
         None \<Rightarrow> Some (Inl (- 2))
       | Some body \<Rightarrow> Some (Inr (state_image body))) }"

text \<open>
  The return value, the stored size, and the bytes written to the buffer. \<open>capacity\<close> is \<open>None\<close> when the
  buffer is the null pointer, \<open>sized\<close> whether the pointer to the size is not null.
\<close>

definition ear6_save_state_to_memory ::
  "ear6_env \<Rightarrow> nat option \<Rightarrow> bool \<Rightarrow> ear6 \<Rightarrow> (int \<times> nat option \<times> u8 list option) option" where
  "ear6_save_state_to_memory env capacity sized ctx =
     (if \<not> sized then Some (- 1, None, None)
      else do {
        built \<leftarrow> build_state env ctx;
        case built of
          Inl e \<Rightarrow> Some (e, None, None)
        | Inr state \<Rightarrow> (case capacity of
            None \<Rightarrow> Some (0, Some (length state), None)
          | Some n \<Rightarrow> if n < length state then Some (- 4, Some (length state), None)
              else Some (0, Some (length state), Some state)) })"

text \<open>
  The state goes into a new system, which replaces the old one only when all went well.
\<close>

definition ear6_load_state_from_memory :: "ear6_env \<Rightarrow> u8 list option \<Rightarrow> ear6 \<Rightarrow> (int \<times> ear6) option" where
  "ear6_load_state_from_memory env data ctx = (case data of
     None \<Rightarrow> Some (- 1, ctx)
   | Some bytes \<Rightarrow> (case parse_state (ev_codec env) (Some bytes) of
       Inl e \<Rightarrow> Some (e, ctx)
     | Inr parsed \<Rightarrow>
         if ps_system_type parsed \<noteq> system_code (ex_system_type ctx) then Some (- 4, ctx)
         else do {
           candidate \<leftarrow> create_system env (ex_system_type ctx);
           (result, candidate) \<leftarrow> system_load env (ps_content parsed) candidate;
           if result \<noteq> 0 then Some (result, ctx)
           else do {
             (result, candidate) \<leftarrow> system_load_state env (ps_system_state parsed) candidate;
             if result \<noteq> 0 then Some (result, ctx)
             else Some (0, ctx\<lparr>ex_system := candidate, ex_has_content := True, ex_content := ps_content parsed,
                               ex_content_name_hint := ps_name_hint parsed\<rparr>) } }))"

record ear6_state_info =
  si_container_wire_version :: u32
  si_system_type :: u32
  si_content_identity :: u64
  si_content_size :: nat
  si_content_name_hint :: "u8 list option"
  si_preview :: "(u8 list \<times> u32 \<times> u32) option"

definition ear6_get_state_info :: "ear6_env \<Rightarrow> u8 list option \<Rightarrow> int + ear6_state_info" where
  "ear6_get_state_info env data = (case parse_state (ev_codec env) data of
     Inl e \<Rightarrow> Inl e
   | Inr parsed \<Rightarrow> Inr
       \<lparr>si_container_wire_version = ps_container_wire_version parsed, si_system_type = ps_system_type parsed,
        si_content_identity = ps_content_identity parsed, si_content_size = length (ps_content parsed),
        si_content_name_hint = (if length (ps_name_hint parsed) > 0 then Some (ps_name_hint parsed) else None),
        si_preview = ps_preview parsed\<rparr>)"

section \<open>Running\<close>

datatype callback = FrameCallback "u8 list" int int | AudioCallback "i16 list option" nat

definition ear6_set_frame_callback :: "bool \<Rightarrow> ear6 \<Rightarrow> ear6" where
  "ear6_set_frame_callback cb ctx = ctx\<lparr>ex_frame_cb := cb\<rparr>"

definition ear6_set_audio_callback :: "bool \<Rightarrow> ear6 \<Rightarrow> ear6" where
  "ear6_set_audio_callback cb ctx = ctx\<lparr>ex_audio_cb := cb\<rparr>"

definition frame_calls :: "ear6 \<Rightarrow> callback list" where
  "frame_calls ctx =
     (if ex_frame_cb ctx then [FrameCallback (system_framebuffer (ex_system ctx)) FRAME_WIDTH FRAME_HEIGHT] else [])"

definition audio_calls :: "ear6 \<Rightarrow> (callback list \<times> ear6) option" where
  "audio_calls ctx =
     (if ex_audio_cb ctx then do {
        n \<leftarrow> system_audio_samples (ex_system ctx);
        if n > 0 then do {
          buf \<leftarrow> system_audiobuffer (ex_system ctx);
          Some ([AudioCallback buf n], ctx\<lparr>ex_system := system_consume_audio (ex_system ctx)\<rparr>) }
        else Some ([], ctx) }
      else Some ([], ctx))"

definition ear6_step :: "ear6_env \<Rightarrow> ear6 \<Rightarrow> (int \<times> callback list \<times> ear6) option" where
  "ear6_step env ctx = do {
     (result, sys) \<leftarrow> system_step env (ex_system ctx);
     let ctx = ctx\<lparr>ex_system := sys\<rparr>;
     if result = 0 then do {
       (calls, ctx') \<leftarrow> audio_calls ctx;
       Some (0, frame_calls ctx @ calls, ctx') }
     else Some (result, [], ctx) }"

section \<open>The NES calls and the getters\<close>

text \<open>\<open>None\<close>: the type of the session is not that of its system (the cast would be wrong).\<close>

definition on_nes :: "(nes_system \<Rightarrow> nes_system option) \<Rightarrow> ear6 \<Rightarrow> (int \<times> ear6) option" where
  "on_nes f ctx =
     (if ex_system_type ctx \<noteq> SYSTEM_NES then Some (- 1, ctx)
      else case ex_system ctx of
        NesSys s \<Rightarrow> map_option (\<lambda>s. (0, ctx\<lparr>ex_system := NesSys s\<rparr>)) (f s)
      | TestSys t \<Rightarrow> None)"

definition ear6_nes_set_palette :: "u32 list \<Rightarrow> ear6 \<Rightarrow> (int \<times> ear6) option" where
  "ear6_nes_set_palette palette = on_nes (set_palette palette)"

definition ear6_nes_set_button_state :: "int \<Rightarrow> int \<Rightarrow> ear6 \<Rightarrow> (int \<times> ear6) option" where
  "ear6_nes_set_button_state button pressed = on_nes (\<lambda>s. do {
     con \<leftarrow> console_button 0 button (pressed \<noteq> 0) (sy_console s);
     Some (s\<lparr>sy_console := con\<rparr>) })"

definition ear6_nes_clear_input :: "ear6 \<Rightarrow> (int \<times> ear6) option" where
  "ear6_nes_clear_input = on_nes (\<lambda>s. Some (on_console console_clear_input s))"

definition ear6_get_framebuffer :: "ear6 \<Rightarrow> u8 list" where
  "ear6_get_framebuffer ctx = system_framebuffer (ex_system ctx)"

definition ear6_get_frame_width :: "ear6 \<Rightarrow> int" where
  "ear6_get_frame_width ctx = FRAME_WIDTH"

definition ear6_get_frame_height :: "ear6 \<Rightarrow> int" where
  "ear6_get_frame_height ctx = FRAME_HEIGHT"

definition ear6_get_audiobuffer :: "ear6 \<Rightarrow> i16 list option option" where
  "ear6_get_audiobuffer ctx = system_audiobuffer (ex_system ctx)"

definition ear6_get_audio_num_samples :: "ear6 \<Rightarrow> nat option" where
  "ear6_get_audio_num_samples ctx = system_audio_samples (ex_system ctx)"

definition ear6_consume_audio :: "ear6 \<Rightarrow> ear6" where
  "ear6_consume_audio ctx = ctx\<lparr>ex_system := system_consume_audio (ex_system ctx)\<rparr>"

end
