(* ===== verification/Session_Facts.thy ===== *)
theory Session_Facts
  imports Ear6_Api Nes_System_Facts Container_Facts Apu_Queue
begin

text \<open>
  Correctness of the sessions: the invariant every call keeps, and what a saved session
  promises. The codec is a parameter; \<open>codec_ok\<close> says that its decoder reads what its encoder
  writes.
\<close>

section \<open>The invariant\<close>

fun system_type_ok :: "system_type \<Rightarrow> system \<Rightarrow> bool" where
  "system_type_ok t (TestSys s) \<longleftrightarrow> t = SYSTEM_TEST"
| "system_type_ok t (NesSys s) \<longleftrightarrow> t = SYSTEM_NES \<and> system_ok s"

definition session_ok :: "ear6 \<Rightarrow> bool" where
  "session_ok ctx \<longleftrightarrow> system_type_ok (ex_system_type ctx) (ex_system ctx) \<and>
     (ex_has_content ctx \<longrightarrow> (\<forall>s. ex_system ctx = NesSys s \<longrightarrow>
        (\<exists>m. sy_console s = Running m) \<and> sy_identity s = content_identity (ex_content ctx)))"

lemma container_identity_eq: "container_identity data = content_identity data"
  by (simp add: container_identity_def content_identity_def fnv_step_def [abs_def])

lemma created_ok:
  assumes "ear6_create env t = Some ctx"
  shows "session_ok ctx \<and> \<not> ex_has_content ctx"
proof -
  obtain sys where sys: "new_nes_system = Some sys" "system_ok sys" using new_system by blast
  show ?thesis using assms by (cases t) (auto simp: ear6_create_def create_system_def session_ok_def sys)
qed

lemma created: "t \<noteq> SYSTEM_FLASH \<Longrightarrow> \<exists>ctx. ear6_create env t = Some ctx"
  using new_system by (cases t) (auto simp: ear6_create_def create_system_def bind_eq_Some_conv)

section \<open>The calls of a session\<close>

datatype session_call =
  CallStep
| CallButton int int
| CallClearInput
| CallSetPalette "u32 list"
| CallConsumeAudio
| CallFrameCallback bool
| CallAudioCallback bool

text \<open>The session and the callbacks it made.\<close>

fun session_step :: "ear6_env \<Rightarrow> session_call \<Rightarrow> ear6 \<Rightarrow> (callback list \<times> ear6) option" where
  "session_step env CallStep ctx = map_option snd (ear6_step env ctx)"
| "session_step env (CallButton b p) ctx = map_option (\<lambda>(r, c). ([], c)) (ear6_nes_set_button_state b p ctx)"
| "session_step env CallClearInput ctx = map_option (\<lambda>(r, c). ([], c)) (ear6_nes_clear_input ctx)"
| "session_step env (CallSetPalette p) ctx = map_option (\<lambda>(r, c). ([], c)) (ear6_nes_set_palette p ctx)"
| "session_step env CallConsumeAudio ctx = Some ([], ear6_consume_audio ctx)"
| "session_step env (CallFrameCallback b) ctx = Some ([], ear6_set_frame_callback b ctx)"
| "session_step env (CallAudioCallback b) ctx = Some ([], ear6_set_audio_callback b ctx)"

fun session_run :: "ear6_env \<Rightarrow> session_call list \<Rightarrow> ear6 \<Rightarrow> (callback list \<times> ear6) option" where
  "session_run env [] ctx = Some ([], ctx)"
| "session_run env (c # cs) ctx = do {
     (out, ctx) \<leftarrow> session_step env c ctx;
     (outs, ctx) \<leftarrow> session_run env cs ctx;
     Some (out @ outs, ctx) }"

text \<open>What the C types of the arguments allow: a button below 32, a palette of 64 colours.\<close>

fun call_ok :: "session_call \<Rightarrow> bool" where
  "call_ok (CallButton b p) \<longleftrightarrow> 0 \<le> b \<and> b < 32"
| "call_ok (CallSetPalette p) \<longleftrightarrow> length p = 64"
| "call_ok _ \<longleftrightarrow> True"

fun callback_ok :: "callback \<Rightarrow> bool" where
  "callback_ok (FrameCallback picture w h) \<longleftrightarrow> w = 256 \<and> h = 240 \<and> opaque picture"
| "callback_ok (AudioCallback buf n) \<longleftrightarrow> (\<exists>samples. buf = Some samples) \<and> n > 0"

text \<open>A NES session with content.\<close>

definition playing :: "ear6 \<Rightarrow> bool" where
  "playing ctx \<longleftrightarrow> session_ok ctx \<and> ex_system_type ctx = SYSTEM_NES \<and> ex_has_content ctx"

lemma playing_iff:
  "playing ctx \<longleftrightarrow> ex_system_type ctx = SYSTEM_NES \<and> ex_has_content ctx \<and> (\<exists>s m. ex_system ctx = NesSys s \<and>
     system_ok s \<and> sy_console s = Running m \<and> sy_identity s = content_identity (ex_content ctx))"
  by (cases "ex_system ctx") (auto simp: playing_def session_ok_def)

lemma clock_consume: "clock_ok m \<Longrightarrow> clock_ok (m\<lparr>n_apu := consume_audio (n_apu m)\<rparr>)"
  using consume_audio_ok [of "n_apu m" "n_mixer m"]
  by (simp add: clock_ok_def nes_ok_def in_step_def ppu_bus_of_def)

lemma clock_control: "clock_ok m \<Longrightarrow> control_ok c \<Longrightarrow> clock_ok (m\<lparr>n_ctl := c\<rparr>)"
  by (simp add: clock_ok_def nes_ok_def in_step_def ppu_bus_of_def)

lemma clock_parts: "clock_ok m \<Longrightarrow> control_ok (n_ctl m) \<and> ring_ok (n_apu m)"
  by (simp add: clock_ok_def nes_ok_def apu_ok_def)

lemma consume_playing: "playing ctx \<Longrightarrow> playing (ear6_consume_audio ctx)"
  by (auto simp: playing_iff ear6_consume_audio_def on_console_def system_ok_def clock_consume)

lemma audio_calls_ok:
  assumes "playing ctx"
  shows "ok (audio_calls ctx) (\<lambda>(calls, t). playing t \<and> (\<forall>c \<in> set calls. callback_ok c) \<and>
    ear6_get_framebuffer t = ear6_get_framebuffer ctx)"
proof -
  obtain s m where s: "ex_system ctx = NesSys s" "sy_console s = Running m" "clock_ok m"
    using assms by (auto simp: playing_iff system_ok_def)
  have "ring_ok (n_apu m)" using clock_parts [OF s(3)] by simp
  then have "ok (rd (ap_audio_ring (n_apu m)) (ap_read_index (n_apu m))) (\<lambda>_. True)"
    by (simp add: ring_ok_def)
  then obtain f where "rd (ap_audio_ring (n_apu m)) (ap_read_index (n_apu m)) = Some f" by (auto simp: ok_iff)
  with s assms consume_playing [OF assms] show ?thesis
    by (auto simp: audio_calls_def get_samples_def get_buffer_def ear6_consume_audio_def ear6_get_framebuffer_def
        on_console_def nes_get_framebuffer_def)
qed

lemma session_step_ok:
  assumes p: "playing ctx" and c: "call_ok call"
  shows "ok (session_step env call ctx) (\<lambda>(out, t). playing t \<and> (\<forall>c \<in> set out. callback_ok c) \<and>
    length (ear6_get_framebuffer t) = 256 * 240 * 4 \<and> ex_content t = ex_content ctx)"
proof -
  obtain s m where s: "ex_system ctx = NesSys s" "ex_system_type ctx = SYSTEM_NES" "ex_has_content ctx"
    "sy_console s = Running m" "system_ok s" "clock_ok m" "sy_identity s = content_identity (ex_content ctx)"
    using p by (auto simp: playing_iff system_ok_def)
  have size: "length (ear6_get_framebuffer t) = 256 * 240 * 4" if "playing t" for t
    using that by (auto simp: playing_iff ear6_get_framebuffer_def nes_get_framebuffer_def system_ok_def)
  show ?thesis
  proof (cases call)
    case CallStep
    obtain u where u: "nes_step (ev_audio env) s = Some (0, u)" "system_ok u" "opaque (sy_rgba u)"
      "sy_identity u = sy_identity s" "\<exists>m. sy_console u = Running m"
      using nes_step_ok [OF s(5,4), of "ev_audio env"] by (auto simp: ok_iff)
    let ?ctx = "ctx\<lparr>ex_system := NesSys u\<rparr>"
    have "playing ?ctx" using s u by (auto simp: playing_iff)
    from audio_calls_ok [OF this] obtain calls t where t: "audio_calls ?ctx = Some (calls, t)" "playing t"
      "\<forall>c \<in> set calls. callback_ok c" by (auto simp: ok_iff)
    have "ex_content t = ex_content ctx"
      using t(1) by (auto simp: audio_calls_def bind_eq_Some_conv split: if_splits)
    moreover have "\<forall>c \<in> set (frame_calls ?ctx). callback_ok c"
      using u(3) by (auto simp: frame_calls_def FRAME_WIDTH_def FRAME_HEIGHT_def nes_get_framebuffer_def)
    ultimately show ?thesis
      using t size [OF t(2)] by (auto simp: CallStep ear6_step_def s(1) u(1) Let_def)
  next
    case (CallButton b pr)
    obtain k where "set_button_state 0 b (pr \<noteq> 0) (n_ctl m) = Some k" "control_ok k"
      using set_button_state_ok [of "n_ctl m" b 0 "pr \<noteq> 0"] c clock_parts [OF s(6)] by (auto simp: CallButton ok_iff)
    then have "playing (ctx\<lparr>ex_system := NesSys (s\<lparr>sy_console := Running (m\<lparr>n_ctl := k\<rparr>)\<rparr>)\<rparr>)"
      and "set_button_state 0 b (pr \<noteq> 0) (n_ctl m) = Some k"
      using s by (auto simp: playing_iff system_ok_def clock_control)
    then show ?thesis
      using s(1,2,4) size by (auto simp: CallButton ear6_nes_set_button_state_def on_nes_def)
  next
    case CallClearInput
    have "playing (ctx\<lparr>ex_system := NesSys (s\<lparr>sy_console := Running (m\<lparr>n_ctl := control_clear_all (n_ctl m)\<rparr>)\<rparr>)\<rparr>)"
      using s clock_parts [OF s(6)] by (auto simp: playing_iff system_ok_def clock_control)
    then show ?thesis
      using s(1,2,4) size by (auto simp: CallClearInput ear6_nes_clear_input_def on_nes_def on_console_def)
  next
    case (CallSetPalette pal)
    obtain u where "set_palette pal s = Some u" "system_ok u" "sy_console u = Running m" "sy_identity u = sy_identity s"
      using set_palette_ok [OF s(5)] c s(4) by (auto simp: CallSetPalette ok_iff)
    then have "set_palette pal s = Some u" "playing (ctx\<lparr>ex_system := NesSys u\<rparr>)"
      using s by (auto simp: playing_iff)
    then show ?thesis
      using s(1,2) size by (auto simp: CallSetPalette ear6_nes_set_palette_def on_nes_def)
  next
    case CallConsumeAudio
    then show ?thesis
      using consume_playing [OF p] size [OF consume_playing [OF p]] by (simp add: ear6_consume_audio_def)
  next
    case (CallFrameCallback b)
    have "playing (ear6_set_frame_callback b ctx)" using p by (simp add: playing_iff ear6_set_frame_callback_def)
    with size [OF this] show ?thesis by (simp add: CallFrameCallback ear6_set_frame_callback_def)
  next
    case (CallAudioCallback b)
    have "playing (ear6_set_audio_callback b ctx)" using p by (simp add: playing_iff ear6_set_audio_callback_def)
    with size [OF this] show ?thesis by (simp add: CallAudioCallback ear6_set_audio_callback_def)
  qed
qed

lemma session_run_ok:
  assumes "playing ctx" "\<forall>c \<in> set calls. call_ok c"
  shows "ok (session_run env calls ctx) (\<lambda>(out, t). playing t \<and> (\<forall>c \<in> set out. callback_ok c) \<and>
    length (ear6_get_framebuffer t) = 256 * 240 * 4 \<and> ex_content t = ex_content ctx)"
  using assms
proof (induction calls arbitrary: ctx)
  case Nil
  then show ?case by (auto simp: playing_iff ear6_get_framebuffer_def nes_get_framebuffer_def system_ok_def)
next
  case (Cons c cs)
  obtain out t where t: "session_step env c ctx = Some (out, t)" "playing t" "\<forall>c \<in> set out. callback_ok c"
    "ex_content t = ex_content ctx"
    using session_step_ok [OF Cons.prems(1), of c env] Cons.prems(2) by (auto simp: ok_iff)
  have "\<forall>c \<in> set cs. call_ok c" using Cons.prems(2) by simp
  from Cons.IH [OF t(2) this] t show ?case by (auto simp: ok_iff)
qed

section \<open>Content\<close>

lemma load_content_plays:
  assumes "session_ok ctx" "ex_system_type ctx = SYSTEM_NES" "playable (ev_db env) data" "length data \<le> 2 ^ 31 - 1"
  shows "ok (ear6_load_from_memory env (Some data) (int (length data)) hint ctx) (\<lambda>(r, t). r = 0 \<and> playing t \<and>
    ex_content t = data \<and> ex_content_name_hint t = normalize_content_name_hint hint \<and> opaque (ear6_get_framebuffer t))"
proof -
  obtain s where s: "ex_system ctx = NesSys s" "system_ok s"
    using assms(1,2) by (cases "ex_system ctx") (simp_all add: session_ok_def)
  from nes_load_ok [OF s(2) assms(3), of "ev_audio env" "ev_topology env"] obtain u where
    u: "nes_load (ev_audio env) (ev_topology env) (ev_db env) data s = Some (0, u)" "system_ok u"
    "sy_identity u = content_identity data" "opaque (sy_rgba u)" "\<exists>m. sy_console u = Running m"
    by (auto simp: ok_iff)
  then show ?thesis
    using assms s by (auto simp: ear6_load_from_memory_def load_content_def Let_def playing_iff
        ear6_get_framebuffer_def nes_get_framebuffer_def)
qed

lemma failed_system_load:
  assumes "system_load env bytes sys = Some (k, sys')" "k \<noteq> 0"
  shows "sys' = sys"
proof (cases sys)
  case (NesSys s)
  have "con' = con" if "load_rom E topology db bytes con = Some (k, con')" "k \<noteq> 0" for E topology db bytes con k con'
    using that by (auto simp: load_rom_def bind_eq_Some_conv split: if_splits)
  then have "s' = s" if "nes_load E topology db bytes s = Some (k, s')" "k \<noteq> 0" for E topology db bytes k s'
    using that by (fastforce simp: nes_load_def bind_eq_Some_conv Let_def split: if_splits prod.splits)
  then show ?thesis using assms NesSys by auto
qed (use assms in simp)

lemma failed_load_content:
  "load_content env data n hint ctx = Some (r, ctx') \<Longrightarrow> r \<noteq> 0 \<Longrightarrow> ctx' = ctx"
  by (auto simp: load_content_def bind_eq_Some_conv Let_def split: if_splits dest!: failed_system_load)

section \<open>Saved sessions\<close>

definition codec_ok :: "codec \<Rightarrow> bool" where
  "codec_ok cd \<longleftrightarrow> (\<forall>c body. cd_encode cd c = Some body \<longrightarrow> cd_decode cd body = Some c)"

definition name_ok :: "u8 list \<Rightarrow> bool" where
  "name_ok name \<longleftrightarrow> length name \<le> MAX_STATE_NAME_HINT_SIZE \<and> 0 \<notin> set name"

lemma normalized_name_ok: "0 \<notin> set text \<Longrightarrow> name_ok (normalize_content_name_hint (Some text))"
  by (auto simp: name_ok_def normalize_content_name_hint_def Let_def dest!: in_set_dropD set_takeWhileD)

text \<open>What parsing the state of a session gives.\<close>

definition session_parsed :: "ear6 \<Rightarrow> u8 list \<Rightarrow> parsed_state" where
  "session_parsed ctx st = \<lparr>ps_container_wire_version = CONTAINER_WIRE_VERSION,
     ps_system_type = system_code (ex_system_type ctx), ps_content_identity = content_identity (ex_content ctx),
     ps_content = ex_content ctx, ps_name_hint = ex_content_name_hint ctx, ps_system_state = st,
     ps_preview = Some (system_framebuffer (ex_system ctx), 256, 240)\<rparr>"

lemma frame_size: "checked_rgba_size 256 240 = Some (256 * 240 * 4)"
  by (simp add: checked_rgba_size_def)

lemma preview_parses:
  assumes "length picture = 256 * 240 * 4"
  shows "parse_state_preview (state_preview picture FRAME_WIDTH FRAME_HEIGHT) = Some (picture, 256, 240)"
  using assms
  by (simp add: state_preview_def parse_state_preview_def FRAME_WIDTH_def FRAME_HEIGHT_def frame_size)

lemma built_state_parses:
  assumes saved: "system_save_state (ex_system ctx) = Some (Some st)"
    and codec: "codec_ok (ev_codec env)" "cd_encode (ev_codec env) (state_container ctx st) = Some body"
    and content: "length (ex_content ctx) \<le> 2 ^ 31 - 1" and name: "name_ok (ex_content_name_hint ctx)"
    and picture: "length (system_framebuffer (ex_system ctx)) = 256 * 240 * 4"
  shows "build_state env ctx = Some (Inr (state_image body))"
    and "parse_state (ev_codec env) (Some (state_image body)) = Inr (session_parsed ctx st)"
proof -
  show "build_state env ctx = Some (Inr (state_image body))"
    by (simp add: build_state_def saved codec(2))
  have "cd_decode (ev_codec env) body = Some (state_container ctx st)"
    using codec(1,2) by (simp add: codec_ok_def)
  moreover have "state_body (state_image body) = Inr body" by (rule state_body_image)
  moreover have "parse_container (state_container ctx st) = Inr (session_parsed ctx st)"
    using content name picture
    by (auto simp: parse_container_def state_container_def session_parsed_def name_ok_def container_identity_eq preview_parses)
  ultimately show "parse_state (ev_codec env) (Some (state_image body)) = Inr (session_parsed ctx st)"
    by (simp add: parse_state_def)
qed

lemma saved_session_loads:
  assumes saved: "system_save_state (ex_system ctx) = Some (Some st)"
    and codec: "codec_ok (ev_codec env)" "cd_encode (ev_codec env) (state_container ctx st) = Some body"
    and content: "length (ex_content ctx) \<le> 2 ^ 31 - 1" and name: "name_ok (ex_content_name_hint ctx)"
    and picture: "length (system_framebuffer (ex_system ctx)) = 256 * 240 * 4"
    and fresh: "create_system env (ex_system_type ctx) = Some c0" "system_load env (ex_content ctx) c0 = Some (0, c1)"
      "system_load_state env st c1 = Some (0, c2)"
    and other: "ex_system_type other = ex_system_type ctx"
  shows "ear6_load_state_from_memory env (Some (state_image body)) other = Some (0, other\<lparr>ex_system := c2,
      ex_has_content := True, ex_content := ex_content ctx, ex_content_name_hint := ex_content_name_hint ctx\<rparr>)"
  using built_state_parses(2) [OF assms(1-6)]
  by (simp add: ear6_load_state_from_memory_def session_parsed_def other fresh)

lemma parse_state_body:
  "parse_state cd (Some data) = Inr p \<Longrightarrow> \<exists>body. state_body data = Inr body"
  by (auto simp: parse_state_def split: sum.splits)

lemma load_state_body:
  "ear6_load_state_from_memory env (Some data) ctx = Some (0, ctx') \<Longrightarrow> \<exists>body. state_body data = Inr body"
  by (auto simp: ear6_load_state_from_memory_def parse_state_def parse_container_def split: sum.splits option.splits if_splits
      dest: state_body_Inl)

lemma bad_body_refused:
  "state_body data = Inl (- 4) \<Longrightarrow> ear6_load_state_from_memory env (Some data) ctx = Some (- 4, ctx)"
  by (simp add: ear6_load_state_from_memory_def parse_state_def)

end
