(* ===== verification/Sample_Codec.thy ===== *)
theory Sample_Codec
  imports Session_Facts
begin

text \<open>
  A codec for the witnesses: the message is written with the byte stream of the saved states.
  The codec of the program is the protocol buffer library.
\<close>

definition sync_option :: "'v \<Rightarrow> 'v sync \<Rightarrow> 'v option sync" where
  "sync_option d A = (\<lambda>(s, x). do {
     (s, present) \<leftarrow> sync_bool (s, x \<noteq> None);
     if present then map_option (\<lambda>(s, v). (s, Some v)) (A (s, case x of None \<Rightarrow> d | Some v \<Rightarrow> v))
     else Some (s, None) })"

lemma exact_option:
  fixes x :: "'a option"
  assumes "\<And>v. x = Some v \<Longrightarrow> exact A v"
  shows "exact (sync_option d A) x"
  unfolding exact_def
proof
  fix y :: "'a option"
  have "exact sync_bool (x \<noteq> None)" by (rule exact_bool)
  from exactD [OF this, of "y \<noteq> None"] obtain b where
    b: "\<And>s. \<not> ss_loading s \<Longrightarrow> \<not> ss_error s \<Longrightarrow> sync_bool (s, x \<noteq> None) = Some (s\<lparr>ss_output := ss_output s @ b\<rparr>, x \<noteq> None)"
    "\<And>s rest. ss_loading s \<Longrightarrow> \<not> ss_error s \<Longrightarrow> ss_input s = b @ rest \<Longrightarrow>
       sync_bool (s, y \<noteq> None) = Some (s\<lparr>ss_input := rest\<rparr>, x \<noteq> None)"
    unfolding restores_def by blast
  show "restores (sync_option d A) x y x"
  proof (cases x)
    case None
    then show ?thesis using b by (intro restoresI [where bytes = b]) (simp_all add: sync_option_def)
  next
    case (Some v)
    let ?y = "case y of None \<Rightarrow> d | Some v \<Rightarrow> v"
    from assms [OF Some] have "restores A v ?y v" by (simp add: exact_def)
    then obtain c where
      c: "\<And>s. \<not> ss_loading s \<Longrightarrow> \<not> ss_error s \<Longrightarrow> A (s, v) = Some (s\<lparr>ss_output := ss_output s @ c\<rparr>, v)"
      "\<And>s rest. ss_loading s \<Longrightarrow> \<not> ss_error s \<Longrightarrow> ss_input s = c @ rest \<Longrightarrow> A (s, ?y) = Some (s\<lparr>ss_input := rest\<rparr>, v)"
      unfolding restores_def by blast
    show ?thesis
      using b c by (intro restoresI [where bytes = "b @ c"]) (simp_all add: sync_option_def Some)
  qed
qed

definition sync_preview :: "preview sync" where
  "sync_preview = sync_all [
     member pv_version pv_version_update (sync_option 0 sync_word),
     member pv_format pv_format_update (sync_option 0 sync_int32),
     member pv_width pv_width_update (sync_option 0 sync_word),
     member pv_height pv_height_update (sync_option 0 sync_word),
     member pv_image_data pv_image_data_update (sync_option [] sync_vector)]"

definition preview0 :: preview where
  "preview0 = \<lparr>pv_version = None, pv_format = None, pv_width = None, pv_height = None, pv_image_data = None\<rparr>"

definition sync_container :: "container sync" where
  "sync_container = sync_all [
     member sc_system_type sc_system_type_update sync_word,
     member sc_content_identity sc_content_identity_update sync_word,
     member sc_content_name sc_content_name_update (sync_option [] sync_vector),
     member sc_content sc_content_update sync_vector,
     member sc_system_state sc_system_state_update sync_vector,
     member sc_preview sc_preview_update (sync_option preview0 sync_preview)]"

definition container0 :: container where
  "container0 = \<lparr>sc_system_type = 0, sc_content_identity = 0, sc_content_name = None, sc_content = [],
     sc_system_state = [], sc_preview = None\<rparr>"

definition preview_fits :: "preview \<Rightarrow> bool" where
  "preview_fits p \<longleftrightarrow> (\<forall>v. pv_format p = Some v \<longrightarrow> - (2 ^ 31) \<le> v \<and> v < 2 ^ 31) \<and>
     (\<forall>v. pv_image_data p = Some v \<longrightarrow> length v < 2 ^ 64)"

definition container_fits :: "container \<Rightarrow> bool" where
  "container_fits c \<longleftrightarrow> (\<forall>v. sc_content_name c = Some v \<longrightarrow> length v < 2 ^ 64) \<and> length (sc_content c) < 2 ^ 64 \<and>
     length (sc_system_state c) < 2 ^ 64 \<and> (\<forall>p. sc_preview c = Some p \<longrightarrow> preview_fits p)"

lemma exact_preview:
  assumes "preview_fits p"
  shows "exact sync_preview p"
proof -
  note f = assms [unfolded preview_fits_def, simplified]
  show ?thesis
    unfolding sync_preview_def
    by (rule exactI, rule restores_eq, (rule parts exact_option | use f in \<open>auto; fail\<close>)+)
qed

lemma exact_container:
  assumes "container_fits c"
  shows "exact sync_container c"
proof -
  note f = assms [unfolded container_fits_def, simplified]
  show ?thesis
    unfolding sync_container_def
    by (rule exactI, rule restores_eq, (rule parts exact_option exact_preview | use f in \<open>auto; fail\<close>)+)
qed

definition stream_codec :: codec where
  "stream_codec = \<lparr>
     cd_encode = (\<lambda>c. if container_fits c then map_option (\<lambda>(s, c). ss_output s) (sync_container (saving_stream, c)) else None),
     cd_decode = (\<lambda>body. case sync_container (loading_stream body, container0) of
        None \<Rightarrow> None
      | Some (s, c) \<Rightarrow> if ss_error s \<or> ss_input s \<noteq> [] then None else Some c)\<rparr>"

lemma stream_codec_image:
  assumes "container_fits c"
  shows "\<exists>b. cd_encode stream_codec c = Some b \<and> cd_decode stream_codec b = Some c"
proof -
  have "restores sync_container c container0 c" using exact_container [OF assms] by (simp add: exact_def)
  then obtain b where
    b: "\<And>s. \<not> ss_loading s \<Longrightarrow> \<not> ss_error s \<Longrightarrow> sync_container (s, c) = Some (s\<lparr>ss_output := ss_output s @ b\<rparr>, c)"
    "\<And>s rest. ss_loading s \<Longrightarrow> \<not> ss_error s \<Longrightarrow> ss_input s = b @ rest \<Longrightarrow>
       sync_container (s, container0) = Some (s\<lparr>ss_input := rest\<rparr>, c)"
    unfolding restores_def by blast
  have "sync_container (saving_stream, c) = Some (saving_stream\<lparr>ss_output := b\<rparr>, c)"
    using b(1) [of saving_stream] by (simp add: saving_stream_def)
  moreover have "sync_container (loading_stream b, container0) = Some (loading_stream [], c)"
    using b(2) [of "loading_stream b" "[]"] by (simp add: loading_stream_def)
  ultimately show ?thesis using assms by (simp add: stream_codec_def loading_stream_def)
qed

lemma stream_codec_ok: "codec_ok stream_codec"
  unfolding codec_ok_def
proof (intro allI impI)
  fix c body assume e: "cd_encode stream_codec c = Some body"
  then have "container_fits c" by (simp add: stream_codec_def split: if_splits)
  from stream_codec_image [OF this] e show "cd_decode stream_codec body = Some c" by auto
qed

end
