(* ===== verification/Session_Properties.thy ===== *)
theory Session_Properties
  imports Sample_Codec Console_Properties
begin

text \<open>
  What the library promises its front ends: sessions with a complete ROM never fault, saved
  sessions resume, damaged states are refused, and calls that fail change nothing.
\<close>

section \<open>Samples\<close>

definition flat_picture :: "u8 \<Rightarrow> u8 list" where
  "flat_picture b = replicate (256 * 240 * 4) b"

lemma length_flat_picture: "length (flat_picture b) = 256 * 240 * 4"
  by (simp add: flat_picture_def)

definition sample_env :: ear6_env where
  "sample_env = \<lparr>ev_audio = silent_env, ev_topology = False, ev_db = [], ev_codec = stream_codec,
     ev_wave = (\<lambda>tick. flat_picture (of_int tick))\<rparr>"

text \<open>A session of the test system after two steps.\<close>

definition sample_session :: ear6 where
  "sample_session = \<lparr>ex_system_type = SYSTEM_TEST,
     ex_system = TestSys \<lparr>ts_tick = 2, ts_framebuffer = flat_picture 2\<rparr>,
     ex_frame_cb = True, ex_audio_cb = False, ex_has_content = True, ex_content = [1, 2, 3],
     ex_content_name_hint = [0x61, 0x62]\<rparr>"

definition sample_payload :: "u8 list" where
  "sample_payload = [1, 0, 0, 0, 2, 0, 0, 0]"

lemma word_bytes_4:
  "word_bytes 4 w = [ucast w, ucast (drop_bit 8 w), ucast (drop_bit 8 (drop_bit 8 w)), ucast (drop_bit 8 (drop_bit 8 (drop_bit 8 w)))]"
proof -
  have "word_bytes (Suc (Suc (Suc (Suc 0)))) w = [ucast w, ucast (drop_bit 8 w), ucast (drop_bit 8 (drop_bit 8 w)),
      ucast (drop_bit 8 (drop_bit 8 (drop_bit 8 w)))]" by simp
  moreover have "(4 :: nat) = Suc (Suc (Suc (Suc 0)))" by simp
  ultimately show ?thesis by (simp only:)
qed

lemma new_test_system_eq: "new_test_system wave = \<lparr>ts_tick = 0, ts_framebuffer = wave 0\<rparr>"
proof -
  have "generate_wave wave \<lparr>ts_tick = 0, ts_framebuffer = bs\<rparr> = \<lparr>ts_tick = 0, ts_framebuffer = wave 0\<rparr>" for bs
    by (simp add: generate_wave_def)
  then show ?thesis unfolding new_test_system_def .
qed

lemma sample_state:
  "system_save_state (ex_system sample_session) = Some (Some sample_payload)"
  "create_system sample_env SYSTEM_TEST = Some (TestSys (new_test_system (ev_wave sample_env)))"
  "system_load_state sample_env sample_payload (TestSys (new_test_system (ev_wave sample_env))) =
     Some (0, ex_system sample_session)"
proof -
  show "system_save_state (ex_system sample_session) = Some (Some sample_payload)"
    by (simp add: sample_session_def sample_payload_def test_save_state_def sync_int32_def sync_as_def save_word
        saving_stream_def word_bytes_4)
  show "create_system sample_env SYSTEM_TEST = Some (TestSys (new_test_system (ev_wave sample_env)))"
    by (simp add: create_system_def)
  show "system_load_state sample_env sample_payload (TestSys (new_test_system (ev_wave sample_env))) =
      Some (0, ex_system sample_session)"
    by (simp add: sample_session_def sample_payload_def test_load_state_def sync_int32_def sync_as_def sync_word_def
        loading_stream_def get_remaining_def generate_wave_def new_test_system_eq sample_env_def)
qed

lemma sample_container: "container_fits (state_container sample_session sample_payload)"
  by (simp add: container_fits_def state_container_def preview_fits_def state_preview_def FRAME_WIDTH_def
      FRAME_HEIGHT_def frame_size sample_session_def sample_payload_def FORMAT_RGBA8888_def length_flat_picture)

lemma sample_encoded: "\<exists>body. cd_encode (ev_codec sample_env) (state_container sample_session sample_payload) = Some body"
  using stream_codec_image [OF sample_container] by (auto simp: sample_env_def)

definition sample_state_image :: "u8 list" where
  "sample_state_image = state_image (the (cd_encode (ev_codec sample_env) (state_container sample_session sample_payload)))"

lemma sample_image_body:
  "cd_encode (ev_codec sample_env) (state_container sample_session sample_payload) = Some body \<Longrightarrow>
   sample_state_image = state_image body"
  by (simp add: sample_state_image_def)

lemma sample_facts:
  "codec_ok (ev_codec sample_env)" "length (ex_content sample_session) \<le> 2 ^ 31 - 1"
  "name_ok (ex_content_name_hint sample_session)"
  "length (system_framebuffer (ex_system sample_session)) = 256 * 240 * 4"
  by (simp_all add: sample_env_def stream_codec_ok sample_session_def name_ok_def MAX_STATE_NAME_HINT_SIZE_def
      length_flat_picture)

section \<open>Sessions\<close>

text \<open>
  C1: type safety of the public calls. Let a NES session be given a ROM image with these properties, none of which the
  library checks but the first: the header is valid; the image holds all the banks that the header, as the database corrects it,
  announces; the board is one of those modelled and the PRG ROM holds at least one bank of its size; the description of
  the ROM says that there is a battery, or gives no work RAM, or gives 8 KB or more (below 4 GB); the image is of at most \<open>2 ^ 31 - 1\<close> bytes.
  Then loading it returns 0, and the session takes any sequence of steps, button changes (buttons below 32), palettes of 64 colours,
  audio and callback calls: none of them faults or fails to return, each frame callback gets an opaque
  picture of 256 * 240 pixels of four bytes and each audio callback a buffer, and the session keeps
  its content.
\<close>

theorem session_plays:
  assumes created: "ear6_create env SYSTEM_NES = Some ctx"
    and header: "is_valid data" "resolve_info (ev_db env) data = Some info"
    and complete: "header_size info + prg_bytes info + chr_bytes info \<le> length data" "length data \<le> 2 ^ 31 - 1"
    and board: "mapper_create (ri_mapper_number info) = Some m0" "unat (get_prg_page_size (m_chip m0)) \<le> prg_bytes info"
    and ram: "ri_has_battery info \<or> ri_work_ram_size info \<le> 0 \<or> 8 \<le> ri_work_ram_size info \<and> ri_work_ram_size info < 2 ^ 22"
    and calls: "\<forall>c \<in> set calls. call_ok c"
  shows "\<exists>ctx1 out ctx2. ear6_load_from_memory env (Some data) (int (length data)) hint ctx = Some (0, ctx1) \<and>
    session_run env calls ctx1 = Some (out, ctx2) \<and> (\<forall>c \<in> set out. callback_ok c) \<and>
    length (ear6_get_framebuffer ctx2) = 256 * 240 * 4 \<and> ex_content ctx2 = data"
proof -
  have "session_ok ctx" "ex_system_type ctx = SYSTEM_NES"
    using created_ok [OF created] created by (auto simp: ear6_create_def bind_eq_Some_conv)
  from load_content_plays [OF this playableI [OF header complete(1) board ram] complete(2), of hint] obtain ctx1 where
    "ear6_load_from_memory env (Some data) (int (length data)) hint ctx = Some (0, ctx1)" "playing ctx1"
    "ex_content ctx1 = data" by (auto simp: ok_iff)
  then show ?thesis using session_run_ok [OF _ calls, of ctx1 env] by (auto simp: ok_iff)
qed

theorem session_plays_witness:
  "\<exists>ctx0 ctx1 out ctx2. ear6_create sample_env SYSTEM_NES = Some ctx0 \<and>
    ear6_load_from_memory sample_env (Some sample_image) (int (length sample_image)) None ctx0 = Some (0, ctx1) \<and>
    session_run sample_env [CallFrameCallback True, CallAudioCallback True, CallStep, CallButton 3 1, CallStep] ctx1 = Some (out, ctx2) \<and>
    (\<forall>c \<in> set out. callback_ok c) \<and> length (ear6_get_framebuffer ctx2) = 256 * 240 * 4 \<and>
    ex_content ctx2 = sample_image"
proof -
  obtain ctx0 where c: "ear6_create sample_env SYSTEM_NES = Some ctx0"
    using created [of SYSTEM_NES sample_env] by auto
  obtain info where i: "resolve_info (ev_db sample_env) sample_image = Some info" "ri_mapper_number info = 3"
    "header_size info + prg_bytes info + chr_bytes info \<le> length sample_image" "0x8000 \<le> prg_bytes info"
    "ri_work_ram_size info \<le> 0"
    using sample_info by (auto simp: header_size_def prg_bytes_def chr_bytes_def sample_env_def)
  have v: "is_valid sample_image" using sample_playable by (simp add: playable_def)
  have m: "mapper_create (ri_mapper_number info) = Some (new_mapper Mapper003)"
    "unat (get_prg_page_size (m_chip (new_mapper Mapper003))) \<le> prg_bytes info"
    using i(2,4) by (simp_all add: sample_create new_mapper_def)
  have "length sample_image \<le> 2 ^ 31 - 1" by simp
  have calls: "\<forall>c \<in> set [CallFrameCallback True, CallAudioCallback True, CallStep, CallButton 3 1, CallStep]. call_ok c" by simp
  show ?thesis
    using session_plays [OF c v i(1,3) \<open>length sample_image \<le> 2 ^ 31 - 1\<close> m _ calls, of None] c i(5) by blast
qed

section \<open>Saved sessions\<close>

text \<open>
  C2: a saved session resumes. When the system of a session can be saved, and a new system with the
  same content takes that state, then the bytes that \<^verbatim>\<open>ear6_save_state_to_memory\<close> writes
  are of the announced size, show the session's content, name and picture to
  \<^verbatim>\<open>ear6_get_state_info\<close>, and bring any session of the same type to that new system, with the
  content and the name of the saved one. The codec is one whose decoder reads what its encoder writes.
\<close>

theorem saved_session_resumes:
  assumes saved: "system_save_state (ex_system ctx) = Some (Some st)"
    and codec: "codec_ok (ev_codec env)" "cd_encode (ev_codec env) (state_container ctx st) = Some body"
    and content: "length (ex_content ctx) \<le> 2 ^ 31 - 1" and name: "name_ok (ex_content_name_hint ctx)"
    and picture: "length (system_framebuffer (ex_system ctx)) = 256 * 240 * 4"
    and fresh: "create_system env (ex_system_type ctx) = Some c0" "system_load env (ex_content ctx) c0 = Some (0, c1)"
      "system_load_state env st c1 = Some (0, c2)"
    and other: "ex_system_type other = ex_system_type ctx"
  shows "\<exists>state. ear6_save_state_to_memory env None True ctx = Some (0, Some (length state), None) \<and>
    ear6_save_state_to_memory env (Some (length state)) True ctx = Some (0, Some (length state), Some state) \<and>
    ear6_get_state_info env (Some state) = Inr
      \<lparr>si_container_wire_version = 1, si_system_type = system_code (ex_system_type ctx),
       si_content_identity = content_identity (ex_content ctx), si_content_size = length (ex_content ctx),
       si_content_name_hint = (if ex_content_name_hint ctx = [] then None else Some (ex_content_name_hint ctx)),
       si_preview = Some (ear6_get_framebuffer ctx, 256, 240)\<rparr> \<and>
    ear6_load_state_from_memory env (Some state) other = Some (0, other\<lparr>ex_system := c2, ex_has_content := True,
      ex_content := ex_content ctx, ex_content_name_hint := ex_content_name_hint ctx\<rparr>)"
proof -
  note built = built_state_parses [OF saved codec content name picture]
  have "ear6_get_state_info env (Some (state_image body)) = Inr
      \<lparr>si_container_wire_version = 1, si_system_type = system_code (ex_system_type ctx),
       si_content_identity = content_identity (ex_content ctx), si_content_size = length (ex_content ctx),
       si_content_name_hint = (if ex_content_name_hint ctx = [] then None else Some (ex_content_name_hint ctx)),
       si_preview = Some (ear6_get_framebuffer ctx, 256, 240)\<rparr>"
    using picture by (simp add: ear6_get_state_info_def built(2) session_parsed_def CONTAINER_WIRE_VERSION_def
        ear6_get_framebuffer_def)
  with saved_session_loads [OF assms] show ?thesis
    by (intro exI [of _ "state_image body"]) (simp add: ear6_save_state_to_memory_def built(1))
qed

theorem saved_session_resumes_witness:
  "\<exists>state t. ear6_save_state_to_memory sample_env (Some (length state)) True sample_session =
      Some (0, Some (length state), Some state) \<and>
    ear6_load_state_from_memory sample_env (Some state) (the (ear6_create sample_env SYSTEM_TEST)) = Some (0, t) \<and>
    ex_system t = ex_system sample_session \<and> ex_content t = [1, 2, 3] \<and> \<not> ex_frame_cb t"
proof -
  let ?other = "the (ear6_create sample_env SYSTEM_TEST)"
  obtain body where body: "cd_encode (ev_codec sample_env) (state_container sample_session sample_payload) = Some body"
    using sample_encoded by blast
  have t: "ex_system_type sample_session = SYSTEM_TEST" by (simp add: sample_session_def)
  have o: "ex_system_type ?other = ex_system_type sample_session" "\<not> ex_frame_cb ?other"
    by (simp_all add: ear6_create_def sample_state t)
  show ?thesis
    using saved_session_resumes [OF sample_state(1) sample_facts(1) body sample_facts(2-4)
        sample_state(2) [folded t] system_load.simps(1) sample_state(3) o(1)] o(2)
    by (auto simp: sample_session_def)
qed

text \<open>
  C4: damage is noticed. Take a state that a session accepts, with no bytes between its preamble
  and its body, as the library writes them. With any one byte of it changed the call returns -4, and so
  it does for every proper prefix and with bytes appended; the session stays as it is. The checksum
  is the reason inside the body, the fields of the preamble before it.
\<close>

theorem damaged_state_refused:
  assumes "ear6_load_state_from_memory env (Some data) ctx = Some (0, ctx')" "read_u32 12 data = 32"
    and "length data + length extra < 2 ^ 64"
  shows "(\<forall>i b. i < length data \<and> b \<noteq> data ! i \<longrightarrow>
      ear6_load_state_from_memory env (Some (data[i := b])) ctx = Some (- 4, ctx)) \<and>
    (\<forall>n < length data. ear6_load_state_from_memory env (Some (take n data)) ctx = Some (- 4, ctx)) \<and>
    (extra \<noteq> [] \<longrightarrow> ear6_load_state_from_memory env (Some (data @ extra)) ctx = Some (- 4, ctx))"
proof -
  obtain body where b: "state_body data = Inr body" using load_state_body [OF assms(1)] by blast
  then have l: "32 \<le> length data" by (simp add: state_body_Inr)
  show ?thesis
  proof (intro conjI allI impI)
    show "ear6_load_state_from_memory env (Some (data[i := v])) ctx = Some (- 4, ctx)" if "i < length data \<and> v \<noteq> data ! i" for i v
      using that assms(3) by (intro bad_body_refused state_body_damaged [OF b assms(2)]) simp_all
    show "ear6_load_state_from_memory env (Some (take n data)) ctx = Some (- 4, ctx)" if "n < length data" for n
      using that assms(3) by (intro bad_body_refused state_body_length [OF b]) (simp_all add: min_def)
    show "ear6_load_state_from_memory env (Some (data @ extra)) ctx = Some (- 4, ctx)" if "extra \<noteq> []"
      using that assms(3) l by (intro bad_body_refused state_body_length [OF b]) simp_all
  qed
qed

text \<open>A codec that knows one message.\<close>

definition point_env :: ear6_env where
  "point_env = sample_env\<lparr>ev_codec := \<lparr>
     cd_encode = (\<lambda>c. if c = state_container sample_session sample_payload then Some [7] else None),
     cd_decode = (\<lambda>body. if body = [7] then Some (state_container sample_session sample_payload) else None)\<rparr>\<rparr>"

theorem damaged_state_refused_witness:
  "ear6_load_state_from_memory point_env (Some ((state_image [7])[32 := 6])) sample_session = Some (- 4, sample_session) \<and>
    ear6_load_state_from_memory point_env (Some ((state_image [7])[9 := 1])) sample_session = Some (- 4, sample_session) \<and>
    ear6_load_state_from_memory point_env (Some (take 32 (state_image [7]))) sample_session = Some (- 4, sample_session) \<and>
    ear6_load_state_from_memory point_env (Some (state_image [7] @ [0])) sample_session = Some (- 4, sample_session)"
proof -
  have w: "ev_wave point_env = ev_wave sample_env" by (simp add: point_env_def)
  have t: "ex_system_type sample_session = SYSTEM_TEST" by (simp add: sample_session_def)
  have codec: "codec_ok (ev_codec point_env)"
    "cd_encode (ev_codec point_env) (state_container sample_session sample_payload) = Some [7]"
    by (auto simp: codec_ok_def point_env_def split: if_splits)
  have c: "create_system point_env (ex_system_type sample_session) = Some (TestSys (new_test_system (ev_wave sample_env)))"
    "system_load_state point_env sample_payload (TestSys (new_test_system (ev_wave sample_env))) = Some (0, ex_system sample_session)"
    using sample_state(2,3) by (simp_all add: create_system_def w t)
  note l = saved_session_loads [OF sample_state(1) codec sample_facts(2-4) c(1) system_load.simps(1) c(2) refl]
  have bytes: "state_image [7] ! 32 = 7" "state_image [7] ! 9 = 0"
    by (simp_all add: state_image_def append_u32_def append_u64_def STATE_MAGIC_def nth_append CONTAINER_WIRE_VERSION_def eval_nat_numeral)
  show ?thesis
    using damaged_state_refused [OF l state_body_image(2), of "[0]"] by (simp add: state_body_image(3) bytes)
qed

text \<open>
  C37: calls that fail change nothing. Whatever is given to them, when loading content from memory or from a
  file, or loading a state, returns something other than 0, the session is the one before the call:
  its system, content, name and callbacks.
\<close>

theorem failed_load_changes_nothing:
  assumes "r \<noteq> 0"
    and "ear6_load_from_memory env data n hint ctx = Some (r, ctx') \<or>
      ear6_load_from_file env file path ctx = Some (r, ctx') \<or>
      ear6_load_state_from_memory env data ctx = Some (r, ctx')"
  shows "ctx' = ctx"
  using assms(2)
proof (elim disjE)
  show ?thesis if "ear6_load_from_memory env data n hint ctx = Some (r, ctx')"
    using that assms(1) failed_load_content unfolding ear6_load_from_memory_def by blast
  show ?thesis if "ear6_load_from_file env file path ctx = Some (r, ctx')"
    using that assms(1) by (auto simp: ear6_load_from_file_def split: option.splits if_splits dest: failed_load_content)
  show ?thesis if "ear6_load_state_from_memory env data ctx = Some (r, ctx')"
    using that assms(1) by (auto simp: ear6_load_state_from_memory_def bind_eq_Some_conv
        split: option.splits sum.splits if_splits)
qed

theorem failed_load_changes_nothing_witness:
  "\<exists>ctx'. ear6_load_state_from_memory sample_env (Some [0x45, 0x41]) sample_session = Some (- 4, ctx') \<and> ctx' = sample_session"
proof -
  have "ear6_load_state_from_memory sample_env (Some [0x45, 0x41]) sample_session = Some (- 4, sample_session)"
    by (intro bad_body_refused) (simp add: state_body_def STATE_PREAMBLE_SIZE_def)
  then show ?thesis
    using failed_load_changes_nothing [of "- 4" sample_env "Some [0x45, 0x41]" 0 None sample_session _ None None] by blast
qed

section \<open>What a step does not check\<close>

text \<open>A step of a NES session before any content is loaded follows a null pointer.\<close>

lemma step_without_content:
  assumes "ear6_create env SYSTEM_NES = Some ctx"
  shows "ear6_step env ctx = None"
proof -
  have "sy_console s = Unloaded new_mixer" if "new_nes_system = Some s" for s
    using that by (auto simp: new_nes_system_def set_palette_def new_console_def)
  then show ?thesis
    using assms by (auto simp: ear6_create_def create_system_def bind_eq_Some_conv ear6_step_def nes_step_def)
qed

end
