(* ===== verification/Spec2Isabelle.thy ===== *)
theory Spec2Isabelle
  imports Mapper_Properties Apu_Properties Ppu_Properties Console_Properties Cpu_Properties
    State_Properties Session_Properties
begin

text \<open>
  A verification development for ear6, an emulator library with a C interface whose main system is the
  Nintendo Entertainment System. Paths below are under \<^verbatim>\<open>src/src/\<close>, those of the NES under
  \<^verbatim>\<open>src/src/systems/nes/\<close>.

  \<^bold>\<open>The program.\<close> A session (\<^verbatim>\<open>core/ear6.cpp\<close>) owns a system and drives it by \<^verbatim>\<open>ear6_step\<close>, one picture
  per call. The NES system (\<^verbatim>\<open>nes_system.cpp\<close>) owns a console (\<^verbatim>\<open>nes_console.cpp\<close>): a CPU, a PPU, an
  APU with its mixer, the controllers, and the cartridge, whose board (\<^verbatim>\<open>mappers/\<close>) decides what the CPU
  and the PPU see in their address spaces. The CPU is the clock: each of its memory accesses first
  runs the PPU up to the CPU's time, steps the APU and polls the interrupt lines, then goes through the
  memory manager to the device that registered the address. The APU in turn is lazy: it catches up
  when a register is touched or an interrupt or a DMA is due. A frame ends when the PPU's frame counter moves.
  A saved state is the byte stream that every component's \<^verbatim>\<open>serialize\<close> writes and reads, in a container
  with a preamble, a checksum, the content itself and a preview picture.

  \<^bold>\<open>Conventions.\<close> Every C++ class is a record of its members, in the order of the class, every enumeration a
  datatype, and every operation a function from the state to the new state. A result \<open>None\<close> stands for
  undefined behaviour (an index outside a buffer, a null pointer, a division by zero) and
  for a loop that does not end, so that \<open>f x = Some y\<close> states both safety and termination; loops
  are \<open>while_loop\<close>s of the prelude, whose value is \<open>None\<close> when they do not end. Error codes of
  the program are integers or \<open>Inl\<close> values. Unsigned integers are words of their width; clocks of 64 bits are natural
  numbers and the scanline is an integer, where the width plays no part. Signed overflow is the exception to \<open>None\<close>: the
  deltas and sums of samples in the resampler (\<^verbatim>\<open>blip_add_delta\<close> and the running sum of \<^verbatim>\<open>blip_read_samples\<close>) are 32-bit words
  that wrap, as compilers have it, where C leaves the overflow of an \<^verbatim>\<open>int\<close> undefined. The properties of the resampler are about its time and
  its indices, which do not depend on these values. Pointers into the buffers of a
  cartridge are a buffer and an offset.

  \<^bold>\<open>Theories, in the order of the data flow.\<close>

  \<^item> \<open>Prelude\<close>: bounds-checked list access, loops, the \<open>ok\<close> predicate (``defined, and the result satisfies''),
    bytes of words. \<open>Nes_Types\<close>: \<^verbatim>\<open>nes_types.h\<close>, the enumerations, flags, \<^verbatim>\<open>RomInfo\<close> and \<^verbatim>\<open>MemoryRanges\<close>.

  \<^item> CPU state: \<open>Cpu_State\<close> holds the registers and the interrupt and DMA lines that other units drive
    (\<^verbatim>\<open>nes_cpu.h\<close>).

  \<^item> Cartridge: \<open>Mapper_State\<close> and \<open>Mapper_Base\<close> (\<^verbatim>\<open>mappers/base_mapper.h\<close> and \<^verbatim>\<open>.cpp\<close>: page tables, bank
    selection, nametables, work RAM, register dispatch), \<open>Mapper_Boards\<close> (the boards 0, 1, 2, 3, 4, 7, 11, 13,
    34 and 66), \<open>Mapper_Factory\<close>. \<open>Mapper_Paging\<close> proves the page tables well formed, \<open>Mapper_Safety\<close> defines the
    invariant \<open>loaded\<close> and shows that every operation of every board keeps it, \<open>Mmc1_Facts\<close> reads the serial port of the MMC1
    as numbers and banks, \<open>Mapper_Properties\<close> states what a cartridge promises.

  \<^item> Sound: \<open>Blip_Buf\<close> (\<^verbatim>\<open>third_party/blip_buf\<close>, the resampler) and \<open>Sound_Mixer\<close>; \<open>Apu_Units\<close> and \<open>Apu_Channels\<close>
    (\<^verbatim>\<open>audio/\<close>: timers, envelopes, length counters, the square, triangle, noise and DMC channels);
    \<open>Apu\<close> (\<^verbatim>\<open>audio/apu_frame_counter.cpp\<close>, \<^verbatim>\<open>audio/nes_apu.cpp\<close>). \<open>Timed_Channel\<close> is the interface of a channel that
    can be run in slices, with the four channels as its interpretations; \<open>Frame_Queue\<close> specifies the queue of
    audio frames and \<open>Apu_Queue\<close> shows that the ring of eight frames implements it; \<open>Apu_Channel_Facts\<close>,
    \<open>Apu_Facts\<close> and \<open>Apu_Dma\<close> carry the invariant. \<open>Apu_Sequencer\<close> specifies the frame sequencer as an abstract machine that moves by one CPU
    cycle at a time, \<open>Apu_Traffic\<close> shows that the lazy APU implements it under any traffic of clocks, register accesses, DMA bytes, ends of frames and
    resets; the properties are in \<open>Apu_Properties\<close>.

  \<^item> Picture: \<open>Ppu_State\<close>, \<open>Ppu_Scroll\<close>, \<open>Ppu_Sprites\<close>, \<open>Ppu\<close> and \<open>Ppu_Registers\<close> are \<^verbatim>\<open>nes_ppu.cpp\<close>, dot by dot.
    \<open>Ppu_Facts\<close> and \<open>Ppu_Register_Facts\<close> hold the invariant \<open>ppu_ok\<close> and the relation \<open>keeps\<close> under which every step
    stays, \<open>Ppu_Timing\<close> the beam, \<open>Ppu_Scroll_Facts\<close> the scroll counters; properties in \<open>Ppu_Properties\<close>.

  \<^item> Machine: \<open>Memory_Manager\<close>, \<open>Control_Manager\<close>, \<open>Machine\<close> (the two halves of a CPU cycle, DMA), \<open>Cpu_Alu\<close> and
    \<open>Cpu_Ops\<close> (\<^verbatim>\<open>nes_cpu.cpp\<close>: all 256 opcodes with their accesses in order), \<open>Ines_Loader\<close>, \<open>Nes_Db\<close> and
    \<open>Console\<close>. \<open>Machine_Safety\<close> defines \<open>nes_ok\<close>, the conjunction of the components' invariants; \<open>Machine_Cycles\<close>,
    \<open>Dma_Transfer\<close>, \<open>Cpu_Safety\<close>, \<open>Cpu_Facts\<close> and \<open>Cpu_Frame\<close> show that accesses, DMA transfers,
    instructions and frames keep it and end, in bounded time; \<open>Cpu_Stack\<close> holds what is needed of the stack;
    \<open>Console_Facts\<close> builds the invariant from a ROM image. Properties: \<open>Cpu_Properties\<close>, \<open>Console_Properties\<close>.

  \<^item> Saved states: \<open>State_Stream\<close> (\<^verbatim>\<open>core/state_stream.h\<close>), \<open>State_Devices\<close> and \<open>State_Cartridge\<close> (\<^verbatim>\<open>nes_state.cpp\<close>).
    A \<open>sync\<close> is one function that saves or loads, as in the code. \<open>State_Codec\<close> defines \<open>exact\<close> and
    \<open>restores\<close>, what saving one value and loading it over another gives, with a rule for each combinator;
    \<open>State_Reader\<close> what a reader does with missing bytes; \<open>State_Facts\<close>, \<open>State_Restore\<close> and
    \<open>State_Restore_Cartridge\<close> apply them to every component; properties in \<open>State_Properties\<close>.

  \<^item> Sessions: \<open>Nes_System\<close> with \<open>Nes_System_Facts\<close>; \<open>Test_System\<close> (\<^verbatim>\<open>systems/test/\<close>); \<open>State_Container\<close> with
    \<open>Container_Facts\<close> (the container format of \<^verbatim>\<open>core/ear6.cpp\<close> and \<^verbatim>\<open>core/state/state_container.proto\<close>; the checksum detects every
    change of one byte); \<open>Ear6_Api\<close> (the public calls) with \<open>Session_Facts\<close>; properties in \<open>Session_Properties\<close>.

  \<^item> \<open>Sample_Cartridge\<close> and \<open>Sample_Codec\<close>: the concrete inputs of the witnesses.

  \<^bold>\<open>Interfaces.\<close> A locale states what a client needs of its providers, and each is interpreted on the
  definitions of the model: \<open>timed_channel\<close> by the four channels of the APU, \<open>frame_queue\<close> by the ring of audio
  frames, \<open>memory_device\<close> by the six devices on the bus of the CPU, \<open>state_sync\<close> by the serialized machine
  and by the payload of the NES system.

  \<^bold>\<open>What is shown.\<close> The invariants add up: a cartridge that is set up satisfies \<open>loaded\<close>, a console built from a complete image
  \<open>nes_ok\<close>, a NES session \<open>session_ok\<close>, and every operation keeps them and is defined. So a session that has
  loaded a complete image never faults, whatever calls follow. Complete means: the image holds all banks that its header announces,
  at least one bank of its board's size among them, its board is one of the ten, and its description does not give it a work RAM of less than 8 KB
  without a battery. The library checks none of these; what happens without the first, the second and the last is stated too. On top of that stand functional statements (banks,
  nametables, the MMC1 and MMC3, the adder, scroll counters, vertical blank, the beam), refinements and
  equivalences (lazy channels, frame sequencer, audio queue, open bus, resampler), round trips (interrupts, subroutines,
  palette, saved states and sessions), and what the code does with bad input (damaged states, truncated images, small ROMs, small work RAMs).

  \<^bold>\<open>Bounds.\<close> They are theorems, not fuel: an access of the CPU takes at most 4202 cycles (a sprite DMA of 513 or 514 cycles
  and the DMC's transfers), an instruction at most 19 accesses, a frame loop at most 3661 frames: one instruction
  may span several frames, because each of its accesses may wait for a DMA. The mixer holds 10000 cycles
  and its resampler 537 samples for each. The colour emphasis multiplies by the double 0.84: its truncated result
  is the quotient of \<open>x * 21 ^ n\<close> by \<open>25 ^ n\<close>, for one factor and for two and for each of the 256 values of \<open>x\<close>.

  \<^bold>\<open>Parameters.\<close> What is not in the sources, or is floating point, is an argument: the mixing formula of
  \<^verbatim>\<open>NesSoundMixer::get_output_volume\<close> (\<open>audio_env\<close>), the text of the ROM database, which the build generates, whether the
  environment variable of the input topology is set, the protocol buffer library (a pair of an encoder and a decoder, of which properties assume that the
  decoder reads what the encoder wrote), the contents of files, the picture of the test system.

  \<^bold>\<open>Not modelled.\<close> The boards that \<^verbatim>\<open>MapperFactory\<close> supports beyond the ten above, with their expansion audio, and their
  part of \<^verbatim>\<open>nes_state.cpp\<close>: they are independent subclasses, and loading a ROM for one of them is \<open>None\<close> here. The applications
  (\<^verbatim>\<open>apps/\<close>) are front ends around the library. The palette and PPU traces behind compile-time
  switches and environment variables only print. Exceptions of the allocator and null session handles, whose calls return an error
  code at once, are left out.
\<close>

end
